(* ===== verification/Prelude.thy ===== *)
theory Prelude
  imports Main "HOL-Library.List_Lexorder" "HOL-Library.Char_ord"
begin

text \<open>
  What every component of the development shares: identifiers and time, the exceptions of
  \<^verbatim>\<open>domain/exceptions.py\<close>, \<^verbatim>\<open>workflows/exceptions.py\<close>, \<^verbatim>\<open>application/exceptions.py\<close> and of the
  Python runtime as one \<open>error\<close> datatype, the result type \<open>error + 'a\<close> with its sequencing
  combinator, the Python string operations the sources call (\<^verbatim>\<open>str.strip\<close>, the key patterns
  matched with \<^verbatim>\<open>re.fullmatch\<close>), \<^verbatim>\<open>next(... for ... if ...)\<close> over a tuple, and the
  generic lemmas on lists and maps the component proofs use.
\<close>

section \<open>Automation collections\<close>

named_theorems result_elims \<open>inversion rules for results that succeed\<close>
named_theorems field_simps_py \<open>definitions of the small helpers a handler is built from\<close>

section \<open>Identifiers and time\<close>

text \<open>
  A \<^verbatim>\<open>UUID\<close> is only compared for equality, so any infinite type serves. A \<^verbatim>\<open>datetime\<close> is
  its UTC instant in microseconds: \<^verbatim>\<open>_as_utc\<close> reads a naive value as UTC and converts an aware
  one, and every comparison of the sources goes through it. The instant that
  \<^verbatim>\<open>datetime.now(UTC)\<close> would return is an argument \<open>now\<close> of the operations.
\<close>

type_synonym uuid = nat
type_synonym time = int

definition seconds :: "int \<Rightarrow> time" where
  "seconds n = 1000000 * n"

definition at_or_now :: "time option \<Rightarrow> time \<Rightarrow> time" where
  "at_or_now at now = (case at of None \<Rightarrow> now | Some t \<Rightarrow> t)"

lemma at_or_now_simps [simp]:
  "at_or_now None now = now" "at_or_now (Some t) now = t"
  by (simp_all add: at_or_now_def)

lemma seconds_pos: "0 < n \<Longrightarrow> 0 < seconds n"
  by (simp add: seconds_def)

section \<open>Exceptions as values\<close>

text \<open>
  The string is the message of the source. In the workflow core an identifier or amount
  interpolated into a message is left out of it; the reasons that are stored in a record, the
  messages of the readers of stored documents and those of the operations services are complete.
\<close>

datatype error =
    DomainValidationError string
  | InvalidStateTransition string
  | WorkflowDefinitionError string
  | WorkflowExecutionError string
  | ResourceNotFound string
  | ResourceConflict string
  | BudgetLimitExceeded string
  | BudgetUsageRequired string
  | ModelRoutingError string
  | RuntimeError string
  | ValueError string
  | KeyError string
  | LookupError string
  | TypeError string
  | IndexError string
  | AttributeError string
  | OverflowError string
  | IntegrityError string
  | StopIteration
  | DecimalInvalidOperation

type_synonym 'a result = "error + 'a"

definition rbind :: "'a result \<Rightarrow> ('a \<Rightarrow> 'b result) \<Rightarrow> 'b result" where
  "rbind r f = (case r of Inl e \<Rightarrow> Inl e | Inr x \<Rightarrow> f x)"

lemma rbind_simps [simp]: "rbind (Inl e) f = Inl e" "rbind (Inr x) f = f x"
  by (simp_all add: rbind_def)

lemma rbind_cong [fundef_cong]:
  "r = r' \<Longrightarrow> (\<And>x. r' = Inr x \<Longrightarrow> f x = g x) \<Longrightarrow> rbind r f = rbind r' g"
  by (simp add: rbind_def split: sum.split)

lemma rbind_eq_Inr: "rbind r f = Inr y \<longleftrightarrow> (\<exists>x. r = Inr x \<and> f x = Inr y)"
  by (cases r) simp_all

lemma rbind_eq_Inl: "rbind r f = Inl e \<longleftrightarrow> r = Inl e \<or> (\<exists>x. r = Inr x \<and> f x = Inl e)"
  by (cases r) simp_all

lemma rbind_InrE [elim!, result_elims]:
  assumes "rbind r f = Inr y"
  obtains x where "r = Inr x" and "f x = Inr y"
  using assms by (auto simp: rbind_eq_Inr)

lemma raise_if_InrE [result_elims]:
  assumes "(if c then Inl e else r) = Inr y"
  obtains "\<not> c" and "r = Inr y"
  using assms by (auto split: if_splits)

lemma raise_if_Inr: "(if c then Inl e else r) = Inr y \<longleftrightarrow> \<not> c \<and> r = Inr y"
  by simp

definition of_option :: "error \<Rightarrow> 'a option \<Rightarrow> 'a result" where
  "of_option e x = (case x of None \<Rightarrow> Inl e | Some v \<Rightarrow> Inr v)"

lemma of_option_simps [simp]: "of_option e None = Inl e" "of_option e (Some v) = Inr v"
  by (simp_all add: of_option_def)

lemma of_option_eq_Inr [simp]: "of_option e x = Inr v \<longleftrightarrow> x = Some v"
  by (cases x) simp_all

lemma of_option_eq_Inl [simp]: "of_option e x = Inl e' \<longleftrightarrow> x = None \<and> e = e'"
  by (cases x) auto

text \<open>A loop that raises inside its body: the first error ends it.\<close>

fun each :: "('a \<Rightarrow> unit result) \<Rightarrow> 'a list \<Rightarrow> unit result" where
  "each f [] = Inr ()"
| "each f (x # xs) = rbind (f x) (\<lambda>_. each f xs)"

lemma each_eq_Inr [simp]: "each f xs = Inr () \<longleftrightarrow> (\<forall>x \<in> set xs. f x = Inr ())"
  by (induction xs) (auto simp: rbind_eq_Inr)

lemma each_cong [fundef_cong]:
  "xs = ys \<Longrightarrow> (\<And>x. x \<in> set ys \<Longrightarrow> f x = g x) \<Longrightarrow> each f xs = each g ys"
  by (induction ys arbitrary: xs) auto

lemma unit_result_Inr: "(\<exists>u. (r :: unit result) = Inr u) \<longleftrightarrow> r = Inr ()"
  by simp

fun map_result :: "('a \<Rightarrow> 'b result) \<Rightarrow> 'a list \<Rightarrow> 'b list result" where
  "map_result f [] = Inr []"
| "map_result f (x # xs) = rbind (f x) (\<lambda>y. rbind (map_result f xs) (\<lambda>ys. Inr (y # ys)))"

lemma map_result_InrD: "map_result f xs = Inr ys \<Longrightarrow> list_all2 (\<lambda>x y. f x = Inr y) xs ys"
  by (induction xs arbitrary: ys) auto

section \<open>Python strings\<close>

text \<open>
  A Python \<^verbatim>\<open>str\<close> is a \<open>string\<close>, one \<open>char\<close> per code point below 256; \<open>sort\<close> on strings is the
  code point order of \<^verbatim>\<open>sorted\<close>. \<open>is_space\<close> is \<^verbatim>\<open>str.isspace\<close> on those code points.
\<close>

definition is_space :: "char \<Rightarrow> bool" where
  "is_space c = (let n = (of_char c :: nat) in
     (9 \<le> n \<and> n \<le> 13) \<or> (28 \<le> n \<and> n \<le> 32) \<or> n = 133 \<or> n = 160)"

definition py_strip :: "string \<Rightarrow> string" where
  "py_strip s = rev (dropWhile is_space (rev (dropWhile is_space s)))"

definition blank :: "string \<Rightarrow> bool" where
  "blank s \<longleftrightarrow> py_strip s = []"

lemma blank_iff: "blank s \<longleftrightarrow> (\<forall>c \<in> set s. is_space c)"
proof -
  have "dropWhile is_space s = [] \<longleftrightarrow> (\<forall>c \<in> set s. is_space c)"
    by (rule dropWhile_eq_Nil_conv)
  moreover have "(\<forall>c \<in> set (dropWhile is_space s). is_space c) \<longleftrightarrow> dropWhile is_space s = []"
    by (metis dropWhile_eq_Nil_conv dropWhile_idem)
  ultimately show ?thesis
    by (simp add: blank_def py_strip_def dropWhile_eq_Nil_conv)
qed

lemma blank_Nil [simp]: "blank []"
  by (simp add: blank_iff)

lemma dropWhile_suffix_closed:
  "dropWhile P (rev (dropWhile P (rev (dropWhile P s)))) = rev (dropWhile P (rev (dropWhile P s)))"
proof (cases "dropWhile P s")
  case (Cons c cs)
  then have "\<not> P c" by (metis dropWhile_eq_Cons_conv)
  then show ?thesis
    using Cons by (simp add: dropWhile_append)
next
  case Nil
  then show ?thesis by (simp only: Nil) simp
qed

lemma py_strip_idem [simp]: "py_strip (py_strip s) = py_strip s"
  by (simp add: py_strip_def dropWhile_suffix_closed)

lemma blank_py_strip [simp]: "blank (py_strip s) \<longleftrightarrow> blank s"
  by (simp add: blank_def)

definition is_az :: "char \<Rightarrow> bool" where
  "is_az c \<longleftrightarrow> CHR ''a'' \<le> c \<and> c \<le> CHR ''z''"

definition is_digit :: "char \<Rightarrow> bool" where
  "is_digit c \<longleftrightarrow> CHR ''0'' \<le> c \<and> c \<le> CHR ''9''"

definition is_hex :: "char \<Rightarrow> bool" where
  "is_hex c \<longleftrightarrow> is_digit c \<or> (CHR ''a'' \<le> c \<and> c \<le> CHR ''f'')"

text \<open>One character of the first class, then any number of the second.\<close>

definition match_key :: "(char \<Rightarrow> bool) \<Rightarrow> (char \<Rightarrow> bool) \<Rightarrow> string \<Rightarrow> bool" where
  "match_key first rest s = (case s of [] \<Rightarrow> False | c # cs \<Rightarrow> first c \<and> list_all rest cs)"

lemma match_key_nonempty: "match_key first rest s \<Longrightarrow> s \<noteq> []"
  by (auto simp: match_key_def)

text \<open>\<^verbatim>\<open>[a-z0-9][a-z0-9._-]*\<close>, the catalog keys; \<^verbatim>\<open>[a-z][a-z0-9_]*\<close>, the input keys.\<close>

definition catalog_key :: "string \<Rightarrow> bool" where
  "catalog_key = match_key (\<lambda>c. is_az c \<or> is_digit c)
     (\<lambda>c. is_az c \<or> is_digit c \<or> c \<in> set ''._-'')"

definition input_key_pattern :: "string \<Rightarrow> bool" where
  "input_key_pattern = match_key is_az (\<lambda>c. is_az c \<or> is_digit c \<or> c = CHR ''_'')"

text \<open>\<^verbatim>\<open>sha256:[0-9a-f]{64}\<close>.\<close>

definition sha256_digest :: "string \<Rightarrow> bool" where
  "sha256_digest s \<longleftrightarrow> take 7 s = ''sha256:'' \<and> length s = 71 \<and> list_all is_hex (drop 7 s)"

text \<open>\<^verbatim>\<open>sep.join(xs)\<close>.\<close>

fun py_join :: "string \<Rightarrow> string list \<Rightarrow> string" where
  "py_join sep [] = []"
| "py_join sep [x] = x"
| "py_join sep (x # y # xs) = x @ sep @ py_join sep (y # xs)"

section \<open>Tuples, dictionaries\<close>

text \<open>\<^verbatim>\<open>next((x for x in xs if P x), None)\<close> is \<open>find\<close>; without a default it raises.\<close>

definition next_or_stop :: "('a \<Rightarrow> bool) \<Rightarrow> 'a list \<Rightarrow> 'a result" where
  "next_or_stop P xs = of_option StopIteration (find P xs)"

lemma next_or_stop_Inr: "next_or_stop P xs = Inr x \<longleftrightarrow> find P xs = Some x"
  by (simp add: next_or_stop_def)

lemma find_SomeD: "find P xs = Some x \<Longrightarrow> x \<in> set xs \<and> P x"
  by (auto simp: find_Some_iff)

lemma find_ex: "x \<in> set xs \<Longrightarrow> P x \<Longrightarrow> \<exists>y. find P xs = Some y"
  by (metis find_None_iff not_None_eq)

text \<open>A dictionary comprehension: a later entry overwrites an earlier one with its key.\<close>

definition dict_of :: "('k \<times> 'v) list \<Rightarrow> ('k \<rightharpoonup> 'v)" where
  "dict_of kvs = map_of (rev kvs)"

lemma dom_dict_of: "dom (dict_of kvs) = fst ` set kvs"
  by (simp add: dict_of_def dom_map_of_conv_image_fst)

lemma dict_of_distinct: "distinct (map fst kvs) \<Longrightarrow> dict_of kvs = map_of kvs"
  by (simp add: dict_of_def map_of_inject_set rev_map[symmetric])

end
