(* ===== verification/Json.thy ===== *)
theory Json
  imports Prelude
begin

text \<open>
  JSON documents as Python holds them after \<^verbatim>\<open>json.loads\<close>, the two equalities the sources
  apply to scalars, and the JSON Pointer evaluation of \<^verbatim>\<open>WorkflowEngine._json_pointer\<close>
  (\<^verbatim>\<open>workflows/engine.py\<close>) with the pattern \<^verbatim>\<open>ArtifactCondition\<close> checks
  (\<^verbatim>\<open>workflows/models.py\<close>). The main result is that a pointer built by RFC 6901 escaping
  resolves to the value its tokens name.
\<close>

section \<open>Documents\<close>

text \<open>
  \<open>FloatVal m e\<close> is the finite float \<open>m * 2 ^ e\<close>, with \<open>m\<close> odd, or \<open>m = 0\<close> and \<open>e = 0\<close>, so
  that equal values have equal representations.
\<close>

datatype pyfloat = FloatVal int int | FloatInf bool | FloatNaN

datatype json =
    JNull
  | JBool bool
  | JInt int
  | JFloat pyfloat
  | JStr string
  | JList "json list"
  | JObj "(string \<times> json) list"

type_synonym json_object = "(string \<times> json) list"

fun is_scalar :: "json \<Rightarrow> bool" where
  "is_scalar (JList _) = False"
| "is_scalar (JObj _) = False"
| "is_scalar _ = True"

fun is_finite_scalar :: "json \<Rightarrow> bool" where
  "is_finite_scalar (JFloat (FloatVal _ _)) = True"
| "is_finite_scalar (JFloat _) = False"
| "is_finite_scalar v = is_scalar v"

fun float_eq :: "pyfloat \<Rightarrow> pyfloat \<Rightarrow> bool" where
  "float_eq FloatNaN _ = False"
| "float_eq _ FloatNaN = False"
| "float_eq x y = (x = y)"

text \<open>
  \<^verbatim>\<open>type(value) is type(expected) and value == expected\<close>, for a scalar \<open>expected\<close>: no
  coercion between \<^verbatim>\<open>bool\<close>, \<^verbatim>\<open>int\<close> and \<^verbatim>\<open>float\<close>.
\<close>

fun strict_eq :: "json \<Rightarrow> json \<Rightarrow> bool" where
  "strict_eq JNull JNull = True"
| "strict_eq (JBool a) (JBool b) = (a = b)"
| "strict_eq (JInt a) (JInt b) = (a = b)"
| "strict_eq (JFloat a) (JFloat b) = float_eq a b"
| "strict_eq (JStr a) (JStr b) = (a = b)"
| "strict_eq _ _ = False"

text \<open>
  Python's \<^verbatim>\<open>==\<close> on scalars, which compares booleans, integers and floats by numeric value;
  it decides when two edges of a definition are duplicates.
\<close>

fun numeric :: "json \<Rightarrow> (int \<times> int) option" where
  "numeric (JBool b) = Some (if b then 1 else 0, 0)"
| "numeric (JInt i) = Some (i, 0)"
| "numeric (JFloat (FloatVal m e)) = Some (m, e)"
| "numeric _ = None"

fun same_number :: "int \<times> int \<Rightarrow> int \<times> int \<Rightarrow> bool" where
  "same_number (m, e) (m', e') =
     (m * 2 ^ nat (e - min e e') = m' * 2 ^ nat (e' - min e e'))"

fun py_eq :: "json \<Rightarrow> json \<Rightarrow> bool" where
  "py_eq v w = (case (numeric v, numeric w) of
       (Some x, Some y) \<Rightarrow> same_number x y
     | (None, None) \<Rightarrow> strict_eq v w
     | _ \<Rightarrow> False)"

lemma strict_eq_sym: "strict_eq v w = strict_eq w v"
proof (cases v; cases w)
  fix a b
  assume "v = JFloat a" "w = JFloat b"
  then show ?thesis by (cases a; cases b) auto
qed auto

lemma float_eq_euclid: "float_eq z x \<Longrightarrow> float_eq z y \<Longrightarrow> float_eq x y"
  by (cases x; cases y; cases z) auto

lemma strict_eq_euclid: "strict_eq v x \<Longrightarrow> strict_eq v y \<Longrightarrow> strict_eq x y"
  by (cases v; cases x; cases y) (auto intro: float_eq_euclid)

lemma strict_eq_imp_py_eq: "strict_eq v w \<Longrightarrow> py_eq v w"
proof (cases v; cases w)
  fix a b
  assume "strict_eq v w" "v = JFloat a" "w = JFloat b"
  then show ?thesis by (cases a; cases b) auto
qed auto

text \<open>The truth value of a document.\<close>

fun py_truthy :: "json \<Rightarrow> bool" where
  "py_truthy JNull = False"
| "py_truthy (JBool b) = b"
| "py_truthy (JInt i) = (i \<noteq> 0)"
| "py_truthy (JFloat f) = (f \<noteq> FloatVal 0 0)"
| "py_truthy (JStr s) = (s \<noteq> [])"
| "py_truthy (JList xs) = (xs \<noteq> [])"
| "py_truthy (JObj kvs) = (kvs \<noteq> [])"

section \<open>JSON Pointer\<close>

fun py_split :: "char \<Rightarrow> string \<Rightarrow> string list" where
  "py_split sep [] = [[]]"
| "py_split sep (c # cs) =
     (if c = sep then [] # py_split sep cs
      else (case py_split sep cs of [] \<Rightarrow> [[c]] | t # ts \<Rightarrow> (c # t) # ts))"

text \<open>\<^verbatim>\<open>s.replace(a + b, r)\<close> for a two-character pattern.\<close>

fun replace2 :: "char \<Rightarrow> char \<Rightarrow> char \<Rightarrow> string \<Rightarrow> string" where
  "replace2 a b r (x # y # s) =
     (if x = a \<and> y = b then r # replace2 a b r s else x # replace2 a b r (y # s))"
| "replace2 a b r s = s"

definition unescape :: "string \<Rightarrow> string" where
  "unescape t = replace2 (CHR ''~'') (CHR ''0'') (CHR ''~'')
     (replace2 (CHR ''~'') (CHR ''1'') (CHR ''/'') t)"

definition index_token :: "string \<Rightarrow> bool" where
  "index_token key \<longleftrightarrow> key = ''0'' \<or>
     (key \<noteq> [] \<and> hd key \<noteq> CHR ''0'' \<and> list_all is_digit key)"

definition py_int :: "string \<Rightarrow> nat" where
  "py_int key = foldl (\<lambda>n c. 10 * n + (of_char c - 48)) 0 key"

fun step_into :: "json \<Rightarrow> string \<Rightarrow> json option" where
  "step_into (JObj kvs) key = map_of kvs key"
| "step_into (JList xs) key =
     (if index_token key \<and> py_int key < length xs then Some (xs ! py_int key) else None)"
| "step_into _ key = None"

fun walk :: "json \<Rightarrow> string list \<Rightarrow> json option" where
  "walk v [] = Some v"
| "walk v (t # ts) =
     (case step_into v (unescape t) of None \<Rightarrow> None | Some w \<Rightarrow> walk w ts)"

definition json_pointer :: "json_object \<Rightarrow> string \<Rightarrow> json option" where
  "json_pointer document pointer = walk (JObj document) (tl (py_split (CHR ''/'') pointer))"

text \<open>\<^verbatim>\<open>JSON_POINTER_PATTERN\<close>: every tilde starts one of the two escapes.\<close>

fun pointer_body :: "string \<Rightarrow> bool" where
  "pointer_body [] = True"
| "pointer_body (c # cs) =
     (if c = CHR ''~''
      then (case cs of [] \<Rightarrow> False
            | d # ds \<Rightarrow> (d = CHR ''0'' \<or> d = CHR ''1'') \<and> pointer_body ds)
      else pointer_body cs)"

definition json_pointer_pattern :: "string \<Rightarrow> bool" where
  "json_pointer_pattern s \<longleftrightarrow> s = [] \<or> (hd s = CHR ''/'' \<and> pointer_body s)"

subsection \<open>Reference: escaping of RFC 6901\<close>

fun escape :: "string \<Rightarrow> string" where
  "escape [] = []"
| "escape (c # cs) =
     (if c = CHR ''~'' then ''~0'' else if c = CHR ''/'' then ''~1'' else [c]) @ escape cs"

definition encode_pointer :: "string list \<Rightarrow> string" where
  "encode_pointer ts = concat (map (\<lambda>t. CHR ''/'' # escape t) ts)"

fun lookup_path :: "json \<Rightarrow> string list \<Rightarrow> json option" where
  "lookup_path v [] = Some v"
| "lookup_path v (key # keys) =
     (case step_into v key of None \<Rightarrow> None | Some w \<Rightarrow> lookup_path w keys)"

subsection \<open>Correctness of the evaluation\<close>

lemma py_split_nonempty [simp]: "py_split sep s \<noteq> []"
  by (induction s) (auto split: list.split)

lemma py_split_append:
  "sep \<notin> set t \<Longrightarrow> py_split sep (t @ sep # s) = t # py_split sep s"
  by (induction t) auto

lemma py_split_no_sep: "sep \<notin> set t \<Longrightarrow> py_split sep t = [t]"
  by (induction t) auto

lemma slash_not_in_escape: "CHR ''/'' \<notin> set (escape t)"
  by (induction t) auto

lemma replace2_Cons_neq: "x \<noteq> a \<Longrightarrow> replace2 a b r (x # s) = x # replace2 a b r s"
  by (cases s) auto

text \<open>After the first replacement only the \<open>~0\<close> escapes are left.\<close>

fun escape_tilde :: "string \<Rightarrow> string" where
  "escape_tilde [] = []"
| "escape_tilde (c # cs) = (if c = CHR ''~'' then ''~0'' else [c]) @ escape_tilde cs"

lemma replace2_slash_escape:
  "replace2 (CHR ''~'') (CHR ''1'') (CHR ''/'') (escape t) = escape_tilde t"
  by (induction t) (auto simp: replace2_Cons_neq)

lemma replace2_tilde_escape:
  "replace2 (CHR ''~'') (CHR ''0'') (CHR ''~'') (escape_tilde t) = t"
  by (induction t) (auto simp: replace2_Cons_neq)

lemma unescape_escape [simp]: "unescape (escape t) = t"
  by (simp add: unescape_def replace2_slash_escape replace2_tilde_escape)

lemma py_split_encode_pointer:
  "py_split (CHR ''/'') (encode_pointer ts) = [] # map escape ts"
proof (induction ts)
  case Nil
  show ?case by (simp add: encode_pointer_def)
next
  case (Cons t ts)
  show ?case
  proof (cases ts)
    case Nil
    then show ?thesis
      by (simp add: encode_pointer_def py_split_no_sep slash_not_in_escape)
  next
    case (Cons u us)
    have "encode_pointer (t # ts) = CHR ''/'' # escape t @ encode_pointer ts"
      by (simp add: encode_pointer_def)
    moreover have "encode_pointer ts = CHR ''/'' # tl (encode_pointer ts)"
      using Cons by (simp add: encode_pointer_def)
    moreover have "py_split (CHR ''/'') (tl (encode_pointer ts)) = map escape ts"
      using Cons Cons.IH by (simp add: encode_pointer_def)
    ultimately show ?thesis
      by (metis (no_types, lifting) list.simps(9) py_split.simps(2) py_split_append
          slash_not_in_escape)
  qed
qed

lemma walk_escape: "walk v (map escape ts) = lookup_path v ts"
  by (induction ts arbitrary: v) (auto split: option.split)

lemma pointer_body_escape: "pointer_body (escape t @ s) = pointer_body s"
  by (induction t) auto

lemma encode_pointer_pattern: "json_pointer_pattern (encode_pointer ts)"
proof -
  have "pointer_body (encode_pointer ts)"
    by (induction ts) (simp_all add: encode_pointer_def pointer_body_escape)
  then show ?thesis
    by (cases ts) (auto simp: json_pointer_pattern_def encode_pointer_def)
qed

lemma json_pointer_encode:
  "json_pointer d (encode_pointer ts) = lookup_path (JObj d) ts"
  by (simp add: json_pointer_def py_split_encode_pointer walk_escape)

end
