(* ===== verification/Catalog.thy ===== *)
theory Catalog
  imports Json "HOL-Library.Product_Lexorder"
begin

text \<open>
  The versioned catalog entries a workflow refers to: skills (\<^verbatim>\<open>skills/models.py\<close>) and phase
  packs with their output contracts (\<^verbatim>\<open>phase_packs/models.py\<close>, \<^verbatim>\<open>phase_packs/validation.py\<close>).
  A constructor with a \<^verbatim>\<open>__post_init__\<close> is a function \<open>*_init\<close> that returns the checked and
  normalized record or the exception. A JSON document of the model is always serializable, so the
  \<^verbatim>\<open>json.dumps\<close> probes of the constructors never raise and are not repeated here.
\<close>

section \<open>Skills\<close>

datatype skill_source_kind = SourceLocal | SourceGit | SourceArchive

record skill_reference =
  sr_key :: string
  sr_version :: int

definition skill_reference_init :: "skill_reference \<Rightarrow> skill_reference result" where
  "skill_reference_init r =
     (if \<not> catalog_key (sr_key r) then Inl (DomainValidationError ''skill reference key is invalid'')
      else if sr_version r < 1
      then Inl (DomainValidationError ''skill reference version must be greater than zero'')
      else Inr r)"

record skill_definition =
  sk_key :: string
  sk_version :: int
  sk_name :: string
  sk_description :: string
  sk_source_kind :: skill_source_kind
  sk_source_uri :: string
  sk_content_digest :: string
  sk_source_revision :: "string option"
  sk_entrypoint :: string
  sk_metadata :: json_object
  sk_id :: uuid
  sk_created_at :: time

text \<open>The first blank field of a labelled list, as the loops over \<^verbatim>\<open>{label: value}\<close> find it.\<close>

fun first_blank :: "(string \<times> string) list \<Rightarrow> string option" where
  "first_blank [] = None"
| "first_blank ((label, value) # fs) = (if blank value then Some label else first_blank fs)"

lemma first_blank_None: "first_blank fs = None \<longleftrightarrow> (\<forall>(l, v) \<in> set fs. \<not> blank v)"
  by (induction fs) (auto split: if_splits)

definition safe_entrypoint :: "string \<Rightarrow> bool" where
  "safe_entrypoint s \<longleftrightarrow> \<not> (take 1 s = ''/'' \<or> CHR 92 \<in> set s
     \<or> ''..'' \<in> set (py_split (CHR ''/'') s))"

definition skill_definition_init :: "skill_definition \<Rightarrow> skill_definition result" where
  "skill_definition_init s =
     (case first_blank [(''key'', sk_key s), (''name'', sk_name s),
        (''description'', sk_description s), (''source_uri'', sk_source_uri s),
        (''entrypoint'', sk_entrypoint s)] of
        Some label \<Rightarrow> Inl (DomainValidationError (''skill '' @ label @ '' must not be empty''))
      | None \<Rightarrow>
        if sk_version s < 1 then Inl (DomainValidationError ''skill version must be greater than zero'')
        else if \<not> catalog_key (sk_key s)
        then Inl (DomainValidationError ''skill key must contain only lowercase letters, digits, dot, underscore, or hyphen'')
        else if \<not> sha256_digest (sk_content_digest s)
        then Inl (DomainValidationError ''skill content_digest must be sha256:<64 lowercase hex>'')
        else if sk_source_kind s = SourceGit \<and>
          (case sk_source_revision s of None \<Rightarrow> True | Some r \<Rightarrow> blank r)
        then Inl (DomainValidationError ''git skill source_revision must not be empty'')
        else if \<not> safe_entrypoint (sk_entrypoint s)
        then Inl (DomainValidationError ''skill entrypoint must be a safe relative POSIX path'')
        else Inr s)"

definition skill_ref :: "skill_definition \<Rightarrow> skill_reference" where
  "skill_ref s = \<lparr>sr_key = sk_key s, sr_version = sk_version s\<rparr>"

section \<open>Phase packs\<close>

record phase_pack_reference =
  pr_key :: string
  pr_version :: int

definition phase_pack_reference_init :: "phase_pack_reference \<Rightarrow> phase_pack_reference result" where
  "phase_pack_reference_init r =
     (if \<not> catalog_key (pr_key r)
      then Inl (DomainValidationError ''phase pack reference key is invalid'')
      else if pr_version r < 1
      then Inl (DomainValidationError ''phase pack reference version must be greater than zero'')
      else Inr r)"

record phase_input_definition =
  pi_key :: string
  pi_description :: string
  pi_required :: bool

definition phase_input_init :: "phase_input_definition \<Rightarrow> phase_input_definition result" where
  "phase_input_init i =
     (if \<not> input_key_pattern (pi_key i)
      then Inl (DomainValidationError ''phase input key must be lower snake_case'')
      else if blank (pi_description i)
      then Inl (DomainValidationError ''phase input description must not be empty'')
      else Inr i)"

record phase_pack_definition =
  pp_key :: string
  pp_version :: int
  pp_name :: string
  pp_description :: string
  pp_instructions :: string
  pp_inputs :: "phase_input_definition list"
  pp_output_contract :: json_object
  pp_skills :: "skill_reference list"
  pp_metadata :: json_object
  pp_id :: uuid
  pp_created_at :: time

definition phase_pack_definition_init :: "phase_pack_definition \<Rightarrow> phase_pack_definition result" where
  "phase_pack_definition_init p =
     (if \<not> catalog_key (pp_key p) then Inl (DomainValidationError ''phase pack key is invalid'')
      else if pp_version p < 1
      then Inl (DomainValidationError ''phase pack version must be greater than zero'')
      else (case first_blank [(''name'', pp_name p), (''description'', pp_description p),
          (''instructions'', pp_instructions p)] of
          Some label \<Rightarrow> Inl (DomainValidationError (''phase pack '' @ label @ '' must not be empty''))
        | None \<Rightarrow>
          if \<not> distinct (map pi_key (pp_inputs p))
          then Inl (DomainValidationError ''phase pack input keys must be unique'')
          else if \<not> distinct (pp_skills p)
          then Inl (DomainValidationError ''phase pack skill references must be unique'')
          else Inr p))"

definition phase_pack_ref :: "phase_pack_definition \<Rightarrow> phase_pack_reference" where
  "phase_pack_ref p = \<lparr>pr_key = pp_key p, pr_version = pp_version p\<rparr>"

section \<open>Output contracts\<close>

text \<open>
  \<^verbatim>\<open>_reject_external_references\<close> walks a schema of any depth. The JSON Schema library itself
  (\<^verbatim>\<open>Draft202012Validator\<close>) is a parameter: \<open>check_schema\<close> returns the message of a
  \<^verbatim>\<open>SchemaError\<close>, \<open>iter_errors\<close> the violations in the library's order.
\<close>

definition is_external_ref :: "string \<times> json \<Rightarrow> bool" where
  "is_external_ref kv \<longleftrightarrow> (case snd kv of
      JStr s \<Rightarrow> fst kv \<in> {''$ref'', ''$dynamicRef''} \<and> take 1 s \<noteq> ''#''
    | _ \<Rightarrow> False)"

definition external_ref_error :: error where
  "external_ref_error = DomainValidationError
     ''phase pack output_contract external schema references are not allowed''"

fun reject_external_references :: "json \<Rightarrow> unit result" where
  "reject_external_references (JObj kvs) =
     each (\<lambda>kv. if is_external_ref kv then Inl external_ref_error
                else reject_external_references (snd kv)) kvs"
| "reject_external_references (JList xs) = each reject_external_references xs"
| "reject_external_references _ = Inr ()"

datatype path_part = PartInt int | PartStr string

record schema_error =
  se_path :: "path_part list"
  se_message :: string
  se_validator :: "string option"

record output_contract_violation =
  ov_path :: string
  ov_message :: string
  ov_keyword :: "string option"

definition check_output_contract_schema ::
    "(json_object \<Rightarrow> string option) \<Rightarrow> json_object \<Rightarrow> unit result" where
  "check_output_contract_schema check_schema contract =
     rbind (reject_external_references (JObj contract)) (\<lambda>_.
       case check_schema contract of
         None \<Rightarrow> Inr ()
       | Some msg \<Rightarrow> Inl (DomainValidationError
           (''phase pack output_contract is not a valid JSON Schema: '' @ msg)))"

text \<open>The decimal rendering of an integer, digit by digit.\<close>

function str_pos :: "int \<Rightarrow> string" where
  "str_pos n = (if n < 10 then [char_of (48 + n)]
     else str_pos (n div 10) @ [char_of (48 + n mod 10)])"
  by pat_completeness auto
termination
  by (relation "measure nat") auto

declare str_pos.simps [simp del]

definition str_int :: "int \<Rightarrow> string" where
  "str_int i = (if i < 0 then ''-'' @ str_pos (- i) else str_pos i)"

fun str_part :: "path_part \<Rightarrow> string" where
  "str_part (PartInt i) = str_int i"
| "str_part (PartStr s) = s"

fun json_path_part :: "path_part \<Rightarrow> string" where
  "json_path_part (PartInt i) = ''['' @ str_int i @ '']''"
| "json_path_part (PartStr s) = ''.'' @ s"

definition json_path :: "path_part list \<Rightarrow> string" where
  "json_path parts = ''$'' @ concat (map json_path_part parts)"

definition validate_output ::
    "(json_object \<Rightarrow> json_object \<Rightarrow> schema_error list) \<Rightarrow> json_object \<Rightarrow> json_object
       \<Rightarrow> output_contract_violation list" where
  "validate_output iter_errors contract output =
     map (\<lambda>e. \<lparr>ov_path = json_path (se_path e), ov_message = se_message e,
                ov_keyword = se_validator e\<rparr>)
       (sort_key (\<lambda>e. (map str_part (se_path e), se_message e)) (iter_errors contract output))"

subsection \<open>The reference check is complete at every depth\<close>

inductive sub_json :: "json \<Rightarrow> json \<Rightarrow> bool" where
  here: "sub_json v v"
| in_list: "x \<in> set xs \<Longrightarrow> sub_json v x \<Longrightarrow> sub_json v (JList xs)"
| in_obj: "(k, x) \<in> set kvs \<Longrightarrow> sub_json v x \<Longrightarrow> sub_json v (JObj kvs)"

inductive_simps sub_json_simps:
  "sub_json v (JList xs)" "sub_json v (JObj kvs)" "sub_json v JNull" "sub_json v (JBool b)"
  "sub_json v (JInt i)" "sub_json v (JFloat f)" "sub_json v (JStr s)"

definition no_external_refs :: "json \<Rightarrow> bool" where
  "no_external_refs w \<longleftrightarrow>
     (\<forall>kvs kv. sub_json (JObj kvs) w \<longrightarrow> kv \<in> set kvs \<longrightarrow> \<not> is_external_ref kv)"

lemma no_external_refs_JList:
  "no_external_refs (JList xs) \<longleftrightarrow> (\<forall>x \<in> set xs. no_external_refs x)"
  by (auto simp: no_external_refs_def sub_json_simps)

lemma sub_json_JObj:
  "sub_json v (JObj kvs) \<longleftrightarrow> v = JObj kvs \<or> (\<exists>kv \<in> set kvs. sub_json v (snd kv))"
  by (rule iffI, erule sub_json.cases) (auto 4 3 intro: sub_json.intros rev_bexI)

lemma no_external_refs_JObj:
  "no_external_refs (JObj kvs) \<longleftrightarrow>
     (\<forall>kv \<in> set kvs. \<not> is_external_ref kv \<and> no_external_refs (snd kv))"
  unfolding no_external_refs_def sub_json_JObj by auto

lemma no_external_refs_scalar: "is_scalar v \<Longrightarrow> no_external_refs v"
  by (cases v) (auto simp: no_external_refs_def sub_json_simps)

lemma reject_external_references_iff:
  "reject_external_references v = Inr () \<longleftrightarrow> no_external_refs v"
proof (induction v rule: reject_external_references.induct)
  case (1 kvs)
  then show ?case by (auto simp: no_external_refs_JObj)
qed (auto simp: no_external_refs_JList no_external_refs_scalar)

end
