(* ===== verification/Py_Decimal.thy ===== *)
theory Py_Decimal
  imports Prelude
begin

text \<open>
  The part of Python's \<^verbatim>\<open>decimal\<close> module the budget ledger and the model router use, in the
  default context (28 significant digits, \<^verbatim>\<open>ROUND_HALF_EVEN\<close>): finite decimals, \<open>+\<close>, \<open>-\<close>,
  \<open>*\<close>, the division by one million, comparison, \<^verbatim>\<open>normalize\<close>, and \<open>money\<close> of
  \<^verbatim>\<open>budgets/models.py\<close>, which quantizes to six decimals and signals \<^verbatim>\<open>InvalidOperation\<close> when
  the result needs more than 28 digits. Signed zeros, infinities, NaNs and the exponent limits
  of the context are left out.
\<close>

section \<open>Numbers and rounding\<close>

text \<open>\<open>Dec c e\<close> is the value \<open>c * 10 ^ e\<close>.\<close>

datatype decimal = Dec (coeff: int) (expo: int)

function digits :: "int \<Rightarrow> nat" where
  "digits n = (if n < 10 then 1 else Suc (digits (n div 10)))"
  by pat_completeness auto
termination
  by (relation "measure nat") auto

declare digits.simps [simp del]

definition half_even :: "int \<Rightarrow> int \<Rightarrow> int" where
  "half_even c d = (let q = c div d; r = c mod d in
     if 2 * r < d then q else if d < 2 * r then q + 1 else if even q then q else q + 1)"

definition fix_prec :: "decimal \<Rightarrow> decimal" where
  "fix_prec d = (let n = digits \<bar>coeff d\<bar> in
     if n \<le> 28 then d
     else let k = n - 28; q = half_even (coeff d) (10 ^ k) in
       if \<bar>q\<bar> = 10 ^ 28 then Dec (q div 10) (expo d + int k + 1) else Dec q (expo d + int k))"

definition scaled :: "decimal \<Rightarrow> int \<Rightarrow> int" where
  "scaled d m = coeff d * 10 ^ nat (expo d - m)"

definition dec_add :: "decimal \<Rightarrow> decimal \<Rightarrow> decimal" where
  "dec_add a b = (let m = min (expo a) (expo b) in fix_prec (Dec (scaled a m + scaled b m) m))"

definition dec_sub :: "decimal \<Rightarrow> decimal \<Rightarrow> decimal" where
  "dec_sub a b = (let m = min (expo a) (expo b) in fix_prec (Dec (scaled a m - scaled b m) m))"

definition dec_mul :: "decimal \<Rightarrow> decimal \<Rightarrow> decimal" where
  "dec_mul a b = fix_prec (Dec (coeff a * coeff b) (expo a + expo b))"

text \<open>\<^verbatim>\<open>x / Decimal(1_000_000)\<close>: exact, since the operand has at most 28 digits; the division
  drops trailing zeros until it is back at the exponent of the operand.\<close>

fun strip_upto :: "nat \<Rightarrow> int \<Rightarrow> int \<Rightarrow> decimal" where
  "strip_upto 0 c e = Dec c e"
| "strip_upto (Suc n) c e = (if c mod 10 = 0 then strip_upto n (c div 10) (e + 1) else Dec c e)"

definition dec_div_million :: "decimal \<Rightarrow> decimal" where
  "dec_div_million a = strip_upto 6 (coeff a) (expo a - 6)"

definition dec_of_int :: "int \<Rightarrow> decimal" where
  "dec_of_int n = Dec n 0"

definition dec_less :: "decimal \<Rightarrow> decimal \<Rightarrow> bool" where
  "dec_less a b = (let m = min (expo a) (expo b) in scaled a m < scaled b m)"

definition dec_eq :: "decimal \<Rightarrow> decimal \<Rightarrow> bool" where
  "dec_eq a b = (let m = min (expo a) (expo b) in scaled a m = scaled b m)"

function strip_zeros :: "int \<Rightarrow> int \<Rightarrow> decimal" where
  "strip_zeros c e =
     (if c = 0 then Dec 0 0
      else if c mod 10 = 0 then strip_zeros (c div 10) (e + 1) else Dec c e)"
  by pat_completeness auto
termination
  by (relation "measure (\<lambda>(c, e). nat \<bar>c\<bar>)") auto

declare strip_zeros.simps [simp del]

definition dec_normalize :: "decimal \<Rightarrow> decimal" where
  "dec_normalize d = (let d' = fix_prec d in strip_zeros (coeff d') (expo d'))"

section \<open>Amounts of money\<close>

text \<open>
  A quantized amount is an integer number of millionths of a dollar, below \<open>10 ^ 28\<close> in absolute
  value; \<open>usd\<close> is its decimal.
\<close>

type_synonym micros = int

definition usd :: "micros \<Rightarrow> decimal" where
  "usd m = Dec m (-6)"

definition quantize6 :: "decimal \<Rightarrow> int" where
  "quantize6 d = (if -6 \<le> expo d then coeff d * 10 ^ nat (expo d + 6)
     else half_even (coeff d) (10 ^ nat (-6 - expo d)))"

definition money :: "decimal \<Rightarrow> micros result" where
  "money d = (let q = quantize6 d in
     if 10 ^ 28 \<le> \<bar>q\<bar> then Inl DecimalInvalidOperation else Inr q)"

definition is_money :: "micros \<Rightarrow> bool" where
  "is_money m \<longleftrightarrow> \<bar>m\<bar> < 10 ^ 28"

section \<open>Facts\<close>

lemma zdiv_less_iff: "0 < (d :: int) \<Longrightarrow> c div d < m \<longleftrightarrow> c < m * d"
proof -
  assume d: "0 < d"
  have c: "c div d * d + c mod d = c" and r: "0 \<le> c mod d" "c mod d < d"
    using d by auto
  show ?thesis
  proof
    assume "c div d < m"
    then have "(c div d + 1) * d \<le> m * d" using d by (intro mult_right_mono) auto
    then have "c div d * d + d \<le> m * d" by (simp add: distrib_right)
    then show "c < m * d" using c r by linarith
  next
    assume "c < m * d"
    then have "c div d * d < m * d" using c r by linarith
    then show "c div d < m" using d by simp
  qed
qed

lemma digits_le_iff: "0 < k \<Longrightarrow> digits n \<le> k \<longleftrightarrow> n < 10 ^ k"
proof (induction n arbitrary: k rule: digits.induct)
  case (1 n)
  show ?case
  proof (cases "n < 10")
    case True
    then have "n < 10 ^ k"
      using "1.prems" by (cases k) (auto intro: less_le_trans[of _ 10])
    with True "1.prems" show ?thesis by (simp add: digits.simps[of n])
  next
    case False
    show ?thesis
    proof (cases "k = 1")
      case True
      have "0 < digits (n div 10)" by (subst digits.simps) simp
      with True False show ?thesis by (simp add: digits.simps[of n])
    next
      case k1: False
      then obtain j where j: "k = Suc j" "0 < j"
        using "1.prems" by (cases k) auto
      have "digits n \<le> k \<longleftrightarrow> digits (n div 10) \<le> j"
        using False j by (simp add: digits.simps[of n])
      also have "\<dots> \<longleftrightarrow> n div 10 < 10 ^ j"
        using False j by (intro "1.IH") auto
      also have "\<dots> \<longleftrightarrow> n < 10 ^ k"
        using j(1) zdiv_less_iff[of 10 n "10 ^ j"] by (simp add: mult.commute)
      finally show ?thesis .
    qed
  qed
qed

lemma half_even_ge: "0 < d \<Longrightarrow> m * d \<le> c \<Longrightarrow> m \<le> half_even c d"
proof -
  assume d: "0 < d" and "m * d \<le> c"
  then have "m \<le> c div d" by (metis div_le_mono2 nonzero_mult_div_cancel_right zdiv_mono1 less_irrefl)
  then show ?thesis by (auto simp: half_even_def Let_def)
qed

lemma half_even_le: "0 < d \<Longrightarrow> c \<le> m * d \<Longrightarrow> half_even c d \<le> m"
proof -
  assume d: "0 < d" and c: "c \<le> m * d"
  show ?thesis
  proof (cases "c = m * d")
    case True
    with d show ?thesis by (simp add: half_even_def Let_def)
  next
    case False
    with c d have "c div d < m" by (simp add: zdiv_less_iff)
    then show ?thesis by (auto simp: half_even_def Let_def)
  qed
qed

lemma half_even_exact [simp]: "0 < d \<Longrightarrow> half_even (m * d) d = m"
  by (simp add: half_even_def Let_def)

text \<open>The rounded quotient is a nearest one.\<close>

lemma half_even_nearest: "0 < d \<Longrightarrow> 2 * \<bar>half_even c d * d - c\<bar> \<le> d"
proof -
  assume d: "0 < d"
  define q r where "q = c div d" and "r = c mod d"
  have "c = q * d + r" and "0 \<le> r" "r < d"
    using d by (auto simp: q_def r_def)
  then show ?thesis
    by (auto simp: half_even_def Let_def q_def[symmetric] r_def[symmetric] algebra_simps)
qed

lemma half_even_nonneg: "0 < d \<Longrightarrow> 0 \<le> c \<Longrightarrow> 0 \<le> half_even c d"
  using half_even_ge[of d 0 c] by simp

lemma fix_prec_small: "\<bar>coeff d\<bar> < 10 ^ 28 \<Longrightarrow> fix_prec d = d"
proof -
  assume "\<bar>coeff d\<bar> < 10 ^ 28"
  then have "digits \<bar>coeff d\<bar> \<le> 28" by (simp add: digits_le_iff)
  then show ?thesis by (simp add: fix_prec_def Let_def)
qed

lemma money_usd [simp]: "is_money m \<Longrightarrow> money (usd m) = Inr m"
  by (simp add: money_def usd_def quantize6_def is_money_def Let_def)

lemma money_is_money: "money d = Inr m \<Longrightarrow> is_money m"
  by (auto simp: money_def is_money_def Let_def split: if_splits)

lemma quantize6_nonneg: "0 \<le> coeff d \<Longrightarrow> 0 \<le> quantize6 d"
  by (simp add: quantize6_def half_even_nonneg)

lemma money_nonneg: "money d = Inr m \<Longrightarrow> 0 \<le> coeff d \<Longrightarrow> 0 \<le> m"
  using quantize6_nonneg[of d] by (auto simp: money_def Let_def split: if_splits)

lemma digits_ge: "0 < n \<Longrightarrow> 10 ^ (digits n - 1) \<le> n"
proof (cases "digits n = 1")
  case False
  assume "0 < n"
  moreover have "0 < digits n" by (subst digits.simps) simp
  ultimately have "\<not> digits n \<le> digits n - 1" and "0 < digits n - 1"
    using False by auto
  then show ?thesis using digits_le_iff[of "digits n - 1" n] by simp
qed simp

text \<open>
  Adding or subtracting amounts: exact as long as the result still has 28 digits, and
  \<^verbatim>\<open>InvalidOperation\<close> as soon as it does not, whatever the intermediate rounding did.
\<close>

lemma half_even_large:
  assumes "0 < k" and "10 ^ (27 + k) \<le> \<bar>c\<bar>"
  shows "10 ^ 27 \<le> \<bar>half_even c (10 ^ k)\<bar>"
proof (cases "0 \<le> c")
  case True
  with assms have "10 ^ 27 * 10 ^ k \<le> c" by (simp add: power_add)
  then have "10 ^ 27 \<le> half_even c (10 ^ k)" by (intro half_even_ge) auto
  then show ?thesis by linarith
next
  case False
  with assms have "c \<le> - (10 ^ 27) * 10 ^ k" by (simp add: power_add)
  then have "half_even c (10 ^ k) \<le> - (10 ^ 27)" by (intro half_even_le) auto
  then show ?thesis by linarith
qed

lemma quantize6_fix_prec_large:
  assumes "10 ^ 28 \<le> \<bar>c\<bar>"
  shows "10 ^ 28 \<le> \<bar>quantize6 (fix_prec (Dec c (-6)))\<bar>"
proof -
  define n k q where "n = digits \<bar>c\<bar>" and "k = n - 28" and "q = half_even c (10 ^ k)"
  have "\<not> \<bar>c\<bar> < 10 ^ 28"
    using assms by simp
  then have n: "28 < n" using digits_le_iff[of 28 "\<bar>c\<bar>"] by (simp add: n_def)
  have pos: "0 < \<bar>c\<bar>" using assms by auto
  have "10 ^ (n - 1) \<le> \<bar>c\<bar>" unfolding n_def by (rule digits_ge[OF pos])
  moreover have "n - 1 = 27 + k" using n by (simp add: k_def)
  ultimately have "10 ^ (27 + k) \<le> \<bar>c\<bar>" by simp
  moreover have k: "0 < k" using n by (simp add: k_def)
  ultimately have q: "10 ^ 27 \<le> \<bar>q\<bar>" unfolding q_def by (rule half_even_large[rotated])
  have "10 ^ 28 \<le> (10 ^ 27 :: int) * 10 ^ k"
    using k by (cases k) auto
  also have "\<dots> \<le> \<bar>q\<bar> * 10 ^ k" using q by (intro mult_right_mono) auto
  finally have qk: "10 ^ 28 \<le> \<bar>q * 10 ^ k\<bar>" by (simp add: abs_mult)
  show ?thesis
  proof (cases "\<bar>q\<bar> = 10 ^ 28")
    case True
    then have "q = 10 ^ 28 \<or> q = - (10 ^ 28)" by linarith
    then have "q div 10 * 10 = q" by auto
    have "nat (- 6 + int k + 1 + 6) = Suc k" by simp
    then have "quantize6 (fix_prec (Dec c (-6))) = q div 10 * 10 ^ Suc k"
      using n True
      by (simp add: fix_prec_def n_def[symmetric] k_def[symmetric] q_def[symmetric] Let_def
          quantize6_def)
    also have "\<dots> = q * 10 ^ k"
      using \<open>q div 10 * 10 = q\<close> by (simp add: mult.assoc[symmetric])
    finally show ?thesis using qk by simp
  next
    case False
    then have "quantize6 (fix_prec (Dec c (-6))) = q * 10 ^ k"
      using n
      by (simp add: fix_prec_def n_def[symmetric] k_def[symmetric] q_def[symmetric] Let_def
          quantize6_def)
    then show ?thesis using qk by simp
  qed
qed

lemma money_fix_prec:
  "money (fix_prec (Dec c (-6))) = (if \<bar>c\<bar> < 10 ^ 28 then Inr c else Inl DecimalInvalidOperation)"
proof (cases "\<bar>c\<bar> < 10 ^ 28")
  case True
  then show ?thesis by (simp add: fix_prec_small money_def quantize6_def Let_def)
next
  case False
  then show ?thesis using quantize6_fix_prec_large[of c] by (simp add: money_def Let_def)
qed

lemma money_add:
  "money (dec_add (usd a) (usd b)) =
     (if is_money (a + b) then Inr (a + b) else Inl DecimalInvalidOperation)"
  by (simp add: dec_add_def usd_def scaled_def Let_def money_fix_prec is_money_def)

lemma money_sub:
  "money (dec_sub (usd a) (usd b)) =
     (if is_money (a - b) then Inr (a - b) else Inl DecimalInvalidOperation)"
  by (simp add: dec_sub_def usd_def scaled_def Let_def money_fix_prec is_money_def)

lemma dec_less_usd [simp]: "dec_less (usd a) (usd b) \<longleftrightarrow> a < b"
  by (simp add: dec_less_def usd_def scaled_def)

end
