(* ===== verification/Model_Routing.thy ===== *)
theory Model_Routing
  imports Catalog Py_Decimal "HOL-Library.Multiset"
begin

text \<open>
  Model profiles and routing requests (\<^verbatim>\<open>model_routing/models.py\<close>) and the deterministic,
  fail-closed router (\<^verbatim>\<open>model_routing/router.py\<close>). The theorems say that a selection satisfies
  every constraint and is the cheapest sufficient one in the router's order, that the router fails
  only when no profile is eligible, and that its answer does not depend on the order in which the
  profiles are listed.
\<close>

section \<open>Profiles and requests\<close>

datatype model_tier = Economy | Balanced | Advanced
datatype requirement_level = LevelLow | LevelMedium | LevelHigh | LevelCritical

record model_profile =
  mp_key :: string
  mp_version :: int
  mp_name :: string
  mp_provider :: string
  mp_model_id :: string
  mp_tier :: model_tier
  mp_context_window :: int
  mp_input_cost :: decimal
  mp_output_cost :: decimal
  mp_enabled :: bool
  mp_capabilities :: "string list"
  mp_executor_keys :: "string list"
  mp_metadata :: json_object
  mp_id :: uuid
  mp_created_at :: time

definition sorted_set :: "string list \<Rightarrow> string list" where
  "sorted_set xs = sort (remdups xs)"

definition model_profile_init :: "model_profile \<Rightarrow> model_profile result" where
  "model_profile_init p =
     (case first_blank [(''key'', mp_key p), (''name'', mp_name p),
        (''provider'', mp_provider p), (''model_id'', mp_model_id p)] of
        Some label \<Rightarrow> Inl (DomainValidationError (''model profile '' @ label @ '' must not be empty''))
      | None \<Rightarrow>
        if \<not> catalog_key (mp_key p) then Inl (DomainValidationError ''model profile key is invalid'')
        else if mp_version p < 1
        then Inl (DomainValidationError ''model profile version must be greater than zero'')
        else if mp_context_window p < 1
        then Inl (DomainValidationError ''model context_window must be greater than zero'')
        else let input_cost = dec_normalize (mp_input_cost p);
                 output_cost = dec_normalize (mp_output_cost p);
                 capabilities = sorted_set (mp_capabilities p);
                 executor_keys = sorted_set (mp_executor_keys p) in
          if dec_less input_cost (dec_of_int 0) \<or> dec_less output_cost (dec_of_int 0)
          then Inl (DomainValidationError ''model token costs must not be negative'')
          else if \<not> list_all catalog_key capabilities
          then Inl (DomainValidationError ''model capabilities contain an invalid key'')
          else if \<not> list_all catalog_key executor_keys
          then Inl (DomainValidationError ''model executor_keys contain an invalid key'')
          else Inr (p\<lparr>mp_capabilities := capabilities, mp_executor_keys := executor_keys,
                      mp_input_cost := input_cost, mp_output_cost := output_cost\<rparr>))"

record model_routing_request =
  rr_complexity :: requirement_level
  rr_risk :: requirement_level
  rr_quality :: requirement_level
  rr_required_capabilities :: "string list"
  rr_estimated_input_tokens :: int
  rr_max_output_tokens :: int
  rr_max_cost_usd :: "decimal option"

definition model_routing_request_init :: "model_routing_request \<Rightarrow> model_routing_request result" where
  "model_routing_request_init r =
     (let capabilities = sorted_set (rr_required_capabilities r) in
      if \<not> list_all catalog_key capabilities
      then Inl (DomainValidationError ''routing capabilities contain an invalid key'')
      else if rr_estimated_input_tokens r < 0
      then Inl (DomainValidationError ''estimated_input_tokens must not be negative'')
      else if rr_max_output_tokens r < 1
      then Inl (DomainValidationError ''max_output_tokens must be greater than zero'')
      else (case rr_max_cost_usd r of
          None \<Rightarrow> Inr (r\<lparr>rr_required_capabilities := capabilities\<rparr>)
        | Some cost \<Rightarrow> let budget = dec_normalize cost in
            if dec_less budget (dec_of_int 0)
            then Inl (DomainValidationError ''max_cost_usd must not be negative'')
            else Inr (r\<lparr>rr_max_cost_usd := Some budget, rr_required_capabilities := capabilities\<rparr>)))"

definition required_context :: "model_routing_request \<Rightarrow> int" where
  "required_context r = rr_estimated_input_tokens r + rr_max_output_tokens r"

record model_selection =
  ms_profile :: model_profile
  ms_policy_version :: int
  ms_required_tier :: model_tier
  ms_estimated_cost_usd :: decimal
  ms_reason_codes :: "string list"

record node_model_selection =
  ns_node_key :: string
  ns_selection :: model_selection

definition node_model_selection_init :: "node_model_selection \<Rightarrow> node_model_selection result" where
  "node_model_selection_init s = (if blank (ns_node_key s)
     then Inl (DomainValidationError ''model selection node_key must not be empty'') else Inr s)"

section \<open>The router\<close>

definition policy_version :: int where
  "policy_version = 1"

fun tier_rank :: "model_tier \<Rightarrow> nat" where
  "tier_rank Economy = 0" | "tier_rank Balanced = 1" | "tier_rank Advanced = 2"

fun level_rank :: "requirement_level \<Rightarrow> nat" where
  "level_rank LevelLow = 0" | "level_rank LevelMedium = 1"
| "level_rank LevelHigh = 2" | "level_rank LevelCritical = 2"

fun tier_value :: "model_tier \<Rightarrow> string" where
  "tier_value Economy = ''economy''" | "tier_value Balanced = ''balanced''"
| "tier_value Advanced = ''advanced''"

definition required_tier :: "model_routing_request \<Rightarrow> model_tier" where
  "required_tier r =
     [Economy, Balanced, Advanced] !
       max (level_rank (rr_complexity r)) (max (level_rank (rr_risk r)) (level_rank (rr_quality r)))"

definition estimate_cost :: "model_profile \<Rightarrow> model_routing_request \<Rightarrow> decimal" where
  "estimate_cost p r = dec_div_million
     (dec_add (dec_mul (dec_of_int (rr_estimated_input_tokens r)) (mp_input_cost p))
              (dec_mul (dec_of_int (rr_max_output_tokens r)) (mp_output_cost p)))"

text \<open>The \<^verbatim>\<open>continue\<close> guards of the loop over the profiles, in their order.\<close>

definition eligible :: "model_routing_request \<Rightarrow> string \<Rightarrow> model_profile \<Rightarrow> bool" where
  "eligible r executor_key p =
     (if \<not> mp_enabled p then False
      else if tier_rank (mp_tier p) < tier_rank (required_tier r) then False
      else if mp_executor_keys p \<noteq> [] \<and> executor_key \<notin> set (mp_executor_keys p) then False
      else if \<not> set (rr_required_capabilities r) \<subseteq> set (mp_capabilities p) then False
      else if mp_context_window p < required_context r then False
      else (case rr_max_cost_usd r of None \<Rightarrow> True
            | Some budget \<Rightarrow> \<not> dec_less budget (estimate_cost p r)))"

definition candidates ::
    "model_routing_request \<Rightarrow> string \<Rightarrow> model_profile list \<Rightarrow> (model_profile \<times> decimal) list" where
  "candidates r executor_key profiles =
     map (\<lambda>p. (p, estimate_cost p r)) (filter (eligible r executor_key) profiles)"

text \<open>The tuple order of the \<^verbatim>\<open>key\<close> of \<^verbatim>\<open>min\<close>: tier, cost, key, newest version first.\<close>

definition candidate_less :: "model_profile \<times> decimal \<Rightarrow> model_profile \<times> decimal \<Rightarrow> bool" where
  "candidate_less x y = (case (x, y) of ((p, c), (q, d)) \<Rightarrow>
     if tier_rank (mp_tier p) \<noteq> tier_rank (mp_tier q)
     then tier_rank (mp_tier p) < tier_rank (mp_tier q)
     else if \<not> dec_eq c d then dec_less c d
     else if mp_key p \<noteq> mp_key q then mp_key p < mp_key q
     else - mp_version p < - mp_version q)"

fun py_min :: "('a \<Rightarrow> 'a \<Rightarrow> bool) \<Rightarrow> 'a \<Rightarrow> 'a list \<Rightarrow> 'a" where
  "py_min lt best [] = best"
| "py_min lt best (x # xs) = py_min lt (if lt x best then x else best) xs"

definition selection_reasons ::
    "model_routing_request \<Rightarrow> model_profile \<Rightarrow> string \<Rightarrow> string list" where
  "selection_reasons r p executor_key =
     [''required_tier:'' @ tier_value (required_tier r),
      ''selected_tier:'' @ tier_value (mp_tier p),
      ''executor:'' @ executor_key]
     @ (if rr_required_capabilities r \<noteq> []
        then [''capabilities:'' @ py_join '','' (rr_required_capabilities r)] else [])
     @ (if rr_max_cost_usd r \<noteq> None then [''budget_satisfied''] else [])"

definition route_model ::
    "model_routing_request \<Rightarrow> model_profile list \<Rightarrow> string \<Rightarrow> model_selection result" where
  "route_model r profiles executor_key =
     (case candidates r executor_key profiles of
        [] \<Rightarrow> Inl (ModelRoutingError ''no model profile satisfies tier, executor, capability, context, and budget constraints'')
      | c # cs \<Rightarrow> let (p, cost) = py_min candidate_less c cs in
          Inr \<lparr>ms_profile = p, ms_policy_version = policy_version,
               ms_required_tier = required_tier r, ms_estimated_cost_usd = cost,
               ms_reason_codes = selection_reasons r p executor_key\<rparr>)"

section \<open>Minima of a strict weak order\<close>

text \<open>
  What \<^verbatim>\<open>min\<close> promises for any key order: the interface the router relies on.
\<close>

locale strict_weak_order =
  fixes lt :: "'a \<Rightarrow> 'a \<Rightarrow> bool"
  assumes lt_asym: "lt x y \<Longrightarrow> \<not> lt y x"
    and lt_negtrans: "\<not> lt x y \<Longrightarrow> \<not> lt y z \<Longrightarrow> \<not> lt x z"
begin

lemma py_min_in: "py_min lt b xs \<in> insert b (set xs)"
  by (induction xs arbitrary: b) (auto split: if_splits)

lemma py_min_least: "y \<in> insert b (set xs) \<Longrightarrow> \<not> lt y (py_min lt b xs)"
proof (induction xs arbitrary: b y)
  case Nil
  then show ?case using lt_asym by auto
next
  case (Cons x xs)
  let ?b = "if lt x b then x else b"
  have b: "\<not> lt b ?b" "\<not> lt x ?b" using lt_asym by auto
  have IH: "z \<in> insert ?b (set xs) \<Longrightarrow> \<not> lt z (py_min lt ?b xs)" for z
    by (rule Cons.IH)
  show ?case
  proof (cases "y \<in> set xs")
    case True
    then show ?thesis using IH by simp
  next
    case False
    with Cons.prems have "y = b \<or> y = x" by auto
    with b have "\<not> lt y ?b" by auto
    moreover have "\<not> lt ?b (py_min lt ?b xs)" by (rule IH) simp
    ultimately show ?thesis using lt_negtrans by (metis py_min.simps(2))
  qed
qed

lemma py_min_unique:
  assumes "x \<in> insert b (set xs)" and "\<And>y. y \<in> insert b (set xs) \<Longrightarrow> \<not> lt y x"
    and "\<And>y. y \<in> insert b (set xs) \<Longrightarrow> y \<noteq> x \<Longrightarrow> lt x y \<or> lt y x"
  shows "py_min lt b xs = x"
  using assms py_min_in[of b xs] py_min_least[of x b xs] by blast

lemma py_min_reorder:
  assumes "insert b (set xs) = insert c (set ys)"
    and "\<And>x y. x \<in> insert b (set xs) \<Longrightarrow> y \<in> insert b (set xs) \<Longrightarrow> x \<noteq> y \<Longrightarrow> lt x y \<or> lt y x"
  shows "py_min lt b xs = py_min lt c ys"
  using assms py_min_in[of c ys] py_min_least[of _ c ys] by (intro py_min_unique) auto

end

lemma scaled_shift:
  "m' \<le> m \<Longrightarrow> m \<le> expo d \<Longrightarrow> scaled d m' = scaled d m * 10 ^ nat (m - m')"
proof -
  assume "m' \<le> m" "m \<le> expo d"
  then have "nat (expo d - m') = nat (expo d - m) + nat (m - m')" by simp
  then show ?thesis by (simp add: scaled_def power_add mult.assoc)
qed

lemma dec_less_scaled:
  "m \<le> expo a \<Longrightarrow> m \<le> expo b \<Longrightarrow> dec_less a b \<longleftrightarrow> scaled a m < scaled b m"
  using scaled_shift[of m "min (expo a) (expo b)"] by (simp add: dec_less_def Let_def)

lemma dec_eq_scaled:
  "m \<le> expo a \<Longrightarrow> m \<le> expo b \<Longrightarrow> dec_eq a b \<longleftrightarrow> scaled a m = scaled b m"
  using scaled_shift[of m "min (expo a) (expo b)"] by (simp add: dec_eq_def Let_def)

definition cand_key :: "int \<Rightarrow> model_profile \<times> decimal \<Rightarrow> nat \<times> int \<times> string \<times> int" where
  "cand_key m x = (tier_rank (mp_tier (fst x)), scaled (snd x) m, mp_key (fst x), - mp_version (fst x))"

lemma candidate_less_key:
  "m \<le> expo (snd x) \<Longrightarrow> m \<le> expo (snd y) \<Longrightarrow>
     candidate_less x y \<longleftrightarrow> cand_key m x < cand_key m y"
  by (cases x; cases y)
     (auto simp: candidate_less_def cand_key_def dec_less_scaled dec_eq_scaled less_prod_def')

interpretation routing: strict_weak_order candidate_less
proof
  fix x y z :: "model_profile \<times> decimal"
  define m where "m = min (expo (snd x)) (min (expo (snd y)) (expo (snd z)))"
  have m: "m \<le> expo (snd x)" "m \<le> expo (snd y)" "m \<le> expo (snd z)"
    by (auto simp: m_def)
  show "candidate_less x y \<Longrightarrow> \<not> candidate_less y x"
    using m by (simp add: candidate_less_key[of m])
  show "\<not> candidate_less x y \<Longrightarrow> \<not> candidate_less y z \<Longrightarrow> \<not> candidate_less x z"
    using m by (simp add: candidate_less_key[of m] not_less)
qed

section \<open>What the router guarantees\<close>

lemma required_tier_rank:
  "tier_rank (required_tier r) =
     max (level_rank (rr_complexity r)) (max (level_rank (rr_risk r)) (level_rank (rr_quality r)))"
  by (cases "rr_complexity r"; cases "rr_risk r"; cases "rr_quality r")
     (simp_all add: required_tier_def)

lemma eligible_iff:
  "eligible r ek p \<longleftrightarrow> mp_enabled p \<and> tier_rank (required_tier r) \<le> tier_rank (mp_tier p)
     \<and> (mp_executor_keys p = [] \<or> ek \<in> set (mp_executor_keys p))
     \<and> set (rr_required_capabilities r) \<subseteq> set (mp_capabilities p)
     \<and> required_context r \<le> mp_context_window p
     \<and> (\<forall>budget. rr_max_cost_usd r = Some budget \<longrightarrow> \<not> dec_less budget (estimate_cost p r))"
  by (auto simp: eligible_def split: option.split)

lemma candidates_set:
  "set (candidates r ek ps) = (\<lambda>p. (p, estimate_cost p r)) ` {p \<in> set ps. eligible r ek p}"
  by (auto simp: candidates_def)

lemma candidates_total:
  assumes "distinct (map (\<lambda>p. (mp_key p, mp_version p)) ps)"
    and "x \<in> set (candidates r ek ps)" "y \<in> set (candidates r ek ps)" "x \<noteq> y"
  shows "candidate_less x y \<or> candidate_less y x"
proof -
  define m where "m = min (expo (snd x)) (expo (snd y))"
  have m: "m \<le> expo (snd x)" "m \<le> expo (snd y)" by (auto simp: m_def)
  have "fst x \<noteq> fst y" "fst x \<in> set ps" "fst y \<in> set ps"
    using assms(2-4) by (auto simp: candidates_set)
  with assms(1) have "(mp_key (fst x), mp_version (fst x)) \<noteq> (mp_key (fst y), mp_version (fst y))"
    by (auto simp: distinct_map inj_on_def)
  then have "cand_key m x \<noteq> cand_key m y" by (auto simp: cand_key_def)
  then show ?thesis using m by (auto simp: candidate_less_key[of m] neq_iff)
qed

text \<open>C33. Sound and cheapest: a selected profile is one of the registered ones, passes every
  filter (enabled, tier, executor, capabilities, context, maximum cost), is returned with its own
  estimated cost, and no eligible profile precedes it in the order (tier, cost, key, newest
  version).\<close>

theorem route_model_sound:
  assumes "route_model r profiles ek = Inr sel"
  shows "ms_profile sel \<in> set profiles \<and> mp_enabled (ms_profile sel)
    \<and> max (level_rank (rr_complexity r)) (max (level_rank (rr_risk r)) (level_rank (rr_quality r)))
        \<le> tier_rank (mp_tier (ms_profile sel))
    \<and> (mp_executor_keys (ms_profile sel) = [] \<or> ek \<in> set (mp_executor_keys (ms_profile sel)))
    \<and> set (rr_required_capabilities r) \<subseteq> set (mp_capabilities (ms_profile sel))
    \<and> required_context r \<le> mp_context_window (ms_profile sel)
    \<and> (\<forall>budget. rr_max_cost_usd r = Some budget \<longrightarrow> \<not> dec_less budget (ms_estimated_cost_usd sel))
    \<and> ms_estimated_cost_usd sel = estimate_cost (ms_profile sel) r
    \<and> (\<forall>q \<in> set profiles. eligible r ek q \<longrightarrow>
         \<not> candidate_less (q, estimate_cost q r) (ms_profile sel, ms_estimated_cost_usd sel))"
proof -
  obtain c cs where cs: "candidates r ek profiles = c # cs"
    and sel: "ms_profile sel = fst (py_min candidate_less c cs)"
      "ms_estimated_cost_usd sel = snd (py_min candidate_less c cs)"
      "ms_required_tier sel = required_tier r"
    using assms by (auto simp: route_model_def Let_def split: list.splits prod.splits)
  let ?m = "py_min candidate_less c cs"
  have "?m \<in> set (candidates r ek profiles)"
    using routing.py_min_in[of c cs] by (simp add: cs)
  then have m: "fst ?m \<in> set profiles" "eligible r ek (fst ?m)" "snd ?m = estimate_cost (fst ?m) r"
    by (auto simp: candidates_set)
  have least: "\<not> candidate_less (q, estimate_cost q r) (ms_profile sel, ms_estimated_cost_usd sel)"
    if "q \<in> set profiles" "eligible r ek q" for q
    unfolding sel prod.collapse
  proof (rule routing.py_min_least)
    have "(q, estimate_cost q r) \<in> set (candidates r ek profiles)"
      using that by (simp add: candidates_set)
    then show "(q, estimate_cost q r) \<in> insert c (set cs)" by (simp add: cs)
  qed
  show ?thesis
    using m least unfolding eligible_iff[of r ek "fst ?m"] required_tier_rank sel by auto
qed

text \<open>A concrete catalog: two profiles that both suffice, and the cheaper one wins.\<close>

definition ex_profile :: "string \<Rightarrow> int \<Rightarrow> decimal \<Rightarrow> model_profile" where
  "ex_profile key version cost =
     \<lparr>mp_key = key, mp_version = version, mp_name = key, mp_provider = ''p'', mp_model_id = key,
      mp_tier = Balanced, mp_context_window = 200000, mp_input_cost = cost, mp_output_cost = cost,
      mp_enabled = True, mp_capabilities = [''code''], mp_executor_keys = [], mp_metadata = [],
      mp_id = 0, mp_created_at = 0\<rparr>"

definition ex_request :: model_routing_request where
  "ex_request =
     \<lparr>rr_complexity = LevelMedium, rr_risk = LevelLow, rr_quality = LevelMedium,
      rr_required_capabilities = [''code''], rr_estimated_input_tokens = 1000,
      rr_max_output_tokens = 4096, rr_max_cost_usd = Some (Dec 1 0)\<rparr>"

lemma ex_route:
  "(case route_model ex_request
       [ex_profile ''a'' 1 (Dec 30 0), ex_profile ''b'' 1 (Dec 2 0), ex_profile ''b'' 2 (Dec 2 0)]
       ''default'' of Inl e \<Rightarrow> False
     | Inr sel \<Rightarrow> ms_profile sel = ex_profile ''b'' 2 (Dec 2 0))"
  by code_simp

theorem route_model_sound_witness:
  "\<exists>sel. route_model ex_request
        [ex_profile ''a'' 1 (Dec 30 0), ex_profile ''b'' 1 (Dec 2 0), ex_profile ''b'' 2 (Dec 2 0)]
        ''default'' = Inr sel
      \<and> ms_profile sel = ex_profile ''b'' 2 (Dec 2 0)
      \<and> required_context ex_request \<le> mp_context_window (ms_profile sel)"
proof -
  from ex_route obtain sel where sel:
    "route_model ex_request
        [ex_profile ''a'' 1 (Dec 30 0), ex_profile ''b'' 1 (Dec 2 0), ex_profile ''b'' 2 (Dec 2 0)]
        ''default'' = Inr sel"
    "ms_profile sel = ex_profile ''b'' 2 (Dec 2 0)"
    by (auto split: sum.splits)
  from route_model_sound[OF sel(1)] sel show ?thesis by blast
qed


text \<open>Deterministic: profiles are unique by key and version, so reordering the catalog never
  changes the selection.\<close>

theorem route_model_order_independent:
  assumes "mset profiles = mset profiles'"
    and "distinct (map (\<lambda>p. (mp_key p, mp_version p)) profiles)"
  shows "route_model r profiles ek = route_model r profiles' ek"
proof -
  have sets: "set (candidates r ek profiles) = set (candidates r ek profiles')"
    using mset_eq_setD[OF assms(1)] by (simp add: candidates_set)
  show ?thesis
  proof (cases "candidates r ek profiles")
    case Nil
    with sets have "candidates r ek profiles' = []" by simp
    with Nil show ?thesis by (simp add: route_model_def)
  next
    case (Cons c cs)
    with sets obtain d ds where ds: "candidates r ek profiles' = d # ds"
      by (cases "candidates r ek profiles'") auto
    have "py_min candidate_less c cs = py_min candidate_less d ds"
    proof (rule routing.py_min_reorder)
      show "insert c (set cs) = insert d (set ds)" using sets by (simp add: Cons ds)
    next
      fix x y
      assume "x \<in> insert c (set cs)" "y \<in> insert c (set cs)" "x \<noteq> y"
      then show "candidate_less x y \<or> candidate_less y x"
        using candidates_total[OF assms(2), of x r ek y] by (simp add: Cons)
    qed
    then show ?thesis by (simp add: route_model_def Cons ds)
  qed
qed

theorem route_model_order_independent_witness:
  "route_model ex_request [ex_profile ''a'' 1 (Dec 30 0), ex_profile ''b'' 2 (Dec 2 0)] ''default''
   = route_model ex_request [ex_profile ''b'' 2 (Dec 2 0), ex_profile ''a'' 1 (Dec 30 0)] ''default''"
proof (rule route_model_order_independent)
  show "mset [ex_profile ''a'' 1 (Dec 30 0), ex_profile ''b'' 2 (Dec 2 0)] =
      mset [ex_profile ''b'' 2 (Dec 2 0), ex_profile ''a'' 1 (Dec 30 0)]"
    by simp
  show "distinct (map (\<lambda>p. (mp_key p, mp_version p))
      [ex_profile ''a'' 1 (Dec 30 0), ex_profile ''b'' 2 (Dec 2 0)])"
    by (simp add: ex_profile_def)
qed

end
