(* ===== verification/Workflow_Models.thy ===== *)
theory Workflow_Models
  imports Model_Routing
begin

text \<open>
  \<^verbatim>\<open>workflows/models.py\<close>: the statuses and kinds, node, edge and workflow definitions with the
  checks of their constructors, the immutable snapshot of a run, and the execution state the engine
  changes. The graph checks of \<^verbatim>\<open>WorkflowDefinition.__post_init__\<close> are here as the code runs
  them (including its depth-first searches); theory \<open>Workflow_Graph\<close> proves what they decide.
\<close>

section \<open>Statuses, kinds, outcomes\<close>

datatype workflow_status =
  WPending | WRunning | WAwaitingApproval | WSucceeded | WFailed | WCancelled

datatype node_kind = KTask | KApproval | KFork | KJoin | KTerminal

datatype node_outcome = OSuccess | OFailure | OApproved | ORejected

datatype node_execution_status =
  NPending | NReady | NRunning | NAwaitingApproval | NSucceeded | NFailed | NCancelled

fun outcome_value :: "node_outcome \<Rightarrow> string" where
  "outcome_value OSuccess = ''success''" | "outcome_value OFailure = ''failure''"
| "outcome_value OApproved = ''approved''" | "outcome_value ORejected = ''rejected''"

fun workflow_status_value :: "workflow_status \<Rightarrow> string" where
  "workflow_status_value WPending = ''pending''"
| "workflow_status_value WRunning = ''running''"
| "workflow_status_value WAwaitingApproval = ''awaiting_approval''"
| "workflow_status_value WSucceeded = ''succeeded''"
| "workflow_status_value WFailed = ''failed''"
| "workflow_status_value WCancelled = ''cancelled''"

section \<open>Definitions\<close>

record workflow_request_context =
  rc_request_id :: uuid
  rc_project_id :: uuid
  rc_project_key :: string
  rc_project_name :: string
  rc_repository_url :: string
  rc_default_branch :: string
  rc_prompt :: string
  rc_title :: "string option"

definition workflow_request_context_init ::
    "workflow_request_context \<Rightarrow> workflow_request_context result" where
  "workflow_request_context_init c =
     (if list_ex blank [rc_project_key c, rc_project_name c, rc_repository_url c,
         rc_default_branch c, rc_prompt c]
      then Inl (WorkflowDefinitionError ''workflow request context fields must not be empty'')
      else Inr c)"

record node_input_mapping =
  im_input_key :: string
  im_source_node :: string

definition node_input_mapping_init :: "node_input_mapping \<Rightarrow> node_input_mapping result" where
  "node_input_mapping_init m =
     (if \<not> input_key_pattern (im_input_key m)
      then Inl (WorkflowDefinitionError ''node input mapping key must be lower snake_case'')
      else if blank (im_source_node m)
      then Inl (WorkflowDefinitionError ''node input mapping fields must not be empty'')
      else Inr m)"

record node_definition =
  nd_key :: string
  nd_kind :: node_kind
  nd_max_attempts :: int
  nd_max_visits :: int
  nd_timeout_seconds :: int
  nd_terminal_status :: "workflow_status option"
  nd_executor_key :: "string option"
  nd_instructions :: "string option"
  nd_configuration :: json_object
  nd_skills :: "skill_reference list"
  nd_model_routing :: "model_routing_request option"
  nd_phase_pack :: "phase_pack_reference option"
  nd_input_mappings :: "node_input_mapping list"

definition node_definition_init :: "node_definition \<Rightarrow> node_definition result" where
  "node_definition_init n =
     (if blank (nd_key n) then Inl (WorkflowDefinitionError ''node key must not be empty'')
      else if nd_max_attempts n < 1
      then Inl (WorkflowDefinitionError ''node max_attempts must be greater than zero'')
      else if nd_max_visits n < 1
      then Inl (WorkflowDefinitionError ''node max_visits must be greater than zero'')
      else if nd_timeout_seconds n < 1
      then Inl (WorkflowDefinitionError ''node timeout_seconds must be greater than zero'')
      else if nd_kind n \<in> {KFork, KJoin} \<and> nd_max_visits n \<noteq> 1
      then Inl (WorkflowDefinitionError ''fork and join nodes currently allow only one visit'')
      else if nd_kind n = KTerminal \<and> nd_terminal_status n \<notin> {Some WSucceeded, Some WFailed}
      then Inl (WorkflowDefinitionError ''terminal node requires succeeded or failed status'')
      else if nd_kind n \<noteq> KTerminal \<and> nd_terminal_status n \<noteq> None
      then Inl (WorkflowDefinitionError ''only terminal nodes may define terminal_status'')
      else if nd_executor_key n \<noteq> None \<and> nd_kind n \<noteq> KTask
      then Inl (WorkflowDefinitionError ''only task nodes may define executor_key'')
      else if (case nd_executor_key n of None \<Rightarrow> False | Some k \<Rightarrow> blank k)
      then Inl (WorkflowDefinitionError ''node executor_key must not be empty'')
      else if (case nd_instructions n of None \<Rightarrow> False | Some i \<Rightarrow> blank i)
      then Inl (WorkflowDefinitionError ''node instructions must not be empty'')
      else if nd_kind n \<noteq> KTask \<and> (nd_instructions n \<notin> {None, Some []} \<or> nd_configuration n \<noteq> [])
      then Inl (WorkflowDefinitionError ''only task nodes may define instructions or configuration'')
      else if nd_kind n \<noteq> KTask \<and> nd_skills n \<noteq> []
      then Inl (WorkflowDefinitionError ''only task nodes may reference skills'')
      else if nd_kind n \<noteq> KTask \<and> nd_model_routing n \<noteq> None
      then Inl (WorkflowDefinitionError ''only task nodes may define model routing'')
      else if nd_kind n \<noteq> KTask \<and> nd_phase_pack n \<noteq> None
      then Inl (WorkflowDefinitionError ''only task nodes may reference phase packs'')
      else if nd_kind n \<noteq> KTask \<and> nd_input_mappings n \<noteq> []
      then Inl (WorkflowDefinitionError ''only task nodes may define input mappings'')
      else if nd_phase_pack n = None \<and> nd_input_mappings n \<noteq> []
      then Inl (WorkflowDefinitionError ''node input mappings require a phase pack'')
      else if \<not> distinct (map im_input_key (nd_input_mappings n))
      then Inl (WorkflowDefinitionError ''node input mapping keys must be unique'')
      else if \<not> distinct (nd_skills n)
      then Inl (WorkflowDefinitionError ''node skill references must be unique'')
      else Inr n)"

record artifact_condition =
  ac_path :: string
  ac_equals :: json

definition artifact_condition_init :: "artifact_condition \<Rightarrow> artifact_condition result" where
  "artifact_condition_init c =
     (if ac_path c = [] \<or> 512 < length (ac_path c) \<or> \<not> json_pointer_pattern (ac_path c)
      then Inl (WorkflowDefinitionError ''artifact condition path must be a non-empty JSON Pointer'')
      else if \<not> is_finite_scalar (ac_equals c)
      then Inl (WorkflowDefinitionError ''artifact condition value must be a finite JSON scalar'')
      else Inr c)"

record edge_definition =
  ed_source :: string
  ed_outcome :: node_outcome
  ed_target :: string
  ed_condition :: "artifact_condition option"

text \<open>Dataclass equality of two edges: the condition values compare with Python's \<^verbatim>\<open>==\<close>.\<close>

definition condition_eq :: "artifact_condition option \<Rightarrow> artifact_condition option \<Rightarrow> bool" where
  "condition_eq c d = (case (c, d) of
      (None, None) \<Rightarrow> True
    | (Some x, Some y) \<Rightarrow> ac_path x = ac_path y \<and> py_eq (ac_equals x) (ac_equals y)
    | _ \<Rightarrow> False)"

definition edge_eq :: "edge_definition \<Rightarrow> edge_definition \<Rightarrow> bool" where
  "edge_eq e f \<longleftrightarrow> ed_source e = ed_source f \<and> ed_outcome e = ed_outcome f
     \<and> ed_target e = ed_target f \<and> condition_eq (ed_condition e) (ed_condition f)"

record workflow_definition =
  wd_key :: string
  wd_version :: int
  wd_entry_node :: string
  wd_nodes :: "node_definition list"
  wd_edges :: "edge_definition list"
  wd_id :: uuid

section \<open>Graph checks\<close>

definition find_node :: "node_definition list \<Rightarrow> string \<Rightarrow> node_definition option" where
  "find_node ns key = find (\<lambda>n. nd_key n = key) ns"

fun allowed_outcomes :: "node_kind \<Rightarrow> node_outcome list" where
  "allowed_outcomes KTask = [OSuccess, OFailure]"
| "allowed_outcomes KApproval = [OApproved, ORejected]"
| "allowed_outcomes KFork = [OSuccess]"
| "allowed_outcomes KJoin = [OSuccess]"
| "allowed_outcomes KTerminal = []"

definition adjacency :: "edge_definition list \<Rightarrow> string \<Rightarrow> string list" where
  "adjacency es k = remdups (map ed_target (filter (\<lambda>e. ed_source e = k) es))"

definition incoming :: "edge_definition list \<Rightarrow> string \<Rightarrow> string list" where
  "incoming es k = remdups (map ed_source (filter (\<lambda>e. ed_target e = k) es))"

definition outgoing :: "edge_definition list \<Rightarrow> string \<Rightarrow> node_outcome list" where
  "outgoing es k = remdups (map ed_outcome (filter (\<lambda>e. ed_source e = k) es))"

definition route_edges ::
    "edge_definition list \<Rightarrow> string \<Rightarrow> node_outcome \<Rightarrow> edge_definition list" where
  "route_edges es source outcome = filter (\<lambda>e. ed_source e = source \<and> ed_outcome e = outcome) es"

definition check_edge ::
    "node_definition list \<Rightarrow> edge_definition list \<Rightarrow> edge_definition \<Rightarrow> unit result" where
  "check_edge ns seen e =
     (case (find_node ns (ed_source e), find_node ns (ed_target e)) of
        (Some s, Some t) \<Rightarrow>
          if ed_condition e \<noteq> None \<and> nd_kind s \<noteq> KTask
          then Inl (WorkflowDefinitionError ''only task edges may define artifact conditions'')
          else if list_ex (edge_eq e) seen
          then Inl (WorkflowDefinitionError ''duplicate workflow edges are not allowed'')
          else if ed_outcome e \<notin> set (allowed_outcomes (nd_kind s))
          then Inl (WorkflowDefinitionError ''edge outcome is invalid for its source node'')
          else Inr ()
      | _ \<Rightarrow> Inl (WorkflowDefinitionError ''workflow edge references an unknown node''))"

fun check_edges ::
    "node_definition list \<Rightarrow> edge_definition list \<Rightarrow> edge_definition list \<Rightarrow> unit result" where
  "check_edges ns seen [] = Inr ()"
| "check_edges ns seen (e # es) = rbind (check_edge ns seen e) (\<lambda>_. check_edges ns (e # seen) es)"

text \<open>The keys of \<^verbatim>\<open>edges_by_route\<close> in insertion order.\<close>

definition routes :: "edge_definition list \<Rightarrow> (string \<times> node_outcome) list" where
  "routes es = rev (remdups (rev (map (\<lambda>e. (ed_source e, ed_outcome e)) es)))"

definition defaults :: "edge_definition list \<Rightarrow> edge_definition list" where
  "defaults es = filter (\<lambda>e. ed_condition e = None) es"

definition conditions :: "edge_definition list \<Rightarrow> artifact_condition list" where
  "conditions es = List.map_filter ed_condition es"

fun strict_distinct :: "json list \<Rightarrow> bool" where
  "strict_distinct [] = True"
| "strict_distinct (v # vs) = (\<not> list_ex (strict_eq v) vs \<and> strict_distinct vs)"

definition check_route ::
    "node_definition list \<Rightarrow> edge_definition list \<Rightarrow> string \<times> node_outcome \<Rightarrow> unit result" where
  "check_route ns es route =
     (let edges = route_edges es (fst route) (snd route) in
      if (case find_node ns (fst route) of None \<Rightarrow> False | Some n \<Rightarrow> nd_kind n = KFork) then Inr ()
      else if 1 < length (defaults edges)
      then Inl (WorkflowDefinitionError ''node outcomes may have only one default target'')
      else if 1 < length edges \<and> conditions edges = []
      then Inl (WorkflowDefinitionError ''node outcomes may have only one target'')
      else if 1 < length (remdups (map ac_path (conditions edges)))
      then Inl (WorkflowDefinitionError ''conditional edges for one outcome must use the same artifact path'')
      else if \<not> strict_distinct (map ac_equals (conditions edges))
      then Inl (WorkflowDefinitionError ''conditional edges for one outcome must use distinct values'')
      else Inr ())"

text \<open>
  The two searches. A stack of pending keys, the next one at the head; Python extends it with a set
  difference in an unspecified order, the model in the order of the edges.
\<close>

function reachable_from :: "edge_definition list \<Rightarrow> string list \<Rightarrow> string list \<Rightarrow> string list" where
  "reachable_from es visited [] = visited"
| "reachable_from es visited (current # pending) =
     (if current \<in> set visited then reachable_from es visited pending
      else reachable_from es (current # visited)
        (filter (\<lambda>t. t \<notin> set (current # visited)) (adjacency es current) @ pending))"
  by pat_completeness auto

definition search_space :: "edge_definition list \<Rightarrow> string list \<Rightarrow> string list \<Rightarrow> string set" where
  "search_space es visited pending = (set pending \<union> ed_target ` set es) - set visited"

lemma search_space_step:
  assumes "current \<notin> set visited"
  shows "card (search_space es (current # visited)
      (filter (\<lambda>t. t \<notin> set (current # visited)) (adjacency es current) @ pending))
    < card (search_space es visited (current # pending))"
proof (rule psubset_card_mono)
  show "finite (search_space es visited (current # pending))"
    by (simp add: search_space_def)
  have "set (adjacency es current) \<subseteq> ed_target ` set es"
    by (auto simp: adjacency_def)
  then have "search_space es (current # visited)
      (filter (\<lambda>t. t \<notin> set (current # visited)) (adjacency es current) @ pending)
    \<subseteq> search_space es visited (current # pending) - {current}"
    by (auto simp: search_space_def)
  moreover have "current \<in> search_space es visited (current # pending)"
    using assms by (simp add: search_space_def)
  ultimately show "search_space es (current # visited)
      (filter (\<lambda>t. t \<notin> set (current # visited)) (adjacency es current) @ pending)
    \<subset> search_space es visited (current # pending)"
    by blast
qed

lemma search_space_pop:
  "card (search_space es visited pending) \<le> card (search_space es visited (current # pending))"
  by (rule card_mono) (auto simp: search_space_def)

termination reachable_from
proof (relation "measures [\<lambda>(es, visited, pending). card (search_space es visited pending),
    \<lambda>(es, visited, pending). length pending]", goal_cases)
  case 1
  show ?case by simp
next
  case (2 es visited current pending)
  then show ?case using search_space_pop[of es visited pending current] by (simp add: le_less)
next
  case (3 es visited current pending)
  then show ?case using search_space_step[of current visited es pending] by simp
qed

function can_reach ::
    "edge_definition list \<Rightarrow> string \<Rightarrow> string list \<Rightarrow> string list \<Rightarrow> bool" where
  "can_reach es target visited [] = False"
| "can_reach es target visited (current # pending) =
     (if current = target then True
      else if current \<in> set visited then can_reach es target visited pending
      else can_reach es target (current # visited)
        (filter (\<lambda>t. t \<notin> set (current # visited)) (adjacency es current) @ pending))"
  by pat_completeness auto
termination
proof (relation "measures [\<lambda>(es, target, visited, pending). card (search_space es visited pending),
    \<lambda>(es, target, visited, pending). length pending]", goal_cases)
  case 1
  show ?case by simp
next
  case (2 es target visited current pending)
  then show ?case using search_space_pop[of es visited pending current] by (simp add: le_less)
next
  case (3 es target visited current pending)
  then show ?case using search_space_step[of current visited es pending] by simp
qed

definition check_mapping ::
    "node_definition list \<Rightarrow> edge_definition list \<Rightarrow> node_definition \<Rightarrow> node_input_mapping
       \<Rightarrow> unit result" where
  "check_mapping ns es n m =
     (case find_node ns (im_source_node m) of
        None \<Rightarrow> Inl (WorkflowDefinitionError ''node input mapping references an unknown node'')
      | Some source \<Rightarrow>
          if nd_kind source \<noteq> KTask
          then Inl (WorkflowDefinitionError ''node input mapping source must be a task node'')
          else if nd_key source = nd_key n
          then Inl (WorkflowDefinitionError ''node input mapping cannot reference itself'')
          else if nd_key n \<notin> set (reachable_from es [] [nd_key source])
          then Inl (WorkflowDefinitionError ''node input mapping source must precede its target in the graph'')
          else Inr ())"

definition check_node ::
    "workflow_definition \<Rightarrow> node_definition \<Rightarrow> unit result" where
  "check_node d n =
     (if nd_kind n = KTerminal \<and> outgoing (wd_edges d) (nd_key n) \<noteq> []
      then Inl (WorkflowDefinitionError ''terminal nodes cannot have outgoing edges'')
      else if nd_kind n \<noteq> KTerminal \<and> outgoing (wd_edges d) (nd_key n) = []
      then Inl (WorkflowDefinitionError ''non-terminal nodes require an outgoing edge'')
      else if nd_kind n = KFork \<and> length (adjacency (wd_edges d) (nd_key n)) < 2
      then Inl (WorkflowDefinitionError ''fork nodes require at least two targets'')
      else if nd_kind n = KJoin \<and> nd_key n = wd_entry_node d
      then Inl (WorkflowDefinitionError ''join nodes cannot be workflow entry nodes'')
      else if nd_kind n = KJoin \<and> length (incoming (wd_edges d) (nd_key n)) < 2
      then Inl (WorkflowDefinitionError ''join nodes require at least two sources'')
      else each (check_mapping (wd_nodes d) (wd_edges d) n) (nd_input_mappings n))"

definition check_loop_free :: "edge_definition list \<Rightarrow> node_definition \<Rightarrow> unit result" where
  "check_loop_free es n =
     (if nd_kind n \<in> {KFork, KJoin} \<and> can_reach es (nd_key n) [] (adjacency es (nd_key n))
      then Inl (WorkflowDefinitionError ''fork and join nodes cannot participate in loops'')
      else Inr ())"

definition workflow_definition_init :: "workflow_definition \<Rightarrow> unit result" where
  "workflow_definition_init d =
     (let ns = wd_nodes d; es = wd_edges d; keys = map nd_key ns in
      if blank (wd_key d) then Inl (WorkflowDefinitionError ''workflow key must not be empty'')
      else if wd_version d < 1
      then Inl (WorkflowDefinitionError ''workflow version must be greater than zero'')
      else if \<not> distinct keys
      then Inl (WorkflowDefinitionError ''workflow node keys must be unique'')
      else if wd_entry_node d \<notin> set keys
      then Inl (WorkflowDefinitionError ''workflow entry node does not exist'')
      else
        rbind (check_edges ns [] es) (\<lambda>_.
        rbind (each (check_route ns es) (routes es)) (\<lambda>_.
        rbind (each (check_node d) ns) (\<lambda>_.
        if set (reachable_from es [] [wd_entry_node d]) \<noteq> set keys
        then Inl (WorkflowDefinitionError ''all workflow nodes must be reachable from the entry'')
        else each (check_loop_free es) ns))))"

section \<open>Snapshot\<close>

record workflow_snapshot =
  ws_run_id :: uuid
  ws_definition_id :: uuid
  ws_definition_key :: string
  ws_definition_version :: int
  ws_entry_node :: string
  ws_nodes :: "node_definition list"
  ws_edges :: "edge_definition list"
  ws_request_context :: "workflow_request_context option"
  ws_phase_packs :: "phase_pack_definition list"
  ws_skills :: "skill_definition list"
  ws_model_selections :: "node_model_selection list"
  ws_id :: uuid
  ws_created_at :: time

definition node_phase_packs :: "node_definition list \<Rightarrow> phase_pack_reference list" where
  "node_phase_packs ns = List.map_filter nd_phase_pack ns"

definition find_phase_pack ::
    "phase_pack_definition list \<Rightarrow> phase_pack_reference \<Rightarrow> phase_pack_definition option" where
  "find_phase_pack ps r = find (\<lambda>p. phase_pack_ref p = r) ps"

definition check_phase_inputs ::
    "phase_pack_definition list \<Rightarrow> node_definition \<Rightarrow> unit result" where
  "check_phase_inputs ps n =
     (case nd_phase_pack n of
        None \<Rightarrow> Inr ()
      | Some r \<Rightarrow> (case find_phase_pack ps r of
          None \<Rightarrow> Inl (KeyError ''phase pack'')
        | Some p \<Rightarrow>
            let mapped = set (map im_input_key (nd_input_mappings n)) in
            if \<not> mapped \<subseteq> set (map pi_key (pp_inputs p))
            then Inl (WorkflowDefinitionError ''node maps an undeclared phase pack input'')
            else if \<not> set (map pi_key (filter pi_required (pp_inputs p))) \<subseteq> mapped
            then Inl (WorkflowDefinitionError ''node must map every required phase pack input'')
            else Inr ()))"

definition required_skills :: "workflow_snapshot \<Rightarrow> skill_reference set" where
  "required_skills s = (\<Union>n \<in> set (ws_nodes s). set (nd_skills n))
     \<union> (\<Union>p \<in> set (ws_phase_packs s). set (pp_skills p))"

definition workflow_snapshot_init :: "workflow_snapshot \<Rightarrow> unit result" where
  "workflow_snapshot_init s =
     (if \<not> distinct (map phase_pack_ref (ws_phase_packs s))
      then Inl (WorkflowDefinitionError ''snapshot phase packs must be unique by key and version'')
      else if set (node_phase_packs (ws_nodes s)) \<noteq> set (map phase_pack_ref (ws_phase_packs s))
      then Inl (WorkflowDefinitionError ''snapshot phase packs must exactly resolve node references'')
      else rbind (each (check_phase_inputs (ws_phase_packs s)) (ws_nodes s)) (\<lambda>_.
        if \<not> distinct (map skill_ref (ws_skills s))
        then Inl (WorkflowDefinitionError ''snapshot skills must be unique by key and version'')
        else if required_skills s \<noteq> set (map skill_ref (ws_skills s))
        then Inl (WorkflowDefinitionError ''snapshot skills must exactly resolve node references'')
        else if \<not> distinct (map ns_node_key (ws_model_selections s))
        then Inl (WorkflowDefinitionError ''snapshot model selections must be unique by node'')
        else if set (map nd_key (filter (\<lambda>n. nd_model_routing n \<noteq> None) (ws_nodes s)))
          \<noteq> set (map ns_node_key (ws_model_selections s))
        then Inl (WorkflowDefinitionError ''snapshot model selections must exactly resolve node routing requests'')
        else Inr ()))"

definition snapshot_from_definition ::
    "workflow_definition \<Rightarrow> uuid \<Rightarrow> workflow_request_context option \<Rightarrow> phase_pack_definition list
       \<Rightarrow> skill_definition list \<Rightarrow> node_model_selection list \<Rightarrow> uuid \<Rightarrow> time
       \<Rightarrow> workflow_snapshot result" where
  "snapshot_from_definition d run_id context packs skills selections new_id now =
     (let s = \<lparr>ws_run_id = run_id, ws_definition_id = wd_id d, ws_definition_key = wd_key d,
         ws_definition_version = wd_version d, ws_entry_node = wd_entry_node d,
         ws_nodes = wd_nodes d, ws_edges = wd_edges d, ws_request_context = context,
         ws_phase_packs = packs, ws_skills = skills, ws_model_selections = selections,
         ws_id = new_id, ws_created_at = now\<rparr>
      in rbind (workflow_snapshot_init s) (\<lambda>_. Inr s))"

definition snapshot_node :: "workflow_snapshot \<Rightarrow> string \<Rightarrow> node_definition result" where
  "snapshot_node s key = next_or_stop (\<lambda>n. nd_key n = key) (ws_nodes s)"

definition snapshot_target :: "workflow_snapshot \<Rightarrow> string \<Rightarrow> node_outcome \<Rightarrow> string option" where
  "snapshot_target s source outcome = map_option ed_target
     (find (\<lambda>e. ed_source e = source \<and> ed_outcome e = outcome \<and> ed_condition e = None) (ws_edges s))"

definition snapshot_targets :: "workflow_snapshot \<Rightarrow> string \<Rightarrow> node_outcome \<Rightarrow> string list" where
  "snapshot_targets s source outcome = sort (map ed_target (route_edges (ws_edges s) source outcome))"

definition incoming_sources :: "workflow_snapshot \<Rightarrow> string \<Rightarrow> string list" where
  "incoming_sources s target = sort (incoming (ws_edges s) target)"

definition snapshot_phase_pack ::
    "workflow_snapshot \<Rightarrow> phase_pack_reference \<Rightarrow> phase_pack_definition result" where
  "snapshot_phase_pack s r = next_or_stop (\<lambda>p. phase_pack_ref p = r) (ws_phase_packs s)"

definition snapshot_skill :: "workflow_snapshot \<Rightarrow> skill_reference \<Rightarrow> skill_definition result" where
  "snapshot_skill s r = next_or_stop (\<lambda>k. skill_ref k = r) (ws_skills s)"

definition snapshot_model_selection :: "workflow_snapshot \<Rightarrow> string \<Rightarrow> model_selection option" where
  "snapshot_model_selection s key =
     map_option ns_selection (find (\<lambda>v. ns_node_key v = key) (ws_model_selections s))"

section \<open>Execution state\<close>

record node_execution =
  ne_workflow_execution_id :: uuid
  ne_node_key :: string
  ne_executor_key :: string
  ne_id :: uuid
  ne_status :: node_execution_status
  ne_visit_count :: int
  ne_attempt_count :: int
  ne_outcome :: "node_outcome option"
  ne_output :: "json_object option"
  ne_worker_id :: "string option"
  ne_lease_token :: "uuid option"
  ne_lease_expires_at :: "time option"
  ne_started_at :: "time option"
  ne_completed_at :: "time option"
  ne_updated_at :: time

record workflow_execution =
  we_snapshot :: workflow_snapshot
  we_id :: uuid
  we_status :: workflow_status
  we_nodes :: "string \<rightharpoonup> node_execution"
  we_failure_reason :: "string option"
  we_started_at :: "time option"
  we_completed_at :: "time option"
  we_updated_at :: time
  we_version :: int

definition new_node_execution :: "uuid \<Rightarrow> (string \<Rightarrow> uuid) \<Rightarrow> time \<Rightarrow> node_definition \<Rightarrow> node_execution" where
  "new_node_execution execution_id node_ids now n =
     \<lparr>ne_workflow_execution_id = execution_id, ne_node_key = nd_key n,
      ne_executor_key = (case nd_executor_key n of
        None \<Rightarrow> ''default'' | Some k \<Rightarrow> if k = [] then ''default'' else k),
      ne_id = node_ids (nd_key n), ne_status = NPending, ne_visit_count = 0, ne_attempt_count = 0,
      ne_outcome = None, ne_output = None, ne_worker_id = None, ne_lease_token = None,
      ne_lease_expires_at = None, ne_started_at = None, ne_completed_at = None,
      ne_updated_at = now\<rparr>"

text \<open>\<^verbatim>\<open>WorkflowExecution.create\<close>; the fresh identifiers are arguments.\<close>

definition execution_create ::
    "workflow_snapshot \<Rightarrow> uuid \<Rightarrow> (string \<Rightarrow> uuid) \<Rightarrow> time \<Rightarrow> workflow_execution" where
  "execution_create s execution_id node_ids now =
     \<lparr>we_snapshot = s, we_id = execution_id, we_status = WPending,
      we_nodes = dict_of (map (\<lambda>n. (nd_key n, new_node_execution execution_id node_ids now n)) (ws_nodes s)),
      we_failure_reason = None, we_started_at = None, we_completed_at = None,
      we_updated_at = now, we_version = 1\<rparr>"

definition workflow_terminal :: "workflow_status \<Rightarrow> bool" where
  "workflow_terminal s \<longleftrightarrow> s \<in> {WSucceeded, WFailed, WCancelled}"

abbreviation is_terminal :: "workflow_execution \<Rightarrow> bool" where
  "is_terminal ex \<equiv> workflow_terminal (we_status ex)"

text \<open>The check of a node does not change it.\<close>

lemma node_definition_init_same: "node_definition_init n = Inr m \<Longrightarrow> m = n"
  by (auto simp: node_definition_init_def split: if_splits)

end
