(* ===== verification/Workflow_Engine.thy ===== *)
theory Workflow_Engine
  imports Workflow_Models
begin

text \<open>
  \<^verbatim>\<open>workflows/engine.py\<close>: every method of \<^verbatim>\<open>WorkflowEngine\<close>, in the order of the file. The
  aggregate is passed and returned; an exception is an \<open>Inl\<close> and the caller discards the aggregate,
  as the transaction of the services does. \<open>activate\<close>, \<open>route\<close> and the loop over its targets are
  mutually recursive as in the source (a fork or a join activates its successors); their
  termination proof counts the visits left in the snapshot.
\<close>

section \<open>Field updates\<close>

definition touch :: "workflow_execution \<Rightarrow> time \<Rightarrow> workflow_execution" where
  "touch ex at = ex\<lparr>we_updated_at := at, we_version := we_version ex + 1\<rparr>"

definition clear_lease :: "node_execution \<Rightarrow> node_execution" where
  "clear_lease n = n\<lparr>ne_worker_id := None, ne_lease_token := None, ne_lease_expires_at := None\<rparr>"

definition put_node :: "workflow_execution \<Rightarrow> string \<Rightarrow> node_execution \<Rightarrow> workflow_execution" where
  "put_node ex key n = ex\<lparr>we_nodes := (we_nodes ex)(key \<mapsto> n)\<rparr>"

definition node_execution_of :: "workflow_execution \<Rightarrow> string \<Rightarrow> node_execution result" where
  "node_execution_of ex key =
     of_option (WorkflowExecutionError (''unknown workflow node: '' @ key)) (we_nodes ex key)"

definition active :: "node_execution_status \<Rightarrow> bool" where
  "active s \<longleftrightarrow> s \<in> {NReady, NRunning, NAwaitingApproval}"

definition cancel_node :: "time \<Rightarrow> node_execution \<Rightarrow> node_execution" where
  "cancel_node at n =
     (if active (ne_status n)
      then clear_lease (n\<lparr>ne_status := NCancelled, ne_completed_at := Some at, ne_updated_at := at\<rparr>)
      else n)"

definition cancel_active_nodes :: "workflow_execution \<Rightarrow> time \<Rightarrow> workflow_execution" where
  "cancel_active_nodes ex at = ex\<lparr>we_nodes := (\<lambda>k. map_option (cancel_node at) (we_nodes ex k))\<rparr>"

definition fail_execution :: "workflow_execution \<Rightarrow> string \<Rightarrow> time \<Rightarrow> workflow_execution" where
  "fail_execution ex reason at =
     touch ((cancel_active_nodes ex at)\<lparr>we_status := WFailed, we_failure_reason := Some reason,
       we_completed_at := Some at\<rparr>) at"

section \<open>Routing\<close>

definition condition_matches :: "json_object option \<Rightarrow> artifact_condition \<Rightarrow> bool" where
  "condition_matches output c =
     (case json_pointer (case output of None \<Rightarrow> [] | Some d \<Rightarrow> d) (ac_path c) of
        None \<Rightarrow> False | Some value \<Rightarrow> strict_eq value (ac_equals c))"

definition edge_matches :: "json_object option \<Rightarrow> edge_definition \<Rightarrow> bool" where
  "edge_matches output e =
     (case ed_condition e of None \<Rightarrow> False | Some c \<Rightarrow> condition_matches output c)"

definition select_targets :: "edge_definition list \<Rightarrow> json_object option \<Rightarrow> string list" where
  "select_targets edges output =
     (if filter (\<lambda>e. ed_condition e \<noteq> None) edges = [] then sort (map ed_target edges)
      else (case find (edge_matches output) edges of
          Some e \<Rightarrow> [ed_target e]
        | None \<Rightarrow> (case find (\<lambda>e. ed_condition e = None) edges of
            Some e \<Rightarrow> [ed_target e] | None \<Rightarrow> [])))"

fun all_succeeded :: "(string \<rightharpoonup> node_execution) \<Rightarrow> string list \<Rightarrow> bool result" where
  "all_succeeded nodes [] = Inr True"
| "all_succeeded nodes (s # ss) =
     (case nodes s of
        None \<Rightarrow> Inl (KeyError s)
      | Some n \<Rightarrow> if ne_status n = NSucceeded then all_succeeded nodes ss else Inr False)"

definition join_is_ready :: "workflow_execution \<Rightarrow> string \<Rightarrow> bool result" where
  "join_is_ready ex key = all_succeeded (we_nodes ex) (incoming_sources (we_snapshot ex) key)"

definition enter_node :: "node_execution \<Rightarrow> time \<Rightarrow> node_execution" where
  "enter_node n at =
     (clear_lease (n\<lparr>ne_visit_count := ne_visit_count n + 1, ne_attempt_count := 0,
        ne_outcome := None, ne_output := None, ne_started_at := None, ne_completed_at := None\<rparr>))
     \<lparr>ne_updated_at := at\<rparr>"

definition pass_node :: "node_execution \<Rightarrow> time \<Rightarrow> node_execution" where
  "pass_node n at =
     (enter_node n at)\<lparr>ne_status := NSucceeded, ne_outcome := Some OSuccess, ne_completed_at := Some at\<rparr>"

definition enter_task :: "workflow_execution \<Rightarrow> string \<Rightarrow> node_execution \<Rightarrow> time \<Rightarrow> workflow_execution" where
  "enter_task ex key n at = touch (put_node ex key ((enter_node n at)\<lparr>ne_status := NReady\<rparr>)) at"

definition enter_approval ::
    "workflow_execution \<Rightarrow> string \<Rightarrow> node_execution \<Rightarrow> time \<Rightarrow> workflow_execution" where
  "enter_approval ex key n at =
     touch ((put_node ex key ((enter_node n at)\<lparr>ne_status := NAwaitingApproval\<rparr>))
       \<lparr>we_status := WAwaitingApproval\<rparr>) at"

definition enter_control ::
    "workflow_execution \<Rightarrow> string \<Rightarrow> node_execution \<Rightarrow> time \<Rightarrow> workflow_execution" where
  "enter_control ex key n at = touch (put_node ex key (pass_node n at)) at"

definition enter_terminal ::
    "workflow_execution \<Rightarrow> string \<Rightarrow> node_execution \<Rightarrow> node_definition \<Rightarrow> time \<Rightarrow> workflow_execution" where
  "enter_terminal ex key n d at =
     (let status = (case nd_terminal_status d of None \<Rightarrow> WFailed | Some s \<Rightarrow> s);
          ex1 = cancel_active_nodes ((put_node ex key (pass_node n at))
                  \<lparr>we_status := status, we_completed_at := Some at\<rparr>) at;
          ex2 = (if status = WFailed
                 then ex1\<lparr>we_failure_reason := Some (''workflow reached failure terminal: '' @ key)\<rparr>
                 else ex1)
      in touch ex2 at)"

definition route_failure :: "edge_definition list \<Rightarrow> string \<Rightarrow> node_outcome \<Rightarrow> string" where
  "route_failure edges source outcome =
     (if edges \<noteq> [] then ''no matching edge for '' else ''no edge for '')
       @ source @ '':'' @ outcome_value outcome"

function (sequential)
      activate :: "workflow_execution \<Rightarrow> string \<Rightarrow> time \<Rightarrow> workflow_execution result"
  and route :: "workflow_execution \<Rightarrow> string \<Rightarrow> node_outcome \<Rightarrow> json_object option \<Rightarrow> time
        \<Rightarrow> workflow_execution result"
  and route_loop :: "workflow_execution \<Rightarrow> string list \<Rightarrow> time \<Rightarrow> workflow_execution result"
where
  "activate ex key at =
     rbind (node_execution_of ex key) (\<lambda>n.
     rbind (snapshot_node (we_snapshot ex) key) (\<lambda>d.
     rbind (if nd_kind d = KJoin then join_is_ready ex key else Inr True) (\<lambda>ready.
       if \<not> ready then Inr ex
       else if nd_max_visits d \<le> ne_visit_count n
       then Inr (fail_execution ex (''node visit limit exceeded: '' @ key) at)
       else if nd_kind d = KTask then Inr (enter_task ex key n at)
       else if nd_kind d = KApproval then Inr (enter_approval ex key n at)
       else if nd_kind d = KTerminal then Inr (enter_terminal ex key n d at)
       else route (enter_control ex key n at) key OSuccess None at)))"
| "route ex source outcome output at =
     (let edges = route_edges (ws_edges (we_snapshot ex)) source outcome;
          targets = select_targets edges output in
      if targets = [] then Inr (fail_execution ex (route_failure edges source outcome) at)
      else route_loop ex targets at)"
| "route_loop ex [] at = Inr ex"
| "route_loop ex (target # targets) at =
     rbind (activate ex target at) (\<lambda>ex'.
       if is_terminal ex' then Inr ex' else route_loop ex' targets at)"
  by pat_completeness auto

subsection \<open>Termination: the visits left\<close>

definition visits :: "workflow_execution \<Rightarrow> string \<Rightarrow> int" where
  "visits ex k = (case we_nodes ex k of None \<Rightarrow> 0 | Some n \<Rightarrow> ne_visit_count n)"

definition remaining :: "workflow_execution \<Rightarrow> nat" where
  "remaining ex = (\<Sum>d \<in> set (ws_nodes (we_snapshot ex)). nat (nd_max_visits d - visits ex (nd_key d)))"

definition advances :: "workflow_execution \<Rightarrow> workflow_execution \<Rightarrow> bool" where
  "advances ex ex' \<longleftrightarrow> we_snapshot ex' = we_snapshot ex \<and> (\<forall>k. visits ex k \<le> visits ex' k)"

lemmas engine_update_defs =
  touch_def clear_lease_def put_node_def cancel_node_def cancel_active_nodes_def fail_execution_def
  enter_node_def pass_node_def enter_task_def enter_approval_def enter_control_def enter_terminal_def

lemma advances_refl: "advances ex ex"
  by (simp add: advances_def)

lemma advances_trans: "advances ex ex' \<Longrightarrow> advances ex' ex'' \<Longrightarrow> advances ex ex''"
  by (fastforce simp: advances_def intro: order_trans)

lemma advances_remaining: "advances ex ex' \<Longrightarrow> remaining ex' \<le> remaining ex"
  unfolding advances_def remaining_def by (auto intro!: sum_mono nat_mono diff_left_mono)

lemma visits_fail_execution [simp]: "visits (fail_execution ex reason at) k = visits ex k"
  by (simp add: visits_def engine_update_defs split: option.split)

lemma advances_fail_execution: "advances ex (fail_execution ex reason at)"
  by (simp add: advances_def) (simp add: engine_update_defs)

lemma visits_enter:
  assumes "we_nodes ex key = Some n"
  shows "visits (enter_task ex key n at) k = (if k = key then visits ex k + 1 else visits ex k)"
    and "visits (enter_approval ex key n at) k = (if k = key then visits ex k + 1 else visits ex k)"
    and "visits (enter_control ex key n at) k = (if k = key then visits ex k + 1 else visits ex k)"
    and "visits (enter_terminal ex key n d at) k = (if k = key then visits ex k + 1 else visits ex k)"
  using assms by (auto simp: visits_def engine_update_defs Let_def split: option.split)

lemma snapshot_enter [simp]:
  "we_snapshot (enter_task ex key n at) = we_snapshot ex"
  "we_snapshot (enter_approval ex key n at) = we_snapshot ex"
  "we_snapshot (enter_control ex key n at) = we_snapshot ex"
  "we_snapshot (enter_terminal ex key n d at) = we_snapshot ex"
  "we_snapshot (fail_execution ex reason at) = we_snapshot ex"
  by (simp_all add: engine_update_defs Let_def)

lemma advances_enter:
  assumes "we_nodes ex key = Some n"
  shows "advances ex (enter_task ex key n at)" "advances ex (enter_approval ex key n at)"
    "advances ex (enter_control ex key n at)" "advances ex (enter_terminal ex key n d at)"
  using assms by (simp_all add: advances_def visits_enter)

lemma node_execution_of_Inr [simp]: "node_execution_of ex key = Inr n \<longleftrightarrow> we_nodes ex key = Some n"
  by (simp add: node_execution_of_def)

lemma snapshot_node_Inr: "snapshot_node s key = Inr d \<longleftrightarrow> find_node (ws_nodes s) key = Some d"
  by (simp add: snapshot_node_def find_node_def next_or_stop_Inr)

lemma find_node_SomeD: "find_node ns key = Some d \<Longrightarrow> d \<in> set ns \<and> nd_key d = key"
  unfolding find_node_def by (drule find_SomeD) simp

lemma remaining_enter_control:
  assumes "we_nodes ex key = Some n" "find_node (ws_nodes (we_snapshot ex)) key = Some d"
    "\<not> nd_max_visits d \<le> ne_visit_count n"
  shows "remaining (enter_control ex key n at) < remaining ex"
  unfolding remaining_def snapshot_enter
proof (rule sum_strict_mono_ex1)
  show "finite (set (ws_nodes (we_snapshot ex)))" by simp
  show "\<forall>x \<in> set (ws_nodes (we_snapshot ex)).
      nat (nd_max_visits x - visits (enter_control ex key n at) (nd_key x))
        \<le> nat (nd_max_visits x - visits ex (nd_key x))"
    using assms(1) by (auto simp: visits_enter intro!: nat_mono)
  have "d \<in> set (ws_nodes (we_snapshot ex))" "nd_key d = key"
    using find_node_SomeD[OF assms(2)] by auto
  moreover have "nat (nd_max_visits d - visits (enter_control ex key n at) key)
      < nat (nd_max_visits d - visits ex key)"
    using assms(1,3) by (simp add: visits_enter) (simp add: visits_def)
  ultimately show "\<exists>a \<in> set (ws_nodes (we_snapshot ex)).
      nat (nd_max_visits a - visits (enter_control ex key n at) (nd_key a))
        < nat (nd_max_visits a - visits ex (nd_key a))"
    by blast
qed

lemma activate_route_advances_dom:
  "activate_route_route_loop_dom (Inl (ex, key, at)) \<Longrightarrow>
     (\<And>ex'. activate ex key at = Inr ex' \<Longrightarrow> advances ex ex')"
  "activate_route_route_loop_dom (Inr (Inl (ex, source, outc, outp, at))) \<Longrightarrow>
     (\<And>ex'. route ex source outc outp at = Inr ex' \<Longrightarrow> advances ex ex')"
  "activate_route_route_loop_dom (Inr (Inr (ex, targets, at))) \<Longrightarrow>
     (\<And>ex'. route_loop ex targets at = Inr ex' \<Longrightarrow> advances ex ex')"
proof (induction ex key at and ex source outc outp at and ex targets at
    rule: activate_route_route_loop.pinduct)
  case (1 ex key at)
  from "1.prems" obtain n d ready where n: "we_nodes ex key = Some n"
    and d: "snapshot_node (we_snapshot ex) key = Inr d"
    and r: "(if nd_kind d = KJoin then join_is_ready ex key else Inr True) = Inr ready"
    and res: "(if \<not> ready then Inr ex
       else if nd_max_visits d \<le> ne_visit_count n
       then Inr (fail_execution ex (''node visit limit exceeded: '' @ key) at)
       else if nd_kind d = KTask then Inr (enter_task ex key n at)
       else if nd_kind d = KApproval then Inr (enter_approval ex key n at)
       else if nd_kind d = KTerminal then Inr (enter_terminal ex key n d at)
       else route (enter_control ex key n at) key OSuccess None at) = Inr ex'"
    unfolding activate.psimps[OF "1.hyps"] by auto
  have rec: "advances ex ex'"
    if "ready" "\<not> nd_max_visits d \<le> ne_visit_count n" "nd_kind d \<noteq> KTask"
      "nd_kind d \<noteq> KApproval" "nd_kind d \<noteq> KTerminal"
      "route (enter_control ex key n at) key OSuccess None at = Inr ex'"
    using "1.IH"[OF _ d r _ that(2-5)] n that advances_enter(3)[OF n] advances_trans by auto
  show ?case
    using res rec n by (auto simp: advances_refl advances_fail_execution advances_enter split: if_splits)
next
  case (2 ex source outc outp at)
  then show ?case
    by (auto simp: route.psimps Let_def advances_fail_execution split: if_splits)
next
  case (3 ex at)
  then show ?case by (simp add: route_loop.psimps advances_refl)
next
  case (4 ex target targets at)
  from "4.prems" obtain ex1 where ex1: "activate ex target at = Inr ex1"
    and res: "(if is_terminal ex1 then Inr ex1 else route_loop ex1 targets at) = Inr ex'"
    unfolding route_loop.psimps(2)[OF "4.hyps"] by auto
  have "advances ex ex1" using ex1 by (rule "4.IH")
  moreover have "advances ex1 ex'"
    using res "4.IH"(2)[OF ex1] by (auto simp: advances_refl split: if_splits)
  ultimately show ?case by (rule advances_trans)
qed

termination activate
proof (relation "measures [\<lambda>x. case x of Inl (ex, _) \<Rightarrow> remaining ex
    | Inr (Inl (ex, _)) \<Rightarrow> remaining ex | Inr (Inr (ex, _)) \<Rightarrow> remaining ex,
    \<lambda>x. case x of Inl _ \<Rightarrow> 0
    | Inr (Inl (ex, source, outc, outp, at)) \<Rightarrow> Suc (Suc (length
        (select_targets (route_edges (ws_edges (we_snapshot ex)) source outc) outp)))
    | Inr (Inr (_, targets, _)) \<Rightarrow> Suc (length targets)]", goal_cases)
  case 1
  show ?case by simp
next
  case (2 ex key at n d ready)
  then show ?case by (simp add: snapshot_node_Inr remaining_enter_control)
next
  case (3 ex source outc outp at edges targets)
  then show ?case by simp
next
  case (4 ex target targets at)
  show ?case by simp
next
  case (5 ex target targets at ex')
  then have "advances ex ex'" by (intro activate_route_advances_dom(1))
  then have "remaining ex' \<le> remaining ex" by (rule advances_remaining)
  then show ?case by (auto simp: le_less)
qed

declare activate.simps [simp del] route.simps [simp del] route_loop.simps [simp del]

section \<open>Operations\<close>

definition start :: "workflow_execution \<Rightarrow> time option \<Rightarrow> time \<Rightarrow> workflow_execution result" where
  "start ex at now =
     (if we_status ex \<noteq> WPending
      then Inl (WorkflowExecutionError ''only a pending workflow can be started'')
      else let changed_at = at_or_now at now in
        activate (touch (ex\<lparr>we_status := WRunning, we_started_at := Some changed_at\<rparr>) changed_at)
          (ws_entry_node (we_snapshot ex)) changed_at)"

definition begin_task ::
    "workflow_execution \<Rightarrow> string \<Rightarrow> time option \<Rightarrow> time \<Rightarrow> workflow_execution result" where
  "begin_task ex key at now =
     rbind (node_execution_of ex key) (\<lambda>n.
     rbind (snapshot_node (we_snapshot ex) key) (\<lambda>d.
       if nd_kind d \<noteq> KTask \<or> ne_status n \<noteq> NReady
       then Inl (WorkflowExecutionError ''only a ready task node can begin'')
       else if nd_max_attempts d \<le> ne_attempt_count n
       then Inl (WorkflowExecutionError ''node attempt limit has been reached'')
       else let changed_at = at_or_now at now in
         Inr (touch (put_node ex key (n\<lparr>ne_status := NRunning,
           ne_attempt_count := ne_attempt_count n + 1, ne_started_at := Some changed_at,
           ne_updated_at := changed_at\<rparr>)) changed_at)))"

text \<open>\<open>fresh\<close> is the token \<^verbatim>\<open>uuid4()\<close> would return.\<close>

definition claim_task ::
    "workflow_execution \<Rightarrow> string \<Rightarrow> string \<Rightarrow> int \<Rightarrow> uuid option \<Rightarrow> uuid \<Rightarrow> time option \<Rightarrow> time
       \<Rightarrow> workflow_execution result" where
  "claim_task ex key worker_id lease_seconds lease_token fresh at now =
     (if blank worker_id then Inl (WorkflowExecutionError ''worker_id must not be empty'')
      else if lease_seconds < 1
      then Inl (WorkflowExecutionError ''lease_seconds must be greater than zero'')
      else let changed_at = at_or_now at now in
        rbind (begin_task ex key (Some changed_at) now) (\<lambda>ex'.
        rbind (node_execution_of ex' key) (\<lambda>n.
          Inr (put_node ex' key (n\<lparr>ne_worker_id := Some worker_id,
            ne_lease_token := Some (case lease_token of None \<Rightarrow> fresh | Some t \<Rightarrow> t),
            ne_lease_expires_at := Some (changed_at + seconds lease_seconds)\<rparr>)))))"

definition validate_optional_lease :: "node_execution \<Rightarrow> uuid option \<Rightarrow> time \<Rightarrow> unit result" where
  "validate_optional_lease n lease_token changed_at =
     (case ne_lease_token n of
        None \<Rightarrow> if lease_token \<noteq> None then Inl (WorkflowExecutionError ''node is not leased'') else Inr ()
      | Some t \<Rightarrow>
          if lease_token \<noteq> Some t
          then Inl (WorkflowExecutionError ''task lease token does not match'')
          else (case ne_lease_expires_at n of
              None \<Rightarrow> Inl (WorkflowExecutionError ''task lease has expired'')
            | Some expires \<Rightarrow>
                if expires \<le> changed_at then Inl (WorkflowExecutionError ''task lease has expired'')
                else Inr ()))"

definition owned_running_node ::
    "workflow_execution \<Rightarrow> string \<Rightarrow> uuid \<Rightarrow> time \<Rightarrow> node_execution result" where
  "owned_running_node ex key lease_token changed_at =
     rbind (node_execution_of ex key) (\<lambda>n.
       if ne_status n \<noteq> NRunning
       then Inl (WorkflowExecutionError ''only a running task node can renew a lease'')
       else rbind (validate_optional_lease n (Some lease_token) changed_at) (\<lambda>_. Inr n))"

definition renew_lease ::
    "workflow_execution \<Rightarrow> string \<Rightarrow> uuid \<Rightarrow> int \<Rightarrow> time option \<Rightarrow> time \<Rightarrow> workflow_execution result" where
  "renew_lease ex key lease_token lease_seconds at now =
     (if lease_seconds < 1
      then Inl (WorkflowExecutionError ''lease_seconds must be greater than zero'')
      else let changed_at = at_or_now at now in
        rbind (owned_running_node ex key lease_token changed_at) (\<lambda>n.
          Inr (touch (put_node ex key (n\<lparr>ne_lease_expires_at := Some (changed_at + seconds lease_seconds),
            ne_updated_at := changed_at\<rparr>)) changed_at)))"

definition complete_task ::
    "workflow_execution \<Rightarrow> string \<Rightarrow> node_outcome \<Rightarrow> json_object option \<Rightarrow> uuid option \<Rightarrow> time option
       \<Rightarrow> time \<Rightarrow> workflow_execution result" where
  "complete_task ex key outcome outp lease_token at now =
     rbind (node_execution_of ex key) (\<lambda>n.
       if ne_status n \<noteq> NRunning
       then Inl (WorkflowExecutionError ''only a running task node can complete'')
       else if outcome \<notin> {OSuccess, OFailure}
       then Inl (WorkflowExecutionError ''task nodes require success or failure outcome'')
       else let changed_at = at_or_now at now in
         rbind (validate_optional_lease n lease_token changed_at) (\<lambda>_.
           route (touch (put_node ex key (clear_lease (n\<lparr>ne_status := NSucceeded,
               ne_outcome := Some outcome, ne_output := outp, ne_completed_at := Some changed_at,
               ne_updated_at := changed_at\<rparr>))) changed_at)
             key outcome outp changed_at))"

definition handle_task_failure ::
    "workflow_execution \<Rightarrow> string \<Rightarrow> node_execution \<Rightarrow> string \<Rightarrow> time \<Rightarrow> workflow_execution result" where
  "handle_task_failure ex key n reason changed_at =
     rbind (snapshot_node (we_snapshot ex) (ne_node_key n)) (\<lambda>d.
       if ne_attempt_count n < nd_max_attempts d
       then Inr (touch (put_node ex key ((clear_lease n)\<lparr>ne_status := NReady,
           ne_updated_at := changed_at\<rparr>)) changed_at)
       else Inr (fail_execution (put_node ex key ((clear_lease n)\<lparr>ne_status := NFailed,
           ne_completed_at := Some changed_at, ne_updated_at := changed_at\<rparr>))
         (if blank reason then ''task execution failed'' else py_strip reason) changed_at))"

definition fail_task ::
    "workflow_execution \<Rightarrow> string \<Rightarrow> string \<Rightarrow> uuid option \<Rightarrow> time option \<Rightarrow> time
       \<Rightarrow> workflow_execution result" where
  "fail_task ex key reason lease_token at now =
     rbind (node_execution_of ex key) (\<lambda>n.
       if ne_status n \<noteq> NRunning
       then Inl (WorkflowExecutionError ''only a running task node can fail'')
       else let changed_at = at_or_now at now in
         rbind (validate_optional_lease n lease_token changed_at) (\<lambda>_.
           handle_task_failure ex key n reason changed_at))"

definition expire_task ::
    "workflow_execution \<Rightarrow> string \<Rightarrow> time option \<Rightarrow> time \<Rightarrow> workflow_execution result" where
  "expire_task ex key at now =
     rbind (node_execution_of ex key) (\<lambda>n.
       let changed_at = at_or_now at now in
       case (ne_status n = NRunning, ne_lease_expires_at n) of
         (True, Some expires) \<Rightarrow>
           if changed_at < expires then Inl (WorkflowExecutionError ''node lease has not expired'')
           else handle_task_failure ex key n ''task lease expired'' changed_at
       | _ \<Rightarrow> Inl (WorkflowExecutionError ''node has no active lease''))"

definition resolve_approval ::
    "workflow_execution \<Rightarrow> string \<Rightarrow> bool \<Rightarrow> time option \<Rightarrow> time \<Rightarrow> workflow_execution result" where
  "resolve_approval ex key approved at now =
     rbind (node_execution_of ex key) (\<lambda>n.
       if ne_status n \<noteq> NAwaitingApproval
       then Inl (WorkflowExecutionError ''node is not awaiting approval'')
       else let changed_at = at_or_now at now; outcome = (if approved then OApproved else ORejected) in
         route (touch ((put_node ex key (n\<lparr>ne_status := NSucceeded, ne_outcome := Some outcome,
             ne_completed_at := Some changed_at, ne_updated_at := changed_at\<rparr>))
             \<lparr>we_status := WRunning\<rparr>) changed_at)
           key outcome None changed_at)"

definition cancel :: "workflow_execution \<Rightarrow> time option \<Rightarrow> time \<Rightarrow> workflow_execution result" where
  "cancel ex at now =
     (if is_terminal ex then Inl (WorkflowExecutionError ''terminal workflow cannot be cancelled'')
      else let changed_at = at_or_now at now in
        Inr (touch ((cancel_active_nodes ex changed_at)\<lparr>we_status := WCancelled,
          we_completed_at := Some changed_at\<rparr>) changed_at))"

end
