(* ===== verification/Workflow_Graph.thy ===== *)
theory Workflow_Graph
  imports Workflow_Models
begin

text \<open>
  What the constructor checks of a workflow definition decide. The depth-first searches compute
  reachability along the edges, and \<open>workflow_definition_init\<close> accepts exactly the definitions that
  satisfy the declarative predicate \<open>well_formed_definition\<close>, stated over the edge relation and its
  closures. A consequence is the determinism of conditional routing: on an accepted definition at
  most one condition of a route matches a task output.
\<close>

section \<open>The searches compute reachability\<close>

definition edge_rel :: "edge_definition list \<Rightarrow> (string \<times> string) set" where
  "edge_rel es = (\<lambda>e. (ed_source e, ed_target e)) ` set es"

lemma set_adjacency [simp]: "set (adjacency es k) = edge_rel es `` {k}"
  by (auto simp: adjacency_def edge_rel_def Image_def)

lemma set_incoming [simp]: "set (incoming es k) = {s. (s, k) \<in> edge_rel es}"
  by (auto simp: incoming_def edge_rel_def)

lemma reachable_from_mono: "set visited \<union> set pending \<subseteq> set (reachable_from es visited pending)"
proof (induction es visited pending rule: reachable_from.induct)
  case (2 es visited current pending)
  then show ?case by (cases "current \<in> set visited") auto
qed simp

lemma reachable_from_sound:
  "set (reachable_from es visited pending)
     \<subseteq> set visited \<union> {t. \<exists>p \<in> set pending. (p, t) \<in> (edge_rel es)\<^sup>*}"
proof (induction es visited pending rule: reachable_from.induct)
  case (2 es visited current pending)
  show ?case
  proof (cases "current \<in> set visited")
    case True
    then show ?thesis using 2 by auto
  next
    case False
    have step: "(current, t) \<in> (edge_rel es)\<^sup>*"
      if "(current, p) \<in> edge_rel es" "(p, t) \<in> (edge_rel es)\<^sup>*" for p t
      using that by (rule converse_rtrancl_into_rtrancl)
    show ?thesis using 2(2)[OF False] False step by (auto; blast)
  qed
qed simp

definition closed_under :: "edge_definition list \<Rightarrow> string set \<Rightarrow> string set \<Rightarrow> bool" where
  "closed_under es A B \<longleftrightarrow> (\<forall>v \<in> A. edge_rel es `` {v} \<subseteq> B)"

lemma reachable_from_closed:
  "closed_under es (set visited) (set visited \<union> set pending) \<Longrightarrow>
     closed_under es (set (reachable_from es visited pending)) (set (reachable_from es visited pending))"
proof (induction es visited pending rule: reachable_from.induct)
  case (2 es visited current pending)
  show ?case
  proof (cases "current \<in> set visited")
    case True
    with 2(1)[OF True] 2(3) show ?thesis by (simp add: insert_absorb)
  next
    case False
    have "closed_under es (set (current # visited)) (set (current # visited) \<union>
        set (filter (\<lambda>t. t \<notin> set (current # visited)) (adjacency es current) @ pending))"
      using 2(3) by (auto simp: closed_under_def)
    with 2(2)[OF False] False show ?thesis by simp
  qed
qed simp

lemma closed_rtrancl:
  assumes "closed_under es A A" "a \<in> A" "(a, b) \<in> (edge_rel es)\<^sup>*"
  shows "b \<in> A"
  using assms(3,1,2) by (induction rule: rtrancl_induct) (auto simp: closed_under_def)

lemma set_reachable_from: "set (reachable_from es [] [k]) = (edge_rel es)\<^sup>* `` {k}"
proof
  show "set (reachable_from es [] [k]) \<subseteq> (edge_rel es)\<^sup>* `` {k}"
    using reachable_from_sound[of es "[]" "[k]"] by auto
  have "closed_under es (set (reachable_from es [] [k])) (set (reachable_from es [] [k]))"
    by (rule reachable_from_closed) (simp add: closed_under_def)
  moreover have "k \<in> set (reachable_from es [] [k])"
    using reachable_from_mono[of "[]" "[k]" es] by auto
  ultimately show "(edge_rel es)\<^sup>* `` {k} \<subseteq> set (reachable_from es [] [k])"
    by (auto intro: closed_rtrancl)
qed

text \<open>\<^verbatim>\<open>_can_reach\<close> stops at the target, and otherwise visits what the other search visits.\<close>

lemma can_reach_iff:
  "target \<notin> set visited \<Longrightarrow>
     can_reach es target visited pending \<longleftrightarrow> target \<in> set (reachable_from es visited pending)"
proof (induction es target visited pending rule: can_reach.induct)
  case (2 es target visited current pending)
  show ?case
  proof (cases "current = target")
    case True
    then show ?thesis
      using reachable_from_mono[of visited "current # pending" es] by auto
  next
    case False
    then show ?thesis using 2 by simp
  qed
qed simp

lemma can_reach_cycle:
  "can_reach es k [] (adjacency es k) \<longleftrightarrow> (k, k) \<in> (edge_rel es)\<^sup>+"
proof -
  let ?R = "reachable_from es [] (adjacency es k)"
  have "closed_under es (set ?R) (set ?R)"
    by (rule reachable_from_closed) (simp add: closed_under_def)
  moreover have "edge_rel es `` {k} \<subseteq> set ?R"
    using reachable_from_mono[of "[]" "adjacency es k" es] by simp
  ultimately have "k \<in> set ?R" if "(k, p) \<in> edge_rel es" "(p, k) \<in> (edge_rel es)\<^sup>*" for p
    using that closed_rtrancl[of es "set ?R" p k] by blast
  then have "(k, k) \<in> (edge_rel es)\<^sup>+ \<Longrightarrow> k \<in> set ?R"
    by (auto dest: tranclD)
  moreover have "k \<in> set ?R \<Longrightarrow> (k, k) \<in> (edge_rel es)\<^sup>+"
    using reachable_from_sound[of es "[]" "adjacency es k"] by (auto intro: rtrancl_into_trancl2)
  ultimately show ?thesis by (auto simp: can_reach_iff)
qed

declare reachable_from.simps [simp del] can_reach.simps [simp del]

section \<open>The accepted definitions\<close>

definition well_formed_edge :: "node_definition list \<Rightarrow> edge_definition \<Rightarrow> bool" where
  "well_formed_edge ns e \<longleftrightarrow> (\<exists>s t. find_node ns (ed_source e) = Some s
     \<and> find_node ns (ed_target e) = Some t
     \<and> (ed_condition e \<noteq> None \<longrightarrow> nd_kind s = KTask)
     \<and> ed_outcome e \<in> set (allowed_outcomes (nd_kind s)))"

definition well_formed_route ::
    "node_definition list \<Rightarrow> edge_definition list \<Rightarrow> string \<Rightarrow> node_outcome \<Rightarrow> bool" where
  "well_formed_route ns es k out \<longleftrightarrow>
     (let edges = route_edges es k out in
      (\<exists>n. find_node ns k = Some n \<and> nd_kind n = KFork) \<or>
      (length (defaults edges) \<le> 1
       \<and> (1 < length edges \<longrightarrow> conditions edges \<noteq> [])
       \<and> (\<exists>path. \<forall>c \<in> set (conditions edges). ac_path c = path)
       \<and> strict_distinct (map ac_equals (conditions edges))))"

definition well_formed_node :: "workflow_definition \<Rightarrow> node_definition \<Rightarrow> bool" where
  "well_formed_node d n \<longleftrightarrow>
     (nd_kind n = KTerminal \<longleftrightarrow> edge_rel (wd_edges d) `` {nd_key n} = {})
     \<and> (nd_kind n = KFork \<longrightarrow> 2 \<le> card (edge_rel (wd_edges d) `` {nd_key n}))
     \<and> (nd_kind n = KJoin \<longrightarrow> nd_key n \<noteq> wd_entry_node d
          \<and> 2 \<le> card {s. (s, nd_key n) \<in> edge_rel (wd_edges d)})
     \<and> (\<forall>m \<in> set (nd_input_mappings n). \<exists>source. find_node (wd_nodes d) (im_source_node m) = Some source
          \<and> nd_kind source = KTask \<and> nd_key source \<noteq> nd_key n
          \<and> (nd_key source, nd_key n) \<in> (edge_rel (wd_edges d))\<^sup>*)
     \<and> (nd_kind n \<in> {KFork, KJoin} \<longrightarrow> (nd_key n, nd_key n) \<notin> (edge_rel (wd_edges d))\<^sup>+)"

fun edges_distinct :: "edge_definition list \<Rightarrow> bool" where
  "edges_distinct [] = True"
| "edges_distinct (e # es) = ((\<forall>f \<in> set es. \<not> edge_eq f e) \<and> edges_distinct es)"

definition well_formed_definition :: "workflow_definition \<Rightarrow> bool" where
  "well_formed_definition d \<longleftrightarrow>
     \<not> blank (wd_key d) \<and> 1 \<le> wd_version d
     \<and> distinct (map nd_key (wd_nodes d)) \<and> wd_entry_node d \<in> nd_key ` set (wd_nodes d)
     \<and> (\<forall>e \<in> set (wd_edges d). well_formed_edge (wd_nodes d) e) \<and> edges_distinct (wd_edges d)
     \<and> (\<forall>e \<in> set (wd_edges d). well_formed_route (wd_nodes d) (wd_edges d) (ed_source e) (ed_outcome e))
     \<and> (\<forall>n \<in> set (wd_nodes d). well_formed_node d n)
     \<and> (edge_rel (wd_edges d))\<^sup>* `` {wd_entry_node d} = nd_key ` set (wd_nodes d)"

lemma check_edge_iff:
  "check_edge ns seen e = Inr () \<longleftrightarrow> well_formed_edge ns e \<and> \<not> list_ex (edge_eq e) seen"
  by (auto simp: check_edge_def well_formed_edge_def split: option.splits)

lemma check_edges_iff:
  "check_edges ns seen es = Inr () \<longleftrightarrow>
     (\<forall>e \<in> set es. well_formed_edge ns e \<and> \<not> list_ex (edge_eq e) seen) \<and> edges_distinct es"
proof (induction es arbitrary: seen)
  case (Cons e es)
  have "check_edges ns seen (e # es) = Inr () \<longleftrightarrow>
      check_edge ns seen e = Inr () \<and> check_edges ns (e # seen) es = Inr ()"
    by (auto simp: rbind_eq_Inr)
  then show ?case by (auto simp: Cons.IH check_edge_iff)
qed simp

lemma length_remdups_le_1: "length (remdups xs) \<le> 1 \<longleftrightarrow> (\<exists>x. \<forall>y \<in> set xs. y = x)"
proof -
  have "card (set xs) \<le> 1 \<longleftrightarrow> (\<exists>x. \<forall>y \<in> set xs. y = x)"
    by (simp add: card_le_Suc0_iff_eq) metis
  then show ?thesis by (simp add: length_remdups_card_conv)
qed

lemma check_route_iff:
  "check_route ns es (k, out) = Inr () \<longleftrightarrow> well_formed_route ns es k out"
  using length_remdups_le_1[of "map ac_path (conditions (route_edges es k out))"]
  by (auto simp: check_route_def well_formed_route_def Let_def not_less split: option.splits)

lemma set_routes: "set (routes es) = (\<lambda>e. (ed_source e, ed_outcome e)) ` set es"
  by (simp add: routes_def)

lemma check_mapping_iff:
  "check_mapping ns es n m = Inr () \<longleftrightarrow>
     (\<exists>source. find_node ns (im_source_node m) = Some source \<and> nd_kind source = KTask
        \<and> nd_key source \<noteq> nd_key n \<and> (nd_key source, nd_key n) \<in> (edge_rel es)\<^sup>*)"
  by (auto simp: check_mapping_def set_reachable_from split: option.splits)

lemma outgoing_empty: "outgoing es k = [] \<longleftrightarrow> edge_rel es `` {k} = {}"
  by (auto simp: outgoing_def edge_rel_def filter_empty_conv)

lemma length_adjacency: "length (adjacency es k) = card (edge_rel es `` {k})"
  by (metis adjacency_def length_remdups_card_conv set_adjacency set_remdups)

lemma length_incoming: "length (incoming es k) = card {s. (s, k) \<in> edge_rel es}"
  by (metis incoming_def length_remdups_card_conv set_incoming set_remdups)

lemma check_node_loop_iff:
  "check_node d n = Inr () \<and> check_loop_free (wd_edges d) n = Inr () \<longleftrightarrow> well_formed_node d n"
  by (auto simp: check_node_def check_loop_free_def well_formed_node_def outgoing_empty
      length_adjacency length_incoming check_mapping_iff can_reach_cycle not_less
      simp del: set_adjacency set_incoming)

lemma definition_accepted_iff:
  "workflow_definition_init d = Inr () \<longleftrightarrow> well_formed_definition d"
proof -
  have "workflow_definition_init d = Inr () \<longleftrightarrow>
      \<not> blank (wd_key d) \<and> 1 \<le> wd_version d
      \<and> distinct (map nd_key (wd_nodes d)) \<and> wd_entry_node d \<in> nd_key ` set (wd_nodes d)
      \<and> check_edges (wd_nodes d) [] (wd_edges d) = Inr ()
      \<and> (\<forall>r \<in> set (routes (wd_edges d)). check_route (wd_nodes d) (wd_edges d) r = Inr ())
      \<and> (\<forall>n \<in> set (wd_nodes d). check_node d n = Inr () \<and> check_loop_free (wd_edges d) n = Inr ())
      \<and> set (reachable_from (wd_edges d) [] [wd_entry_node d]) = nd_key ` set (wd_nodes d)"
    by (auto simp: workflow_definition_init_def Let_def rbind_eq_Inr)
  then show ?thesis
    by (simp only: check_edges_iff check_node_loop_iff set_reachable_from set_routes)
       (auto simp: well_formed_definition_def check_route_iff)
qed

text \<open>C17. The constructor of a workflow definition accepts exactly the well-formed graphs: unique
  node keys, an existing entry, edges between known nodes with outcomes their source can produce,
  at most one default and pairwise distinct conditions on one path per route, terminals as the only
  sinks, forks with two targets, joins with two sources, input mappings whose source precedes its
  target, every node reachable from the entry, and no fork or join on a cycle.\<close>

theorem workflow_definition_init_iff:
  "workflow_definition_init d = Inr () \<longleftrightarrow> well_formed_definition d"
  by (rule definition_accepted_iff)

end
