(* ===== verification/Workflow_Invariants.thy ===== *)
theory Workflow_Invariants
  imports Workflow_Engine Workflow_Graph
begin

text \<open>
  The correctness of the workflow engine. The activation cascade is decomposed into primitive
  steps (\<open>micro_step\<close>), so that each invariant is proved once per primitive step and once per
  operation. \<open>engine_step\<close> is the step relation of the whole aggregate: one rule per operation of
  \<^verbatim>\<open>WorkflowEngine\<close>; \<open>reachable_execution\<close> are the aggregates a created execution can become.
\<close>

section \<open>The cascade as primitive steps\<close>

inductive micro_step :: "time \<Rightarrow> workflow_execution \<Rightarrow> workflow_execution \<Rightarrow> bool" for at where
  ms_fail: "\<not> is_terminal ex \<Longrightarrow> \<not> blank reason \<Longrightarrow> micro_step at ex (fail_execution ex reason at)"
| ms_task: "\<not> is_terminal ex \<Longrightarrow> we_nodes ex key = Some n \<Longrightarrow>
    find_node (ws_nodes (we_snapshot ex)) key = Some d \<Longrightarrow> ne_visit_count n < nd_max_visits d \<Longrightarrow>
    nd_kind d = KTask \<Longrightarrow> micro_step at ex (enter_task ex key n at)"
| ms_approval: "\<not> is_terminal ex \<Longrightarrow> we_nodes ex key = Some n \<Longrightarrow>
    find_node (ws_nodes (we_snapshot ex)) key = Some d \<Longrightarrow> ne_visit_count n < nd_max_visits d \<Longrightarrow>
    nd_kind d = KApproval \<Longrightarrow> micro_step at ex (enter_approval ex key n at)"
| ms_control: "\<not> is_terminal ex \<Longrightarrow> we_nodes ex key = Some n \<Longrightarrow>
    find_node (ws_nodes (we_snapshot ex)) key = Some d \<Longrightarrow> ne_visit_count n < nd_max_visits d \<Longrightarrow>
    nd_kind d = KFork \<or> nd_kind d = KJoin \<and> join_is_ready ex key = Inr True \<Longrightarrow>
    micro_step at ex (enter_control ex key n at)"
| ms_terminal: "\<not> is_terminal ex \<Longrightarrow> we_nodes ex key = Some n \<Longrightarrow>
    find_node (ws_nodes (we_snapshot ex)) key = Some d \<Longrightarrow> ne_visit_count n < nd_max_visits d \<Longrightarrow>
    nd_kind d = KTerminal \<Longrightarrow> micro_step at ex (enter_terminal ex key n d at)"

abbreviation cascade :: "time \<Rightarrow> workflow_execution \<Rightarrow> workflow_execution \<Rightarrow> bool" where
  "cascade at \<equiv> (micro_step at)\<^sup>*\<^sup>*"

lemma enter_not_terminal:
  "is_terminal (enter_task ex key n at) = is_terminal ex"
  "\<not> is_terminal (enter_approval ex key n at)"
  "is_terminal (enter_control ex key n at) = is_terminal ex"
  by (simp_all add: engine_update_defs workflow_terminal_def)

lemma failure_reasons_nonblank:
  "\<not> blank (''node visit limit exceeded: '' @ key)" "\<not> blank (route_failure edges source outc)"
  "\<not> blank (''workflow reached failure terminal: '' @ key)"
  by (simp_all add: blank_iff route_failure_def is_space_def)

lemma cascade_decomposition:
  "\<not> is_terminal ex \<Longrightarrow> (\<And>ex'. activate ex key at = Inr ex' \<Longrightarrow> cascade at ex ex')"
  "\<not> is_terminal ex \<Longrightarrow> (\<And>ex'. route ex source outc outp at = Inr ex' \<Longrightarrow> cascade at ex ex')"
  "\<not> is_terminal ex \<Longrightarrow> (\<And>ex'. route_loop ex targets at = Inr ex' \<Longrightarrow> cascade at ex ex')"
proof (induction ex key at and ex source outc outp at and ex targets at
    rule: activate_route_route_loop.induct)
  case (1 ex key at)
  from "1.prems"(2) obtain n d ready where n: "we_nodes ex key = Some n"
    and d: "snapshot_node (we_snapshot ex) key = Inr d"
    and r: "(if nd_kind d = KJoin then join_is_ready ex key else Inr True) = Inr ready"
    and res: "(if \<not> ready then Inr ex
       else if nd_max_visits d \<le> ne_visit_count n
       then Inr (fail_execution ex (''node visit limit exceeded: '' @ key) at)
       else if nd_kind d = KTask then Inr (enter_task ex key n at)
       else if nd_kind d = KApproval then Inr (enter_approval ex key n at)
       else if nd_kind d = KTerminal then Inr (enter_terminal ex key n d at)
       else route (enter_control ex key n at) key OSuccess None at) = Inr ex'"
    by (auto simp: activate.simps)
  have fd: "find_node (ws_nodes (we_snapshot ex)) key = Some d"
    using d by (simp add: snapshot_node_Inr)
  have rec: "cascade at ex ex'"
    if c: "ready" "\<not> nd_max_visits d \<le> ne_visit_count n" "nd_kind d \<noteq> KTask"
      "nd_kind d \<noteq> KApproval" "nd_kind d \<noteq> KTerminal"
      "route (enter_control ex key n at) key OSuccess None at = Inr ex'"
  proof (rule converse_rtranclp_into_rtranclp)
    show "micro_step at ex (enter_control ex key n at)"
      using c r n fd "1.prems"(1) by (cases "nd_kind d") (auto intro!: ms_control split: if_splits)
    show "cascade at (enter_control ex key n at) ex'"
      using "1.IH"[OF _ d r _ c(2-5) _ c(6)] c(1) n "1.prems"(1) by (simp add: enter_not_terminal)
  qed
  show ?case
    using res rec n fd "1.prems"(1) ms_fail[OF "1.prems"(1) failure_reasons_nonblank(1), of at key]
    by (auto intro!: r_into_rtranclp intro: micro_step.intros split: if_splits)
next
  case (2 ex source outc outp at)
  then show ?case
    by (auto simp: route.simps Let_def intro!: r_into_rtranclp ms_fail failure_reasons_nonblank split: if_splits)
next
  case (3 ex at)
  then show ?case by (simp add: route_loop.simps)
next
  case (4 ex target targets at)
  from "4.prems"(2) obtain ex1 where ex1: "activate ex target at = Inr ex1"
    and res: "(if is_terminal ex1 then Inr ex1 else route_loop ex1 targets at) = Inr ex'"
    by (auto simp: route_loop.simps)
  have "cascade at ex ex1" using "4.prems"(1) ex1 by (rule "4.IH")
  moreover have "cascade at ex1 ex'"
    using res "4.IH"(2)[OF ex1] by (auto split: if_splits)
  ultimately show ?case by (rule rtranclp_trans)
qed

section \<open>Steps of the aggregate\<close>

text \<open>
  One rule per operation; \<open>es_renew\<close>, the heartbeat, is kept apart in \<open>progress_step\<close> below because
  it alone makes no progress.
\<close>

inductive progress_step :: "workflow_execution \<Rightarrow> workflow_execution \<Rightarrow> bool" where
  es_start: "start ex at now = Inr ex' \<Longrightarrow> progress_step ex ex'"
| es_begin: "begin_task ex key at now = Inr ex' \<Longrightarrow> progress_step ex ex'"
| es_claim: "claim_task ex key w secs tok fresh at now = Inr ex' \<Longrightarrow> progress_step ex ex'"
| es_complete: "complete_task ex key outc outp tok at now = Inr ex' \<Longrightarrow> progress_step ex ex'"
| es_fail: "fail_task ex key reason tok at now = Inr ex' \<Longrightarrow> progress_step ex ex'"
| es_expire: "expire_task ex key at now = Inr ex' \<Longrightarrow> progress_step ex ex'"
| es_resolve: "resolve_approval ex key approved at now = Inr ex' \<Longrightarrow> progress_step ex ex'"
| es_cancel: "cancel ex at now = Inr ex' \<Longrightarrow> progress_step ex ex'"

inductive engine_step :: "workflow_execution \<Rightarrow> workflow_execution \<Rightarrow> bool" where
  es_progress: "progress_step ex ex' \<Longrightarrow> engine_step ex ex'"
| es_renew: "renew_lease ex key tok secs at now = Inr ex' \<Longrightarrow> engine_step ex ex'"

inductive reachable_execution :: "workflow_snapshot \<Rightarrow> workflow_execution \<Rightarrow> bool" for s where
  re_create: "reachable_execution s (execution_create s eid ids now)"
| re_step: "reachable_execution s ex \<Longrightarrow> engine_step ex ex' \<Longrightarrow> reachable_execution s ex'"

section \<open>Invariants\<close>

definition valid_nodes :: "workflow_snapshot \<Rightarrow> bool" where
  "valid_nodes s \<longleftrightarrow> distinct (map nd_key (ws_nodes s))
     \<and> (\<forall>d \<in> set (ws_nodes s). node_definition_init d = Inr d)"

lemma node_definition_initD:
  assumes "node_definition_init d = Inr d'"
  shows "1 \<le> nd_max_attempts d" "1 \<le> nd_max_visits d"
    "nd_kind d = KTerminal \<Longrightarrow> nd_terminal_status d \<in> {Some WSucceeded, Some WFailed}"
    "nd_kind d \<in> {KFork, KJoin} \<Longrightarrow> nd_max_visits d = 1"
    "nd_phase_pack d = None \<Longrightarrow> nd_input_mappings d = []"
  using assms by (auto simp: node_definition_init_def split: if_splits)

lemma valid_nodesD:
  assumes "valid_nodes s" "find_node (ws_nodes s) key = Some d"
  shows "1 \<le> nd_max_attempts d" "1 \<le> nd_max_visits d"
    "nd_kind d = KTerminal \<Longrightarrow> nd_terminal_status d \<in> {Some WSucceeded, Some WFailed}"
  using assms find_node_SomeD[OF assms(2)] node_definition_initD[of d d]
  by (auto simp: valid_nodes_def)

text \<open>One node against its definition: counters within their limits, the status its kind allows,
  a lease only while running and complete or absent.\<close>

definition node_ok :: "string \<Rightarrow> node_definition \<Rightarrow> node_execution \<Rightarrow> bool" where
  "node_ok k d n \<longleftrightarrow>
     ne_node_key n = k
     \<and> 0 \<le> ne_visit_count n \<and> ne_visit_count n \<le> nd_max_visits d
     \<and> 0 \<le> ne_attempt_count n \<and> ne_attempt_count n \<le> nd_max_attempts d
     \<and> (ne_status n = NReady \<longrightarrow> ne_attempt_count n < nd_max_attempts d)
     \<and> (ne_status n = NPending \<longleftrightarrow> ne_visit_count n = 0)
     \<and> (ne_status n \<in> {NReady, NRunning, NFailed} \<longrightarrow> nd_kind d = KTask)
     \<and> (ne_status n = NAwaitingApproval \<longrightarrow> nd_kind d = KApproval)
     \<and> (ne_lease_token n \<noteq> None \<longrightarrow> ne_status n = NRunning)
     \<and> (ne_lease_token n = None \<longleftrightarrow> ne_lease_expires_at n = None)
     \<and> (ne_lease_token n = None \<longleftrightarrow> ne_worker_id n = None)"

definition nodes_ok :: "workflow_execution \<Rightarrow> bool" where
  "nodes_ok ex \<longleftrightarrow> dom (we_nodes ex) = nd_key ` set (ws_nodes (we_snapshot ex))
     \<and> (\<forall>k n. we_nodes ex k = Some n \<longrightarrow>
          (\<exists>d. find_node (ws_nodes (we_snapshot ex)) k = Some d \<and> node_ok k d n))"

text \<open>The status of the aggregate against its nodes.\<close>

definition status_ok :: "workflow_execution \<Rightarrow> bool" where
  "status_ok ex \<longleftrightarrow>
     (is_terminal ex \<longrightarrow> (\<forall>k n. we_nodes ex k = Some n \<longrightarrow> \<not> active (ne_status n)))
     \<and> (we_status ex = WPending \<longrightarrow> (\<forall>k n. we_nodes ex k = Some n \<longrightarrow> ne_status n = NPending))
     \<and> (we_status ex = WAwaitingApproval \<longrightarrow>
          (\<exists>k n. we_nodes ex k = Some n \<and> ne_status n = NAwaitingApproval))
     \<and> (we_status ex = WFailed \<longleftrightarrow> we_failure_reason ex \<noteq> None)
     \<and> (is_terminal ex \<longleftrightarrow> we_completed_at ex \<noteq> None)"

definition exec_inv :: "workflow_execution \<Rightarrow> bool" where
  "exec_inv ex \<longleftrightarrow> valid_nodes (we_snapshot ex) \<and> nodes_ok ex \<and> status_ok ex"

lemmas exec_inv_defs = exec_inv_def nodes_ok_def status_ok_def

subsection \<open>Node updates\<close>

lemma nodes_ok_put:
  assumes "nodes_ok ex" "find_node (ws_nodes (we_snapshot ex)) key = Some d" "node_ok key d n"
    "we_nodes ex' = (we_nodes ex)(key \<mapsto> n)" "we_snapshot ex' = we_snapshot ex"
  shows "nodes_ok ex'"
  using assms find_node_SomeD[OF assms(2)] by (auto simp: nodes_ok_def)

lemma node_ok_cancel: "node_ok k d n \<Longrightarrow> node_ok k d (cancel_node at n)"
  by (auto simp: node_ok_def cancel_node_def clear_lease_def active_def)

lemma nodes_ok_cancel:
  assumes "nodes_ok ex" "we_nodes ex' = (\<lambda>k. map_option (cancel_node at) (we_nodes ex k))"
    "we_snapshot ex' = we_snapshot ex"
  shows "nodes_ok ex'"
  using assms by (fastforce simp: nodes_ok_def dom_def intro: node_ok_cancel)

lemma cancel_node_inactive [simp]: "\<not> active (ne_status (cancel_node at n))"
  by (simp add: cancel_node_def clear_lease_def active_def)

lemma node_ok_enter:
  assumes "node_ok k d n" "1 \<le> nd_max_attempts d" "ne_visit_count n < nd_max_visits d"
  shows "nd_kind d = KTask \<Longrightarrow> node_ok k d ((enter_node n at)\<lparr>ne_status := NReady\<rparr>)"
    and "nd_kind d = KApproval \<Longrightarrow> node_ok k d ((enter_node n at)\<lparr>ne_status := NAwaitingApproval\<rparr>)"
    and "node_ok k d (pass_node n at)"
  using assms by (auto simp: node_ok_def enter_node_def pass_node_def clear_lease_def)

lemma fail_execution_fields [simp]:
  "we_status (fail_execution ex reason at) = WFailed"
  "we_nodes (fail_execution ex reason at) = (\<lambda>k. map_option (cancel_node at) (we_nodes ex k))"
  "we_failure_reason (fail_execution ex reason at) = Some reason"
  "we_completed_at (fail_execution ex reason at) = Some at"
  by (simp_all add: fail_execution_def touch_def cancel_active_nodes_def)

lemma status_ok_all_cancelled:
  assumes "we_nodes ex' = (\<lambda>k. map_option (cancel_node at) (f k))" "is_terminal ex'"
    "we_status ex' = WFailed \<longleftrightarrow> we_failure_reason ex' \<noteq> None" "we_completed_at ex' \<noteq> None"
  shows "status_ok ex'"
  using assms by (auto simp: status_ok_def workflow_terminal_def)

lemma exec_inv_fail:
  assumes "valid_nodes (we_snapshot ex)" "nodes_ok ex"
  shows "exec_inv (fail_execution ex reason at)"
  using assms
  by (auto simp: exec_inv_def workflow_terminal_def intro: nodes_ok_cancel status_ok_all_cancelled)

subsection \<open>Every primitive step keeps the invariant\<close>

lemma exec_invD:
  assumes "exec_inv ex" "we_nodes ex key = Some n" "find_node (ws_nodes (we_snapshot ex)) key = Some d"
  shows "node_ok key d n" "1 \<le> nd_max_attempts d"
proof -
  have v: "valid_nodes (we_snapshot ex)" and nodes: "nodes_ok ex"
    using assms(1) by (auto simp: exec_inv_def)
  from nodes assms(2) obtain d' where "find_node (ws_nodes (we_snapshot ex)) key = Some d'" "node_ok key d' n"
    unfolding nodes_ok_def by blast
  with assms(3) show "node_ok key d n" by simp
  from valid_nodesD(1)[OF v assms(3)] show "1 \<le> nd_max_attempts d" .
qed

lemma enter_fields [simp]:
  "we_nodes (enter_task ex key n at) = (we_nodes ex)(key \<mapsto> (enter_node n at)\<lparr>ne_status := NReady\<rparr>)"
  "we_nodes (enter_approval ex key n at) =
     (we_nodes ex)(key \<mapsto> (enter_node n at)\<lparr>ne_status := NAwaitingApproval\<rparr>)"
  "we_nodes (enter_control ex key n at) = (we_nodes ex)(key \<mapsto> pass_node n at)"
  "we_nodes (enter_terminal ex key n d at) =
     (\<lambda>k. map_option (cancel_node at) (((we_nodes ex)(key \<mapsto> pass_node n at)) k))"
  "we_status (enter_task ex key n at) = we_status ex"
  "we_status (enter_approval ex key n at) = WAwaitingApproval"
  "we_status (enter_control ex key n at) = we_status ex"
  "we_status (enter_terminal ex key n d at) =
     (case nd_terminal_status d of None \<Rightarrow> WFailed | Some s \<Rightarrow> s)"
  "we_failure_reason (enter_task ex key n at) = we_failure_reason ex"
  "we_failure_reason (enter_approval ex key n at) = we_failure_reason ex"
  "we_failure_reason (enter_control ex key n at) = we_failure_reason ex"
  "we_failure_reason (enter_terminal ex key n d at) =
     (if we_status (enter_terminal ex key n d at) = WFailed
      then Some (''workflow reached failure terminal: '' @ key) else we_failure_reason ex)"
  "we_completed_at (enter_task ex key n at) = we_completed_at ex"
  "we_completed_at (enter_approval ex key n at) = we_completed_at ex"
  "we_completed_at (enter_control ex key n at) = we_completed_at ex"
  "we_completed_at (enter_terminal ex key n d at) = Some at"
  by (simp_all add: enter_task_def enter_approval_def enter_control_def enter_terminal_def touch_def
      put_node_def cancel_active_nodes_def Let_def)

lemma status_ok_running:
  assumes "status_ok ex" "we_status ex \<noteq> WPending" "\<not> is_terminal ex"
    "we_status ex' = we_status ex" "we_failure_reason ex' = we_failure_reason ex"
    "we_completed_at ex' = we_completed_at ex"
    "we_nodes ex' = (we_nodes ex)(key \<mapsto> n')"
    "\<And>n. we_nodes ex key = Some n \<Longrightarrow> ne_status n = NAwaitingApproval \<Longrightarrow> ne_status n' = NAwaitingApproval"
  shows "status_ok ex'"
  using assms by (fastforce simp: status_ok_def)

lemma micro_step_inv:
  assumes "micro_step at ex ex'" "exec_inv ex" "we_status ex \<noteq> WPending"
  shows "exec_inv ex' \<and> we_status ex' \<noteq> WPending"
  using assms
proof (induction rule: micro_step.induct)
  case (ms_fail ex reason)
  then show ?case using exec_inv_fail by (simp add: exec_inv_def)
next
  case (ms_task ex key n d)
  note ok = exec_invD[OF ms_task(6,2,3)]
  have "nodes_ok (enter_task ex key n at)"
    by (rule nodes_ok_put[OF _ ms_task(3) node_ok_enter(1)[where at = at, OF ok(1,2) ms_task(4,5)]])
      (use ms_task in \<open>auto simp: exec_inv_def\<close>)
  moreover have "status_ok (enter_task ex key n at)"
    by (rule status_ok_running[where ex = ex, OF _ _ _ _ _ _ enter_fields(1)])
      (use ms_task ok(1) in \<open>auto simp: exec_inv_def node_ok_def\<close>)
  ultimately show ?case using ms_task by (simp add: exec_inv_def)
next
  case (ms_approval ex key n d)
  note ok = exec_invD[OF ms_approval(6,2,3)]
  have "nodes_ok (enter_approval ex key n at)"
    by (rule nodes_ok_put[OF _ ms_approval(3) node_ok_enter(2)[where at = at, OF ok(1,2) ms_approval(4,5)]])
      (use ms_approval in \<open>auto simp: exec_inv_def\<close>)
  moreover have "status_ok (enter_approval ex key n at)"
    using ms_approval by (auto simp: exec_inv_def status_ok_def workflow_terminal_def)
  ultimately show ?case using ms_approval by (simp add: exec_inv_def)
next
  case (ms_control ex key n d)
  note ok = exec_invD[OF ms_control(6,2,3)]
  have "nodes_ok (enter_control ex key n at)"
    by (rule nodes_ok_put[OF _ ms_control(3) node_ok_enter(3)[where at = at, OF ok(1,2) ms_control(4)]])
      (use ms_control in \<open>auto simp: exec_inv_def\<close>)
  moreover have "status_ok (enter_control ex key n at)"
    by (rule status_ok_running[where ex = ex, OF _ _ _ _ _ _ enter_fields(3)])
      (use ms_control ok(1) in \<open>auto simp: exec_inv_def node_ok_def\<close>)
  ultimately show ?case using ms_control by (simp add: exec_inv_def)
next
  case (ms_terminal ex key n d)
  note ok = exec_invD[OF ms_terminal(6,2,3)]
  have ts: "nd_terminal_status d \<in> {Some WSucceeded, Some WFailed}"
    using valid_nodesD(3)[OF _ ms_terminal(3,5)] ms_terminal(6) by (simp add: exec_inv_def)
  have "nodes_ok (put_node ex key (pass_node n at))"
    by (rule nodes_ok_put[OF _ ms_terminal(3) node_ok_enter(3)[where at = at, OF ok(1,2) ms_terminal(4)]])
      (use ms_terminal in \<open>auto simp: exec_inv_def put_node_def\<close>)
  then have "nodes_ok (enter_terminal ex key n d at)"
    by (rule nodes_ok_cancel) (auto simp: put_node_def)
  moreover have "status_ok (enter_terminal ex key n d at)"
    by (rule status_ok_all_cancelled)
      (use ts ms_terminal(1,6) in \<open>auto simp: exec_inv_def status_ok_def workflow_terminal_def\<close>)
  ultimately show ?case using ms_terminal ts by (auto simp: exec_inv_def)
qed

lemma cascade_inv:
  assumes "cascade at ex ex'" "exec_inv ex" "we_status ex \<noteq> WPending"
  shows "exec_inv ex' \<and> we_status ex' \<noteq> WPending"
  using assms by (induction rule: rtranclp_induct) (auto dest: micro_step_inv)

subsection \<open>Every operation keeps the invariant\<close>

lemma active_not_terminal:
  assumes "exec_inv ex" "we_nodes ex key = Some n" "active (ne_status n)"
  shows "\<not> is_terminal ex" "we_status ex \<noteq> WPending"
  using assms by (auto simp: exec_inv_def status_ok_def active_def)

lemma exec_inv_node:
  assumes "exec_inv ex" "we_nodes ex key = Some n"
  obtains d where "find_node (ws_nodes (we_snapshot ex)) key = Some d" "node_ok key d n"
    "1 \<le> nd_max_attempts d"
proof -
  from assms obtain d where d: "find_node (ws_nodes (we_snapshot ex)) key = Some d"
    unfolding exec_inv_def nodes_ok_def by blast
  from that[OF d exec_invD[OF assms d]] show thesis .
qed

text \<open>An active node is replaced, the rest of the aggregate keeps its status.\<close>

lemma exec_inv_put:
  assumes inv: "exec_inv ex" and n: "we_nodes ex key = Some n" "active (ne_status n)"
    and d: "find_node (ws_nodes (we_snapshot ex)) key = Some d" "node_ok key d n'"
    and ex': "we_nodes ex' = (we_nodes ex)(key \<mapsto> n')" "we_snapshot ex' = we_snapshot ex"
      "we_failure_reason ex' = we_failure_reason ex" "we_completed_at ex' = we_completed_at ex"
    and st: "we_status ex' = we_status ex \<and> ne_status n \<noteq> NAwaitingApproval \<or> we_status ex' = WRunning"
  shows "exec_inv ex' \<and> \<not> is_terminal ex' \<and> we_status ex' \<noteq> WPending"
proof -
  note nt = active_not_terminal[OF inv n]
  have "nodes_ok ex'"
    by (rule nodes_ok_put[OF _ d ex'(1,2)]) (use inv in \<open>simp add: exec_inv_def\<close>)
  moreover have "status_ok ex'"
  proof (cases "we_status ex' = WRunning")
    case True
    then show ?thesis
      using nt inv ex' by (auto simp: exec_inv_def status_ok_def workflow_terminal_def)
  next
    case False
    with st have "we_status ex' = we_status ex" "ne_status n \<noteq> NAwaitingApproval" by auto
    then show ?thesis
      by (intro status_ok_running[where ex = ex, OF _ _ _ _ _ _ ex'(1)])
         (use nt inv n ex' in \<open>auto simp: exec_inv_def\<close>)
  qed
  moreover have "\<not> is_terminal ex' \<and> we_status ex' \<noteq> WPending"
    using st nt by (auto simp: workflow_terminal_def)
  ultimately show ?thesis using inv ex'(2) by (simp add: exec_inv_def)
qed

lemma start_inv:
  assumes "start ex at now = Inr ex'" "exec_inv ex"
  shows "exec_inv ex'"
proof -
  define t where "t = at_or_now at now"
  define ex1 where "ex1 = touch (ex\<lparr>we_status := WRunning, we_started_at := Some t\<rparr>) t"
  have pend: "we_status ex = WPending"
    and act: "activate ex1 (ws_entry_node (we_snapshot ex)) t = Inr ex'"
    using assms(1) by (auto simp: start_def t_def ex1_def Let_def split: if_splits)
  have "exec_inv ex1" "\<not> is_terminal ex1" "we_status ex1 \<noteq> WPending"
    using assms(2) pend
    by (auto simp: ex1_def touch_def exec_inv_def nodes_ok_def status_ok_def workflow_terminal_def)
  with cascade_inv[OF cascade_decomposition(1)[OF _ act]] show ?thesis by blast
qed

lemma begin_taskD:
  assumes "begin_task ex key at now = Inr ex'"
  obtains n d where "we_nodes ex key = Some n" "find_node (ws_nodes (we_snapshot ex)) key = Some d"
    "nd_kind d = KTask" "ne_status n = NReady" "ne_attempt_count n < nd_max_attempts d"
    "ex' = touch (put_node ex key (n\<lparr>ne_status := NRunning,
       ne_attempt_count := ne_attempt_count n + 1, ne_started_at := Some (at_or_now at now),
       ne_updated_at := at_or_now at now\<rparr>)) (at_or_now at now)"
  using assms by (auto simp: begin_task_def snapshot_node_Inr Let_def not_le split: if_splits)

lemma begin_task_inv:
  assumes "begin_task ex key at now = Inr ex'" "exec_inv ex"
  shows "exec_inv ex'"
proof -
  from assms(1) obtain n d where b: "we_nodes ex key = Some n"
    "find_node (ws_nodes (we_snapshot ex)) key = Some d" "nd_kind d = KTask" "ne_status n = NReady"
    "ne_attempt_count n < nd_max_attempts d"
    "ex' = touch (put_node ex key (n\<lparr>ne_status := NRunning,
       ne_attempt_count := ne_attempt_count n + 1, ne_started_at := Some (at_or_now at now),
       ne_updated_at := at_or_now at now\<rparr>)) (at_or_now at now)"
    by (rule begin_taskD)
  have "exec_inv ex' \<and> \<not> is_terminal ex' \<and> we_status ex' \<noteq> WPending"
    by (rule exec_inv_put[OF assms(2) b(1) _ b(2)])
       (use b exec_invD(1)[OF assms(2) b(1,2)] in
         \<open>auto simp: touch_def put_node_def node_ok_def active_def\<close>)
  then show ?thesis by blast
qed

lemma claim_taskD:
  assumes "claim_task ex key w secs tok fresh at now = Inr ex'"
  obtains n d t where "we_nodes ex key = Some n" "find_node (ws_nodes (we_snapshot ex)) key = Some d"
    "nd_kind d = KTask" "ne_status n = NReady" "ne_attempt_count n < nd_max_attempts d"
    "\<not> blank w" "1 \<le> secs" "t = at_or_now at now"
    "ex' = put_node (touch ex t) key (n\<lparr>ne_status := NRunning,
       ne_attempt_count := ne_attempt_count n + 1, ne_started_at := Some t, ne_updated_at := t,
       ne_worker_id := Some w, ne_lease_token := Some (case tok of None \<Rightarrow> fresh | Some k \<Rightarrow> k),
       ne_lease_expires_at := Some (t + seconds secs)\<rparr>)"
  using assms
  by (auto simp: claim_task_def Let_def touch_def put_node_def elim!: begin_taskD split: if_splits)

lemma claim_task_inv:
  assumes "claim_task ex key w secs tok fresh at now = Inr ex'" "exec_inv ex"
  shows "exec_inv ex'"
proof -
  from assms(1) obtain n d t where c: "we_nodes ex key = Some n"
    "find_node (ws_nodes (we_snapshot ex)) key = Some d" "nd_kind d = KTask" "ne_status n = NReady"
    "ne_attempt_count n < nd_max_attempts d"
    "ex' = put_node (touch ex t) key (n\<lparr>ne_status := NRunning,
       ne_attempt_count := ne_attempt_count n + 1, ne_started_at := Some t, ne_updated_at := t,
       ne_worker_id := Some w, ne_lease_token := Some (case tok of None \<Rightarrow> fresh | Some k \<Rightarrow> k),
       ne_lease_expires_at := Some (t + seconds secs)\<rparr>)"
    by (rule claim_taskD)
  have "exec_inv ex' \<and> \<not> is_terminal ex' \<and> we_status ex' \<noteq> WPending"
    by (rule exec_inv_put[OF assms(2) c(1) _ c(2)])
       (use c exec_invD(1)[OF assms(2) c(1,2)] in
         \<open>auto simp: touch_def put_node_def node_ok_def active_def\<close>)
  then show ?thesis by blast
qed

lemma renew_leaseD:
  assumes "renew_lease ex key tok secs at now = Inr ex'"
  obtains n t where "we_nodes ex key = Some n" "ne_status n = NRunning" "1 \<le> secs"
    "t = at_or_now at now" "validate_optional_lease n (Some tok) t = Inr ()"
    "ex' = touch (put_node ex key (n\<lparr>ne_lease_expires_at := Some (t + seconds secs),
       ne_updated_at := t\<rparr>)) t"
  using assms by (auto simp: renew_lease_def owned_running_node_def Let_def split: if_splits)

lemma validate_lease_Some:
  "validate_optional_lease n (Some tok) t = Inr () \<longleftrightarrow>
     (\<exists>expires. ne_lease_token n = Some tok \<and> ne_lease_expires_at n = Some expires \<and> t < expires)"
  by (auto simp: validate_optional_lease_def split: option.splits)

lemma validate_lease_None:
  "validate_optional_lease n None t = Inr () \<longleftrightarrow> ne_lease_token n = None"
  by (auto simp: validate_optional_lease_def split: option.splits)

lemma renew_lease_inv:
  assumes "renew_lease ex key tok secs at now = Inr ex'" "exec_inv ex"
  shows "exec_inv ex'"
proof -
  from assms(1) obtain n t where r: "we_nodes ex key = Some n" "ne_status n = NRunning"
    "validate_optional_lease n (Some tok) t = Inr ()"
    "ex' = touch (put_node ex key (n\<lparr>ne_lease_expires_at := Some (t + seconds secs),
       ne_updated_at := t\<rparr>)) t"
    by (rule renew_leaseD)
  from exec_inv_node[OF assms(2) r(1)] obtain d
    where d: "find_node (ws_nodes (we_snapshot ex)) key = Some d" "node_ok key d n" by blast
  have "exec_inv ex' \<and> \<not> is_terminal ex' \<and> we_status ex' \<noteq> WPending"
    by (rule exec_inv_put[OF assms(2) r(1) _ d(1)])
       (use r d(2) in \<open>auto simp: touch_def put_node_def node_ok_def active_def validate_lease_Some\<close>)
  then show ?thesis by blast
qed

text \<open>The node a completion or an approval leaves behind, before its outcome is routed.\<close>

definition completed :: "node_execution \<Rightarrow> node_outcome \<Rightarrow> json_object option \<Rightarrow> time \<Rightarrow> node_execution" where
  "completed n outc outp t = clear_lease (n\<lparr>ne_status := NSucceeded, ne_outcome := Some outc,
     ne_output := outp, ne_completed_at := Some t, ne_updated_at := t\<rparr>)"

lemma complete_taskD:
  assumes "complete_task ex key outc outp tok at now = Inr ex'"
  obtains n t where "we_nodes ex key = Some n" "ne_status n = NRunning" "outc \<in> {OSuccess, OFailure}"
    "t = at_or_now at now" "validate_optional_lease n tok t = Inr ()"
    "route (touch (put_node ex key (completed n outc outp t)) t) key outc outp t = Inr ex'"
  using assms by (auto simp: complete_task_def completed_def Let_def split: if_splits)

lemma completed_inv:
  assumes "exec_inv ex" "we_nodes ex key = Some n" "ne_status n = NRunning"
  shows "exec_inv (touch (put_node ex key (completed n outc outp t)) t)
    \<and> \<not> is_terminal (touch (put_node ex key (completed n outc outp t)) t)
    \<and> we_status (touch (put_node ex key (completed n outc outp t)) t) \<noteq> WPending"
proof -
  from exec_inv_node[OF assms(1,2)] obtain d
    where d: "find_node (ws_nodes (we_snapshot ex)) key = Some d" "node_ok key d n" by blast
  show ?thesis
    by (rule exec_inv_put[OF assms(1,2) _ d(1)])
       (use d(2) assms(3) in
         \<open>auto simp: touch_def put_node_def completed_def clear_lease_def node_ok_def active_def\<close>)
qed

lemma complete_task_inv:
  assumes "complete_task ex key outc outp tok at now = Inr ex'" "exec_inv ex"
  shows "exec_inv ex'"
proof -
  from assms(1) obtain n t where c: "we_nodes ex key = Some n" "ne_status n = NRunning"
    "route (touch (put_node ex key (completed n outc outp t)) t) key outc outp t = Inr ex'"
    by (rule complete_taskD)
  note inv = completed_inv[OF assms(2) c(1,2), of outc outp t]
  from cascade_inv[OF cascade_decomposition(2)[OF _ c(3)]] inv show ?thesis by blast
qed

lemma resolve_approvalD:
  assumes "resolve_approval ex key approved at now = Inr ex'"
  obtains n t outc where "we_nodes ex key = Some n" "ne_status n = NAwaitingApproval"
    "t = at_or_now at now" "outc = (if approved then OApproved else ORejected)"
    "route (touch ((put_node ex key (n\<lparr>ne_status := NSucceeded, ne_outcome := Some outc,
       ne_completed_at := Some t, ne_updated_at := t\<rparr>))\<lparr>we_status := WRunning\<rparr>) t)
       key outc None t = Inr ex'"
  using assms by (auto simp: resolve_approval_def Let_def split: if_splits)

lemma resolved_inv:
  assumes "exec_inv ex" "we_nodes ex key = Some n" "ne_status n = NAwaitingApproval"
    and "ex1 = touch ((put_node ex key (n\<lparr>ne_status := NSucceeded, ne_outcome := Some outc,
       ne_completed_at := Some t, ne_updated_at := t\<rparr>))\<lparr>we_status := WRunning\<rparr>) t"
  shows "exec_inv ex1 \<and> \<not> is_terminal ex1 \<and> we_status ex1 \<noteq> WPending"
proof -
  from exec_inv_node[OF assms(1,2)] obtain d
    where d: "find_node (ws_nodes (we_snapshot ex)) key = Some d" "node_ok key d n" by blast
  show ?thesis unfolding assms(4)
    by (rule exec_inv_put[OF assms(1,2) _ d(1)])
       (use d(2) assms(3) in \<open>auto simp: touch_def put_node_def node_ok_def active_def\<close>)
qed

lemma resolve_approval_inv:
  assumes "resolve_approval ex key approved at now = Inr ex'" "exec_inv ex"
  shows "exec_inv ex'"
proof -
  from assms(1) obtain n t outc where c: "we_nodes ex key = Some n" "ne_status n = NAwaitingApproval"
    "route (touch ((put_node ex key (n\<lparr>ne_status := NSucceeded, ne_outcome := Some outc,
       ne_completed_at := Some t, ne_updated_at := t\<rparr>))\<lparr>we_status := WRunning\<rparr>) t)
       key outc None t = Inr ex'"
    by (rule resolve_approvalD)
  note inv = resolved_inv[where outc = outc and t = t, OF assms(2) c(1,2) refl]
  from cascade_inv[OF cascade_decomposition(2)[OF _ c(3)]] inv show ?thesis by blast
qed

text \<open>The two ends of a failed attempt: another attempt, or the failure of the workflow.\<close>

definition retried :: "node_execution \<Rightarrow> time \<Rightarrow> node_execution" where
  "retried n t = (clear_lease n)\<lparr>ne_status := NReady, ne_updated_at := t\<rparr>"

definition exhausted :: "node_execution \<Rightarrow> time \<Rightarrow> node_execution" where
  "exhausted n t = (clear_lease n)\<lparr>ne_status := NFailed, ne_completed_at := Some t, ne_updated_at := t\<rparr>"

lemma handle_task_failureD:
  assumes "handle_task_failure ex key n reason t = Inr ex'" "ne_node_key n = key"
  obtains d where "find_node (ws_nodes (we_snapshot ex)) key = Some d"
    "if ne_attempt_count n < nd_max_attempts d then ex' = touch (put_node ex key (retried n t)) t
     else ex' = fail_execution (put_node ex key (exhausted n t))
       (if blank reason then ''task execution failed'' else py_strip reason) t"
  using assms
  by (auto simp: handle_task_failure_def snapshot_node_Inr retried_def exhausted_def split: if_splits)

lemma handle_task_failure_inv:
  assumes "handle_task_failure ex key n reason t = Inr ex'" "exec_inv ex"
    "we_nodes ex key = Some n" "ne_status n = NRunning"
  shows "exec_inv ex'"
proof -
  from exec_inv_node[OF assms(2,3)] obtain d
    where d: "find_node (ws_nodes (we_snapshot ex)) key = Some d" "node_ok key d n" by blast
  have "ne_node_key n = key" using d(2) by (simp add: node_ok_def)
  with assms(1) d(1) have ex': "if ne_attempt_count n < nd_max_attempts d
      then ex' = touch (put_node ex key (retried n t)) t
      else ex' = fail_execution (put_node ex key (exhausted n t))
       (if blank reason then ''task execution failed'' else py_strip reason) t"
    by (auto elim: handle_task_failureD)
  show ?thesis
  proof (cases "ne_attempt_count n < nd_max_attempts d")
    case True
    have "exec_inv ex' \<and> \<not> is_terminal ex' \<and> we_status ex' \<noteq> WPending"
      by (rule exec_inv_put[OF assms(2,3) _ d(1)])
         (use ex' True d(2) assms(4) in
           \<open>auto simp: touch_def put_node_def retried_def clear_lease_def node_ok_def active_def\<close>)
    then show ?thesis by blast
  next
    case False
    have "nodes_ok (put_node ex key (exhausted n t))"
      by (rule nodes_ok_put[OF _ d(1)])
         (use assms(2,4) d(2) in \<open>auto simp: put_node_def exhausted_def clear_lease_def node_ok_def exec_inv_def\<close>)
    then show ?thesis
      using ex' False assms(2) exec_inv_fail[of "put_node ex key (exhausted n t)"]
      by (simp add: exec_inv_def put_node_def)
  qed
qed

lemma fail_taskD:
  assumes "fail_task ex key reason tok at now = Inr ex'"
  obtains n t where "we_nodes ex key = Some n" "ne_status n = NRunning" "t = at_or_now at now"
    "validate_optional_lease n tok t = Inr ()" "handle_task_failure ex key n reason t = Inr ex'"
  using assms by (auto simp: fail_task_def Let_def split: if_splits)

lemma expire_taskD:
  assumes "expire_task ex key at now = Inr ex'"
  obtains n t expires where "we_nodes ex key = Some n" "ne_status n = NRunning" "t = at_or_now at now"
    "ne_lease_expires_at n = Some expires" "expires \<le> t"
    "handle_task_failure ex key n ''task lease expired'' t = Inr ex'"
  using assms
  by (auto simp: expire_task_def Let_def not_less split: if_splits bool.splits option.splits)

lemma cancelD:
  assumes "cancel ex at now = Inr ex'"
  obtains t where "t = at_or_now at now" "\<not> is_terminal ex"
    "ex' = touch ((cancel_active_nodes ex t)\<lparr>we_status := WCancelled, we_completed_at := Some t\<rparr>) t"
  using assms by (auto simp: cancel_def Let_def split: if_splits)

lemma cancel_inv:
  assumes "cancel ex at now = Inr ex'" "exec_inv ex"
  shows "exec_inv ex'"
proof -
  from assms(1) obtain t where c: "\<not> is_terminal ex"
    "ex' = touch ((cancel_active_nodes ex t)\<lparr>we_status := WCancelled, we_completed_at := Some t\<rparr>) t"
    by (rule cancelD)
  have n: "we_nodes ex' = (\<lambda>k. map_option (cancel_node t) (we_nodes ex k))" "we_snapshot ex' = we_snapshot ex"
    by (simp_all add: c(2) touch_def cancel_active_nodes_def)
  have "nodes_ok ex'"
    by (rule nodes_ok_cancel[OF _ n]) (use assms(2) in \<open>simp add: exec_inv_def\<close>)
  moreover have "status_ok ex'"
    by (rule status_ok_all_cancelled[OF n(1)])
       (use assms(2) c in \<open>auto simp: touch_def cancel_active_nodes_def exec_inv_def status_ok_def
          workflow_terminal_def\<close>)
  ultimately show ?thesis using assms(2) n(2) by (simp add: exec_inv_def)
qed

lemma progress_step_inv: "progress_step ex ex' \<Longrightarrow> exec_inv ex \<Longrightarrow> exec_inv ex'"
  by (induction rule: progress_step.induct)
     (auto intro: start_inv begin_task_inv claim_task_inv complete_task_inv resolve_approval_inv cancel_inv
        handle_task_failure_inv elim!: fail_taskD expire_taskD)

lemma engine_step_inv: "engine_step ex ex' \<Longrightarrow> exec_inv ex \<Longrightarrow> exec_inv ex'"
  by (auto elim!: engine_step.cases intro: progress_step_inv renew_lease_inv)

lemma find_node_distinct:
  "distinct (map nd_key ns) \<Longrightarrow> d \<in> set ns \<Longrightarrow> find_node ns (nd_key d) = Some d"
  by (induction ns) (auto simp: find_node_def)

lemma execution_create_nodes:
  assumes "valid_nodes s"
  shows "we_nodes (execution_create s eid ids now) k =
    map_option (new_node_execution eid ids now) (find_node (ws_nodes s) k)"
proof -
  have "distinct (map fst (map (\<lambda>n. (nd_key n, new_node_execution eid ids now n)) (ws_nodes s)))"
    using assms by (simp add: valid_nodes_def comp_def)
  then have "we_nodes (execution_create s eid ids now) =
      map_of (map (\<lambda>n. (nd_key n, new_node_execution eid ids now n)) (ws_nodes s))"
    by (simp add: execution_create_def dict_of_distinct)
  moreover have "map_of (map (\<lambda>n. (nd_key n, f n)) ns) k = map_option f (find_node ns k)" for f :: "_ \<Rightarrow> node_execution" and ns
    by (induction ns) (auto simp: find_node_def)
  ultimately show ?thesis by simp
qed

lemma execution_create_inv:
  assumes "valid_nodes s"
  shows "exec_inv (execution_create s eid ids now)"
proof -
  have snap: "we_snapshot (execution_create s eid ids now) = s"
    by (simp add: execution_create_def)
  have "dom (we_nodes (execution_create s eid ids now)) = nd_key ` set (ws_nodes s)"
    using dom_dict_of[of "map (\<lambda>n. (nd_key n, new_node_execution eid ids now n)) (ws_nodes s)"]
    by (simp add: execution_create_def image_image)
  moreover have "node_ok (nd_key d) d (new_node_execution eid ids now d)"
    if "find_node (ws_nodes s) k = Some d" for k d
    using valid_nodesD[OF assms that] by (auto simp: node_ok_def new_node_execution_def)
  ultimately have "nodes_ok (execution_create s eid ids now)"
    using find_node_SomeD by (fastforce simp: nodes_ok_def snap execution_create_nodes[OF assms])
  moreover have "status_ok (execution_create s eid ids now)"
    by (auto simp: status_ok_def execution_create_nodes[OF assms] new_node_execution_def
        workflow_terminal_def) (auto simp: execution_create_def)
  ultimately show ?thesis using assms by (simp add: exec_inv_def snap)
qed

lemma reachable_inv: "reachable_execution s ex \<Longrightarrow> valid_nodes s \<Longrightarrow> exec_inv ex"
  by (induction rule: reachable_execution.induct) (auto intro: execution_create_inv engine_step_inv)

subsection \<open>What no operation changes\<close>

text \<open>The identity and the snapshot of the aggregate stay, visits and version never decrease.\<close>

definition stays :: "workflow_execution \<Rightarrow> workflow_execution \<Rightarrow> bool" where
  "stays ex ex' \<longleftrightarrow> we_snapshot ex' = we_snapshot ex \<and> we_id ex' = we_id ex
     \<and> we_version ex \<le> we_version ex' \<and> (\<forall>k. visits ex k \<le> visits ex' k)"

definition succeeds_to :: "workflow_execution \<Rightarrow> workflow_execution \<Rightarrow> bool" where
  "succeeds_to ex ex' \<longleftrightarrow> stays ex ex' \<and> we_version ex < we_version ex'"

lemma stays_refl: "stays ex ex"
  by (simp add: stays_def)

lemma stays_trans: "stays ex ex' \<Longrightarrow> stays ex' ex'' \<Longrightarrow> stays ex ex''"
  by (fastforce simp: stays_def intro: order_trans)

lemma succeeds_to_stays: "succeeds_to ex ex' \<Longrightarrow> stays ex' ex'' \<Longrightarrow> succeeds_to ex ex''"
  unfolding succeeds_to_def by (auto intro: stays_trans) (auto simp: stays_def)

lemma micro_step_stays: "micro_step at ex ex' \<Longrightarrow> stays ex ex'"
  by (induction rule: micro_step.induct)
     (auto simp: stays_def visits_enter, auto simp: engine_update_defs Let_def)

lemma cascade_stays: "cascade at ex ex' \<Longrightarrow> stays ex ex'"
  by (induction rule: rtranclp_induct) (auto intro: stays_refl stays_trans micro_step_stays)

lemma touch_succeeds:
  assumes "we_snapshot ex' = we_snapshot ex" "we_id ex' = we_id ex" "we_version ex' = we_version ex"
    "\<And>k. visits ex k \<le> visits ex' k"
  shows "succeeds_to ex (touch ex' t)"
  using assms by (simp add: succeeds_to_def stays_def touch_def visits_def)

lemma visits_put:
  assumes "we_nodes ex key = Some n" "ne_visit_count n' = ne_visit_count n"
    "we_nodes ex' = (we_nodes ex)(key \<mapsto> n')"
  shows "visits ex' k = visits ex k"
  using assms by (simp add: visits_def)

lemma put_succeeds:
  assumes "we_nodes ex key = Some n" "ne_visit_count n' = ne_visit_count n"
  shows "succeeds_to ex (touch (put_node ex key n') t)"
  by (rule touch_succeeds) (use assms in \<open>simp_all add: put_node_def visits_def\<close>)

lemma put_touch: "put_node (touch ex t) key n = touch (put_node ex key n) t"
  by (simp add: put_node_def touch_def)

lemma fail_execution_succeeds:
  assumes "we_nodes ex key = Some n" "ne_visit_count n' = ne_visit_count n"
  shows "succeeds_to ex (fail_execution (put_node ex key n') reason t)"
proof -
  have "visits (fail_execution (put_node ex key n') reason t) k = visits ex k" for k
    unfolding visits_fail_execution using assms by (simp add: visits_def put_node_def)
  then show ?thesis
    by (simp add: succeeds_to_def stays_def) (simp add: engine_update_defs)
qed

lemma handle_task_failure_succeeds:
  assumes "handle_task_failure ex key n reason t = Inr ex'" "we_nodes ex key = Some n"
  shows "succeeds_to ex ex'"
  using assms
  by (auto simp: handle_task_failure_def clear_lease_def
      intro!: put_succeeds fail_execution_succeeds split: if_splits)

lemma progress_step_succeeds:
  assumes "progress_step ex ex'" "exec_inv ex"
  shows "succeeds_to ex ex'"
  using assms
proof (induction rule: progress_step.induct)
  case (es_start ex at now ex')
  define t where "t = at_or_now at now"
  define ex1 where "ex1 = touch (ex\<lparr>we_status := WRunning, we_started_at := Some t\<rparr>) t"
  have "activate ex1 (ws_entry_node (we_snapshot ex)) t = Inr ex'"
    using es_start(1) by (auto simp: start_def t_def ex1_def Let_def split: if_splits)
  then have "stays ex1 ex'"
    by (rule cascade_stays[OF cascade_decomposition(1), rotated])
      (simp add: ex1_def touch_def workflow_terminal_def)
  moreover have "succeeds_to ex ex1"
    unfolding ex1_def by (rule touch_succeeds) (simp_all add: visits_def)
  ultimately show ?case by (rule succeeds_to_stays[rotated])
next
  case (es_begin ex key at now ex')
  then show ?case by (elim begin_taskD) (simp add: put_succeeds)
next
  case (es_claim ex key w secs tok fresh at now ex')
  then show ?case by (elim claim_taskD) (simp add: put_touch put_succeeds)
next
  case (es_complete ex key outc outp tok at now ex')
  from es_complete(1) obtain n t where c: "we_nodes ex key = Some n" "ne_status n = NRunning"
    "route (touch (put_node ex key (completed n outc outp t)) t) key outc outp t = Inr ex'"
    by (rule complete_taskD)
  have "stays (touch (put_node ex key (completed n outc outp t)) t) ex'"
    using cascade_stays[OF cascade_decomposition(2)[OF _ c(3)]] completed_inv[OF es_complete(2) c(1,2)]
    by blast
  moreover have "succeeds_to ex (touch (put_node ex key (completed n outc outp t)) t)"
    by (rule put_succeeds[OF c(1)]) (simp add: completed_def clear_lease_def)
  ultimately show ?case by (rule succeeds_to_stays[rotated])
next
  case (es_fail ex key reason tok at now ex')
  then show ?case by (auto elim!: fail_taskD intro: handle_task_failure_succeeds)
next
  case (es_expire ex key at now ex')
  then show ?case by (auto elim!: expire_taskD intro: handle_task_failure_succeeds)
next
  case (es_resolve ex key approved at now ex')
  from es_resolve(1) obtain n t outc where c: "we_nodes ex key = Some n" "ne_status n = NAwaitingApproval"
    "route (touch ((put_node ex key (n\<lparr>ne_status := NSucceeded, ne_outcome := Some outc,
       ne_completed_at := Some t, ne_updated_at := t\<rparr>))\<lparr>we_status := WRunning\<rparr>) t)
       key outc None t = Inr ex'"
    by (rule resolve_approvalD)
  define ex1 where "ex1 = touch ((put_node ex key (n\<lparr>ne_status := NSucceeded, ne_outcome := Some outc,
       ne_completed_at := Some t, ne_updated_at := t\<rparr>))\<lparr>we_status := WRunning\<rparr>) t"
  have "stays ex1 ex'"
    using cascade_stays[OF cascade_decomposition(2)[OF _ c(3)[folded ex1_def]]]
      resolved_inv[OF es_resolve(2) c(1,2) ex1_def] by blast
  moreover have "succeeds_to ex ex1"
    unfolding ex1_def by (rule touch_succeeds) (use c(1) in \<open>simp_all add: put_node_def visits_def\<close>)
  ultimately show ?case by (rule succeeds_to_stays[rotated])
next
  case (es_cancel ex at now ex')
  then show ?case
    by (elim cancelD) (auto intro!: touch_succeeds simp: cancel_active_nodes_def visits_def
        cancel_node_def clear_lease_def split: option.split)
qed

lemma engine_step_succeeds:
  assumes "engine_step ex ex'" "exec_inv ex"
  shows "succeeds_to ex ex'"
  using assms
proof (cases rule: engine_step.cases)
  case (es_renew key tok secs at now)
  then show ?thesis by (elim renew_leaseD) (simp add: put_succeeds)
qed (rule progress_step_succeeds)

lemma reachable_snapshot: "reachable_execution s ex \<Longrightarrow> valid_nodes s \<Longrightarrow> we_snapshot ex = s"
proof (induction rule: reachable_execution.induct)
  case (re_step ex ex')
  then show ?case
    using engine_step_succeeds[OF re_step(2) reachable_inv] by (simp add: succeeds_to_def stays_def)
qed (simp add: execution_create_def)

end
