(* ===== verification/Workflow_Termination.thy ===== *)
theory Workflow_Termination
  imports Workflow_Invariants
begin

text \<open>
  Workflows end. Every operation other than the heartbeat decreases a natural number, the
  \<open>potential\<close> of the aggregate, built from the visits and attempts its nodes have left; so a run
  has at most as many operations as the definition's limits allow, whatever the workers do.
\<close>

section \<open>The potential\<close>

definition status_weight :: "node_definition \<Rightarrow> node_execution \<Rightarrow> nat" where
  "status_weight d n = (case ne_status n of
      NReady \<Rightarrow> 2 * nat (nd_max_attempts d - ne_attempt_count n) + 1
    | NRunning \<Rightarrow> 2 * nat (nd_max_attempts d - ne_attempt_count n) + 2
    | NAwaitingApproval \<Rightarrow> 1
    | _ \<Rightarrow> 0)"

definition visit_cost :: "node_definition \<Rightarrow> nat" where
  "visit_cost d = 2 * nat (nd_max_attempts d) + 2"

definition node_weight :: "node_definition \<Rightarrow> node_execution \<Rightarrow> nat" where
  "node_weight d n = nat (nd_max_visits d - ne_visit_count n) * visit_cost d + status_weight d n"

definition total_weight :: "workflow_execution \<Rightarrow> nat" where
  "total_weight ex = (\<Sum>d \<in> set (ws_nodes (we_snapshot ex)).
     case we_nodes ex (nd_key d) of None \<Rightarrow> 0 | Some n \<Rightarrow> node_weight d n)"

definition potential :: "workflow_execution \<Rightarrow> nat" where
  "potential ex = (if is_terminal ex then 0
     else (if we_status ex = WPending then 2 else 1) + total_weight ex)"

lemma total_weight_put:
  assumes inv: "exec_inv ex" and n: "we_nodes ex key = Some n"
    and d: "find_node (ws_nodes (we_snapshot ex)) key = Some d"
    and less: "node_weight d n' < node_weight d n"
    and ex': "we_nodes ex' = (we_nodes ex)(key \<mapsto> n')" "we_snapshot ex' = we_snapshot ex"
  shows "total_weight ex' < total_weight ex"
  unfolding total_weight_def ex'(2)
proof (rule sum_strict_mono_ex1)
  have dist: "distinct (map nd_key (ws_nodes (we_snapshot ex)))"
    using inv by (simp add: exec_inv_def valid_nodes_def)
  have dk: "d \<in> set (ws_nodes (we_snapshot ex))" "nd_key d = key" using find_node_SomeD[OF d] by auto
  show "finite (set (ws_nodes (we_snapshot ex)))" by simp
  show "\<forall>x \<in> set (ws_nodes (we_snapshot ex)).
      (case we_nodes ex' (nd_key x) of None \<Rightarrow> 0 | Some n \<Rightarrow> node_weight x n)
        \<le> (case we_nodes ex (nd_key x) of None \<Rightarrow> 0 | Some n \<Rightarrow> node_weight x n)"
  proof
    fix x assume x: "x \<in> set (ws_nodes (we_snapshot ex))"
    show "(case we_nodes ex' (nd_key x) of None \<Rightarrow> 0 | Some n \<Rightarrow> node_weight x n)
        \<le> (case we_nodes ex (nd_key x) of None \<Rightarrow> 0 | Some n \<Rightarrow> node_weight x n)"
    proof (cases "nd_key x = key")
      case True
      with find_node_distinct[OF dist x] d have "x = d" by simp
      with less n dk(2) ex'(1) show ?thesis by simp
    qed (simp add: ex'(1))
  qed
  show "\<exists>x \<in> set (ws_nodes (we_snapshot ex)).
      (case we_nodes ex' (nd_key x) of None \<Rightarrow> 0 | Some n \<Rightarrow> node_weight x n)
        < (case we_nodes ex (nd_key x) of None \<Rightarrow> 0 | Some n \<Rightarrow> node_weight x n)"
    using dk less n ex'(1) by (intro bexI[of _ d]) simp_all
qed

lemma potential_terminal: "\<not> is_terminal ex \<Longrightarrow> is_terminal ex' \<Longrightarrow> potential ex' < potential ex"
  by (simp add: potential_def)

lemma potential_put:
  assumes "exec_inv ex" "we_nodes ex key = Some n" "active (ne_status n)"
    "find_node (ws_nodes (we_snapshot ex)) key = Some d" "node_weight d n' < node_weight d n"
    "we_nodes ex' = (we_nodes ex)(key \<mapsto> n')" "we_snapshot ex' = we_snapshot ex"
    "we_status ex' \<noteq> WPending"
  shows "potential ex' < potential ex"
  using total_weight_put[OF assms(1,2,4,5,6,7)] active_not_terminal[OF assms(1-3)] assms(8)
  by (simp add: potential_def)

section \<open>Every step decreases it\<close>

lemma enter_weight:
  assumes "ne_visit_count n < nd_max_visits d" "status_weight d m < visit_cost d"
    "ne_visit_count m = ne_visit_count n + 1"
  shows "node_weight d m < node_weight d n"
proof -
  define r where "r = nat (nd_max_visits d - ne_visit_count m)"
  have "nat (nd_max_visits d - ne_visit_count n) = Suc r"
    using assms(1,3) by (simp add: r_def)
  then show ?thesis using assms(2) by (simp add: node_weight_def r_def)
qed

lemma entered_weights:
  assumes "node_ok k d n" "ne_visit_count n < nd_max_visits d"
  shows "node_weight d ((enter_node n at)\<lparr>ne_status := NReady\<rparr>) < node_weight d n"
    and "node_weight d ((enter_node n at)\<lparr>ne_status := NAwaitingApproval\<rparr>) < node_weight d n"
    and "node_weight d (pass_node n at) < node_weight d n"
  using assms(2)
  by (auto intro!: enter_weight
      simp: status_weight_def visit_cost_def enter_node_def pass_node_def clear_lease_def)

lemma micro_step_potential:
  assumes "micro_step at ex ex'" "exec_inv ex" "we_status ex \<noteq> WPending"
  shows "potential ex' < potential ex"
  using assms
proof (induction rule: micro_step.induct)
  case (ms_fail ex reason)
  then show ?case by (intro potential_terminal) (auto simp: workflow_terminal_def)
next
  case (ms_task ex key n d)
  note w = entered_weights(1)[OF exec_invD(1)[OF ms_task(6,2,3)] ms_task(4), of at]
  show ?case
    using total_weight_put[OF ms_task(6,2,3) w enter_fields(1)] ms_task by (simp add: potential_def)
next
  case (ms_approval ex key n d)
  note w = entered_weights(2)[OF exec_invD(1)[OF ms_approval(6,2,3)] ms_approval(4), of at]
  show ?case
    using total_weight_put[OF ms_approval(6,2,3) w enter_fields(2)] ms_approval
    by (simp add: potential_def workflow_terminal_def)
next
  case (ms_control ex key n d)
  note w = entered_weights(3)[OF exec_invD(1)[OF ms_control(6,2,3)] ms_control(4), of at]
  show ?case
    using total_weight_put[OF ms_control(6,2,3) w enter_fields(3)] ms_control by (simp add: potential_def)
next
  case (ms_terminal ex key n d)
  have "nd_terminal_status d \<in> {Some WSucceeded, Some WFailed}"
    using valid_nodesD(3)[OF _ ms_terminal(3,5)] ms_terminal(6) by (simp add: exec_inv_def)
  with ms_terminal show ?case
    by (intro potential_terminal) (auto simp: workflow_terminal_def)
qed

lemma cascade_potential:
  assumes "cascade at ex ex'" "exec_inv ex" "we_status ex \<noteq> WPending"
  shows "potential ex' \<le> potential ex"
  using assms
proof (induction rule: rtranclp_induct)
  case (step y z)
  then show ?case using micro_step_potential[of at y z] cascade_inv[OF step(1)] by fastforce
qed simp

lemma start_potential:
  assumes "start ex at now = Inr ex'" "exec_inv ex"
  shows "potential ex' < potential ex"
proof -
  define t where "t = at_or_now at now"
  define ex1 where "ex1 = touch (ex\<lparr>we_status := WRunning, we_started_at := Some t\<rparr>) t"
  have pend: "we_status ex = WPending"
    and act: "activate ex1 (ws_entry_node (we_snapshot ex)) t = Inr ex'"
    using assms(1) by (auto simp: start_def t_def ex1_def Let_def split: if_splits)
  have inv: "exec_inv ex1" "\<not> is_terminal ex1" "we_status ex1 \<noteq> WPending"
    using assms(2) pend
    by (auto simp: ex1_def touch_def exec_inv_def nodes_ok_def status_ok_def workflow_terminal_def)
  have "potential ex1 < potential ex"
    using pend by (simp add: potential_def ex1_def touch_def total_weight_def workflow_terminal_def)
  with cascade_potential[OF cascade_decomposition(1)[OF inv(2) act] inv(1,3)] show ?thesis by simp
qed

lemma handle_task_failure_potential:
  assumes "handle_task_failure ex key n reason t = Inr ex'" "exec_inv ex"
    "we_nodes ex key = Some n" "ne_status n = NRunning"
  shows "potential ex' < potential ex"
proof -
  from exec_inv_node[OF assms(2,3)] have key: "ne_node_key n = key" by (auto simp: node_ok_def)
  from assms(1) key obtain d where d: "find_node (ws_nodes (we_snapshot ex)) key = Some d"
    and ex': "if ne_attempt_count n < nd_max_attempts d then ex' = touch (put_node ex key (retried n t)) t
      else ex' = fail_execution (put_node ex key (exhausted n t))
        (if blank reason then ''task execution failed'' else py_strip reason) t"
    by (rule handle_task_failureD)
  have act: "active (ne_status n)" using assms(4) by (simp add: active_def)
  show ?thesis
  proof (cases "ne_attempt_count n < nd_max_attempts d")
    case True
    have "node_weight d (retried n t) < node_weight d n"
      using assms(4) by (simp add: node_weight_def status_weight_def retried_def clear_lease_def)
    then show ?thesis
      by (rule potential_put[OF assms(2,3) act d])
         (use ex' True active_not_terminal[OF assms(2,3) act] in \<open>simp_all add: touch_def put_node_def\<close>)
  next
    case False
    then have "is_terminal ex'" using ex' by (simp add: workflow_terminal_def)
    with active_not_terminal(1)[OF assms(2,3) act] show ?thesis by (rule potential_terminal)
  qed
qed

lemma progress_step_potential:
  assumes "progress_step ex ex'" "exec_inv ex"
  shows "potential ex' < potential ex"
  using assms
proof (induction rule: progress_step.induct)
  case (es_start ex at now ex')
  then show ?case by (rule start_potential)
next
  case (es_begin ex key at now ex')
  from es_begin(1) obtain n d where b: "we_nodes ex key = Some n"
    "find_node (ws_nodes (we_snapshot ex)) key = Some d" "ne_status n = NReady"
    "ne_attempt_count n < nd_max_attempts d"
    "ex' = touch (put_node ex key (n\<lparr>ne_status := NRunning,
       ne_attempt_count := ne_attempt_count n + 1, ne_started_at := Some (at_or_now at now),
       ne_updated_at := at_or_now at now\<rparr>)) (at_or_now at now)"
    by (rule begin_taskD)
  have act: "active (ne_status n)" using b(3) by (simp add: active_def)
  show ?case
    by (rule potential_put[OF es_begin(2) b(1) act b(2)])
       (use b active_not_terminal[OF es_begin(2) b(1) act] in
         \<open>auto simp: touch_def put_node_def node_weight_def status_weight_def\<close>)
next
  case (es_claim ex key w secs tok fresh at now ex')
  from es_claim(1) obtain n d t where b: "we_nodes ex key = Some n"
    "find_node (ws_nodes (we_snapshot ex)) key = Some d" "ne_status n = NReady"
    "ne_attempt_count n < nd_max_attempts d"
    "ex' = put_node (touch ex t) key (n\<lparr>ne_status := NRunning,
       ne_attempt_count := ne_attempt_count n + 1, ne_started_at := Some t, ne_updated_at := t,
       ne_worker_id := Some w, ne_lease_token := Some (case tok of None \<Rightarrow> fresh | Some k \<Rightarrow> k),
       ne_lease_expires_at := Some (t + seconds secs)\<rparr>)"
    by (rule claim_taskD)
  have act: "active (ne_status n)" using b(3) by (simp add: active_def)
  show ?case
    by (rule potential_put[OF es_claim(2) b(1) act b(2)])
       (use b active_not_terminal[OF es_claim(2) b(1) act] in
         \<open>auto simp: touch_def put_node_def node_weight_def status_weight_def\<close>)
next
  case (es_complete ex key outc outp tok at now ex')
  from es_complete(1) obtain n t where c: "we_nodes ex key = Some n" "ne_status n = NRunning"
    "route (touch (put_node ex key (completed n outc outp t)) t) key outc outp t = Inr ex'"
    by (rule complete_taskD)
  let ?ex1 = "touch (put_node ex key (completed n outc outp t)) t"
  from exec_inv_node[OF es_complete(2) c(1)] obtain d
    where d: "find_node (ws_nodes (we_snapshot ex)) key = Some d" by blast
  have inv: "exec_inv ?ex1" "\<not> is_terminal ?ex1" "we_status ?ex1 \<noteq> WPending"
    using completed_inv[OF es_complete(2) c(1,2)] by blast+
  have "potential ?ex1 < potential ex"
    by (rule potential_put[OF es_complete(2) c(1) _ d])
       (use c(2) inv(3) in \<open>auto simp: touch_def put_node_def completed_def clear_lease_def
          node_weight_def status_weight_def active_def\<close>)
  with cascade_potential[OF cascade_decomposition(2)[OF inv(2) c(3)] inv(1,3)] show ?case by simp
next
  case (es_fail ex key reason tok at now ex')
  then show ?case by (auto elim!: fail_taskD intro: handle_task_failure_potential)
next
  case (es_expire ex key at now ex')
  then show ?case by (auto elim!: expire_taskD intro: handle_task_failure_potential)
next
  case (es_resolve ex key approved at now ex')
  from es_resolve(1) obtain n t outc where c: "we_nodes ex key = Some n" "ne_status n = NAwaitingApproval"
    "route (touch ((put_node ex key (n\<lparr>ne_status := NSucceeded, ne_outcome := Some outc,
       ne_completed_at := Some t, ne_updated_at := t\<rparr>))\<lparr>we_status := WRunning\<rparr>) t)
       key outc None t = Inr ex'"
    by (rule resolve_approvalD)
  define ex1 where "ex1 = touch ((put_node ex key (n\<lparr>ne_status := NSucceeded, ne_outcome := Some outc,
       ne_completed_at := Some t, ne_updated_at := t\<rparr>))\<lparr>we_status := WRunning\<rparr>) t"
  from exec_inv_node[OF es_resolve(2) c(1)] obtain d
    where d: "find_node (ws_nodes (we_snapshot ex)) key = Some d" by blast
  have inv: "exec_inv ex1" "\<not> is_terminal ex1" "we_status ex1 \<noteq> WPending"
    using resolved_inv[OF es_resolve(2) c(1,2) ex1_def] by blast+
  have "potential ex1 < potential ex"
    by (rule potential_put[OF es_resolve(2) c(1) _ d])
       (use c(2) inv(3) in \<open>auto simp: ex1_def touch_def put_node_def node_weight_def status_weight_def
          active_def\<close>)
  with cascade_potential[OF cascade_decomposition(2)[OF inv(2) c(3)[folded ex1_def]] inv(1,3)]
  show ?case by simp
next
  case (es_cancel ex at now ex')
  then show ?case
    by (auto elim!: cancelD intro!: potential_terminal simp: touch_def workflow_terminal_def)
qed

end
