(* ===== verification/Workflow_Examples.thy ===== *)
theory Workflow_Examples
  imports Workflow_Engine
begin

text \<open>
  Concrete workflows on which the theorems of the engine are instantiated: a task with a
  bounded repair loop, a fork whose branches meet in a join, a join fed by exclusive branches, and
  a fork with an approval beside a task.
\<close>

definition ex_node :: "string \<Rightarrow> node_kind \<Rightarrow> int \<Rightarrow> int \<Rightarrow> node_definition" where
  "ex_node key kind attempts max_visits =
     \<lparr>nd_key = key, nd_kind = kind, nd_max_attempts = attempts, nd_max_visits = max_visits,
      nd_timeout_seconds = 600,
      nd_terminal_status = (if kind = KTerminal then Some WSucceeded else None),
      nd_executor_key = None, nd_instructions = None, nd_configuration = [], nd_skills = [],
      nd_model_routing = None, nd_phase_pack = None, nd_input_mappings = []\<rparr>"

definition ex_edge :: "string \<Rightarrow> node_outcome \<Rightarrow> string \<Rightarrow> edge_definition" where
  "ex_edge source outcome target =
     \<lparr>ed_source = source, ed_outcome = outcome, ed_target = target, ed_condition = None\<rparr>"

definition ex_definition :: "string \<Rightarrow> node_definition list \<Rightarrow> edge_definition list \<Rightarrow> workflow_definition" where
  "ex_definition entry nodes edges =
     \<lparr>wd_key = ''wf'', wd_version = 1, wd_entry_node = entry, wd_nodes = nodes, wd_edges = edges,
      wd_id = 1\<rparr>"

definition ex_snapshot :: "workflow_definition \<Rightarrow> workflow_snapshot" where
  "ex_snapshot d =
     \<lparr>ws_run_id = 7, ws_definition_id = wd_id d, ws_definition_key = wd_key d,
      ws_definition_version = wd_version d, ws_entry_node = wd_entry_node d, ws_nodes = wd_nodes d,
      ws_edges = wd_edges d, ws_request_context = None, ws_phase_packs = [], ws_skills = [],
      ws_model_selections = [], ws_id = 2, ws_created_at = 0\<rparr>"

definition ex_create :: "workflow_definition \<Rightarrow> workflow_execution" where
  "ex_create d = execution_create (ex_snapshot d) 3 (\<lambda>_. 4) 0"

text \<open>\<open>build\<close> may be visited twice: its failure routes to \<open>fix\<close> and back.\<close>

definition repair_definition :: workflow_definition where
  "repair_definition = ex_definition ''build''
     [ex_node ''build'' KTask 2 2, ex_node ''fix'' KTask 1 1, ex_node ''done'' KTerminal 1 1]
     [ex_edge ''build'' OSuccess ''done'', ex_edge ''build'' OFailure ''fix'',
      ex_edge ''fix'' OSuccess ''build'']"

text \<open>The success and the failure branch of one task meet in a join.\<close>

definition exclusive_join_definition :: workflow_definition where
  "exclusive_join_definition = ex_definition ''a''
     [ex_node ''a'' KTask 1 1, ex_node ''b'' KTask 1 1, ex_node ''c'' KTask 1 1,
      ex_node ''j'' KJoin 1 1, ex_node ''done'' KTerminal 1 1]
     [ex_edge ''a'' OSuccess ''b'', ex_edge ''a'' OFailure ''c'', ex_edge ''b'' OSuccess ''j'',
      ex_edge ''c'' OSuccess ''j'', ex_edge ''j'' OSuccess ''done'']"

text \<open>A fork that starts an approval and a task.\<close>

definition approval_fork_definition :: workflow_definition where
  "approval_fork_definition = ex_definition ''f''
     [ex_node ''f'' KFork 1 1, ex_node ''ok'' KApproval 1 1, ex_node ''t'' KTask 1 1,
      ex_node ''j'' KJoin 1 1, ex_node ''done'' KTerminal 1 1]
     [ex_edge ''f'' OSuccess ''ok'', ex_edge ''f'' OSuccess ''t'', ex_edge ''ok'' OApproved ''j'',
      ex_edge ''t'' OSuccess ''j'', ex_edge ''j'' OSuccess ''done'']"

definition node_status_in :: "workflow_execution \<Rightarrow> string \<Rightarrow> node_execution_status option" where
  "node_status_in ex k = map_option ne_status (we_nodes ex k)"

lemma examples_accepted:
  "workflow_definition_init repair_definition = Inr ()"
  "workflow_definition_init exclusive_join_definition = Inr ()"
  "workflow_definition_init approval_fork_definition = Inr ()"
  by code_simp+

text \<open>A task that is claimed, fails once, is retried and completes.\<close>

definition repair_run :: "workflow_execution result" where
  "repair_run =
     rbind (start (ex_create repair_definition) (Some 10) 0) (\<lambda>ex.
     rbind (claim_task ex ''build'' ''w1'' 60 None 100 (Some 20) 0) (\<lambda>ex.
     rbind (fail_task ex ''build'' ''boom'' (Some 100) (Some 30) 0) (\<lambda>ex.
     rbind (claim_task ex ''build'' ''w2'' 60 None 101 (Some 40) 0) (\<lambda>ex.
       complete_task ex ''build'' OSuccess (Some []) (Some 101) (Some 50) 0))))"

lemma repair_run_succeeds:
  "(case repair_run of Inl e \<Rightarrow> False | Inr ex \<Rightarrow> we_status ex = WSucceeded
     \<and> node_status_in ex ''build'' = Some NSucceeded \<and> node_status_in ex ''fix'' = Some NPending)"
  by code_simp

text \<open>The success branch of \<open>exclusive_join_definition\<close>: \<open>b\<close> reaches the join, \<open>c\<close> never runs.\<close>

definition run_task :: "workflow_execution \<Rightarrow> string \<Rightarrow> uuid \<Rightarrow> time \<Rightarrow> workflow_execution result" where
  "run_task ex key token at =
     rbind (claim_task ex key ''w'' 60 None token (Some at) 0) (\<lambda>ex.
       complete_task ex key OSuccess None (Some token) (Some (at + 1)) 0)"

definition stalled_run :: "workflow_execution result" where
  "stalled_run = rbind (start (ex_create exclusive_join_definition) (Some 10) 0) (\<lambda>ex.
     rbind (run_task ex ''a'' 100 20) (\<lambda>ex. run_task ex ''b'' 101 30))"

lemma stalled_run_result:
  "case stalled_run of Inl e \<Rightarrow> False | Inr ex \<Rightarrow> we_status ex = WRunning
     \<and> list_all (\<lambda>k. node_status_in ex k \<in> {Some NSucceeded, Some NPending}) [''a'', ''b'', ''c'', ''j'', ''done'']
     \<and> node_status_in ex ''j'' = Some NPending"
  by code_simp

text \<open>Both branches of the fork end, and the join releases the terminal.\<close>

definition joined_run :: "workflow_execution result" where
  "joined_run = rbind (start (ex_create approval_fork_definition) (Some 10) 0) (\<lambda>ex.
     rbind (resolve_approval ex ''ok'' True (Some 20) 0) (\<lambda>ex. run_task ex ''t'' 100 30))"

lemma joined_run_result:
  "case joined_run of Inl e \<Rightarrow> False | Inr ex \<Rightarrow> we_status ex = WSucceeded \<and> visits ex ''j'' = 1"
  by code_simp

end
