(* ===== verification/Workflow_Correctness.thy ===== *)
theory Workflow_Correctness
  imports Workflow_Termination Workflow_Examples
begin

text \<open>
  The properties of the workflow engine over its runs: how long a run can be, what a terminal
  execution is, who may settle a task, when the engine returns and where an execution can wait.
  The witnesses instantiate them on the workflows of theory \<open>Workflow_Examples\<close>.
\<close>

section \<open>Accepted snapshots\<close>

text \<open>A snapshot of a definition that its constructors accepted.\<close>

definition definition_of :: "workflow_snapshot \<Rightarrow> workflow_definition" where
  "definition_of s = \<lparr>wd_key = ws_definition_key s, wd_version = ws_definition_version s,
     wd_entry_node = ws_entry_node s, wd_nodes = ws_nodes s, wd_edges = ws_edges s,
     wd_id = ws_definition_id s\<rparr>"

definition accepted_snapshot :: "workflow_snapshot \<Rightarrow> bool" where
  "accepted_snapshot s \<longleftrightarrow> workflow_definition_init (definition_of s) = Inr ()
     \<and> list_all (\<lambda>d. node_definition_init d = Inr d) (ws_nodes s)"

lemma accepted_valid_nodes: "accepted_snapshot s \<Longrightarrow> valid_nodes s"
  by (auto simp: accepted_snapshot_def valid_nodes_def definition_accepted_iff
      well_formed_definition_def definition_of_def list_all_iff)

lemma snapshot_from_definition_accepted:
  assumes "snapshot_from_definition d run_id context packs skills selections new_id now = Inr s"
    "workflow_definition_init d = Inr ()" "list_all (\<lambda>n. node_definition_init n = Inr n) (wd_nodes d)"
  shows "accepted_snapshot s"
proof -
  from assms(1) have s: "ws_definition_id s = wd_id d" "ws_definition_key s = wd_key d"
    "ws_definition_version s = wd_version d" "ws_entry_node s = wd_entry_node d"
    "ws_nodes s = wd_nodes d" "ws_edges s = wd_edges d"
    by (auto simp: snapshot_from_definition_def Let_def)
  then have "definition_of s = d" by (simp add: definition_of_def)
  with assms(2,3) s(5) show ?thesis by (simp add: accepted_snapshot_def)
qed

section \<open>Runs are bounded\<close>

text \<open>Runs of an execution, counting every operation but the heartbeats.\<close>

inductive engine_run :: "nat \<Rightarrow> workflow_execution \<Rightarrow> workflow_execution \<Rightarrow> bool" where
  run_refl: "engine_run 0 ex ex"
| run_progress: "engine_run k ex ex' \<Longrightarrow> progress_step ex' ex'' \<Longrightarrow> engine_run (Suc k) ex ex''"
| run_heartbeat: "engine_run k ex ex' \<Longrightarrow> renew_lease ex' key tok secs at now = Inr ex'' \<Longrightarrow> engine_run k ex ex''"

definition run_bound :: "workflow_snapshot \<Rightarrow> int" where
  "run_bound s = 2 + (\<Sum>d\<leftarrow>ws_nodes s. nd_max_visits d * (2 * nd_max_attempts d + 2))"

lemma renew_lease_potential:
  assumes "renew_lease ex key tok secs at now = Inr ex'"
  shows "potential ex' = potential ex"
proof -
  from assms obtain n t where r: "we_nodes ex key = Some n"
    "ex' = touch (put_node ex key (n\<lparr>ne_lease_expires_at := Some (t + seconds secs),
       ne_updated_at := t\<rparr>)) t"
    by (rule renew_leaseD)
  have "total_weight ex' = total_weight ex"
    unfolding total_weight_def
    by (rule sum.cong) (auto simp: r touch_def put_node_def node_weight_def status_weight_def
        split: node_execution_status.split)
  then show ?thesis by (simp add: potential_def r(2) touch_def put_node_def)
qed

lemma run_potential:
  "engine_run k ex ex' \<Longrightarrow> exec_inv ex \<Longrightarrow> exec_inv ex' \<and> k + potential ex' \<le> potential ex"
proof (induction rule: engine_run.induct)
  case (run_progress k ex ex' ex'')
  then have "exec_inv ex'" "k + potential ex' \<le> potential ex" by simp_all
  with progress_step_potential[OF run_progress(2)] progress_step_inv[OF run_progress(2)]
  show ?case by simp
next
  case (run_heartbeat k ex ex' key tok secs at now ex'')
  then show ?case using renew_lease_potential renew_lease_inv by metis
qed simp

lemma new_node_weight:
  assumes "1 \<le> nd_max_attempts d" "1 \<le> nd_max_visits d"
  shows "int (node_weight d (new_node_execution eid ids now d))
    = nd_max_visits d * (2 * nd_max_attempts d + 2)"
  using assms
  by (simp add: node_weight_def new_node_execution_def visit_cost_def status_weight_def algebra_simps)

lemma potential_create:
  assumes "valid_nodes s"
  shows "int (potential (execution_create s eid ids now)) = run_bound s"
proof -
  have dist: "distinct (map nd_key (ws_nodes s))" using assms by (simp add: valid_nodes_def)
  have w: "int (case we_nodes (execution_create s eid ids now) (nd_key d) of
        None \<Rightarrow> 0 | Some n \<Rightarrow> node_weight d n) = nd_max_visits d * (2 * nd_max_attempts d + 2)"
    if "d \<in> set (ws_nodes s)" for d
    using find_node_distinct[OF dist that] valid_nodesD(1,2)[OF assms find_node_distinct[OF dist that]]
    by (simp add: execution_create_nodes[OF assms] new_node_weight)
  have "int (total_weight (execution_create s eid ids now))
      = (\<Sum>d \<in> set (ws_nodes s). nd_max_visits d * (2 * nd_max_attempts d + 2))"
    using w by (simp add: total_weight_def execution_create_def[of s] )
  also have "\<dots> = (\<Sum>d\<leftarrow>ws_nodes s. nd_max_visits d * (2 * nd_max_attempts d + 2))"
    using dist by (simp add: distinct_map sum_list_distinct_conv_sum_set)
  finally show ?thesis
    by (simp add: potential_def run_bound_def execution_create_def[of s] workflow_terminal_def)
qed

text \<open>C11. Every run of an accepted workflow ends. Whatever workers, approvers and the reaper do, in
  any order, an execution admits at most as many operations other than lease renewals as the limits
  of its nodes allow: two, plus \<open>max_visits * (2 * max_attempts + 2)\<close> for every node.\<close>

theorem workflow_run_bounded:
  assumes "accepted_snapshot s" and "engine_run k (execution_create s eid ids now) ex"
  shows "int k \<le> run_bound s"
proof -
  note v = accepted_valid_nodes[OF assms(1)]
  from run_potential[OF assms(2) execution_create_inv[OF v]]
  have "int k \<le> int (potential (execution_create s eid ids now))" by linarith
  then show ?thesis by (simp add: potential_create[OF v])
qed

lemma repair_run_run:
  assumes "repair_run = Inr ex"
  shows "engine_run 5 (ex_create repair_definition) ex"
proof -
  have "engine_run (Suc (Suc (Suc (Suc (Suc 0))))) (ex_create repair_definition) ex"
    using assms unfolding repair_run_def
    by (elim rbind_InrE) (blast intro: engine_run.intros progress_step.intros)
  then show ?thesis by (simp add: numeral_eq_Suc)
qed

lemma repair_accepted: "accepted_snapshot (ex_snapshot repair_definition)"
  by code_simp

theorem workflow_run_bounded_witness:
  "\<exists>ex. engine_run 5 (execution_create (ex_snapshot repair_definition) 3 (\<lambda>_. 4) 0) ex
     \<and> int 5 \<le> run_bound (ex_snapshot repair_definition)"
proof -
  obtain ex where "repair_run = Inr ex" using repair_run_succeeds by (auto split: sum.splits)
  then have r: "engine_run 5 (execution_create (ex_snapshot repair_definition) 3 (\<lambda>_. 4) 0) ex"
    using repair_run_run by (simp add: ex_create_def)
  from workflow_run_bounded[OF repair_accepted r] r show ?thesis by blast
qed


section \<open>Invariants of reachable executions\<close>

lemma run_reachable: "engine_run k ex ex' \<Longrightarrow> reachable_execution s ex \<Longrightarrow> reachable_execution s ex'"
  by (induction rule: engine_run.induct) (auto intro: re_step engine_step.intros)

lemma repair_reachable: "repair_run = Inr ex \<Longrightarrow> reachable_execution (ex_snapshot repair_definition) ex"
  using run_reachable[OF repair_run_run] re_create by (simp add: ex_create_def)

text \<open>C23. In every reachable execution each node stays within its limits (visits at most
  \<open>max_visits\<close>, attempts at most \<open>max_attempts\<close>), only a running task holds a lease, and a lease is
  always complete: a worker, a token and an expiry, or none of the three.\<close>

theorem reachable_node_limits:
  assumes "accepted_snapshot s" "reachable_execution s ex" "we_nodes ex k = Some n"
  shows "\<exists>d \<in> set (ws_nodes s). nd_key d = k
    \<and> ne_visit_count n \<le> nd_max_visits d \<and> ne_attempt_count n \<le> nd_max_attempts d
    \<and> (ne_status n = NRunning \<longrightarrow> nd_kind d = KTask)
    \<and> (ne_lease_token n \<noteq> None \<longrightarrow> ne_status n = NRunning)
    \<and> (ne_lease_token n = None \<longleftrightarrow> ne_worker_id n = None)
    \<and> (ne_lease_token n = None \<longleftrightarrow> ne_lease_expires_at n = None)"
proof -
  have inv: "exec_inv ex" using reachable_inv[OF assms(2) accepted_valid_nodes[OF assms(1)]] .
  have "we_snapshot ex = s" using reachable_snapshot[OF assms(2) accepted_valid_nodes[OF assms(1)]] .
  with exec_inv_node[OF inv assms(3)] obtain d
    where d: "find_node (ws_nodes s) k = Some d" "node_ok k d n" by blast
  have "d \<in> set (ws_nodes s)" "nd_key d = k" using find_node_SomeD[OF d(1)] by auto
  moreover from d(2) have "ne_lease_token n \<noteq> None \<longrightarrow> ne_status n = NRunning"
    "ne_lease_token n = None \<longleftrightarrow> ne_worker_id n = None"
    "ne_lease_token n = None \<longleftrightarrow> ne_lease_expires_at n = None"
    unfolding node_ok_def by blast+
  ultimately show ?thesis
    by (intro bexI[of _ d] conjI) (use d(2) in \<open>auto simp only: node_ok_def insert_iff\<close>)
qed

theorem reachable_node_limits_witness:
  "\<exists>ex n d. repair_run = Inr ex \<and> we_nodes ex ''build'' = Some n
     \<and> d \<in> set (ws_nodes (ex_snapshot repair_definition)) \<and> nd_key d = ''build''
     \<and> ne_attempt_count n \<le> nd_max_attempts d"
proof -
  obtain ex n where r: "repair_run = Inr ex" "we_nodes ex ''build'' = Some n"
    using repair_run_succeeds by (auto simp: node_status_in_def split: sum.splits)
  from reachable_node_limits[OF repair_accepted repair_reachable[OF r(1)] r(2)] r show ?thesis by blast
qed

text \<open>C22. A terminal execution is final: no node of it is ready, running or awaiting approval, it
  records when it completed, it has a failure reason exactly when it failed, and no operation of
  the engine succeeds on it.\<close>

theorem terminal_is_final:
  assumes "accepted_snapshot s" "reachable_execution s ex" "is_terminal ex"
  shows "(\<forall>k n. we_nodes ex k = Some n \<longrightarrow> \<not> active (ne_status n))
    \<and> we_completed_at ex \<noteq> None \<and> (we_status ex = WFailed \<longleftrightarrow> we_failure_reason ex \<noteq> None)
    \<and> (\<forall>ex'. \<not> engine_step ex ex')"
proof -
  have inv: "exec_inv ex" using reachable_inv[OF assms(2) accepted_valid_nodes[OF assms(1)]] .
  then have inactive: "\<forall>k n. we_nodes ex k = Some n \<longrightarrow> \<not> active (ne_status n)"
    and rest: "we_completed_at ex \<noteq> None" "we_status ex = WFailed \<longleftrightarrow> we_failure_reason ex \<noteq> None"
    using assms(3) by (auto simp: exec_inv_def status_ok_def)
  have "potential ex = 0" using assms(3) by (simp add: potential_def)
  then have "\<not> progress_step ex ex'" for ex' using progress_step_potential[OF _ inv] by fastforce
  moreover have "renew_lease ex key tok secs at now \<noteq> Inr ex'" for key tok secs at now ex'
    using inactive by (auto simp: active_def elim!: renew_leaseD)
  ultimately have "\<forall>ex'. \<not> engine_step ex ex'" by (auto elim: engine_step.cases)
  with inactive rest show ?thesis by blast
qed

theorem terminal_is_final_witness:
  "\<exists>ex. repair_run = Inr ex \<and> is_terminal ex \<and> (\<forall>ex'. \<not> engine_step ex ex')"
proof -
  obtain ex where r: "repair_run = Inr ex" "is_terminal ex"
    using repair_run_succeeds by (auto simp: workflow_terminal_def split: sum.splits)
  from terminal_is_final[OF repair_accepted repair_reachable[OF r(1)] r(2)] r show ?thesis by blast
qed

section \<open>Leases\<close>

text \<open>A ready task of a reachable execution can be claimed by any named worker: the claim
  returns, the task runs, its attempt counter grows by one and stays within the limit, and the
  lease names the worker and expires \<open>lease_seconds\<close> later.\<close>

theorem ready_task_claimable:
  assumes "accepted_snapshot s" "reachable_execution s ex" "we_nodes ex k = Some n"
    "ne_status n = NReady" "\<not> blank w" "1 \<le> secs"
  shows "\<exists>ex' n'. claim_task ex k w secs None fresh (Some t) now = Inr ex' \<and> we_nodes ex' k = Some n'
    \<and> ne_status n' = NRunning \<and> ne_attempt_count n' = ne_attempt_count n + 1
    \<and> ne_worker_id n' = Some w \<and> ne_lease_token n' = Some fresh
    \<and> ne_lease_expires_at n' = Some (t + seconds secs)
    \<and> (\<forall>k'. k' \<noteq> k \<longrightarrow> we_nodes ex' k' = we_nodes ex k')"
proof -
  have inv: "exec_inv ex" using reachable_inv[OF assms(2) accepted_valid_nodes[OF assms(1)]] .
  from exec_inv_node[OF inv assms(3)] obtain d
    where d: "find_node (ws_nodes (we_snapshot ex)) k = Some d" "node_ok k d n" by blast
  then have "nd_kind d = KTask" "ne_attempt_count n < nd_max_attempts d"
    using assms(4) by (auto simp: node_ok_def)
  then show ?thesis using assms(3-6) d(1)
    by (simp add: claim_task_def begin_task_def Let_def touch_def put_node_def snapshot_node_Inr
        node_execution_of_def snapshot_node_def next_or_stop_def find_node_def)
qed

text \<open>The first two operations of the repair run.\<close>

definition repair_claimed :: "workflow_execution result" where
  "repair_claimed = rbind (start (ex_create repair_definition) (Some 10) 0) (\<lambda>ex.
     claim_task ex ''build'' ''w1'' 60 None 100 (Some 20) 0)"

definition lease_of :: "workflow_execution \<Rightarrow> string \<Rightarrow> uuid option" where
  "lease_of ex k = (case we_nodes ex k of None \<Rightarrow> None | Some n \<Rightarrow> ne_lease_token n)"

lemma repair_started:
  "case start (ex_create repair_definition) (Some 10) 0 of Inl e \<Rightarrow> False
     | Inr ex \<Rightarrow> node_status_in ex ''build'' = Some NReady"
  "case repair_claimed of Inl e \<Rightarrow> False | Inr ex \<Rightarrow> lease_of ex ''build'' = Some 100
     \<and> node_status_in ex ''build'' = Some NRunning"
  by code_simp+

theorem ready_task_claimable_witness:
  "\<exists>ex ex'. start (ex_create repair_definition) (Some 10) 0 = Inr ex
     \<and> claim_task ex ''build'' ''w1'' 60 None 100 (Some 20) 0 = Inr ex'"
proof -
  obtain ex n where st: "start (ex_create repair_definition) (Some 10) 0 = Inr ex"
    "we_nodes ex ''build'' = Some n" "ne_status n = NReady"
    using repair_started(1) by (auto simp: node_status_in_def split: sum.splits)
  have "reachable_execution (ex_snapshot repair_definition) ex"
    using st(1) unfolding ex_create_def by (blast intro: re_create re_step es_progress es_start)
  from ready_task_claimable[OF repair_accepted this st(2,3), of "''w1''" 60 100 20 0] st(1)
  show ?thesis by (force simp: blank_iff is_space_def)
qed

subsection \<open>Fencing\<close>

text \<open>The operations of the engine, where no claim is given the token \<open>t\<close>.\<close>

inductive other_step :: "uuid \<Rightarrow> workflow_execution \<Rightarrow> workflow_execution \<Rightarrow> bool" for t where
  os_start: "start ex at now = Inr ex' \<Longrightarrow> other_step t ex ex'"
| os_begin: "begin_task ex key at now = Inr ex' \<Longrightarrow> other_step t ex ex'"
| os_claim: "claim_task ex key w secs tok fresh at now = Inr ex' \<Longrightarrow>
    (case tok of None \<Rightarrow> fresh | Some u \<Rightarrow> u) \<noteq> t \<Longrightarrow> other_step t ex ex'"
| os_renew: "renew_lease ex key tok secs at now = Inr ex' \<Longrightarrow> other_step t ex ex'"
| os_complete: "complete_task ex key outc outp tok at now = Inr ex' \<Longrightarrow> other_step t ex ex'"
| os_fail: "fail_task ex key reason tok at now = Inr ex' \<Longrightarrow> other_step t ex ex'"
| os_expire: "expire_task ex key at now = Inr ex' \<Longrightarrow> other_step t ex ex'"
| os_resolve: "resolve_approval ex key approved at now = Inr ex' \<Longrightarrow> other_step t ex ex'"
| os_cancel: "cancel ex at now = Inr ex' \<Longrightarrow> other_step t ex ex'"

lemma other_step_engine: "other_step t ex ex' \<Longrightarrow> engine_step ex ex'"
  by (induction rule: other_step.induct) (blast intro: engine_step.intros progress_step.intros)+

lemma lease_of_put:
  "lease_of (touch (put_node ex key n) at) k = (if k = key then ne_lease_token n else lease_of ex k)"
  by (simp add: lease_of_def touch_def put_node_def)

lemma cancel_node_lease: "ne_lease_token (cancel_node at n) \<in> {None, ne_lease_token n}"
  by (simp add: cancel_node_def clear_lease_def)

lemma lease_of_cancelled:
  "we_nodes ex' = (\<lambda>k. map_option (cancel_node at) (we_nodes ex k)) \<Longrightarrow> lease_of ex' k \<in> {None, lease_of ex k}"
  using cancel_node_lease by (auto simp: lease_of_def split: option.split)

lemma micro_step_lease: "micro_step at ex ex' \<Longrightarrow> lease_of ex' k \<in> {None, lease_of ex k}"
proof (induction rule: micro_step.induct)
  case (ms_fail ex reason)
  show ?case by (rule lease_of_cancelled) simp
next
  case (ms_terminal ex key n d)
  have "lease_of (enter_terminal ex key n d at) k \<in> {None, lease_of (put_node ex key (pass_node n at)) k}"
    by (rule lease_of_cancelled) (simp add: put_node_def)
  then show ?case by (auto simp: lease_of_def put_node_def pass_node_def enter_node_def clear_lease_def)
qed (auto simp: lease_of_def pass_node_def enter_node_def clear_lease_def)

lemma cascade_lease: "cascade at ex ex' \<Longrightarrow> lease_of ex' k \<in> {None, lease_of ex k}"
  by (induction rule: rtranclp_induct) (auto dest: micro_step_lease[where k = k])

lemma fail_put_lease:
  assumes "ne_lease_token m = None"
  shows "lease_of (fail_execution (put_node ex key m) r t) k \<in> {None, if k = key then None else lease_of ex k}"
proof -
  have "lease_of (fail_execution (put_node ex key m) r t) k \<in> {None, lease_of (put_node ex key m) k}"
    by (rule lease_of_cancelled) simp
  moreover have "lease_of (put_node ex key m) k = (if k = key then None else lease_of ex k)"
    using assms by (simp add: lease_of_def put_node_def)
  ultimately show ?thesis by simp
qed

lemma handle_task_failure_cases:
  assumes "handle_task_failure ex key n reason t = Inr ex'"
  obtains m r where "ne_lease_token m = None" "ne_visit_count m = ne_visit_count n"
    "ex' = touch (put_node ex key m) t \<or> ex' = fail_execution (put_node ex key m) r t"
proof -
  from assms have "ex' = touch (put_node ex key (retried n t)) t \<or>
      ex' = fail_execution (put_node ex key (exhausted n t))
        (if blank reason then ''task execution failed'' else py_strip reason) t"
    by (auto simp: handle_task_failure_def retried_def exhausted_def split: if_splits)
  then show thesis
    using that[of "retried n t"] that[of "exhausted n t"]
    by (auto simp: retried_def exhausted_def clear_lease_def)
qed

lemma handle_task_failure_lease:
  assumes "handle_task_failure ex key n reason t = Inr ex'"
  shows "lease_of ex' k \<in> {None, if k = key then None else lease_of ex k}"
proof -
  from assms obtain m r where "ne_lease_token m = None"
    "ex' = touch (put_node ex key m) t \<or> ex' = fail_execution (put_node ex key m) r t"
    by (rule handle_task_failure_cases)
  then show ?thesis using fail_put_lease[of m ex key r t k] by (auto simp: lease_of_put)
qed

text \<open>A token that no node-claim is given again never comes back to a node that lost it.\<close>

lemma other_step_lease:
  assumes "other_step t ex ex'" "exec_inv ex" "lease_of ex k \<noteq> Some t"
  shows "lease_of ex' k \<noteq> Some t"
  using assms
proof (induction rule: other_step.induct)
  case (os_start ex at now ex')
  define u where "u = at_or_now at now"
  define ex1 where "ex1 = touch (ex\<lparr>we_status := WRunning, we_started_at := Some u\<rparr>) u"
  have "activate ex1 (ws_entry_node (we_snapshot ex)) u = Inr ex'"
    using os_start(1) by (auto simp: start_def u_def ex1_def Let_def split: if_splits)
  then have "lease_of ex' k \<in> {None, lease_of ex1 k}"
    by (rule cascade_lease[OF cascade_decomposition(1), rotated])
      (simp add: ex1_def touch_def workflow_terminal_def)
  moreover have "lease_of ex1 k = lease_of ex k" by (simp add: ex1_def touch_def lease_of_def)
  ultimately show ?case using os_start(3) by auto
next
  case (os_begin ex key at now ex')
  then show ?case by (elim begin_taskD) (auto simp: lease_of_put, simp add: lease_of_def)
next
  case (os_claim ex key w secs tok fresh at now ex')
  then show ?case by (elim claim_taskD) (auto simp: put_touch lease_of_put)
next
  case (os_renew ex key tok secs at now ex')
  then show ?case by (elim renew_leaseD) (auto simp: lease_of_put, simp add: lease_of_def)
next
  case (os_complete ex key outc outp tok at now ex')
  from os_complete(1) obtain n u where c: "we_nodes ex key = Some n" "ne_status n = NRunning"
    "route (touch (put_node ex key (completed n outc outp u)) u) key outc outp u = Inr ex'"
    by (rule complete_taskD)
  have "lease_of ex' k \<in> {None, lease_of (touch (put_node ex key (completed n outc outp u)) u) k}"
    using cascade_lease[OF cascade_decomposition(2)[OF _ c(3)]] completed_inv[OF os_complete(2) c(1,2)]
    by blast
  with os_complete(3) show ?case by (auto simp: lease_of_put completed_def clear_lease_def split: if_splits)
next
  case (os_fail ex key reason tok at now ex')
  from os_fail(1) obtain n u where "handle_task_failure ex key n reason u = Inr ex'" by (rule fail_taskD)
  from handle_task_failure_lease[OF this, of k] os_fail(3) show ?case by (auto split: if_splits)
next
  case (os_expire ex key at now ex')
  from os_expire(1) obtain n u where "handle_task_failure ex key n ''task lease expired'' u = Inr ex'"
    by (rule expire_taskD)
  from handle_task_failure_lease[OF this, of k] os_expire(3) show ?case by (auto split: if_splits)
next
  case (os_resolve ex key approved at now ex')
  from os_resolve(1) obtain n u outc where c: "we_nodes ex key = Some n" "ne_status n = NAwaitingApproval"
    "route (touch ((put_node ex key (n\<lparr>ne_status := NSucceeded, ne_outcome := Some outc,
       ne_completed_at := Some u, ne_updated_at := u\<rparr>))\<lparr>we_status := WRunning\<rparr>) u)
       key outc None u = Inr ex'"
    by (rule resolve_approvalD)
  define ex1 where "ex1 = touch ((put_node ex key (n\<lparr>ne_status := NSucceeded, ne_outcome := Some outc,
       ne_completed_at := Some u, ne_updated_at := u\<rparr>))\<lparr>we_status := WRunning\<rparr>) u"
  have "lease_of ex' k \<in> {None, lease_of ex1 k}"
    using cascade_lease[OF cascade_decomposition(2)[OF _ c(3)[folded ex1_def]]]
      resolved_inv[OF os_resolve(2) c(1,2) ex1_def] by blast
  moreover have "lease_of ex1 k = lease_of ex k"
    using c(1) by (simp add: ex1_def touch_def put_node_def lease_of_def)
  ultimately show ?case using os_resolve(3) by auto
next
  case (os_cancel ex at now ex')
  from os_cancel(1) obtain u where "ex' = touch ((cancel_active_nodes ex u)\<lparr>we_status := WCancelled,
      we_completed_at := Some u\<rparr>) u" by (rule cancelD)
  then have "lease_of ex' k \<in> {None, lease_of ex k}"
    by (intro lease_of_cancelled) (simp add: touch_def cancel_active_nodes_def)
  with os_cancel(3) show ?case by auto
qed

lemma other_steps_lease:
  assumes "(other_step t)\<^sup>*\<^sup>* ex ex'" "exec_inv ex" "lease_of ex k \<noteq> Some t"
  shows "exec_inv ex' \<and> lease_of ex' k \<noteq> Some t"
  using assms
  by (induction rule: rtranclp_induct) (auto intro: engine_step_inv[OF other_step_engine] dest: other_step_lease)

lemma validate_lease_lost: "ne_lease_token n \<noteq> Some t \<Longrightarrow> \<exists>e. validate_optional_lease n (Some t) at = Inl e"
  by (auto simp: validate_optional_lease_def split: option.splits)

lemma lost_lease_rejected:
  assumes "lease_of ex k \<noteq> Some t"
  shows "\<exists>e. complete_task ex k outc outp (Some t) at now = Inl e"
    and "\<exists>e. fail_task ex k reason (Some t) at now = Inl e"
    and "\<exists>e. renew_lease ex k t secs at now = Inl e"
proof -
  have l: "\<exists>e. validate_optional_lease n (Some t) u = Inl e" if "we_nodes ex k = Some n" for n u
    using assms that by (intro validate_lease_lost) (simp add: lease_of_def)
  show "\<exists>e. complete_task ex k outc outp (Some t) at now = Inl e"
    using l by (cases "we_nodes ex k") (auto simp: complete_task_def node_execution_of_def Let_def rbind_eq_Inl)
  show "\<exists>e. fail_task ex k reason (Some t) at now = Inl e"
    using l by (cases "we_nodes ex k") (auto simp: fail_task_def node_execution_of_def Let_def rbind_eq_Inl)
  show "\<exists>e. renew_lease ex k t secs at now = Inl e"
    using l by (cases "we_nodes ex k")
      (auto simp: renew_lease_def owned_running_node_def node_execution_of_def Let_def rbind_eq_Inl)
qed

text \<open>C18. A worker whose lease was expired is fenced off for good: after \<open>expire_task\<close>, along
  every further sequence of operations in which no claim is given its old token, that token can
  neither complete nor fail the task nor renew the lease, even when the task was claimed again.\<close>

theorem expired_worker_fenced:
  assumes "accepted_snapshot s" "reachable_execution s ex" "lease_of ex k = Some t"
    "expire_task ex k at now = Inr ex1" "(other_step t)\<^sup>*\<^sup>* ex1 ex2"
  shows "(\<exists>e. complete_task ex2 k outc outp (Some t) at' now' = Inl e)
    \<and> (\<exists>e. fail_task ex2 k reason (Some t) at' now' = Inl e)
    \<and> (\<exists>e. renew_lease ex2 k t secs at' now' = Inl e)"
proof -
  have inv: "exec_inv ex" using reachable_inv[OF assms(2) accepted_valid_nodes[OF assms(1)]] .
  from assms(4) have "exec_inv ex1"
    by (rule engine_step_inv[OF es_progress[OF es_expire] inv])
  moreover from assms(4) obtain n u where "handle_task_failure ex k n ''task lease expired'' u = Inr ex1"
    by (rule expire_taskD)
  then have "lease_of ex1 k \<noteq> Some t" using handle_task_failure_lease[of ex k n _ u ex1 k] by auto
  ultimately have "lease_of ex2 k \<noteq> Some t" using other_steps_lease[OF assms(5)] by blast
  from lost_lease_rejected[OF this] show ?thesis by blast
qed

text \<open>The lease of the first worker expires and a second worker claims the task.\<close>

definition repair_expired :: "workflow_execution result" where
  "repair_expired = rbind repair_claimed (\<lambda>ex. expire_task ex ''build'' (Some 70000000) 0)"

definition repair_reclaimed :: "workflow_execution result" where
  "repair_reclaimed = rbind repair_expired (\<lambda>ex.
     claim_task ex ''build'' ''w2'' 60 None 101 (Some 70000001) 0)"

lemma repair_reclaimed_lease:
  "case repair_reclaimed of Inl e \<Rightarrow> False | Inr ex \<Rightarrow> lease_of ex ''build'' = Some 101"
  by code_simp

lemma repair_claimed_reachable:
  "repair_claimed = Inr ex \<Longrightarrow> reachable_execution (ex_snapshot repair_definition) ex"
  unfolding repair_claimed_def ex_create_def
  by (elim rbind_InrE) (meson es_claim es_progress es_start re_create re_step)

theorem expired_worker_fenced_witness:
  "\<exists>ex. repair_reclaimed = Inr ex \<and> lease_of ex ''build'' = Some 101
     \<and> (\<exists>e. complete_task ex ''build'' OSuccess (Some []) (Some 100) (Some 70000002) 0 = Inl e)"
proof -
  obtain ex2 where r2: "repair_reclaimed = Inr ex2" "lease_of ex2 ''build'' = Some 101"
    using repair_reclaimed_lease by (auto split: sum.splits)
  then obtain ex ex1 where r: "repair_claimed = Inr ex"
    "expire_task ex ''build'' (Some 70000000) 0 = Inr ex1"
    "claim_task ex1 ''build'' ''w2'' 60 None 101 (Some 70000001) 0 = Inr ex2"
    by (auto simp: repair_reclaimed_def repair_expired_def)
  have l: "lease_of ex ''build'' = Some 100" using repair_started(2) unfolding r(1) by simp
  have "other_step 100 ex1 ex2" by (rule os_claim[OF r(3)]) simp
  then have "(other_step 100)\<^sup>*\<^sup>* ex1 ex2" by (rule r_into_rtranclp)
  from expired_worker_fenced[OF repair_accepted repair_claimed_reachable[OF r(1)] l r(2) this,
      of OSuccess "Some []" "Some 70000002" 0] r2
  show ?thesis by blast
qed

section \<open>Version and identity\<close>

text \<open>Every operation that succeeds on a reachable execution, the heartbeat included, strictly
  increases the version the repositories compare, keeps the identity and the snapshot of the
  execution, and never takes back a visit.\<close>

theorem engine_step_version:
  assumes "accepted_snapshot s" "reachable_execution s ex" "engine_step ex ex'"
  shows "we_version ex < we_version ex' \<and> we_id ex' = we_id ex \<and> we_snapshot ex' = s
    \<and> (\<forall>k. visits ex k \<le> visits ex' k)"
  using engine_step_succeeds[OF assms(3) reachable_inv[OF assms(2) accepted_valid_nodes[OF assms(1)]]]
    reachable_snapshot[OF assms(2) accepted_valid_nodes[OF assms(1)]]
  by (simp add: succeeds_to_def stays_def)

theorem engine_step_version_witness:
  "\<exists>ex ex'. repair_claimed = Inr ex \<and> repair_expired = Inr ex' \<and> we_version ex < we_version ex'"
proof -
  obtain ex2 where "repair_reclaimed = Inr ex2"
    using repair_reclaimed_lease by (auto split: sum.splits)
  then obtain ex1 where r1: "repair_expired = Inr ex1" by (auto simp: repair_reclaimed_def)
  then obtain ex where r: "repair_claimed = Inr ex" "expire_task ex ''build'' (Some 70000000) 0 = Inr ex1"
    by (auto simp: repair_expired_def)
  have "engine_step ex ex1" using r(2) by (blast intro: es_progress es_expire)
  from engine_step_version[OF repair_accepted repair_claimed_reachable[OF r(1)] this] r(1) r1
  show ?thesis by blast
qed

section \<open>The engine returns\<close>

text \<open>What the cascade needs of the aggregate, and what it leaves: it ends the execution, leaves an
  active node, or stops before a join that still waits for one of its sources.\<close>

definition has_active :: "workflow_execution \<Rightarrow> bool" where
  "has_active ex \<longleftrightarrow> (\<exists>k n. we_nodes ex k = Some n \<and> active (ne_status n))"

definition waiting_join :: "workflow_execution \<Rightarrow> bool" where
  "waiting_join ex \<longleftrightarrow> (\<exists>d \<in> set (ws_nodes (we_snapshot ex)). nd_kind d = KJoin
     \<and> (\<exists>src \<in> set (incoming_sources (we_snapshot ex) (nd_key d)).
          \<exists>n. we_nodes ex src = Some n \<and> ne_status n \<noteq> NSucceeded))"

definition settled :: "workflow_execution \<Rightarrow> bool" where
  "settled ex \<longleftrightarrow> is_terminal ex \<or> has_active ex \<or> waiting_join ex"

definition routable :: "workflow_execution \<Rightarrow> bool" where
  "routable ex \<longleftrightarrow> dom (we_nodes ex) = nd_key ` set (ws_nodes (we_snapshot ex))
     \<and> (\<forall>e \<in> set (ws_edges (we_snapshot ex)). {ed_source e, ed_target e} \<subseteq> dom (we_nodes ex))"

lemma find_node_key: "key \<in> nd_key ` set ns \<Longrightarrow> \<exists>d. find_node ns key = Some d"
  unfolding find_node_def by (auto intro: find_ex)

lemma routable_stays: "routable ex \<Longrightarrow> we_snapshot ex' = we_snapshot ex \<Longrightarrow>
    dom (we_nodes ex') = dom (we_nodes ex) \<Longrightarrow> routable ex'"
  unfolding routable_def by metis

lemma all_succeeded_total:
  "set ss \<subseteq> dom nodes \<Longrightarrow> all_succeeded nodes ss = Inr (\<forall>x \<in> set ss. \<exists>n. nodes x = Some n \<and> ne_status n = NSucceeded)"
  by (induction ss) (auto split: option.split)

lemma join_is_ready_total:
  assumes "routable ex"
  shows "join_is_ready ex key = Inr (\<forall>x \<in> set (incoming_sources (we_snapshot ex) key).
    \<exists>n. we_nodes ex x = Some n \<and> ne_status n = NSucceeded)"
  unfolding join_is_ready_def
  by (rule all_succeeded_total)
    (use assms in \<open>auto simp: routable_def incoming_sources_def incoming_def\<close>)

lemma select_targets_subset: "set (select_targets edges outp) \<subseteq> ed_target ` set edges"
  unfolding select_targets_def
  by (cases "find (edge_matches outp) edges"; cases "find (\<lambda>e. ed_condition e = None) edges")
     (auto dest: find_SomeD)

lemma micro_step_dom: "micro_step at ex ex' \<Longrightarrow> dom (we_nodes ex') = dom (we_nodes ex)"
  by (induction rule: micro_step.induct) (auto simp: dom_def)

lemma cascade_routable: "cascade at ex ex' \<Longrightarrow> routable ex \<Longrightarrow> routable ex'"
proof (induction rule: rtranclp_induct)
  case (step y z)
  then show ?case
    using routable_stays[of y z] micro_step_dom[OF step(2)] micro_step_stays[OF step(2)]
    by (simp add: stays_def)
qed

lemma settled_waiting:
  assumes "routable ex" "find_node (ws_nodes (we_snapshot ex)) key = Some d" "nd_kind d = KJoin"
    "join_is_ready ex key = Inr False"
  shows "settled ex"
proof -
  from assms(1,4) obtain src where src: "src \<in> set (incoming_sources (we_snapshot ex) key)"
    "\<not> (\<exists>n. we_nodes ex src = Some n \<and> ne_status n = NSucceeded)"
    by (auto simp: join_is_ready_total)
  moreover have "src \<in> dom (we_nodes ex)"
    using assms(1) src(1) by (auto simp: routable_def incoming_sources_def incoming_def)
  ultimately have "waiting_join ex"
    using find_node_SomeD[OF assms(2)] assms(3) unfolding waiting_join_def by blast
  then show ?thesis by (simp add: settled_def)
qed

lemma settled_enter:
  "settled (fail_execution ex reason at)" "settled (enter_task ex key n at)"
  "settled (enter_approval ex key n at)"
  "nd_terminal_status d \<in> {None, Some WSucceeded, Some WFailed} \<Longrightarrow> settled (enter_terminal ex key n d at)"
  unfolding settled_def has_active_def
  by (auto simp: workflow_terminal_def active_def split: option.split)

lemma activate_join_blocked:
  assumes "find_node (ws_nodes (we_snapshot ex)) key = Some d" "nd_kind d = KJoin"
    "join_is_ready ex key = Inr False" "we_nodes ex key = Some n"
  shows "activate ex key at = Inr ex"
  using assms by (simp add: activate.simps node_execution_of_def snapshot_node_def next_or_stop_def find_node_def)

lemma routable_enter_control:
  "routable ex \<Longrightarrow> we_nodes ex key = Some n \<Longrightarrow> routable (enter_control ex key n at)"
  by (rule routable_stays) auto

lemma cascade_total:
  "\<not> is_terminal ex \<Longrightarrow> routable ex \<Longrightarrow> valid_nodes (we_snapshot ex) \<Longrightarrow> key \<in> dom (we_nodes ex) \<Longrightarrow>
     \<exists>ex'. activate ex key at = Inr ex' \<and> settled ex'"
  "\<not> is_terminal ex \<Longrightarrow> routable ex \<Longrightarrow> valid_nodes (we_snapshot ex) \<Longrightarrow>
     \<exists>ex'. route ex source outc outp at = Inr ex' \<and> settled ex'"
  "\<not> is_terminal ex \<Longrightarrow> routable ex \<Longrightarrow> valid_nodes (we_snapshot ex) \<Longrightarrow> set targets \<subseteq> dom (we_nodes ex) \<Longrightarrow>
     (targets = [] \<Longrightarrow> settled ex) \<Longrightarrow> \<exists>ex'. route_loop ex targets at = Inr ex' \<and> settled ex'"
proof (induction ex key at and ex source outc outp at and ex targets at
    rule: activate_route_route_loop.induct)
  case (1 ex key at)
  from "1.prems"(4) obtain n where n: "we_nodes ex key = Some n" by blast
  have "key \<in> nd_key ` set (ws_nodes (we_snapshot ex))"
    using "1.prems"(2,4) by (simp add: routable_def)
  from find_node_key[OF this] obtain d where d: "find_node (ws_nodes (we_snapshot ex)) key = Some d" by blast
  obtain ready where r: "(if nd_kind d = KJoin then join_is_ready ex key else Inr True) = Inr ready"
    using join_is_ready_total[OF "1.prems"(2)] by (cases "nd_kind d = KJoin") auto
  have act: "activate ex key at = (if \<not> ready then Inr ex
       else if nd_max_visits d \<le> ne_visit_count n
       then Inr (fail_execution ex (''node visit limit exceeded: '' @ key) at)
       else if nd_kind d = KTask then Inr (enter_task ex key n at)
       else if nd_kind d = KApproval then Inr (enter_approval ex key n at)
       else if nd_kind d = KTerminal then Inr (enter_terminal ex key n d at)
       else route (enter_control ex key n at) key OSuccess None at)"
    using n d r by (simp add: activate.simps node_execution_of_def snapshot_node_def next_or_stop_def find_node_def)
  have rec: "\<exists>ex'. route (enter_control ex key n at) key OSuccess None at = Inr ex' \<and> settled ex'"
    if c: "ready" "\<not> nd_max_visits d \<le> ne_visit_count n" "nd_kind d \<noteq> KTask"
      "nd_kind d \<noteq> KApproval" "nd_kind d \<noteq> KTerminal"
    using "1.IH"[of n d ready] n d r c "1.prems" routable_enter_control[OF "1.prems"(2) n]
    by (simp add: snapshot_node_Inr enter_not_terminal)
  have "ready \<or> settled ex"
    using r settled_waiting[OF "1.prems"(2) d] by (cases "nd_kind d = KJoin") auto
  moreover have "nd_kind d = KTerminal \<Longrightarrow> settled (enter_terminal ex key n d at)"
    using valid_nodesD(3)[OF "1.prems"(3) d] by (intro settled_enter) auto
  ultimately show ?case using rec by (auto simp: act settled_enter)
next
  case (2 ex source outc outp at)
  let ?edges = "route_edges (ws_edges (we_snapshot ex)) source outc"
  have "set (select_targets ?edges outp) \<subseteq> dom (we_nodes ex)"
    using select_targets_subset[of ?edges outp] "2.prems"(2) by (auto simp: routable_def route_edges_def)
  with 2 show ?case by (auto simp: route.simps Let_def settled_enter)
next
  case (3 ex at)
  then show ?case by (simp add: route_loop.simps)
next
  case (4 ex target targets at)
  then obtain ex1 where ex1: "activate ex target at = Inr ex1" "settled ex1" by auto
  note c = cascade_decomposition(1)[OF "4.prems"(1) ex1(1)]
  have s: "we_snapshot ex1 = we_snapshot ex" using cascade_stays[OF c] by (simp add: stays_def)
  have rt: "routable ex1" using cascade_routable[OF c "4.prems"(2)] .
  then have "dom (we_nodes ex1) = dom (we_nodes ex)" using "4.prems"(2) s by (simp add: routable_def)
  then show ?case
    using "4.IH"(2)[OF ex1(1)] "4.prems"(3,4) ex1 s rt
    by (cases "is_terminal ex1") (auto simp: route_loop.simps)
qed

lemma reachable_routable:
  assumes "accepted_snapshot s" "reachable_execution s ex"
  shows "routable ex"
proof -
  note v = accepted_valid_nodes[OF assms(1)]
  have snap: "we_snapshot ex = s" and inv: "exec_inv ex"
    using reachable_snapshot[OF assms(2) v] reachable_inv[OF assms(2) v] .
  have "\<forall>e \<in> set (ws_edges s). well_formed_edge (ws_nodes s) e"
    using assms(1) by (auto simp: accepted_snapshot_def definition_accepted_iff
        well_formed_definition_def definition_of_def)
  then have "\<forall>e \<in> set (ws_edges s). {ed_source e, ed_target e} \<subseteq> nd_key ` set (ws_nodes s)"
    unfolding well_formed_edge_def by (metis empty_subsetI find_node_SomeD image_eqI insert_subset)
  then show ?thesis using inv by (simp add: routable_def exec_inv_def nodes_ok_def snap)
qed

lemma complete_task_total:
  assumes "accepted_snapshot s" "reachable_execution s ex" "we_nodes ex k = Some n"
    "ne_status n = NRunning" "outc \<in> {OSuccess, OFailure}" "validate_optional_lease n tok t = Inr ()"
  shows "\<exists>ex'. complete_task ex k outc outp tok (Some t) now = Inr ex'"
proof -
  note v = accepted_valid_nodes[OF assms(1)]
  have inv: "exec_inv ex" and snap: "we_snapshot ex = s"
    using reachable_inv[OF assms(2) v] reachable_snapshot[OF assms(2) v] .
  let ?ex1 = "touch (put_node ex k (completed n outc outp t)) t"
  have "routable ?ex1"
    by (rule routable_stays[OF reachable_routable[OF assms(1,2)]])
      (use assms(3) in \<open>auto simp: touch_def put_node_def\<close>)
  moreover have "\<not> is_terminal ?ex1" using completed_inv[OF inv assms(3,4)] by blast
  moreover have "valid_nodes (we_snapshot ?ex1)" using v snap by (simp add: touch_def put_node_def)
  ultimately obtain ex' where "route ?ex1 k outc outp t = Inr ex'" using cascade_total(2) by blast
  then show ?thesis
    using assms(3-6) by (simp add: complete_task_def node_execution_of_def completed_def Let_def)
qed

text \<open>On an accepted workflow the engine never breaks inside a transition: a running task whose
  lease the caller holds can always be completed with success or failure, whatever its output. The
  cascade of activations ends and raises nothing (no unknown node, no missing edge target).\<close>

theorem complete_task_returns:
  assumes "accepted_snapshot s" "reachable_execution s ex" "we_nodes ex k = Some n"
    "ne_status n = NRunning" "outc \<in> {OSuccess, OFailure}" "validate_optional_lease n tok t = Inr ()"
  shows "\<exists>ex'. complete_task ex k outc outp tok (Some t) now = Inr ex'"
  using assms by (rule complete_task_total)

theorem complete_task_returns_witness:
  "\<exists>ex ex'. repair_claimed = Inr ex
     \<and> complete_task ex ''build'' OFailure (Some [(''x'', JInt 1)]) (Some 100) (Some 30) 0 = Inr ex'"
proof -
  obtain ex n where r: "repair_claimed = Inr ex" "we_nodes ex ''build'' = Some n" "ne_status n = NRunning"
    "ne_lease_token n = Some 100"
    using repair_started(2) by (auto simp: node_status_in_def lease_of_def split: sum.splits)
  have "validate_optional_lease n (Some 100) 30 = Inr ()"
    using r by (auto simp: repair_claimed_def validate_lease_Some seconds_def put_node_def elim!: claim_taskD)
  from complete_task_returns[OF repair_accepted repair_claimed_reachable[OF r(1)] r(2,3) _ this,
      of OFailure] r(1)
  show ?thesis by blast
qed

lemma settled_put_active:
  "active (ne_status n) \<Longrightarrow> settled (touch (put_node ex key n) t)"
  by (auto simp: settled_def has_active_def touch_def put_node_def)

lemma handle_task_failure_settled: "handle_task_failure ex key n reason t = Inr ex' \<Longrightarrow> settled ex'"
  unfolding handle_task_failure_def
  by (auto simp: settled_enter active_def intro!: settled_put_active split: if_splits)

lemma engine_step_settled:
  assumes "accepted_snapshot s" "reachable_execution s ex" "engine_step ex ex'"
  shows "settled ex'"
proof -
  note v = accepted_valid_nodes[OF assms(1)] and rt = reachable_routable[OF assms(1,2)]
  have inv: "exec_inv ex" and snap: "we_snapshot ex = s"
    using reachable_inv[OF assms(2) v] reachable_snapshot[OF assms(2) v] .
  have routed: "settled ex2" if "route ex1 key outc outp t = Inr ex2" "\<not> is_terminal ex1"
      "we_snapshot ex1 = we_snapshot ex" "dom (we_nodes ex1) = dom (we_nodes ex)" for ex1 ex2 key outc outp t
    using cascade_total(2)[OF that(2) routable_stays[OF rt that(3,4)], of key outc outp t] that(1,3) v snap
    by simp
  from assms(3) show ?thesis
  proof (cases rule: engine_step.cases)
    case (es_renew key tok secs at now)
    then show ?thesis by (elim renew_leaseD) (simp add: settled_put_active active_def)
  next
    case es_progress
    then show ?thesis
    proof (cases rule: progress_step.cases)
      case (es_start at now)
      define t where "t = at_or_now at now"
      define ex1 where "ex1 = touch (ex\<lparr>we_status := WRunning, we_started_at := Some t\<rparr>) t"
      have act: "activate ex1 (ws_entry_node (we_snapshot ex)) t = Inr ex'"
        using es_start by (auto simp: start_def t_def ex1_def Let_def split: if_splits)
      have "ws_entry_node s \<in> dom (we_nodes ex)"
        using assms(1) rt by (auto simp: accepted_snapshot_def definition_accepted_iff
            well_formed_definition_def definition_of_def routable_def snap)
      moreover have "routable ex1" by (rule routable_stays[OF rt]) (simp_all add: ex1_def touch_def)
      ultimately show ?thesis
        using cascade_total(1)[of ex1 "ws_entry_node s" t] act v snap
        by (simp add: ex1_def touch_def workflow_terminal_def)
    next
      case (es_begin key at now)
      then show ?thesis by (elim begin_taskD) (simp add: settled_put_active active_def)
    next
      case (es_claim key w secs tok fresh at now)
      then show ?thesis by (elim claim_taskD) (simp add: put_touch settled_put_active active_def)
    next
      case (es_complete key outc outp tok at now)
      then obtain n t where c: "we_nodes ex key = Some n" "ne_status n = NRunning"
        "route (touch (put_node ex key (completed n outc outp t)) t) key outc outp t = Inr ex'"
        by (elim complete_taskD)
      show ?thesis
        by (rule routed[OF c(3)]) (use completed_inv[OF inv c(1,2)] c(1) in \<open>auto simp: touch_def put_node_def\<close>)
    next
      case (es_fail key reason tok at now)
      then show ?thesis by (elim fail_taskD) (rule handle_task_failure_settled)
    next
      case (es_expire key at now)
      then show ?thesis by (elim expire_taskD) (rule handle_task_failure_settled)
    next
      case (es_resolve key approved at now)
      then obtain n t outc where c: "we_nodes ex key = Some n"
        "route (touch ((put_node ex key (n\<lparr>ne_status := NSucceeded, ne_outcome := Some outc,
           ne_completed_at := Some t, ne_updated_at := t\<rparr>))\<lparr>we_status := WRunning\<rparr>) t)
           key outc None t = Inr ex'"
        by (elim resolve_approvalD)
      show ?thesis
        by (rule routed[OF c(2)]) (use c(1) in \<open>auto simp: touch_def put_node_def workflow_terminal_def\<close>)
    next
      case (es_cancel at now)
      then show ?thesis by (elim cancelD) (simp add: settled_def touch_def workflow_terminal_def)
    qed
  qed
qed

text \<open>C19. A started execution never stalls silently except before a join: whenever no node is
  ready, running or awaiting approval and the execution is neither pending nor terminal, some join
  has an incoming source that has not succeeded. In particular a workflow without joins always has
  a node to work on until it ends.\<close>

theorem stalled_only_at_join:
  assumes "accepted_snapshot s" "reachable_execution s ex" "we_status ex \<in> {WRunning, WAwaitingApproval}"
    "\<forall>k n. we_nodes ex k = Some n \<longrightarrow> \<not> active (ne_status n)"
  shows "\<exists>d \<in> set (ws_nodes s). nd_kind d = KJoin \<and> (\<exists>src \<in> set (incoming_sources s (nd_key d)).
    \<exists>n. we_nodes ex src = Some n \<and> ne_status n \<noteq> NSucceeded)"
proof -
  have "we_snapshot ex = s"
    using reachable_snapshot[OF assms(2) accepted_valid_nodes[OF assms(1)]] .
  moreover have "settled ex"
    using assms(2)
  proof (cases rule: reachable_execution.cases)
    case (re_create eid ids now)
    then show ?thesis using assms(3) by (simp add: execution_create_def)
  next
    case (re_step ex0)
    then show ?thesis using engine_step_settled[OF assms(1)] by blast
  qed
  ultimately show ?thesis
    using assms(3,4) unfolding settled_def has_active_def waiting_join_def
    by (auto simp: workflow_terminal_def)
qed

lemma stalled_reachable:
  "stalled_run = Inr ex \<Longrightarrow> reachable_execution (ex_snapshot exclusive_join_definition) ex"
  unfolding stalled_run_def run_task_def ex_create_def
  by (elim rbind_InrE) (meson es_claim es_complete es_progress es_start re_create re_step)

lemma exclusive_join_accepted: "accepted_snapshot (ex_snapshot exclusive_join_definition)"
  by code_simp

lemma exclusive_join_keys:
  "nd_key ` set (ws_nodes (ex_snapshot exclusive_join_definition)) = {''a'', ''b'', ''c'', ''j'', ''done''}"
  by (simp add: ex_snapshot_def exclusive_join_definition_def ex_definition_def ex_node_def)

lemma stalled_run_inactive:
  obtains ex where "stalled_run = Inr ex" "we_status ex = WRunning"
    "\<forall>k n. we_nodes ex k = Some n \<longrightarrow> \<not> active (ne_status n)"
proof -
  obtain ex where ex: "stalled_run = Inr ex" "we_status ex = WRunning"
    and st: "\<forall>k \<in> {''a'', ''b'', ''c'', ''j'', ''done''}. node_status_in ex k \<in> {Some NSucceeded, Some NPending}"
    using stalled_run_result by (auto split: sum.splits)
  have "dom (we_nodes ex) = nd_key ` set (ws_nodes (ex_snapshot exclusive_join_definition))"
    using reachable_routable[OF exclusive_join_accepted stalled_reachable[OF ex(1)]]
      reachable_snapshot[OF stalled_reachable[OF ex(1)] accepted_valid_nodes[OF exclusive_join_accepted]]
    by (simp add: routable_def)
  then have "\<forall>k n. we_nodes ex k = Some n \<longrightarrow> node_status_in ex k \<in> {Some NSucceeded, Some NPending}"
    using st unfolding exclusive_join_keys by blast
  then have "\<forall>k n. we_nodes ex k = Some n \<longrightarrow> \<not> active (ne_status n)"
    by (fastforce simp: node_status_in_def active_def)
  with ex show thesis by (rule that)
qed

theorem stalled_only_at_join_witness:
  "\<exists>ex d. stalled_run = Inr ex \<and> d \<in> set (ws_nodes (ex_snapshot exclusive_join_definition)) \<and> nd_kind d = KJoin"
proof -
  obtain ex where ex: "stalled_run = Inr ex" "we_status ex = WRunning"
    "\<forall>k n. we_nodes ex k = Some n \<longrightarrow> \<not> active (ne_status n)"
    by (rule stalled_run_inactive)
  from stalled_only_at_join[OF exclusive_join_accepted stalled_reachable[OF ex(1)] _ ex(3)] ex(1,2)
  show ?thesis by blast
qed

text \<open>C25. The stall does happen: a definition the constructor accepts, whose join is fed by the
  success and the failure branch of one task, reaches a state that is \<open>RUNNING\<close> with no node to
  work on, from which the only operation that succeeds is \<open>cancel\<close>.\<close>

theorem exclusive_branches_stall_join:
  "accepted_snapshot (ex_snapshot exclusive_join_definition)
   \<and> (\<exists>ex. reachable_execution (ex_snapshot exclusive_join_definition) ex \<and> we_status ex = WRunning
        \<and> \<not> has_active ex \<and> {ex'. engine_step ex ex'} = {ex'. \<exists>at now. cancel ex at now = Inr ex'})"
proof -
  obtain ex where ex: "stalled_run = Inr ex" "we_status ex = WRunning"
    "\<forall>k n. we_nodes ex k = Some n \<longrightarrow> \<not> active (ne_status n)"
    by (rule stalled_run_inactive)
  have idle: "ne_status n \<notin> {NReady, NRunning, NAwaitingApproval}" if "we_nodes ex k = Some n" for k n
    using ex(3) that by (simp add: active_def)
  have "\<exists>at now. cancel ex at now = Inr ex'" if "engine_step ex ex'" for ex'
    using that
  proof (cases rule: engine_step.cases)
    case es_progress
    then show ?thesis
      by (cases rule: progress_step.cases)
        (use idle ex(2) in \<open>auto simp: start_def elim!: begin_taskD claim_taskD complete_taskD fail_taskD
          expire_taskD resolve_approvalD\<close>)
  qed (use idle in \<open>auto elim!: renew_leaseD\<close>)
  then have "{ex'. engine_step ex ex'} = {ex'. \<exists>at now. cancel ex at now = Inr ex'}"
    by (auto intro: es_progress es_cancel)
  moreover have "\<not> has_active ex" using ex(3) by (simp add: has_active_def)
  ultimately show ?thesis using exclusive_join_accepted stalled_reachable[OF ex(1)] ex(2) by blast
qed

section \<open>Joins\<close>
















section \<open>Conditional routing\<close>

lemma strict_distinct_unique:
  "strict_distinct vs \<Longrightarrow> i < j \<Longrightarrow> j < length vs \<Longrightarrow> \<not> strict_eq (vs ! i) (vs ! j)"
proof (induction vs arbitrary: i j)
  case (Cons v vs)
  then show ?case by (cases i; cases j) (auto simp: list_ex_iff)
qed simp

lemma map_filter_Some: "List.map_filter f xs = map (\<lambda>x. the (f x)) (filter (\<lambda>x. f x \<noteq> None) xs)"
  by (induction xs) (auto simp: List.map_filter_simps)

text \<open>At most one edge of a well-formed route matches an output.\<close>

lemma matching_edges_unique:
  assumes path: "\<forall>c \<in> set (conditions edges). ac_path c = p"
    and dist: "strict_distinct (map ac_equals (conditions edges))"
  shows "length (filter (edge_matches outp) edges) \<le> 1"
  using assms
proof (induction edges)
  case (Cons e es)
  have IH: "length (filter (edge_matches outp) es) \<le> 1"
    using Cons by (cases "ed_condition e") (auto simp: conditions_def List.map_filter_simps)
  show ?case
  proof (cases "edge_matches outp e")
    case True
    then obtain c where c: "ed_condition e = Some c" "condition_matches outp c"
      by (auto simp: edge_matches_def split: option.splits)
    have "\<not> edge_matches outp f" if f: "f \<in> set es" for f
    proof
      assume "edge_matches outp f"
      then obtain c' where c': "ed_condition f = Some c'" "condition_matches outp c'"
        by (auto simp: edge_matches_def split: option.splits)
      have in_es: "c' \<in> set (conditions es)"
        using f c'(1) by (force simp: conditions_def map_filter_Some)
      have "ac_path c = ac_path c'"
        using Cons.prems(1) c(1) in_es by (auto simp: conditions_def List.map_filter_simps)
      with c(2) c'(2) obtain v where "strict_eq v (ac_equals c)" "strict_eq v (ac_equals c')"
        by (auto simp: condition_matches_def split: option.splits)
      then have "strict_eq (ac_equals c) (ac_equals c')" by (rule strict_eq_euclid)
      moreover have "\<not> strict_eq (ac_equals c) (ac_equals c')"
        using Cons.prems(2) c(1) in_es by (auto simp: conditions_def List.map_filter_simps list_ex_iff)
      ultimately show False by contradiction
    qed
    then show ?thesis by (simp add: filter_empty_conv)
  qed (use IH in simp)
qed simp

lemma find_filter_hd: "find P xs = (case filter P xs of [] \<Rightarrow> None | x # _ \<Rightarrow> Some x)"
  by (induction xs) auto

lemma find_unique_mset:
  assumes "mset xs = mset ys" "length (filter P xs) \<le> 1"
  shows "find P ys = find P xs"
proof -
  have "mset (filter P xs) = mset (filter P ys)" using assms(1) by simp
  moreover from assms(2) have "filter P xs = [] \<or> (\<exists>x. filter P xs = [x])"
    by (cases "filter P xs"; cases "tl (filter P xs)") auto
  ultimately have "filter P ys = filter P xs" by (auto simp del: mset_filter)
  then show ?thesis by (simp add: find_filter_hd)
qed

text \<open>Routing does not depend on the order in which a definition lists its edges: on an accepted
  workflow, for every node, outcome and task output, the selected targets are the same for every
  permutation of the edges, because at most one condition of a route matches and at most one edge is
  the default.\<close>

theorem routing_order_independent:
  assumes "accepted_snapshot s" "mset es = mset (ws_edges s)"
  shows "select_targets (route_edges es source outc) outp
    = select_targets (route_edges (ws_edges s) source outc) outp"
proof -
  let ?a = "route_edges (ws_edges s) source outc" and ?b = "route_edges es source outc"
  have m: "mset ?a = mset ?b" using assms(2) by (simp add: route_edges_def)
  have none: "filter (\<lambda>e. ed_condition e \<noteq> None) ?a = [] \<longleftrightarrow> filter (\<lambda>e. ed_condition e \<noteq> None) ?b = []"
    using mset_eq_setD[OF m] by (auto simp: filter_empty_conv)
  have sorted: "sort (map ed_target ?a) = sort (map ed_target ?b)"
    by (rule properties_for_sort) (simp_all add: m)
  show ?thesis
  proof (cases "filter (\<lambda>e. ed_condition e \<noteq> None) ?a = []")
    case True
    then show ?thesis using none sorted by (simp add: select_targets_def)
  next
    case False
    then obtain e where e: "e \<in> set ?a" "ed_condition e \<noteq> None" by (auto simp: filter_empty_conv)
    have wf: "well_formed_edge (ws_nodes s) e" "well_formed_route (ws_nodes s) (ws_edges s) source outc"
      using assms(1) e(1)
      by (auto simp: accepted_snapshot_def definition_accepted_iff well_formed_definition_def
          definition_of_def route_edges_def)
    have "\<not> (\<exists>n. find_node (ws_nodes s) source = Some n \<and> nd_kind n = KFork)"
      using wf(1) e by (auto simp: well_formed_edge_def route_edges_def)
    with wf(2) obtain p where r: "length (defaults ?a) \<le> 1" "\<forall>c \<in> set (conditions ?a). ac_path c = p"
      "strict_distinct (map ac_equals (conditions ?a))"
      by (auto simp: well_formed_route_def Let_def)
    have "find (edge_matches outp) ?b = find (edge_matches outp) ?a"
      by (rule find_unique_mset[OF m matching_edges_unique[OF r(2,3)]])
    moreover have "find (\<lambda>e. ed_condition e = None) ?b = find (\<lambda>e. ed_condition e = None) ?a"
      by (rule find_unique_mset[OF m]) (use r(1) in \<open>simp add: defaults_def\<close>)
    ultimately show ?thesis using False none by (simp add: select_targets_def split: option.split)
  qed
qed

theorem routing_order_independent_witness:
  "select_targets (route_edges (rev (ws_edges (ex_snapshot repair_definition))) ''build'' OFailure) None
     = [''fix'']"
proof -
  have "select_targets (route_edges (ws_edges (ex_snapshot repair_definition)) ''build'' OFailure) None
      = [''fix'']" by code_simp
  with routing_order_independent[OF repair_accepted,
      of "rev (ws_edges (ex_snapshot repair_definition))" "''build''" OFailure None]
  show ?thesis by simp
qed

end
