(* ===== verification/Py_Text.thy ===== *)
theory Py_Text
  imports Catalog Py_Decimal
begin

text \<open>
  The text forms in which the sources store and print values of the standard library:
  \<^verbatim>\<open>str(UUID)\<close> and \<^verbatim>\<open>UUID(str)\<close>, \<^verbatim>\<open>datetime.isoformat\<close> and \<^verbatim>\<open>datetime.fromisoformat\<close>,
  \<^verbatim>\<open>str(Decimal)\<close> and \<^verbatim>\<open>Decimal(str)\<close>, \<^verbatim>\<open>int(str)\<close>. Each pair is proved to be a round trip on
  the values Python can hold: identifiers of 128 bits, instants of the years 1 to 9999, all finite
  decimals. Spellings the readers of the standard library accept beyond those the writers and the
  usual ISO 8601 form use (week dates and compact times, a sign or prefix inside a UUID, infinite
  decimals) are errors of the model.
\<close>

section \<open>Decimal digits\<close>

lemma digit_code: "of_char (char_of (48 + k)) = (48 + nat k)" if "0 \<le> k" "k < 10" for k :: int
proof -
  have "int (of_char (char_of (48 + k))) = 48 + k"
    using that by (simp only: of_nat_of_char of_char_of) simp
  then show ?thesis using that by linarith
qed

lemma str_pos_digits: "0 \<le> n \<Longrightarrow> c \<in> set (str_pos n) \<Longrightarrow> is_digit c"
proof (induction n rule: str_pos.induct)
  case (1 n)
  have d: "is_digit (char_of (48 + k))" if "0 \<le> k" "k < 10" for k :: int
    using digit_code[OF that] that by (simp add: is_digit_def less_eq_char_def)
  show ?case
  proof (cases "n < 10")
    case True
    then show ?thesis using 1(2,3) d[of n] by (subst (asm) str_pos.simps) simp
  next
    case False
    then show ?thesis using 1 d[of "n mod 10"] by (subst (asm) str_pos.simps) auto
  qed
qed

lemma py_int_append: "py_int (s @ [char_of (48 + d)]) = 10 * py_int s + nat d" if "0 \<le> d" "d < 10" for d :: int
  using digit_code[OF that] by (simp add: py_int_def)

lemma py_int_str_pos: "0 \<le> n \<Longrightarrow> py_int (str_pos n) = nat n"
proof (induction n rule: str_pos.induct)
  case (1 n)
  show ?case
  proof (cases "n < 10")
    case True
    then show ?thesis using py_int_append[of n "[]"] 1(2) by (subst str_pos.simps) (simp add: py_int_def)
  next
    case False
    then have "py_int (str_pos n) = 10 * nat (n div 10) + nat (n mod 10)"
      using 1 py_int_append[of "n mod 10"] by (subst str_pos.simps) simp
    moreover have "int (10 * nat (n div 10) + nat (n mod 10)) = n" using False by simp
    ultimately show ?thesis by linarith
  qed
qed

lemma str_pos_nonempty [simp]: "str_pos n \<noteq> []"
  by (subst str_pos.simps) simp

lemma str_pos_all_digits: "0 \<le> n \<Longrightarrow> list_all is_digit (str_pos n)"
  by (auto simp: list_all_iff intro: str_pos_digits)

lemma py_int_zeros: "py_int (replicate k (CHR ''0'') @ s) = py_int s"
  by (induction k) (simp_all add: py_int_def)

section \<open>Identifiers\<close>

definition hex_digit :: "nat \<Rightarrow> char" where
  "hex_digit d = char_of (if d < 10 then 48 + d else 87 + d)"

function hex_pos :: "nat \<Rightarrow> string" where
  "hex_pos n = (if n < 16 then [hex_digit n] else hex_pos (n div 16) @ [hex_digit (n mod 16)])"
  by pat_completeness auto
termination hex_pos
  by (relation "measure id") auto

declare hex_pos.simps [simp del]

text \<open>\<^verbatim>\<open>'%032x' % self.int\<close> in five groups.\<close>

definition hex32 :: "nat \<Rightarrow> string" where
  "hex32 n = replicate (32 - length (hex_pos n)) (CHR ''0'') @ hex_pos n"

definition uuid_str :: "uuid \<Rightarrow> string" where
  "uuid_str n = (let h = hex32 n in take 8 h @ ''-'' @ take 4 (drop 8 h) @ ''-''
     @ take 4 (drop 12 h) @ ''-'' @ take 4 (drop 16 h) @ ''-'' @ drop 20 h)"

definition hex_val :: "char \<Rightarrow> nat" where
  "hex_val c = (let k = of_char c in if k < 58 then k - 48 else if k < 71 then k - 55 else k - 87)"

definition is_hex_digit :: "char \<Rightarrow> bool" where
  "is_hex_digit c \<longleftrightarrow> is_digit c \<or> (CHR ''a'' \<le> c \<and> c \<le> CHR ''f'') \<or> (CHR ''A'' \<le> c \<and> c \<le> CHR ''F'')"

definition hex_int :: "string \<Rightarrow> nat" where
  "hex_int s = foldl (\<lambda>n c. 16 * n + hex_val c) 0 s"

text \<open>\<^verbatim>\<open>s.replace(p, '')\<close> for a pattern that is not empty, and \<^verbatim>\<open>s.strip('{}')\<close>.\<close>

function remove_sub :: "string \<Rightarrow> string \<Rightarrow> string" where
  "remove_sub p [] = []"
| "remove_sub p (c # cs) = (if p \<noteq> [] \<and> take (length p) (c # cs) = p
     then remove_sub p (drop (length p) (c # cs)) else c # remove_sub p cs)"
  by pat_completeness auto
termination remove_sub
  by (relation "measure (\<lambda>(p, s). length s)") auto

definition strip_braces :: "string \<Rightarrow> string" where
  "strip_braces s = (let f = dropWhile (\<lambda>c. c = CHR ''{'' \<or> c = CHR ''}'') in rev (f (rev (f s))))"

text \<open>\<^verbatim>\<open>int(s, 16)\<close> for a text without a minus sign: white space around it, a plus sign, the prefix
  \<^verbatim>\<open>0x\<close> and single underscores between digits are accepted.\<close>

fun single_underscores :: "string \<Rightarrow> bool" where
  "single_underscores (c # d # cs) = (\<not> (c = CHR ''_'' \<and> d = CHR ''_'') \<and> single_underscores (d # cs))"
| "single_underscores _ = True"

definition hex_literal :: "string \<Rightarrow> nat option" where
  "hex_literal h =
     (let s = py_strip h;
          u = (if take 1 s = ''+'' then drop 1 s else s);
          v = (if take 2 u = ''0x'' \<or> take 2 u = ''0X''
               then (if take 3 u = ''0x_'' \<or> take 3 u = ''0X_'' then drop 3 u else drop 2 u) else u) in
      if v = [] \<or> hd v = CHR ''_'' \<or> last v = CHR ''_'' \<or> \<not> single_underscores v
        \<or> \<not> list_all (\<lambda>c. is_hex_digit c \<or> c = CHR ''_'') v then None
      else Some (hex_int (filter (\<lambda>c. c \<noteq> CHR ''_'') v)))"

definition uuid_of_str :: "string \<Rightarrow> uuid result" where
  "uuid_of_str s =
     (let h = filter (\<lambda>c. c \<noteq> CHR ''-'') (strip_braces (remove_sub ''uuid:'' (remove_sub ''urn:'' s))) in
      if length h \<noteq> 32 then Inl (ValueError ''badly formed hexadecimal UUID string'')
      else case hex_literal h of
          None \<Rightarrow> Inl (ValueError ''invalid literal for int() with base 16'')
        | Some n \<Rightarrow> Inr n)"

definition uuid_ok :: "uuid \<Rightarrow> bool" where
  "uuid_ok n \<longleftrightarrow> n < 2 ^ 128"

lemma hex_digit_val: "d < 16 \<Longrightarrow> hex_val (hex_digit d) = d"
  by (auto simp: hex_val_def hex_digit_def Let_def)

lemma hex_digit_ok: "d < 16 \<Longrightarrow> is_hex_digit (hex_digit d) \<and> hex_digit d \<notin> set ''-:{}urn''"
proof -
  assume "d < 16"
  then have "d \<in> set [0..<16]" by simp
  moreover have "\<forall>d \<in> set [0..<16]. is_hex_digit (hex_digit d) \<and> hex_digit d \<notin> set ''-:{}urn''"
    by code_simp
  ultimately show ?thesis by blast
qed

lemma hex_pos_ok: "c \<in> set (hex_pos n) \<Longrightarrow> is_hex_digit c \<and> c \<notin> set ''-:{}urn''"
proof (induction n rule: hex_pos.induct)
  case (1 n)
  then show ?case
    using hex_digit_ok[of n] hex_digit_ok[of "n mod 16"]
    by (subst (asm) hex_pos.simps) (auto split: if_splits)
qed

lemma hex_int_pos: "hex_int (hex_pos n) = n"
proof (induction n rule: hex_pos.induct)
  case (1 n)
  then show ?case by (subst hex_pos.simps) (auto simp: hex_int_def hex_digit_val)
qed

lemma hex_int_zeros: "hex_int (replicate k (CHR ''0'') @ s) = hex_int s"
  by (induction k) (simp_all add: hex_int_def hex_val_def)

lemma hex32_int [simp]: "hex_int (hex32 n) = n"
  by (simp add: hex32_def hex_int_zeros hex_int_pos)

lemma hex32_ok: "c \<in> set (hex32 n) \<Longrightarrow> is_hex_digit c \<and> c \<notin> set ''-:{}urn''"
  by (auto simp: hex32_def is_hex_digit_def is_digit_def dest: hex_pos_ok)

lemma uuid_str_dashes: "filter (\<lambda>c. c \<noteq> CHR ''-'') (uuid_str n) = hex32 n"
proof -
  define h where "h = hex32 n"
  have ok: "filter (\<lambda>c. c \<noteq> CHR ''-'') s = s" if "set s \<subseteq> set h" for s
    using that hex32_ok by (fastforce simp: h_def filter_id_conv)
  have "take 8 h @ take 4 (drop 8 h) @ take 4 (drop 12 h) @ take 4 (drop 16 h) @ drop 20 h = h"
    using append_take_drop_id[of 8 h] append_take_drop_id[of 4 "drop 8 h"]
      append_take_drop_id[of 4 "drop 12 h"] append_take_drop_id[of 4 "drop 16 h"] by simp
  then show ?thesis
    unfolding uuid_str_def Let_def h_def[symmetric]
    by (simp add: ok set_take_subset set_drop_subset subset_trans[OF set_take_subset set_drop_subset])
qed

lemma uuid_str_inject: "uuid_str m = uuid_str n \<longleftrightarrow> m = n"
  by (metis hex32_int uuid_str_dashes)

lemma uuid_str_chars: "c \<in> set (uuid_str n) \<Longrightarrow> c = CHR ''-'' \<or> is_hex_digit c \<and> c \<notin> set '':{}urn''"
proof -
  assume "c \<in> set (uuid_str n)"
  then have "c = CHR ''-'' \<or> c \<in> set (hex32 n)"
    by (subst uuid_str_dashes[symmetric]) simp
  then show ?thesis using hex32_ok by auto
qed

lemma hex_pos_length: "0 < k \<Longrightarrow> length (hex_pos n) \<le> k \<longleftrightarrow> n < 16 ^ k"
proof (induction n arbitrary: k rule: hex_pos.induct)
  case (1 n)
  show ?case
  proof (cases "n < 16")
    case True
    moreover have "(16::nat) \<le> 16 ^ k" using 1(2) by (simp add: self_le_power)
    ultimately show ?thesis using 1(2) by (subst hex_pos.simps) auto
  next
    case False
    then obtain j where k: "k = Suc j" using 1(2) by (cases k) auto
    show ?thesis
    proof (cases j)
      case 0
      then show ?thesis using False k by (subst hex_pos.simps) (auto simp: hex_pos.simps)
    next
      case (Suc i)
      then show ?thesis using False k 1(1)[of j]
        by (subst hex_pos.simps) (simp add: div_less_iff_less_mult mult.commute)
    qed
  qed
qed

lemma hex32_length: "uuid_ok n \<Longrightarrow> length (hex32 n) = 32"
  using hex_pos_length[of 32 n] by (simp add: uuid_ok_def hex32_def)

lemma remove_sub_absent: "x \<in> set p \<Longrightarrow> x \<notin> set s \<Longrightarrow> remove_sub p s = s"
proof (induction s)
  case (Cons c cs)
  then have "take (length p) (c # cs) \<noteq> p" by (metis in_set_takeD)
  with Cons show ?case by auto
qed simp

lemma dropWhile_none: "(\<And>x. x \<in> set s \<Longrightarrow> \<not> P x) \<Longrightarrow> dropWhile P s = s"
  by (cases s) auto

lemma strip_braces_absent: "CHR ''{'' \<notin> set s \<Longrightarrow> CHR ''}'' \<notin> set s \<Longrightarrow> strip_braces s = s"
proof -
  assume *: "CHR ''{'' \<notin> set s" "CHR ''}'' \<notin> set s"
  have "dropWhile (\<lambda>c. c = CHR ''{'' \<or> c = CHR ''}'') t = t" if "set t = set s" for t
    using * that by (intro dropWhile_none) auto
  then show ?thesis by (simp add: strip_braces_def Let_def)
qed

lemma py_strip_plain: "(\<And>c. c \<in> set s \<Longrightarrow> \<not> is_space c) \<Longrightarrow> py_strip s = s"
  using dropWhile_none[of s is_space] dropWhile_none[of "rev s" is_space] by (simp add: py_strip_def)

lemma single_underscores_none: "CHR ''_'' \<notin> set s \<Longrightarrow> single_underscores s"
  by (induction s rule: single_underscores.induct) auto

lemma is_hex_digit_not: "is_hex_digit c \<Longrightarrow> c \<noteq> CHR ''_'' \<and> c \<noteq> CHR ''+'' \<and> c \<noteq> CHR ''x'' \<and> c \<noteq> CHR ''X'' \<and> \<not> is_space c"
  by (auto simp: is_hex_digit_def is_digit_def is_space_def less_eq_char_def)

lemma hex_literal_plain:
  assumes "list_all is_hex_digit h" "2 \<le> length h"
  shows "hex_literal h = Some (hex_int h)"
proof -
  obtain a b t where h: "h = a # b # t" using assms(2) by (cases h; cases "tl h") auto
  have plain: "py_strip h = h" using assms(1) is_hex_digit_not by (intro py_strip_plain) (auto simp: list_all_iff)
  have "CHR ''_'' \<notin> set h" using assms(1) is_hex_digit_not by (auto simp: list_all_iff)
  moreover from this have "filter (\<lambda>c. c \<noteq> CHR ''_'') h = h" by (auto simp: filter_id_conv)
  moreover have "hd h \<noteq> CHR ''_''" "last h \<noteq> CHR ''_''" 
    using calculation(1) h by (metis hd_in_set list.distinct(1), metis last_in_set list.distinct(1))
  moreover have "take 1 h \<noteq> ''+''" "take 2 h \<noteq> ''0x''" "take 2 h \<noteq> ''0X''"
    using assms(1) h is_hex_digit_not[of a] is_hex_digit_not[of b] by auto
  moreover have "list_all (\<lambda>c. is_hex_digit c \<or> c = CHR ''_'') h" using assms(1) by (auto simp: list_all_iff)
  moreover have "h \<noteq> []" using h by simp
  ultimately show ?thesis
    using single_underscores_none[of h] unfolding hex_literal_def plain Let_def by simp
qed

lemma uuid_of_uuid_str: "uuid_ok n \<Longrightarrow> uuid_of_str (uuid_str n) = Inr n"
proof -
  assume ok: "uuid_ok n"
  have absent: "c \<notin> set (uuid_str n)" if "c \<in> set '':{}''" for c
    using uuid_str_chars[of c n] that by (auto simp: is_hex_digit_def is_digit_def)
  have "remove_sub ''uuid:'' (remove_sub ''urn:'' (uuid_str n)) = uuid_str n"
    using absent by (simp add: remove_sub_absent[of "CHR '':''"])
  moreover have "strip_braces (uuid_str n) = uuid_str n"
    using absent by (simp add: strip_braces_absent)
  moreover have "list_all is_hex_digit (hex32 n)" by (auto simp: list_all_iff dest: hex32_ok)
  ultimately show ?thesis
    using ok by (simp add: uuid_of_str_def uuid_str_dashes hex32_length hex_literal_plain)
qed

lemma uuid_of_hex32: "uuid_ok n \<Longrightarrow> uuid_of_str (hex32 n) = Inr n"
proof -
  assume ok: "uuid_ok n"
  have absent: "c \<notin> set (hex32 n)" if "c \<in> set ''-:{}''" for c using hex32_ok[of c n] that by auto
  have "remove_sub ''uuid:'' (remove_sub ''urn:'' (hex32 n)) = hex32 n"
    using absent by (simp add: remove_sub_absent[of "CHR '':''"])
  moreover have "strip_braces (hex32 n) = hex32 n" using absent by (simp add: strip_braces_absent)
  moreover have "filter (\<lambda>c. c \<noteq> CHR ''-'') (hex32 n) = hex32 n" using absent by (auto simp: filter_id_conv)
  moreover have "list_all is_hex_digit (hex32 n)" by (auto simp: list_all_iff dest: hex32_ok)
  ultimately show ?thesis
    using ok by (simp add: uuid_of_str_def hex32_length hex_literal_plain)
qed

lemma hex_val_less: "is_hex_digit c \<Longrightarrow> hex_val c < 16"
  by (auto simp: is_hex_digit_def is_digit_def hex_val_def Let_def less_eq_char_def)

lemma hex_int_less: "list_all is_hex_digit s \<Longrightarrow> hex_int s < 16 ^ length s"
proof (induction s rule: rev_induct)
  case (snoc c s)
  then have "hex_int s < 16 ^ length s" "hex_val c < 16" by (auto intro: hex_val_less)
  then show ?case by (simp add: hex_int_def)
qed (simp add: hex_int_def)

lemma hex_literal_less: "hex_literal h = Some n \<Longrightarrow> n < 16 ^ length h"
proof -
  assume h: "hex_literal h = Some n"
  then obtain v where n: "n = hex_int (filter (\<lambda>c. c \<noteq> CHR ''_'') v)"
    and v: "list_all (\<lambda>c. is_hex_digit c \<or> c = CHR ''_'') v" "length v \<le> length (py_strip h)"
    by (auto simp: hex_literal_def Let_def split: if_splits)
  have "length (py_strip h) \<le> length h"
    by (metis length_dropWhile_le length_rev order_trans py_strip_def)
  moreover have "length (filter (\<lambda>c. c \<noteq> CHR ''_'') v) \<le> length v" by (rule length_filter_le)
  ultimately have len: "length (filter (\<lambda>c. c \<noteq> CHR ''_'') v) \<le> length h" using v(2) by linarith
  have "n < 16 ^ length (filter (\<lambda>c. c \<noteq> CHR ''_'') v)"
    unfolding n using v(1) by (intro hex_int_less) (auto simp: list_all_iff)
  also have "\<dots> \<le> 16 ^ length h" using len by (simp add: power_increasing)
  finally show ?thesis .
qed

lemma uuid_of_str_ok: "uuid_of_str s = Inr n \<Longrightarrow> uuid_ok n"
  by (auto simp: uuid_of_str_def uuid_ok_def Let_def dest!: hex_literal_less split: if_splits option.splits)

section \<open>Instants\<close>

subsection \<open>The calendar\<close>

text \<open>The proleptic Gregorian calendar of \<^verbatim>\<open>datetime\<close>: day 1 is the first day of year 1.\<close>

definition is_leap :: "int \<Rightarrow> bool" where
  "is_leap y \<longleftrightarrow> y mod 4 = 0 \<and> (y mod 100 \<noteq> 0 \<or> y mod 400 = 0)"

definition days_before_year :: "int \<Rightarrow> int" where
  "days_before_year y = (let z = y - 1 in z * 365 + z div 4 - z div 100 + z div 400)"

definition month_lengths :: "bool \<Rightarrow> int list" where
  "month_lengths leap = [31, if leap then 29 else 28, 31, 30, 31, 30, 31, 31, 30, 31, 30, 31]"

definition ymd2ord :: "int \<Rightarrow> nat \<Rightarrow> int \<Rightarrow> int" where
  "ymd2ord y m d = days_before_year y + sum_list (take (m - 1) (month_lengths (is_leap y))) + d"

text \<open>The month and day of a day of the year, counted from 0.\<close>

fun find_month :: "nat \<Rightarrow> int list \<Rightarrow> int \<Rightarrow> nat \<times> int" where
  "find_month m [] n = (m, n + 1)"
| "find_month m (l # ls) n = (if n < l then (m, n + 1) else find_month (Suc m) ls (n - l))"

definition ord2ymd :: "int \<Rightarrow> int \<times> nat \<times> int" where
  "ord2ymd ordinal =
     (let n = ordinal - 1; n400 = n div 146097; n = n mod 146097;
          n100 = n div 36524; n = n mod 36524;
          n4 = n div 1461; n = n mod 1461;
          n1 = n div 365; n = n mod 365;
          y = n400 * 400 + n100 * 100 + n4 * 4 + n1 + 1 in
      if n1 = 4 \<or> n100 = 4 then (y - 1, 12, 31)
      else (y, find_month 1 (month_lengths (is_leap y)) n))"

lemma find_month_correct:
  "0 \<le> n \<Longrightarrow> n < sum_list ls \<Longrightarrow> find_month m ls n = (k, d) \<Longrightarrow>
     m \<le> k \<and> k < m + length ls \<and> 1 \<le> d \<and> d \<le> ls ! (k - m) \<and> sum_list (take (k - m) ls) + d = n + 1"
proof (induction ls arbitrary: m n)
  case (Cons l ls)
  show ?case
  proof (cases "n < l")
    case True
    then show ?thesis using Cons.prems by auto
  next
    case False
    then have "Suc m \<le> k \<and> k < Suc m + length ls \<and> 1 \<le> d \<and> d \<le> ls ! (k - Suc m)
      \<and> sum_list (take (k - Suc m) ls) + d = n - l + 1"
      using Cons.prems by (intro Cons.IH) auto
    moreover have "k - m = Suc (k - Suc m)" if "Suc m \<le> k" using that by simp
    ultimately show ?thesis by auto
  qed
qed simp

lemma month_lengths_sum: "sum_list (month_lengths leap) = (if leap then 366 else 365)"
  by (simp add: month_lengths_def)

lemma month_lengths_length [simp]: "length (month_lengths leap) = 12"
  by (simp add: month_lengths_def)

lemma days_before_year_parts:
  assumes "0 \<le> b" "b < 4" "0 \<le> c" "c < 25" "0 \<le> d" "d < 4"
  shows "days_before_year (400 * a + 100 * b + 4 * c + d + 1)
    = 146097 * a + 36524 * b + 1461 * c + 365 * d"
proof -
  define z where "z = 400 * a + 100 * b + 4 * c + d"
  have "z div 4 = 100 * a + 25 * b + c" by (rule int_div_pos_eq[of _ _ _ d]) (use assms in \<open>simp_all add: z_def\<close>)
  moreover have "z div 100 = 4 * a + b"
    by (rule int_div_pos_eq[of _ _ _ "4 * c + d"]) (use assms in \<open>simp_all add: z_def\<close>)
  moreover have "z div 400 = a"
    by (rule int_div_pos_eq[of _ _ _ "100 * b + 4 * c + d"]) (use assms in \<open>simp_all add: z_def\<close>)
  ultimately have "days_before_year (z + 1) = 146097 * a + 36524 * b + 1461 * c + 365 * d"
    by (simp add: days_before_year_def Let_def) (simp add: z_def)
  then show ?thesis by (simp add: z_def)
qed

lemma is_leap_parts:
  assumes "0 \<le> b" "b < 4" "0 \<le> c" "c < 25" "d = 3"
  shows "is_leap (400 * a + 100 * b + 4 * c + d + 1) \<longleftrightarrow> c \<noteq> 24 \<or> b = 3"
proof -
  define y where "y = 400 * a + 100 * b + 4 * c + d + 1"
  define q where "q = 100 * a + 25 * b + c + 1"
  have q: "y = 4 * q" using assms by (simp add: y_def q_def)
  then have 4: "y mod 4 = 0" by simp
  show ?thesis
  proof (cases "c = 24")
    case False
    have "y mod 100 = 4 * (c + 1)"
      by (rule int_mod_pos_eq[of _ _ "4 * a + b"]) (use assms False in \<open>simp_all add: y_def\<close>)
    then show ?thesis using 4 False assms(3) unfolding is_leap_def y_def[symmetric] by simp
  next
    case c: True
    have 100: "y mod 100 = 0"
      by (rule int_mod_pos_eq[of _ _ "4 * a + b + 1"]) (use assms c in \<open>simp_all add: y_def\<close>)
    show ?thesis
    proof (cases "b = 3")
      case True
      have "y mod 400 = 0"
        by (rule int_mod_pos_eq[of _ _ "a + 1"]) (use assms c True in \<open>simp_all add: y_def\<close>)
      then show ?thesis using 4 True unfolding is_leap_def y_def[symmetric] by simp
    next
      case False
      have "y mod 400 = 100 * (b + 1)"
        by (rule int_mod_pos_eq[of _ _ a]) (use assms c False in \<open>simp_all add: y_def\<close>)
      then show ?thesis using 100 c False assms(1) unfolding is_leap_def y_def[symmetric] by simp
    qed
  qed
qed

text \<open>The quotients of a day number by the lengths of the cycles: a last leap day shows up as a
  fifth year or a fifth century.\<close>

lemma cycle_parts:
  fixes n :: int
  defines "a \<equiv> n div 146097" and "b \<equiv> n mod 146097 div 36524"
    and "c \<equiv> n mod 146097 mod 36524 div 1461" and "d \<equiv> n mod 146097 mod 36524 mod 1461 div 365"
    and "r \<equiv> n mod 146097 mod 36524 mod 1461 mod 365"
  shows "n = 146097 * a + 36524 * b + 1461 * c + 365 * d + r"
    and "0 \<le> b" "b \<le> 4" "0 \<le> c" "c < 25" "0 \<le> d" "d \<le> 4" "0 \<le> r" "r < 365"
    and "b = 4 \<Longrightarrow> c = 0 \<and> d = 0 \<and> r = 0" and "d = 4 \<Longrightarrow> r = 0 \<and> c < 24"
proof -
  define n1 n2 n3 where "n1 = n mod 146097" and "n2 = n1 mod 36524" and "n3 = n2 mod 1461"
  have 0: "n = 146097 * a + n1" "0 \<le> n1" "n1 < 146097" by (simp_all add: a_def n1_def)
  have 1: "n1 = 36524 * b + n2" "0 \<le> n2" "n2 < 36524" by (simp_all add: b_def n1_def n2_def)
  have 2: "n2 = 1461 * c + n3" "0 \<le> n3" "n3 < 1461" by (simp_all add: c_def n1_def n2_def n3_def)
  have 3: "n3 = 365 * d + r" "0 \<le> r" "r < 365" by (simp_all add: d_def r_def n1_def n2_def n3_def)
  show "n = 146097 * a + 36524 * b + 1461 * c + 365 * d + r" using 0 1 2 3 by simp
  show b: "0 \<le> b" "b \<le> 4" using 0 1 by linarith+
  show c: "0 \<le> c" "c < 25" using 1 2 by linarith+
  show d: "0 \<le> d" "d \<le> 4" using 2 3 by linarith+
  show r: "0 \<le> r" "r < 365" using 3 by auto
  show "c = 0 \<and> d = 0 \<and> r = 0" if "b = 4"
  proof -
    have "n2 = 0" using that 0 1 by linarith
    then show ?thesis using 2 3 c d by linarith
  qed
  show "r = 0 \<and> c < 24" if "d = 4"
    using that 1 2 3 c by linarith
qed

lemma leap_day_ordinal:
  assumes "0 \<le> b" "b < 4" "0 \<le> c" "c < 25" "c \<noteq> 24 \<or> b = 3" "y = 400 * a + 100 * b + 4 * c + 3 + 1"
  shows "ymd2ord y 12 31 = 146097 * a + 36524 * b + 1461 * c + 1461"
  using days_before_year_parts[of b c 3 a] is_leap_parts[of b c 3 a] assms
  by (simp add: ymd2ord_def month_lengths_def)

lemma december_length: "month_lengths leap ! 11 = 31"
  by (simp add: month_lengths_def)

lemma ord2ymd_correct:
  assumes ymd: "ord2ymd ordinal = (y, m, d)"
  shows "ymd2ord y m d = ordinal \<and> 1 \<le> m \<and> m \<le> 12 \<and> 1 \<le> d
      \<and> d \<le> month_lengths (is_leap y) ! (m - 1) \<and> (1 \<le> ordinal \<longrightarrow> 1 \<le> y)
      \<and> (ordinal \<le> 3652059 \<longrightarrow> y \<le> 9999)"
proof -
  define n a b c e r where "n = ordinal - 1" and "a = n div 146097"
    and "b = n mod 146097 div 36524" and "c = n mod 146097 mod 36524 div 1461"
    and "e = n mod 146097 mod 36524 mod 1461 div 365"
    and "r = n mod 146097 mod 36524 mod 1461 mod 365"
  note defs = n_def a_def b_def c_def e_def r_def
  note parts = cycle_parts[of n, folded a_def b_def c_def e_def r_def]
  define y0 where "y0 = a * 400 + b * 100 + c * 4 + e + 1"
  have eq: "ord2ymd ordinal = (if e = 4 \<or> b = 4 then (y0 - 1, 12, 31)
      else (y0, find_month 1 (month_lengths (is_leap y0)) r))"
    by (simp add: ord2ymd_def Let_def defs y0_def)
  have ord: "ordinal = n + 1" by (simp add: n_def)
  have a0: "0 \<le> a" if "1 \<le> ordinal" using that by (simp add: defs pos_imp_zdiv_nonneg_iff)
  consider "b = 4" | "b < 4" "e = 4" | "b < 4" "e < 4" using parts(3,7) by linarith
  then show ?thesis
  proof cases
    case 1
    then have "y = y0 - 1" "m = 12" "d = 31" using ymd eq by auto
    moreover have "y0 - 1 = 400 * a + 100 * 3 + 4 * 24 + 3 + 1"
      using 1 parts(10) by (simp add: y0_def)
    ultimately show ?thesis
      using leap_day_ordinal[of 3 24 y a] parts(1) parts(10)[OF 1] 1 a0 ord by (simp add: december_length)
  next
    case 2
    then have "y = y0 - 1" "m = 12" "d = 31" using ymd eq by auto
    moreover have "y0 - 1 = 400 * a + 100 * b + 4 * c + 3 + 1" using 2 by (simp add: y0_def)
    ultimately show ?thesis
      using leap_day_ordinal[of b c y a] parts(1-5) parts(11)[OF 2(2)] 2 a0 ord
      by (simp add: december_length)
  next
    case 3
    then have y: "y = y0" and fm: "find_month 1 (month_lengths (is_leap y0)) r = (m, d)"
      using ymd eq by auto
    have "r < sum_list (month_lengths (is_leap y0))" using parts(9) by (simp add: month_lengths_sum)
    from find_month_correct[OF parts(8) this fm]
    have fm': "1 \<le> m" "m < 13" "1 \<le> d" "d \<le> month_lengths (is_leap y0) ! (m - 1)"
      "sum_list (take (m - 1) (month_lengths (is_leap y0))) + d = r + 1" by auto
    have "days_before_year y0 = 146097 * a + 36524 * b + 1461 * c + 365 * e"
      using days_before_year_parts[of b c e a] parts 3 by (simp add: y0_def ac_simps)
    then have "ymd2ord y0 m d = ordinal" using fm' parts(1) ord by (simp add: ymd2ord_def)
    moreover have "y0 \<le> 9999" if "ordinal \<le> 3652059"
      using that 3 parts ord by (simp add: y0_def)
    ultimately show ?thesis using fm' y a0 parts(2,4,6) by (auto simp: y0_def)
  qed
qed

subsection \<open>Text\<close>

definition pad :: "nat \<Rightarrow> int \<Rightarrow> string" where
  "pad w n = replicate (w - length (str_pos n)) (CHR ''0'') @ str_pos n"

text \<open>\<^verbatim>\<open>isoformat()\<close> of a datetime in UTC; the fraction is left out when it is zero. The instant 0 is
  the start of 1970.\<close>

definition isoformat :: "time \<Rightarrow> string" where
  "isoformat t =
     (let day = t div 86400000000; r = t mod 86400000000;
          secs = r div 1000000; us = r mod 1000000 in
      case ord2ymd (day + 719163) of (y, m, d) \<Rightarrow>
        pad 4 y @ ''-'' @ pad 2 (int m) @ ''-'' @ pad 2 d @ ''T''
        @ pad 2 (secs div 3600) @ '':'' @ pad 2 (secs mod 3600 div 60) @ '':'' @ pad 2 (secs mod 60)
        @ (if us = 0 then [] else ''.'' @ pad 6 us) @ ''+00:00'')"

definition take_digits :: "nat \<Rightarrow> string \<Rightarrow> (int \<times> string) option" where
  "take_digits k s = (if k \<le> length s \<and> list_all is_digit (take k s)
     then Some (int (py_int (take k s)), drop k s) else None)"

definition expect :: "char \<Rightarrow> string \<Rightarrow> string option" where
  "expect c s = (case s of [] \<Rightarrow> None | x # xs \<Rightarrow> if x = c then Some xs else None)"

definition read_fraction :: "string \<Rightarrow> (int \<times> string) option" where
  "read_fraction s = (case expect (CHR ''.'') s of
      None \<Rightarrow> Some (0, s)
    | Some r \<Rightarrow> let ds = takeWhile is_digit r in
        if ds = [] then None
        else Some (int (py_int (take 6 (ds @ replicate 6 (CHR ''0'')))), dropWhile is_digit r))"

text \<open>The offset in seconds; a text without one is read as UTC, as \<^verbatim>\<open>_as_utc\<close> does.\<close>

definition read_offset :: "string \<Rightarrow> int option" where
  "read_offset s =
     (if s = [] \<or> s = ''Z'' then Some 0
      else if hd s = CHR ''+'' \<or> hd s = CHR ''-'' then
        Option.bind (take_digits 2 (tl s)) (\<lambda>(h, r). Option.bind (expect (CHR '':'') r) (\<lambda>r.
        Option.bind (take_digits 2 r) (\<lambda>(m, r).
          if r = [] \<and> h < 24 \<and> m < 60
          then Some ((if hd s = CHR ''-'' then -1 else 1) * (3600 * h + 60 * m)) else None)))
      else None)"

definition read_iso :: "string \<Rightarrow> (int \<times> int \<times> int \<times> int \<times> int \<times> int \<times> int \<times> int) option" where
  "read_iso s =
     Option.bind (take_digits 4 s) (\<lambda>(y, s). Option.bind (expect (CHR ''-'') s) (\<lambda>s.
     Option.bind (take_digits 2 s) (\<lambda>(m, s). Option.bind (expect (CHR ''-'') s) (\<lambda>s.
     Option.bind (take_digits 2 s) (\<lambda>(d, s).
     Option.bind (if s = [] then None else Some (tl s)) (\<lambda>s.
     Option.bind (take_digits 2 s) (\<lambda>(hh, s). Option.bind (expect (CHR '':'') s) (\<lambda>s.
     Option.bind (take_digits 2 s) (\<lambda>(mm, s). Option.bind (expect (CHR '':'') s) (\<lambda>s.
     Option.bind (take_digits 2 s) (\<lambda>(ss, s).
     Option.bind (read_fraction s) (\<lambda>(us, s).
     Option.bind (read_offset s) (\<lambda>off. Some (y, m, d, hh, mm, ss, us, off))))))))))))))"

definition time_ok :: "time \<Rightarrow> bool" where
  "time_ok t \<longleftrightarrow> - 62135596800000000 \<le> t \<and> t < 253402300800000000"

text \<open>An aware datetime whose instant lies outside the years 1 to 9999 cannot be converted to UTC; the
  error of the conversion is raised when the text is read.\<close>

definition fromisoformat :: "string \<Rightarrow> time result" where
  "fromisoformat s = (case read_iso s of
      None \<Rightarrow> Inl (ValueError (''Invalid isoformat string: '' @ s))
    | Some (y, m, d, hh, mm, ss, us, off) \<Rightarrow>
        if 1 \<le> y \<and> 1 \<le> m \<and> m \<le> 12 \<and> 1 \<le> d \<and> d \<le> month_lengths (is_leap y) ! (nat m - 1)
          \<and> hh < 24 \<and> mm < 60 \<and> ss < 60
        then let t = ((ymd2ord y (nat m) d - 719163) * 86400 + hh * 3600 + mm * 60 + ss - off) * 1000000 + us in
          if time_ok t then Inr t else Inl (OverflowError ''date value out of range'')
        else Inl (ValueError ''datetime value out of range''))"

lemma fromisoformat_ok: "fromisoformat s = Inr t \<Longrightarrow> time_ok t"
  by (auto simp: fromisoformat_def Let_def split: option.splits if_splits)

lemma str_pos_length: "0 < k \<Longrightarrow> 0 \<le> n \<Longrightarrow> length (str_pos n) \<le> k \<longleftrightarrow> n < 10 ^ k"
proof (induction n arbitrary: k rule: str_pos.induct)
  case (1 n)
  show ?case
  proof (cases "n < 10")
    case True
    moreover have "(10::int) \<le> 10 ^ k" using 1(2) by (simp add: self_le_power)
    ultimately show ?thesis using 1(2) by (subst str_pos.simps) auto
  next
    case False
    then obtain j where k: "k = Suc j" using 1(2) by (cases k) auto
    show ?thesis
    proof (cases j)
      case 0
      then show ?thesis using False k by (subst str_pos.simps) simp
    next
      case (Suc i)
      then show ?thesis using False k 1(1)[of j] 1(3)
        by (subst str_pos.simps) (simp add: zdiv_less_iff mult.commute)
    qed
  qed
qed

lemma pad_digits:
  assumes "0 \<le> n" "n < 10 ^ w" "0 < w"
  shows "length (pad w n) = w" "list_all is_digit (pad w n)" "int (py_int (pad w n)) = n"
  using assms str_pos_length[of w n] str_pos_all_digits[of n]
  by (auto simp: pad_def py_int_zeros py_int_str_pos list_all_iff is_digit_def)

lemma take_digits_pad [simp]:
  "0 \<le> n \<Longrightarrow> n < 10 ^ w \<Longrightarrow> 0 < w \<Longrightarrow> take_digits w (pad w n @ s) = Some (n, s)"
  by (simp add: take_digits_def pad_digits)

lemma expect_Cons [simp]: "expect c (c # s) = Some s"
  by (simp add: expect_def)

lemma read_fraction_text:
  "0 \<le> us \<Longrightarrow> us < 1000000 \<Longrightarrow>
     read_fraction ((if us = 0 then [] else ''.'' @ pad 6 us) @ ''+00:00'') = Some (us, ''+00:00'')"
proof -
  assume us: "0 \<le> us" "us < 1000000"
  then have d: "list_all is_digit (pad 6 us)" "length (pad 6 us) = 6" "int (py_int (pad 6 us)) = us"
    using pad_digits[of us 6] by auto
  then have "takeWhile is_digit (pad 6 us @ ''+00:00'') = pad 6 us"
    "dropWhile is_digit (pad 6 us @ ''+00:00'') = ''+00:00''"
    by (simp_all add: takeWhile_append2 dropWhile_append2 list_all_iff is_digit_def)
  moreover have "pad 6 us \<noteq> []" using d(2) by auto
  ultimately show ?thesis using d by (simp add: read_fraction_def expect_def Let_def)
qed

lemma read_offset_utc: "read_offset ''+00:00'' = Some 0"
  by code_simp

lemma read_iso_text:
  assumes "0 \<le> y" "y < 10000" "0 \<le> m" "m < 100" "0 \<le> d" "d < 100" "0 \<le> hh" "hh < 100" "0 \<le> mm"
    "mm < 100" "0 \<le> ss" "ss < 100" "read_fraction s = Some (us, s')" "read_offset s' = Some off"
  shows "read_iso (pad 4 y @ ''-'' @ pad 2 m @ ''-'' @ pad 2 d @ ''T'' @ pad 2 hh @ '':'' @ pad 2 mm @ '':''
    @ pad 2 ss @ s) = Some (y, m, d, hh, mm, ss, us, off)"
  using assms by (simp add: read_iso_def)

lemma fromisoformat_isoformat: "time_ok t \<Longrightarrow> fromisoformat (isoformat t) = Inr t"
proof -
  assume ok: "time_ok t"
  define day r where "day = t div 86400000000" and "r = t mod 86400000000"
  define secs us where "secs = r div 1000000" and "us = r mod 1000000"
  define hh mm ss where "hh = secs div 3600" and "mm = secs mod 3600 div 60" and "ss = secs mod 60"
  obtain y m d where ymd: "ord2ymd (day + 719163) = (y, m, d)" by (metis prod_cases3)
  have t: "t = day * 86400000000 + r" "0 \<le> r" "r < 86400000000" by (simp_all add: day_def r_def)
  have r: "r = secs * 1000000 + us" "0 \<le> us" "us < 1000000" by (simp_all add: secs_def us_def)
  have secs: "0 \<le> secs" "secs < 86400" using t r by linarith+
  then have hms: "0 \<le> hh" "hh < 24" "0 \<le> mm" "mm < 60" "0 \<le> ss" "ss < 60"
    by (simp_all add: hh_def mm_def ss_def pos_imp_zdiv_nonneg_iff zdiv_less_iff)
  have "secs mod 60 = secs mod 3600 mod 60" by (simp add: mod_mod_cancel)
  then have sum: "hh * 3600 + mm * 60 + ss = secs" by (simp add: hh_def mm_def ss_def)
  have iso: "isoformat t = pad 4 y @ ''-'' @ pad 2 (int m) @ ''-'' @ pad 2 d @ ''T'' @ pad 2 hh @ '':''
      @ pad 2 mm @ '':'' @ pad 2 ss @ ((if us = 0 then [] else ''.'' @ pad 6 us) @ ''+00:00'')"
    unfolding isoformat_def Let_def day_def[symmetric] r_def[symmetric] secs_def[symmetric]
      us_def[symmetric] hh_def[symmetric] mm_def[symmetric] ss_def[symmetric] ymd prod.case ..
  have day: "- 719162 \<le> day" "day + 719163 \<le> 3652059" using ok t by (auto simp: time_ok_def)
  note parts = t r hms sum
  have "1 \<le> day + 719163" using day(1) by simp
  then have d: "ymd2ord y m d = day + 719163" "1 \<le> m" "m \<le> 12" "1 \<le> d"
      "d \<le> month_lengths (is_leap y) ! (m - 1)" "1 \<le> y" "y \<le> 9999"
    using ord2ymd_correct[OF ymd] day(2) by simp_all
  have "\<forall>leap. \<forall>k < 12. month_lengths leap ! k \<le> 31" by code_simp
  then have "month_lengths (is_leap y) ! (m - 1) \<le> 31" using d(2,3) by simp
  then have d31: "d \<le> 31" using d(5) by linarith
  have "read_iso (isoformat t) = Some (y, int m, d, hh, mm, ss, us, 0)"
    unfolding iso
    by (rule read_iso_text[OF _ _ _ _ _ _ _ _ _ _ _ _ read_fraction_text[OF r(2,3)] read_offset_utc])
      (use d d31 hms in simp_all)
  moreover have "((day + 719163 - 719163) * 86400 + hh * 3600 + mm * 60 + ss - 0) * 1000000 + us = t"
    using parts by simp
  ultimately show ?thesis
    using d hms ok by (simp add: fromisoformat_def Let_def)
qed

section \<open>Integers and decimals\<close>

definition read_nat :: "string \<Rightarrow> nat option" where
  "read_nat s = (if s \<noteq> [] \<and> list_all is_digit s then Some (py_int s) else None)"

definition split_sign :: "string \<Rightarrow> int \<times> string" where
  "split_sign s = (case s of
      [] \<Rightarrow> (1, [])
    | c # cs \<Rightarrow> if c = CHR ''-'' then (-1, cs) else if c = CHR ''+'' then (1, cs) else (1, s))"

definition read_int :: "string \<Rightarrow> int option" where
  "read_int s = (case split_sign s of (sg, ds) \<Rightarrow> map_option (\<lambda>n. sg * int n) (read_nat ds))"

text \<open>\<^verbatim>\<open>int(s)\<close>: surrounding white space is dropped and single underscores may separate digits.\<close>

definition py_int_of_str :: "string \<Rightarrow> int result" where
  "py_int_of_str s =
     (case split_sign (py_strip s) of (sg, ds) \<Rightarrow>
      let groups = py_split (CHR ''_'') ds in
      if list_all (\<lambda>g. read_nat g \<noteq> None) groups then Inr (sg * int (py_int (concat groups)))
      else Inl (ValueError ''invalid literal for int() with base 10''))"

text \<open>\<^verbatim>\<open>Decimal.__str__\<close>.\<close>

definition dec_str :: "decimal \<Rightarrow> string" where
  "dec_str d = (case d of Dec c e \<Rightarrow>
     let ds = str_pos \<bar>c\<bar>; left = e + int (length ds);
         dot = (if e \<le> 0 \<and> -6 < left then left else 1);
         body = (if dot \<le> 0 then ''0.'' @ replicate (nat (- dot)) (CHR ''0'') @ ds
                 else if int (length ds) \<le> dot then ds @ replicate (nat dot - length ds) (CHR ''0'')
                 else take (nat dot) ds @ ''.'' @ drop (nat dot) ds)
     in (if c < 0 then ''-'' else []) @ body
        @ (if left = dot then [] else ''E'' @ (if left < dot then [] else ''+'') @ str_int (left - dot)))"

text \<open>\<^verbatim>\<open>Decimal(s)\<close>: the exact value of the numeral, without rounding.\<close>

definition split_char :: "(char \<Rightarrow> bool) \<Rightarrow> string \<Rightarrow> string \<times> string option" where
  "split_char P s = (takeWhile (\<lambda>c. \<not> P c) s,
     case dropWhile (\<lambda>c. \<not> P c) s of [] \<Rightarrow> None | _ # r \<Rightarrow> Some r)"

definition dec_of_str :: "string \<Rightarrow> decimal result" where
  "dec_of_str s =
     (case split_sign (filter (\<lambda>c. c \<noteq> CHR ''_'') (py_strip s)) of (sg, t) \<Rightarrow>
      case split_char (\<lambda>c. c = CHR ''E'' \<or> c = CHR ''e'') t of (m, ex) \<Rightarrow>
      case split_char (\<lambda>c. c = CHR ''.'') m of (a, b) \<Rightarrow>
      let frac = (case b of None \<Rightarrow> [] | Some f \<Rightarrow> f) in
      case (read_nat (a @ frac), case ex of None \<Rightarrow> Some 0 | Some x \<Rightarrow> read_int x) of
        (Some n, Some k) \<Rightarrow> Inr (Dec (sg * int n) (k - int (length frac)))
      | _ \<Rightarrow> Inl DecimalInvalidOperation)"

lemma read_nat_str_pos: "0 \<le> n \<Longrightarrow> read_nat (str_pos n) = Some (nat n)"
  by (simp add: read_nat_def str_pos_all_digits py_int_str_pos)

lemma split_sign_digit: "is_digit c \<Longrightarrow> split_sign (c # s) = (1, c # s)"
  by (auto simp: split_sign_def is_digit_def)

lemma str_pos_Cons: "0 \<le> n \<Longrightarrow> \<exists>c cs. str_pos n = c # cs \<and> is_digit c"
  by (metis list.set_intros(1) neq_Nil_conv str_pos_digits str_pos_nonempty)

lemma read_int_str_int: "read_int (str_int i) = Some i"
proof (cases "i < 0")
  case True
  then show ?thesis by (simp add: read_int_def str_int_def split_sign_def read_nat_str_pos)
next
  case False
  then obtain c cs where "str_pos i = c # cs" "is_digit c" using str_pos_Cons[of i] by auto
  then show ?thesis
    using False read_nat_str_pos[of i] by (simp add: read_int_def str_int_def split_sign_digit)
qed

lemma read_int_plus: "0 \<le> i \<Longrightarrow> read_int (CHR ''+'' # str_int i) = Some i"
  by (simp add: read_int_def str_int_def split_sign_def read_nat_str_pos)

lemma split_char_none: "(\<And>c. c \<in> set s \<Longrightarrow> \<not> P c) \<Longrightarrow> split_char P s = (s, None)"
  by (simp add: split_char_def) (metis (mono_tags) dropWhile_eq_Nil_conv list.simps(4))

lemma split_char_some: "(\<And>c. c \<in> set s \<Longrightarrow> \<not> P c) \<Longrightarrow> P x \<Longrightarrow> split_char P (s @ x # r) = (s, Some r)"
  by (simp add: split_char_def takeWhile_append2 dropWhile_append2)

definition numeral_char :: "char \<Rightarrow> bool" where
  "numeral_char c \<longleftrightarrow> is_digit c \<or> c \<in> set ''+-''"

lemma numeral_char_plain:
  "numeral_char c \<Longrightarrow> \<not> is_space c \<and> c \<noteq> CHR ''_'' \<and> c \<noteq> CHR ''E'' \<and> c \<noteq> CHR ''e'' \<and> c \<noteq> CHR ''.''"
  by (auto simp: numeral_char_def is_digit_def is_space_def less_eq_char_def)

lemma str_int_numeral: "c \<in> set (str_int i) \<Longrightarrow> numeral_char c"
  using str_pos_digits[of i c] str_pos_digits[of "- i" c]
  by (auto simp: str_int_def numeral_char_def split: if_splits)

text \<open>How \<^verbatim>\<open>Decimal\<close> reads the parts a numeral is made of.\<close>

lemma dec_of_str_parts:
  assumes a: "list_all is_digit a" "a \<noteq> []" and f: "list_all is_digit f"
    and x: "list_all numeral_char x" "ex \<Longrightarrow> read_int x = Some k" "\<not> ex \<Longrightarrow> k = 0"
  shows "dec_of_str ((if neg then ''-'' else []) @ a @ (if f = [] then [] else CHR ''.'' # f)
      @ (if ex then CHR ''E'' # x else []))
    = Inr (Dec ((if neg then -1 else 1) * int (py_int (a @ f))) (k - int (length f)))"
proof -
  define m where "m = a @ (if f = [] then [] else CHR ''.'' # f)"
  define u where "u = m @ (if ex then CHR ''E'' # x else [])"
  define t where "t = (if neg then ''-'' else []) @ u"
  have dig: "\<not> is_space c \<and> c \<noteq> CHR ''_'' \<and> c \<noteq> CHR ''E'' \<and> c \<noteq> CHR ''e'' \<and> c \<noteq> CHR ''.''"
    if "c \<in> set a \<or> c \<in> set f \<or> c \<in> set x" for c
    using that a f x numeral_char_plain[of c] by (auto simp: list_all_iff numeral_char_def)
  have "c \<in> set a \<or> c \<in> set f \<or> c \<in> set x \<or> c \<in> set ''.E-''" if "c \<in> set t" for c
    using that by (auto simp: t_def u_def m_def split: if_splits)
  then have plain: "\<not> is_space c \<and> c \<noteq> CHR ''_''" if "c \<in> set t" for c
    using that dig by (fastforce simp: is_space_def)
  then have strip: "filter (\<lambda>c. c \<noteq> CHR ''_'') (py_strip t) = t"
    by (simp add: py_strip_plain filter_id_conv)
  obtain d ds where ad: "a = d # ds" "is_digit d" using a by (cases a) auto
  then have sign: "split_sign t = (if neg then -1 else 1, u)"
    by (simp add: t_def u_def m_def split_sign_digit) (simp add: split_sign_def)
  have "\<not> (c = CHR ''E'' \<or> c = CHR ''e'')" if "c \<in> set m" for c
    using that dig[of c] by (auto simp: m_def split: if_splits)
  then have exp: "split_char (\<lambda>c. c = CHR ''E'' \<or> c = CHR ''e'') u = (m, if ex then Some x else None)"
    by (auto simp: u_def split_char_none split_char_some)
  have "\<not> c = CHR ''.''" if "c \<in> set a" for c using that dig[of c] by auto
  then have point: "split_char (\<lambda>c. c = CHR ''.'') m = (a, if f = [] then None else Some f)"
    by (auto simp: m_def split_char_none split_char_some)
  have "read_nat (a @ f) = Some (py_int (a @ f))" using a f by (simp add: read_nat_def)
  then have "dec_of_str t = Inr (Dec ((if neg then -1 else 1) * int (py_int (a @ f))) (k - int (length f)))"
    using x(2,3) by (cases ex; cases "f = []") (simp_all add: dec_of_str_def strip sign exp point)
  then show ?thesis by (simp add: t_def u_def m_def)
qed

lemma dec_of_dec_str: "dec_of_str (dec_str d) = Inr d"
proof (cases d)
  case (Dec c e)
  define ds left where "ds = str_pos \<bar>c\<bar>" and "left = e + int (length ds)"
  have dig: "list_all is_digit ds" "ds \<noteq> []" "py_int ds = nat \<bar>c\<bar>"
    by (simp_all add: ds_def str_pos_all_digits py_int_str_pos)
  have c: "(if c < 0 then -1 else 1) * int (nat \<bar>c\<bar>) = c" by simp
  have split_dig: "list_all is_digit (take n ds)" "list_all is_digit (drop n ds)" for n
    using dig(1) by (auto simp: list_all_iff dest: in_set_takeD in_set_dropD)
  have zeros: "list_all is_digit (replicate n (CHR ''0''))" for n by (simp add: list_all_iff is_digit_def)
  note parts = dec_of_str_parts[where neg = "c < 0"]
  consider "e \<le> 0" "-6 < left" "left \<le> 0" | "e \<le> 0" "-6 < left" "0 < left" | "\<not> (e \<le> 0 \<and> -6 < left)"
    by linarith
  then show ?thesis
  proof cases
    case 1
    have "py_int (''0'' @ replicate (nat (- left)) (CHR ''0'') @ ds) = nat \<bar>c\<bar>"
      using py_int_zeros[of "Suc (nat (- left))" ds] dig(3) by simp
    moreover have "dec_str d = (if c < 0 then ''-'' else []) @ ''0'' @ CHR ''.'' # (replicate (nat (- left)) (CHR ''0'') @ ds)"
      using 1 by (simp add: Dec dec_str_def Let_def flip: ds_def left_def)
    ultimately show ?thesis
      using parts[of "''0''" "replicate (nat (- left)) (CHR ''0'') @ ds" "[]" False 0] dig zeros 1 c Dec
      by (simp add: is_digit_def left_def)
  next
    case 2
    show ?thesis
    proof (cases "e = 0")
      case True
      then have "dec_str d = (if c < 0 then ''-'' else []) @ ds"
        using 2 dig(2) by (simp add: Dec dec_str_def Let_def left_def flip: ds_def)
      then show ?thesis using parts[of ds "[]" "[]" False 0] dig c Dec True by simp
    next
      case False
      then have "nat left < length ds" using 2 by (simp add: left_def)
      moreover from this have "dec_str d = (if c < 0 then ''-'' else []) @ take (nat left) ds @ CHR ''.'' # drop (nat left) ds"
        using 2 by (simp add: Dec dec_str_def Let_def flip: ds_def left_def)
      ultimately show ?thesis
        using parts[of "take (nat left) ds" "drop (nat left) ds" "[]" False 0] split_dig dig c Dec 2
        by (simp add: left_def)
    qed
  next
    case 3
    define x where "x = (if left < 1 then [] else ''+'') @ str_int (left - 1)"
    have len: "0 < length ds" using dig(2) by simp
    then have "1 \<le> int (length ds)" by linarith
    then have left: "left \<noteq> 1" using 3 unfolding left_def by linarith
    have x: "list_all numeral_char x" "read_int x = Some (left - 1)"
      using read_int_plus[of "left - 1"] read_int_str_int[of "left - 1"]
      by (auto simp: x_def list_all_iff numeral_char_def[of "CHR ''+''"] dest: str_int_numeral)
    have "dec_str d = (if c < 0 then ''-'' else []) @ take 1 ds @ (if drop 1 ds = [] then [] else CHR ''.'' # drop 1 ds)
        @ CHR ''E'' # x"
      unfolding Dec dec_str_def decimal.case Let_def ds_def[symmetric] left_def[symmetric]
      using 3 left len by (cases "length ds = 1") (simp_all add: x_def if_not_P le_Suc_eq)
    then show ?thesis
      using parts[of "take 1 ds" "drop 1 ds" x True "left - 1"] split_dig x len dig c Dec
      by (simp add: left_def)
  qed
qed

end
