(* ===== verification/Domain.thy ===== *)
theory Domain
  imports Py_Text
begin

text \<open>
  The aggregates of \<^verbatim>\<open>domain/\<close>: runs, user requests, projects, request origins, dispatch
  receipts and domain events. A run and a request are state machines over a table of allowed
  transitions; the locale \<open>lifecycle\<close> states what both promise and is interpreted on each.
\<close>

section \<open>Lifecycles\<close>

locale lifecycle =
  fixes allowed :: "'s \<Rightarrow> 's \<Rightarrow> bool" and terminal :: "'s \<Rightarrow> bool"
    and status_of :: "'a \<Rightarrow> 's" and move :: "'a \<Rightarrow> 's \<Rightarrow> time option \<Rightarrow> time \<Rightarrow> 'a result"
  assumes move_allowed: "allowed (status_of a) t \<Longrightarrow> \<exists>a'. move a t at now = Inr a' \<and> status_of a' = t"
    and move_refused: "\<not> allowed (status_of a) t \<Longrightarrow> \<exists>e. move a t at now = Inl e"
    and terminal_stuck: "terminal s \<longleftrightarrow> (\<forall>t. \<not> allowed s t)"
    and can_finish: "\<not> terminal s \<Longrightarrow> \<exists>t. allowed s t \<and> terminal t"
begin

lemma move_iff: "(\<exists>a'. move a t at now = Inr a') \<longleftrightarrow> allowed (status_of a) t"
  using move_allowed[of a t at now] move_refused[of a t at now] by fastforce

lemma move_status: "move a t at now = Inr a' \<Longrightarrow> status_of a' = t \<and> allowed (status_of a) t"
  using move_allowed[of a t at now] move_refused[of a t at now] by fastforce

lemma terminal_rejects: "terminal (status_of a) \<Longrightarrow> \<exists>e. move a t at now = Inl e"
  using move_refused terminal_stuck by blast

text \<open>A sequence of moves, each with its target, its optional instant and the clock.\<close>

primrec moves :: "'a \<Rightarrow> ('s \<times> time option \<times> time) list \<Rightarrow> 'a result" where
  "moves a [] = Inr a"
| "moves a (m # ms) = rbind (move a (fst m) (fst (snd m)) (snd (snd m))) (\<lambda>a'. moves a' ms)"

lemma moves_path:
  "moves a ms = Inr a' \<Longrightarrow> (status_of a, status_of a') \<in> {(s, t). allowed s t}\<^sup>*"
proof (induction ms arbitrary: a)
  case (Cons m ms)
  then obtain b where b: "move a (fst m) (fst (snd m)) (snd (snd m)) = Inr b" "moves b ms = Inr a'"
    by auto
  then have "(status_of a, status_of b) \<in> {(s, t). allowed s t}" using move_status by auto
  with Cons.IH[OF b(2)] show ?case by (rule converse_rtrancl_into_rtrancl[rotated])
qed simp

text \<open>Once terminal, always the same: no non-empty sequence of moves succeeds.\<close>

lemma terminal_final: "terminal (status_of a) \<Longrightarrow> moves a ms = Inr a' \<Longrightarrow> ms = [] \<and> a' = a"
proof (cases ms)
  case (Cons m ms')
  assume "terminal (status_of a)" "moves a ms = Inr a'"
  moreover from this(1) obtain e where "move a (fst m) (fst (snd m)) (snd (snd m)) = Inl e"
    using terminal_rejects by blast
  ultimately show ?thesis using Cons by simp
qed simp

lemma finishable: "\<exists>ms a'. length ms \<le> 1 \<and> moves a ms = Inr a' \<and> terminal (status_of a')"
proof (cases "terminal (status_of a)")
  case True
  then show ?thesis by (intro exI[of _ "[]"] exI[of _ a]) simp
next
  case False
  then obtain t where t: "allowed (status_of a) t" "terminal t" using can_finish by blast
  from move_allowed[OF t(1), of None 0] obtain a' where "move a t None 0 = Inr a'" "status_of a' = t" by blast
  then show ?thesis using t(2) by (intro exI[of _ "[(t, None, 0)]"] exI[of _ a']) simp
qed

end

section \<open>Runs\<close>

datatype run_status = RQueued | RPlanning | RAwaitingApproval | RReady | RRunning | RVerifying
  | RSucceeded | RFailed | RCancelled

fun run_status_value :: "run_status \<Rightarrow> string" where
  "run_status_value RQueued = ''queued''"
| "run_status_value RPlanning = ''planning''"
| "run_status_value RAwaitingApproval = ''awaiting_approval''"
| "run_status_value RReady = ''ready''"
| "run_status_value RRunning = ''running''"
| "run_status_value RVerifying = ''verifying''"
| "run_status_value RSucceeded = ''succeeded''"
| "run_status_value RFailed = ''failed''"
| "run_status_value RCancelled = ''cancelled''"

definition terminal_run_statuses :: "run_status list" where
  "terminal_run_statuses = [RSucceeded, RFailed, RCancelled]"

fun allowed_run_transitions :: "run_status \<Rightarrow> run_status list" where
  "allowed_run_transitions RQueued =
     [RPlanning, RRunning, RAwaitingApproval, RSucceeded, RFailed, RCancelled]"
| "allowed_run_transitions RPlanning =
     [RAwaitingApproval, RReady, RRunning, RSucceeded, RFailed, RCancelled]"
| "allowed_run_transitions RAwaitingApproval = [RReady, RRunning, RSucceeded, RFailed, RCancelled]"
| "allowed_run_transitions RReady = [RRunning, RAwaitingApproval, RSucceeded, RFailed, RCancelled]"
| "allowed_run_transitions RRunning = [RAwaitingApproval, RVerifying, RSucceeded, RFailed, RCancelled]"
| "allowed_run_transitions RVerifying = [RRunning, RAwaitingApproval, RSucceeded, RFailed, RCancelled]"
| "allowed_run_transitions RSucceeded = []"
| "allowed_run_transitions RFailed = []"
| "allowed_run_transitions RCancelled = []"

record run =
  rn_request_id :: uuid
  rn_attempt :: int
  rn_id :: uuid
  rn_status :: run_status
  rn_failure_reason :: "string option"
  rn_created_at :: time
  rn_updated_at :: time
  rn_started_at :: "time option"
  rn_completed_at :: "time option"
  rn_version :: int

definition run_init :: "run \<Rightarrow> run result" where
  "run_init r =
     (if rn_attempt r < 1 then Inl (DomainValidationError ''run attempt must be greater than zero'')
      else Inr r)"

text \<open>\<^verbatim>\<open>Run(request_id=...)\<close> with the defaults of its fields.\<close>

definition new_run :: "uuid \<Rightarrow> uuid \<Rightarrow> time \<Rightarrow> run" where
  "new_run request_id new_id now =
     \<lparr>rn_request_id = request_id, rn_attempt = 1, rn_id = new_id, rn_status = RQueued,
      rn_failure_reason = None, rn_created_at = now, rn_updated_at = now, rn_started_at = None,
      rn_completed_at = None, rn_version = 1\<rparr>"

definition run_is_terminal :: "run \<Rightarrow> bool" where
  "run_is_terminal r \<longleftrightarrow> rn_status r \<in> set terminal_run_statuses"

definition run_transition_to :: "run \<Rightarrow> run_status \<Rightarrow> time option \<Rightarrow> time \<Rightarrow> run result" where
  "run_transition_to r target at now =
     (if target \<notin> set (allowed_run_transitions (rn_status r))
      then Inl (InvalidStateTransition (''cannot transition run from ''
        @ run_status_value (rn_status r) @ '' to '' @ run_status_value target))
      else let changed_at = at_or_now at now in
        Inr (r\<lparr>rn_status := target, rn_updated_at := changed_at, rn_version := rn_version r + 1,
          rn_started_at :=
            (if rn_started_at r = None
                \<and> (target = RRunning \<or> (rn_status r = RQueued \<and> target \<noteq> RCancelled))
             then Some changed_at else rn_started_at r),
          rn_completed_at :=
            (if target \<in> set terminal_run_statuses then Some changed_at else rn_completed_at r)\<rparr>))"

definition run_fail :: "run \<Rightarrow> string \<Rightarrow> time option \<Rightarrow> time \<Rightarrow> run result" where
  "run_fail r reason at now =
     (if py_strip reason = [] then Inl (DomainValidationError ''failure reason must not be empty'')
      else rbind (run_transition_to r RFailed at now) (\<lambda>r'.
        Inr (r'\<lparr>rn_failure_reason := Some (py_strip reason)\<rparr>)))"

interpretation run_lifecycle: lifecycle
  "\<lambda>s t. t \<in> set (allowed_run_transitions s)" "\<lambda>s. s \<in> set terminal_run_statuses" rn_status
  run_transition_to
proof unfold_locales
  fix a :: run and t at now s
  show "t \<in> set (allowed_run_transitions (rn_status a)) \<Longrightarrow>
      \<exists>a'. run_transition_to a t at now = Inr a' \<and> rn_status a' = t"
    by (simp add: run_transition_to_def Let_def)
  show "t \<notin> set (allowed_run_transitions (rn_status a)) \<Longrightarrow> \<exists>e. run_transition_to a t at now = Inl e"
    by (simp add: run_transition_to_def)
  show "s \<in> set terminal_run_statuses \<longleftrightarrow> (\<forall>t. t \<notin> set (allowed_run_transitions s))"
    by (cases s) (auto simp: terminal_run_statuses_def)
  show "s \<notin> set terminal_run_statuses \<Longrightarrow>
      \<exists>t. t \<in> set (allowed_run_transitions s) \<and> t \<in> set terminal_run_statuses"
    by (cases s) (auto simp: terminal_run_statuses_def)
qed

text \<open>The timestamps and the failure reason of a run agree with its status.\<close>

definition run_ok :: "run \<Rightarrow> bool" where
  "run_ok r \<longleftrightarrow> 1 \<le> rn_attempt r
     \<and> (run_is_terminal r \<longleftrightarrow> rn_completed_at r \<noteq> None)
     \<and> (rn_status r \<notin> {RQueued, RCancelled} \<longrightarrow> rn_started_at r \<noteq> None)
     \<and> (rn_failure_reason r \<noteq> None \<longrightarrow> rn_status r = RFailed)"

lemma new_run_ok: "run_ok (new_run request_id new_id now)"
  by (simp add: run_ok_def new_run_def run_is_terminal_def terminal_run_statuses_def)

lemma run_transition_ok: "run_transition_to r t at now = Inr r' \<Longrightarrow> run_ok r \<Longrightarrow> run_ok r'"
  by (cases "rn_status r"; cases t)
     (auto simp: run_transition_to_def run_ok_def run_is_terminal_def terminal_run_statuses_def Let_def
      split: if_splits)

lemma run_fail_ok: "run_fail r reason at now = Inr r' \<Longrightarrow> run_ok r \<Longrightarrow> run_ok r'"
proof -
  assume f: "run_fail r reason at now = Inr r'" and ok: "run_ok r"
  then obtain r1 where r1: "run_transition_to r RFailed at now = Inr r1"
    "r' = r1\<lparr>rn_failure_reason := Some (py_strip reason)\<rparr>"
    by (auto simp: run_fail_def split: if_splits)
  have "rn_status r1 = RFailed" using run_lifecycle.move_status[OF r1(1)] by simp
  with run_transition_ok[OF r1(1) ok] show ?thesis by (simp add: r1(2) run_ok_def run_is_terminal_def)
qed

section \<open>Requests\<close>

record request_origin =
  ro_ingress_key :: string
  ro_external_request_id :: string
  ro_actor_id :: "string option"
  ro_conversation_id :: "string option"

text \<open>\<^verbatim>\<open>[a-z][a-z0-9._-]{0,63}\<close>.\<close>

definition ingress_key_pattern :: "string \<Rightarrow> bool" where
  "ingress_key_pattern s \<longleftrightarrow> match_key is_az (\<lambda>c. is_az c \<or> is_digit c \<or> c \<in> set ''._-'') s
     \<and> length s \<le> 64"

text \<open>\<^verbatim>\<open>x.strip() if x else None\<close>.\<close>

definition strip_or_none :: "string option \<Rightarrow> string option" where
  "strip_or_none x = (case x of None \<Rightarrow> None | Some s \<Rightarrow> if s = [] then None else Some (py_strip s))"

definition request_origin_init :: "request_origin \<Rightarrow> request_origin result" where
  "request_origin_init o' =
     (let key = py_strip (ro_ingress_key o'); ext = py_strip (ro_external_request_id o');
          actor = strip_or_none (ro_actor_id o'); conv = strip_or_none (ro_conversation_id o') in
      if \<not> ingress_key_pattern key
      then Inl (DomainValidationError ''ingress key must be 1-64 lowercase letters, digits, dots, underscores, or hyphens'')
      else if ext = [] \<or> 255 < length ext
      then Inl (DomainValidationError ''external request ID must contain 1-255 characters'')
      else if (case actor of None \<Rightarrow> False | Some a \<Rightarrow> 255 < length a)
      then Inl (DomainValidationError ''origin actor ID must contain at most 255 characters'')
      else if (case conv of None \<Rightarrow> False | Some c \<Rightarrow> 512 < length c)
      then Inl (DomainValidationError ''origin conversation ID must contain at most 512 characters'')
      else Inr \<lparr>ro_ingress_key = key, ro_external_request_id = ext, ro_actor_id = actor,
        ro_conversation_id = conv\<rparr>)"

datatype request_status = QReceived | QActive | QCompleted | QCancelled

fun request_status_value :: "request_status \<Rightarrow> string" where
  "request_status_value QReceived = ''received''"
| "request_status_value QActive = ''active''"
| "request_status_value QCompleted = ''completed''"
| "request_status_value QCancelled = ''cancelled''"

fun allowed_request_transitions :: "request_status \<Rightarrow> request_status list" where
  "allowed_request_transitions QReceived = [QActive, QCancelled]"
| "allowed_request_transitions QActive = [QCompleted, QCancelled]"
| "allowed_request_transitions QCompleted = []"
| "allowed_request_transitions QCancelled = []"

record user_request =
  rq_project_id :: uuid
  rq_prompt :: string
  rq_title :: "string option"
  rq_origin :: "request_origin option"
  rq_id :: uuid
  rq_status :: request_status
  rq_created_at :: time
  rq_updated_at :: time

definition user_request_init :: "user_request \<Rightarrow> user_request result" where
  "user_request_init r =
     (let prompt = py_strip (rq_prompt r) in
      if prompt = [] then Inl (DomainValidationError ''request prompt must not be empty'')
      else Inr (r\<lparr>rq_prompt := prompt, rq_title := strip_or_none (rq_title r)\<rparr>))"

definition request_set_status ::
    "user_request \<Rightarrow> request_status \<Rightarrow> time option \<Rightarrow> time \<Rightarrow> user_request result" where
  "request_set_status r status at now =
     (if status \<notin> set (allowed_request_transitions (rq_status r))
      then Inl (InvalidStateTransition (''cannot transition request from ''
        @ request_status_value (rq_status r) @ '' to '' @ request_status_value status))
      else Inr (r\<lparr>rq_status := status, rq_updated_at := at_or_now at now\<rparr>))"

definition request_activate :: "user_request \<Rightarrow> time option \<Rightarrow> time \<Rightarrow> user_request result" where
  "request_activate r at now = request_set_status r QActive at now"

definition request_complete :: "user_request \<Rightarrow> time option \<Rightarrow> time \<Rightarrow> user_request result" where
  "request_complete r at now = request_set_status r QCompleted at now"

definition request_cancel :: "user_request \<Rightarrow> time option \<Rightarrow> time \<Rightarrow> user_request result" where
  "request_cancel r at now = request_set_status r QCancelled at now"

interpretation request_lifecycle: lifecycle
  "\<lambda>s t. t \<in> set (allowed_request_transitions s)" "\<lambda>s. s \<in> {QCompleted, QCancelled}" rq_status
  request_set_status
proof unfold_locales
  fix a :: user_request and t at now s
  show "t \<in> set (allowed_request_transitions (rq_status a)) \<Longrightarrow>
      \<exists>a'. request_set_status a t at now = Inr a' \<and> rq_status a' = t"
    by (simp add: request_set_status_def)
  show "t \<notin> set (allowed_request_transitions (rq_status a)) \<Longrightarrow> \<exists>e. request_set_status a t at now = Inl e"
    by (simp add: request_set_status_def)
  show "s \<in> {QCompleted, QCancelled} \<longleftrightarrow> (\<forall>t. t \<notin> set (allowed_request_transitions s))"
    by (cases s) auto
  show "s \<notin> {QCompleted, QCancelled} \<Longrightarrow>
      \<exists>t. t \<in> set (allowed_request_transitions s) \<and> t \<in> {QCompleted, QCancelled}"
    by (cases s) auto
qed

section \<open>Projects\<close>

datatype project_status = PActive | PArchived

record project =
  pj_key :: string
  pj_name :: string
  pj_repository_url :: string
  pj_default_branch :: string
  pj_id :: uuid
  pj_status :: project_status
  pj_created_at :: time
  pj_updated_at :: time

text \<open>\<^verbatim>\<open>[a-z][a-z0-9-]{1,62}[a-z0-9]\<close>.\<close>

definition project_key_pattern :: "string \<Rightarrow> bool" where
  "project_key_pattern s \<longleftrightarrow> 3 \<le> length s \<and> length s \<le> 64 \<and> is_az (hd s)
     \<and> list_all (\<lambda>c. is_az c \<or> is_digit c \<or> c = CHR ''-'') (butlast (tl s))
     \<and> (is_az (last s) \<or> is_digit (last s))"

definition project_init :: "project \<Rightarrow> project result" where
  "project_init p =
     (let key = py_strip (pj_key p); name = py_strip (pj_name p);
          url = py_strip (pj_repository_url p); branch = py_strip (pj_default_branch p) in
      if \<not> project_key_pattern key
      then Inl (DomainValidationError ''project key must be 3-64 lowercase letters, digits, or hyphens'')
      else if name = [] then Inl (DomainValidationError ''project name must not be empty'')
      else if url = [] then Inl (DomainValidationError ''repository URL must not be empty'')
      else if branch = [] then Inl (DomainValidationError ''default branch must not be empty'')
      else Inr (p\<lparr>pj_key := key, pj_name := name, pj_repository_url := url,
        pj_default_branch := branch\<rparr>))"

definition project_archive :: "project \<Rightarrow> time option \<Rightarrow> time \<Rightarrow> project" where
  "project_archive p at now = p\<lparr>pj_status := PArchived, pj_updated_at := at_or_now at now\<rparr>"

section \<open>Dispatch receipts\<close>

record request_dispatch_receipt =
  dr_project_id :: uuid
  dr_idempotency_key :: string
  dr_payload_digest :: string
  dr_ingress_key :: string
  dr_id :: uuid
  dr_request_id :: "uuid option"
  dr_run_id :: "uuid option"
  dr_workflow_execution_id :: "uuid option"
  dr_created_at :: time
  dr_completed_at :: "time option"

definition receipt_is_complete :: "request_dispatch_receipt \<Rightarrow> bool" where
  "receipt_is_complete r \<longleftrightarrow>
     list_all (\<lambda>v. v \<noteq> None) [dr_request_id r, dr_run_id r, dr_workflow_execution_id r]"

definition receipt_init :: "request_dispatch_receipt \<Rightarrow> request_dispatch_receipt result" where
  "receipt_init r0 =
     (let r = r0\<lparr>dr_idempotency_key := py_strip (dr_idempotency_key r0),
                 dr_ingress_key := py_strip (dr_ingress_key r0)\<rparr>;
          ids = [dr_request_id r, dr_run_id r, dr_workflow_execution_id r] in
      if \<not> ingress_key_pattern (dr_ingress_key r)
      then Inl (DomainValidationError ''dispatch receipt ingress key is invalid'')
      else if dr_idempotency_key r = [] \<or> 128 < length (dr_idempotency_key r)
      then Inl (DomainValidationError ''idempotency key must contain 1-128 characters'')
      else if \<not> sha256_digest (dr_payload_digest r)
      then Inl (DomainValidationError ''dispatch payload digest must be a SHA-256 digest'')
      else if list_ex (\<lambda>v. v \<noteq> None) ids \<and> \<not> list_all (\<lambda>v. v \<noteq> None) ids
      then Inl (DomainValidationError ''dispatch receipt result identifiers must be all or none'')
      else if dr_completed_at r \<noteq> None \<and> \<not> receipt_is_complete r
      then Inl (DomainValidationError ''completed dispatch receipt requires result identifiers'')
      else Inr r)"

definition receipt_complete ::
    "request_dispatch_receipt \<Rightarrow> uuid \<Rightarrow> uuid \<Rightarrow> uuid \<Rightarrow> time option \<Rightarrow> time
       \<Rightarrow> request_dispatch_receipt result" where
  "receipt_complete r request_id run_id execution_id at now =
     (if receipt_is_complete r then Inl (DomainValidationError ''dispatch receipt is already complete'')
      else Inr (r\<lparr>dr_request_id := Some request_id, dr_run_id := Some run_id,
        dr_workflow_execution_id := Some execution_id,
        dr_completed_at := Some (at_or_now at now)\<rparr>))"

section \<open>Events and rendering\<close>

record domain_event =
  ev_aggregate_type :: string
  ev_aggregate_id :: uuid
  ev_event_type :: string
  ev_payload :: json_object
  ev_id :: uuid
  ev_sequence :: "int option"
  ev_occurred_at :: time

text \<open>A key with its version, and with an optional version suffix, as the messages of the services
  print them.\<close>

definition at_version :: "string \<Rightarrow> int \<Rightarrow> string" where
  "at_version key version = key @ ''@'' @ str_int version"

definition with_suffix :: "string \<Rightarrow> int option \<Rightarrow> string" where
  "with_suffix key version = (case version of None \<Rightarrow> key | Some v \<Rightarrow> at_version key v)"

end
