(* ===== verification/Budgets.thy ===== *)
theory Budgets
  imports Domain
begin

text \<open>
  \<^verbatim>\<open>budgets/models.py\<close>: project budget accounts, reservations and usage records. An amount that went
  through \<^verbatim>\<open>money\<close> is an integer number of micro-dollars; every addition and subtraction is the
  decimal operation of the source with its 28 digit context, so an amount that no longer fits raises
  \<open>DecimalInvalidOperation\<close> instead of wrapping. Theorems: on accounts whose commitments stay within
  the limit all arithmetic is exact, and reserving keeps them there.
\<close>

section \<open>Accounts\<close>

record budget_account =
  ba_project_id :: uuid
  ba_limit_usd :: micros
  ba_id :: uuid
  ba_reserved_usd :: micros
  ba_spent_usd :: micros
  ba_version :: int
  ba_created_at :: time
  ba_updated_at :: time

text \<open>The constructor, given the amounts before \<^verbatim>\<open>money\<close>.\<close>

definition budget_account_init ::
    "budget_account \<Rightarrow> decimal \<Rightarrow> decimal \<Rightarrow> decimal \<Rightarrow> budget_account result" where
  "budget_account_init a limit_usd reserved_usd spent_usd =
     rbind (money limit_usd) (\<lambda>l. rbind (money reserved_usd) (\<lambda>r. rbind (money spent_usd) (\<lambda>s.
       if min l (min r s) < 0 then Inl (DomainValidationError ''budget amounts must not be negative'')
       else Inr (a\<lparr>ba_limit_usd := l, ba_reserved_usd := r, ba_spent_usd := s\<rparr>))))"

definition available_usd :: "budget_account \<Rightarrow> micros result" where
  "available_usd a =
     money (dec_sub (dec_sub (usd (ba_limit_usd a)) (usd (ba_reserved_usd a))) (usd (ba_spent_usd a)))"

definition account_touch :: "budget_account \<Rightarrow> time option \<Rightarrow> time \<Rightarrow> budget_account" where
  "account_touch a at now = a\<lparr>ba_version := ba_version a + 1, ba_updated_at := at_or_now at now\<rparr>"

definition account_set_limit ::
    "budget_account \<Rightarrow> decimal \<Rightarrow> time option \<Rightarrow> time \<Rightarrow> budget_account result" where
  "account_set_limit a limit_usd at now =
     rbind (money limit_usd) (\<lambda>value.
       if dec_less (usd value) (dec_add (usd (ba_reserved_usd a)) (usd (ba_spent_usd a)))
       then Inl (DomainValidationError ''budget limit cannot be below current commitments'')
       else Inr (account_touch (a\<lparr>ba_limit_usd := value\<rparr>) at now))"

definition account_reserve ::
    "budget_account \<Rightarrow> decimal \<Rightarrow> time option \<Rightarrow> time \<Rightarrow> budget_account result" where
  "account_reserve a amount_usd at now =
     rbind (money amount_usd) (\<lambda>amount.
       if amount < 0 then Inl (DomainValidationError ''reservation amount must not be negative'')
       else rbind (available_usd a) (\<lambda>available.
         if available < amount
         then Inl (BudgetLimitExceeded (''budget requires '' @ dec_str (usd amount)
           @ '' USD but only '' @ dec_str (usd available) @ '' USD is available''))
         else rbind (money (dec_add (usd (ba_reserved_usd a)) (usd amount))) (\<lambda>reserved.
           Inr (account_touch (a\<lparr>ba_reserved_usd := reserved\<rparr>) at now))))"

definition account_settle ::
    "budget_account \<Rightarrow> decimal \<Rightarrow> decimal \<Rightarrow> time option \<Rightarrow> time \<Rightarrow> budget_account result" where
  "account_settle a reserved_usd actual_usd at now =
     rbind (money reserved_usd) (\<lambda>reserved. rbind (money actual_usd) (\<lambda>actual.
       if actual < 0 \<or> reserved < 0 \<or> ba_reserved_usd a < reserved
       then Inl (DomainValidationError ''budget settlement amounts are invalid'')
       else rbind (money (dec_sub (usd (ba_reserved_usd a)) (usd reserved))) (\<lambda>r.
            rbind (money (dec_add (usd (ba_spent_usd a)) (usd actual))) (\<lambda>s.
              Inr (account_touch (a\<lparr>ba_reserved_usd := r, ba_spent_usd := s\<rparr>) at now)))))"

definition account_release ::
    "budget_account \<Rightarrow> decimal \<Rightarrow> time option \<Rightarrow> time \<Rightarrow> budget_account result" where
  "account_release a amount_usd at now =
     rbind (money amount_usd) (\<lambda>amount.
       if amount < 0 \<or> ba_reserved_usd a < amount
       then Inl (DomainValidationError ''budget release amount is invalid'')
       else rbind (money (dec_sub (usd (ba_reserved_usd a)) (usd amount))) (\<lambda>r.
         Inr (account_touch (a\<lparr>ba_reserved_usd := r\<rparr>) at now)))"

section \<open>Reservations\<close>

datatype budget_reservation_status = BReserved | BSettled | BForfeited | BReleased

fun reservation_status_value :: "budget_reservation_status \<Rightarrow> string" where
  "reservation_status_value BReserved = ''reserved''"
| "reservation_status_value BSettled = ''settled''"
| "reservation_status_value BForfeited = ''forfeited''"
| "reservation_status_value BReleased = ''released''"

datatype usage_kind = UActual | UEstimatedForfeit

record budget_reservation =
  br_account_id :: uuid
  br_project_id :: uuid
  br_run_id :: uuid
  br_execution_id :: uuid
  br_node_key :: string
  br_idempotency_key :: string
  br_reserved_usd :: micros
  br_id :: uuid
  br_status :: budget_reservation_status
  br_actual_usd :: "micros option"
  br_created_at :: time
  br_finalized_at :: "time option"

definition reservation_init :: "budget_reservation \<Rightarrow> decimal \<Rightarrow> budget_reservation result" where
  "reservation_init r reserved_usd =
     rbind (money reserved_usd) (\<lambda>reserved.
       if reserved < 0 then Inl (DomainValidationError ''reserved_usd must not be negative'')
       else if blank (br_node_key r) \<or> blank (br_idempotency_key r)
       then Inl (DomainValidationError ''reservation keys must not be empty'')
       else Inr (r\<lparr>br_reserved_usd := reserved\<rparr>))"

definition reservation_finalize ::
    "budget_reservation \<Rightarrow> budget_reservation_status \<Rightarrow> decimal \<Rightarrow> time option \<Rightarrow> time
       \<Rightarrow> budget_reservation result" where
  "reservation_finalize r status actual_usd at now =
     (if br_status r \<noteq> BReserved
      then Inl (InvalidStateTransition (''cannot finalize reservation from ''
        @ reservation_status_value (br_status r)))
      else rbind (money actual_usd) (\<lambda>value.
        if value < 0 then Inl (DomainValidationError ''actual_usd must not be negative'')
        else Inr (r\<lparr>br_status := status, br_actual_usd := Some value,
          br_finalized_at := Some (at_or_now at now)\<rparr>)))"

definition reservation_settle ::
    "budget_reservation \<Rightarrow> decimal \<Rightarrow> time option \<Rightarrow> time \<Rightarrow> budget_reservation result" where
  "reservation_settle r actual_usd at now = reservation_finalize r BSettled actual_usd at now"

definition reservation_forfeit ::
    "budget_reservation \<Rightarrow> time option \<Rightarrow> time \<Rightarrow> budget_reservation result" where
  "reservation_forfeit r at now = reservation_finalize r BForfeited (usd (br_reserved_usd r)) at now"

definition reservation_release ::
    "budget_reservation \<Rightarrow> time option \<Rightarrow> time \<Rightarrow> budget_reservation result" where
  "reservation_release r at now = reservation_finalize r BReleased (Dec 0 0) at now"

record usage_record =
  ur_reservation_id :: uuid
  ur_account_id :: uuid
  ur_project_id :: uuid
  ur_run_id :: uuid
  ur_execution_id :: uuid
  ur_node_key :: string
  ur_kind :: usage_kind
  ur_input_tokens :: int
  ur_output_tokens :: int
  ur_cost_usd :: micros
  ur_model_profile_key :: string
  ur_model_profile_version :: int
  ur_id :: uuid
  ur_recorded_at :: time

definition usage_record_init :: "usage_record \<Rightarrow> decimal \<Rightarrow> usage_record result" where
  "usage_record_init u cost_usd =
     (if ur_input_tokens u < 0 \<or> ur_output_tokens u < 0
      then Inl (DomainValidationError ''usage tokens must not be negative'')
      else rbind (money cost_usd) (\<lambda>cost.
        if cost < 0 then Inl (DomainValidationError ''usage cost must not be negative'')
        else Inr (u\<lparr>ur_cost_usd := cost\<rparr>)))"

section \<open>Exact arithmetic within the limit\<close>

definition amounts_ok :: "budget_account \<Rightarrow> bool" where
  "amounts_ok a \<longleftrightarrow> 0 \<le> ba_limit_usd a \<and> 0 \<le> ba_reserved_usd a \<and> 0 \<le> ba_spent_usd a
     \<and> is_money (ba_limit_usd a) \<and> is_money (ba_reserved_usd a) \<and> is_money (ba_spent_usd a)"

definition within_limit :: "budget_account \<Rightarrow> bool" where
  "within_limit a \<longleftrightarrow> ba_reserved_usd a + ba_spent_usd a \<le> ba_limit_usd a"

lemma dec_sub_usd: "is_money (a - b) \<Longrightarrow> dec_sub (usd a) (usd b) = usd (a - b)"
  by (simp add: dec_sub_def usd_def scaled_def Let_def is_money_def fix_prec_small)

lemma dec_add_usd: "is_money (a + b) \<Longrightarrow> dec_add (usd a) (usd b) = usd (a + b)"
  by (simp add: dec_add_def usd_def scaled_def Let_def is_money_def fix_prec_small)

lemma available_exact:
  assumes "amounts_ok a" "within_limit a"
  shows "available_usd a = Inr (ba_limit_usd a - ba_reserved_usd a - ba_spent_usd a)"
proof -
  have "is_money (ba_limit_usd a - ba_reserved_usd a)"
    "is_money (ba_limit_usd a - ba_reserved_usd a - ba_spent_usd a)"
    using assms by (auto simp: amounts_ok_def within_limit_def is_money_def)
  then show ?thesis by (simp add: available_usd_def dec_sub_usd money_usd)
qed

lemma account_reserve_exact:
  assumes "amounts_ok a" "within_limit a" "0 \<le> m" "is_money m"
  shows "account_reserve a (usd m) at now =
    (if ba_reserved_usd a + ba_spent_usd a + m \<le> ba_limit_usd a
     then Inr (account_touch (a\<lparr>ba_reserved_usd := ba_reserved_usd a + m\<rparr>) at now)
     else Inl (BudgetLimitExceeded (''budget requires '' @ dec_str (usd m) @ '' USD but only ''
       @ dec_str (usd (ba_limit_usd a - ba_reserved_usd a - ba_spent_usd a)) @ '' USD is available'')))"
proof -
  have "is_money (ba_reserved_usd a + m)" if "ba_reserved_usd a + ba_spent_usd a + m \<le> ba_limit_usd a"
    using assms that by (auto simp: amounts_ok_def is_money_def)
  then show ?thesis
    using assms by (auto simp: account_reserve_def available_exact money_usd money_add)
qed

lemma account_release_exact:
  assumes "amounts_ok a" "0 \<le> m" "m \<le> ba_reserved_usd a"
  shows "account_release a (usd m) at now =
    Inr (account_touch (a\<lparr>ba_reserved_usd := ba_reserved_usd a - m\<rparr>) at now)"
proof -
  have "is_money m" "is_money (ba_reserved_usd a - m)"
    using assms by (auto simp: amounts_ok_def is_money_def)
  then show ?thesis using assms by (simp add: account_release_def money_usd money_sub)
qed

lemma account_settle_exact:
  assumes "amounts_ok a" "0 \<le> m" "m \<le> ba_reserved_usd a" "0 \<le> c" "is_money c" "is_money (ba_spent_usd a + c)"
  shows "account_settle a (usd m) (usd c) at now =
    Inr (account_touch (a\<lparr>ba_reserved_usd := ba_reserved_usd a - m, ba_spent_usd := ba_spent_usd a + c\<rparr>) at now)"
proof -
  have "is_money m" "is_money (ba_reserved_usd a - m)"
    using assms by (auto simp: amounts_ok_def is_money_def)
  then show ?thesis using assms by (simp add: account_settle_def money_usd money_sub money_add)
qed

text \<open>What a successful operation did, without assumptions on the account.\<close>

lemma account_releaseD:
  assumes "account_release a (usd m) at now = Inr a'" "is_money m"
  shows "a' = account_touch (a\<lparr>ba_reserved_usd := ba_reserved_usd a - m\<rparr>) at now"
    "0 \<le> m" "m \<le> ba_reserved_usd a" "is_money (ba_reserved_usd a - m)"
  using assms by (auto simp: account_release_def money_usd money_sub split: if_splits)

lemma account_settleD:
  assumes "account_settle a (usd m) (usd c) at now = Inr a'" "is_money m" "is_money c"
  shows "a' = account_touch (a\<lparr>ba_reserved_usd := ba_reserved_usd a - m,
      ba_spent_usd := ba_spent_usd a + c\<rparr>) at now"
    "0 \<le> m" "m \<le> ba_reserved_usd a" "0 \<le> c" "is_money (ba_reserved_usd a - m)" "is_money (ba_spent_usd a + c)"
  using assms by (auto simp: account_settle_def money_usd money_sub money_add split: if_splits)

lemma account_reserveD:
  assumes "account_reserve a (usd m) at now = Inr a'" "is_money m"
  shows "a' = account_touch (a\<lparr>ba_reserved_usd := ba_reserved_usd a + m\<rparr>) at now"
    "0 \<le> m" "is_money (ba_reserved_usd a + m)"
  using assms by (auto simp: account_reserve_def money_usd money_add split: if_splits)

end
