(* ===== verification/External_Executions.thy ===== *)
theory External_Executions
  imports Domain
begin

text \<open>
  The mapping of one visit of a task to a run of an external runtime
  (\<^verbatim>\<open>external_executions/models.py\<close>): started, accepted under the identifier the runtime gave it,
  finished once, its workspace released after that. A method that changes the object returns the
  changed record; the ones that return without a change are identities.
\<close>

section \<open>The model\<close>

datatype external_execution_status = XStarting | XActive | XSucceeded | XFailed | XCancelled

fun external_status_value :: "external_execution_status \<Rightarrow> string" where
  "external_status_value XStarting = ''starting''" | "external_status_value XActive = ''active''"
| "external_status_value XSucceeded = ''succeeded''" | "external_status_value XFailed = ''failed''"
| "external_status_value XCancelled = ''cancelled''"

definition terminal_external_statuses :: "external_execution_status list" where
  "terminal_external_statuses = [XSucceeded, XFailed, XCancelled]"

record external_execution =
  xe_execution_id :: uuid
  xe_run_id :: uuid
  xe_node_key :: string
  xe_executor_key :: string
  xe_idempotency_key :: string
  xe_external_session_key :: string
  xe_external_agent_id :: "string option"
  xe_workspace_path :: "string option"
  xe_workspace_repository_path :: "string option"
  xe_workspace_branch :: "string option"
  xe_workspace_base_ref :: "string option"
  xe_workspace_scope :: "string option"
  xe_workspace_released_at :: "time option"
  xe_id :: uuid
  xe_external_run_id :: "string option"
  xe_status :: external_execution_status
  xe_terminal_result :: "json_object option"
  xe_failure_reason :: "string option"
  xe_created_at :: time
  xe_updated_at :: time
  xe_completed_at :: "time option"

text \<open>The truth value of an optional string.\<close>

definition given :: "string option \<Rightarrow> bool" where
  "given x \<longleftrightarrow> x \<noteq> None \<and> x \<noteq> Some []"

definition not_blank :: "string option \<Rightarrow> bool" where
  "not_blank x = (case x of None \<Rightarrow> False | Some s \<Rightarrow> \<not> blank s)"

definition external_execution_init :: "external_execution \<Rightarrow> external_execution result" where
  "external_execution_init x =
     (let workspace = [xe_workspace_path x, xe_workspace_branch x, xe_workspace_base_ref x] in
      if list_ex blank [xe_node_key x, xe_executor_key x, xe_idempotency_key x, xe_external_session_key x]
      then Inl (DomainValidationError ''external execution keys must not be empty'')
      else if xe_status x = XActive \<and> \<not> given (xe_external_run_id x)
      then Inl (DomainValidationError ''active external execution requires external_run_id'')
      else if list_ex given workspace \<and> \<not> list_all not_blank workspace
      then Inl (DomainValidationError ''external execution workspace metadata must be complete or omitted'')
      else Inr x)"

definition xe_is_terminal :: "external_execution \<Rightarrow> bool" where
  "xe_is_terminal x \<longleftrightarrow> xe_status x \<in> set terminal_external_statuses"

definition xe_release_workspace :: "external_execution \<Rightarrow> time option \<Rightarrow> time \<Rightarrow> external_execution result" where
  "xe_release_workspace x at now =
     (if \<not> xe_is_terminal x
      then Inl (InvalidStateTransition ''cannot release workspace before external execution ends'')
      else if \<not> given (xe_workspace_path x)
      then Inl (DomainValidationError ''external execution has no workspace to release'')
      else if xe_workspace_released_at x \<noteq> None then Inr x
      else let changed_at = at_or_now at now in
        Inr (x\<lparr>xe_workspace_released_at := Some changed_at, xe_updated_at := changed_at\<rparr>))"

definition xe_accept :: "external_execution \<Rightarrow> string \<Rightarrow> time option \<Rightarrow> time \<Rightarrow> external_execution result" where
  "xe_accept x external_run_id at now =
     (if xe_is_terminal x
      then Inl (InvalidStateTransition (''cannot accept external execution from '' @ external_status_value (xe_status x)))
      else let normalized = py_strip external_run_id in
        if normalized = [] then Inl (DomainValidationError ''external_run_id must not be empty'')
        else if xe_external_run_id x \<noteq> None \<and> xe_external_run_id x \<noteq> Some normalized
        then Inl (DomainValidationError ''external_run_id cannot change'')
        else Inr (x\<lparr>xe_external_run_id := Some normalized, xe_status := XActive,
                    xe_updated_at := at_or_now at now\<rparr>))"

definition xe_finish ::
    "external_execution \<Rightarrow> external_execution_status \<Rightarrow> json_object option \<Rightarrow> string option \<Rightarrow> time option
       \<Rightarrow> time \<Rightarrow> external_execution result" where
  "xe_finish x status terminal_result failure_reason at now =
     (if status \<notin> set terminal_external_statuses
      then Inl (DomainValidationError ''external execution finish status must be terminal'')
      else if xe_is_terminal x
      then (if xe_status x = status then Inr x
            else Inl (InvalidStateTransition (''cannot finish external execution from '' @ external_status_value (xe_status x))))
      else let changed_at = at_or_now at now in
        Inr (x\<lparr>xe_status := status, xe_terminal_result := terminal_result, xe_failure_reason := failure_reason,
               xe_updated_at := changed_at, xe_completed_at := Some changed_at\<rparr>))"

section \<open>The life of an execution\<close>

text \<open>The changes an execution can make, as a relation on its observable state: status, runtime
  identifier, release of the workspace.\<close>

definition external_ok :: "external_execution \<Rightarrow> bool" where
  "external_ok x \<longleftrightarrow> external_execution_init x = Inr x
     \<and> (xe_completed_at x \<noteq> None \<longleftrightarrow> xe_is_terminal x)
     \<and> (xe_workspace_released_at x \<noteq> None \<longrightarrow> xe_is_terminal x \<and> given (xe_workspace_path x))"

inductive external_step :: "external_execution \<Rightarrow> external_execution \<Rightarrow> bool" where
  accepted: "xe_accept x rid at now = Inr y \<Longrightarrow> external_step x y"
| finished: "xe_finish x status res reason at now = Inr y \<Longrightarrow> external_step x y"
| released: "xe_release_workspace x at now = Inr y \<Longrightarrow> external_step x y"

lemma external_terminal_iff:
  "xe_is_terminal x \<longleftrightarrow> xe_status x \<in> {XSucceeded, XFailed, XCancelled}"
  by (auto simp: xe_is_terminal_def terminal_external_statuses_def)

definition xe_fixed_ok :: "external_execution \<Rightarrow> bool" where
  "xe_fixed_ok x \<longleftrightarrow> (let workspace = [xe_workspace_path x, xe_workspace_branch x, xe_workspace_base_ref x] in
     \<not> list_ex blank [xe_node_key x, xe_executor_key x, xe_idempotency_key x, xe_external_session_key x]
     \<and> (list_ex given workspace \<longrightarrow> list_all not_blank workspace))"

lemma external_init_iff:
  "external_execution_init x = Inr y \<longleftrightarrow>
     y = x \<and> xe_fixed_ok x \<and> (xe_status x = XActive \<longrightarrow> given (xe_external_run_id x))"
  unfolding external_execution_init_def xe_fixed_ok_def Let_def by (simp only: raise_if_Inr sum.inject) blast

lemma xe_fixed_ok_update [simp]:
  "xe_fixed_ok (x\<lparr>xe_external_run_id := r\<rparr>) = xe_fixed_ok x" "xe_fixed_ok (x\<lparr>xe_status := st\<rparr>) = xe_fixed_ok x"
  "xe_fixed_ok (x\<lparr>xe_updated_at := t\<rparr>) = xe_fixed_ok x" "xe_fixed_ok (x\<lparr>xe_terminal_result := tr\<rparr>) = xe_fixed_ok x"
  "xe_fixed_ok (x\<lparr>xe_failure_reason := fr\<rparr>) = xe_fixed_ok x" "xe_fixed_ok (x\<lparr>xe_completed_at := c\<rparr>) = xe_fixed_ok x"
  "xe_fixed_ok (x\<lparr>xe_workspace_released_at := w\<rparr>) = xe_fixed_ok x"
  by (simp_all add: xe_fixed_ok_def)

text \<open>The three changes, read off the methods.\<close>

lemma xe_acceptD:
  "xe_accept x rid at now = Inr y \<Longrightarrow> \<not> xe_is_terminal x \<and> py_strip rid \<noteq> []
     \<and> (xe_external_run_id x = None \<or> xe_external_run_id x = Some (py_strip rid))
     \<and> y = x\<lparr>xe_external_run_id := Some (py_strip rid), xe_status := XActive, xe_updated_at := at_or_now at now\<rparr>"
  by (simp add: xe_accept_def Let_def split: if_splits)

lemma xe_finishD:
  "xe_finish x status res reason at now = Inr y \<Longrightarrow> status \<in> set terminal_external_statuses \<and> (y = x \<or> \<not> xe_is_terminal x
     \<and> y = x\<lparr>xe_status := status, xe_terminal_result := res, xe_failure_reason := reason,
         xe_updated_at := at_or_now at now, xe_completed_at := Some (at_or_now at now)\<rparr>)"
  by (simp add: xe_finish_def Let_def split: if_splits)

lemma xe_releaseD:
  "xe_release_workspace x at now = Inr y \<Longrightarrow> y = x \<or> (xe_is_terminal x \<and> given (xe_workspace_path x)
     \<and> xe_workspace_released_at x = None
     \<and> y = x\<lparr>xe_workspace_released_at := Some (at_or_now at now), xe_updated_at := at_or_now at now\<rparr>)"
  by (simp add: xe_release_workspace_def Let_def split: if_splits)

lemma external_step_ok: "external_step x y \<Longrightarrow> external_ok x \<Longrightarrow> external_ok y"
proof (induction rule: external_step.induct)
  case (accepted x rid at now y)
  then show ?case
    using xe_acceptD[OF accepted(1)]
    by (simp add: external_ok_def external_init_iff external_terminal_iff given_def)
next
  case (finished x status res reason at now y)
  from xe_finishD[OF finished(1)] have "status \<noteq> XActive" by (auto simp: terminal_external_statuses_def)
  then show ?case
    using xe_finishD[OF finished(1)] finished(2)
    by (elim conjE disjE) (simp_all add: external_ok_def external_init_iff xe_is_terminal_def)
next
  case (released x at now y)
  then show ?case
    using xe_releaseD[OF released(1)]
    by (elim conjE disjE) (simp_all add: external_ok_def external_init_iff xe_is_terminal_def)
qed

lemma external_step_monotone:
  assumes "external_step x y"
  shows "xe_is_terminal x \<Longrightarrow> xe_status y = xe_status x \<and> xe_terminal_result y = xe_terminal_result x
      \<and> xe_failure_reason y = xe_failure_reason x \<and> xe_completed_at y = xe_completed_at x"
    and "xe_external_run_id x \<noteq> None \<Longrightarrow> xe_external_run_id y = xe_external_run_id x"
    and "xe_workspace_released_at x \<noteq> None \<Longrightarrow> xe_workspace_released_at y = xe_workspace_released_at x"
    and "xe_id y = xe_id x \<and> xe_idempotency_key y = xe_idempotency_key x \<and> xe_workspace_path y = xe_workspace_path x
      \<and> xe_workspace_branch y = xe_workspace_branch x \<and> xe_workspace_scope y = xe_workspace_scope x"
proof -
  have "(xe_is_terminal x \<longrightarrow> xe_status y = xe_status x \<and> xe_terminal_result y = xe_terminal_result x
      \<and> xe_failure_reason y = xe_failure_reason x \<and> xe_completed_at y = xe_completed_at x)
    \<and> (xe_external_run_id x \<noteq> None \<longrightarrow> xe_external_run_id y = xe_external_run_id x)
    \<and> (xe_workspace_released_at x \<noteq> None \<longrightarrow> xe_workspace_released_at y = xe_workspace_released_at x)
    \<and> xe_id y = xe_id x \<and> xe_idempotency_key y = xe_idempotency_key x \<and> xe_workspace_path y = xe_workspace_path x
    \<and> xe_workspace_branch y = xe_workspace_branch x \<and> xe_workspace_scope y = xe_workspace_scope x"
    using assms
  proof cases
    case (accepted rid at now)
    then show ?thesis using xe_acceptD by fastforce
  next
    case (finished status res reason at now)
    from xe_finishD[OF this] show ?thesis by (elim conjE disjE) simp_all
  next
    case (released at now)
    from xe_releaseD[OF this] show ?thesis by (elim conjE disjE) simp_all
  qed
  then show "xe_is_terminal x \<Longrightarrow> xe_status y = xe_status x \<and> xe_terminal_result y = xe_terminal_result x
      \<and> xe_failure_reason y = xe_failure_reason x \<and> xe_completed_at y = xe_completed_at x"
    and "xe_external_run_id x \<noteq> None \<Longrightarrow> xe_external_run_id y = xe_external_run_id x"
    and "xe_workspace_released_at x \<noteq> None \<Longrightarrow> xe_workspace_released_at y = xe_workspace_released_at x"
    and "xe_id y = xe_id x \<and> xe_idempotency_key y = xe_idempotency_key x \<and> xe_workspace_path y = xe_workspace_path x
      \<and> xe_workspace_branch y = xe_workspace_branch x \<and> xe_workspace_scope y = xe_workspace_scope x"
    by simp_all
qed

end
