(* ===== verification/Leased_Work.thy ===== *)
theory Leased_Work
  imports Domain
begin

text \<open>
  What the durable work items of the orchestrator promise: workspace operations, publications and
  notification deliveries wait until a worker leases them, are finished only by the holder of the
  current lease, may be leased again after the lease expired or a scheduled retry is due, and never
  leave the finished state. \<open>work_step\<close> is that contract as a step relation; the locale
  \<open>leased_item\<close> says that an implementation takes exactly those steps, and derives what follows for
  sequences of calls. The components interpret it on their own methods.
\<close>

section \<open>The contract\<close>

datatype work = Waiting | Leased uuid time | Done | Failed "time option"

text \<open>\<open>Claim token now expires\<close>, \<open>Succeed token\<close>, \<open>Fail token next_attempt\<close>.\<close>

datatype work_event = Claim uuid time time | Succeed uuid | Fail uuid "time option" | Retry | Cancel

inductive work_step :: "work \<Rightarrow> work_event \<Rightarrow> work \<Rightarrow> bool" where
  claim_waiting: "now < e \<Longrightarrow> work_step Waiting (Claim tok now e) (Leased tok e)"
| claim_expired: "now < e \<Longrightarrow> e' \<le> now \<Longrightarrow> work_step (Leased tok' e') (Claim tok now e) (Leased tok e)"
| claim_retry: "now < e \<Longrightarrow> r \<le> now \<Longrightarrow> work_step (Failed (Some r)) (Claim tok now e) (Leased tok e)"
| succeed: "work_step (Leased tok e) (Succeed tok) Done"
| fail: "work_step (Leased tok e) (Fail tok r) (Failed r)"
| retry: "work_step (Failed r) Retry Waiting"
| cancel: "work_step (Failed (Some r)) Cancel (Failed None)"

inductive_cases work_step_DoneE: "work_step Done ev w"

inductive_simps work_step_Claim: "work_step w (Claim tok now e) w'"
inductive_simps work_step_Succeed: "work_step w (Succeed tok) w'"
inductive_simps work_step_Fail: "work_step w (Fail tok r) w'"
inductive_simps work_step_Retry: "work_step w Retry w'"
inductive_simps work_step_Cancel: "work_step w Cancel w'"

lemmas work_step_simps = work_step_Claim work_step_Succeed work_step_Fail work_step_Retry work_step_Cancel

code_pred (modes: i \<Rightarrow> i \<Rightarrow> o \<Rightarrow> bool, i \<Rightarrow> i \<Rightarrow> i \<Rightarrow> bool) work_step .

text \<open>Sequences of steps.\<close>

inductive work_trace :: "work \<Rightarrow> work_event list \<Rightarrow> work \<Rightarrow> bool" where
  stop: "work_trace w [] w"
| step: "work_step w ev w' \<Longrightarrow> work_trace w' evs w'' \<Longrightarrow> work_trace w (ev # evs) w''"

inductive_simps work_trace_Nil [simp]: "work_trace w [] w'"
inductive_simps work_trace_Cons [simp]: "work_trace w (ev # evs) w'"

lemma work_trace_append: "work_trace w (xs @ ys) w'' \<longleftrightarrow> (\<exists>w'. work_trace w xs w' \<and> work_trace w' ys w'')"
  by (induction xs arbitrary: w) auto

text \<open>Nothing happens after a success.\<close>

lemma work_trace_Done: "work_trace Done evs w \<Longrightarrow> evs = [] \<and> w = Done"
  by (cases evs) (auto elim: work_step_DoneE)

lemma succeeds_last: "work_trace w (xs @ Succeed tok # ys) w' \<Longrightarrow> ys = []"
  by (auto simp: work_trace_append work_step_Succeed dest: work_trace_Done)

text \<open>The lease an event sequence leaves behind is that of its last claim.\<close>

definition is_claim :: "work_event \<Rightarrow> bool" where
  "is_claim ev = (case ev of Claim _ _ _ \<Rightarrow> True | _ \<Rightarrow> False)"

lemma lease_origin:
  "work_trace w evs (Leased tok e) \<Longrightarrow>
     (\<exists>xs now ys. evs = xs @ Claim tok now e # ys \<and> list_all (\<lambda>ev. \<not> is_claim ev) ys) \<or> (evs = [] \<and> w = Leased tok e)"
proof (induction evs arbitrary: w)
  case Nil
  then show ?case by simp
next
  case (Cons ev evs)
  then obtain w1 where s: "work_step w ev w1" and t: "work_trace w1 evs (Leased tok e)"
    by auto
  from Cons.IH[OF t] show ?case
  proof
    assume "evs = [] \<and> w1 = Leased tok e"
    then have "ev = Claim tok (case ev of Claim _ now _ \<Rightarrow> now) e" "evs = []"
      using s by (auto elim!: work_step.cases)
    then show ?thesis by (metis append_Nil list.pred_inject(1))
  next
    assume "\<exists>xs now ys. evs = xs @ Claim tok now e # ys \<and> list_all (\<lambda>ev. \<not> is_claim ev) ys"
    then show ?thesis by (metis append_Cons)
  qed
qed

text \<open>Fencing: the worker whose token finishes the item is the one that claimed it last, so a worker
  whose lease was taken over cannot finish it.\<close>

lemma finisher_is_last_claimant:
  assumes "work_trace Waiting (xs @ [ev]) w" "ev = Succeed tok \<or> ev = Fail tok r"
  shows "\<exists>us now e vs. xs = us @ Claim tok now e # vs \<and> list_all (\<lambda>ev. \<not> is_claim ev) vs"
proof -
  obtain w1 where t: "work_trace Waiting xs w1" and s: "work_step w1 ev w"
    using assms(1) by (auto simp: work_trace_append)
  obtain e where "w1 = Leased tok e" using s assms(2) by (auto simp: work_step_simps)
  with lease_origin[of Waiting xs tok e] t show ?thesis by auto
qed

text \<open>Exclusion: while a lease has not expired no other claim succeeds.\<close>

lemma lease_exclusive: "work_step (Leased tok e) (Claim tok' now e') w \<Longrightarrow> e \<le> now"
  by (auto simp: work_step_simps)

section \<open>Items that keep the contract\<close>

text \<open>
  \<open>'f\<close> is what a component records about a failure, \<open>next_of\<close> the retry it schedules. The laws say when
  a method succeeds and that it then takes the step of the contract.
\<close>

locale leased_item =
  fixes work_of :: "'a \<Rightarrow> work" and item_ok :: "'a \<Rightarrow> bool"
    and claimable :: "'a \<Rightarrow> time \<Rightarrow> bool"
    and claim :: "'a \<Rightarrow> string \<Rightarrow> int \<Rightarrow> uuid \<Rightarrow> time \<Rightarrow> 'a result"
    and succeed :: "'a \<Rightarrow> uuid \<Rightarrow> json_object \<Rightarrow> time \<Rightarrow> 'a result"
    and fail :: "'a \<Rightarrow> uuid \<Rightarrow> 'f \<Rightarrow> time \<Rightarrow> 'a result"
    and failure_ok :: "'a \<Rightarrow> 'f \<Rightarrow> bool" and next_of :: "'f \<Rightarrow> time option"
  assumes claim_step: "item_ok p \<Longrightarrow> claimable p now \<Longrightarrow> claim p worker lease tok now = Inr p' \<Longrightarrow>
      item_ok p' \<and> 0 < lease \<and> work_step (work_of p) (Claim tok now (now + seconds lease)) (work_of p')"
    and claim_returns: "item_ok p \<Longrightarrow> claimable p now \<Longrightarrow> \<not> blank worker \<Longrightarrow> 0 < lease \<Longrightarrow>
      \<exists>p'. claim p worker lease tok now = Inr p'"
    and claimable_work: "item_ok p \<Longrightarrow> claimable p now \<longleftrightarrow>
      (\<exists>tok e w. work_step (work_of p) (Claim tok now e) w)"
    and succeed_step: "item_ok p \<Longrightarrow> succeed p tok res now = Inr p' \<Longrightarrow>
      item_ok p' \<and> work_step (work_of p) (Succeed tok) (work_of p')"
    and succeed_returns: "item_ok p \<Longrightarrow> work_of p = Leased tok e \<Longrightarrow> \<exists>p'. succeed p tok res now = Inr p'"
    and fail_step: "item_ok p \<Longrightarrow> fail p tok f now = Inr p' \<Longrightarrow>
      item_ok p' \<and> work_step (work_of p) (Fail tok (next_of f)) (work_of p')"
    and fail_returns: "item_ok p \<Longrightarrow> work_of p = Leased tok e \<Longrightarrow> failure_ok p f \<Longrightarrow> \<exists>p'. fail p tok f now = Inr p'"
begin

lemma succeed_iff:
  "item_ok p \<Longrightarrow> (\<exists>p'. succeed p tok res now = Inr p') \<longleftrightarrow> (\<exists>e. work_of p = Leased tok e)"
  using succeed_step succeed_returns by (fastforce simp: work_step_simps)

lemma fail_iff:
  "item_ok p \<Longrightarrow> failure_ok p f \<Longrightarrow> (\<exists>p'. fail p tok f now = Inr p') \<longleftrightarrow> (\<exists>e. work_of p = Leased tok e)"
  using fail_step fail_returns by (fastforce simp: work_step_simps)

lemma stale_token_rejected:
  assumes "item_ok p" "claimable p now" "claim p worker lease tok now = Inr p'" "tok' \<noteq> tok"
  shows "\<nexists>p''. succeed p' tok' res now' = Inr p''" "\<nexists>p''. fail p' tok' f now' = Inr p''"
proof -
  from claim_step[OF assms(1-3)] have "item_ok p'" "work_of p' = Leased tok (now + seconds lease)"
    by (auto simp: work_step_simps)
  then show "\<nexists>p''. succeed p' tok' res now' = Inr p''" "\<nexists>p''. fail p' tok' f now' = Inr p''"
    using assms(4) succeed_iff fail_step by (fastforce simp: work_step_simps)+
qed

lemma holder_finishes:
  assumes "item_ok p" "claimable p now" "claim p worker lease tok now = Inr p'"
  shows "\<exists>p''. succeed p' tok res now' = Inr p''" "failure_ok p' f \<Longrightarrow> \<exists>p''. fail p' tok f now' = Inr p''"
    and "now' < now + seconds lease \<Longrightarrow> \<not> claimable p' now'"
proof -
  from claim_step[OF assms] have p': "item_ok p'" "work_of p' = Leased tok (now + seconds lease)"
    by (auto simp: work_step_simps)
  then show "\<exists>p''. succeed p' tok res now' = Inr p''" by (rule succeed_returns)
  show "\<exists>p''. fail p' tok f now' = Inr p''" if "failure_ok p' f" using p' that by (rule fail_returns)
  show "\<not> claimable p' now'" if "now' < now + seconds lease"
    using p' that by (auto simp: claimable_work work_step_simps)
qed

end

end
