(* ===== verification/Workspace_Operations.thy ===== *)
theory Workspace_Operations
  imports Leased_Work
begin

text \<open>
  Commands for the workspace of an external execution (\<^verbatim>\<open>workspace_operations/models.py\<close>), with
  the proof that they are leased work in the sense of \<open>Leased_Work\<close>. They are not retried: a failure
  is final.
\<close>

section \<open>The model\<close>

datatype workspace_operation_kind = WInspect | WCleanup
datatype workspace_operation_status = WOPending | WOClaimed | WOSucceeded | WOFailed

fun operation_kind_value :: "workspace_operation_kind \<Rightarrow> string" where
  "operation_kind_value WInspect = ''inspect''" | "operation_kind_value WCleanup = ''cleanup''"

fun operation_status_value :: "workspace_operation_status \<Rightarrow> string" where
  "operation_status_value WOPending = ''pending''" | "operation_status_value WOClaimed = ''claimed''"
| "operation_status_value WOSucceeded = ''succeeded''" | "operation_status_value WOFailed = ''failed''"

record workspace_operation =
  wo_external_execution_id :: uuid
  wo_kind :: workspace_operation_kind
  wo_target_ref :: string
  wo_workspace_scope :: string
  wo_idempotency_key :: string
  wo_requested_by :: string
  wo_id :: uuid
  wo_status :: workspace_operation_status
  wo_worker_id :: "string option"
  wo_lease_token :: "uuid option"
  wo_lease_expires_at :: "time option"
  wo_result :: "json_object option"
  wo_failure_reason :: "string option"
  wo_created_at :: time
  wo_updated_at :: time
  wo_completed_at :: "time option"

definition workspace_operation_init :: "workspace_operation \<Rightarrow> workspace_operation result" where
  "workspace_operation_init p =
     (case first_blank [(''target_ref'', wo_target_ref p), (''workspace_scope'', wo_workspace_scope p),
        (''idempotency_key'', wo_idempotency_key p), (''requested_by'', wo_requested_by p)] of
        Some label \<Rightarrow> Inl (DomainValidationError (''workspace operation '' @ label @ '' must not be empty''))
      | None \<Rightarrow> Inr (p\<lparr>wo_target_ref := py_strip (wo_target_ref p), wo_workspace_scope := py_strip (wo_workspace_scope p),
          wo_idempotency_key := py_strip (wo_idempotency_key p), wo_requested_by := py_strip (wo_requested_by p)\<rparr>))"

definition wo_is_terminal :: "workspace_operation \<Rightarrow> bool" where
  "wo_is_terminal p \<longleftrightarrow> wo_status p \<in> {WOSucceeded, WOFailed}"

definition wo_claim :: "workspace_operation \<Rightarrow> string \<Rightarrow> int \<Rightarrow> uuid \<Rightarrow> time \<Rightarrow> workspace_operation result" where
  "wo_claim p worker_id lease_seconds tok changed_at =
     (if wo_is_terminal p then Inl (InvalidStateTransition ''terminal workspace operation cannot be claimed'')
      else if blank worker_id \<or> lease_seconds \<le> 0
      then Inl (DomainValidationError ''workspace operation claim requires worker and positive lease'')
      else Inr (p\<lparr>wo_status := WOClaimed, wo_worker_id := Some (py_strip worker_id), wo_lease_token := Some tok,
        wo_lease_expires_at := Some (changed_at + seconds lease_seconds), wo_updated_at := changed_at\<rparr>))"

definition wo_require_claim :: "workspace_operation \<Rightarrow> uuid \<Rightarrow> unit result" where
  "wo_require_claim p lease_token =
     (if wo_status p \<noteq> WOClaimed \<or> wo_lease_token p \<noteq> Some lease_token
      then Inl (InvalidStateTransition ''workspace operation lease is not owned by this worker'') else Inr ())"

definition wo_succeed :: "workspace_operation \<Rightarrow> uuid \<Rightarrow> json_object \<Rightarrow> time \<Rightarrow> workspace_operation result" where
  "wo_succeed p lease_token res changed_at =
     rbind (wo_require_claim p lease_token) (\<lambda>_.
       Inr (p\<lparr>wo_status := WOSucceeded, wo_result := Some res, wo_failure_reason := None, wo_lease_expires_at := None,
         wo_completed_at := Some changed_at, wo_updated_at := changed_at\<rparr>))"

definition wo_fail :: "workspace_operation \<Rightarrow> uuid \<Rightarrow> string \<Rightarrow> time \<Rightarrow> workspace_operation result" where
  "wo_fail p lease_token reason changed_at =
     rbind (wo_require_claim p lease_token) (\<lambda>_.
       if blank reason then Inl (DomainValidationError ''workspace operation failure reason must not be empty'')
       else Inr (p\<lparr>wo_status := WOFailed, wo_failure_reason := Some (py_strip reason), wo_lease_expires_at := None,
         wo_completed_at := Some changed_at, wo_updated_at := changed_at\<rparr>))"

section \<open>The contract\<close>

text \<open>The rows a claim may take, as the query of the repository selects them.\<close>

definition wo_claimable :: "workspace_operation \<Rightarrow> time \<Rightarrow> bool" where
  "wo_claimable p now \<longleftrightarrow> wo_status p = WOPending
     \<or> (wo_status p = WOClaimed \<and> (case wo_lease_expires_at p of None \<Rightarrow> False | Some e \<Rightarrow> e \<le> now))"

definition wo_ok :: "workspace_operation \<Rightarrow> bool" where
  "wo_ok p \<longleftrightarrow> (wo_status p = WOClaimed \<longrightarrow> wo_lease_token p \<noteq> None \<and> wo_lease_expires_at p \<noteq> None)
     \<and> (wo_completed_at p \<noteq> None \<longleftrightarrow> wo_is_terminal p)
     \<and> (wo_result p \<noteq> None \<longleftrightarrow> wo_status p = WOSucceeded)
     \<and> (case wo_failure_reason p of None \<Rightarrow> wo_status p \<noteq> WOFailed | Some r \<Rightarrow> wo_status p = WOFailed \<and> \<not> blank r)"

definition wo_work :: "workspace_operation \<Rightarrow> work" where
  "wo_work p = (case wo_status p of
      WOPending \<Rightarrow> Waiting
    | WOClaimed \<Rightarrow> (case (wo_lease_token p, wo_lease_expires_at p) of (Some t, Some e) \<Rightarrow> Leased t e | _ \<Rightarrow> Waiting)
    | WOSucceeded \<Rightarrow> Done
    | WOFailed \<Rightarrow> Failed None)"

lemma wo_succeed_Inr: "wo_succeed p tok res now = Inr q \<longleftrightarrow> wo_status p = WOClaimed \<and> wo_lease_token p = Some tok
   \<and> q = p\<lparr>wo_status := WOSucceeded, wo_result := Some res, wo_failure_reason := None, wo_lease_expires_at := None,
         wo_completed_at := Some now, wo_updated_at := now\<rparr>"
  by (auto simp: wo_succeed_def wo_require_claim_def)

lemma wo_fail_Inr: "wo_fail p tok reason now = Inr q \<longleftrightarrow> wo_status p = WOClaimed \<and> wo_lease_token p = Some tok
   \<and> \<not> blank reason \<and> q = p\<lparr>wo_status := WOFailed, wo_failure_reason := Some (py_strip reason), wo_lease_expires_at := None,
         wo_completed_at := Some now, wo_updated_at := now\<rparr>"
  by (auto simp: wo_fail_def wo_require_claim_def)

lemma wo_claim_Inr: "wo_claim p worker lease tok now = Inr q \<longleftrightarrow> \<not> wo_is_terminal p \<and> \<not> blank worker \<and> 0 < lease
   \<and> q = p\<lparr>wo_status := WOClaimed, wo_worker_id := Some (py_strip worker), wo_lease_token := Some tok,
        wo_lease_expires_at := Some (now + seconds lease), wo_updated_at := now\<rparr>"
  by (auto simp: wo_claim_def)

interpretation operation: leased_item wo_work wo_ok wo_claimable wo_claim wo_succeed wo_fail
  "\<lambda>p reason. \<not> blank reason" "\<lambda>reason. None"
proof unfold_locales
  fix p q worker and lease :: int and tok now
  assume "wo_ok p" "wo_claimable p now" "wo_claim p worker lease tok now = Inr q"
  then show "wo_ok q \<and> 0 < lease \<and> work_step (wo_work p) (Claim tok now (now + seconds lease)) (wo_work q)"
    by (cases "wo_status p") (auto simp: wo_claim_Inr wo_ok_def wo_work_def wo_claimable_def wo_is_terminal_def
        work_step_simps seconds_pos split: option.splits)
next
  fix p worker and lease :: int and tok now
  assume "wo_claimable p now" "\<not> blank worker" "0 < lease"
  then show "\<exists>q. wo_claim p worker lease tok now = Inr q"
    by (auto simp: wo_claim_Inr wo_claimable_def wo_is_terminal_def)
next
  fix p now
  assume "wo_ok p"
  then show "wo_claimable p now \<longleftrightarrow> (\<exists>tok e w. work_step (wo_work p) (Claim tok now e) w)"
    by (cases "wo_status p") (auto simp: wo_claimable_def wo_ok_def wo_work_def work_step_simps gt_ex
        split: option.splits)
next
  fix p q tok res now
  assume "wo_ok p" "wo_succeed p tok res now = Inr q"
  then show "wo_ok q \<and> work_step (wo_work p) (Succeed tok) (wo_work q)"
    by (auto simp: wo_succeed_Inr wo_ok_def wo_work_def wo_is_terminal_def work_step_simps)
next
  fix p tok e res now
  assume "wo_work p = Leased tok e"
  then show "\<exists>q. wo_succeed p tok res now = Inr q"
    by (auto simp: wo_succeed_Inr wo_work_def split: workspace_operation_status.splits option.splits)
next
  fix p q tok reason now
  assume "wo_ok p" "wo_fail p tok reason now = Inr q"
  then show "wo_ok q \<and> work_step (wo_work p) (Fail tok None) (wo_work q)"
    by (auto simp: wo_fail_Inr wo_ok_def wo_work_def wo_is_terminal_def work_step_simps)
next
  fix p tok e reason now
  assume "wo_work p = Leased tok e" "\<not> blank reason"
  then show "\<exists>q. wo_fail p tok reason now = Inr q"
    by (auto simp: wo_fail_Inr wo_work_def split: workspace_operation_status.splits option.splits)
qed

end
