(* ===== verification/Scm_Publications.thy ===== *)
theory Scm_Publications
  imports Leased_Work
begin

text \<open>
  Requests to publish a branch for review (\<^verbatim>\<open>scm/models.py\<close>) and their attempts, with the proof
  that a publication is leased work with bounded automatic retries. The claim of the domain object
  itself accepts a publication whose lease still runs; the query of the repository, \<open>sp_claimable\<close>,
  is what keeps the contract.
\<close>

section \<open>The model\<close>

definition scm_max_automatic_retry_limit :: int where
  "scm_max_automatic_retry_limit = 10"

datatype scm_publication_status = SPending | SClaimed | SSucceeded | SFailed
datatype scm_failure_code =
  SWorkspaceState | SProviderRejected | SProviderUnavailable | STimeout | SResultMismatch | SUnexpected
datatype scm_attempt_status = SAClaimed | SASucceeded | SAFailed
datatype attempt_trigger = TInitial | TManual | TAutomatic | TLeaseRecovery

fun scm_status_value :: "scm_publication_status \<Rightarrow> string" where
  "scm_status_value SPending = ''pending''" | "scm_status_value SClaimed = ''claimed''"
| "scm_status_value SSucceeded = ''succeeded''" | "scm_status_value SFailed = ''failed''"

fun scm_code_value :: "scm_failure_code \<Rightarrow> string" where
  "scm_code_value SWorkspaceState = ''workspace_state''"
| "scm_code_value SProviderRejected = ''provider_rejected''"
| "scm_code_value SProviderUnavailable = ''provider_unavailable''"
| "scm_code_value STimeout = ''timeout''"
| "scm_code_value SResultMismatch = ''result_mismatch''"
| "scm_code_value SUnexpected = ''unexpected''"

fun trigger_value :: "attempt_trigger \<Rightarrow> string" where
  "trigger_value TInitial = ''initial''" | "trigger_value TManual = ''manual''"
| "trigger_value TAutomatic = ''automatic''" | "trigger_value TLeaseRecovery = ''lease_recovery''"

record scm_publication =
  sp_external_execution_id :: uuid
  sp_provider_key :: string
  sp_repository :: string
  sp_source_branch :: string
  sp_target_branch :: string
  sp_title :: string
  sp_body :: string
  sp_workspace_scope :: string
  sp_idempotency_key :: string
  sp_requested_by :: string
  sp_id :: uuid
  sp_status :: scm_publication_status
  sp_worker_id :: "string option"
  sp_lease_token :: "uuid option"
  sp_lease_expires_at :: "time option"
  sp_result :: "json_object option"
  sp_failure_reason :: "string option"
  sp_failure_code :: "scm_failure_code option"
  sp_failure_retryable :: "bool option"
  sp_attempt_count :: int
  sp_automatic_retry_limit :: int
  sp_next_attempt_at :: "time option"
  sp_created_at :: time
  sp_updated_at :: time
  sp_completed_at :: "time option"

definition scm_publication_init :: "scm_publication \<Rightarrow> scm_publication result" where
  "scm_publication_init p =
     (case first_blank [(''provider_key'', sp_provider_key p), (''repository'', sp_repository p),
        (''source_branch'', sp_source_branch p), (''target_branch'', sp_target_branch p), (''title'', sp_title p),
        (''workspace_scope'', sp_workspace_scope p), (''idempotency_key'', sp_idempotency_key p),
        (''requested_by'', sp_requested_by p)] of
        Some label \<Rightarrow> Inl (DomainValidationError (''SCM publication '' @ label @ '' must not be empty''))
      | None \<Rightarrow>
        let q = p\<lparr>sp_provider_key := py_strip (sp_provider_key p), sp_repository := py_strip (sp_repository p),
          sp_source_branch := py_strip (sp_source_branch p), sp_target_branch := py_strip (sp_target_branch p),
          sp_title := py_strip (sp_title p), sp_body := py_strip (sp_body p),
          sp_workspace_scope := py_strip (sp_workspace_scope p),
          sp_idempotency_key := py_strip (sp_idempotency_key p), sp_requested_by := py_strip (sp_requested_by p)\<rparr> in
        if sp_source_branch q = sp_target_branch q
        then Inl (DomainValidationError ''SCM publication source_branch and target_branch must differ'')
        else if sp_attempt_count q < 0
        then Inl (DomainValidationError ''SCM publication attempt_count must not be negative'')
        else if \<not> (0 \<le> sp_automatic_retry_limit q \<and> sp_automatic_retry_limit q \<le> scm_max_automatic_retry_limit)
        then Inl (DomainValidationError ''SCM publication automatic_retry_limit must be between 0 and 10'')
        else Inr q)"

definition sp_is_terminal :: "scm_publication \<Rightarrow> bool" where
  "sp_is_terminal p \<longleftrightarrow> sp_status p \<in> {SSucceeded, SFailed}"

definition sp_claim_trigger :: "scm_publication \<Rightarrow> time \<Rightarrow> attempt_trigger" where
  "sp_claim_trigger p changed_at =
     (if sp_status p = SClaimed \<and> (case sp_lease_expires_at p of None \<Rightarrow> False | Some e \<Rightarrow> e \<le> changed_at)
      then TLeaseRecovery
      else if sp_status p = SFailed then TAutomatic
      else if 0 < sp_attempt_count p then TManual else TInitial)"

definition sp_scheduled_retry :: "scm_publication \<Rightarrow> time \<Rightarrow> bool" where
  "sp_scheduled_retry p changed_at \<longleftrightarrow> sp_status p = SFailed \<and> sp_failure_retryable p = Some True
     \<and> (case sp_next_attempt_at p of None \<Rightarrow> False | Some t \<Rightarrow> t \<le> changed_at)
     \<and> sp_attempt_count p \<le> sp_automatic_retry_limit p"

definition sp_claim ::
    "scm_publication \<Rightarrow> string \<Rightarrow> int \<Rightarrow> uuid \<Rightarrow> time \<Rightarrow> (scm_publication \<times> attempt_trigger) result" where
  "sp_claim p worker_id lease_seconds tok changed_at =
     (let trigger = sp_claim_trigger p changed_at; scheduled = sp_scheduled_retry p changed_at in
      if sp_is_terminal p \<and> \<not> scheduled
      then Inl (InvalidStateTransition ''terminal SCM publication cannot be claimed'')
      else if blank worker_id \<or> lease_seconds \<le> 0
      then Inl (DomainValidationError ''SCM publication claim requires worker and positive lease'')
      else
        let q = p\<lparr>sp_status := SClaimed, sp_attempt_count := sp_attempt_count p + 1,
                  sp_worker_id := Some (py_strip worker_id), sp_lease_token := Some tok,
                  sp_lease_expires_at := Some (changed_at + seconds lease_seconds)\<rparr>;
            q = (if scheduled then q\<lparr>sp_failure_reason := None, sp_failure_code := None,
                   sp_failure_retryable := None, sp_completed_at := None, sp_next_attempt_at := None\<rparr> else q)
        in Inr (q\<lparr>sp_updated_at := changed_at\<rparr>, trigger))"

definition sp_retry :: "scm_publication \<Rightarrow> time \<Rightarrow> scm_publication result" where
  "sp_retry p changed_at =
     (if sp_status p \<noteq> SFailed then Inl (InvalidStateTransition ''only failed SCM publication can be retried'')
      else Inr (p\<lparr>sp_status := SPending, sp_worker_id := None, sp_lease_token := None, sp_lease_expires_at := None,
        sp_result := None, sp_failure_reason := None, sp_failure_code := None, sp_failure_retryable := None,
        sp_automatic_retry_limit := 0, sp_next_attempt_at := None, sp_completed_at := None,
        sp_updated_at := changed_at\<rparr>))"

text \<open>The boolean result of \<^verbatim>\<open>cancel_automatic_retry\<close> beside the record.\<close>

definition sp_cancel_automatic_retry :: "scm_publication \<Rightarrow> time \<Rightarrow> (scm_publication \<times> bool) result" where
  "sp_cancel_automatic_retry p changed_at =
     (if sp_status p \<noteq> SFailed
      then Inl (InvalidStateTransition ''automatic retry can only be cancelled for failed SCM publication'')
      else if sp_next_attempt_at p = None then Inr (p, False)
      else Inr (p\<lparr>sp_automatic_retry_limit := 0, sp_next_attempt_at := None, sp_updated_at := changed_at\<rparr>, True))"

definition sp_require_claim :: "scm_publication \<Rightarrow> uuid \<Rightarrow> unit result" where
  "sp_require_claim p lease_token =
     (if sp_status p \<noteq> SClaimed \<or> sp_lease_token p \<noteq> Some lease_token
      then Inl (InvalidStateTransition ''SCM publication lease is not owned by this worker'') else Inr ())"

definition sp_succeed :: "scm_publication \<Rightarrow> uuid \<Rightarrow> json_object \<Rightarrow> time \<Rightarrow> scm_publication result" where
  "sp_succeed p lease_token res changed_at =
     rbind (sp_require_claim p lease_token) (\<lambda>_.
       Inr (p\<lparr>sp_status := SSucceeded, sp_result := Some res, sp_failure_reason := None, sp_failure_code := None,
         sp_failure_retryable := None, sp_next_attempt_at := None, sp_lease_expires_at := None,
         sp_completed_at := Some changed_at, sp_updated_at := changed_at\<rparr>))"

text \<open>What a caller reports about a failure.\<close>

record scm_failure =
  sf_reason :: string
  sf_code :: scm_failure_code
  sf_retryable :: bool
  sf_automatic_retry_limit :: int
  sf_next_attempt_at :: "time option"

definition sp_fail :: "scm_publication \<Rightarrow> uuid \<Rightarrow> scm_failure \<Rightarrow> time \<Rightarrow> scm_publication result" where
  "sp_fail p lease_token f changed_at =
     rbind (sp_require_claim p lease_token) (\<lambda>_.
       if blank (sf_reason f)
       then Inl (DomainValidationError ''SCM publication failure reason must not be empty'')
       else if \<not> (0 \<le> sf_automatic_retry_limit f \<and> sf_automatic_retry_limit f \<le> scm_max_automatic_retry_limit)
       then Inl (DomainValidationError ''automatic retry limit must be between 0 and 10'')
       else if sf_next_attempt_at f \<noteq> None \<and> (\<not> sf_retryable f \<or> sf_automatic_retry_limit f < sp_attempt_count p)
       then Inl (DomainValidationError ''scheduled SCM retry requires an available retry attempt'')
       else Inr (p\<lparr>sp_status := SFailed, sp_failure_reason := Some (py_strip (sf_reason f)),
         sp_failure_code := Some (sf_code f), sp_failure_retryable := Some (sf_retryable f),
         sp_automatic_retry_limit := sf_automatic_retry_limit f, sp_next_attempt_at := sf_next_attempt_at f,
         sp_lease_expires_at := None, sp_completed_at := Some changed_at, sp_updated_at := changed_at\<rparr>))"

section \<open>Attempts\<close>

record scm_publication_attempt =
  sa_publication_id :: uuid
  sa_attempt_number :: int
  sa_trigger :: attempt_trigger
  sa_worker_id :: string
  sa_lease_token :: uuid
  sa_id :: uuid
  sa_status :: scm_attempt_status
  sa_result :: "json_object option"
  sa_failure_reason :: "string option"
  sa_failure_code :: "scm_failure_code option"
  sa_failure_retryable :: "bool option"
  sa_started_at :: time
  sa_finished_at :: "time option"

definition scm_attempt_init :: "scm_publication_attempt \<Rightarrow> scm_publication_attempt result" where
  "scm_attempt_init a =
     (if blank (sa_worker_id a)
      then Inl (DomainValidationError ''SCM publication attempt worker_id must not be empty'')
      else if sa_attempt_number a < 1
      then Inl (DomainValidationError ''SCM publication attempt_number must be positive'')
      else Inr (a\<lparr>sa_worker_id := py_strip (sa_worker_id a)\<rparr>))"

definition sa_require_claim :: "scm_publication_attempt \<Rightarrow> uuid \<Rightarrow> unit result" where
  "sa_require_claim a lease_token =
     (if sa_status a \<noteq> SAClaimed \<or> sa_lease_token a \<noteq> lease_token
      then Inl (InvalidStateTransition ''SCM publication attempt lease is not owned'') else Inr ())"

definition sa_succeed :: "scm_publication_attempt \<Rightarrow> uuid \<Rightarrow> json_object \<Rightarrow> time \<Rightarrow> scm_publication_attempt result" where
  "sa_succeed a lease_token res at =
     rbind (sa_require_claim a lease_token) (\<lambda>_.
       Inr (a\<lparr>sa_status := SASucceeded, sa_result := Some res, sa_finished_at := Some at\<rparr>))"

definition sa_fail ::
    "scm_publication_attempt \<Rightarrow> uuid \<Rightarrow> string \<Rightarrow> scm_failure_code \<Rightarrow> bool \<Rightarrow> time \<Rightarrow> scm_publication_attempt result" where
  "sa_fail a lease_token reason code retryable at =
     rbind (sa_require_claim a lease_token) (\<lambda>_.
       if blank reason then Inl (DomainValidationError ''SCM publication attempt failure reason must not be empty'')
       else Inr (a\<lparr>sa_status := SAFailed, sa_failure_reason := Some (py_strip reason), sa_failure_code := Some code,
         sa_failure_retryable := Some retryable, sa_finished_at := Some at\<rparr>))"

section \<open>The contract\<close>

text \<open>The rows a claim may take, as the query of the repository selects them.\<close>

definition sp_claimable :: "scm_publication \<Rightarrow> time \<Rightarrow> bool" where
  "sp_claimable p now \<longleftrightarrow> sp_status p = SPending
     \<or> (sp_status p = SClaimed \<and> (case sp_lease_expires_at p of None \<Rightarrow> False | Some e \<Rightarrow> e \<le> now))
     \<or> (sp_status p = SFailed \<and> sp_failure_retryable p = Some True
        \<and> (case sp_next_attempt_at p of None \<Rightarrow> False | Some t \<Rightarrow> t \<le> now)
        \<and> sp_attempt_count p \<le> sp_automatic_retry_limit p)"

definition sp_no_failure :: "scm_publication \<Rightarrow> bool" where
  "sp_no_failure p \<longleftrightarrow> sp_failure_reason p = None \<and> sp_failure_code p = None \<and> sp_failure_retryable p = None
     \<and> sp_next_attempt_at p = None"

definition sp_ok :: "scm_publication \<Rightarrow> bool" where
  "sp_ok p \<longleftrightarrow> 0 \<le> sp_attempt_count p \<and> 0 \<le> sp_automatic_retry_limit p
     \<and> sp_automatic_retry_limit p \<le> scm_max_automatic_retry_limit
     \<and> (sp_completed_at p \<noteq> None \<longleftrightarrow> sp_is_terminal p) \<and> (sp_result p \<noteq> None \<longleftrightarrow> sp_status p = SSucceeded)
     \<and> (sp_status p \<noteq> SFailed \<longrightarrow> sp_no_failure p)
     \<and> (sp_status p = SClaimed \<longrightarrow> sp_lease_token p \<noteq> None \<and> sp_lease_expires_at p \<noteq> None
          \<and> sp_worker_id p \<noteq> None \<and> 0 < sp_attempt_count p)
     \<and> (sp_status p = SFailed \<longrightarrow> sp_failure_reason p \<noteq> None \<and> sp_failure_code p \<noteq> None
          \<and> (sp_next_attempt_at p \<noteq> None \<longrightarrow> sp_failure_retryable p = Some True
               \<and> sp_attempt_count p \<le> sp_automatic_retry_limit p))"

definition sp_work :: "scm_publication \<Rightarrow> work" where
  "sp_work p = (case sp_status p of
      SPending \<Rightarrow> Waiting
    | SClaimed \<Rightarrow> (case (sp_lease_token p, sp_lease_expires_at p) of (Some t, Some e) \<Rightarrow> Leased t e | _ \<Rightarrow> Waiting)
    | SSucceeded \<Rightarrow> Done
    | SFailed \<Rightarrow> Failed (sp_next_attempt_at p))"

definition sp_claim_item :: "scm_publication \<Rightarrow> string \<Rightarrow> int \<Rightarrow> uuid \<Rightarrow> time \<Rightarrow> scm_publication result" where
  "sp_claim_item p worker_id lease_seconds tok at =
     rbind (sp_claim p worker_id lease_seconds tok at) (\<lambda>(q, trigger). Inr q)"

definition sp_failure_ok :: "scm_publication \<Rightarrow> scm_failure \<Rightarrow> bool" where
  "sp_failure_ok p f \<longleftrightarrow> \<not> blank (sf_reason f) \<and> 0 \<le> sf_automatic_retry_limit f
     \<and> sf_automatic_retry_limit f \<le> scm_max_automatic_retry_limit
     \<and> (sf_next_attempt_at f \<noteq> None \<longrightarrow> sf_retryable f \<and> sp_attempt_count p \<le> sf_automatic_retry_limit f)"

text \<open>What a claim of an eligible publication leaves; the failure of a scheduled retry is cleared.\<close>

definition sp_claimed :: "scm_publication \<Rightarrow> string \<Rightarrow> int \<Rightarrow> uuid \<Rightarrow> time \<Rightarrow> scm_publication" where
  "sp_claimed p worker lease tok now = p\<lparr>sp_status := SClaimed, sp_attempt_count := sp_attempt_count p + 1,
     sp_worker_id := Some (py_strip worker), sp_lease_token := Some tok,
     sp_lease_expires_at := Some (now + seconds lease), sp_failure_reason := None, sp_failure_code := None,
     sp_failure_retryable := None, sp_completed_at := None, sp_next_attempt_at := None, sp_updated_at := now\<rparr>"

lemma sp_claim_eligible:
  assumes "sp_ok p" "sp_claimable p now"
  shows "sp_claim p worker lease tok now =
    (if blank worker \<or> lease \<le> 0
     then Inl (DomainValidationError ''SCM publication claim requires worker and positive lease'')
     else Inr (sp_claimed p worker lease tok now, sp_claim_trigger p now))"
proof -
  have "\<not> (sp_is_terminal p \<and> \<not> sp_scheduled_retry p now)"
    using assms(2) by (auto simp: sp_claimable_def sp_is_terminal_def sp_scheduled_retry_def)
  moreover have "p\<lparr>sp_status := SClaimed, sp_attempt_count := sp_attempt_count p + 1,
      sp_worker_id := Some (py_strip worker), sp_lease_token := Some tok,
      sp_lease_expires_at := Some (now + seconds lease), sp_updated_at := now\<rparr> = sp_claimed p worker lease tok now"
    if "\<not> sp_scheduled_retry p now"
  proof -
    have "sp_status p = SPending \<or> sp_status p = SClaimed"
      using that assms(2) by (auto simp: sp_claimable_def sp_scheduled_retry_def)
    then have "sp_no_failure p \<and> sp_completed_at p = None"
      using assms(1) by (auto simp: sp_ok_def sp_is_terminal_def)
    then show ?thesis by (intro scm_publication.equality) (simp_all add: sp_no_failure_def sp_claimed_def)
  qed
  moreover have "sp_claim p worker lease tok now = (if blank worker \<or> lease \<le> 0
     then Inl (DomainValidationError ''SCM publication claim requires worker and positive lease'')
     else Inr (sp_claimed p worker lease tok now, sp_claim_trigger p now))" if "sp_scheduled_retry p now"
    using that by (simp add: sp_claim_def Let_def sp_claimed_def)
  ultimately show ?thesis
    by (cases "sp_scheduled_retry p now") (simp_all only: sp_claim_def Let_def if_False if_True refl simp_thms)
qed

lemma sp_succeed_Inr: "sp_succeed p tok res now = Inr q \<longleftrightarrow> sp_status p = SClaimed \<and> sp_lease_token p = Some tok
   \<and> q = p\<lparr>sp_status := SSucceeded, sp_result := Some res, sp_failure_reason := None, sp_failure_code := None,
         sp_failure_retryable := None, sp_next_attempt_at := None, sp_lease_expires_at := None,
         sp_completed_at := Some now, sp_updated_at := now\<rparr>"
  by (auto simp: sp_succeed_def sp_require_claim_def)

lemma sp_fail_Inr: "sp_fail p tok f now = Inr q \<longleftrightarrow> sp_status p = SClaimed \<and> sp_lease_token p = Some tok
   \<and> sp_failure_ok p f \<and> q = p\<lparr>sp_status := SFailed, sp_failure_reason := Some (py_strip (sf_reason f)),
         sp_failure_code := Some (sf_code f), sp_failure_retryable := Some (sf_retryable f),
         sp_automatic_retry_limit := sf_automatic_retry_limit f, sp_next_attempt_at := sf_next_attempt_at f,
         sp_lease_expires_at := None, sp_completed_at := Some now, sp_updated_at := now\<rparr>"
  unfolding sp_fail_def sp_require_claim_def rbind_eq_Inr sp_failure_ok_def by (simp only: raise_if_Inr) auto

lemma sp_claimed_ok: "sp_ok p \<Longrightarrow> sp_claimable p now \<Longrightarrow> sp_ok (sp_claimed p worker lease tok now)"
  by (auto simp: sp_ok_def sp_claimed_def sp_no_failure_def sp_is_terminal_def sp_claimable_def)

lemma sp_work_claimed: "sp_work (sp_claimed p worker lease tok now) = Leased tok (now + seconds lease)"
  by (simp add: sp_work_def sp_claimed_def)

lemma sp_claimable_work:
  "sp_ok p \<Longrightarrow> sp_claimable p now \<longleftrightarrow> sp_work p = Waiting \<or> (\<exists>t e. sp_work p = Leased t e \<and> e \<le> now)
     \<or> (\<exists>r. sp_work p = Failed (Some r) \<and> r \<le> now)"
  by (cases "sp_status p") (auto simp: sp_claimable_def sp_ok_def sp_work_def split: option.splits)

lemma sp_Leased: "sp_work p = Leased tok e \<Longrightarrow> sp_status p = SClaimed \<and> sp_lease_token p = Some tok"
  by (auto simp: sp_work_def split: scm_publication_status.splits option.splits)

interpretation publication: leased_item sp_work sp_ok sp_claimable sp_claim_item sp_succeed sp_fail
  sp_failure_ok sf_next_attempt_at
proof unfold_locales
  fix p q worker and lease :: int and tok now
  assume p: "sp_ok p" "sp_claimable p now" and "sp_claim_item p worker lease tok now = Inr q"
  then have "0 < lease" "q = sp_claimed p worker lease tok now"
    by (auto simp: sp_claim_item_def sp_claim_eligible split: if_splits)
  then show "sp_ok q \<and> 0 < lease \<and> work_step (sp_work p) (Claim tok now (now + seconds lease)) (sp_work q)"
    using p sp_claimable_work[OF p(1), of now]
    by (auto simp: sp_claimed_ok sp_work_claimed work_step_simps seconds_pos)
next
  fix p worker and lease :: int and tok now
  assume "sp_ok p" "sp_claimable p now" "\<not> blank worker" "0 < lease"
  then show "\<exists>q. sp_claim_item p worker lease tok now = Inr q"
    by (simp add: sp_claim_item_def sp_claim_eligible)
next
  fix p now
  assume "sp_ok p"
  then show "sp_claimable p now \<longleftrightarrow> (\<exists>tok e w. work_step (sp_work p) (Claim tok now e) w)"
    by (auto simp: sp_claimable_work work_step_simps gt_ex)
next
  fix p q tok res now
  assume "sp_ok p" "sp_succeed p tok res now = Inr q"
  then show "sp_ok q \<and> work_step (sp_work p) (Succeed tok) (sp_work q)"
    by (auto simp: sp_succeed_Inr sp_ok_def sp_work_def sp_is_terminal_def sp_no_failure_def work_step_simps)
next
  fix p tok e res now
  assume "sp_work p = Leased tok e"
  then show "\<exists>q. sp_succeed p tok res now = Inr q" by (simp add: sp_succeed_Inr sp_Leased)
next
  fix p q tok f now
  assume "sp_ok p" "sp_fail p tok f now = Inr q"
  then show "sp_ok q \<and> work_step (sp_work p) (Fail tok (sf_next_attempt_at f)) (sp_work q)"
    by (auto simp: sp_fail_Inr sp_failure_ok_def sp_ok_def sp_work_def sp_is_terminal_def work_step_simps)
next
  fix p tok e f now
  assume "sp_work p = Leased tok e" "sp_failure_ok p f"
  then show "\<exists>q. sp_fail p tok f now = Inr q" by (simp add: sp_fail_Inr sp_Leased)
qed

lemma sp_retry_step: "sp_ok p \<Longrightarrow> sp_retry p now = Inr q \<Longrightarrow> sp_ok q \<and> work_step (sp_work p) Retry (sp_work q)"
  by (auto simp: sp_retry_def sp_ok_def sp_no_failure_def sp_is_terminal_def sp_work_def work_step_simps
      scm_max_automatic_retry_limit_def split: if_splits)

lemma sp_cancel_step:
  "sp_ok p \<Longrightarrow> sp_cancel_automatic_retry p now = Inr (q, b) \<Longrightarrow>
     sp_ok q \<and> (if b then work_step (sp_work p) Cancel (sp_work q) else q = p)"
  by (auto simp: sp_cancel_automatic_retry_def sp_ok_def sp_is_terminal_def sp_work_def work_step_simps
      scm_max_automatic_retry_limit_def split: if_splits)

text \<open>Automatic retries are bounded: an attempt that a schedule triggered is one of the first eleven.\<close>

lemma sp_automatic_bound:
  assumes "sp_ok p" "sp_claimable p now" "sp_claim_trigger p now = TAutomatic"
  shows "sp_attempt_count (sp_claimed p worker lease tok now) \<le> scm_max_automatic_retry_limit + 1"
  using assms by (auto simp: sp_claim_trigger_def sp_claimable_def sp_ok_def sp_claimed_def split: if_splits)

end
