(* ===== verification/Notifications.thy ===== *)
theory Notifications
  imports Scm_Publications
begin

text \<open>
  Subscriptions of a project to worker alerts and the deliveries they cause
  (\<^verbatim>\<open>notifications/models.py\<close>). A delivery is leased work with bounded automatic retries; unlike a
  publication it checks the expiry of the lease itself. \<open>attempt_trigger\<close> is shared with the
  publications, whose enum has the same members and values.
\<close>

section \<open>Subscriptions\<close>

datatype notification_event_type = ReadinessAlerted | ReadinessCritical | ReadinessResolved

fun notification_event_value :: "notification_event_type \<Rightarrow> string" where
  "notification_event_value ReadinessAlerted = ''worker.readiness_alerted''"
| "notification_event_value ReadinessCritical = ''worker.readiness_critical''"
| "notification_event_value ReadinessResolved = ''worker.readiness_resolved''"


text \<open>\<^verbatim>\<open>^[a-z][a-z0-9._-]{0,63}$\<close>.\<close>

definition provider_key_pattern :: "string \<Rightarrow> bool" where
  "provider_key_pattern s \<longleftrightarrow> match_key is_az (\<lambda>c. is_az c \<or> is_digit c \<or> c \<in> set ''._-'') s \<and> length s \<le> 64"

text \<open>\<^verbatim>\<open>str.lower\<close> on the code points below 256.\<close>

definition lower_char :: "char \<Rightarrow> char" where
  "lower_char c = (let k = of_char c :: nat in
     if (65 \<le> k \<and> k \<le> 90) \<or> (192 \<le> k \<and> k \<le> 222 \<and> k \<noteq> 215) then char_of (k + 32) else c)"

definition py_lower :: "string \<Rightarrow> string" where
  "py_lower = map lower_char"

definition event_types_sorted :: "notification_event_type list \<Rightarrow> notification_event_type list" where
  "event_types_sorted ts = sort_key notification_event_value (remdups ts)"

record notification_subscription =
  nb_project_id :: uuid
  nb_provider_key :: string
  nb_destination_ref :: string
  nb_event_types :: "notification_event_type list"
  nb_created_by :: string
  nb_enabled :: bool
  nb_id :: uuid
  nb_created_at :: time
  nb_updated_at :: time

definition or_anonymous :: "string \<Rightarrow> string" where
  "or_anonymous s = (if blank s then ''anonymous'' else py_strip s)"

definition notification_subscription_init :: "notification_subscription \<Rightarrow> notification_subscription result" where
  "notification_subscription_init b =
     (let b = b\<lparr>nb_provider_key := py_lower (py_strip (nb_provider_key b)),
        nb_destination_ref := py_strip (nb_destination_ref b), nb_created_by := or_anonymous (nb_created_by b),
        nb_event_types := event_types_sorted (nb_event_types b)\<rparr> in
      if \<not> provider_key_pattern (nb_provider_key b)
      then Inl (DomainValidationError ''notification provider key is invalid'')
      else if nb_destination_ref b = [] \<or> 255 < length (nb_destination_ref b)
      then Inl (DomainValidationError ''notification destination reference must contain 1-255 characters'')
      else if nb_event_types b = []
      then Inl (DomainValidationError ''notification subscription requires event types'')
      else if 255 < length (nb_created_by b)
      then Inl (DomainValidationError ''notification creator must contain at most 255 characters'')
      else Inr b)"

definition nb_configure ::
    "notification_subscription \<Rightarrow> notification_event_type list \<Rightarrow> bool \<Rightarrow> time option \<Rightarrow> time
       \<Rightarrow> notification_subscription result" where
  "nb_configure b event_types enabled at now =
     (let normalized = event_types_sorted event_types in
      if normalized = [] then Inl (DomainValidationError ''notification subscription requires event types'')
      else Inr (b\<lparr>nb_event_types := normalized, nb_enabled := enabled, nb_updated_at := at_or_now at now\<rparr>))"

definition nb_accepts :: "notification_subscription \<Rightarrow> notification_event_type \<Rightarrow> bool" where
  "nb_accepts b event_type \<longleftrightarrow> nb_enabled b \<and> event_type \<in> set (nb_event_types b)"

section \<open>Deliveries\<close>

definition notification_max_automatic_retry_limit :: int where
  "notification_max_automatic_retry_limit = 10"

datatype notification_delivery_status = NLPending | NLClaimed | NLSucceeded | NLFailed
datatype notification_failure_code = NProviderRejected | NProviderUnavailable | NTimeout | NLeaseExpired | NUnexpected
datatype notification_attempt_status = NAClaimed | NASucceeded | NAFailed

fun delivery_status_value :: "notification_delivery_status \<Rightarrow> string" where
  "delivery_status_value NLPending = ''pending''" | "delivery_status_value NLClaimed = ''claimed''"
| "delivery_status_value NLSucceeded = ''succeeded''" | "delivery_status_value NLFailed = ''failed''"

fun notification_code_value :: "notification_failure_code \<Rightarrow> string" where
  "notification_code_value NProviderRejected = ''provider_rejected''"
| "notification_code_value NProviderUnavailable = ''provider_unavailable''"
| "notification_code_value NTimeout = ''timeout''"
| "notification_code_value NLeaseExpired = ''lease_expired''"
| "notification_code_value NUnexpected = ''unexpected''"

record notification_delivery =
  nl_subscription_id :: uuid
  nl_project_id :: uuid
  nl_event_id :: uuid
  nl_alert_id :: uuid
  nl_event_type :: notification_event_type
  nl_provider_key :: string
  nl_destination_ref :: string
  nl_payload :: json_object
  nl_idempotency_key :: string
  nl_status :: notification_delivery_status
  nl_worker_id :: "string option"
  nl_lease_token :: "uuid option"
  nl_lease_expires_at :: "time option"
  nl_result :: "json_object option"
  nl_failure_reason :: "string option"
  nl_failure_code :: "notification_failure_code option"
  nl_failure_retryable :: "bool option"
  nl_attempt_count :: int
  nl_automatic_retry_limit :: int
  nl_next_attempt_at :: "time option"
  nl_id :: uuid
  nl_created_at :: time
  nl_updated_at :: time
  nl_completed_at :: "time option"

definition notification_delivery_init :: "notification_delivery \<Rightarrow> notification_delivery result" where
  "notification_delivery_init p =
     (if \<not> provider_key_pattern (nl_provider_key p)
      then Inl (DomainValidationError ''notification provider key is invalid'')
      else if nl_destination_ref p = [] \<or> 255 < length (nl_destination_ref p)
      then Inl (DomainValidationError ''notification delivery destination reference is invalid'')
      else if nl_idempotency_key p = [] \<or> 255 < length (nl_idempotency_key p)
      then Inl (DomainValidationError ''notification delivery idempotency key is invalid'')
      else if nl_attempt_count p < 0
      then Inl (DomainValidationError ''notification delivery attempt_count must not be negative'')
      else if \<not> (0 \<le> nl_automatic_retry_limit p
        \<and> nl_automatic_retry_limit p \<le> notification_max_automatic_retry_limit)
      then Inl (DomainValidationError ''notification automatic_retry_limit must be between 0 and 10'')
      else Inr p)"

definition nl_expired :: "notification_delivery \<Rightarrow> time \<Rightarrow> bool" where
  "nl_expired p changed_at \<longleftrightarrow> nl_status p = NLClaimed
     \<and> (case nl_lease_expires_at p of None \<Rightarrow> False | Some e \<Rightarrow> e \<le> changed_at)"

definition nl_scheduled_retry :: "notification_delivery \<Rightarrow> time \<Rightarrow> bool" where
  "nl_scheduled_retry p changed_at \<longleftrightarrow> nl_status p = NLFailed \<and> nl_failure_retryable p = Some True
     \<and> (case nl_next_attempt_at p of None \<Rightarrow> False | Some t \<Rightarrow> t \<le> changed_at)
     \<and> nl_attempt_count p \<le> nl_automatic_retry_limit p"

definition nl_claim_trigger :: "notification_delivery \<Rightarrow> time \<Rightarrow> attempt_trigger" where
  "nl_claim_trigger p changed_at =
     (if nl_expired p changed_at then TLeaseRecovery
      else if nl_status p = NLFailed then TAutomatic
      else if 0 < nl_attempt_count p then TManual else TInitial)"

definition nl_claim ::
    "notification_delivery \<Rightarrow> string \<Rightarrow> int \<Rightarrow> uuid \<Rightarrow> time \<Rightarrow> (notification_delivery \<times> attempt_trigger) result" where
  "nl_claim p worker_id lease_seconds tok changed_at =
     (let trigger = nl_claim_trigger p changed_at; expired = nl_expired p changed_at;
          scheduled = nl_scheduled_retry p changed_at in
      if nl_status p \<noteq> NLPending \<and> \<not> expired \<and> \<not> scheduled
      then Inl (InvalidStateTransition ''notification delivery cannot be claimed'')
      else if blank worker_id \<or> lease_seconds \<le> 0
      then Inl (DomainValidationError ''notification delivery claim requires worker and lease'')
      else
        let q = p\<lparr>nl_status := NLClaimed, nl_worker_id := Some (py_strip worker_id), nl_lease_token := Some tok,
                  nl_lease_expires_at := Some (changed_at + seconds lease_seconds),
                  nl_attempt_count := nl_attempt_count p + 1\<rparr>;
            q = (if scheduled then q\<lparr>nl_failure_reason := None, nl_failure_code := None,
                   nl_failure_retryable := None, nl_next_attempt_at := None, nl_completed_at := None\<rparr> else q)
        in Inr (q\<lparr>nl_updated_at := changed_at\<rparr>, trigger))"

definition nl_retry :: "notification_delivery \<Rightarrow> time \<Rightarrow> notification_delivery result" where
  "nl_retry p changed_at =
     (if nl_status p \<noteq> NLFailed then Inl (InvalidStateTransition ''only failed notification delivery can be retried'')
      else Inr (p\<lparr>nl_status := NLPending, nl_worker_id := None, nl_lease_token := None, nl_lease_expires_at := None,
        nl_result := None, nl_failure_reason := None, nl_failure_code := None, nl_failure_retryable := None,
        nl_automatic_retry_limit := 0, nl_next_attempt_at := None, nl_completed_at := None,
        nl_updated_at := changed_at\<rparr>))"

definition nl_cancel_automatic_retry :: "notification_delivery \<Rightarrow> time \<Rightarrow> (notification_delivery \<times> bool) result" where
  "nl_cancel_automatic_retry p changed_at =
     (if nl_status p \<noteq> NLFailed
      then Inl (InvalidStateTransition ''automatic retry can only be cancelled for failed notification delivery'')
      else if nl_next_attempt_at p = None then Inr (p, False)
      else Inr (p\<lparr>nl_automatic_retry_limit := 0, nl_next_attempt_at := None, nl_updated_at := changed_at\<rparr>, True))"

definition nl_require_claim :: "notification_delivery \<Rightarrow> uuid \<Rightarrow> unit result" where
  "nl_require_claim p lease_token =
     (if nl_status p \<noteq> NLClaimed \<or> nl_lease_token p \<noteq> Some lease_token
      then Inl (InvalidStateTransition ''notification delivery lease is not owned'') else Inr ())"

definition nl_succeed :: "notification_delivery \<Rightarrow> uuid \<Rightarrow> json_object \<Rightarrow> time \<Rightarrow> notification_delivery result" where
  "nl_succeed p lease_token res changed_at =
     rbind (nl_require_claim p lease_token) (\<lambda>_.
       Inr (p\<lparr>nl_status := NLSucceeded, nl_result := Some res, nl_failure_reason := None, nl_failure_code := None,
         nl_lease_expires_at := None, nl_updated_at := changed_at, nl_completed_at := Some changed_at\<rparr>))"

record notification_failure =
  nf_reason :: string
  nf_code :: notification_failure_code
  nf_retryable :: bool
  nf_automatic_retry_limit :: int
  nf_next_attempt_at :: "time option"

definition nl_fail :: "notification_delivery \<Rightarrow> uuid \<Rightarrow> notification_failure \<Rightarrow> time \<Rightarrow> notification_delivery result" where
  "nl_fail p lease_token f changed_at =
     rbind (nl_require_claim p lease_token) (\<lambda>_.
       if blank (nf_reason f)
       then Inl (DomainValidationError ''notification delivery failure reason must not be empty'')
       else if \<not> (0 \<le> nf_automatic_retry_limit f
         \<and> nf_automatic_retry_limit f \<le> notification_max_automatic_retry_limit)
       then Inl (DomainValidationError ''automatic retry limit must be between 0 and 10'')
       else if nf_next_attempt_at f \<noteq> None \<and> (\<not> nf_retryable f \<or> nf_automatic_retry_limit f < nl_attempt_count p)
       then Inl (DomainValidationError ''scheduled notification retry requires an available retry attempt'')
       else Inr (p\<lparr>nl_status := NLFailed, nl_result := None, nl_failure_reason := Some (py_strip (nf_reason f)),
         nl_failure_code := Some (nf_code f), nl_failure_retryable := Some (nf_retryable f),
         nl_automatic_retry_limit := nf_automatic_retry_limit f, nl_next_attempt_at := nf_next_attempt_at f,
         nl_lease_expires_at := None, nl_updated_at := changed_at, nl_completed_at := Some changed_at\<rparr>))"

section \<open>Attempts\<close>

record notification_attempt =
  na_delivery_id :: uuid
  na_attempt_number :: int
  na_trigger :: attempt_trigger
  na_worker_id :: string
  na_lease_token :: uuid
  na_id :: uuid
  na_status :: notification_attempt_status
  na_result :: "json_object option"
  na_failure_reason :: "string option"
  na_failure_code :: "notification_failure_code option"
  na_failure_retryable :: "bool option"
  na_started_at :: time
  na_finished_at :: "time option"

definition notification_attempt_init :: "notification_attempt \<Rightarrow> notification_attempt result" where
  "notification_attempt_init a =
     (if na_attempt_number a \<le> 0 \<or> blank (na_worker_id a)
      then Inl (DomainValidationError ''notification attempt requires number and worker'')
      else Inr (a\<lparr>na_worker_id := py_strip (na_worker_id a)\<rparr>))"

definition na_require_claim :: "notification_attempt \<Rightarrow> uuid \<Rightarrow> unit result" where
  "na_require_claim a lease_token =
     (if na_status a \<noteq> NAClaimed \<or> na_lease_token a \<noteq> lease_token
      then Inl (InvalidStateTransition ''notification attempt lease is not owned'') else Inr ())"

definition na_succeed :: "notification_attempt \<Rightarrow> uuid \<Rightarrow> json_object \<Rightarrow> time \<Rightarrow> notification_attempt result" where
  "na_succeed a lease_token res at =
     rbind (na_require_claim a lease_token) (\<lambda>_.
       Inr (a\<lparr>na_status := NASucceeded, na_result := Some res, na_finished_at := Some at\<rparr>))"

definition na_fail ::
    "notification_attempt \<Rightarrow> uuid \<Rightarrow> string \<Rightarrow> notification_failure_code \<Rightarrow> bool \<Rightarrow> time \<Rightarrow> notification_attempt result" where
  "na_fail a lease_token reason code retryable at =
     rbind (na_require_claim a lease_token) (\<lambda>_.
       if blank reason then Inl (DomainValidationError ''notification attempt failure reason must not be empty'')
       else Inr (a\<lparr>na_status := NAFailed, na_failure_reason := Some (py_strip reason), na_failure_code := Some code,
         na_failure_retryable := Some retryable, na_finished_at := Some at\<rparr>))"

section \<open>The contract\<close>

definition nl_claimable :: "notification_delivery \<Rightarrow> time \<Rightarrow> bool" where
  "nl_claimable p now \<longleftrightarrow> nl_status p = NLPending
     \<or> (nl_status p = NLClaimed \<and> (case nl_lease_expires_at p of None \<Rightarrow> False | Some e \<Rightarrow> e \<le> now))
     \<or> (nl_status p = NLFailed \<and> nl_failure_retryable p = Some True
        \<and> (case nl_next_attempt_at p of None \<Rightarrow> False | Some t \<Rightarrow> t \<le> now)
        \<and> nl_attempt_count p \<le> nl_automatic_retry_limit p)"

definition nl_no_failure :: "notification_delivery \<Rightarrow> bool" where
  "nl_no_failure p \<longleftrightarrow> nl_failure_reason p = None \<and> nl_failure_code p = None \<and> nl_failure_retryable p = None
     \<and> nl_next_attempt_at p = None"

definition nl_ok :: "notification_delivery \<Rightarrow> bool" where
  "nl_ok p \<longleftrightarrow> 0 \<le> nl_attempt_count p \<and> 0 \<le> nl_automatic_retry_limit p
     \<and> nl_automatic_retry_limit p \<le> notification_max_automatic_retry_limit
     \<and> (nl_completed_at p \<noteq> None \<longleftrightarrow> nl_status p = NLSucceeded \<or> nl_status p = NLFailed)
     \<and> (nl_result p \<noteq> None \<longleftrightarrow> nl_status p = NLSucceeded)
     \<and> (nl_status p \<noteq> NLFailed \<longrightarrow> nl_no_failure p)
     \<and> (nl_status p = NLClaimed \<longrightarrow> nl_lease_token p \<noteq> None \<and> nl_lease_expires_at p \<noteq> None
          \<and> nl_worker_id p \<noteq> None \<and> 0 < nl_attempt_count p)
     \<and> (nl_status p = NLFailed \<longrightarrow> nl_failure_reason p \<noteq> None \<and> nl_failure_code p \<noteq> None
          \<and> (nl_next_attempt_at p \<noteq> None \<longrightarrow> nl_failure_retryable p = Some True
               \<and> nl_attempt_count p \<le> nl_automatic_retry_limit p))"

definition nl_work :: "notification_delivery \<Rightarrow> work" where
  "nl_work p = (case nl_status p of
      NLPending \<Rightarrow> Waiting
    | NLClaimed \<Rightarrow> (case (nl_lease_token p, nl_lease_expires_at p) of (Some t, Some e) \<Rightarrow> Leased t e | _ \<Rightarrow> Waiting)
    | NLSucceeded \<Rightarrow> Done
    | NLFailed \<Rightarrow> Failed (nl_next_attempt_at p))"

definition nl_claim_item :: "notification_delivery \<Rightarrow> string \<Rightarrow> int \<Rightarrow> uuid \<Rightarrow> time \<Rightarrow> notification_delivery result" where
  "nl_claim_item p worker_id lease_seconds tok at =
     rbind (nl_claim p worker_id lease_seconds tok at) (\<lambda>(q, trigger). Inr q)"

definition nl_failure_ok :: "notification_delivery \<Rightarrow> notification_failure \<Rightarrow> bool" where
  "nl_failure_ok p f \<longleftrightarrow> \<not> blank (nf_reason f) \<and> 0 \<le> nf_automatic_retry_limit f
     \<and> nf_automatic_retry_limit f \<le> notification_max_automatic_retry_limit
     \<and> (nf_next_attempt_at f \<noteq> None \<longrightarrow> nf_retryable f \<and> nl_attempt_count p \<le> nf_automatic_retry_limit f)"

definition nl_claimed :: "notification_delivery \<Rightarrow> string \<Rightarrow> int \<Rightarrow> uuid \<Rightarrow> time \<Rightarrow> notification_delivery" where
  "nl_claimed p worker lease tok now = p\<lparr>nl_status := NLClaimed, nl_worker_id := Some (py_strip worker),
     nl_lease_token := Some tok, nl_lease_expires_at := Some (now + seconds lease),
     nl_attempt_count := nl_attempt_count p + 1, nl_failure_reason := None, nl_failure_code := None,
     nl_failure_retryable := None, nl_next_attempt_at := None, nl_completed_at := None, nl_updated_at := now\<rparr>"

lemma nl_claimable_iff:
  "nl_claimable p now \<longleftrightarrow> nl_status p = NLPending \<or> nl_expired p now \<or> nl_scheduled_retry p now"
  by (auto simp: nl_claimable_def nl_expired_def nl_scheduled_retry_def)

text \<open>A claim succeeds exactly when the query would have selected the row.\<close>

lemma nl_claim_eq:
  assumes "nl_ok p"
  shows "nl_claim p worker lease tok now =
    (if \<not> nl_claimable p now then Inl (InvalidStateTransition ''notification delivery cannot be claimed'')
     else if blank worker \<or> lease \<le> 0
     then Inl (DomainValidationError ''notification delivery claim requires worker and lease'')
     else Inr (nl_claimed p worker lease tok now, nl_claim_trigger p now))"
proof -
  consider "\<not> nl_claimable p now" | "nl_scheduled_retry p now" | "nl_claimable p now" "\<not> nl_scheduled_retry p now"
    by blast
  then show ?thesis
  proof cases
    case 1
    then show ?thesis by (simp add: nl_claim_def nl_claimable_iff)
  next
    case 2
    then show ?thesis by (simp add: nl_claim_def nl_claimable_iff Let_def nl_claimed_def)
  next
    case 3
    have st: "nl_status p = NLPending \<or> nl_expired p now" using 3 by (auto simp: nl_claimable_iff)
    then have "nl_status p = NLPending \<or> nl_status p = NLClaimed" by (auto simp: nl_expired_def)
    then have "nl_no_failure p \<and> nl_completed_at p = None" using assms by (auto simp: nl_ok_def)
    then have "p\<lparr>nl_status := NLClaimed, nl_worker_id := Some (py_strip worker), nl_lease_token := Some tok,
        nl_lease_expires_at := Some (now + seconds lease), nl_attempt_count := nl_attempt_count p + 1,
        nl_updated_at := now\<rparr> = nl_claimed p worker lease tok now"
      by (intro notification_delivery.equality) (simp_all add: nl_no_failure_def nl_claimed_def)
    moreover have "\<not> (nl_status p \<noteq> NLPending \<and> \<not> nl_expired p now \<and> \<not> nl_scheduled_retry p now)" using st by blast
    ultimately show ?thesis
      using 3 by (simp only: nl_claim_def Let_def if_False if_True not_not not_True_eq_False)
  qed
qed

lemma nl_succeed_Inr: "nl_succeed p tok res now = Inr q \<longleftrightarrow> nl_status p = NLClaimed \<and> nl_lease_token p = Some tok
   \<and> q = p\<lparr>nl_status := NLSucceeded, nl_result := Some res, nl_failure_reason := None, nl_failure_code := None,
         nl_lease_expires_at := None, nl_updated_at := now, nl_completed_at := Some now\<rparr>"
  by (auto simp: nl_succeed_def nl_require_claim_def)

lemma nl_fail_Inr: "nl_fail p tok f now = Inr q \<longleftrightarrow> nl_status p = NLClaimed \<and> nl_lease_token p = Some tok
   \<and> nl_failure_ok p f \<and> q = p\<lparr>nl_status := NLFailed, nl_result := None,
         nl_failure_reason := Some (py_strip (nf_reason f)),
         nl_failure_code := Some (nf_code f), nl_failure_retryable := Some (nf_retryable f),
         nl_automatic_retry_limit := nf_automatic_retry_limit f, nl_next_attempt_at := nf_next_attempt_at f,
         nl_lease_expires_at := None, nl_updated_at := now, nl_completed_at := Some now\<rparr>"
  unfolding nl_fail_def nl_require_claim_def rbind_eq_Inr nl_failure_ok_def by (simp only: raise_if_Inr) auto

lemma nl_claimed_ok: "nl_ok p \<Longrightarrow> nl_claimable p now \<Longrightarrow> nl_ok (nl_claimed p worker lease tok now)"
  by (auto simp: nl_ok_def nl_claimed_def nl_no_failure_def nl_claimable_def)

lemma nl_work_claimed: "nl_work (nl_claimed p worker lease tok now) = Leased tok (now + seconds lease)"
  by (simp add: nl_work_def nl_claimed_def)

lemma nl_claimable_work:
  "nl_ok p \<Longrightarrow> nl_claimable p now \<longleftrightarrow> nl_work p = Waiting \<or> (\<exists>t e. nl_work p = Leased t e \<and> e \<le> now)
     \<or> (\<exists>r. nl_work p = Failed (Some r) \<and> r \<le> now)"
  by (cases "nl_status p") (auto simp: nl_claimable_def nl_ok_def nl_work_def split: option.splits)

lemma nl_Leased: "nl_work p = Leased tok e \<Longrightarrow> nl_status p = NLClaimed \<and> nl_lease_token p = Some tok"
  by (auto simp: nl_work_def split: notification_delivery_status.splits option.splits)

interpretation delivery: leased_item nl_work nl_ok nl_claimable nl_claim_item nl_succeed nl_fail
  nl_failure_ok nf_next_attempt_at
proof unfold_locales
  fix p q worker and lease :: int and tok now
  assume p: "nl_ok p" "nl_claimable p now" and "nl_claim_item p worker lease tok now = Inr q"
  then have "0 < lease" "q = nl_claimed p worker lease tok now"
    by (auto simp: nl_claim_item_def nl_claim_eq split: if_splits)
  then show "nl_ok q \<and> 0 < lease \<and> work_step (nl_work p) (Claim tok now (now + seconds lease)) (nl_work q)"
    using p nl_claimable_work[OF p(1), of now]
    by (auto simp: nl_claimed_ok nl_work_claimed work_step_simps seconds_pos)
next
  fix p worker and lease :: int and tok now
  assume "nl_ok p" "nl_claimable p now" "\<not> blank worker" "0 < lease"
  then show "\<exists>q. nl_claim_item p worker lease tok now = Inr q"
    by (simp add: nl_claim_item_def nl_claim_eq)
next
  fix p now
  assume "nl_ok p"
  then show "nl_claimable p now \<longleftrightarrow> (\<exists>tok e w. work_step (nl_work p) (Claim tok now e) w)"
    by (auto simp: nl_claimable_work work_step_simps gt_ex)
next
  fix p q tok res now
  assume "nl_ok p" "nl_succeed p tok res now = Inr q"
  then show "nl_ok q \<and> work_step (nl_work p) (Succeed tok) (nl_work q)"
    by (auto simp: nl_succeed_Inr nl_ok_def nl_work_def nl_no_failure_def work_step_simps)
next
  fix p tok e res now
  assume "nl_work p = Leased tok e"
  then show "\<exists>q. nl_succeed p tok res now = Inr q" by (simp add: nl_succeed_Inr nl_Leased)
next
  fix p q tok f now
  assume "nl_ok p" "nl_fail p tok f now = Inr q"
  then show "nl_ok q \<and> work_step (nl_work p) (Fail tok (nf_next_attempt_at f)) (nl_work q)"
    by (auto simp: nl_fail_Inr nl_failure_ok_def nl_ok_def nl_work_def work_step_simps)
next
  fix p tok e f now
  assume "nl_work p = Leased tok e" "nl_failure_ok p f"
  then show "\<exists>q. nl_fail p tok f now = Inr q" by (simp add: nl_fail_Inr nl_Leased)
qed

lemma nl_retry_step: "nl_ok p \<Longrightarrow> nl_retry p now = Inr q \<Longrightarrow> nl_ok q \<and> work_step (nl_work p) Retry (nl_work q)"
  by (auto simp: nl_retry_def nl_ok_def nl_no_failure_def nl_work_def work_step_simps
      notification_max_automatic_retry_limit_def split: if_splits)

lemma nl_cancel_step:
  "nl_ok p \<Longrightarrow> nl_cancel_automatic_retry p now = Inr (q, b) \<Longrightarrow>
     nl_ok q \<and> (if b then work_step (nl_work p) Cancel (nl_work q) else q = p)"
  by (auto simp: nl_cancel_automatic_retry_def nl_ok_def nl_work_def work_step_simps
      notification_max_automatic_retry_limit_def split: if_splits)

lemma nl_automatic_bound:
  assumes "nl_ok p" "nl_claimable p now" "nl_claim_trigger p now = TAutomatic"
  shows "nl_attempt_count (nl_claimed p worker lease tok now) \<le> notification_max_automatic_retry_limit + 1"
  using assms by (auto simp: nl_claim_trigger_def nl_claimable_def nl_expired_def nl_ok_def nl_claimed_def split: if_splits)

end
