(* ===== verification/Worker_Presence.thy ===== *)
theory Worker_Presence
  imports Domain
begin

text \<open>
  Processes that report to the orchestrator (\<^verbatim>\<open>worker_presence/models.py\<close>) and the alerts raised when
  a ready task has no worker (\<^verbatim>\<open>worker_presence/readiness.py\<close>). Thresholds the sources give as floating
  point seconds are numbers of microseconds, the resolution of \<^verbatim>\<open>timedelta\<close>.
\<close>

section \<open>Processes\<close>

datatype worker_kind = WKExecution | WKWorkspace | WKScm | WKReadinessMonitor | WKNotification
datatype worker_lifecycle_status = LRunning | LStopped
datatype worker_observed_status = Online | Stale | Stopped

record worker_instance =
  wi_worker_id :: string
  wi_kind :: worker_kind
  wi_hostname :: string
  wi_process_id :: int
  wi_capabilities :: "string list"
  wi_workspace_scope :: "string option"
  wi_metadata :: json_object
  wi_id :: uuid
  wi_status :: worker_lifecycle_status
  wi_started_at :: time
  wi_last_seen_at :: time
  wi_stopped_at :: "time option"

definition worker_instance_init :: "worker_instance \<Rightarrow> worker_instance result" where
  "worker_instance_init w =
     (let w = w\<lparr>wi_worker_id := py_strip (wi_worker_id w), wi_hostname := py_strip (wi_hostname w),
        wi_capabilities := sort (remdups (map py_strip (filter (\<lambda>v. \<not> blank v) (wi_capabilities w)))),
        wi_workspace_scope := (case wi_workspace_scope w of None \<Rightarrow> None
          | Some s \<Rightarrow> if s = [] then None else Some (py_strip s))\<rparr> in
      if wi_worker_id w = [] \<or> wi_hostname w = []
      then Inl (DomainValidationError ''worker identity and hostname must not be empty'')
      else if wi_process_id w \<le> 0 then Inl (DomainValidationError ''worker process_id must be positive'')
      else if wi_capabilities w = [] then Inl (DomainValidationError ''worker requires at least one capability'')
      else Inr w)"

definition wi_heartbeat :: "worker_instance \<Rightarrow> time option \<Rightarrow> time \<Rightarrow> worker_instance result" where
  "wi_heartbeat w at now =
     (if wi_status w = LStopped then Inl (DomainValidationError ''stopped worker cannot heartbeat'')
      else Inr (w\<lparr>wi_last_seen_at := at_or_now at now\<rparr>))"

definition wi_stop :: "worker_instance \<Rightarrow> time option \<Rightarrow> time \<Rightarrow> worker_instance" where
  "wi_stop w at now =
     (if wi_status w = LStopped then w
      else let changed_at = at_or_now at now in
        w\<lparr>wi_status := LStopped, wi_last_seen_at := changed_at, wi_stopped_at := Some changed_at\<rparr>)"

definition observed_status :: "worker_instance \<Rightarrow> time \<Rightarrow> time \<Rightarrow> worker_observed_status result" where
  "observed_status w stale_after at =
     (if stale_after \<le> 0 then Inl (DomainValidationError ''worker stale threshold must be positive'')
      else if wi_status w = LStopped then Inr Stopped
      else if stale_after < at - wi_last_seen_at w then Inr Stale
      else Inr Online)"

section \<open>Readiness\<close>

datatype readiness_issue_reason = NoCapableWorker | CapableWorkersOffline
datatype readiness_alert_status = AlertActive | AlertResolved

fun issue_reason_value :: "readiness_issue_reason \<Rightarrow> string" where
  "issue_reason_value NoCapableWorker = ''no_capable_worker''"
| "issue_reason_value CapableWorkersOffline = ''capable_workers_offline''"

fun alert_status_value :: "readiness_alert_status \<Rightarrow> string" where
  "alert_status_value AlertActive = ''active''" | "alert_status_value AlertResolved = ''resolved''"

record readiness_alert =
  al_project_id :: uuid
  al_workflow_execution_id :: uuid
  al_run_id :: uuid
  al_node_key :: string
  al_executor_key :: string
  al_ready_since :: time
  al_reason :: readiness_issue_reason
  al_id :: uuid
  al_status :: readiness_alert_status
  al_first_detected_at :: time
  al_last_observed_at :: time
  al_critical_at :: "time option"
  al_resolved_at :: "time option"

definition al_observe :: "readiness_alert \<Rightarrow> readiness_issue_reason \<Rightarrow> time \<Rightarrow> readiness_alert \<times> bool" where
  "al_observe a reason at = (a\<lparr>al_reason := reason, al_last_observed_at := at\<rparr>, al_reason a \<noteq> reason)"

definition al_resolve :: "readiness_alert \<Rightarrow> time \<Rightarrow> readiness_alert" where
  "al_resolve a at = (if al_status a = AlertResolved then a
     else a\<lparr>al_status := AlertResolved, al_last_observed_at := at, al_resolved_at := Some at\<rparr>)"

definition al_escalate :: "readiness_alert \<Rightarrow> time \<Rightarrow> time \<Rightarrow> (readiness_alert \<times> bool) result" where
  "al_escalate a critical_after at =
     (if critical_after \<le> 0 then Inl (ValueError ''worker readiness critical threshold must be positive'')
      else if al_status a \<noteq> AlertActive \<or> al_critical_at a \<noteq> None then Inr (a, False)
      else if at - al_first_detected_at a < critical_after then Inr (a, False)
      else Inr (a\<lparr>al_critical_at := Some at\<rparr>, True))"

record capability_coverage =
  cc_executor_key :: string
  cc_online :: "string list"
  cc_stale :: "string list"
  cc_stopped :: "string list"

record readiness_issue =
  ri_workflow_execution_id :: uuid
  ri_run_id :: uuid
  ri_node_key :: string
  ri_executor_key :: string
  ri_ready_since :: time
  ri_reason :: readiness_issue_reason

record project_readiness =
  pw_project_id :: uuid
  pw_checked_at :: time
  pw_online_workers :: nat
  pw_coverage :: "capability_coverage list"
  pw_issues :: "readiness_issue list"
  pw_alerts :: "readiness_alert list"

end
