(* ===== verification/Security_Models.thy ===== *)
theory Security_Models
  imports Domain
begin

text \<open>
  Service accounts, their credentials and the principal a bearer token stands for
  (\<^verbatim>\<open>security/models.py\<close>). A \<^verbatim>\<open>frozenset\<close> is a finite set.
\<close>

datatype api_permission = ProjectRead | RequestDispatch | WorkflowApprove | RunCancel | WorkspaceManage
  | ScmPublish | NotificationManage | ProjectAdmin

datatype credential_readiness_status = CredHealthy | CredExpiringSoon | CredExpired | NoUsableCredential | AccountDisabled

record service_account =
  sv_key :: string
  sv_name :: string
  sv_permissions :: "api_permission set"
  sv_project_ids :: "uuid set"
  sv_all_projects :: bool
  sv_enabled :: bool
  sv_id :: uuid
  sv_created_at :: time

text \<open>\<^verbatim>\<open>^[a-z][a-z0-9._-]{2,63}$\<close>.\<close>

definition account_key_pattern :: "string \<Rightarrow> bool" where
  "account_key_pattern s \<longleftrightarrow> match_key is_az (\<lambda>c. is_az c \<or> is_digit c \<or> c \<in> set ''._-'') s
     \<and> 3 \<le> length s \<and> length s \<le> 64"

definition service_account_init :: "service_account \<Rightarrow> service_account result" where
  "service_account_init a =
     (let key = py_strip (sv_key a); name = py_strip (sv_name a) in
      if \<not> account_key_pattern key then Inl (DomainValidationError ''service account key is invalid'')
      else if name = [] \<or> 255 < length name
      then Inl (DomainValidationError ''service account name must contain 1-255 characters'')
      else if sv_permissions a = {}
      then Inl (DomainValidationError ''service account requires at least one permission'')
      else if \<not> sv_all_projects a \<and> sv_project_ids a = {}
      then Inl (DomainValidationError ''service account requires a project scope'')
      else Inr (a\<lparr>sv_key := key, sv_name := name\<rparr>))"

record credential =
  cr_account_id :: uuid
  cr_token_digest :: string
  cr_id :: uuid
  cr_created_at :: time
  cr_expires_at :: "time option"
  cr_revoked_at :: "time option"
  cr_last_used_at :: "time option"

definition opt_less :: "time option \<Rightarrow> (time \<Rightarrow> bool) \<Rightarrow> bool" where
  "opt_less x P = (case x of None \<Rightarrow> False | Some t \<Rightarrow> P t)"

definition credential_init :: "credential \<Rightarrow> credential result" where
  "credential_init c =
     (if \<not> sha256_digest (cr_token_digest c)
      then Inl (DomainValidationError ''service account credential digest must be SHA-256'')
      else if opt_less (cr_expires_at c) (\<lambda>t. t \<le> cr_created_at c)
      then Inl (DomainValidationError ''credential expiration must be after creation'')
      else if opt_less (cr_revoked_at c) (\<lambda>t. t < cr_created_at c)
      then Inl (DomainValidationError ''credential revocation cannot precede creation'')
      else if opt_less (cr_last_used_at c) (\<lambda>t. t < cr_created_at c)
      then Inl (DomainValidationError ''credential usage cannot precede creation'')
      else Inr c)"

definition cr_is_active :: "credential \<Rightarrow> time \<Rightarrow> bool" where
  "cr_is_active c at \<longleftrightarrow> cr_revoked_at c = None \<and> (case cr_expires_at c of None \<Rightarrow> True | Some t \<Rightarrow> at < t)"

record api_principal =
  ap_account_id :: uuid
  ap_account_key :: string
  ap_permissions :: "api_permission set"
  ap_project_ids :: "uuid set"
  ap_all_projects :: bool
  ap_credential_id :: "uuid option"

definition allows :: "api_principal \<Rightarrow> api_permission \<Rightarrow> uuid option \<Rightarrow> bool" where
  "allows p permission project_id =
     (if permission \<notin> ap_permissions p \<and> ProjectAdmin \<notin> ap_permissions p then False
      else (case project_id of None \<Rightarrow> ap_all_projects p
            | Some i \<Rightarrow> ap_all_projects p \<or> i \<in> ap_project_ids p))"

end
