(* ===== verification/Store.thy ===== *)
theory Store
  imports Workflow_Engine Budgets External_Executions Workspace_Operations Notifications Worker_Presence Security_Models
begin

text \<open>
  The transaction boundary (\<^verbatim>\<open>application/unit_of_work.py\<close>) and the repositories of
  \<^verbatim>\<open>infrastructure/database/\<close> the modelled services use. The database is a record of tables, a
  table the list of its rows in insertion order; a repository query is the selection its SQL
  statement makes. A service is a function of the database that returns a value and the database to
  commit, or an exception, on which the caller keeps the database it had (\<open>transact\<close>): that is the
  rollback of \<^verbatim>\<open>SqlAlchemyUnitOfWork.__aexit__\<close>. Row locks order concurrent transactions, so a
  sequence of service calls stands for every schedule of them. \<^verbatim>\<open>uuid4()\<close> takes the next unused
  number, and one operation reads the clock once, as its argument \<open>now\<close>.
\<close>

section \<open>Artifacts and bindings\<close>

record task_artifact =
  ta_execution_id :: uuid
  ta_producer_node_key :: string
  ta_visit_count :: int
  ta_outcome :: node_outcome
  ta_content :: json_object
  ta_id :: uuid
  ta_created_at :: time

definition task_artifact_init :: "task_artifact \<Rightarrow> task_artifact result" where
  "task_artifact_init a =
     (if blank (ta_producer_node_key a)
      then Inl (DomainValidationError ''artifact producer node key must not be empty'')
      else if ta_visit_count a < 1
      then Inl (DomainValidationError ''artifact visit count must be greater than zero'')
      else if ta_outcome a \<notin> {OSuccess, OFailure}
      then Inl (DomainValidationError ''task artifact outcome must be success or failure'')
      else Inr a)"

record project_workflow_binding =
  pb_project_id :: uuid
  pb_definition_id :: uuid
  pb_definition_key :: string
  pb_definition_version :: int
  pb_id :: uuid
  pb_created_at :: time
  pb_updated_at :: time

definition binding_init :: "project_workflow_binding \<Rightarrow> project_workflow_binding result" where
  "binding_init b =
     (let key = py_strip (pb_definition_key b) in
      if \<not> catalog_key key
      then Inl (DomainValidationError ''workflow definition key has an invalid format'')
      else if pb_definition_version b < 1
      then Inl (DomainValidationError ''workflow definition version must be greater than zero'')
      else Inr (b\<lparr>pb_definition_key := key\<rparr>))"

section \<open>The database and its transactions\<close>

text \<open>The tables of the components around the workflow core, kept together in one field of the database.\<close>

record ops_tables =
  x_external :: "external_execution list"
  x_operations :: "workspace_operation list"
  x_publications :: "scm_publication list"
  x_publication_attempts :: "scm_publication_attempt list"
  x_subscriptions :: "notification_subscription list"
  x_deliveries :: "notification_delivery list"
  x_delivery_attempts :: "notification_attempt list"
  x_workers :: "worker_instance list"
  x_alerts :: "readiness_alert list"
  x_service_accounts :: "service_account list"
  x_credentials :: "credential list"

definition empty_ops :: ops_tables where
  "empty_ops = \<lparr>x_external = [], x_operations = [], x_publications = [], x_publication_attempts = [],
     x_subscriptions = [], x_deliveries = [], x_delivery_attempts = [], x_workers = [], x_alerts = [],
     x_service_accounts = [], x_credentials = []\<rparr>"

record db =
  t_projects :: "project list"
  t_requests :: "user_request list"
  t_runs :: "run list"
  t_events :: "domain_event list"
  t_receipts :: "request_dispatch_receipt list"
  t_artifacts :: "task_artifact list"
  t_skills :: "skill_definition list"
  t_phase_packs :: "phase_pack_definition list"
  t_model_profiles :: "model_profile list"
  t_definitions :: "workflow_definition list"
  t_executions :: "workflow_execution list"
  t_bindings :: "project_workflow_binding list"
  t_accounts :: "budget_account list"
  t_reservations :: "budget_reservation list"
  t_usage :: "usage_record list"
  t_ops :: ops_tables
  t_next :: uuid

type_synonym 'a svc = "db \<Rightarrow> ('a \<times> db) result"

definition sreturn :: "'a \<Rightarrow> 'a svc" where
  "sreturn x = (\<lambda>db. Inr (x, db))"

definition sraise :: "error \<Rightarrow> 'a svc" where
  "sraise e = (\<lambda>db. Inl e)"

definition sbind :: "'a svc \<Rightarrow> ('a \<Rightarrow> 'b svc) \<Rightarrow> 'b svc" where
  "sbind m f = (\<lambda>db. case m db of Inl e \<Rightarrow> Inl e | Inr (x, db') \<Rightarrow> f x db')"

definition slift :: "'a result \<Rightarrow> 'a svc" where
  "slift r = (\<lambda>db. case r of Inl e \<Rightarrow> Inl e | Inr x \<Rightarrow> Inr (x, db))"

definition gets :: "(db \<Rightarrow> 'a) \<Rightarrow> 'a svc" where
  "gets f = (\<lambda>db. Inr (f db, db))"

definition supdate :: "(db \<Rightarrow> db) \<Rightarrow> unit svc" where
  "supdate f = (\<lambda>db. Inr ((), f db))"

definition uuid4 :: "uuid svc" where
  "uuid4 = (\<lambda>db. Inr (t_next db, db\<lparr>t_next := Suc (t_next db)\<rparr>))"

text \<open>A lookup that raises when there is no row.\<close>

definition sneed :: "error \<Rightarrow> (db \<Rightarrow> 'a option) \<Rightarrow> 'a svc" where
  "sneed e f = (\<lambda>db. case f db of None \<Rightarrow> Inl e | Some x \<Rightarrow> Inr (x, db))"

fun seach :: "('a \<Rightarrow> unit svc) \<Rightarrow> 'a list \<Rightarrow> unit svc" where
  "seach f [] = sreturn ()"
| "seach f (x # xs) = sbind (f x) (\<lambda>_. seach f xs)"

fun smap :: "('a \<Rightarrow> 'b svc) \<Rightarrow> 'a list \<Rightarrow> 'b list svc" where
  "smap f [] = sreturn []"
| "smap f (x # xs) = sbind (f x) (\<lambda>y. sbind (smap f xs) (\<lambda>ys. sreturn (y # ys)))"

text \<open>The outcome of a call as its caller sees it: the database is unchanged by an exception.\<close>

definition transact :: "'a svc \<Rightarrow> db \<Rightarrow> 'a result \<times> db" where
  "transact m db = (case m db of Inl e \<Rightarrow> (Inl e, db) | Inr (x, db') \<Rightarrow> (Inr x, db'))"

lemma sreturn_Inr [simp]: "sreturn x db = Inr (y, db') \<longleftrightarrow> x = y \<and> db = db'"
  by (simp add: sreturn_def)

lemma sraise_Inr [simp]: "sraise e db \<noteq> Inr r"
  by (simp add: sraise_def)

lemma slift_Inr [simp]: "slift r db = Inr (y, db') \<longleftrightarrow> r = Inr y \<and> db = db'"
  by (auto simp: slift_def split: sum.splits)

lemma gets_Inr [simp]: "gets f db = Inr (y, db') \<longleftrightarrow> y = f db \<and> db' = db"
  by (auto simp: gets_def)

lemma supdate_Inr [simp]: "supdate f db = Inr (y, db') \<longleftrightarrow> db' = f db"
  by (auto simp: supdate_def)

lemma uuid4_Inr [simp]: "uuid4 db = Inr (y, db') \<longleftrightarrow> y = t_next db \<and> db' = db\<lparr>t_next := Suc (t_next db)\<rparr>"
  by (auto simp: uuid4_def)

lemma sneed_Inr [simp]: "sneed e f db = Inr (y, db') \<longleftrightarrow> f db = Some y \<and> db' = db"
  by (auto simp: sneed_def split: option.splits)

lemma sbind_Inr: "sbind m f db = Inr (y, db') \<longleftrightarrow> (\<exists>x db1. m db = Inr (x, db1) \<and> f x db1 = Inr (y, db'))"
  by (auto simp: sbind_def split: sum.splits prod.splits)

lemma sbind_InrE [elim!, result_elims]:
  assumes "sbind m f db = Inr (y, db')"
  obtains x db1 where "m db = Inr (x, db1)" "f x db1 = Inr (y, db')"
  using assms by (auto simp: sbind_Inr)

lemma sbind_run:
  "sbind (sreturn x) f db = f x db" "sbind (gets g) f db = f (g db) db"
  "sbind (supdate u) f' db = f' () (u db)" "sbind (sraise e) f db = Inl e"
  "sbind (slift (Inr x)) f db = f x db" "sbind (slift (Inl e)) f db = Inl e"
  "sbind uuid4 h db = h (t_next db) (db\<lparr>t_next := Suc (t_next db)\<rparr>)"
  by (simp_all add: sbind_def sreturn_def gets_def supdate_def sraise_def slift_def uuid4_def)

lemma sbind_apply: "sbind m f db = (case m db of Inl e \<Rightarrow> Inl e | Inr (x, db') \<Rightarrow> f x db')"
  by (simp add: sbind_def)

lemma transact_failed: "fst (transact m db) = Inl e \<Longrightarrow> snd (transact m db) = db"
  by (auto simp: transact_def split: sum.splits prod.splits)

section \<open>Tables\<close>

definition table_get :: "('r \<Rightarrow> 'k) \<Rightarrow> 'r list \<Rightarrow> 'k \<Rightarrow> 'r option" where
  "table_get key_of t k = find (\<lambda>r. key_of r = k) t"

definition table_put :: "('r \<Rightarrow> 'k) \<Rightarrow> 'r list \<Rightarrow> 'r \<Rightarrow> 'r list" where
  "table_put key_of t r = map (\<lambda>x. if key_of x = key_of r then r else x) t"

text \<open>What the services rely on: a row is found under its key after it was added or saved, and
  other rows are not affected.\<close>

locale keyed_table =
  fixes key_of :: "'r \<Rightarrow> 'k" and get :: "'t \<Rightarrow> 'k \<Rightarrow> 'r option" and add :: "'t \<Rightarrow> 'r \<Rightarrow> 't"
    and put :: "'t \<Rightarrow> 'r \<Rightarrow> 't"
  assumes get_add: "get (add t r) k =
      (case get t k of None \<Rightarrow> if key_of r = k then Some r else None | Some x \<Rightarrow> Some x)"
    and get_put: "get (put t r) k =
      (case get t k of None \<Rightarrow> None | Some x \<Rightarrow> if key_of r = k then Some r else Some x)"
    and get_key: "get t k = Some r \<Longrightarrow> key_of r = k"
begin

lemma get_add_fresh: "get t (key_of r) = None \<Longrightarrow> get (add t r) (key_of r) = Some r"
  by (simp add: get_add)

lemma get_add_other: "key_of r \<noteq> k \<Longrightarrow> get (add t r) k = get t k"
  by (simp add: get_add split: option.split)

lemma get_put_same: "get t (key_of r) = Some x \<Longrightarrow> get (put t r) (key_of r) = Some r"
  by (simp add: get_put)

lemma get_put_other: "key_of r \<noteq> k \<Longrightarrow> get (put t r) k = get t k"
  by (simp add: get_put split: option.split)

lemma get_put_known: "get (put t r) k = None \<longleftrightarrow> get t k = None"
  by (simp add: get_put split: option.split)

end

lemma table_get_append:
  "table_get key_of (t @ [r]) k =
     (case table_get key_of t k of None \<Rightarrow> if key_of r = k then Some r else None | Some x \<Rightarrow> Some x)"
  by (induction t) (auto simp: table_get_def)

lemma table_get_put:
  "table_get key_of (table_put key_of t r) k =
     (case table_get key_of t k of None \<Rightarrow> None | Some x \<Rightarrow> if key_of r = k then Some r else Some x)"
  by (induction t) (auto simp: table_get_def table_put_def)

lemma table_get_member:
  "distinct (map key_of t) \<Longrightarrow> x \<in> set t \<Longrightarrow> table_get key_of t (key_of x) = Some x"
  by (induction t) (auto simp: table_get_def)

lemma table_get_key: "table_get key_of t k = Some r \<Longrightarrow> key_of r = k \<and> r \<in> set t"
  unfolding table_get_def by (drule find_SomeD) simp

lemma list_table: "keyed_table key_of (table_get key_of) (\<lambda>t r. t @ [r]) (table_put key_of)"
  by unfold_locales (rule table_get_append, rule table_get_put, blast dest: table_get_key)

interpretation run_table: keyed_table rn_id "table_get rn_id" "\<lambda>t r. t @ [r]" "table_put rn_id"
  by (rule list_table)

interpretation request_table: keyed_table rq_id "table_get rq_id" "\<lambda>t r. t @ [r]" "table_put rq_id"
  by (rule list_table)

interpretation execution_table: keyed_table we_id "table_get we_id" "\<lambda>t r. t @ [r]" "table_put we_id"
  by (rule list_table)

interpretation account_table: keyed_table ba_id "table_get ba_id" "\<lambda>t r. t @ [r]" "table_put ba_id"
  by (rule list_table)

interpretation reservation_table: keyed_table br_id "table_get br_id" "\<lambda>t r. t @ [r]" "table_put br_id"
  by (rule list_table)

end
