(* ===== verification/Repositories.thy ===== *)
theory Repositories
  imports Store
begin

text \<open>
  The queries and updates of the SQLAlchemy repositories, one definition per method. A method that
  saves a row copies the columns the source copies and leaves the others as stored.
\<close>

section \<open>Projects, requests, runs\<close>

definition projects_add :: "project \<Rightarrow> unit svc" where
  "projects_add p = supdate (\<lambda>db. db\<lparr>t_projects := t_projects db @ [p]\<rparr>)"

definition projects_get :: "uuid \<Rightarrow> db \<Rightarrow> project option" where
  "projects_get k db = table_get pj_id (t_projects db) k"

definition projects_get_by_key :: "string \<Rightarrow> db \<Rightarrow> project option" where
  "projects_get_by_key key db = find (\<lambda>p. pj_key p = key) (t_projects db)"

text \<open>Newest first, ties by identifier, strictly after the cursor.\<close>

definition projects_list :: "project_status option \<Rightarrow> project option \<Rightarrow> nat \<Rightarrow> db \<Rightarrow> project list" where
  "projects_list status after limit db =
     take limit (sort_key (\<lambda>p. (- pj_created_at p, pj_id p))
       (filter (\<lambda>p. (case status of None \<Rightarrow> True | Some s \<Rightarrow> pj_status p = s)
          \<and> (case after of None \<Rightarrow> True | Some a \<Rightarrow> pj_created_at p < pj_created_at a
               \<or> (pj_created_at p = pj_created_at a \<and> pj_id a < pj_id p))) (t_projects db)))"

definition requests_add :: "user_request \<Rightarrow> unit svc" where
  "requests_add r = supdate (\<lambda>db. db\<lparr>t_requests := t_requests db @ [r]\<rparr>)"

definition requests_get :: "uuid \<Rightarrow> db \<Rightarrow> user_request option" where
  "requests_get k db = table_get rq_id (t_requests db) k"

definition requests_save :: "user_request \<Rightarrow> unit svc" where
  "requests_save r = (\<lambda>db. case requests_get (rq_id r) db of
      None \<Rightarrow> requests_add r db
    | Some x \<Rightarrow> Inr ((), db\<lparr>t_requests := table_put rq_id (t_requests db)
        (x\<lparr>rq_status := rq_status r, rq_updated_at := rq_updated_at r\<rparr>)\<rparr>))"

definition requests_list_by_project ::
    "uuid \<Rightarrow> request_status option \<Rightarrow> nat \<Rightarrow> db \<Rightarrow> user_request list" where
  "requests_list_by_project project_id status limit db =
     take limit (sort_key (\<lambda>r. (- rq_created_at r, rq_id r))
       (filter (\<lambda>r. rq_project_id r = project_id
          \<and> (case status of None \<Rightarrow> True | Some s \<Rightarrow> rq_status r = s)) (t_requests db)))"

definition runs_add :: "run \<Rightarrow> unit svc" where
  "runs_add r = supdate (\<lambda>db. db\<lparr>t_runs := t_runs db @ [r]\<rparr>)"

definition runs_get :: "uuid \<Rightarrow> db \<Rightarrow> run option" where
  "runs_get k db = table_get rn_id (t_runs db) k"

definition runs_save :: "run \<Rightarrow> unit svc" where
  "runs_save r = (\<lambda>db. case runs_get (rn_id r) db of
      None \<Rightarrow> runs_add r db
    | Some x \<Rightarrow> Inr ((), db\<lparr>t_runs := table_put rn_id (t_runs db)
        (x\<lparr>rn_status := rn_status r, rn_failure_reason := rn_failure_reason r,
           rn_updated_at := rn_updated_at r, rn_started_at := rn_started_at r,
           rn_completed_at := rn_completed_at r, rn_version := rn_version r\<rparr>)\<rparr>))"

definition runs_list_by_request :: "uuid \<Rightarrow> run_status option \<Rightarrow> nat \<Rightarrow> db \<Rightarrow> run list" where
  "runs_list_by_request request_id status limit db =
     take limit (sort_key (\<lambda>r. (- rn_created_at r, rn_id r))
       (filter (\<lambda>r. rn_request_id r = request_id
          \<and> (case status of None \<Rightarrow> True | Some s \<Rightarrow> rn_status r = s)) (t_runs db)))"

section \<open>Events\<close>

text \<open>The sequence column is assigned by the database in the order of the inserts.\<close>

definition events_append :: "domain_event \<Rightarrow> unit svc" where
  "events_append e = supdate (\<lambda>db. db\<lparr>t_events := t_events db
     @ [e\<lparr>ev_sequence := Some (int (length (t_events db)) + 1)\<rparr>]\<rparr>)"

text \<open>\<^verbatim>\<open>DomainEvent(aggregate_type=..., ...)\<close> appended.\<close>

definition emit :: "string \<Rightarrow> uuid \<Rightarrow> string \<Rightarrow> json_object \<Rightarrow> time \<Rightarrow> unit svc" where
  "emit aggregate_type aggregate_id event_type payload now =
     sbind uuid4 (\<lambda>eid. events_append
       \<lparr>ev_aggregate_type = aggregate_type, ev_aggregate_id = aggregate_id,
        ev_event_type = event_type, ev_payload = payload, ev_id = eid, ev_sequence = None,
        ev_occurred_at = now\<rparr>)"

definition sequence_of :: "domain_event \<Rightarrow> int" where
  "sequence_of e = (case ev_sequence e of None \<Rightarrow> 0 | Some n \<Rightarrow> n)"

definition events_get :: "uuid \<Rightarrow> db \<Rightarrow> domain_event option" where
  "events_get k db = find (\<lambda>e. ev_id e = k) (t_events db)"

definition events_list_aggregate ::
    "string \<Rightarrow> uuid \<Rightarrow> int option \<Rightarrow> nat \<Rightarrow> db \<Rightarrow> domain_event list" where
  "events_list_aggregate aggregate_type aggregate_id before limit db =
     take limit (sort_key (\<lambda>e. - sequence_of e)
       (filter (\<lambda>e. ev_aggregate_type e = aggregate_type \<and> ev_aggregate_id e = aggregate_id
          \<and> (case before of None \<Rightarrow> True | Some b \<Rightarrow> sequence_of e < b)) (t_events db)))"

definition events_list_after ::
    "string \<Rightarrow> domain_event option \<Rightarrow> nat \<Rightarrow> db \<Rightarrow> domain_event list result" where
  "events_list_after aggregate_type after limit db =
     (case after of
        Some a \<Rightarrow> (case ev_sequence a of
            None \<Rightarrow> Inl (ValueError ''persisted event cursor requires a sequence'')
          | Some n \<Rightarrow> Inr (take limit (sort_key sequence_of
              (filter (\<lambda>e. ev_aggregate_type e = aggregate_type \<and> n < sequence_of e) (t_events db)))))
      | None \<Rightarrow> Inr (take limit (sort_key sequence_of
          (filter (\<lambda>e. ev_aggregate_type e = aggregate_type) (t_events db)))))"

section \<open>Dispatch receipts and bindings\<close>

definition receipt_key :: "request_dispatch_receipt \<Rightarrow> uuid \<times> string \<times> string" where
  "receipt_key r = (dr_project_id r, dr_ingress_key r, dr_idempotency_key r)"

definition receipts_get :: "uuid \<Rightarrow> string \<Rightarrow> string \<Rightarrow> db \<Rightarrow> request_dispatch_receipt option" where
  "receipts_get project_id ingress_key idempotency_key db =
     table_get receipt_key (t_receipts db) (project_id, ingress_key, idempotency_key)"

text \<open>\<^verbatim>\<open>INSERT ... ON CONFLICT DO NOTHING RETURNING id\<close>; the result columns start empty.\<close>

definition receipts_try_claim :: "request_dispatch_receipt \<Rightarrow> bool svc" where
  "receipts_try_claim r = (\<lambda>db.
     if table_get receipt_key (t_receipts db) (receipt_key r) \<noteq> None then Inr (False, db)
     else Inr (True, db\<lparr>t_receipts := t_receipts db @ [r\<lparr>dr_request_id := None, dr_run_id := None,
       dr_workflow_execution_id := None, dr_completed_at := None\<rparr>]\<rparr>))"

definition receipts_save :: "request_dispatch_receipt \<Rightarrow> unit svc" where
  "receipts_save r = (\<lambda>db. case table_get dr_id (t_receipts db) (dr_id r) of
      None \<Rightarrow> Inl (RuntimeError ''dispatch receipt not found'')
    | Some x \<Rightarrow> Inr ((), db\<lparr>t_receipts := table_put dr_id (t_receipts db)
        (x\<lparr>dr_request_id := dr_request_id r, dr_run_id := dr_run_id r,
           dr_workflow_execution_id := dr_workflow_execution_id r,
           dr_completed_at := dr_completed_at r\<rparr>)\<rparr>))"

definition bindings_get_by_project :: "uuid \<Rightarrow> db \<Rightarrow> project_workflow_binding option" where
  "bindings_get_by_project project_id db = find (\<lambda>b. pb_project_id b = project_id) (t_bindings db)"

definition bindings_save :: "project_workflow_binding \<Rightarrow> unit svc" where
  "bindings_save b = supdate (\<lambda>db. case table_get pb_project_id (t_bindings db) (pb_project_id b) of
      None \<Rightarrow> db\<lparr>t_bindings := t_bindings db @ [b]\<rparr>
    | Some x \<Rightarrow> db\<lparr>t_bindings := table_put pb_project_id (t_bindings db)
        (x\<lparr>pb_definition_id := pb_definition_id b, pb_definition_key := pb_definition_key b,
           pb_definition_version := pb_definition_version b, pb_updated_at := pb_updated_at b\<rparr>)\<rparr>)"

section \<open>Versioned catalogs\<close>

text \<open>\<^verbatim>\<open>ORDER BY version DESC LIMIT 1\<close> and the join with the greatest version per key.\<close>

definition latest_of :: "('r \<Rightarrow> int) \<Rightarrow> 'r list \<Rightarrow> 'r option" where
  "latest_of ver_of xs = fold (\<lambda>x acc. case acc of None \<Rightarrow> Some x
     | Some y \<Rightarrow> if ver_of y < ver_of x then Some x else Some y) xs None"

definition versioned_get ::
    "('r \<Rightarrow> string) \<Rightarrow> ('r \<Rightarrow> int) \<Rightarrow> 'r list \<Rightarrow> string \<Rightarrow> int option \<Rightarrow> 'r option" where
  "versioned_get key_of ver_of t key version =
     (case version of
        None \<Rightarrow> latest_of ver_of (filter (\<lambda>x. key_of x = key) t)
      | Some v \<Rightarrow> find (\<lambda>x. key_of x = key \<and> ver_of x = v) t)"

definition versioned_list_latest :: "('r \<Rightarrow> string) \<Rightarrow> ('r \<Rightarrow> int) \<Rightarrow> 'r list \<Rightarrow> 'r list" where
  "versioned_list_latest key_of ver_of t = sort_key key_of
     (filter (\<lambda>x. list_all (\<lambda>y. key_of y = key_of x \<longrightarrow> ver_of y \<le> ver_of x) t) t)"

definition definitions_add :: "workflow_definition \<Rightarrow> unit svc" where
  "definitions_add d = supdate (\<lambda>db. db\<lparr>t_definitions := t_definitions db @ [d]\<rparr>)"

definition definitions_get :: "string \<Rightarrow> int option \<Rightarrow> db \<Rightarrow> workflow_definition option" where
  "definitions_get key version db = versioned_get wd_key wd_version (t_definitions db) key version"

definition definitions_list_latest :: "db \<Rightarrow> workflow_definition list" where
  "definitions_list_latest db = versioned_list_latest wd_key wd_version (t_definitions db)"

definition skills_add :: "skill_definition \<Rightarrow> unit svc" where
  "skills_add s = supdate (\<lambda>db. db\<lparr>t_skills := t_skills db @ [s]\<rparr>)"

definition skills_get :: "string \<Rightarrow> int option \<Rightarrow> db \<Rightarrow> skill_definition option" where
  "skills_get key version db = versioned_get sk_key sk_version (t_skills db) key version"

definition skills_list_latest :: "db \<Rightarrow> skill_definition list" where
  "skills_list_latest db = versioned_list_latest sk_key sk_version (t_skills db)"

definition phase_packs_add :: "phase_pack_definition \<Rightarrow> unit svc" where
  "phase_packs_add p = supdate (\<lambda>db. db\<lparr>t_phase_packs := t_phase_packs db @ [p]\<rparr>)"

definition phase_packs_get :: "string \<Rightarrow> int option \<Rightarrow> db \<Rightarrow> phase_pack_definition option" where
  "phase_packs_get key version db = versioned_get pp_key pp_version (t_phase_packs db) key version"

definition phase_packs_list_latest :: "db \<Rightarrow> phase_pack_definition list" where
  "phase_packs_list_latest db = versioned_list_latest pp_key pp_version (t_phase_packs db)"

definition profiles_add :: "model_profile \<Rightarrow> unit svc" where
  "profiles_add p = supdate (\<lambda>db. db\<lparr>t_model_profiles := t_model_profiles db @ [p]\<rparr>)"

definition profiles_get :: "string \<Rightarrow> int option \<Rightarrow> db \<Rightarrow> model_profile option" where
  "profiles_get key version db = versioned_get mp_key mp_version (t_model_profiles db) key version"

definition profiles_list_latest :: "db \<Rightarrow> model_profile list" where
  "profiles_list_latest db = versioned_list_latest mp_key mp_version (t_model_profiles db)"

section \<open>Artifacts\<close>

definition artifacts_add :: "task_artifact \<Rightarrow> unit svc" where
  "artifacts_add a = supdate (\<lambda>db. db\<lparr>t_artifacts := t_artifacts db @ [a]\<rparr>)"

definition artifacts_list_for_execution :: "uuid \<Rightarrow> db \<Rightarrow> task_artifact list" where
  "artifacts_list_for_execution execution_id db =
     sort_key (\<lambda>a. (ta_created_at a, ta_id a))
       (filter (\<lambda>a. ta_execution_id a = execution_id) (t_artifacts db))"

definition artifacts_list_latest_for_nodes :: "uuid \<Rightarrow> string list \<Rightarrow> db \<Rightarrow> task_artifact list" where
  "artifacts_list_latest_for_nodes execution_id node_keys db =
     (let mine = filter (\<lambda>a. ta_execution_id a = execution_id
            \<and> ta_producer_node_key a \<in> set node_keys) (t_artifacts db) in
      sort_key ta_producer_node_key
        (filter (\<lambda>a. list_all (\<lambda>b. ta_producer_node_key b = ta_producer_node_key a \<longrightarrow>
           ta_visit_count b \<le> ta_visit_count a) mine) mine))"

section \<open>Workflow executions\<close>

text \<open>The node rows of an execution, and the rows a save leaves: every node of the aggregate is
  updated or inserted, the identifying columns of a stored row stay.\<close>

definition node_rows :: "workflow_execution \<Rightarrow> node_execution list" where
  "node_rows ex = List.map_filter (\<lambda>d. we_nodes ex (nd_key d)) (ws_nodes (we_snapshot ex))"

definition save_node :: "node_execution option \<Rightarrow> node_execution option \<Rightarrow> node_execution option" where
  "save_node stored new = (case (stored, new) of
      (Some s, Some n) \<Rightarrow> Some (s\<lparr>ne_status := ne_status n, ne_executor_key := ne_executor_key n,
        ne_visit_count := ne_visit_count n, ne_attempt_count := ne_attempt_count n,
        ne_outcome := ne_outcome n, ne_output := ne_output n, ne_worker_id := ne_worker_id n,
        ne_lease_token := ne_lease_token n, ne_lease_expires_at := ne_lease_expires_at n,
        ne_started_at := ne_started_at n, ne_completed_at := ne_completed_at n,
        ne_updated_at := ne_updated_at n\<rparr>)
    | (None, n) \<Rightarrow> n
    | (s, None) \<Rightarrow> s)"

definition executions_add :: "workflow_execution \<Rightarrow> unit svc" where
  "executions_add ex = supdate (\<lambda>db. db\<lparr>t_executions := t_executions db @ [ex]\<rparr>)"

definition executions_get :: "uuid \<Rightarrow> db \<Rightarrow> workflow_execution option" where
  "executions_get k db = table_get we_id (t_executions db) k"

definition executions_get_by_run :: "uuid \<Rightarrow> db \<Rightarrow> workflow_execution option" where
  "executions_get_by_run run_id db =
     find (\<lambda>ex. ws_run_id (we_snapshot ex) = run_id) (t_executions db)"

definition executions_save :: "workflow_execution \<Rightarrow> unit svc" where
  "executions_save ex = (\<lambda>db. case executions_get (we_id ex) db of
      None \<Rightarrow> executions_add ex db
    | Some x \<Rightarrow> Inr ((), db\<lparr>t_executions := table_put we_id (t_executions db)
        (x\<lparr>we_status := we_status ex, we_failure_reason := we_failure_reason ex,
           we_started_at := we_started_at ex, we_completed_at := we_completed_at ex,
           we_updated_at := we_updated_at ex, we_version := we_version ex,
           we_nodes := (\<lambda>k. save_node (we_nodes x k) (we_nodes ex k))\<rparr>)\<rparr>))"

definition first_row :: "('a \<Rightarrow> time \<times> uuid) \<Rightarrow> 'a list \<Rightarrow> 'a option" where
  "first_row key_of rows = (case sort_key key_of rows of [] \<Rightarrow> None | r # _ \<Rightarrow> Some r)"

text \<open>The rows of the join of nodes with their executions that satisfy a condition.\<close>

definition node_join ::
    "(workflow_execution \<Rightarrow> node_execution \<Rightarrow> bool) \<Rightarrow> db \<Rightarrow> (workflow_execution \<times> node_execution) list" where
  "node_join P db = concat (map (\<lambda>ex. map (\<lambda>n. (ex, n)) (filter (P ex) (node_rows ex))) (t_executions db))"

definition get_ready_for_update ::
    "string list option \<Rightarrow> db \<Rightarrow> (workflow_execution \<times> string) option" where
  "get_ready_for_update executor_keys db =
     (if executor_keys = Some [] then None
      else map_option (\<lambda>(ex, n). (ex, ne_node_key n))
        (first_row (\<lambda>(ex, n). (ne_updated_at n, ne_id n))
          (node_join (\<lambda>ex n. ne_status n = NReady \<and> we_status ex = WRunning
             \<and> (case executor_keys of None \<Rightarrow> True | Some ks \<Rightarrow> ne_executor_key n \<in> set ks)) db)))"

definition lease_due :: "time \<Rightarrow> node_execution \<Rightarrow> bool" where
  "lease_due at n \<longleftrightarrow> (case ne_lease_expires_at n of None \<Rightarrow> False | Some e \<Rightarrow> e \<le> at)"

definition get_expired_for_update :: "time \<Rightarrow> db \<Rightarrow> (workflow_execution \<times> string) option" where
  "get_expired_for_update at db =
     map_option (\<lambda>(ex, n). (ex, ne_node_key n))
       (first_row (\<lambda>(ex, n). (case ne_lease_expires_at n of None \<Rightarrow> 0 | Some e \<Rightarrow> e, ne_id n))
         (node_join (\<lambda>ex n. ne_status n = NRunning \<and> lease_due at n \<and> we_status ex = WRunning) db))"

definition executions_list_by_project ::
    "uuid \<Rightarrow> workflow_status option \<Rightarrow> nat \<Rightarrow> db \<Rightarrow> workflow_execution list" where
  "executions_list_by_project project_id status limit db =
     take limit (sort_key (\<lambda>ex. (- we_updated_at ex, we_id ex))
       (filter (\<lambda>ex. (case runs_get (ws_run_id (we_snapshot ex)) db of
            None \<Rightarrow> False
          | Some r \<Rightarrow> (case requests_get (rn_request_id r) db of
              None \<Rightarrow> False | Some q \<Rightarrow> rq_project_id q = project_id))
          \<and> (case status of None \<Rightarrow> True | Some s \<Rightarrow> we_status ex = s)) (t_executions db)))"

section \<open>Budgets\<close>

definition accounts_add :: "budget_account \<Rightarrow> unit svc" where
  "accounts_add a = supdate (\<lambda>db. db\<lparr>t_accounts := t_accounts db @ [a]\<rparr>)"

definition accounts_get_by_project :: "uuid \<Rightarrow> db \<Rightarrow> budget_account option" where
  "accounts_get_by_project project_id db = find (\<lambda>a. ba_project_id a = project_id) (t_accounts db)"

definition accounts_save :: "budget_account \<Rightarrow> unit svc" where
  "accounts_save a = (\<lambda>db. case table_get ba_id (t_accounts db) (ba_id a) of
      None \<Rightarrow> Inl (LookupError ''budget account not found'')
    | Some x \<Rightarrow> Inr ((), db\<lparr>t_accounts := table_put ba_id (t_accounts db)
        (x\<lparr>ba_limit_usd := ba_limit_usd a, ba_reserved_usd := ba_reserved_usd a,
           ba_spent_usd := ba_spent_usd a, ba_version := ba_version a,
           ba_updated_at := ba_updated_at a\<rparr>)\<rparr>))"

definition reservations_add :: "budget_reservation \<Rightarrow> unit svc" where
  "reservations_add r = supdate (\<lambda>db. db\<lparr>t_reservations := t_reservations db @ [r]\<rparr>)"

definition reservations_get_by_key :: "string \<Rightarrow> db \<Rightarrow> budget_reservation option" where
  "reservations_get_by_key key db = find (\<lambda>r. br_idempotency_key r = key) (t_reservations db)"

definition reservations_list_reserved_by_run :: "uuid \<Rightarrow> db \<Rightarrow> budget_reservation list" where
  "reservations_list_reserved_by_run run_id db =
     filter (\<lambda>r. br_run_id r = run_id \<and> br_status r = BReserved) (t_reservations db)"

definition reservations_save :: "budget_reservation \<Rightarrow> unit svc" where
  "reservations_save r = (\<lambda>db. case table_get br_id (t_reservations db) (br_id r) of
      None \<Rightarrow> Inl (LookupError ''budget reservation not found'')
    | Some x \<Rightarrow> Inr ((), db\<lparr>t_reservations := table_put br_id (t_reservations db)
        (x\<lparr>br_status := br_status r, br_actual_usd := br_actual_usd r,
           br_finalized_at := br_finalized_at r\<rparr>)\<rparr>))"

definition usage_add :: "usage_record \<Rightarrow> unit svc" where
  "usage_add u = supdate (\<lambda>db. db\<lparr>t_usage := t_usage db @ [u]\<rparr>)"

definition usage_get_by_reservation :: "uuid \<Rightarrow> db \<Rightarrow> usage_record option" where
  "usage_get_by_reservation reservation_id db =
     find (\<lambda>u. ur_reservation_id u = reservation_id) (t_usage db)"

definition usage_list_by_project :: "uuid \<Rightarrow> db \<Rightarrow> usage_record list" where
  "usage_list_by_project project_id db =
     sort_key (\<lambda>u. (ur_recorded_at u, ur_id u))
       (filter (\<lambda>u. ur_project_id u = project_id) (t_usage db))"

end
