(* ===== verification/Frame_Rules.thy ===== *)
theory Frame_Rules
  imports Repositories
begin

text \<open>
  What a successful operation does to the database as a whole. \<open>within R m\<close> says that \<open>m\<close> relates the
  database before to the one after by \<open>R\<close>; for every reflexive and transitive \<open>R\<close> it follows from the
  structure of \<open>m\<close> (the locale \<open>step_frame\<close>). Two relations are used: \<open>keeps f\<close>, a part \<open>f\<close> of the
  database is left alone, and \<open>grows\<close>, identifiers are only drawn. The collection \<open>frame_rules\<close> proves
  them, so that an invariant over some tables is only proved for the operations that write them.
\<close>

named_theorems frame_rules \<open>what an operation leaves alone\<close>

definition within :: "(db \<Rightarrow> db \<Rightarrow> bool) \<Rightarrow> 'a svc \<Rightarrow> bool" where
  "within R m \<longleftrightarrow> (\<forall>db x db'. m db = Inr (x, db') \<longrightarrow> R db db')"

abbreviation keeps :: "(db \<Rightarrow> 'b) \<Rightarrow> 'a svc \<Rightarrow> bool" where
  "keeps f m \<equiv> within (\<lambda>db db'. f db' = f db) m"

abbreviation grows :: "'a svc \<Rightarrow> bool" where
  "grows m \<equiv> within (\<lambda>db db'. t_next db \<le> t_next db') m"

lemma withinI: "(\<And>db x db'. m db = Inr (x, db') \<Longrightarrow> R db db') \<Longrightarrow> within R m"
  by (simp add: within_def)

lemma withinD: "within R m \<Longrightarrow> m db = Inr (x, db') \<Longrightarrow> R db db'"
  by (simp add: within_def)

section \<open>Combinators\<close>

locale step_frame =
  fixes R :: "db \<Rightarrow> db \<Rightarrow> bool"
  assumes same: "R db db" and next_step: "R db db' \<Longrightarrow> R db' db'' \<Longrightarrow> R db db''"
begin

lemma sreturn: "within R (sreturn x)"
  by (simp add: within_def same)

lemma sraise: "within R (sraise e)"
  by (simp add: within_def)

lemma slift: "within R (slift r)"
  by (simp add: within_def same)

lemma gets: "within R (gets g)"
  by (simp add: within_def same)

lemma sneed: "within R (sneed e g)"
  by (simp add: within_def same)

lemma sbind: "within R m \<Longrightarrow> (\<And>x. within R (g x)) \<Longrightarrow> within R (sbind m g)"
  by (rule withinI, erule sbind_InrE) (blast intro: next_step dest: withinD)

lemma branch: "within R m \<Longrightarrow> within R m' \<Longrightarrow> within R (if c then m else m')"
  by simp

lemma case_option: "within R m \<Longrightarrow> (\<And>x. within R (g x)) \<Longrightarrow> within R (case o' of None \<Rightarrow> m | Some x \<Rightarrow> g x)"
  by (cases o') simp_all

lemma case_list: "within R m \<Longrightarrow> (\<And>x xs. within R (g x xs)) \<Longrightarrow> within R (case l of [] \<Rightarrow> m | x # xs \<Rightarrow> g x xs)"
  by (cases l) simp_all

lemma case_prod: "(\<And>x y. within R (g x y)) \<Longrightarrow> within R (case p of (x, y) \<Rightarrow> g x y)"
  by (cases p) simp

lemma local_let: "(\<And>x. within R (g x)) \<Longrightarrow> within R (Let v g)"
  by simp

lemma seach: "(\<And>x. within R (m x)) \<Longrightarrow> within R (seach m xs)"
  by (induction xs) (auto intro: sreturn sbind)

lemma smap: "(\<And>x. within R (m x)) \<Longrightarrow> within R (smap m xs)"
  by (induction xs) (auto intro!: sreturn sbind)

lemmas combinators = sreturn sraise slift gets sneed sbind branch case_option case_list case_prod local_let
  seach smap

end

interpretation keep: step_frame "\<lambda>db db'. f db' = f db" for f :: "db \<Rightarrow> 'b"
  by unfold_locales auto

interpretation grow: step_frame "\<lambda>db db'. t_next db \<le> t_next db'"
  by unfold_locales auto

lemmas [frame_rules] = keep.combinators grow.combinators

lemma keeps_uuid4 [frame_rules]: "(\<And>db n. f (db\<lparr>t_next := n\<rparr>) = f db) \<Longrightarrow> keeps f uuid4"
  by (simp add: within_def)

lemma grows_uuid4 [frame_rules]: "grows uuid4"
  by (simp add: within_def)

section \<open>Repository operations\<close>

lemma keeps_emit [frame_rules]:
  "(\<And>db n es. f (db\<lparr>t_next := n, t_events := es\<rparr>) = f db) \<Longrightarrow> keeps f (emit a i t p now)"
  by (auto simp: within_def emit_def events_append_def)

lemma grows_emit [frame_rules]: "grows (emit a i t p now)"
  by (auto simp: within_def emit_def events_append_def)

lemma grows_of_keeps: "keeps t_next m \<Longrightarrow> grows m"
  by (simp add: within_def)

lemma keeps_runs_save [frame_rules]: "(\<And>db rs. f (db\<lparr>t_runs := rs\<rparr>) = f db) \<Longrightarrow> keeps f (runs_save r)"
  by (auto simp: within_def runs_save_def runs_add_def split: option.splits)

lemma keeps_runs_add [frame_rules]: "(\<And>db rs. f (db\<lparr>t_runs := rs\<rparr>) = f db) \<Longrightarrow> keeps f (runs_add r)"
  by (auto simp: within_def runs_add_def)

lemma keeps_requests_save [frame_rules]:
  "(\<And>db rs. f (db\<lparr>t_requests := rs\<rparr>) = f db) \<Longrightarrow> keeps f (requests_save r)"
  by (auto simp: within_def requests_save_def requests_add_def split: option.splits)

lemma keeps_requests_add [frame_rules]:
  "(\<And>db rs. f (db\<lparr>t_requests := rs\<rparr>) = f db) \<Longrightarrow> keeps f (requests_add r)"
  by (auto simp: within_def requests_add_def)

lemma keeps_projects_add [frame_rules]:
  "(\<And>db rs. f (db\<lparr>t_projects := rs\<rparr>) = f db) \<Longrightarrow> keeps f (projects_add r)"
  by (auto simp: within_def projects_add_def)

lemma keeps_executions_save [frame_rules]:
  "(\<And>db rs. f (db\<lparr>t_executions := rs\<rparr>) = f db) \<Longrightarrow> keeps f (executions_save ex)"
  by (auto simp: within_def executions_save_def executions_add_def split: option.splits)

lemma keeps_executions_add [frame_rules]:
  "(\<And>db rs. f (db\<lparr>t_executions := rs\<rparr>) = f db) \<Longrightarrow> keeps f (executions_add ex)"
  by (auto simp: within_def executions_add_def)

lemma keeps_artifacts_add [frame_rules]:
  "(\<And>db rs. f (db\<lparr>t_artifacts := rs\<rparr>) = f db) \<Longrightarrow> keeps f (artifacts_add a)"
  by (auto simp: within_def artifacts_add_def)

lemma keeps_catalog_add [frame_rules]:
  "(\<And>db rs. f (db\<lparr>t_skills := rs\<rparr>) = f db) \<Longrightarrow> keeps f (skills_add s)"
  "(\<And>db rs. f (db\<lparr>t_phase_packs := rs\<rparr>) = f db) \<Longrightarrow> keeps f (phase_packs_add p)"
  "(\<And>db rs. f (db\<lparr>t_model_profiles := rs\<rparr>) = f db) \<Longrightarrow> keeps f (profiles_add m)"
  "(\<And>db rs. f (db\<lparr>t_definitions := rs\<rparr>) = f db) \<Longrightarrow> keeps f (definitions_add d)"
  by (auto simp: within_def skills_add_def phase_packs_add_def profiles_add_def definitions_add_def)

lemma keeps_bindings_save [frame_rules]:
  "(\<And>db rs. f (db\<lparr>t_bindings := rs\<rparr>) = f db) \<Longrightarrow> keeps f (bindings_save b)"
  by (auto simp: within_def bindings_save_def split: option.splits)

lemma keeps_receipts [frame_rules]:
  "(\<And>db rs. f (db\<lparr>t_receipts := rs\<rparr>) = f db) \<Longrightarrow> keeps f (receipts_try_claim r)"
  "(\<And>db rs. f (db\<lparr>t_receipts := rs\<rparr>) = f db) \<Longrightarrow> keeps f (receipts_save r)"
  by (auto simp: within_def receipts_try_claim_def receipts_save_def split: option.splits if_splits)

lemma keeps_budget_tables [frame_rules]:
  "(\<And>db rs. f (db\<lparr>t_accounts := rs\<rparr>) = f db) \<Longrightarrow> keeps f (accounts_save a)"
  "(\<And>db rs. f (db\<lparr>t_accounts := rs\<rparr>) = f db) \<Longrightarrow> keeps f (accounts_add a)"
  "(\<And>db rs. f (db\<lparr>t_reservations := rs\<rparr>) = f db) \<Longrightarrow> keeps f (reservations_save r)"
  "(\<And>db rs. f (db\<lparr>t_reservations := rs\<rparr>) = f db) \<Longrightarrow> keeps f (reservations_add r)"
  "(\<And>db rs. f (db\<lparr>t_usage := rs\<rparr>) = f db) \<Longrightarrow> keeps f (usage_add u)"
  by (auto simp: within_def accounts_save_def accounts_add_def reservations_save_def reservations_add_def
      usage_add_def split: option.splits)

lemmas grows_tables [frame_rules] =
  grows_of_keeps[OF keeps_runs_save] grows_of_keeps[OF keeps_runs_add]
  grows_of_keeps[OF keeps_requests_save] grows_of_keeps[OF keeps_requests_add]
  grows_of_keeps[OF keeps_projects_add] grows_of_keeps[OF keeps_executions_save]
  grows_of_keeps[OF keeps_executions_add] grows_of_keeps[OF keeps_artifacts_add]
  grows_of_keeps[OF keeps_catalog_add(1)] grows_of_keeps[OF keeps_catalog_add(2)]
  grows_of_keeps[OF keeps_catalog_add(3)] grows_of_keeps[OF keeps_catalog_add(4)]
  grows_of_keeps[OF keeps_bindings_save] grows_of_keeps[OF keeps_receipts(1)]
  grows_of_keeps[OF keeps_receipts(2)] grows_of_keeps[OF keeps_budget_tables(1)]
  grows_of_keeps[OF keeps_budget_tables(2)] grows_of_keeps[OF keeps_budget_tables(3)]
  grows_of_keeps[OF keeps_budget_tables(4)] grows_of_keeps[OF keeps_budget_tables(5)]

section \<open>The row a query returns\<close>

lemma first_row_member: "first_row f xs = Some x \<Longrightarrow> x \<in> set xs"
  by (auto simp: first_row_def split: list.splits) (metis list.set_intros(1) set_sort)

end
