(* ===== verification/Tasks.thy ===== *)
theory Tasks
  imports Frame_Rules
begin

text \<open>
  The boundary between the orchestrator and its workers: \<^verbatim>\<open>worker/models.py\<close> and the policy of
  \<^verbatim>\<open>application/output_contracts.py\<close> that turns an output that breaks its phase pack's contract
  into a failure the graph can route.
\<close>

record task_artifact_input =
  ti_name :: string
  ti_artifact :: task_artifact

record task_context_envelope =
  te_request :: workflow_request_context
  te_upstream_artifacts :: "task_artifact list"
  te_named_inputs :: "task_artifact_input list"

record task_claim =
  tc_execution_id :: uuid
  tc_run_id :: uuid
  tc_node_key :: string
  tc_executor_key :: string
  tc_worker_id :: string
  tc_lease_token :: uuid
  tc_idempotency_key :: string
  tc_visit_count :: int
  tc_attempt_count :: int
  tc_timeout_seconds :: int
  tc_workflow_key :: string
  tc_workflow_version :: int
  tc_instructions :: "string option"
  tc_configuration :: json_object
  tc_skills :: "skill_definition list"
  tc_phase_pack :: "phase_pack_definition option"
  tc_context :: "task_context_envelope option"
  tc_model_selection :: "model_selection option"
  tc_skill_paths :: "(string \<times> string) list"

record token_usage =
  tu_input_tokens :: int
  tu_output_tokens :: int

definition token_usage_init :: "token_usage \<Rightarrow> token_usage result" where
  "token_usage_init u =
     (if tu_input_tokens u < 0 \<or> tu_output_tokens u < 0
      then Inl (ValueError ''token usage must not be negative'') else Inr u)"

record task_result =
  tr_outcome :: node_outcome
  tr_output :: json_object
  tr_usage :: "token_usage option"

definition task_result_init :: "task_result \<Rightarrow> task_result result" where
  "task_result_init r =
     (if tr_outcome r \<notin> {OSuccess, OFailure}
      then Inl (ValueError ''task result outcome must be success or failure'') else Inr r)"

section \<open>Output contracts\<close>

record output_contract_decision =
  od_outcome :: node_outcome
  od_output :: json_object
  od_rejected :: bool

definition json_opt :: "string option \<Rightarrow> json" where
  "json_opt s = (case s of None \<Rightarrow> JNull | Some x \<Rightarrow> JStr x)"

definition contract_violation ::
    "phase_pack_definition \<Rightarrow> output_contract_violation list \<Rightarrow> json_object \<Rightarrow> json_object" where
  "contract_violation p violations output =
     [(''contract_violation'', JObj [(''reason'', JStr ''output_contract_violation''),
        (''phase_pack'', JObj [(''key'', JStr (pp_key p)), (''version'', JInt (pp_version p))]),
        (''errors'', JList (map (\<lambda>v. JObj [(''path'', JStr (ov_path v)),
           (''message'', JStr (ov_message v)), (''keyword'', json_opt (ov_keyword v))]) violations))]),
      (''rejected_output'', JObj output)]"

text \<open>\<open>iter_errors\<close> is the JSON Schema validator of \<^verbatim>\<open>validate_output\<close>.\<close>

definition enforce_output_contract ::
    "(json_object \<Rightarrow> json_object \<Rightarrow> schema_error list) \<Rightarrow> phase_pack_definition option \<Rightarrow> node_outcome
       \<Rightarrow> json_object \<Rightarrow> output_contract_decision" where
  "enforce_output_contract iter_errors phase_pack outcome output =
     (case phase_pack of
        None \<Rightarrow> \<lparr>od_outcome = outcome, od_output = output, od_rejected = False\<rparr>
      | Some p \<Rightarrow>
          if outcome \<noteq> OSuccess \<or> pp_output_contract p = []
          then \<lparr>od_outcome = outcome, od_output = output, od_rejected = False\<rparr>
          else (case validate_output iter_errors (pp_output_contract p) output of
              [] \<Rightarrow> \<lparr>od_outcome = outcome, od_output = output, od_rejected = False\<rparr>
            | violations \<Rightarrow> \<lparr>od_outcome = OFailure, od_output = contract_violation p violations output,
                od_rejected = True\<rparr>))"

lemma enforce_outcome:
  "outcome \<in> {OSuccess, OFailure} \<Longrightarrow>
     od_outcome (enforce_output_contract iter_errors p outcome output) \<in> {OSuccess, OFailure}"
  by (auto simp: enforce_output_contract_def split: option.split list.split)

lemma enforce_success_valid:
  "od_outcome (enforce_output_contract iter_errors (Some p) outcome output) = OSuccess \<Longrightarrow>
     pp_output_contract p = [] \<or> iter_errors (pp_output_contract p) output = []"
proof (cases "pp_output_contract p = [] \<or> outcome \<noteq> OSuccess")
  case False
  assume "od_outcome (enforce_output_contract iter_errors (Some p) outcome output) = OSuccess"
  then have "validate_output iter_errors (pp_output_contract p) output = []"
    using False by (auto simp: enforce_output_contract_def split: list.splits)
  then have "length (iter_errors (pp_output_contract p) output) = 0"
    by (simp add: validate_output_def) (metis length_0_conv length_sort)
  then show ?thesis by simp
qed (auto simp: enforce_output_contract_def)

end
