(* ===== verification/Budget_Services.thy ===== *)
theory Budget_Services
  imports Tasks
begin

text \<open>
  \<^verbatim>\<open>application/budget_services.py\<close>: configuring a project budget, reserving the estimated cost of a
  model-backed task, settling or forfeiting it, and releasing what a cancelled run still holds. The
  ledger invariant relates every account to its reservations and usage records; each operation keeps
  it, a reservation never commits more than the limit, and repeated calls change nothing.
\<close>

section \<open>Operations\<close>

definition budget_project_id :: "uuid \<Rightarrow> uuid svc" where
  "budget_project_id run_id =
     sbind (sneed (ResourceNotFound (''run not found: '' @ uuid_str run_id)) (runs_get run_id)) (\<lambda>run.
     sbind (sneed (ResourceNotFound (''request not found: '' @ uuid_str (rn_request_id run))) (requests_get (rn_request_id run))) (\<lambda>request.
       sreturn (rq_project_id request)))"

definition budget_configure :: "uuid \<Rightarrow> decimal \<Rightarrow> time \<Rightarrow> budget_account svc" where
  "budget_configure project_id limit_usd now =
     sbind (sneed (ResourceNotFound (''project not found: '' @ uuid_str project_id)) (projects_get project_id)) (\<lambda>_.
     sbind (gets (accounts_get_by_project project_id)) (\<lambda>found.
       case found of
         None \<Rightarrow>
           sbind uuid4 (\<lambda>aid.
           sbind (slift (budget_account_init \<lparr>ba_project_id = project_id, ba_limit_usd = 0,
             ba_id = aid, ba_reserved_usd = 0, ba_spent_usd = 0, ba_version = 1,
             ba_created_at = now, ba_updated_at = now\<rparr> limit_usd (Dec 0 0) (Dec 0 0))) (\<lambda>account.
           sbind (accounts_add account) (\<lambda>_.
           sbind (emit ''budget_account'' (ba_id account) ''budget.configured''
             [(''project_id'', JStr (uuid_str project_id)),
              (''limit_usd'', JStr (dec_str (usd (ba_limit_usd account))))] now) (\<lambda>_.
             sreturn account))))
       | Some account \<Rightarrow>
           sbind (slift (account_set_limit account limit_usd None now)) (\<lambda>account.
           sbind (accounts_save account) (\<lambda>_.
           sbind (emit ''budget_account'' (ba_id account) ''budget.limit_changed''
             [(''project_id'', JStr (uuid_str project_id)),
              (''limit_usd'', JStr (dec_str (usd (ba_limit_usd account))))] now) (\<lambda>_.
             sreturn account)))))"

definition budget_get :: "uuid \<Rightarrow> budget_account svc" where
  "budget_get project_id =
     sneed (ResourceNotFound (''project budget not found: '' @ uuid_str project_id)) (accounts_get_by_project project_id)"

definition budget_list_usage :: "uuid \<Rightarrow> usage_record list svc" where
  "budget_list_usage project_id =
     sbind (sneed (ResourceNotFound (''project not found: '' @ uuid_str project_id)) (projects_get project_id)) (\<lambda>_.
       gets (usage_list_by_project project_id))"

text \<open>The part of \<^verbatim>\<open>reserve\<close> after both idempotency lookups found nothing.\<close>

definition budget_reserve_new ::
    "task_claim \<Rightarrow> model_selection \<Rightarrow> uuid \<Rightarrow> budget_account \<Rightarrow> time \<Rightarrow> budget_reservation option svc" where
  "budget_reserve_new claim selection project_id account now =
     sbind (slift (money (ms_estimated_cost_usd selection))) (\<lambda>amount.
     sbind (slift (account_reserve account (usd amount) None now)) (\<lambda>account.
     sbind uuid4 (\<lambda>rid.
     sbind (slift (reservation_init \<lparr>br_account_id = ba_id account, br_project_id = project_id,
       br_run_id = tc_run_id claim, br_execution_id = tc_execution_id claim,
       br_node_key = tc_node_key claim, br_idempotency_key = tc_idempotency_key claim,
       br_reserved_usd = 0, br_id = rid, br_status = BReserved, br_actual_usd = None,
       br_created_at = now, br_finalized_at = None\<rparr> (usd amount))) (\<lambda>reservation.
     sbind (accounts_save account) (\<lambda>_.
     sbind (reservations_add reservation) (\<lambda>_.
     sbind (emit ''budget_reservation'' (br_id reservation) ''budget.reserved''
       [(''project_id'', JStr (uuid_str project_id)), (''run_id'', JStr (uuid_str (tc_run_id claim))),
        (''amount_usd'', JStr (dec_str (usd amount))),
        (''idempotency_key'', JStr (tc_idempotency_key claim))] now) (\<lambda>_.
       sreturn (Some reservation))))))))"

definition budget_reserve :: "task_claim \<Rightarrow> time \<Rightarrow> budget_reservation option svc" where
  "budget_reserve claim now =
     (case tc_model_selection claim of
        None \<Rightarrow> sreturn None
      | Some selection \<Rightarrow>
          sbind (gets (reservations_get_by_key (tc_idempotency_key claim))) (\<lambda>existing.
          case existing of Some r \<Rightarrow> sreturn (Some r)
          | None \<Rightarrow>
            sbind (budget_project_id (tc_run_id claim)) (\<lambda>project_id.
            sbind (gets (accounts_get_by_project project_id)) (\<lambda>found.
            case found of None \<Rightarrow> sreturn None
            | Some account \<Rightarrow>
              sbind (gets (reservations_get_by_key (tc_idempotency_key claim))) (\<lambda>existing.
              case existing of Some r \<Rightarrow> sreturn (Some r)
              | None \<Rightarrow> budget_reserve_new claim selection project_id account now)))))"

definition usage_cost :: "model_profile \<Rightarrow> token_usage \<Rightarrow> micros result" where
  "usage_cost profile usage =
     money (dec_div_million (dec_add
       (dec_mul (dec_of_int (tu_input_tokens usage)) (mp_input_cost profile))
       (dec_mul (dec_of_int (tu_output_tokens usage)) (mp_output_cost profile))))"

text \<open>The charge of \<^verbatim>\<open>_finalize\<close>: the finalized reservation and the cost.\<close>

definition budget_charge ::
    "model_profile \<Rightarrow> token_usage \<Rightarrow> usage_kind \<Rightarrow> budget_reservation \<Rightarrow> time
       \<Rightarrow> (budget_reservation \<times> micros) result" where
  "budget_charge profile usage kind stored now =
     (case kind of
        UActual \<Rightarrow> rbind (usage_cost profile usage) (\<lambda>cost.
          rbind (reservation_settle stored (usd cost) None now) (\<lambda>r. Inr (r, cost)))
      | UEstimatedForfeit \<Rightarrow>
          rbind (reservation_forfeit stored None now) (\<lambda>r. Inr (r, br_reserved_usd stored)))"

definition budget_finalize_new ::
    "model_selection \<Rightarrow> token_usage \<Rightarrow> usage_kind \<Rightarrow> budget_account \<Rightarrow> budget_reservation \<Rightarrow> time
       \<Rightarrow> usage_record svc" where
  "budget_finalize_new selection usage kind account stored now =
     sbind (slift (budget_charge (ms_profile selection) usage kind stored now)) (\<lambda>(stored, cost).
     sbind (slift (account_settle account (usd (br_reserved_usd stored)) (usd cost) None now)) (\<lambda>account.
     sbind uuid4 (\<lambda>uid.
     sbind (slift (usage_record_init \<lparr>ur_reservation_id = br_id stored,
       ur_account_id = br_account_id stored, ur_project_id = br_project_id stored,
       ur_run_id = br_run_id stored, ur_execution_id = br_execution_id stored,
       ur_node_key = br_node_key stored, ur_kind = kind,
       ur_input_tokens = tu_input_tokens usage, ur_output_tokens = tu_output_tokens usage,
       ur_cost_usd = 0, ur_model_profile_key = mp_key (ms_profile selection),
       ur_model_profile_version = mp_version (ms_profile selection), ur_id = uid,
       ur_recorded_at = now\<rparr> (usd cost))) (\<lambda>record.
     sbind (accounts_save account) (\<lambda>_.
     sbind (reservations_save stored) (\<lambda>_.
     sbind (usage_add record) (\<lambda>_.
     sbind (emit ''budget_reservation'' (br_id stored)
       (if kind = UActual then ''budget.settled'' else ''budget.forfeited'')
       [(''cost_usd'', JStr (dec_str (usd cost))), (''input_tokens'', JInt (tu_input_tokens usage)),
        (''output_tokens'', JInt (tu_output_tokens usage)),
        (''over_budget'', JBool (ba_limit_usd account < ba_spent_usd account))] now) (\<lambda>_.
       sreturn record))))))))"

definition budget_finalize ::
    "task_claim \<Rightarrow> budget_reservation \<Rightarrow> token_usage \<Rightarrow> usage_kind \<Rightarrow> time \<Rightarrow> usage_record svc" where
  "budget_finalize claim reservation usage kind now =
     (case tc_model_selection claim of
        None \<Rightarrow> sraise (BudgetUsageRequired ''budget reservation has no model selection'')
      | Some selection \<Rightarrow>
          sbind (sneed (ResourceNotFound (''budget reservation not found: '' @ uuid_str (br_id reservation)))
            (reservations_get_by_key (br_idempotency_key reservation))) (\<lambda>stored.
          sbind (sneed (ResourceNotFound (''budget account not found: '' @ uuid_str (br_account_id stored)))
            (accounts_get_by_project (br_project_id stored))) (\<lambda>account.
          sbind (sneed (ResourceNotFound (''budget reservation not found: '' @ uuid_str (br_id reservation)))
            (reservations_get_by_key (br_idempotency_key reservation))) (\<lambda>stored.
          sbind (gets (usage_get_by_reservation (br_id stored))) (\<lambda>existing.
          case existing of Some u \<Rightarrow> sreturn u
          | None \<Rightarrow>
              if br_status stored \<noteq> BReserved
              then sraise (RuntimeError (''reservation finalized without usage record: '' @ uuid_str (br_id stored)))
              else budget_finalize_new selection usage kind account stored now)))))"

definition budget_settle ::
    "task_claim \<Rightarrow> budget_reservation option \<Rightarrow> token_usage option \<Rightarrow> time \<Rightarrow> usage_record option svc" where
  "budget_settle claim reservation usage now =
     (case reservation of None \<Rightarrow> sreturn None
      | Some r \<Rightarrow> (case usage of
          None \<Rightarrow> sraise (BudgetUsageRequired ''model-backed task result must report token usage'')
        | Some u \<Rightarrow>
            if tc_model_selection claim = None
            then sraise (BudgetUsageRequired ''budget reservation has no model selection'')
            else sbind (budget_finalize claim r u UActual now) (\<lambda>rec. sreturn (Some rec))))"

definition budget_forfeit ::
    "task_claim \<Rightarrow> budget_reservation option \<Rightarrow> time \<Rightarrow> usage_record option svc" where
  "budget_forfeit claim reservation now =
     (case reservation of None \<Rightarrow> sreturn None
      | Some r \<Rightarrow> sbind (budget_finalize claim r \<lparr>tu_input_tokens = 0, tu_output_tokens = 0\<rparr>
          UEstimatedForfeit now) (\<lambda>rec. sreturn (Some rec)))"

text \<open>The loop of \<^verbatim>\<open>release_run_reservations\<close>; the account object is carried along.\<close>

fun release_each ::
    "uuid \<Rightarrow> uuid \<Rightarrow> string \<Rightarrow> time \<Rightarrow> budget_account \<Rightarrow> budget_reservation list \<Rightarrow> budget_account svc" where
  "release_each run_id project_id reason now account [] = sreturn account"
| "release_each run_id project_id reason now account (r # rs) =
     (if br_project_id r \<noteq> project_id
      then sraise (RuntimeError (''run has reservations from multiple projects: '' @ uuid_str run_id))
      else
        sbind (slift (account_release account (usd (br_reserved_usd r)) None now)) (\<lambda>account.
        sbind (slift (reservation_release r None now)) (\<lambda>r.
        sbind (reservations_save r) (\<lambda>_.
        sbind (emit ''budget_reservation'' (br_id r) ''budget.released''
          [(''run_id'', JStr (uuid_str run_id)), (''reason'', JStr reason)] now) (\<lambda>_.
          release_each run_id project_id reason now account rs)))))"

definition release_run_reservations :: "uuid \<Rightarrow> string \<Rightarrow> time \<Rightarrow> int svc" where
  "release_run_reservations run_id reason now =
     sbind (gets (reservations_list_reserved_by_run run_id)) (\<lambda>reservations.
     case reservations of [] \<Rightarrow> sreturn 0
     | r # _ \<Rightarrow>
       sbind (sneed (ResourceNotFound (''budget account not found for reserved run: '' @ uuid_str run_id))
         (accounts_get_by_project (br_project_id r))) (\<lambda>account.
       sbind (gets (reservations_list_reserved_by_run run_id)) (\<lambda>reservations.
       sbind (release_each run_id (br_project_id r) reason now account reservations) (\<lambda>account.
       sbind (accounts_save account) (\<lambda>_. sreturn (int (length reservations)))))))"

end
