(* ===== verification/Workflow_Services.thy ===== *)
theory Workflow_Services
  imports Budget_Services
begin

text \<open>
  \<^verbatim>\<open>application/execution_lifecycle.py\<close> and \<^verbatim>\<open>application/workflow_services.py\<close>: the transactional use
  cases around the engine. Each operation loads an execution, applies one engine transition, saves the
  aggregate with its artifacts and events, and brings the parent run and request in line with the
  execution's status before it commits.
\<close>

section \<open>Parent lifecycle\<close>

fun run_status_by_workflow :: "workflow_status \<Rightarrow> run_status" where
  "run_status_by_workflow WPending = RQueued"
| "run_status_by_workflow WRunning = RRunning"
| "run_status_by_workflow WAwaitingApproval = RAwaitingApproval"
| "run_status_by_workflow WSucceeded = RSucceeded"
| "run_status_by_workflow WFailed = RFailed"
| "run_status_by_workflow WCancelled = RCancelled"

text \<open>\<^verbatim>\<open>reason or default\<close>.\<close>

definition or_default :: "string option \<Rightarrow> string \<Rightarrow> string" where
  "or_default reason d = (case reason of None \<Rightarrow> d | Some r \<Rightarrow> if r = [] then d else r)"

definition move_run :: "workflow_execution \<Rightarrow> run \<Rightarrow> time \<Rightarrow> run result" where
  "move_run ex run now =
     (let target = run_status_by_workflow (we_status ex) in
      if target = RFailed
      then run_fail run (or_default (we_failure_reason ex) ''workflow execution failed'')
             (Some (we_updated_at ex)) now
      else run_transition_to run target (Some (we_updated_at ex)) now)"

definition sync_run :: "workflow_execution \<Rightarrow> run \<Rightarrow> time \<Rightarrow> unit svc" where
  "sync_run ex run now =
     (if rn_status run = run_status_by_workflow (we_status ex) then sreturn ()
      else
        sbind (slift (move_run ex run now)) (\<lambda>run'.
        sbind (runs_save run') (\<lambda>_.
          emit ''run'' (rn_id run') ''run.status_changed''
            [(''from'', JStr (run_status_value (rn_status run))),
             (''to'', JStr (run_status_value (rn_status run'))),
             (''workflow_execution_id'', JStr (uuid_str (we_id ex)))] now)))"

definition finish_request ::
    "workflow_execution \<Rightarrow> run \<Rightarrow> user_request result \<Rightarrow> string \<Rightarrow> time \<Rightarrow> unit svc" where
  "finish_request ex run moved event_type now =
     sbind (slift moved) (\<lambda>request.
     sbind (requests_save request) (\<lambda>_.
       emit ''request'' (rq_id request) event_type
         [(''run_id'', JStr (uuid_str (rn_id run))),
          (''workflow_execution_id'', JStr (uuid_str (we_id ex)))] now))"

definition sync_request :: "workflow_execution \<Rightarrow> run \<Rightarrow> user_request \<Rightarrow> time \<Rightarrow> unit svc" where
  "sync_request ex run request now =
     (if we_status ex = WSucceeded \<and> rq_status request = QActive
      then finish_request ex run (request_complete request (Some (we_updated_at ex)) now)
             ''request.completed'' now
      else if we_status ex = WCancelled \<and> rq_status request \<in> {QReceived, QActive}
      then finish_request ex run (request_cancel request (Some (we_updated_at ex)) now)
             ''request.cancelled'' now
      else sreturn ())"

definition synchronize_execution_lifecycle :: "workflow_execution \<Rightarrow> time \<Rightarrow> unit svc" where
  "synchronize_execution_lifecycle ex now =
     (case ws_request_context (we_snapshot ex) of
        None \<Rightarrow> sreturn ()
      | Some _ \<Rightarrow>
          sbind (sneed (ResourceNotFound (''run not found: '' @ uuid_str (ws_run_id (we_snapshot ex)))) (runs_get (ws_run_id (we_snapshot ex)))) (\<lambda>run.
          sbind (sneed (ResourceNotFound (''request not found: '' @ uuid_str (rn_request_id run))) (requests_get (rn_request_id run))) (\<lambda>request.
          sbind (sync_run ex run now) (\<lambda>_.
            sync_request ex run request now))))"

section \<open>Resolving the references of a definition\<close>

definition resolve_skills ::
    "workflow_definition \<Rightarrow> phase_pack_definition list \<Rightarrow> skill_definition list svc" where
  "resolve_skills d packs =
     smap (\<lambda>r. sneed (ResourceNotFound (''skill not found: '' @ at_version (sr_key r) (sr_version r))) (skills_get (sr_key r) (Some (sr_version r))))
       (sort_key (\<lambda>r. (sr_key r, sr_version r))
         (remdups (concat (map nd_skills (wd_nodes d)) @ concat (map pp_skills packs))))"

definition resolve_phase_packs :: "workflow_definition \<Rightarrow> phase_pack_definition list svc" where
  "resolve_phase_packs d =
     smap (\<lambda>r. sneed (ResourceNotFound (''phase pack not found: '' @ at_version (pr_key r) (pr_version r)))
         (phase_packs_get (pr_key r) (Some (pr_version r))))
       (sort_key (\<lambda>r. (pr_key r, pr_version r)) (remdups (node_phase_packs (wd_nodes d))))"

definition validate_node_inputs ::
    "phase_pack_definition list \<Rightarrow> node_definition \<Rightarrow> unit result" where
  "validate_node_inputs packs n =
     (case nd_phase_pack n of
        None \<Rightarrow> Inr ()
      | Some r \<Rightarrow> (case find_phase_pack (rev packs) r of
          None \<Rightarrow> Inl (KeyError (pr_key r))
        | Some p \<Rightarrow>
            let mapped = map im_input_key (nd_input_mappings n);
                missing = filter (\<lambda>k. k \<notin> set mapped) (map pi_key (filter pi_required (pp_inputs p))) in
            if \<not> set mapped \<subseteq> set (map pi_key (pp_inputs p))
            then Inl (WorkflowDefinitionError (''node '' @ nd_key n
              @ '' maps an undeclared input from '' @ pp_key p))
            else if missing \<noteq> []
            then Inl (WorkflowDefinitionError (''node '' @ nd_key n
              @ '' is missing required phase inputs: '' @ py_join '', '' (sort missing)))
            else Inr ()))"

definition validate_phase_inputs ::
    "workflow_definition \<Rightarrow> phase_pack_definition list \<Rightarrow> unit result" where
  "validate_phase_inputs d packs = each (validate_node_inputs packs) (wd_nodes d)"

definition executor_or_default :: "node_definition \<Rightarrow> string" where
  "executor_or_default n = or_default (nd_executor_key n) ''default''"

definition route_node :: "model_profile list \<Rightarrow> node_definition \<Rightarrow> node_model_selection list result" where
  "route_node profiles n =
     (case nd_model_routing n of
        None \<Rightarrow> Inr []
      | Some r \<Rightarrow> rbind (route_model r profiles (executor_or_default n)) (\<lambda>selection.
          rbind (node_model_selection_init \<lparr>ns_node_key = nd_key n, ns_selection = selection\<rparr>)
            (\<lambda>s. Inr [s])))"

definition route_models :: "workflow_definition \<Rightarrow> node_model_selection list svc" where
  "route_models d =
     sbind (gets profiles_list_latest) (\<lambda>profiles.
       slift (rbind (map_result (route_node profiles) (wd_nodes d)) (\<lambda>xs. Inr (concat xs))))"

section \<open>Definitions\<close>

definition register_definition :: "workflow_definition \<Rightarrow> time \<Rightarrow> workflow_definition svc" where
  "register_definition d now =
     sbind (gets (definitions_get (wd_key d) (Some (wd_version d)))) (\<lambda>stored.
       if stored \<noteq> None
       then sraise (ResourceConflict (''workflow definition already exists: '' @ at_version (wd_key d) (wd_version d)))
       else
         sbind (resolve_phase_packs d) (\<lambda>packs.
         sbind (resolve_skills d packs) (\<lambda>_.
         sbind (slift (validate_phase_inputs d packs)) (\<lambda>_.
         sbind (definitions_add d) (\<lambda>_.
         sbind (emit ''workflow_definition'' (wd_id d) ''workflow.definition_registered''
           [(''key'', JStr (wd_key d)), (''version'', JInt (wd_version d))] now) (\<lambda>_.
           sreturn d))))))"

definition get_definition :: "string \<Rightarrow> int option \<Rightarrow> workflow_definition svc" where
  "get_definition key version =
     sneed (ResourceNotFound (''workflow definition not found: '' @ with_suffix key version)) (definitions_get key version)"

definition list_latest_definitions :: "workflow_definition list svc" where
  "list_latest_definitions = gets definitions_list_latest"

section \<open>Starting an execution\<close>

definition execution_event ::
    "workflow_execution \<Rightarrow> string \<Rightarrow> json_object \<Rightarrow> time \<Rightarrow> unit svc" where
  "execution_event ex event_type payload now =
     emit ''workflow_execution'' (we_id ex) event_type
       ((''status'', JStr (workflow_status_value (we_status ex))) # payload) now"

definition selection_json :: "node_model_selection \<Rightarrow> json" where
  "selection_json v = JObj [(''node_key'', JStr (ns_node_key v)),
     (''profile_key'', JStr (mp_key (ms_profile (ns_selection v)))),
     (''profile_version'', JInt (mp_version (ms_profile (ns_selection v)))),
     (''policy_version'', JInt (ms_policy_version (ns_selection v))),
     (''estimated_cost_usd'', JStr (dec_str (ms_estimated_cost_usd (ns_selection v))))]"

definition request_context_of :: "user_request \<Rightarrow> project \<Rightarrow> workflow_request_context" where
  "request_context_of request project =
     \<lparr>rc_request_id = rq_id request, rc_project_id = pj_id project, rc_project_key = pj_key project,
      rc_project_name = pj_name project, rc_repository_url = pj_repository_url project,
      rc_default_branch = pj_default_branch project, rc_prompt = rq_prompt request,
      rc_title = rq_title request\<rparr>"

text \<open>\<^verbatim>\<open>WorkflowExecution.create\<close> with the identifiers its default factories draw.\<close>

definition ids_of :: "(string \<times> uuid) list \<Rightarrow> string \<Rightarrow> uuid" where
  "ids_of ids k = (case map_of ids k of None \<Rightarrow> 0 | Some i \<Rightarrow> i)"

definition new_execution :: "workflow_snapshot \<Rightarrow> time \<Rightarrow> workflow_execution svc" where
  "new_execution s now =
     sbind uuid4 (\<lambda>eid.
     sbind (smap (\<lambda>n. sbind uuid4 (\<lambda>i. sreturn (nd_key n, i))) (ws_nodes s)) (\<lambda>ids.
       sreturn (execution_create s eid (ids_of ids) now)))"

definition create_execution ::
    "run \<Rightarrow> user_request \<Rightarrow> project \<Rightarrow> workflow_definition \<Rightarrow> string \<Rightarrow> time \<Rightarrow> workflow_execution svc" where
  "create_execution run request project d selection_source now =
     sbind (gets (executions_get_by_run (rn_id run))) (\<lambda>existing.
       if existing \<noteq> None
       then sraise (ResourceConflict (''workflow execution already exists for run: '' @ uuid_str (rn_id run)))
       else
         sbind (resolve_phase_packs d) (\<lambda>packs.
         sbind (resolve_skills d packs) (\<lambda>skills.
         sbind (route_models d) (\<lambda>selections.
         sbind (slift (workflow_request_context_init (request_context_of request project))) (\<lambda>context.
         sbind uuid4 (\<lambda>sid.
         sbind (slift (snapshot_from_definition d (rn_id run) (Some context) packs skills selections sid now)) (\<lambda>s.
         sbind (new_execution s now) (\<lambda>ex0.
         sbind (slift (start ex0 None now)) (\<lambda>ex.
         sbind (executions_add ex) (\<lambda>_.
         sbind (execution_event ex ''workflow.started''
           [(''selection_source'', JStr selection_source),
            (''model_selections'', JList (map selection_json selections))] now) (\<lambda>_.
         sbind (synchronize_execution_lifecycle ex now) (\<lambda>_.
           sreturn ex))))))))))))"

definition workflow_start :: "uuid \<Rightarrow> string \<Rightarrow> int option \<Rightarrow> time \<Rightarrow> workflow_execution svc" where
  "workflow_start run_id definition_key version now =
     sbind (sneed (ResourceNotFound (''run not found: '' @ uuid_str run_id)) (runs_get run_id)) (\<lambda>run.
     sbind (sneed (ResourceNotFound (''request not found: '' @ uuid_str (rn_request_id run))) (requests_get (rn_request_id run))) (\<lambda>request.
     sbind (sneed (ResourceNotFound (''project not found: '' @ uuid_str (rq_project_id request))) (projects_get (rq_project_id request))) (\<lambda>project.
     sbind (sneed (ResourceNotFound (''workflow definition not found: '' @ with_suffix definition_key version))
       (definitions_get definition_key version)) (\<lambda>d.
       create_execution run request project d ''explicit'' now))))"

section \<open>Transitions\<close>

definition get_execution :: "uuid \<Rightarrow> workflow_execution svc" where
  "get_execution execution_id =
     sneed (ResourceNotFound (''workflow execution not found: '' @ uuid_str execution_id)) (executions_get execution_id)"

definition get_execution_by_run :: "uuid \<Rightarrow> workflow_execution svc" where
  "get_execution_by_run run_id =
     sneed (ResourceNotFound (''workflow execution not found for run: '' @ uuid_str run_id)) (executions_get_by_run run_id)"

definition service_begin_task :: "uuid \<Rightarrow> string \<Rightarrow> time \<Rightarrow> workflow_execution svc" where
  "service_begin_task execution_id key now =
     sbind (get_execution execution_id) (\<lambda>ex0.
     sbind (slift (begin_task ex0 key None now)) (\<lambda>ex.
     sbind (executions_save ex) (\<lambda>_.
     sbind (execution_event ex ''workflow.node_started'' [(''node_key'', JStr key)] now) (\<lambda>_.
       sreturn ex))))"

text \<open>The pack a node's definition pins, or none.\<close>

definition pinned_phase_pack ::
    "workflow_execution \<Rightarrow> node_definition \<Rightarrow> phase_pack_definition option result" where
  "pinned_phase_pack ex d =
     (case nd_phase_pack d of
        None \<Rightarrow> Inr None
      | Some r \<Rightarrow> rbind (snapshot_phase_pack (we_snapshot ex) r) (\<lambda>p. Inr (Some p)))"

definition new_artifact ::
    "workflow_execution \<Rightarrow> string \<Rightarrow> int \<Rightarrow> output_contract_decision \<Rightarrow> time \<Rightarrow> task_artifact svc" where
  "new_artifact ex key visit_count decision created_at =
     sbind uuid4 (\<lambda>aid.
       slift (task_artifact_init \<lparr>ta_execution_id = we_id ex, ta_producer_node_key = key,
         ta_visit_count = visit_count, ta_outcome = od_outcome decision,
         ta_content = od_output decision, ta_id = aid, ta_created_at = created_at\<rparr>))"

text \<open>The tail the transitions share: save, record the event, synchronize the parents.\<close>

definition save_transition ::
    "workflow_execution \<Rightarrow> string \<Rightarrow> json_object \<Rightarrow> time \<Rightarrow> workflow_execution svc" where
  "save_transition ex event_type payload now =
     sbind (executions_save ex) (\<lambda>_.
     sbind (execution_event ex event_type payload now) (\<lambda>_.
     sbind (synchronize_execution_lifecycle ex now) (\<lambda>_.
       sreturn ex)))"

definition service_complete_task ::
    "(json_object \<Rightarrow> json_object \<Rightarrow> schema_error list) \<Rightarrow> uuid \<Rightarrow> string \<Rightarrow> node_outcome
       \<Rightarrow> json_object option \<Rightarrow> time \<Rightarrow> workflow_execution svc" where
  "service_complete_task iter_errors execution_id key outcome outp now =
     sbind (get_execution execution_id) (\<lambda>ex0.
     sbind (slift (of_option (KeyError key) (we_nodes ex0 key))) (\<lambda>n.
     sbind (slift (snapshot_node (we_snapshot ex0) key)) (\<lambda>d.
     sbind (slift (pinned_phase_pack ex0 d)) (\<lambda>pack.
       let decision = enforce_output_contract iter_errors pack outcome (case outp of None \<Rightarrow> [] | Some x \<Rightarrow> x);
           effective = (if od_rejected decision then Some (od_output decision) else outp) in
       sbind (slift (complete_task ex0 key (od_outcome decision) effective None None now)) (\<lambda>ex.
       sbind (new_artifact ex key (ne_visit_count n) decision now) (\<lambda>artifact.
       sbind (artifacts_add artifact) (\<lambda>_.
         save_transition ex ''workflow.node_completed''
           [(''node_key'', JStr key), (''outcome'', JStr (outcome_value (od_outcome decision))),
            (''artifact_id'', JStr (uuid_str (ta_id artifact))),
            (''output_contract_rejected'', JBool (od_rejected decision))] now)))))))"

definition list_artifacts :: "uuid \<Rightarrow> task_artifact list svc" where
  "list_artifacts execution_id =
     sbind (get_execution execution_id) (\<lambda>_. gets (artifacts_list_for_execution execution_id))"

definition service_fail_task :: "uuid \<Rightarrow> string \<Rightarrow> string \<Rightarrow> time \<Rightarrow> workflow_execution svc" where
  "service_fail_task execution_id key reason now =
     sbind (get_execution execution_id) (\<lambda>ex0.
     sbind (slift (fail_task ex0 key reason None None now)) (\<lambda>ex.
       save_transition ex ''workflow.node_failed''
         [(''node_key'', JStr key), (''reason'', JStr reason)] now))"

definition service_resolve_approval :: "uuid \<Rightarrow> string \<Rightarrow> bool \<Rightarrow> time \<Rightarrow> workflow_execution svc" where
  "service_resolve_approval execution_id key approved now =
     sbind (get_execution execution_id) (\<lambda>ex0.
     sbind (slift (resolve_approval ex0 key approved None now)) (\<lambda>ex.
       save_transition ex ''workflow.approval_resolved''
         [(''node_key'', JStr key), (''approved'', JBool approved)] now))"

definition service_cancel :: "uuid \<Rightarrow> time \<Rightarrow> workflow_execution svc" where
  "service_cancel execution_id now =
     sbind (get_execution execution_id) (\<lambda>ex0.
     sbind (slift (cancel ex0 None now)) (\<lambda>ex.
     sbind (release_run_reservations (ws_run_id (we_snapshot ex)) ''workflow_cancelled'' now) (\<lambda>_.
       save_transition ex ''workflow.cancelled'' [] now)))"

end
