(* ===== verification/Task_Dispatch.thy ===== *)
theory Task_Dispatch
  imports Workflow_Services
begin

text \<open>
  \<^verbatim>\<open>application/task_dispatch.py\<close>: claiming a ready task under a lease, renewing it, completing or
  failing the task with the lease's token, and recovering tasks whose lease expired; and
  \<^verbatim>\<open>application/services.py\<close>: projects, requests and runs. \<open>grace\<close> is the service's
  \<^verbatim>\<open>lease_grace_seconds\<close>.
\<close>

section \<open>Task dispatch\<close>

definition dispatch_init :: "int \<Rightarrow> int result" where
  "dispatch_init lease_grace_seconds =
     (if lease_grace_seconds < 1
      then Inl (ValueError ''lease_grace_seconds must be greater than zero'') else Inr lease_grace_seconds)"

text \<open>The dictionary of the latest artifacts by producer: a later row replaces an earlier one.\<close>

definition artifact_of :: "task_artifact list \<Rightarrow> string \<Rightarrow> task_artifact option" where
  "artifact_of artifacts key = find (\<lambda>a. ta_producer_node_key a = key) (rev artifacts)"

definition named_inputs :: "task_artifact list \<Rightarrow> node_input_mapping list \<Rightarrow> task_artifact_input list" where
  "named_inputs artifacts mappings = List.map_filter (\<lambda>mp.
     map_option (\<lambda>a. \<lparr>ti_name = im_input_key mp, ti_artifact = a\<rparr>) (artifact_of artifacts (im_source_node mp)))
     mappings"

definition resolve_artifact_inputs ::
    "workflow_execution \<Rightarrow> string \<Rightarrow> (task_artifact list \<times> task_artifact_input list) svc" where
  "resolve_artifact_inputs ex key =
     sbind (slift (snapshot_node (we_snapshot ex) key)) (\<lambda>node.
       case nd_phase_pack node of
         None \<Rightarrow>
           sbind (gets (artifacts_list_latest_for_nodes (we_id ex) (incoming_sources (we_snapshot ex) key)))
             (\<lambda>artifacts. sreturn (artifacts, []))
       | Some r \<Rightarrow>
           sbind (slift (snapshot_phase_pack (we_snapshot ex) r)) (\<lambda>pack.
           sbind (gets (artifacts_list_latest_for_nodes (we_id ex)
             (map im_source_node (nd_input_mappings node)))) (\<lambda>artifacts.
             let inputs = named_inputs artifacts (nd_input_mappings node);
                 missing = filter (\<lambda>k. k \<notin> ti_name ` set inputs) (map pi_key (filter pi_required (pp_inputs pack))) in
             if missing \<noteq> []
             then sraise (WorkflowExecutionError (''task '' @ key
               @ '' is missing required artifact inputs: '' @ py_join '', '' (sort (remdups missing))))
             else sreturn (artifacts, inputs))))"

definition claim_skills ::
    "workflow_execution \<Rightarrow> node_definition \<Rightarrow> phase_pack_definition option \<Rightarrow> skill_definition list result" where
  "claim_skills ex d pack =
     map_result (snapshot_skill (we_snapshot ex))
       (sort_key (\<lambda>r. (sr_key r, sr_version r))
         (remdups (nd_skills d @ (case pack of None \<Rightarrow> [] | Some p \<Rightarrow> pp_skills p))))"

definition task_idempotency_key :: "uuid \<Rightarrow> string \<Rightarrow> int \<Rightarrow> string" where
  "task_idempotency_key execution_id node_key visit_count =
     uuid_str execution_id @ '':'' @ node_key @ '':'' @ str_int visit_count"

definition build_claim ::
    "workflow_execution \<Rightarrow> node_definition \<Rightarrow> node_execution \<Rightarrow> string \<Rightarrow> uuid \<Rightarrow> phase_pack_definition option
       \<Rightarrow> task_artifact list \<Rightarrow> task_artifact_input list \<Rightarrow> skill_definition list \<Rightarrow> task_claim" where
  "build_claim ex d n worker_id token pack artifacts inputs skills =
     \<lparr>tc_execution_id = we_id ex, tc_run_id = ws_run_id (we_snapshot ex), tc_node_key = ne_node_key n,
      tc_executor_key = ne_executor_key n, tc_worker_id = worker_id, tc_lease_token = token,
      tc_idempotency_key = task_idempotency_key (we_id ex) (ne_node_key n) (ne_visit_count n),
      tc_visit_count = ne_visit_count n, tc_attempt_count = ne_attempt_count n,
      tc_timeout_seconds = nd_timeout_seconds d, tc_workflow_key = ws_definition_key (we_snapshot ex),
      tc_workflow_version = ws_definition_version (we_snapshot ex), tc_instructions = nd_instructions d,
      tc_configuration = nd_configuration d, tc_skills = skills, tc_phase_pack = pack,
      tc_context = map_option (\<lambda>c. \<lparr>te_request = c, te_upstream_artifacts = artifacts,
        te_named_inputs = inputs\<rparr>) (ws_request_context (we_snapshot ex)),
      tc_model_selection = snapshot_model_selection (we_snapshot ex) (ne_node_key n), tc_skill_paths = []\<rparr>"

definition claim_candidate ::
    "int \<Rightarrow> string \<Rightarrow> workflow_execution \<Rightarrow> string \<Rightarrow> time \<Rightarrow> time \<Rightarrow> task_claim svc" where
  "claim_candidate grace worker_id ex0 key changed_at now =
     sbind (slift (snapshot_node (we_snapshot ex0) key)) (\<lambda>d.
     sbind (slift (pinned_phase_pack ex0 d)) (\<lambda>pack.
     sbind (resolve_artifact_inputs ex0 key) (\<lambda>(artifacts, inputs).
     sbind uuid4 (\<lambda>fresh.
     sbind (slift (claim_task ex0 key worker_id (nd_timeout_seconds d + grace) None fresh
       (Some changed_at) now)) (\<lambda>ex.
     sbind (slift (node_execution_of ex key)) (\<lambda>n.
       case ne_lease_token n of
         None \<Rightarrow> sraise (RuntimeError ''claimed node did not receive a lease token'')
       | Some token \<Rightarrow>
           sbind (slift (claim_skills ex d pack)) (\<lambda>skills.
           sbind (executions_save ex) (\<lambda>_.
           sbind (execution_event ex ''task.claimed''
             [(''node_key'', JStr (ne_node_key n)), (''worker_id'', JStr worker_id),
              (''lease_token'', JStr (uuid_str token)), (''attempt'', JInt (ne_attempt_count n))] now) (\<lambda>_.
             sreturn (build_claim ex d n worker_id token pack artifacts inputs skills))))))))))"

definition claim_next ::
    "int \<Rightarrow> string \<Rightarrow> string list option \<Rightarrow> time option \<Rightarrow> time \<Rightarrow> task_claim option svc" where
  "claim_next grace worker_id executor_keys at now =
     sbind (gets (get_ready_for_update executor_keys)) (\<lambda>candidate.
       case candidate of
         None \<Rightarrow> sreturn None
       | Some (ex, key) \<Rightarrow>
           sbind (claim_candidate grace worker_id ex key (at_or_now at now) now) (\<lambda>c. sreturn (Some c)))"

definition dispatch_heartbeat ::
    "int \<Rightarrow> task_claim \<Rightarrow> time option \<Rightarrow> time \<Rightarrow> workflow_execution svc" where
  "dispatch_heartbeat grace claim at now =
     sbind (get_execution (tc_execution_id claim)) (\<lambda>ex0.
     sbind (slift (snapshot_node (we_snapshot ex0) (tc_node_key claim))) (\<lambda>d.
     sbind (slift (renew_lease ex0 (tc_node_key claim) (tc_lease_token claim)
       (nd_timeout_seconds d + grace) (Some (at_or_now at now)) now)) (\<lambda>ex.
     sbind (executions_save ex) (\<lambda>_.
     sbind (execution_event ex ''task.lease_renewed''
       [(''node_key'', JStr (tc_node_key claim)), (''worker_id'', JStr (tc_worker_id claim))] now) (\<lambda>_.
       sreturn ex)))))"

definition dispatch_complete ::
    "(json_object \<Rightarrow> json_object \<Rightarrow> schema_error list) \<Rightarrow> task_claim \<Rightarrow> task_result \<Rightarrow> time option \<Rightarrow> time
       \<Rightarrow> workflow_execution svc" where
  "dispatch_complete iter_errors claim result at now =
     sbind (get_execution (tc_execution_id claim)) (\<lambda>ex0.
     sbind (slift (snapshot_node (we_snapshot ex0) (tc_node_key claim))) (\<lambda>d.
     sbind (slift (pinned_phase_pack ex0 d)) (\<lambda>pack.
       let decision = enforce_output_contract iter_errors pack (tr_outcome result) (tr_output result) in
       sbind (slift (complete_task ex0 (tc_node_key claim) (od_outcome decision) (Some (od_output decision))
         (Some (tc_lease_token claim)) (Some (at_or_now at now)) now)) (\<lambda>ex.
       sbind (new_artifact ex (tc_node_key claim) (tc_visit_count claim) decision (at_or_now at now)) (\<lambda>artifact.
       sbind (artifacts_add artifact) (\<lambda>_.
         save_transition ex ''task.completed''
           [(''node_key'', JStr (tc_node_key claim)), (''worker_id'', JStr (tc_worker_id claim)),
            (''outcome'', JStr (outcome_value (od_outcome decision))),
            (''artifact_id'', JStr (uuid_str (ta_id artifact))),
            (''output_contract_rejected'', JBool (od_rejected decision))] now))))))"

definition dispatch_fail ::
    "task_claim \<Rightarrow> string \<Rightarrow> time option \<Rightarrow> time \<Rightarrow> workflow_execution svc" where
  "dispatch_fail claim reason at now =
     sbind (get_execution (tc_execution_id claim)) (\<lambda>ex0.
     sbind (slift (fail_task ex0 (tc_node_key claim) reason (Some (tc_lease_token claim))
       (Some (at_or_now at now)) now)) (\<lambda>ex.
       save_transition ex ''task.failed''
         [(''node_key'', JStr (tc_node_key claim)), (''worker_id'', JStr (tc_worker_id claim)),
          (''reason'', JStr reason)] now))"

definition recover_expired :: "time option \<Rightarrow> time \<Rightarrow> bool svc" where
  "recover_expired at now =
     sbind (gets (get_expired_for_update (at_or_now at now))) (\<lambda>candidate.
       case candidate of
         None \<Rightarrow> sreturn False
       | Some (ex0, key) \<Rightarrow>
           sbind (slift (of_option (KeyError key) (we_nodes ex0 key))) (\<lambda>n.
           sbind (slift (expire_task ex0 key (Some (at_or_now at now)) now)) (\<lambda>ex.
           sbind (save_transition ex ''task.lease_expired''
             [(''node_key'', JStr key), (''worker_id'', json_opt (ne_worker_id n))] now) (\<lambda>_.
             sreturn True))))"

section \<open>Projects, requests and runs\<close>

record register_project_command =
  rp_key :: string
  rp_name :: string
  rp_repository_url :: string
  rp_default_branch :: string

record create_user_request =
  cu_project_id :: uuid
  cu_prompt :: string
  cu_title :: "string option"

definition register_project :: "register_project_command \<Rightarrow> time \<Rightarrow> project svc" where
  "register_project c now =
     sbind uuid4 (\<lambda>pid.
     sbind (slift (project_init \<lparr>pj_key = rp_key c, pj_name = rp_name c,
       pj_repository_url = rp_repository_url c, pj_default_branch = rp_default_branch c, pj_id = pid,
       pj_status = PActive, pj_created_at = now, pj_updated_at = now\<rparr>)) (\<lambda>project.
     sbind (gets (projects_get_by_key (pj_key project))) (\<lambda>existing.
       if existing \<noteq> None
       then sraise (ResourceConflict (''project key already exists: '' @ pj_key project))
       else
         sbind (projects_add project) (\<lambda>_.
         sbind (emit ''project'' (pj_id project) ''project.registered'' [(''key'', JStr (pj_key project))] now) (\<lambda>_.
           sreturn project)))))"

definition get_project :: "uuid \<Rightarrow> project svc" where
  "get_project project_id = sneed (ResourceNotFound (''project not found: '' @ uuid_str project_id)) (projects_get project_id)"

text \<open>\<^verbatim>\<open>UserRequest(...)\<close> with its defaults, activated.\<close>

definition new_active_request ::
    "uuid \<Rightarrow> string \<Rightarrow> string option \<Rightarrow> request_origin option \<Rightarrow> time \<Rightarrow> user_request svc" where
  "new_active_request project_id prompt title orig now =
     sbind uuid4 (\<lambda>qid.
     sbind (slift (user_request_init \<lparr>rq_project_id = project_id, rq_prompt = prompt, rq_title = title,
       rq_origin = orig, rq_id = qid, rq_status = QReceived, rq_created_at = now, rq_updated_at = now\<rparr>)) (\<lambda>request.
       slift (request_activate request None now)))"

definition create_request :: "create_user_request \<Rightarrow> time \<Rightarrow> (user_request \<times> run) svc" where
  "create_request c now =
     sbind (sneed (ResourceNotFound (''project not found: '' @ uuid_str (cu_project_id c))) (projects_get (cu_project_id c))) (\<lambda>project.
       if pj_status project \<noteq> PActive then sraise (ResourceConflict (''project is not active: '' @ uuid_str (cu_project_id c)))
       else
         sbind (new_active_request (pj_id project) (cu_prompt c) (cu_title c) None now) (\<lambda>request.
         sbind uuid4 (\<lambda>rid.
         sbind (slift (run_init (new_run (rq_id request) rid now))) (\<lambda>run.
         sbind (requests_add request) (\<lambda>_.
         sbind (runs_add run) (\<lambda>_.
         sbind (emit ''request'' (rq_id request) ''request.created''
           [(''project_id'', JStr (uuid_str (pj_id project))), (''run_id'', JStr (uuid_str (rn_id run)))] now) (\<lambda>_.
           sreturn (request, run))))))))"

definition get_request :: "uuid \<Rightarrow> user_request svc" where
  "get_request request_id = sneed (ResourceNotFound (''request not found: '' @ uuid_str request_id)) (requests_get request_id)"

definition get_run :: "uuid \<Rightarrow> run svc" where
  "get_run run_id = sneed (ResourceNotFound (''run not found: '' @ uuid_str run_id)) (runs_get run_id)"

definition approve_run :: "uuid \<Rightarrow> time \<Rightarrow> run svc" where
  "approve_run run_id now =
     sbind (sneed (ResourceNotFound (''run not found: '' @ uuid_str run_id)) (runs_get run_id)) (\<lambda>run0.
     sbind (gets (executions_get_by_run run_id)) (\<lambda>execution.
       if execution \<noteq> None
       then sraise (ResourceConflict ''workflow approvals must resolve a specific approval node'')
       else
         sbind (slift (run_transition_to run0 RReady None now)) (\<lambda>run.
         sbind (runs_save run) (\<lambda>_.
         sbind (emit ''run'' (rn_id run) ''run.approved''
           [(''status'', JStr (run_status_value (rn_status run)))] now) (\<lambda>_.
           sreturn run)))))"

text \<open>The branch of \<^verbatim>\<open>cancel_run\<close> for a run without a workflow execution.\<close>

definition cancel_bare_run :: "uuid \<Rightarrow> time \<Rightarrow> run svc" where
  "cancel_bare_run run_id now =
     sbind (sneed (ResourceNotFound (''run not found: '' @ uuid_str run_id)) (runs_get run_id)) (\<lambda>run0.
     sbind (sneed (ResourceNotFound (''request not found: '' @ uuid_str (rn_request_id run0))) (requests_get (rn_request_id run0))) (\<lambda>request0.
     sbind (release_run_reservations (rn_id run0) ''run_cancelled'' now) (\<lambda>_.
     sbind (slift (run_transition_to run0 RCancelled None now)) (\<lambda>run.
     sbind (slift (request_cancel request0 None now)) (\<lambda>request.
     sbind (runs_save run) (\<lambda>_.
     sbind (requests_save request) (\<lambda>_.
     sbind (emit ''run'' (rn_id run) ''run.cancelled'' [(''request_id'', JStr (uuid_str (rq_id request)))] now) (\<lambda>_.
       sreturn run))))))))"

definition cancel_run :: "uuid \<Rightarrow> time \<Rightarrow> run svc" where
  "cancel_run run_id now =
     sbind (gets (executions_get_by_run run_id)) (\<lambda>execution.
       case execution of
         Some ex0 \<Rightarrow>
           if is_terminal ex0 then sraise (ResourceConflict (''terminal run cannot be cancelled: '' @ uuid_str run_id))
           else
             sbind (slift (cancel ex0 None now)) (\<lambda>ex.
             sbind (release_run_reservations run_id ''run_cancelled'' now) (\<lambda>_.
             sbind (save_transition ex ''workflow.cancelled'' [(''source'', JStr ''run'')] now) (\<lambda>_.
               sneed (ResourceNotFound (''run not found: '' @ uuid_str run_id)) (runs_get run_id))))
       | None \<Rightarrow> cancel_bare_run run_id now)"

end
