(* ===== verification/Execution_Identity.thy ===== *)
theory Execution_Identity
  imports Workflow_Correctness Task_Dispatch
begin

text \<open>
  What a stored execution keeps: the engine never changes the columns that identify a node, so saving
  the aggregate after a transition stores exactly the aggregate, although the repository copies only the
  mutable columns.
\<close>

definition node_ident :: "node_execution \<Rightarrow> uuid \<times> string \<times> uuid" where
  "node_ident n = (ne_workflow_execution_id n, ne_node_key n, ne_id n)"

definition same_ident :: "workflow_execution \<Rightarrow> workflow_execution \<Rightarrow> bool" where
  "same_ident ex ex' \<longleftrightarrow> (\<forall>k. map_option node_ident (we_nodes ex' k) = map_option node_ident (we_nodes ex k))"

lemma same_ident_refl: "same_ident ex ex"
  by (simp add: same_ident_def)

lemma same_ident_trans: "same_ident ex ex' \<Longrightarrow> same_ident ex' ex'' \<Longrightarrow> same_ident ex ex''"
  by (simp add: same_ident_def)

lemma put_ident:
  "we_nodes ex key = Some n \<Longrightarrow> node_ident m = node_ident n \<Longrightarrow> we_nodes ex' = (we_nodes ex)(key \<mapsto> m)
     \<Longrightarrow> same_ident ex ex'"
  by (simp add: same_ident_def)

lemma cancelled_ident:
  "we_nodes ex' = (\<lambda>k. map_option (cancel_node at) (we_nodes ex k)) \<Longrightarrow> same_ident ex ex'"
  by (auto simp: same_ident_def cancel_node_def clear_lease_def node_ident_def option.map_comp comp_def
      intro!: option.map_cong)

lemma micro_step_ident: "micro_step at ex ex' \<Longrightarrow> same_ident ex ex'"
proof (induction rule: micro_step.induct)
  case (ms_fail ex reason)
  show ?case by (rule cancelled_ident) (simp add: engine_update_defs)
next
  case (ms_task ex key n d)
  show ?case by (rule put_ident[OF ms_task(2)]) (simp_all add: engine_update_defs node_ident_def)
next
  case (ms_approval ex key n d)
  show ?case by (rule put_ident[OF ms_approval(2)]) (simp_all add: engine_update_defs node_ident_def)
next
  case (ms_control ex key n d)
  show ?case by (rule put_ident[OF ms_control(2)]) (simp_all add: engine_update_defs node_ident_def)
next
  case (ms_terminal ex key n d)
  have "same_ident ex (put_node ex key (pass_node n at))"
    by (rule put_ident[OF ms_terminal(2)]) (simp_all add: engine_update_defs node_ident_def)
  moreover have "same_ident (put_node ex key (pass_node n at)) (enter_terminal ex key n d at)"
    by (rule cancelled_ident) (simp add: enter_terminal_def cancel_active_nodes_def touch_def put_node_def Let_def)
  ultimately show ?case by (rule same_ident_trans)
qed

lemma cascade_ident: "cascade at ex ex' \<Longrightarrow> same_ident ex ex'"
  by (induction rule: rtranclp_induct) (auto intro: same_ident_refl same_ident_trans micro_step_ident)

lemma handle_task_failure_ident:
  assumes "handle_task_failure ex key n reason t = Inr ex'" "we_nodes ex key = Some n"
  shows "same_ident ex ex'"
proof -
  from assms(1) obtain m r where m: "node_ident m = node_ident n"
    "ex' = touch (put_node ex key m) t \<or> ex' = fail_execution (put_node ex key m) r t"
  proof -
    from assms(1) have "ex' = touch (put_node ex key (retried n t)) t \<or>
        ex' = fail_execution (put_node ex key (exhausted n t))
          (if blank reason then ''task execution failed'' else py_strip reason) t"
      by (auto simp: handle_task_failure_def retried_def exhausted_def split: if_splits)
    then show ?thesis
      using that[of "retried n t"] that[of "exhausted n t"]
      by (auto simp: retried_def exhausted_def clear_lease_def node_ident_def)
  qed
  have p: "same_ident ex (put_node ex key m)" by (rule put_ident[OF assms(2) m(1)]) (simp add: put_node_def)
  have "same_ident (put_node ex key m) ex'"
    using m(2)
  proof
    assume "ex' = touch (put_node ex key m) t"
    then show ?thesis by (simp add: same_ident_def touch_def)
  next
    assume "ex' = fail_execution (put_node ex key m) r t"
    then show ?thesis by (intro cancelled_ident[of _ t]) simp
  qed
  with p show ?thesis by (rule same_ident_trans)
qed

lemma progress_step_ident:
  assumes "progress_step ex ex'" "exec_inv ex"
  shows "same_ident ex ex'"
  using assms
proof (induction rule: progress_step.induct)
  case (es_start ex at now ex')
  define t where "t = at_or_now at now"
  define ex1 where "ex1 = touch (ex\<lparr>we_status := WRunning, we_started_at := Some t\<rparr>) t"
  have "activate ex1 (ws_entry_node (we_snapshot ex)) t = Inr ex'"
    using es_start(1) by (auto simp: start_def t_def ex1_def Let_def split: if_splits)
  then have "same_ident ex1 ex'"
    by (rule cascade_ident[OF cascade_decomposition(1), rotated])
      (simp add: ex1_def touch_def workflow_terminal_def)
  then show ?case by (simp add: same_ident_def ex1_def touch_def)
next
  case (es_begin ex key at now ex')
  then show ?case
    by (elim begin_taskD) (auto simp: same_ident_def touch_def put_node_def node_ident_def)
next
  case (es_claim ex key w secs tok fresh at now ex')
  then show ?case
    by (elim claim_taskD) (auto simp: same_ident_def touch_def put_node_def node_ident_def)
next
  case (es_complete ex key outc outp tok at now ex')
  from es_complete(1) obtain n t where c: "we_nodes ex key = Some n" "ne_status n = NRunning"
    "route (touch (put_node ex key (completed n outc outp t)) t) key outc outp t = Inr ex'"
    by (rule complete_taskD)
  let ?ex1 = "touch (put_node ex key (completed n outc outp t)) t"
  have "same_ident ?ex1 ex'"
    using cascade_ident[OF cascade_decomposition(2)[OF _ c(3)]] completed_inv[OF es_complete(2) c(1,2)]
    by blast
  moreover have "same_ident ex ?ex1"
    by (rule put_ident[OF c(1)]) (simp_all add: completed_def clear_lease_def node_ident_def touch_def put_node_def)
  ultimately show ?case by (rule same_ident_trans[rotated])
next
  case (es_fail ex key reason tok at now ex')
  then show ?case by (auto elim!: fail_taskD intro: handle_task_failure_ident)
next
  case (es_expire ex key at now ex')
  then show ?case by (auto elim!: expire_taskD intro: handle_task_failure_ident)
next
  case (es_resolve ex key approved at now ex')
  from es_resolve(1) obtain n t outc where c: "we_nodes ex key = Some n" "ne_status n = NAwaitingApproval"
    "route (touch ((put_node ex key (n\<lparr>ne_status := NSucceeded, ne_outcome := Some outc,
       ne_completed_at := Some t, ne_updated_at := t\<rparr>))\<lparr>we_status := WRunning\<rparr>) t)
       key outc None t = Inr ex'"
    by (rule resolve_approvalD)
  define ex1 where "ex1 = touch ((put_node ex key (n\<lparr>ne_status := NSucceeded, ne_outcome := Some outc,
       ne_completed_at := Some t, ne_updated_at := t\<rparr>))\<lparr>we_status := WRunning\<rparr>) t"
  have "same_ident ex1 ex'"
    using cascade_ident[OF cascade_decomposition(2)[OF _ c(3)[folded ex1_def]]]
      resolved_inv[OF es_resolve(2) c(1,2) ex1_def] by blast
  moreover have "same_ident ex ex1"
    by (rule put_ident[OF c(1)]) (simp_all add: ex1_def node_ident_def touch_def put_node_def)
  ultimately show ?case by (rule same_ident_trans[rotated])
next
  case (es_cancel ex at now ex')
  then show ?case
    by (elim cancelD) (auto intro!: cancelled_ident simp: touch_def cancel_active_nodes_def)
qed

lemma engine_step_ident:
  assumes "engine_step ex ex'" "exec_inv ex"
  shows "same_ident ex ex'"
  using assms
proof (cases rule: engine_step.cases)
  case (es_renew key tok secs at now)
  then show ?thesis
    by (elim renew_leaseD) (auto simp: same_ident_def touch_def put_node_def node_ident_def)
qed (rule progress_step_ident)

section \<open>Saving stores the aggregate\<close>

lemma save_node_ident:
  "map_option node_ident n = map_option node_ident s \<Longrightarrow> save_node s n = n"
  by (cases s; cases n) (auto simp: save_node_def node_ident_def)

lemma executions_save_step:
  assumes "engine_step ex0 ex" "exec_inv ex0" "executions_get i db = Some ex0"
    "executions_save ex db = Inr (u, db')"
  shows "db' = db\<lparr>t_executions := table_put we_id (t_executions db) ex\<rparr>"
proof -
  have id: "we_id ex0 = i" using assms(3) by (simp add: executions_get_def execution_table.get_key)
  have s: "we_id ex = we_id ex0" "we_snapshot ex = we_snapshot ex0"
    using engine_step_succeeds[OF assms(1,2)] by (auto simp: succeeds_to_def stays_def)
  have "save_node (we_nodes ex0 k) (we_nodes ex k) = we_nodes ex k" for k
    using engine_step_ident[OF assms(1,2)] by (simp add: same_ident_def save_node_ident)
  then have nodes: "(\<lambda>k. save_node (we_nodes ex0 k) (we_nodes ex k)) = we_nodes ex" by simp
  have row: "ex0\<lparr>we_status := we_status ex, we_failure_reason := we_failure_reason ex,
      we_started_at := we_started_at ex, we_completed_at := we_completed_at ex,
      we_updated_at := we_updated_at ex, we_version := we_version ex, we_nodes := we_nodes ex\<rparr> = ex"
    using s by (intro workflow_execution.equality) simp_all
  have "executions_get (we_id ex) db = Some ex0" using assms(3) s(1) id by simp
  then show ?thesis using assms(4) unfolding executions_save_def by (simp only: option.case nodes row) simp
qed

end
