(* ===== verification/Catalog_Services.thy ===== *)
theory Catalog_Services
  imports Workflow_Services
begin

text \<open>
  The catalog use cases of \<^verbatim>\<open>application/skill_services.py\<close>, \<^verbatim>\<open>application/phase_pack_services.py\<close>
  and \<^verbatim>\<open>application/model_services.py\<close>. The four catalogs (with the workflow definitions of
  \<^verbatim>\<open>workflow_services.py\<close>) keep immutable versions: the locale \<open>versioned_catalog\<close> states what a
  registration promises, and is interpreted on each of them.
\<close>

section \<open>Operations\<close>

definition register_skill :: "skill_definition \<Rightarrow> time \<Rightarrow> skill_definition svc" where
  "register_skill s now =
     sbind (gets (skills_get (sk_key s) (Some (sk_version s)))) (\<lambda>stored.
       if stored \<noteq> None then sraise (ResourceConflict (''skill version already exists: '' @ at_version (sk_key s) (sk_version s)))
       else
         sbind (skills_add s) (\<lambda>_.
         sbind (emit ''skill'' (sk_id s) ''skill.registered''
           [(''key'', JStr (sk_key s)), (''version'', JInt (sk_version s)),
            (''content_digest'', JStr (sk_content_digest s))] now) (\<lambda>_.
           sreturn s)))"

definition get_skill :: "string \<Rightarrow> int option \<Rightarrow> skill_definition svc" where
  "get_skill key version = sneed (ResourceNotFound (''skill not found: '' @ with_suffix key version)) (skills_get key version)"

definition list_latest_skills :: "skill_definition list svc" where
  "list_latest_skills = gets skills_list_latest"

text \<open>\<open>check_schema\<close> is the schema check of the JSON Schema library.\<close>

definition register_phase_pack ::
    "(json_object \<Rightarrow> string option) \<Rightarrow> phase_pack_definition \<Rightarrow> time \<Rightarrow> phase_pack_definition svc" where
  "register_phase_pack check_schema p now =
     sbind (slift (check_output_contract_schema check_schema (pp_output_contract p))) (\<lambda>_.
     sbind (gets (phase_packs_get (pp_key p) (Some (pp_version p)))) (\<lambda>stored.
       if stored \<noteq> None then sraise (ResourceConflict (''phase pack version already exists: '' @ at_version (pp_key p) (pp_version p)))
       else
         sbind (seach (\<lambda>r. sbind (sneed (ResourceNotFound (''skill not found: '' @ at_version (sr_key r) (sr_version r)))
           (skills_get (sr_key r) (Some (sr_version r)))) (\<lambda>_. sreturn ())) (pp_skills p)) (\<lambda>_.
         sbind (phase_packs_add p) (\<lambda>_.
         sbind (emit ''phase_pack'' (pp_id p) ''phase_pack.registered''
           [(''key'', JStr (pp_key p)), (''version'', JInt (pp_version p))] now) (\<lambda>_.
           sreturn p)))))"

definition get_phase_pack :: "string \<Rightarrow> int option \<Rightarrow> phase_pack_definition svc" where
  "get_phase_pack key version =
     sneed (ResourceNotFound (''phase pack not found: '' @ with_suffix key version)) (phase_packs_get key version)"

definition list_latest_phase_packs :: "phase_pack_definition list svc" where
  "list_latest_phase_packs = gets phase_packs_list_latest"

definition register_model :: "model_profile \<Rightarrow> time \<Rightarrow> model_profile svc" where
  "register_model p now =
     sbind (gets (profiles_get (mp_key p) (Some (mp_version p)))) (\<lambda>stored.
       if stored \<noteq> None then sraise (ResourceConflict (''model profile version already exists: '' @ at_version (mp_key p) (mp_version p)))
       else
         sbind (profiles_add p) (\<lambda>_.
         sbind (emit ''model_profile'' (mp_id p) ''model.registered''
           [(''key'', JStr (mp_key p)), (''version'', JInt (mp_version p)),
            (''provider'', JStr (mp_provider p)), (''model_id'', JStr (mp_model_id p)),
            (''tier'', JStr (tier_value (mp_tier p))), (''enabled'', JBool (mp_enabled p))] now) (\<lambda>_.
           sreturn p)))"

definition get_model :: "string \<Rightarrow> int option \<Rightarrow> model_profile svc" where
  "get_model key version =
     sneed (ResourceNotFound (''model profile not found: '' @ with_suffix key version)) (profiles_get key version)"

definition list_latest_models :: "model_profile list svc" where
  "list_latest_models = gets profiles_list_latest"

section \<open>Versioned catalogs\<close>

lemma find_append: "List.find P (xs @ ys) = (case List.find P xs of None \<Rightarrow> List.find P ys | Some x \<Rightarrow> Some x)"
  by (induction xs) auto

lemma latest_fold:
  "fold (\<lambda>x acc. case acc of None \<Rightarrow> Some x | Some y \<Rightarrow> if ver_of y < ver_of x then Some x else Some y) xs (Some y0)
     = Some y \<Longrightarrow> y \<in> insert y0 (set xs) \<and> (\<forall>x \<in> insert y0 (set xs). (ver_of x :: int) \<le> ver_of y)"
proof (induction xs arbitrary: y0)
  case (Cons x xs)
  let ?z = "if ver_of y0 < ver_of x then x else y0"
  have "fold (\<lambda>x acc. case acc of None \<Rightarrow> Some x | Some y \<Rightarrow> if ver_of y < ver_of x then Some x else Some y) xs
      (Some ?z) = Some y" using Cons.prems by (auto split: if_splits)
  from Cons.IH[OF this] show ?case by (auto split: if_splits)
qed simp

lemma latest_of_Some: "latest_of ver_of xs = Some y \<Longrightarrow> y \<in> set xs \<and> (\<forall>x \<in> set xs. ver_of x \<le> ver_of y)"
  by (cases xs) (use latest_fold[of ver_of] in \<open>auto simp: latest_of_def\<close>)

lemma latest_of_None: "latest_of ver_of xs = None \<longleftrightarrow> xs = []"
proof -
  have "fold (\<lambda>x acc. case acc of None \<Rightarrow> Some x | Some y \<Rightarrow> if ver_of y < ver_of x then Some x else Some y) ys
    (Some y0) \<noteq> None" for ys y0 by (induction ys arbitrary: y0) auto
  then show ?thesis by (cases xs) (auto simp: latest_of_def)
qed

text \<open>The interface of a catalog: a registration adds one row under an unused key and version.\<close>

locale versioned_catalog =
  fixes key_of :: "'r \<Rightarrow> string" and ver_of :: "'r \<Rightarrow> int" and rows :: "db \<Rightarrow> 'r list"
    and register :: "'r \<Rightarrow> time \<Rightarrow> 'r svc"
  assumes register_rows: "register r now db = Inr (r', db') \<Longrightarrow> r' = r \<and> rows db' = rows db @ [r]
      \<and> versioned_get key_of ver_of (rows db) (key_of r) (Some (ver_of r)) = None"
    and register_conflict: "versioned_get key_of ver_of (rows db) (key_of r) (Some (ver_of r)) \<noteq> None
      \<Longrightarrow> \<exists>e. register r now db = Inl e"
begin

definition lookup :: "db \<Rightarrow> string \<Rightarrow> int option \<Rightarrow> 'r option" where
  "lookup db key version = versioned_get key_of ver_of (rows db) key version"

text \<open>Each pair of key and version has at most one row.\<close>

definition unique :: "db \<Rightarrow> bool" where
  "unique db \<longleftrightarrow> distinct (map (\<lambda>r. (key_of r, ver_of r)) (rows db))"

lemma registered_found:
  "register r now db = Inr (r', db') \<Longrightarrow> lookup db' (key_of r) (Some (ver_of r)) = Some r"
  using register_rows[of r now db r' db']
  by (simp add: lookup_def versioned_get_def find_append)

lemma registered_immutable:
  "register r now db = Inr (r', db') \<Longrightarrow> lookup db key (Some v) = Some x \<Longrightarrow> lookup db' key (Some v) = Some x"
  using register_rows[of r now db r' db'] by (simp add: lookup_def versioned_get_def find_append)

lemma registered_unique: "register r now db = Inr (r', db') \<Longrightarrow> unique db \<Longrightarrow> unique db'"
  using register_rows[of r now db r' db']
  by (auto simp: unique_def versioned_get_def find_None_iff)

lemma registered_twice: "register r now db = Inr (r', db') \<Longrightarrow> \<exists>e. register r now' db' = Inl e"
  using registered_found[of r now db r' db'] register_conflict[of db' r now'] by (simp add: lookup_def)

lemma latest_greatest:
  "lookup db key None = Some x \<Longrightarrow> key_of x = key \<and> x \<in> set (rows db)
     \<and> (\<forall>y \<in> set (rows db). key_of y = key \<longrightarrow> ver_of y \<le> ver_of x)"
  by (auto simp: lookup_def versioned_get_def dest!: latest_of_Some)

lemma latest_none: "lookup db key None = None \<longleftrightarrow> key \<notin> key_of ` set (rows db)"
  by (auto simp: lookup_def versioned_get_def latest_of_None filter_empty_conv)

lemma exact_row: "unique db \<Longrightarrow> x \<in> set (rows db) \<Longrightarrow> lookup db (key_of x) (Some (ver_of x)) = Some x"
proof -
  assume "unique db" "x \<in> set (rows db)"
  then obtain ys zs where rows: "rows db = ys @ x # zs" by (meson split_list)
  with \<open>unique db\<close> have "(key_of x, ver_of x) \<notin> (\<lambda>r. (key_of r, ver_of r)) ` set ys"
    by (simp add: unique_def)
  then have "\<not> (\<exists>y. y \<in> set ys \<and> key_of y = key_of x \<and> ver_of y = ver_of x)"
    by (auto simp: image_def)
  then have "find (\<lambda>y. key_of y = key_of x \<and> ver_of y = ver_of x) ys = None"
    by (simp only: find_None_iff) blast
  then show ?thesis by (simp add: lookup_def versioned_get_def rows find_append)
qed

end

text \<open>Resolving the references of a definition only reads.\<close>

lemma resolve_reads [frame_rules]:
  "keeps f (resolve_phase_packs d)" "keeps f (resolve_skills d packs)" "keeps f (route_models d)"
  unfolding resolve_phase_packs_def resolve_skills_def route_models_def by (intro frame_rules)+

lemma emit_adds_event: "emit a i t p now db = Inr (u, db') \<Longrightarrow> \<exists>n es. db' = db\<lparr>t_next := n, t_events := es\<rparr>"
  by (auto simp: emit_def events_append_def) blast

interpretation skill_catalog: versioned_catalog sk_key sk_version t_skills register_skill
  by unfold_locales
     (auto simp: register_skill_def skills_add_def skills_get_def sraise_def sbind_run
       split: if_splits dest!: emit_adds_event)

interpretation model_catalog: versioned_catalog mp_key mp_version t_model_profiles register_model
  by unfold_locales
     (auto simp: register_model_def profiles_add_def profiles_get_def sraise_def sbind_run
       split: if_splits dest!: emit_adds_event)

lemma resolve_unchanged:
  "resolve_phase_packs d db = Inr (ps, db') \<Longrightarrow> db' = db"
  "resolve_skills d packs db = Inr (ss, db') \<Longrightarrow> db' = db"
  "route_models d db = Inr (ms, db') \<Longrightarrow> db' = db"
  using withinD[OF resolve_reads(1)[of "\<lambda>db. db"]] withinD[OF resolve_reads(2)[of "\<lambda>db. db"]]
    withinD[OF resolve_reads(3)[of "\<lambda>db. db"]] by auto

interpretation definition_catalog: versioned_catalog wd_key wd_version t_definitions register_definition
  by unfold_locales
     (auto simp: register_definition_def definitions_add_def definitions_get_def sraise_def sbind_run
       split: if_splits dest!: emit_adds_event resolve_unchanged)

lemma needed_skills_unchanged:
  "seach (\<lambda>r. sbind (sneed (e r) (g r)) (\<lambda>_. sreturn ())) rs db = Inr (u, db') \<Longrightarrow> db' = db"
  by (erule withinD[where R = "\<lambda>db db'. db' = db", rotated]) (intro frame_rules)

text \<open>The phase pack catalog, for any schema checker.\<close>

lemma phase_pack_catalog: "versioned_catalog pp_key pp_version t_phase_packs (register_phase_pack check_schema)"
proof
  fix r now db r' db'
  show "register_phase_pack check_schema r now db = Inr (r', db') \<Longrightarrow> r' = r
      \<and> t_phase_packs db' = t_phase_packs db @ [r]
      \<and> versioned_get pp_key pp_version (t_phase_packs db) (pp_key r) (Some (pp_version r)) = None"
    by (auto simp: register_phase_pack_def phase_packs_add_def phase_packs_get_def
        split: if_splits dest!: emit_adds_event needed_skills_unchanged)
  show "versioned_get pp_key pp_version (t_phase_packs db) (pp_key r) (Some (pp_version r)) \<noteq> None
      \<Longrightarrow> \<exists>e. register_phase_pack check_schema r now db = Inl e"
    by (cases "check_output_contract_schema check_schema (pp_output_contract r)")
       (auto simp: register_phase_pack_def phase_packs_get_def sraise_def sbind_run)
qed

interpretation phase_pack_catalog: versioned_catalog pp_key pp_version t_phase_packs
  "register_phase_pack check_schema" for check_schema
  by (rule phase_pack_catalog)

end
