(* ===== verification/Recommendations.thy ===== *)
theory Recommendations
  imports Catalog
begin

text \<open>
  \<^verbatim>\<open>workflows/recommendations.py\<close>: the keyword policy that ranks the workflows of a project against a
  prompt. Text is a list of code points, because the policy treats Hangul syllables
  (U+AC00 to U+D7A3) apart; sets are lists without duplicates.
\<close>

type_synonym utext = "int list"

definition code_points :: "string \<Rightarrow> utext" where
  "code_points s = map of_char s"

definition is_hangul :: "int \<Rightarrow> bool" where
  "is_hangul c \<longleftrightarrow> 44032 \<le> c \<and> c \<le> 55203"

text \<open>\<^verbatim>\<open>[0-9a-zA-Z\<close> and Hangul\<^verbatim>\<open>]\<close>.\<close>

definition token_char :: "int \<Rightarrow> bool" where
  "token_char c \<longleftrightarrow> (48 \<le> c \<and> c \<le> 57) \<or> (97 \<le> c \<and> c \<le> 122) \<or> (65 \<le> c \<and> c \<le> 90) \<or> is_hangul c"

definition lower :: "int \<Rightarrow> int" where
  "lower c = (if 65 \<le> c \<and> c \<le> 90 then c + 32 else c)"

definition flush :: "utext \<Rightarrow> utext list" where
  "flush acc = (if acc = [] then [] else [rev acc])"

text \<open>\<^verbatim>\<open>TOKEN_PATTERN.findall\<close>: the maximal runs of token characters.\<close>

fun find_tokens :: "utext \<Rightarrow> utext \<Rightarrow> utext list" where
  "find_tokens acc [] = flush acc"
| "find_tokens acc (c # cs) =
     (if token_char c then find_tokens (c # acc) cs else flush acc @ find_tokens [] cs)"

definition tokenize :: "utext \<Rightarrow> utext list" where
  "tokenize value = remdups (filter (\<lambda>t. 1 < length t) (map (map lower) (find_tokens [] value)))"

definition intent_aliases :: "(string \<times> utext list) list" where
  "intent_aliases =
     [(''planning'', [[44592, 54925], [44228, 54925], [49444, 44228], [50836, 44396, 49324, 54637],
        [48516, 49437], code_points ''architecture'', code_points ''design'', code_points ''plan'',
        code_points ''planning'']),
      (''implementation'', [[44060, 48156], [44396, 54788], [53076, 46300], [44592, 45733],
        [48260, 44536], code_points ''implement'', code_points ''implementation'',
        code_points ''develop'', code_points ''code'']),
      (''verification'', [[44160, 51613], [53580, 49828, 53944], [47532, 48624], [54408, 51656],
        [48372, 50504], code_points ''verify'', code_points ''verification'', code_points ''test'',
        code_points ''review'', code_points ''quality'', code_points ''security'']),
      (''repair'', [[49688, 51221], [48373, 44396], [44060, 49440], [44256, 52432],
        code_points ''fix'', code_points ''repair'', code_points ''recover'', code_points ''improve'']),
      (''research'', [[51312, 49324], [44160, 49353], [48708, 44368], [51077, 51613],
        [53440, 45817, 49457], code_points ''research'', code_points ''search'',
        code_points ''compare'', code_points ''evidence''])]"

fun starts_with :: "utext \<Rightarrow> utext \<Rightarrow> bool" where
  "starts_with [] _ = True"
| "starts_with (_ # _) [] = False"
| "starts_with (x # xs) (y # ys) = (x = y \<and> starts_with xs ys)"

text \<open>\<^verbatim>\<open>alias in term\<close>.\<close>

fun occurs_in :: "utext \<Rightarrow> utext \<Rightarrow> bool" where
  "occurs_in a [] = (a = [])"
| "occurs_in a (t # ts) = (starts_with a (t # ts) \<or> occurs_in a ts)"

definition alias_matches :: "utext \<Rightarrow> utext \<Rightarrow> bool" where
  "alias_matches a t \<longleftrightarrow> a = t \<or> (list_ex is_hangul a \<and> occurs_in a t)"

definition intents :: "utext list \<Rightarrow> string list" where
  "intents terms = map fst (filter (\<lambda>(_, as). list_ex (\<lambda>a. list_ex (alias_matches a) terms) as) intent_aliases)"

datatype recommendation_confidence = ConfHigh | ConfMedium | ConfLow

fun confidence_value :: "recommendation_confidence \<Rightarrow> string" where
  "confidence_value ConfHigh = ''high''"
| "confidence_value ConfMedium = ''medium''"
| "confidence_value ConfLow = ''low''"

record workflow_recommendation_input =
  ri_key :: string
  ri_version :: int
  ri_searchable_text :: utext
  ri_is_default :: bool

record workflow_recommendation_candidate =
  cd_definition_key :: string
  cd_definition_version :: int
  cd_score :: int
  cd_matched_terms :: "utext list"
  cd_matched_intents :: "string list"
  cd_is_default :: bool

record workflow_recommendation =
  wr_policy_version :: string
  wr_confidence :: recommendation_confidence
  wr_requires_confirmation :: bool
  wr_candidates :: "workflow_recommendation_candidate list"

definition recommended :: "workflow_recommendation \<Rightarrow> workflow_recommendation_candidate option" where
  "recommended r = (case wr_candidates r of [] \<Rightarrow> None | c # _ \<Rightarrow> Some c)"

definition rank_workflow ::
    "utext list \<Rightarrow> string list \<Rightarrow> workflow_recommendation_input \<Rightarrow> workflow_recommendation_candidate" where
  "rank_workflow prompt_terms prompt_intents w =
     (let terms = tokenize (ri_searchable_text w);
          matched_terms = sort (filter (\<lambda>t. t \<in> set terms) prompt_terms);
          matched_intents = sort (filter (\<lambda>i. i \<in> set (intents terms)) prompt_intents) in
      \<lparr>cd_definition_key = ri_key w, cd_definition_version = ri_version w,
       cd_score = int (length matched_terms) * 4 + int (length matched_intents) * 6
         + (if ri_is_default w then 1 else 0),
       cd_matched_terms = matched_terms, cd_matched_intents = matched_intents,
       cd_is_default = ri_is_default w\<rparr>)"

definition rank_key :: "workflow_recommendation_candidate \<Rightarrow> int \<times> bool \<times> string \<times> int" where
  "rank_key c = (- cd_score c, \<not> cd_is_default c, cd_definition_key c, - cd_definition_version c)"

definition ranking :: "utext \<Rightarrow> workflow_recommendation_input list \<Rightarrow> workflow_recommendation_candidate list" where
  "ranking prompt workflows =
     (let terms = tokenize prompt in sort_key rank_key (map (rank_workflow terms (intents terms)) workflows))"

text \<open>\<^verbatim>\<open>xs[:n]\<close>.\<close>

definition slice_to :: "int \<Rightarrow> 'a list \<Rightarrow> 'a list" where
  "slice_to n xs = (if 0 \<le> n then take (nat n) xs else take (nat (int (length xs) + n)) xs)"

definition confidence_of :: "workflow_recommendation_candidate list \<Rightarrow> recommendation_confidence" where
  "confidence_of candidates =
     (let top_score = (case candidates of [] \<Rightarrow> 0 | c # _ \<Rightarrow> cd_score c);
          runner_up = (case candidates of _ # c # _ \<Rightarrow> cd_score c | _ \<Rightarrow> 0) in
      if 10 \<le> top_score \<and> 4 \<le> top_score - runner_up then ConfHigh
      else if 6 \<le> top_score \<and> runner_up < top_score then ConfMedium
      else ConfLow)"

definition recommendation_policy_version :: string where
  "recommendation_policy_version = ''workflow-keyword-v1''"

definition recommend_workflows ::
    "utext \<Rightarrow> workflow_recommendation_input list \<Rightarrow> int \<Rightarrow> workflow_recommendation" where
  "recommend_workflows prompt workflows limit =
     (let candidates = slice_to limit (ranking prompt workflows); confidence = confidence_of candidates in
      \<lparr>wr_policy_version = recommendation_policy_version, wr_confidence = confidence,
       wr_requires_confirmation = (confidence \<noteq> ConfHigh), wr_candidates = candidates\<rparr>)"

section \<open>The policy\<close>

lemma ranking_sorted: "sorted (map rank_key (ranking prompt workflows))"
  by (simp add: ranking_def Let_def)

lemma ranking_set:
  "set (ranking prompt workflows) = (rank_workflow (tokenize prompt) (intents (tokenize prompt))) ` set workflows"
  by (simp add: ranking_def Let_def)

lemma ranking_length [simp]: "length (ranking prompt workflows) = length workflows"
  by (simp add: ranking_def Let_def)

lemma rank_key_score: "rank_key a \<le> rank_key b \<Longrightarrow> cd_score b \<le> cd_score a"
  by (auto simp: rank_key_def less_eq_prod_def less_prod_def)

lemma score_nonneg: "c \<in> set (ranking prompt workflows) \<Longrightarrow> 0 \<le> cd_score c"
  by (auto simp: ranking_set rank_workflow_def Let_def)

lemma ranking_split:
  assumes "ranking prompt workflows = a # b # cs" "c \<in> set (b # cs)"
  shows "cd_score c \<le> cd_score b" "cd_score b \<le> cd_score a"
  using ranking_sorted[of prompt workflows] assms by (auto intro!: rank_key_score)

text \<open>Automatic selection is safe when the runner-up is visible: with a limit of at least two, a
  recommendation that needs no confirmation names a workflow of the project whose score beats the score
  of every other offered workflow by at least four.\<close>

theorem unconfirmed_recommendation_margin:
  assumes "2 \<le> limit" "\<not> wr_requires_confirmation (recommend_workflows prompt workflows limit)"
  shows "\<exists>best rest. ranking prompt workflows = best # rest
    \<and> recommended (recommend_workflows prompt workflows limit) = Some best
    \<and> (\<forall>c \<in> set rest. cd_score c + 4 \<le> cd_score best) \<and> 10 \<le> cd_score best"
proof -
  obtain m where m: "nat limit = Suc (Suc m)" 
  proof -
    have "nat limit = Suc (Suc (nat (limit - 2)))" using assms(1) by linarith
    then show ?thesis using that by blast
  qed
  have high: "confidence_of (take (Suc (Suc m)) (ranking prompt workflows)) = ConfHigh"
    using assms m by (simp add: recommend_workflows_def slice_to_def Let_def)
  show ?thesis
  proof (cases "ranking prompt workflows")
    case Nil
    then show ?thesis using high by (simp add: confidence_of_def Let_def)
  next
    case (Cons best rest)
    have rec: "recommended (recommend_workflows prompt workflows limit) = Some best"
      using assms(1) m Cons by (simp add: recommended_def recommend_workflows_def slice_to_def Let_def)
    show ?thesis
    proof (cases rest)
      case Nil
      then show ?thesis using high rec Cons by (simp add: confidence_of_def Let_def split: if_splits)
    next
      case (Cons b cs)
      note eq = \<open>ranking prompt workflows = best # rest\<close>[unfolded Cons]
      have "10 \<le> cd_score best" "4 \<le> cd_score best - cd_score b"
        using high by (auto simp: eq confidence_of_def Let_def split: if_splits)
      moreover have "cd_score c \<le> cd_score b" if "c \<in> set (b # cs)" for c
        using ranking_split(1)[OF eq that] .
      ultimately show ?thesis using rec eq Cons by fastforce
    qed
  qed
qed

definition ex_input :: "string \<Rightarrow> string \<Rightarrow> workflow_recommendation_input" where
  "ex_input key t = \<lparr>ri_key = key, ri_version = 1, ri_searchable_text = code_points t, ri_is_default = False\<rparr>"

theorem unconfirmed_recommendation_margin_witness:
  "\<exists>best rest. ranking (code_points ''fix the test'') [ex_input ''a'' ''docs'', ex_input ''b'' ''fix test''] = best # rest
    \<and> cd_definition_key best = ''b'' \<and> 10 \<le> cd_score best"
proof -
  let ?ws = "[ex_input ''a'' ''docs'', ex_input ''b'' ''fix test'']"
  have "\<not> wr_requires_confirmation (recommend_workflows (code_points ''fix the test'') ?ws 3)"
    by code_simp
  from unconfirmed_recommendation_margin[OF _ this] obtain best rest where
    b: "ranking (code_points ''fix the test'') ?ws = best # rest" "10 \<le> cd_score best" by auto
  moreover have "map cd_definition_key (ranking (code_points ''fix the test'') ?ws) = [''b'', ''a'']"
    by code_simp
  ultimately show ?thesis by auto
qed


end
