(* ===== verification/Request_Dispatch.thy ===== *)
theory Request_Dispatch
  imports Task_Dispatch Catalog_Services Recommendations
begin

text \<open>
  \<^verbatim>\<open>application/workflow_compatibility.py\<close> and \<^verbatim>\<open>application/request_dispatch_services.py\<close>: binding a
  project to a workflow, listing and recommending workflows, and dispatching a request exactly once per
  idempotency key. Two parameters stand for hashing: \<open>sha_text\<close> for \<^verbatim>\<open>sha256\<close> of a text and
  \<open>sha_json\<close> for \<^verbatim>\<open>sha256\<close> of the canonical \<^verbatim>\<open>json.dumps\<close> of a document, both with the
  \<^verbatim>\<open>sha256:\<close> prefix.
\<close>

section \<open>Executor compatibility\<close>

record workflow_compatibility_issue =
  ci_code :: string
  ci_node_key :: string
  ci_executor_key :: string
  ci_message :: string

fun is_shared_mode :: "json \<Rightarrow> bool" where
  "is_shared_mode (JStr mode) = (py_strip mode = ''shared'')"
| "is_shared_mode _ = False"

fun is_default_cwd :: "json \<Rightarrow> bool" where
  "is_default_cwd JNull = True"
| "is_default_cwd (JStr cwd) = (py_strip cwd = [])"
| "is_default_cwd _ = False"

definition issues_of_node :: "node_definition \<Rightarrow> workflow_compatibility_issue list" where
  "issues_of_node n =
     (let executor_key = executor_or_default n;
          mode = (case map_of (nd_configuration n) ''workspace_mode'' of None \<Rightarrow> JStr ''shared'' | Some v \<Rightarrow> v);
          cwd = (case map_of (nd_configuration n) ''cwd'' of None \<Rightarrow> JNull | Some v \<Rightarrow> v) in
      if executor_key \<noteq> ''openclaw'' then []
      else
        (if is_shared_mode mode then [] else
           [\<lparr>ci_code = ''openclaw.workspace_mode_unsupported'', ci_node_key = nd_key n,
             ci_executor_key = executor_key, ci_message = ''OpenClaw supports only the preconfigured agent workspace; git_worktree and custom workspace modes are unavailable''\<rparr>])
        @ (if is_default_cwd cwd then [] else
           [\<lparr>ci_code = ''openclaw.dynamic_cwd_unsupported'', ci_node_key = nd_key n,
             ci_executor_key = executor_key, ci_message = ''OpenClaw does not allow node-level cwd overrides; configure the project workspace on the selected OpenClaw agent''\<rparr>]))"

definition assess_workflow_compatibility :: "workflow_definition \<Rightarrow> workflow_compatibility_issue list" where
  "assess_workflow_compatibility d = concat (map issues_of_node (wd_nodes d))"

definition incompatible_workflow_message :: "workflow_compatibility_issue list \<Rightarrow> string" where
  "incompatible_workflow_message issues =
     ''workflow is incompatible with current executor capabilities: ''
       @ py_join ''; '' (map (\<lambda>i. ci_code i @ '' at node '' @ ci_node_key i @ '': '' @ ci_message i) issues)"

section \<open>Bindings and options\<close>

definition configure_binding :: "uuid \<Rightarrow> string \<Rightarrow> int \<Rightarrow> time \<Rightarrow> project_workflow_binding svc" where
  "configure_binding project_id definition_key definition_version now =
     sbind (sneed (ResourceNotFound (''project not found: '' @ uuid_str project_id)) (projects_get project_id)) (\<lambda>_.
     sbind (sneed (ResourceNotFound (''workflow definition not found: '' @ at_version definition_key definition_version))
       (definitions_get definition_key (Some definition_version))) (\<lambda>d.
     sbind (gets (bindings_get_by_project project_id)) (\<lambda>found.
     sbind (case found of
         None \<Rightarrow>
           sbind uuid4 (\<lambda>bid. slift (binding_init \<lparr>pb_project_id = project_id, pb_definition_id = wd_id d,
             pb_definition_key = wd_key d, pb_definition_version = wd_version d, pb_id = bid,
             pb_created_at = now, pb_updated_at = now\<rparr>))
       | Some b \<Rightarrow> sreturn (b\<lparr>pb_definition_id := wd_id d, pb_definition_key := wd_key d,
             pb_definition_version := wd_version d, pb_updated_at := now\<rparr>)) (\<lambda>binding.
     sbind (bindings_save binding) (\<lambda>_.
     sbind (emit ''project'' project_id ''project.workflow_bound''
       [(''definition_id'', JStr (uuid_str (wd_id d))), (''definition_key'', JStr (wd_key d)),
        (''definition_version'', JInt (wd_version d))] now) (\<lambda>_.
       sreturn binding))))))"

definition get_binding :: "uuid \<Rightarrow> project_workflow_binding svc" where
  "get_binding project_id =
     sbind (sneed (ResourceNotFound (''project not found: '' @ uuid_str project_id)) (projects_get project_id)) (\<lambda>_.
       sneed (ResourceNotFound (''project workflow binding not found: '' @ uuid_str project_id)) (bindings_get_by_project project_id))"

record workflow_composition =
  co_definition :: workflow_definition
  co_phase_packs :: "phase_pack_definition list"
  co_skills :: "skill_definition list"
  co_issues :: "workflow_compatibility_issue list"

definition resolve_composition :: "workflow_definition \<Rightarrow> workflow_composition svc" where
  "resolve_composition d =
     sbind (smap (\<lambda>r. sneed (ResourceConflict (''workflow option references an unavailable phase pack: '' @ at_version (pr_key r) (pr_version r)))
         (phase_packs_get (pr_key r) (Some (pr_version r))))
       (sort_key (\<lambda>r. (pr_key r, pr_version r)) (remdups (node_phase_packs (wd_nodes d))))) (\<lambda>packs.
     sbind (smap (\<lambda>r. sneed (ResourceConflict (''workflow option references an unavailable skill: '' @ at_version (sr_key r) (sr_version r)))
         (skills_get (sr_key r) (Some (sr_version r))))
       (sort_key (\<lambda>r. (sr_key r, sr_version r))
         (remdups (concat (map nd_skills (wd_nodes d)) @ concat (map pp_skills packs))))) (\<lambda>skills.
       sreturn \<lparr>co_definition = d, co_phase_packs = packs, co_skills = skills,
         co_issues = assess_workflow_compatibility d\<rparr>))"

record project_workflow_options =
  wo_default :: "project_workflow_binding option"
  wo_default_workflow :: "workflow_composition option"
  wo_workflows :: "workflow_composition list"
  wo_available_skills :: "skill_definition list"

text \<open>The definition a binding pins, which must still be the one that was bound.\<close>

definition bound_definition :: "project_workflow_binding \<Rightarrow> workflow_definition svc" where
  "bound_definition b =
     sbind (gets (definitions_get (pb_definition_key b) (Some (pb_definition_version b)))) (\<lambda>found.
       case found of
         None \<Rightarrow> sraise (ResourceConflict (''bound workflow definition is unavailable: '' @ uuid_str (pb_project_id b)))
       | Some d \<Rightarrow> if wd_id d \<noteq> pb_definition_id b
           then sraise (ResourceConflict (''bound workflow definition is unavailable: '' @ uuid_str (pb_project_id b))) else sreturn d)"

definition list_workflow_options :: "uuid \<Rightarrow> project_workflow_options svc" where
  "list_workflow_options project_id =
     sbind (sneed (ResourceNotFound (''project not found: '' @ uuid_str project_id)) (projects_get project_id)) (\<lambda>_.
     sbind (gets (bindings_get_by_project project_id)) (\<lambda>binding.
     sbind (gets definitions_list_latest) (\<lambda>definitions.
     sbind (gets skills_list_latest) (\<lambda>available.
     sbind (case binding of
         None \<Rightarrow> sreturn None
       | Some b \<Rightarrow> sbind (bound_definition b) (\<lambda>d.
           sbind (resolve_composition d) (\<lambda>c. sreturn (Some c)))) (\<lambda>default_workflow.
     sbind (smap resolve_composition definitions) (\<lambda>workflows.
       sreturn \<lparr>wo_default = binding, wo_default_workflow = default_workflow, wo_workflows = workflows,
         wo_available_skills = available\<rparr>))))))"

section \<open>Recommendations as events\<close>

definition recommendation_text :: "workflow_composition \<Rightarrow> string" where
  "recommendation_text c = py_join '' '' ([wd_key (co_definition c)]
     @ map nd_key (wd_nodes (co_definition c))
     @ map (\<lambda>n. or_default (nd_instructions n) []) (wd_nodes (co_definition c))
     @ map (\<lambda>p. pp_key p @ '' '' @ pp_name p @ '' '' @ pp_description p) (co_phase_packs c)
     @ map (\<lambda>s. sk_key s @ '' '' @ sk_name s @ '' '' @ sk_description s) (co_skills c))"

definition recommendation_input ::
    "(string \<times> int) option \<Rightarrow> workflow_composition \<Rightarrow> workflow_recommendation_input" where
  "recommendation_input default_reference c =
     \<lparr>ri_key = wd_key (co_definition c), ri_version = wd_version (co_definition c),
      ri_searchable_text = code_points (recommendation_text c),
      ri_is_default = (default_reference = Some (wd_key (co_definition c), wd_version (co_definition c)))\<rparr>"

text \<open>Matched terms come from the prompt, so they are texts of its characters.\<close>

definition text_string :: "utext \<Rightarrow> string" where
  "text_string t = map char_of t"

definition candidate_json :: "workflow_recommendation_candidate \<Rightarrow> json" where
  "candidate_json c = JObj [(''definition_key'', JStr (cd_definition_key c)),
     (''definition_version'', JInt (cd_definition_version c)), (''score'', JInt (cd_score c)),
     (''matched_terms'', JList (map (\<lambda>t. JStr (text_string t)) (cd_matched_terms c))),
     (''matched_intents'', JList (map JStr (cd_matched_intents c))),
     (''is_default'', JBool (cd_is_default c))]"

definition recommendation_payload ::
    "(string \<Rightarrow> string) \<Rightarrow> string \<Rightarrow> workflow_recommendation \<Rightarrow> json_object" where
  "recommendation_payload sha_text prompt r =
     [(''prompt_digest'', JStr (sha_text (py_strip prompt))),
      (''policy_version'', JStr (wr_policy_version r)),
      (''confidence'', JStr (confidence_value (wr_confidence r))),
      (''requires_confirmation'', JBool (wr_requires_confirmation r)),
      (''candidates'', JList (map candidate_json (wr_candidates r)))]"

definition service_recommend_workflows ::
    "(string \<Rightarrow> string) \<Rightarrow> uuid \<Rightarrow> string \<Rightarrow> int \<Rightarrow> time \<Rightarrow> (uuid \<times> workflow_recommendation) svc" where
  "service_recommend_workflows sha_text project_id prompt limit now =
     (let normalized = py_strip prompt in
      if normalized = [] then sraise (ResourceConflict ''workflow recommendation prompt must not be empty'')
      else if limit < 1 \<or> 10 < limit
      then sraise (ResourceConflict ''workflow recommendation limit must be between 1 and 10'')
      else
        sbind (list_workflow_options project_id) (\<lambda>options.
          let default_reference = map_option (\<lambda>b. (pb_definition_key b, pb_definition_version b)) (wo_default options);
              r = recommend_workflows (code_points normalized)
                    (map (recommendation_input default_reference) (wo_workflows options)) limit in
          sbind (gets t_next) (\<lambda>event_id.
          sbind (emit ''project'' project_id ''project.workflow_recommended''
            (recommendation_payload sha_text normalized r) now) (\<lambda>_.
            sreturn (event_id, r)))))"

section \<open>Dispatch\<close>

record node_skill_addon =
  ad_node_key :: string
  ad_skills :: "skill_reference list"

record dispatch_project_request =
  dp_project_id :: uuid
  dp_prompt :: string
  dp_idempotency_key :: string
  dp_origin :: request_origin
  dp_title :: "string option"
  dp_definition_key :: "string option"
  dp_definition_version :: "int option"
  dp_recommendation_id :: "uuid option"
  dp_skill_addons :: "node_skill_addon list"

record dispatched_request =
  ds_request :: user_request
  ds_run :: run
  ds_workflow :: workflow_execution
  ds_replayed :: bool

text \<open>\<^verbatim>\<open>(x.strip() if x else None) or None\<close>.\<close>

definition strip_to_option :: "string option \<Rightarrow> string option" where
  "strip_to_option x = (case x of None \<Rightarrow> None
     | Some s \<Rightarrow> if py_strip s = [] then None else Some (py_strip s))"

definition normalize_addon :: "node_skill_addon \<Rightarrow> node_skill_addon result" where
  "normalize_addon a =
     (let key = py_strip (ad_node_key a);
          skills = sort_key (\<lambda>r. (sr_key r, sr_version r)) (remdups (ad_skills a)) in
      if key = [] then Inl (ResourceConflict ''request skill add-on node key must not be empty'')
      else if skills = [] then Inl (ResourceConflict ''request skill add-on requires at least one skill'')
      else Inr \<lparr>ad_node_key = key, ad_skills = skills\<rparr>)"

definition normalize_skill_addons :: "node_skill_addon list \<Rightarrow> node_skill_addon list result" where
  "normalize_skill_addons addons =
     (if \<not> distinct (map (\<lambda>a. py_strip (ad_node_key a)) addons)
      then Inl (ResourceConflict ''request skill add-on node keys must be unique'')
      else rbind (map_result normalize_addon addons) (\<lambda>xs. Inr (sort_key ad_node_key xs)))"

definition check_addon :: "workflow_definition \<Rightarrow> node_skill_addon \<Rightarrow> unit svc" where
  "check_addon d a =
     (case find_node (rev (wd_nodes d)) (ad_node_key a) of
        None \<Rightarrow> sraise (ResourceConflict (''request skill add-on node not found: '' @ ad_node_key a))
      | Some n \<Rightarrow>
          if nd_kind n \<noteq> KTask
          then sraise (ResourceConflict (''request skill add-ons require a task node: '' @ ad_node_key a))
          else seach (\<lambda>r. sbind (sneed (ResourceNotFound (''skill not found: '' @ at_version (sr_key r) (sr_version r)))
            (skills_get (sr_key r) (Some (sr_version r)))) (\<lambda>_. sreturn ())) (ad_skills a))"

definition add_skills :: "node_skill_addon list \<Rightarrow> node_definition \<Rightarrow> node_definition result" where
  "add_skills addons n =
     (case find (\<lambda>a. ad_node_key a = nd_key n) addons of
        None \<Rightarrow> Inr n
      | Some a \<Rightarrow> node_definition_init (n\<lparr>nd_skills :=
          sort_key (\<lambda>r. (sr_key r, sr_version r)) (remdups (nd_skills n @ ad_skills a))\<rparr>))"

definition apply_skill_addons ::
    "workflow_definition \<Rightarrow> node_skill_addon list \<Rightarrow> workflow_definition svc" where
  "apply_skill_addons d addons =
     (if addons = [] then sreturn d
      else
        sbind (seach (check_addon d) addons) (\<lambda>_.
        sbind (slift (map_result (add_skills addons) (wd_nodes d))) (\<lambda>nodes.
          let d' = d\<lparr>wd_nodes := nodes\<rparr> in
          sbind (slift (workflow_definition_init d')) (\<lambda>_. sreturn d'))))"

definition addon_json :: "node_skill_addon \<Rightarrow> json" where
  "addon_json a = JObj [(''node_key'', JStr (ad_node_key a)),
     (''skills'', JList (map (\<lambda>r. JObj [(''key'', JStr (sr_key r)), (''version'', JInt (sr_version r))]) (ad_skills a)))]"

definition origin_json :: "request_origin \<Rightarrow> json" where
  "origin_json r = JObj [(''ingress_key'', JStr (ro_ingress_key r)),
     (''external_request_id'', JStr (ro_external_request_id r)), (''actor_id'', json_opt (ro_actor_id r)),
     (''conversation_id'', json_opt (ro_conversation_id r))]"

definition payload_document ::
    "string \<Rightarrow> string option \<Rightarrow> request_origin \<Rightarrow> string option \<Rightarrow> int option \<Rightarrow> node_skill_addon list
       \<Rightarrow> uuid option \<Rightarrow> json" where
  "payload_document prompt title orig definition_key definition_version addons recommendation_id =
     JObj [(''prompt'', JStr (py_strip prompt)), (''title'', json_opt (strip_to_option title)),
       (''origin'', origin_json orig),
       (''workflow'', (case (definition_key, definition_version) of
          (Some k, Some v) \<Rightarrow> JObj [(''definition_key'', JStr k), (''definition_version'', JInt v)]
        | _ \<Rightarrow> JNull)),
       (''skill_addons'', JList (map addon_json addons)),
       (''recommendation_id'', json_opt (map_option uuid_str recommendation_id))]"

definition replay :: "request_dispatch_receipt \<Rightarrow> dispatched_request svc" where
  "replay r =
     (case (dr_request_id r, dr_run_id r, dr_workflow_execution_id r) of
        (Some qid, Some rid, Some eid) \<Rightarrow>
          sbind (gets (requests_get qid)) (\<lambda>q.
          sbind (gets (runs_get rid)) (\<lambda>run.
          sbind (gets (executions_get eid)) (\<lambda>ex.
            case (q, run, ex) of
              (Some q, Some run, Some ex) \<Rightarrow>
                sreturn \<lparr>ds_request = q, ds_run = run, ds_workflow = ex, ds_replayed = True\<rparr>
            | _ \<Rightarrow> sraise (ResourceConflict ''completed request dispatch result is unavailable''))))
      | _ \<Rightarrow> sraise (ResourceConflict ''request dispatch with this idempotency key is still in progress''))"

text \<open>The pair of key and version of a stored candidate.\<close>

fun candidate_reference :: "json \<Rightarrow> (string \<times> int) result" where
  "candidate_reference (JObj kvs) =
     (case (map_of kvs ''definition_key'', map_of kvs ''definition_version'') of
        (Some (JStr k), Some (JInt v)) \<Rightarrow> Inr (k, v)
      | (None, _) \<Rightarrow> Inl (KeyError ''definition_key'')
      | (_, None) \<Rightarrow> Inl (KeyError ''definition_version'')
      | _ \<Rightarrow> Inl (TypeError ''definition reference''))"
| "candidate_reference _ = Inl (TypeError ''candidate'')"

definition stored_candidates :: "domain_event \<Rightarrow> json list result" where
  "stored_candidates e = (case map_of (ev_payload e) ''candidates'' of
      None \<Rightarrow> Inr [] | Some (JList xs) \<Rightarrow> Inr xs | Some _ \<Rightarrow> Inl (TypeError ''candidates''))"

text \<open>The part of \<^verbatim>\<open>dispatch\<close> that checks a recommendation; the result is the selected definition and
  the source of the selection.\<close>

definition check_recommendation ::
    "uuid \<Rightarrow> (string \<Rightarrow> string) \<Rightarrow> uuid \<Rightarrow> string \<Rightarrow> (string \<times> int) option \<Rightarrow> domain_event option
       \<Rightarrow> ((string \<times> int) \<times> string) result" where
  "check_recommendation rid sha_text project_id prompt override event =
     (case event of
        None \<Rightarrow> Inl (ResourceNotFound (''workflow recommendation not found: '' @ uuid_str rid))
      | Some e \<Rightarrow>
          if ev_aggregate_type e \<noteq> ''project'' \<or> ev_aggregate_id e \<noteq> project_id
             \<or> ev_event_type e \<noteq> ''project.workflow_recommended''
          then Inl (ResourceNotFound (''workflow recommendation not found: '' @ uuid_str rid))
          else if map_of (ev_payload e) ''prompt_digest'' \<noteq> Some (JStr (sha_text (py_strip prompt)))
          then Inl (ResourceConflict ''workflow recommendation prompt does not match request'')
          else rbind (stored_candidates e) (\<lambda>stored.
            rbind (map_result candidate_reference stored) (\<lambda>candidates.
            case override of
              None \<Rightarrow>
                if (case map_of (ev_payload e) ''requires_confirmation'' of None \<Rightarrow> True | Some v \<Rightarrow> py_truthy v)
                then Inl (ResourceConflict ''workflow recommendation requires confirmation'')
                else if map_of (ev_payload e) ''candidates'' = None
                then Inl (ResourceConflict ''workflow recommendation has no candidate'')
                else (case candidates of [] \<Rightarrow> Inl (IndexError ''list index out of range'')
                  | c # _ \<Rightarrow> Inr (c, ''policy_recommendation''))
            | Some c \<Rightarrow> if c \<notin> set candidates
                then Inl (ResourceConflict ''selected workflow is not a recommendation candidate'')
                else Inr (c, ''confirmed_recommendation''))))"

definition definition_override :: "dispatch_project_request \<Rightarrow> (string \<times> int) option result" where
  "definition_override c =
     (case (strip_to_option (dp_definition_key c), dp_definition_version c) of
        (None, None) \<Rightarrow> Inr None
      | (Some k, Some v) \<Rightarrow> Inr (Some (k, v))
      | _ \<Rightarrow> Inl (ResourceConflict ''request workflow override requires definition_key and definition_version''))"

definition select_definition ::
    "(string \<Rightarrow> string) \<Rightarrow> dispatch_project_request \<Rightarrow> (string \<times> int) option
       \<Rightarrow> (workflow_definition \<times> string) svc" where
  "select_definition sha_text c override =
     sbind (case dp_recommendation_id c of
         None \<Rightarrow> sreturn (map_option (\<lambda>kv. (kv, ''request_override'')) override)
       | Some rid \<Rightarrow>
           sbind (gets (events_get rid)) (\<lambda>event.
           sbind (slift (check_recommendation rid sha_text (dp_project_id c) (py_strip (dp_prompt c)) override event)) (\<lambda>s.
             sreturn (Some s)))) (\<lambda>selected.
       case selected of
         Some ((key, version), source) \<Rightarrow>
           sbind (sneed (ResourceNotFound (''workflow definition not found: '' @ at_version key version))
             (definitions_get key (Some version))) (\<lambda>d. sreturn (d, source))
       | None \<Rightarrow>
           sbind (sneed (ResourceConflict (''project workflow binding is not configured: '' @ uuid_str (dp_project_id c)))
             (bindings_get_by_project (dp_project_id c))) (\<lambda>b.
           sbind (bound_definition b) (\<lambda>d. sreturn (d, ''project_binding''))))"

definition created_payload ::
    "dispatch_project_request \<Rightarrow> project \<Rightarrow> run \<Rightarrow> workflow_definition \<Rightarrow> string \<Rightarrow> node_skill_addon list \<Rightarrow> json_object" where
  "created_payload c project run d source addons =
     [(''project_id'', JStr (uuid_str (pj_id project))), (''run_id'', JStr (uuid_str (rn_id run))),
      (''origin'', origin_json (dp_origin c)),
      (''workflow_selection'', JObj ([(''source'', JStr source), (''definition_key'', JStr (wd_key d)),
         (''definition_version'', JInt (wd_version d))]
         @ (case dp_recommendation_id c of None \<Rightarrow> [] | Some rid \<Rightarrow> [(''recommendation_id'', JStr (uuid_str rid))]))),
      (''skill_addons'', JList (map addon_json addons))]"

text \<open>The part of \<^verbatim>\<open>dispatch\<close> after the receipt was claimed.\<close>

definition dispatch_claimed ::
    "(string \<Rightarrow> string) \<Rightarrow> dispatch_project_request \<Rightarrow> (string \<times> int) option \<Rightarrow> node_skill_addon list
       \<Rightarrow> project \<Rightarrow> request_dispatch_receipt \<Rightarrow> time \<Rightarrow> dispatched_request svc" where
  "dispatch_claimed sha_text c override addons project receipt now =
     (if pj_status project \<noteq> PActive then sraise (ResourceConflict (''project is not active: '' @ uuid_str (dp_project_id c)))
      else
        sbind (select_definition sha_text c override) (\<lambda>(d0, source).
        sbind (apply_skill_addons d0 addons) (\<lambda>d.
        let issues = assess_workflow_compatibility d in
        if issues \<noteq> [] then sraise (ResourceConflict (incompatible_workflow_message issues))
        else
          sbind (new_active_request (pj_id project) (py_strip (dp_prompt c)) (strip_to_option (dp_title c))
            (Some (dp_origin c)) now) (\<lambda>request.
          sbind uuid4 (\<lambda>rid.
          sbind (slift (run_init (new_run (rq_id request) rid now))) (\<lambda>run.
          sbind (requests_add request) (\<lambda>_.
          sbind (runs_add run) (\<lambda>_.
          sbind (emit ''request'' (rq_id request) ''request.created''
            (created_payload c project run d source addons) now) (\<lambda>_.
          sbind (create_execution run request project d source now) (\<lambda>ex.
          sbind (sneed (RuntimeError ''dispatched request lifecycle state was not persisted'') (runs_get rid)) (\<lambda>run.
          sbind (sneed (RuntimeError ''dispatched request lifecycle state was not persisted'')
            (requests_get (rq_id request))) (\<lambda>request.
          sbind (slift (receipt_complete receipt (rq_id request) (rn_id run) (we_id ex)
            (Some (we_updated_at ex)) now)) (\<lambda>receipt.
          sbind (receipts_save receipt) (\<lambda>_.
            sreturn \<lparr>ds_request = request, ds_run = run, ds_workflow = ex, ds_replayed = False\<rparr>))))))))))))))"

definition dispatch ::
    "(string \<Rightarrow> string) \<Rightarrow> (json \<Rightarrow> string) \<Rightarrow> dispatch_project_request \<Rightarrow> time \<Rightarrow> dispatched_request svc" where
  "dispatch sha_text sha_json c now =
     sbind (slift (definition_override c)) (\<lambda>override.
     sbind (slift (normalize_skill_addons (dp_skill_addons c))) (\<lambda>addons.
     sbind (sneed (ResourceNotFound (''project not found: '' @ uuid_str (dp_project_id c))) (projects_get (dp_project_id c))) (\<lambda>project.
     sbind uuid4 (\<lambda>did.
     sbind (slift (receipt_init \<lparr>dr_project_id = dp_project_id c, dr_idempotency_key = dp_idempotency_key c,
       dr_payload_digest = sha_json (payload_document (py_strip (dp_prompt c)) (strip_to_option (dp_title c))
         (dp_origin c) (strip_to_option (dp_definition_key c)) (dp_definition_version c) addons
         (dp_recommendation_id c)),
       dr_ingress_key = ro_ingress_key (dp_origin c), dr_id = did, dr_request_id = None, dr_run_id = None,
       dr_workflow_execution_id = None, dr_created_at = now, dr_completed_at = None\<rparr>)) (\<lambda>receipt.
     sbind (receipts_try_claim receipt) (\<lambda>claimed.
       if claimed then dispatch_claimed sha_text c override addons project receipt now
       else
         sbind (sneed (RuntimeError ''claimed dispatch receipt could not be loaded'')
           (receipts_get (dp_project_id c) (dr_ingress_key receipt) (dr_idempotency_key receipt))) (\<lambda>existing.
           if dr_payload_digest existing \<noteq> dr_payload_digest receipt
           then sraise (ResourceConflict ''idempotency key was already used with a different request payload'')
           else replay existing)))))))"

end
