(* ===== verification/System_Lifecycle.thy ===== *)
theory System_Lifecycle
  imports Execution_Identity Request_Dispatch
begin

text \<open>
  The database as a whole: every stored execution is one the engine can reach from an accepted
  definition, its parent run has the status that mirrors it, and its request is closed once it
  succeeded or was cancelled. Every service keeps that (\<open>system_ok\<close>).
\<close>

section \<open>Saving runs and requests\<close>

definition run_core :: "run \<Rightarrow> uuid \<times> int \<times> uuid \<times> time" where
  "run_core r = (rn_request_id r, rn_attempt r, rn_id r, rn_created_at r)"

lemma runs_save_stored:
  assumes "runs_get (rn_id r) db = Some r" "run_core r' = run_core r" "runs_save r' db = Inr (u, db')"
  shows "db' = db\<lparr>t_runs := table_put rn_id (t_runs db) r'\<rparr>"
proof -
  have "r\<lparr>rn_status := rn_status r', rn_failure_reason := rn_failure_reason r',
           rn_updated_at := rn_updated_at r', rn_started_at := rn_started_at r',
           rn_completed_at := rn_completed_at r', rn_version := rn_version r'\<rparr> = r'"
    using assms(2) by (intro run.equality) (simp_all add: run_core_def)
  moreover have "runs_get (rn_id r') db = Some r" using assms(1,2) by (simp add: run_core_def)
  ultimately show ?thesis using assms(3) unfolding runs_save_def by (simp only: option.case) simp
qed

definition request_core :: "user_request \<Rightarrow> uuid \<times> string \<times> string option \<times> request_origin option \<times> uuid \<times> time" where
  "request_core q = (rq_project_id q, rq_prompt q, rq_title q, rq_origin q, rq_id q, rq_created_at q)"

lemma requests_save_stored:
  assumes "requests_get (rq_id q) db = Some q" "request_core q' = request_core q" "requests_save q' db = Inr (u, db')"
  shows "db' = db\<lparr>t_requests := table_put rq_id (t_requests db) q'\<rparr>"
proof -
  have "q\<lparr>rq_status := rq_status q', rq_updated_at := rq_updated_at q'\<rparr> = q'"
    using assms(2) by (intro user_request.equality) (simp_all add: request_core_def)
  moreover have "requests_get (rq_id q') db = Some q" using assms(1,2) by (simp add: request_core_def)
  ultimately show ?thesis using assms(3) unfolding requests_save_def by (simp only: option.case) simp
qed

lemma run_transition_core: "run_transition_to r t at now = Inr r' \<Longrightarrow> run_core r' = run_core r"
  by (auto simp: run_transition_to_def run_core_def Let_def split: if_splits)

lemma run_fail_core: "run_fail r reason at now = Inr r' \<Longrightarrow> run_core r' = run_core r"
  by (auto simp: run_fail_def run_core_def dest!: run_transition_core split: if_splits)

lemma move_runD:
  assumes "move_run ex r now = Inr r'"
  shows "run_core r' = run_core r" "rn_status r' = run_status_by_workflow (we_status ex)"
    "run_ok r \<Longrightarrow> run_ok r'"
proof -
  consider (fail) reason where "run_fail r reason (Some (we_updated_at ex)) now = Inr r'"
      "run_status_by_workflow (we_status ex) = RFailed"
    | (move) "run_transition_to r (run_status_by_workflow (we_status ex)) (Some (we_updated_at ex)) now = Inr r'"
    using assms by (auto simp: move_run_def Let_def split: if_splits)
  then have "run_core r' = run_core r \<and> rn_status r' = run_status_by_workflow (we_status ex)
    \<and> (run_ok r \<longrightarrow> run_ok r')"
  proof cases
    case fail
    then show ?thesis using run_fail_core[OF fail(1)] run_fail_ok[OF fail(1)]
      by (auto simp: run_fail_def dest!: run_lifecycle.move_status split: if_splits)
  next
    case move
    then show ?thesis
      using run_transition_core[OF move] run_transition_ok[OF move] run_lifecycle.move_status[OF move] by simp
  qed
  then show "run_core r' = run_core r" "rn_status r' = run_status_by_workflow (we_status ex)"
    "run_ok r \<Longrightarrow> run_ok r'" by auto
qed

lemma runs_get_put: "runs_get (rn_id r) db = Some x \<Longrightarrow>
    runs_get k (db\<lparr>t_runs := table_put rn_id (t_runs db) r\<rparr>) = (if k = rn_id r then Some r else runs_get k db)"
  using run_table.get_put_same[of "t_runs db" r x] run_table.get_put_other[of r k "t_runs db"]
  by (auto simp: runs_get_def)

lemma requests_get_put: "requests_get (rq_id q) db = Some x \<Longrightarrow>
    requests_get k (db\<lparr>t_requests := table_put rq_id (t_requests db) q\<rparr>) = (if k = rq_id q then Some q else requests_get k db)"
  using request_table.get_put_same[of "t_requests db" q x] request_table.get_put_other[of q k "t_requests db"]
  by (auto simp: requests_get_def)

lemma runs_get_id: "runs_get k db = Some r \<Longrightarrow> rn_id r = k"
  by (simp add: runs_get_def run_table.get_key)

lemma requests_get_id: "requests_get k db = Some q \<Longrightarrow> rq_id q = k"
  by (simp add: requests_get_def request_table.get_key)

section \<open>Synchronizing the parents\<close>

abbreviation run_of :: "workflow_execution \<Rightarrow> uuid" where
  "run_of ex \<equiv> ws_run_id (we_snapshot ex)"

definition closed_request :: "user_request \<Rightarrow> bool" where
  "closed_request q \<longleftrightarrow> rq_status q \<in> {QCompleted, QCancelled}"

text \<open>The services store requests activated; none is in its initial status.\<close>

definition requests_opened :: "db \<Rightarrow> bool" where
  "requests_opened db \<longleftrightarrow> (\<forall>q \<in> set (t_requests db). rq_status q \<noteq> QReceived)"

text \<open>Requests are never lost and never reopened.\<close>

definition requests_advance :: "db \<Rightarrow> db \<Rightarrow> bool" where
  "requests_advance db db' \<longleftrightarrow> (\<forall>k q. requests_get k db = Some q \<longrightarrow>
     (\<exists>q'. requests_get k db' = Some q' \<and> (closed_request q \<longrightarrow> closed_request q')))"

definition paired :: "db \<Rightarrow> workflow_execution \<Rightarrow> bool" where
  "paired db ex \<longleftrightarrow> (\<exists>r q. runs_get (run_of ex) db = Some r \<and> requests_get (rn_request_id r) db = Some q
     \<and> rn_status r = run_status_by_workflow (we_status ex)
     \<and> (we_status ex \<in> {WSucceeded, WCancelled} \<longrightarrow> closed_request q))"

lemma requests_advance_refl: "requests_advance db db"
  by (simp add: requests_advance_def)

lemma requests_advance_cong: "t_requests db' = t_requests db \<Longrightarrow> requests_advance db db'"
  by (simp add: requests_advance_def requests_get_def)

lemma requests_advance_trans: "requests_advance db db' \<Longrightarrow> requests_advance db' db'' \<Longrightarrow> requests_advance db db''"
  unfolding requests_advance_def by meson

lemma paired_other:
  assumes "paired db ex" "runs_get (run_of ex) db' = runs_get (run_of ex) db" "requests_advance db db'"
  shows "paired db' ex"
  using assms unfolding paired_def requests_advance_def by (metis option.inject)

lemma emit_keeps:
  assumes "emit a i t p now db = Inr (u, db')"
  shows "t_runs db' = t_runs db" "t_requests db' = t_requests db" "t_executions db' = t_executions db"
    "t_definitions db' = t_definitions db" "t_next db \<le> t_next db'"
  using assms by (auto simp: emit_def events_append_def)

lemma sync_run_spec:
  assumes "sync_run ex r now db = Inr (u, db')" "runs_get (rn_id r) db = Some r"
  shows "\<exists>r'. runs_get (rn_id r) db' = Some r' \<and> rn_status r' = run_status_by_workflow (we_status ex)
      \<and> rn_request_id r' = rn_request_id r"
    and "k \<noteq> rn_id r \<Longrightarrow> runs_get k db' = runs_get k db" and "t_requests db' = t_requests db"
    and "Ball (set (t_runs db)) run_ok \<Longrightarrow> Ball (set (t_runs db')) run_ok"
proof -
  consider (same) "rn_status r = run_status_by_workflow (we_status ex)" "db' = db"
    | (moved) r' db1 p where "move_run ex r now = Inr r'" "runs_save r' db = Inr ((), db1)"
        "emit ''run'' (rn_id r') ''run.status_changed'' p now db1 = Inr (u, db')"
    using assms(1) by (auto simp: sync_run_def split: if_splits)
  then have "(\<exists>r'. runs_get (rn_id r) db' = Some r' \<and> rn_status r' = run_status_by_workflow (we_status ex)
      \<and> rn_request_id r' = rn_request_id r) \<and> (\<forall>k. k \<noteq> rn_id r \<longrightarrow> runs_get k db' = runs_get k db)
      \<and> t_requests db' = t_requests db
      \<and> (Ball (set (t_runs db)) run_ok \<longrightarrow> Ball (set (t_runs db')) run_ok)"
  proof cases
    case same
    then show ?thesis using assms(2) by simp
  next
    case moved
    note m = move_runD[OF moved(1)] and e = emit_keeps[OF moved(3)]
    have db1: "db1 = db\<lparr>t_runs := table_put rn_id (t_runs db) r'\<rparr>"
      by (rule runs_save_stored[OF assms(2) m(1) moved(2)])
    have id: "rn_id r' = rn_id r" "rn_request_id r' = rn_request_id r" using m(1) by (auto simp: run_core_def)
    have "runs_get k db' = (if k = rn_id r then Some r' else runs_get k db)" for k
      using runs_get_put[of r' db r k] assms(2) e(1) by (simp add: runs_get_def db1 id)
    moreover have "r \<in> set (t_runs db)" using table_get_key assms(2) by (fastforce simp: runs_get_def)
    ultimately show ?thesis using m(2,3) id e(1,2) by (auto simp: db1 table_put_def split: if_splits)
  qed
  then show "\<exists>r'. runs_get (rn_id r) db' = Some r' \<and> rn_status r' = run_status_by_workflow (we_status ex)
      \<and> rn_request_id r' = rn_request_id r"
    and "k \<noteq> rn_id r \<Longrightarrow> runs_get k db' = runs_get k db" and "t_requests db' = t_requests db"
    and "Ball (set (t_runs db)) run_ok \<Longrightarrow> Ball (set (t_runs db')) run_ok" by auto
qed

lemma set_status_core: "request_set_status q s at now = Inr q' \<Longrightarrow> request_core q' = request_core q \<and> rq_status q' = s"
  by (auto simp: request_set_status_def request_core_def split: if_splits)

lemma finish_request_spec:
  assumes "finish_request ex r (request_set_status q s at now) t now' db = Inr (u, db')"
    "requests_get (rq_id q) db = Some q" "s \<in> {QCompleted, QCancelled}"
  shows "t_runs db' = t_runs db \<and> requests_advance db db'
     \<and> (\<exists>q'. requests_get (rq_id q) db' = Some q' \<and> closed_request q')
     \<and> (requests_opened db \<longrightarrow> requests_opened db')"
proof -
  from assms(1) obtain q' db1 p where q': "request_set_status q s at now = Inr q'"
    and s: "requests_save q' db = Inr ((), db1)" and e: "emit ''request'' (rq_id q') t p now' db1 = Inr (u, db')"
    by (auto simp: finish_request_def)
  note c = set_status_core[OF q'] and e = emit_keeps[OF e]
  have db1: "db1 = db\<lparr>t_requests := table_put rq_id (t_requests db) q'\<rparr>"
    by (rule requests_save_stored[OF assms(2) _ s]) (use c in simp)
  have id: "rq_id q' = rq_id q" using c by (simp add: request_core_def)
  have get: "requests_get k db' = (if k = rq_id q then Some q' else requests_get k db)" for k
    using requests_get_put[of q' db q k] assms(2) e(2) by (simp add: requests_get_def db1 id)
  moreover have "closed_request q'" using c assms(3) by (simp add: closed_request_def)
  ultimately show ?thesis
    using e(1,2) c assms(3) by (auto simp: db1 requests_advance_def requests_opened_def table_put_def split: if_splits)
qed

lemma sync_request_spec:
  assumes "sync_request ex r q now db = Inr (u, db')" "requests_get (rq_id q) db = Some q" "requests_opened db"
  shows "t_runs db' = t_runs db" "requests_advance db db'"
    "\<exists>q'. requests_get (rq_id q) db' = Some q' \<and> (we_status ex \<in> {WSucceeded, WCancelled} \<longrightarrow> closed_request q')"
    "requests_opened db'"
proof -
  have "q \<in> set (t_requests db)" using table_get_key assms(2) by (fastforce simp: requests_get_def)
  then have op: "rq_status q \<noteq> QReceived" using assms(3) by (simp add: requests_opened_def)
  consider (finish) s t where "s \<in> {QCompleted, QCancelled}"
      "finish_request ex r (request_set_status q s (Some (we_updated_at ex)) now) t now db = Inr (u, db')"
    | (none) "db' = db" "we_status ex \<in> {WSucceeded, WCancelled} \<longrightarrow> closed_request q"
    using assms(1) op
    by (cases "rq_status q") (auto simp: sync_request_def request_complete_def request_cancel_def
        closed_request_def split: if_splits)
  then have "t_runs db' = t_runs db \<and> requests_advance db db' \<and> (\<exists>q'. requests_get (rq_id q) db' = Some q'
      \<and> (we_status ex \<in> {WSucceeded, WCancelled} \<longrightarrow> closed_request q')) \<and> requests_opened db'"
  proof cases
    case finish
    from finish_request_spec[OF finish(2) assms(2) finish(1)] assms(3) show ?thesis by blast
  next
    case none
    then show ?thesis using assms(2,3) by (simp add: requests_advance_refl)
  qed
  then show "t_runs db' = t_runs db" "requests_advance db db'"
    "\<exists>q'. requests_get (rq_id q) db' = Some q' \<and> (we_status ex \<in> {WSucceeded, WCancelled} \<longrightarrow> closed_request q')"
    "requests_opened db'"
    by auto
qed

text \<open>After a synchronization the execution is paired, and other executions stay as they were.\<close>

lemma synchronize_spec:
  assumes "synchronize_execution_lifecycle ex now db = Inr (u, db')" "ws_request_context (we_snapshot ex) \<noteq> None"
    "requests_opened db"
  shows "paired db' ex" "k \<noteq> run_of ex \<Longrightarrow> runs_get k db' = runs_get k db" "requests_advance db db'"
    "Ball (set (t_runs db)) run_ok \<Longrightarrow> Ball (set (t_runs db')) run_ok" "requests_opened db'"
proof -
  from assms obtain r q db1 where r: "runs_get (run_of ex) db = Some r"
    and q: "requests_get (rn_request_id r) db = Some q" and s1: "sync_run ex r now db = Inr ((), db1)"
    and s2: "sync_request ex r q now db1 = Inr (u, db')"
    by (auto simp: synchronize_execution_lifecycle_def split: option.splits)
  have ids: "rn_id r = run_of ex" "rq_id q = rn_request_id r" using runs_get_id[OF r] requests_get_id[OF q] by auto
  have r0: "runs_get (rn_id r) db = Some r" using r ids by simp
  note a = sync_run_spec[OF s1 r0]
  have q1: "requests_get (rq_id q) db1 = Some q" using q ids a(3) by (simp add: requests_get_def)
  have op1: "requests_opened db1" using assms(3) a(3) by (simp add: requests_opened_def)
  note b = sync_request_spec[OF s2 q1 op1]
  have runs: "runs_get k db' = runs_get k db1" for k using b(1) by (simp add: runs_get_def)
  show "paired db' ex" using a(1) b(3) runs ids unfolding paired_def by metis
  show "k \<noteq> run_of ex \<Longrightarrow> runs_get k db' = runs_get k db" using a(2) runs ids by simp
  show "requests_advance db db'"
    using requests_advance_cong[OF a(3)] b(2) by (rule requests_advance_trans)
  show "Ball (set (t_runs db)) run_ok \<Longrightarrow> Ball (set (t_runs db')) run_ok" using a(4) b(1) by simp
  show "requests_opened db'" by (rule b(4))
qed

end
