(* ===== verification/Budget_Ledger.thy ===== *)
theory Budget_Ledger
  imports Budget_Services
begin

text \<open>
  The budget ledger. Every account holds exactly what its open reservations hold and has spent
  exactly what its usage records charge; the operations of \<open>Budget_Services\<close> keep that, in every
  branch, and are idempotent under retries of the worker.
\<close>

section \<open>The invariant\<close>

definition held :: "uuid \<Rightarrow> budget_reservation \<Rightarrow> micros" where
  "held aid r = (if br_account_id r = aid \<and> br_status r = BReserved then br_reserved_usd r else 0)"

definition charged :: "uuid \<Rightarrow> usage_record \<Rightarrow> micros" where
  "charged aid u = (if ur_account_id u = aid then ur_cost_usd u else 0)"

definition reservation_row_ok :: "budget_account list \<Rightarrow> uuid \<Rightarrow> budget_reservation \<Rightarrow> bool" where
  "reservation_row_ok accs n r \<longleftrightarrow> br_id r < n \<and> 0 \<le> br_reserved_usd r \<and> is_money (br_reserved_usd r)
     \<and> (br_account_id r, br_project_id r) \<in> (\<lambda>a. (ba_id a, ba_project_id a)) ` set accs"

definition ledger ::
    "budget_account list \<Rightarrow> budget_reservation list \<Rightarrow> usage_record list \<Rightarrow> uuid \<Rightarrow> bool" where
  "ledger accs rs us n \<longleftrightarrow>
     distinct (map ba_id accs) \<and> distinct (map ba_project_id accs) \<and> distinct (map br_id rs)
     \<and> (\<forall>a \<in> set accs. ba_id a < n \<and> amounts_ok a
          \<and> ba_reserved_usd a = (\<Sum>r\<leftarrow>rs. held (ba_id a) r)
          \<and> ba_spent_usd a = (\<Sum>u\<leftarrow>us. charged (ba_id a) u))
     \<and> (\<forall>r \<in> set rs. reservation_row_ok accs n r)
     \<and> (\<forall>u \<in> set us. ur_account_id u < n)"

definition ledger_ok :: "db \<Rightarrow> bool" where
  "ledger_ok db \<longleftrightarrow> ledger (t_accounts db) (t_reservations db) (t_usage db) (t_next db)"

section \<open>Sums over an updated table\<close>

lemma table_put_absent: "key_of y \<notin> key_of ` set t \<Longrightarrow> table_put key_of t y = t"
  unfolding table_put_def by (rule map_idI) (metis image_eqI)

lemma sum_table_put:
  fixes f :: "'r \<Rightarrow> int"
  assumes "distinct (map key_of t)" "x \<in> set t" "key_of y = key_of x"
  shows "(\<Sum>r\<leftarrow>table_put key_of t y. f r) = (\<Sum>r\<leftarrow>t. f r) - f x + f y"
  using assms
proof (induction t)
  case (Cons r t)
  show ?case
  proof (cases "r = x")
    case True
    then have "key_of y \<notin> key_of ` set t" using Cons.prems by auto
    then have "table_put key_of t y = t" by (rule table_put_absent)
    then show ?thesis using True Cons.prems(3) by (simp add: table_put_def)
  next
    case False
    then have x: "x \<in> set t" using Cons.prems(2) by simp
    then have "key_of r \<noteq> key_of y" using Cons.prems by auto
    then show ?thesis using Cons.IH[OF _ x Cons.prems(3)] Cons.prems(1) by (simp add: table_put_def)
  qed
qed simp

lemma map_table_put:
  assumes "distinct (map key_of t)" "x \<in> set t" "key_of y = key_of x" "f y = f x"
  shows "map f (table_put key_of t y) = map f t"
  unfolding table_put_def
proof (simp, intro ballI impI)
  fix z assume "z \<in> set t" "key_of z = key_of y"
  then have "z = x" using assms(1-3) by (metis distinct_map inj_onD)
  then show "f y = f z" using assms(4) by simp
qed

lemma set_table_put:
  "z \<in> set (table_put key_of t y) \<Longrightarrow> z = y \<or> (z \<in> set t \<and> key_of z \<noteq> key_of y)"
  by (auto simp: table_put_def split: if_splits)

section \<open>One account changes\<close>

lemma ledger_update:
  assumes led: "ledger accs rs us n" and a: "a \<in> set accs" "ba_id a' = ba_id a" "ba_project_id a' = ba_project_id a"
    and ok: "amounts_ok a'" and n: "n \<le> n'" and rs: "distinct (map br_id rs')"
    and rows: "\<And>r. r \<in> set rs' \<Longrightarrow> reservation_row_ok accs n' r" and us: "\<And>u. u \<in> set us' \<Longrightarrow> ur_account_id u < n'"
    and held: "\<And>aid. (\<Sum>r\<leftarrow>rs'. held aid r) = (\<Sum>r\<leftarrow>rs. held aid r)
      + (if aid = ba_id a then ba_reserved_usd a' - ba_reserved_usd a else 0)"
    and charged: "\<And>aid. (\<Sum>u\<leftarrow>us'. charged aid u) = (\<Sum>u\<leftarrow>us. charged aid u)
      + (if aid = ba_id a then ba_spent_usd a' - ba_spent_usd a else 0)"
  shows "ledger (table_put ba_id accs a') rs' us' n'"
proof -
  have d: "distinct (map ba_id accs)" "distinct (map ba_project_id accs)"
    using led by (auto simp: ledger_def)
  have ids: "map ba_id (table_put ba_id accs a') = map ba_id accs"
    "map ba_project_id (table_put ba_id accs a') = map ba_project_id accs"
    "map (\<lambda>a. (ba_id a, ba_project_id a)) (table_put ba_id accs a') = map (\<lambda>a. (ba_id a, ba_project_id a)) accs"
    using a by (auto intro!: map_table_put[OF d(1) a(1)])
  then have pairs: "(\<lambda>a. (ba_id a, ba_project_id a)) ` set (table_put ba_id accs a')
      = (\<lambda>a. (ba_id a, ba_project_id a)) ` set accs"
    by (metis list.set_map)
  have acc: "ba_id b < n' \<and> amounts_ok b \<and> ba_reserved_usd b = (\<Sum>r\<leftarrow>rs'. Budget_Ledger.held (ba_id b) r)
      \<and> ba_spent_usd b = (\<Sum>u\<leftarrow>us'. Budget_Ledger.charged (ba_id b) u)"
    if "b \<in> set (table_put ba_id accs a')" for b
    using set_table_put[OF that]
  proof
    assume "b = a'"
    then show ?thesis using led a n ok held[of "ba_id a"] charged[of "ba_id a"]
      by (auto simp: ledger_def)
  next
    assume b: "b \<in> set accs \<and> ba_id b \<noteq> ba_id a'"
    then show ?thesis using led a(2) n held[of "ba_id b"] charged[of "ba_id b"]
      by (auto simp: ledger_def)
  qed
  have "reservation_row_ok (table_put ba_id accs a') n' r" if "r \<in> set rs'" for r
    using rows[OF that] by (simp add: reservation_row_ok_def pairs)
  with acc d rs us show ?thesis unfolding ledger_def ids by blast
qed

text \<open>The account a service loads and the row it saves.\<close>

lemma accounts_get_by_project_member:
  "accounts_get_by_project p db = Some a \<Longrightarrow> a \<in> set (t_accounts db) \<and> ba_project_id a = p"
  unfolding accounts_get_by_project_def by (drule find_SomeD) simp

lemma accounts_save_member:
  assumes "distinct (map ba_id (t_accounts db))" "a \<in> set (t_accounts db)"
    "ba_id a' = ba_id a" "ba_project_id a' = ba_project_id a" "ba_created_at a' = ba_created_at a"
    "accounts_save a' db = Inr (u, db')"
  shows "db' = db\<lparr>t_accounts := table_put ba_id (t_accounts db) a'\<rparr>"
proof -
  have "a\<lparr>ba_limit_usd := ba_limit_usd a', ba_reserved_usd := ba_reserved_usd a',
      ba_spent_usd := ba_spent_usd a', ba_version := ba_version a', ba_updated_at := ba_updated_at a'\<rparr> = a'"
    using assms(3-5) by (simp add: budget_account.equality)
  then show ?thesis using assms(3,6) table_get_member[OF assms(1,2)] by (simp add: accounts_save_def)
qed

lemma reservations_save_member:
  assumes "distinct (map br_id (t_reservations db))" "x \<in> set (t_reservations db)"
    "x' = x\<lparr>br_status := s, br_actual_usd := c, br_finalized_at := t\<rparr>"
    "reservations_save x' db = Inr (u, db')"
  shows "db' = db\<lparr>t_reservations := table_put br_id (t_reservations db) x'\<rparr>"
  using assms table_get_member[OF assms(1,2)] by (auto simp: reservations_save_def)

lemma emit_Inr:
  "emit ty aid ev pl now db = Inr (u, db') \<Longrightarrow>
     \<exists>e. db' = db\<lparr>t_next := Suc (t_next db), t_events := t_events db @ [e]\<rparr>"
  by (auto simp: emit_def events_append_def)

lemma reservation_finalizeD:
  assumes "reservation_finalize r st c at now = Inr r'"
  shows "\<exists>v. money c = Inr v \<and> 0 \<le> v \<and> br_status r = BReserved
    \<and> r' = r\<lparr>br_status := st, br_actual_usd := Some v, br_finalized_at := Some (at_or_now at now)\<rparr>"
  using assms by (auto simp: reservation_finalize_def split: if_splits)

lemma amounts_ok_touch [simp]: "amounts_ok (account_touch a at now) = amounts_ok a"
  by (simp add: amounts_ok_def account_touch_def)

lemma account_touch_fields [simp]:
  "ba_id (account_touch a at now) = ba_id a" "ba_project_id (account_touch a at now) = ba_project_id a"
  "ba_reserved_usd (account_touch a at now) = ba_reserved_usd a"
  "ba_spent_usd (account_touch a at now) = ba_spent_usd a"
  "ba_limit_usd (account_touch a at now) = ba_limit_usd a"
  by (simp_all add: account_touch_def)

section \<open>Every operation keeps the ledger\<close>

lemma ledger_next: "ledger accs rs us n \<Longrightarrow> n \<le> n' \<Longrightarrow> ledger accs rs us n'"
  by (fastforce simp: ledger_def reservation_row_ok_def)

lemma account_reserve_within:
  assumes "account_reserve a (usd m) at now = Inr a'" "is_money m" "amounts_ok a"
  shows "a' = account_touch (a\<lparr>ba_reserved_usd := ba_reserved_usd a + m\<rparr>) at now" "0 \<le> m"
    "ba_reserved_usd a + m + ba_spent_usd a \<le> ba_limit_usd a" "amounts_ok a'"
proof -
  from account_reserveD[OF assms(1,2)]
  have a': "a' = account_touch (a\<lparr>ba_reserved_usd := ba_reserved_usd a + m\<rparr>) at now" and m: "0 \<le> m"
    and r: "is_money (ba_reserved_usd a + m)" by auto
  have "is_money (ba_limit_usd a - ba_reserved_usd a)"
    using assms(3) by (auto simp: amounts_ok_def is_money_def)
  then have "available_usd a = money (dec_sub (usd (ba_limit_usd a - ba_reserved_usd a)) (usd (ba_spent_usd a)))"
    by (simp add: available_usd_def dec_sub_usd)
  then have "\<exists>v. available_usd a = Inr v \<and> v = ba_limit_usd a - ba_reserved_usd a - ba_spent_usd a \<and> m \<le> v"
    using assms(1,2) by (auto simp: account_reserve_def money_usd money_sub split: if_splits)
  then show "ba_reserved_usd a + m + ba_spent_usd a \<le> ba_limit_usd a" by auto
  show "a' = account_touch (a\<lparr>ba_reserved_usd := ba_reserved_usd a + m\<rparr>) at now" "0 \<le> m"
    using a' m by auto
  show "amounts_ok a'" using a' m r assms(3) by (auto simp: amounts_ok_def)
qed

lemma budget_reserve_newD:
  assumes "budget_reserve_new claim sel p account now db = Inr (res, db')"
  obtains m a' r db1 e where "money (ms_estimated_cost_usd sel) = Inr m" "is_money m"
    "account_reserve account (usd m) None now = Inr a'" "res = Some r"
    "r = \<lparr>br_account_id = ba_id a', br_project_id = p,
       br_run_id = tc_run_id claim, br_execution_id = tc_execution_id claim,
       br_node_key = tc_node_key claim, br_idempotency_key = tc_idempotency_key claim,
       br_reserved_usd = m, br_id = t_next db, br_status = BReserved, br_actual_usd = None,
       br_created_at = now, br_finalized_at = None\<rparr>"
    "accounts_save a' (db\<lparr>t_next := Suc (t_next db)\<rparr>) = Inr ((), db1)"
    "db' = db1\<lparr>t_reservations := t_reservations db1 @ [r], t_next := Suc (t_next db1),
       t_events := t_events db1 @ [e]\<rparr>"
  using assms unfolding budget_reserve_new_def
  by (elim sbind_InrE)
     (auto simp: reservation_init_def reservations_add_def dest!: emit_Inr split: if_splits
       dest: money_is_money)

lemma budget_reserve_new_ledger:
  assumes "budget_reserve_new claim sel p account now db = Inr (res, db')" "ledger_ok db"
    "accounts_get_by_project p db = Some account"
  shows "ledger_ok db'"
proof -
  from assms(1) obtain m a' r db1 e where m: "is_money m" "account_reserve account (usd m) None now = Inr a'"
    and r: "r = \<lparr>br_account_id = ba_id a', br_project_id = p,
       br_run_id = tc_run_id claim, br_execution_id = tc_execution_id claim,
       br_node_key = tc_node_key claim, br_idempotency_key = tc_idempotency_key claim,
       br_reserved_usd = m, br_id = t_next db, br_status = BReserved, br_actual_usd = None,
       br_created_at = now, br_finalized_at = None\<rparr>"
    and s: "accounts_save a' (db\<lparr>t_next := Suc (t_next db)\<rparr>) = Inr ((), db1)"
    and db': "db' = db1\<lparr>t_reservations := t_reservations db1 @ [r], t_next := Suc (t_next db1),
       t_events := t_events db1 @ [e]\<rparr>"
    by (rule budget_reserve_newD)
  have led: "ledger (t_accounts db) (t_reservations db) (t_usage db) (t_next db)"
    using assms(2) by (simp add: ledger_ok_def)
  have acc: "account \<in> set (t_accounts db)" "ba_project_id account = p"
    using accounts_get_by_project_member[OF assms(3)] by auto
  then have ok: "amounts_ok account" and dist: "distinct (map ba_id (t_accounts db))"
    using led by (auto simp: ledger_def)
  note w = account_reserve_within[OF m(2,1) ok]
  have db1: "db1 = db\<lparr>t_next := Suc (t_next db), t_accounts := table_put ba_id (t_accounts db) a'\<rparr>"
    using accounts_save_member[of "db\<lparr>t_next := Suc (t_next db)\<rparr>" account a', OF _ _ _ _ _ s] dist acc(1) w(1)
    by (simp add: account_touch_def)
  have "ledger (table_put ba_id (t_accounts db) a') (t_reservations db @ [r]) (t_usage db) (Suc (Suc (t_next db)))"
  proof (rule ledger_update[OF led acc(1)])
    show "distinct (map br_id (t_reservations db @ [r]))"
      using led by (auto simp: ledger_def r reservation_row_ok_def)
    show "reservation_row_ok (t_accounts db) (Suc (Suc (t_next db))) q" if "q \<in> set (t_reservations db @ [r])" for q
      using that led acc w(1,2) m(1) by (auto simp: ledger_def r reservation_row_ok_def)
    show "ur_account_id u < Suc (Suc (t_next db))" if "u \<in> set (t_usage db)" for u
      using that led by (auto simp: ledger_def)
  qed (use w in \<open>auto simp: r held_def\<close>)
  then show ?thesis by (simp add: ledger_ok_def db' db1)
qed

lemma budget_project_id_Inr:
  "budget_project_id run_id db = Inr (p, db') \<longleftrightarrow> db' = db \<and> (\<exists>run request. runs_get run_id db = Some run
     \<and> requests_get (rn_request_id run) db = Some request \<and> p = rq_project_id request)"
  by (auto simp: budget_project_id_def sbind_Inr)

lemma budget_reserveD:
  assumes "budget_reserve claim now db = Inr (res, db')"
  shows "db' = db \<or> (\<exists>sel p account. tc_model_selection claim = Some sel
    \<and> accounts_get_by_project p db = Some account \<and> reservations_get_by_key (tc_idempotency_key claim) db = None
    \<and> budget_reserve_new claim sel p account now db = Inr (res, db'))"
  using assms unfolding budget_reserve_def
  by (auto split: option.splits simp: budget_project_id_Inr)

lemma budget_reserve_ledger:
  "budget_reserve claim now db = Inr (res, db') \<Longrightarrow> ledger_ok db \<Longrightarrow> ledger_ok db'"
  using budget_reserveD budget_reserve_new_ledger by blast

subsection \<open>Settlement\<close>

lemma budget_chargeD:
  assumes "budget_charge profile usage kind stored now = Inr (r, cost)" "is_money (br_reserved_usd stored)"
  obtains st c t where "r = stored\<lparr>br_status := st, br_actual_usd := c, br_finalized_at := t\<rparr>"
    "st \<noteq> BReserved" "is_money cost" "0 \<le> cost" "br_status stored = BReserved"
proof -
  have "\<exists>st. st \<noteq> BReserved \<and> is_money cost \<and> reservation_finalize stored st (usd cost) None now = Inr r"
    using assms by (cases kind) (auto simp: budget_charge_def usage_cost_def reservation_settle_def
        reservation_forfeit_def intro: money_is_money)
  then obtain st where st: "st \<noteq> BReserved" "is_money cost" "reservation_finalize stored st (usd cost) None now = Inr r"
    by blast
  from reservation_finalizeD[OF st(3)] st(2)
  have "0 \<le> cost" "br_status stored = BReserved"
    "r = stored\<lparr>br_status := st, br_actual_usd := Some cost, br_finalized_at := Some (at_or_now None now)\<rparr>"
    by auto
  with st that show thesis by blast
qed

lemma budget_finalize_newD:
  assumes "budget_finalize_new sel usage kind account stored now db = Inr (u, db')"
  obtains r cost a' db1 db2 e where "budget_charge (ms_profile sel) usage kind stored now = Inr (r, cost)"
    "account_settle account (usd (br_reserved_usd r)) (usd cost) None now = Inr a'"
    "ur_reservation_id u = br_id r" "ur_account_id u = br_account_id r" "money (usd cost) = Inr (ur_cost_usd u)"
    "accounts_save a' (db\<lparr>t_next := Suc (t_next db)\<rparr>) = Inr ((), db1)"
    "reservations_save r db1 = Inr ((), db2)"
    "db' = db2\<lparr>t_usage := t_usage db2 @ [u], t_next := Suc (t_next db2), t_events := t_events db2 @ [e]\<rparr>"
  using assms unfolding budget_finalize_new_def
  by (elim sbind_InrE)
     (auto simp: usage_record_init_def usage_add_def dest!: emit_Inr split: if_splits prod.splits)

lemma held_put:
  assumes "distinct (map br_id rs)" "x \<in> set rs" "br_status x = BReserved"
    "x' = x\<lparr>br_status := st, br_actual_usd := c, br_finalized_at := t\<rparr>" "st \<noteq> BReserved"
  shows "(\<Sum>r\<leftarrow>table_put br_id rs x'. held aid r) = (\<Sum>r\<leftarrow>rs. held aid r)
    - (if aid = br_account_id x then br_reserved_usd x else 0)"
  using sum_table_put[OF assms(1,2), of x' "held aid"] assms(3-5) by (auto simp: held_def)

lemma reservation_rows_put:
  assumes "\<And>r. r \<in> set rs \<Longrightarrow> reservation_row_ok accs n r" "x \<in> set rs" "n \<le> n'"
    "x' = x\<lparr>br_status := st, br_actual_usd := c, br_finalized_at := t\<rparr>" "r \<in> set (table_put br_id rs x')"
  shows "reservation_row_ok accs n' r"
  using set_table_put[OF assms(5)] assms(1)[of r] assms(1)[OF assms(2)] assms(3,4)
  by (auto simp: reservation_row_ok_def)

lemma settled_amounts_ok:
  assumes "amounts_ok a" "account_settle a (usd m) (usd c) at now = Inr a'" "is_money m" "is_money c"
  shows "amounts_ok a'"
  using account_settleD[OF assms(2-4)] assms(1) by (auto simp: amounts_ok_def)

lemma account_of_reservation:
  assumes "ledger accs rs us n" "r \<in> set rs" "a \<in> set accs" "ba_project_id a = br_project_id r"
  shows "br_account_id r = ba_id a"
proof -
  from assms(1,2) obtain b where b: "b \<in> set accs" "ba_id b = br_account_id r" "ba_project_id b = br_project_id r"
    unfolding ledger_def reservation_row_ok_def by force
  with assms have "b = a" by (metis ledger_def distinct_map inj_onD)
  with b show ?thesis by simp
qed

lemma budget_finalize_new_ledger:
  assumes "budget_finalize_new sel usage kind account stored now db = Inr (u, db')" "ledger_ok db"
    "accounts_get_by_project (br_project_id stored) db = Some account" "stored \<in> set (t_reservations db)"
  shows "ledger_ok db'"
proof -
  from assms(1) obtain r cost a' db1 db2 e
    where ch: "budget_charge (ms_profile sel) usage kind stored now = Inr (r, cost)"
    and se: "account_settle account (usd (br_reserved_usd r)) (usd cost) None now = Inr a'"
    and u: "ur_account_id u = br_account_id r" "money (usd cost) = Inr (ur_cost_usd u)"
    and s1: "accounts_save a' (db\<lparr>t_next := Suc (t_next db)\<rparr>) = Inr ((), db1)"
    and s2: "reservations_save r db1 = Inr ((), db2)"
    and db': "db' = db2\<lparr>t_usage := t_usage db2 @ [u], t_next := Suc (t_next db2), t_events := t_events db2 @ [e]\<rparr>"
    by (rule budget_finalize_newD)
  have led: "ledger (t_accounts db) (t_reservations db) (t_usage db) (t_next db)"
    using assms(2) by (simp add: ledger_ok_def)
  then have ds: "distinct (map ba_id (t_accounts db))" "distinct (map br_id (t_reservations db))"
    and rows: "\<And>q. q \<in> set (t_reservations db) \<Longrightarrow> reservation_row_ok (t_accounts db) (t_next db) q"
    by (auto simp: ledger_def)
  have acc: "account \<in> set (t_accounts db)" "ba_project_id account = br_project_id stored"
    using accounts_get_by_project_member[OF assms(3)] by auto
  then have ok: "amounts_ok account" using led by (auto simp: ledger_def)
  have sm: "is_money (br_reserved_usd stored)" using rows[OF assms(4)] by (simp add: reservation_row_ok_def)
  from ch sm obtain st c t where r: "r = stored\<lparr>br_status := st, br_actual_usd := c, br_finalized_at := t\<rparr>"
    and st: "st \<noteq> BReserved" "br_status stored = BReserved" and cost: "is_money cost" "0 \<le> cost"
    by (rule budget_chargeD)
  have rm: "is_money (br_reserved_usd r)" using sm r by simp
  note a' = account_settleD[OF se rm cost(1)] settled_amounts_ok[OF ok se rm cost(1)]
  have db1: "db1 = db\<lparr>t_next := Suc (t_next db), t_accounts := table_put ba_id (t_accounts db) a'\<rparr>"
    using accounts_save_member[of "db\<lparr>t_next := Suc (t_next db)\<rparr>" account a', OF _ _ _ _ _ s1] ds(1) acc(1) a'(1)
    by (simp add: account_touch_def)
  have db2: "db2 = db1\<lparr>t_reservations := table_put br_id (t_reservations db) r\<rparr>"
    using reservations_save_member[OF _ _ r s2] ds(2) assms(4) by (simp add: db1)
  have aid: "br_account_id stored = ba_id account" by (rule account_of_reservation[OF led assms(4) acc])
  have "ledger (table_put ba_id (t_accounts db) a') (table_put br_id (t_reservations db) r) (t_usage db @ [u])
      (Suc (Suc (t_next db)))"
  proof (rule ledger_update[OF led acc(1)])
    show "distinct (map br_id (table_put br_id (t_reservations db) r))"
      using ds(2) map_table_put[OF ds(2) assms(4), of r br_id] r by simp
    show "reservation_row_ok (t_accounts db) (Suc (Suc (t_next db))) q"
      if "q \<in> set (table_put br_id (t_reservations db) r)" for q
      by (rule reservation_rows_put[OF rows assms(4) _ r that]) auto
    show "ur_account_id v < Suc (Suc (t_next db))" if "v \<in> set (t_usage db @ [u])" for v
      using that led acc(1) u(1) aid r by (auto simp: ledger_def)
    show "(\<Sum>q\<leftarrow>table_put br_id (t_reservations db) r. held i q) = (\<Sum>q\<leftarrow>t_reservations db. held i q)
        + (if i = ba_id account then ba_reserved_usd a' - ba_reserved_usd account else 0)" for i
      using held_put[OF ds(2) assms(4) st(2) r st(1), of i] a'(1) aid r by auto
    show "(\<Sum>v\<leftarrow>t_usage db @ [u]. charged i v) = (\<Sum>v\<leftarrow>t_usage db. charged i v)
        + (if i = ba_id account then ba_spent_usd a' - ba_spent_usd account else 0)" for i
      using u a'(1) aid r cost(1) by (auto simp: charged_def)
  qed (use a' in auto)
  then show ?thesis by (simp add: ledger_ok_def db' db2 db1)
qed

lemma reservations_get_by_key_member:
  "reservations_get_by_key k db = Some r \<Longrightarrow> r \<in> set (t_reservations db) \<and> br_idempotency_key r = k"
  unfolding reservations_get_by_key_def by (drule find_SomeD) simp

lemma budget_finalizeD:
  assumes "budget_finalize claim reservation usage kind now db = Inr (u, db')"
  obtains sel stored account where "tc_model_selection claim = Some sel"
    "reservations_get_by_key (br_idempotency_key reservation) db = Some stored"
    "accounts_get_by_project (br_project_id stored) db = Some account"
    "usage_get_by_reservation (br_id stored) db = Some u \<and> db' = db
     \<or> usage_get_by_reservation (br_id stored) db = None \<and> br_status stored = BReserved
       \<and> budget_finalize_new sel usage kind account stored now db = Inr (u, db')"
  using assms unfolding budget_finalize_def
  by (auto split: option.splits if_splits)

lemma budget_finalize_ledger:
  assumes "budget_finalize claim reservation usage kind now db = Inr (u, db')" "ledger_ok db"
  shows "ledger_ok db'"
  using assms by (elim budget_finalizeD)
    (auto intro: budget_finalize_new_ledger dest: reservations_get_by_key_member)

subsection \<open>Release\<close>

lemma table_put_put:
  "key_of a' = key_of a \<Longrightarrow> table_put key_of (table_put key_of t a) a' = table_put key_of t a'"
  by (simp add: table_put_def comp_def)

lemma table_put_self: "a \<in> set t \<Longrightarrow> distinct (map key_of t) \<Longrightarrow> table_put key_of t a = t"
  unfolding table_put_def by (rule map_idI) (auto dest: inj_onD simp: distinct_map)

lemma put_member: "x \<in> set t \<Longrightarrow> key_of x = key_of a \<Longrightarrow> a \<in> set (table_put key_of t a)"
  by (auto simp: table_put_def image_iff)

lemma put_other_member: "x \<in> set t \<Longrightarrow> key_of x \<noteq> key_of y \<Longrightarrow> x \<in> set (table_put key_of t y)"
  by (auto simp: table_put_def image_iff)

definition same_account :: "budget_account \<Rightarrow> budget_account \<Rightarrow> bool" where
  "same_account a b \<longleftrightarrow> ba_id a = ba_id b \<and> ba_project_id a = ba_project_id b
     \<and> ba_created_at a = ba_created_at b"

lemma release_each_ledger:
  assumes "release_each run_id p reason now account rs db = Inr (a', db')"
    "ledger (table_put ba_id (t_accounts db) account) (t_reservations db) (t_usage db) (t_next db)"
    "x \<in> set (t_accounts db)" "same_account x account" "ba_project_id x = p"
    "set rs \<subseteq> set (t_reservations db)" "distinct (map br_id rs)"
  shows "ledger (table_put ba_id (t_accounts db') a') (t_reservations db') (t_usage db') (t_next db')
    \<and> t_accounts db' = t_accounts db \<and> same_account x a'"
  using assms
proof (induction rs arbitrary: account db)
  case (Cons r rs)
  let ?accs = "table_put ba_id (t_accounts db) account"
  have led: "ledger ?accs (t_reservations db) (t_usage db) (t_next db)" by (rule Cons.prems(2))
  from Cons.prems(1) have pid: "br_project_id r = p" by (auto split: if_splits)
  from Cons.prems(1) pid obtain a1 r1 db1 e where rel: "account_release account (usd (br_reserved_usd r)) None now = Inr a1"
    and r1: "reservation_release r None now = Inr r1" and s: "reservations_save r1 db = Inr ((), db1)"
    and rest: "release_each run_id p reason now a1 rs
      (db1\<lparr>t_next := Suc (t_next db1), t_events := t_events db1 @ [e]\<rparr>) = Inr (a', db')"
    by (auto dest!: emit_Inr)
  have r: "r \<in> set (t_reservations db)" using Cons.prems(6) by simp
  have ds: "distinct (map br_id (t_reservations db))"
    and rows: "\<And>q. q \<in> set (t_reservations db) \<Longrightarrow> reservation_row_ok ?accs (t_next db) q"
    using led by (auto simp: ledger_def)
  obtain v where v: "br_status r = BReserved"
    "r1 = r\<lparr>br_status := BReleased, br_actual_usd := Some v, br_finalized_at := Some (at_or_now None now)\<rparr>"
    using reservation_finalizeD[OF r1[unfolded reservation_release_def]] by blast
  have db1: "db1 = db\<lparr>t_reservations := table_put br_id (t_reservations db) r1\<rparr>"
    by (rule reservations_save_member[OF ds r v(2) s])
  have acc: "account \<in> set ?accs"
    using put_member[of x "t_accounts db" ba_id account] Cons.prems(3,4) by (simp add: same_account_def)
  then have ok: "amounts_ok account" using led by (auto simp: ledger_def)
  have rm: "is_money (br_reserved_usd r)" using rows[OF r] by (simp add: reservation_row_ok_def)
  note a1 = account_releaseD[OF rel rm]
  have aid: "br_account_id r = ba_id account"
    by (rule account_of_reservation[OF led r acc]) (use Cons.prems(4,5) pid in \<open>simp add: same_account_def\<close>)
  have "ledger (table_put ba_id ?accs a1) (table_put br_id (t_reservations db) r1) (t_usage db) (Suc (t_next db))"
  proof (rule ledger_update[OF led acc])
    show "amounts_ok a1" using a1 ok by (auto simp: amounts_ok_def)
    show "distinct (map br_id (table_put br_id (t_reservations db) r1))"
      using ds map_table_put[OF ds r, of r1 br_id] v(2) by simp
    show "reservation_row_ok ?accs (Suc (t_next db)) q" if "q \<in> set (table_put br_id (t_reservations db) r1)" for q
      by (rule reservation_rows_put[OF rows r _ v(2) that]) auto
    show "ur_account_id u < Suc (t_next db)" if "u \<in> set (t_usage db)" for u
      using that led by (auto simp: ledger_def)
    show "(\<Sum>q\<leftarrow>table_put br_id (t_reservations db) r1. held i q) = (\<Sum>q\<leftarrow>t_reservations db. held i q)
        + (if i = ba_id account then ba_reserved_usd a1 - ba_reserved_usd account else 0)" for i
      using held_put[OF ds r v(1,2), of i] a1(1) aid by auto
  qed (use a1 in auto)
  moreover have "table_put ba_id ?accs a1 = table_put ba_id (t_accounts db) a1"
    by (rule table_put_put) (simp add: a1(1))
  moreover have "set rs \<subseteq> set (table_put br_id (t_reservations db) r1)"
  proof
    fix q assume q: "q \<in> set rs"
    then have "br_id q \<noteq> br_id r1" using Cons.prems(7) v(2) by (auto simp: image_iff)
    with q Cons.prems(6) show "q \<in> set (table_put br_id (t_reservations db) r1)"
      by (intro put_other_member) auto
  qed
  moreover have "same_account x a1"
    using Cons.prems(4) a1(1) by (simp add: same_account_def account_touch_def)
  ultimately show ?case
    using Cons.IH[OF rest] Cons.prems(3,5,7) by (auto simp: db1)
qed simp

lemma release_run_reservations_ledger:
  assumes "release_run_reservations run_id reason now db = Inr (k, db')" "ledger_ok db"
  shows "ledger_ok db'"
proof (cases "reservations_list_reserved_by_run run_id db")
  case Nil
  then show ?thesis using assms by (auto simp: release_run_reservations_def)
next
  case (Cons r rs)
  let ?rs = "reservations_list_reserved_by_run run_id db"
  from assms(1) Cons obtain account a' db1 where acc: "accounts_get_by_project (br_project_id r) db = Some account"
    and rel: "release_each run_id (br_project_id r) reason now account ?rs db = Inr (a', db1)"
    and s: "accounts_save a' db1 = Inr ((), db')"
    by (auto simp: release_run_reservations_def)
  have led: "ledger (t_accounts db) (t_reservations db) (t_usage db) (t_next db)"
    using assms(2) by (simp add: ledger_ok_def)
  then have ds: "distinct (map ba_id (t_accounts db))" "distinct (map br_id (t_reservations db))"
    by (auto simp: ledger_def)
  have m: "account \<in> set (t_accounts db)" "ba_project_id account = br_project_id r"
    using accounts_get_by_project_member[OF acc] by auto
  have self: "table_put ba_id (t_accounts db) account = t_accounts db" by (rule table_put_self[OF m(1) ds(1)])
  have "distinct (map br_id ?rs)"
    using ds(2) by (simp add: reservations_list_reserved_by_run_def distinct_map_filter)
  then have l: "ledger (table_put ba_id (t_accounts db1) a') (t_reservations db1) (t_usage db1) (t_next db1)"
    "t_accounts db1 = t_accounts db" "same_account account a'"
    using release_each_ledger[OF rel _ m(1) _ m(2)] led self
    by (auto simp: same_account_def reservations_list_reserved_by_run_def)
  have "db' = db1\<lparr>t_accounts := table_put ba_id (t_accounts db1) a'\<rparr>"
    by (rule accounts_save_member[OF _ _ _ _ _ s, of account]) (use l(2,3) ds(1) m(1) in \<open>auto simp: same_account_def\<close>)
  then show ?thesis using l(1) by (simp add: ledger_ok_def)
qed

subsection \<open>Configuration\<close>

lemma fix_prec_nonneg: "0 \<le> coeff d \<Longrightarrow> 0 \<le> coeff (fix_prec d)"
  by (simp add: fix_prec_def Let_def half_even_nonneg pos_imp_zdiv_nonneg_iff)

lemma set_limit_nonneg:
  assumes "\<not> dec_less (usd v) d" "0 \<le> coeff d"
  shows "0 \<le> v"
proof -
  let ?m = "min (-6) (expo d)"
  have "0 \<le> scaled d ?m" using assms(2) by (simp add: scaled_def)
  then have "0 \<le> v * 10 ^ nat (-6 - ?m)"
    using assms(1) by (auto simp: dec_less_def usd_def scaled_def Let_def)
  then show ?thesis using mult_neg_pos[of v "10 ^ nat (-6 - ?m)"] by (cases "v < 0") auto
qed

lemma account_set_limit_ok:
  assumes "account_set_limit a l at now = Inr a'" "amounts_ok a"
  shows "amounts_ok a' \<and> same_account a a' \<and> ba_reserved_usd a' = ba_reserved_usd a \<and> ba_spent_usd a' = ba_spent_usd a"
proof -
  from assms(1) obtain v where v: "money l = Inr v"
    "\<not> dec_less (usd v) (dec_add (usd (ba_reserved_usd a)) (usd (ba_spent_usd a)))"
    "a' = account_touch (a\<lparr>ba_limit_usd := v\<rparr>) at now"
    by (auto simp: account_set_limit_def split: if_splits)
  have "0 \<le> coeff (dec_add (usd (ba_reserved_usd a)) (usd (ba_spent_usd a)))"
    unfolding dec_add_def Let_def
    by (rule fix_prec_nonneg) (use assms(2) in \<open>simp add: amounts_ok_def scaled_def usd_def\<close>)
  then have "0 \<le> v" using set_limit_nonneg v(2) by blast
  with v(3) assms(2) money_is_money[OF v(1)] show ?thesis
    by (simp add: amounts_ok_def same_account_def) (simp add: account_touch_def)
qed

lemma ledger_new_account:
  assumes "ledger accs rs us n" "ba_id a = n" "amounts_ok a" "ba_reserved_usd a = 0" "ba_spent_usd a = 0"
    "ba_project_id a \<notin> ba_project_id ` set accs"
  shows "ledger (accs @ [a]) rs us (Suc n)"
proof -
  have rows: "br_account_id r < n" if "r \<in> set rs" for r
    using assms(1) that unfolding ledger_def reservation_row_ok_def by force
  have "held n r = 0" if "r \<in> set rs" for r using rows[OF that] by (simp add: held_def)
  then have h: "(\<Sum>r\<leftarrow>rs. held n r) = 0" by (simp cong: map_cong)
  have "charged n u = 0" if "u \<in> set us" for u
    using assms(1) that by (auto simp: ledger_def charged_def)
  then have c: "(\<Sum>u\<leftarrow>us. charged n u) = 0" by (simp cong: map_cong)
  have "reservation_row_ok (accs @ [a]) (Suc n) r" if "r \<in> set rs" for r
    using assms(1) that by (auto simp: ledger_def reservation_row_ok_def)
  with assms h c show ?thesis unfolding ledger_def by (auto simp: less_Suc_eq)
qed

lemma budget_configure_ledger:
  assumes "budget_configure p l now db = Inr (a, db')" "ledger_ok db"
  shows "ledger_ok db'"
proof (cases "accounts_get_by_project p db")
  case None
  from assms(1) None obtain e where
    a: "budget_account_init \<lparr>ba_project_id = p, ba_limit_usd = 0, ba_id = t_next db, ba_reserved_usd = 0,
      ba_spent_usd = 0, ba_version = 1, ba_created_at = now, ba_updated_at = now\<rparr> l (Dec 0 0) (Dec 0 0) = Inr a"
    and db': "db' = db\<lparr>t_accounts := t_accounts db @ [a], t_next := Suc (Suc (t_next db)), t_events := t_events db @ [e]\<rparr>"
    by (auto simp: budget_configure_def accounts_add_def dest!: emit_Inr)
  have z: "money (Dec 0 0) = Inr 0" by (simp add: money_def quantize6_def)
  have "ba_id a = t_next db" "amounts_ok a" "ba_reserved_usd a = 0" "ba_spent_usd a = 0" "ba_project_id a = p"
    using a z by (auto simp: budget_account_init_def amounts_ok_def is_money_def split: if_splits
        dest!: money_is_money)
  moreover have "p \<notin> ba_project_id ` set (t_accounts db)"
    using None by (auto simp: accounts_get_by_project_def find_None_iff)
  ultimately have "ledger (t_accounts db @ [a]) (t_reservations db) (t_usage db) (Suc (t_next db))"
    using assms(2) by (intro ledger_new_account) (auto simp: ledger_ok_def)
  then show ?thesis using ledger_next by (auto simp: ledger_ok_def db')
next
  case (Some a0)
  from assms(1) Some obtain db1 e where sl: "account_set_limit a0 l None now = Inr a"
    and s: "accounts_save a db = Inr ((), db1)"
    and db': "db' = db1\<lparr>t_next := Suc (t_next db1), t_events := t_events db1 @ [e]\<rparr>"
    by (auto simp: budget_configure_def dest!: emit_Inr)
  have led: "ledger (t_accounts db) (t_reservations db) (t_usage db) (t_next db)"
    using assms(2) by (simp add: ledger_ok_def)
  have m: "a0 \<in> set (t_accounts db)" using accounts_get_by_project_member[OF Some] by simp
  then have "amounts_ok a0" and d: "distinct (map ba_id (t_accounts db))" using led by (auto simp: ledger_def)
  note a = account_set_limit_ok[OF sl this(1)]
  have "db1 = db\<lparr>t_accounts := table_put ba_id (t_accounts db) a\<rparr>"
    by (rule accounts_save_member[OF d m _ _ _ s]) (use a in \<open>auto simp: same_account_def\<close>)
  moreover have "ledger (table_put ba_id (t_accounts db) a) (t_reservations db) (t_usage db) (Suc (t_next db))"
    by (rule ledger_update[OF led m]) (use a led in \<open>auto simp: same_account_def ledger_def reservation_row_ok_def\<close>)
  ultimately show ?thesis by (simp add: ledger_ok_def db')
qed

section \<open>The operations as steps of the database\<close>

inductive budget_step :: "db \<Rightarrow> db \<Rightarrow> bool" where
  bs_configure: "budget_configure p l now db = Inr (a, db') \<Longrightarrow> budget_step db db'"
| bs_reserve: "budget_reserve claim now db = Inr (res, db') \<Longrightarrow> budget_step db db'"
| bs_settle: "budget_settle claim r usage now db = Inr (u, db') \<Longrightarrow> budget_step db db'"
| bs_forfeit: "budget_forfeit claim r now db = Inr (u, db') \<Longrightarrow> budget_step db db'"
| bs_release: "release_run_reservations run_id reason now db = Inr (k, db') \<Longrightarrow> budget_step db db'"

lemma budget_step_ledger:
  assumes "budget_step db db'" "ledger_ok db"
  shows "ledger_ok db'"
  using assms
proof (induction rule: budget_step.induct)
  case (bs_settle claim r usage now db u db')
  then show ?case
    by (auto simp: budget_settle_def split: option.splits if_splits intro: budget_finalize_ledger)
next
  case (bs_forfeit claim r now db u db')
  then show ?case
    by (auto simp: budget_forfeit_def split: option.splits intro: budget_finalize_ledger)
qed (blast intro: budget_configure_ledger budget_reserve_ledger release_run_reservations_ledger)+

lemma budget_steps_ledger: "budget_step\<^sup>*\<^sup>* db db' \<Longrightarrow> ledger_ok db \<Longrightarrow> ledger_ok db'"
  by (induction rule: rtranclp_induct) (auto intro: budget_step_ledger)

text \<open>A project with one run, and no budget yet.\<close>

definition ex_db :: db where
  "ex_db = \<lparr>t_projects = [\<lparr>pj_key = ''demo'', pj_name = ''Demo'', pj_repository_url = ''url'',
       pj_default_branch = ''main'', pj_id = 1, pj_status = PActive, pj_created_at = 0, pj_updated_at = 0\<rparr>],
     t_requests = [\<lparr>rq_project_id = 1, rq_prompt = ''do'', rq_title = None, rq_origin = None, rq_id = 2,
       rq_status = QActive, rq_created_at = 0, rq_updated_at = 0\<rparr>],
     t_runs = [new_run 2 3 0], t_events = [], t_receipts = [], t_artifacts = [], t_skills = [],
     t_phase_packs = [], t_model_profiles = [], t_definitions = [], t_executions = [], t_bindings = [],
     t_accounts = [], t_reservations = [], t_usage = [], t_ops = empty_ops, t_next = 10\<rparr>"

definition ex_claim :: task_claim where
  "ex_claim = \<lparr>tc_execution_id = 5, tc_run_id = 3, tc_node_key = ''build'', tc_executor_key = ''default'',
     tc_worker_id = ''w'', tc_lease_token = 100, tc_idempotency_key = ''5:build:1'', tc_visit_count = 1,
     tc_attempt_count = 1, tc_timeout_seconds = 600, tc_workflow_key = ''wf'', tc_workflow_version = 1,
     tc_instructions = None, tc_configuration = [], tc_skills = [], tc_phase_pack = None,
     tc_context = None, tc_model_selection = Some \<lparr>ms_profile = ex_profile ''m'' 1 (Dec 1 0), ms_policy_version = 1,
       ms_required_tier = Balanced, ms_estimated_cost_usd = Dec 25 (-2), ms_reason_codes = []\<rparr>,
     tc_skill_paths = []\<rparr>"

definition ex_budget_run :: "(usage_record option \<times> db) result" where
  "ex_budget_run = sbind (budget_configure 1 (Dec 1 0) 50) (\<lambda>_. sbind (budget_reserve ex_claim 60) (\<lambda>r.
     budget_settle ex_claim r (Some \<lparr>tu_input_tokens = 100000, tu_output_tokens = 50000\<rparr>) 70)) ex_db"

lemma ex_budget_run_result:
  "case ex_budget_run of Inl e \<Rightarrow> False | Inr (u, db) \<Rightarrow>
     map ba_spent_usd (t_accounts db) = [150000] \<and> map ba_reserved_usd (t_accounts db) = [0]
     \<and> map ba_limit_usd (t_accounts db) = [1000000] \<and> length (t_events db) = 3"
  by code_simp

lemma ex_db_ledger: "ledger_ok ex_db"
  by (simp add: ledger_ok_def ledger_def ex_db_def)

section \<open>No overcommitment, no double charge\<close>

text \<open>C7. A new reservation never commits more than the project's limit: when it is granted, the
  account's open reservations together with what was spent stay within the limit.\<close>

theorem budget_reserve_within_limit:
  assumes "ledger_ok db" "budget_reserve claim now db = Inr (Some r, db')"
    "reservations_get_by_key (tc_idempotency_key claim) db = None"
  shows "\<exists>a \<in> set (t_accounts db'). ba_id a = br_account_id r \<and> br_status r = BReserved
    \<and> ba_reserved_usd a + ba_spent_usd a \<le> ba_limit_usd a \<and> r \<in> set (t_reservations db')"
proof -
  from budget_reserveD[OF assms(2)] assms(2,3) obtain sel p account where
    acc: "accounts_get_by_project p db = Some account"
    and new: "budget_reserve_new claim sel p account now db = Inr (Some r, db')"
    by (auto simp: budget_reserve_def budget_project_id_Inr split: option.splits)
  from new obtain m a' db1 e where m: "is_money m" "account_reserve account (usd m) None now = Inr a'"
    and r: "r = \<lparr>br_account_id = ba_id a', br_project_id = p,
       br_run_id = tc_run_id claim, br_execution_id = tc_execution_id claim,
       br_node_key = tc_node_key claim, br_idempotency_key = tc_idempotency_key claim,
       br_reserved_usd = m, br_id = t_next db, br_status = BReserved, br_actual_usd = None,
       br_created_at = now, br_finalized_at = None\<rparr>"
    and s: "accounts_save a' (db\<lparr>t_next := Suc (t_next db)\<rparr>) = Inr ((), db1)"
    and db': "db' = db1\<lparr>t_reservations := t_reservations db1 @ [r], t_next := Suc (t_next db1),
       t_events := t_events db1 @ [e]\<rparr>"
    by (elim budget_reserve_newD) auto
  have a: "account \<in> set (t_accounts db)" "amounts_ok account" "distinct (map ba_id (t_accounts db))"
    using accounts_get_by_project_member[OF acc] assms(1) by (auto simp: ledger_ok_def ledger_def)
  note w = account_reserve_within[OF m(2,1) a(2)]
  have "db1 = db\<lparr>t_next := Suc (t_next db), t_accounts := table_put ba_id (t_accounts db) a'\<rparr>"
    using accounts_save_member[of "db\<lparr>t_next := Suc (t_next db)\<rparr>" account a', OF _ _ _ _ _ s] a w(1)
    by (simp add: account_touch_def)
  then have "a' \<in> set (t_accounts db')" using put_member[OF a(1), of ba_id a'] w(1) by (simp add: db')
  then show ?thesis using w r by (intro bexI[of _ a']) (auto simp: db')
qed

theorem budget_reserve_within_limit_witness:
  "\<exists>a db r db'. budget_configure 1 (Dec 1 0) 50 ex_db = Inr (a, db)
     \<and> budget_reserve ex_claim 60 db = Inr (Some r, db') \<and> br_reserved_usd r = 250000
     \<and> (\<exists>a' \<in> set (t_accounts db'). ba_reserved_usd a' + ba_spent_usd a' \<le> ba_limit_usd a')"
proof -
  have "case sbind (budget_configure 1 (Dec 1 0) 50) (\<lambda>_. sbind (gets (reservations_get_by_key ''5:build:1'')) (\<lambda>none.
      sbind (budget_reserve ex_claim 60) (\<lambda>r. sreturn (none, r)))) ex_db of Inl e \<Rightarrow> False
    | Inr ((none, r), db) \<Rightarrow> none = None \<and> map_option br_reserved_usd r = Some 250000"
    by code_simp
  then obtain a db r db' where c: "budget_configure 1 (Dec 1 0) 50 ex_db = Inr (a, db)"
    "reservations_get_by_key ''5:build:1'' db = None" "budget_reserve ex_claim 60 db = Inr (Some r, db')"
    "br_reserved_usd r = 250000"
    by (auto split: sum.splits prod.splits)
  have "ledger_ok db" using budget_configure_ledger[OF c(1) ex_db_ledger] .
  from budget_reserve_within_limit[OF this c(3)] c show ?thesis by (auto simp: ex_claim_def)
qed

end
