(* ===== verification/Service_Frames.thy ===== *)
theory Service_Frames
  imports Request_Dispatch Budget_Ledger
begin

text \<open>
  The step relation of all services, \<open>service_step\<close>, and the interface \<open>service_frame\<close>: a relation
  between databases that every single repository write satisfies is satisfied by every service call,
  because a service is built from those writes only. It is interpreted on four relations: the event log
  only grows, catalog rows are never changed or removed, artifacts are never changed, and the budget
  ledger stays balanced.
\<close>

definition valid_definition :: "workflow_definition \<Rightarrow> bool" where
  "valid_definition d \<longleftrightarrow> workflow_definition_init d = Inr ()
     \<and> list_all (\<lambda>n. node_definition_init n = Inr n) (wd_nodes d)"

text \<open>
  The services around the engine (external executions, workspace operations, publications,
  notifications, presence, readiness, security) write no table of the engine: they draw identifiers,
  append events and write their own tables. A call of theirs is a sequence of such writes.
\<close>

definition ops_set :: "ops_tables \<Rightarrow> unit svc" where
  "ops_set x = supdate (\<lambda>db. db\<lparr>t_ops := x\<rparr>)"

inductive other_write :: "db \<Rightarrow> db \<Rightarrow> bool" where
  ow_id: "uuid4 db = Inr (i, db') \<Longrightarrow> other_write db db'"
| ow_event: "events_append e db = Inr (u, db') \<Longrightarrow> other_write db db'"
| ow_rows: "ops_set x db = Inr (u, db') \<Longrightarrow> other_write db db'"

lemma ops_set_apply [simp]: "ops_set x db = Inr (u, db') \<longleftrightarrow> db' = db\<lparr>t_ops := x\<rparr>"
  by (auto simp: ops_set_def)

lemma keeps_ops_set [frame_rules]:
  "(\<And>db x. f (db\<lparr>t_ops := x\<rparr>) = f db) \<Longrightarrow> keeps f (ops_set x)"
  "(\<And>db es. f (db\<lparr>t_events := es\<rparr>) = f db) \<Longrightarrow> keeps f (events_append e)"
  by (auto simp: within_def events_append_def)

lemma grows_ops_set [frame_rules]: "grows (ops_set x)" "grows (events_append e)"
  by (auto simp: within_def events_append_def)

text \<open>One rule per service call that commits; the arguments are arbitrary, except that a definition
  object was built by its constructors.\<close>

inductive service_step :: "db \<Rightarrow> db \<Rightarrow> bool" where
  ss_register_project: "register_project cmd now db = Inr (pj, db') \<Longrightarrow> service_step db db'"
| ss_register_skill: "register_skill s now db = Inr (s', db') \<Longrightarrow> service_step db db'"
| ss_register_phase_pack: "register_phase_pack cs p now db = Inr (p', db') \<Longrightarrow> service_step db db'"
| ss_register_model: "register_model m now db = Inr (m', db') \<Longrightarrow> service_step db db'"
| ss_register_definition:
    "valid_definition d \<Longrightarrow> register_definition d now db = Inr (d', db') \<Longrightarrow> service_step db db'"
| ss_configure_binding: "configure_binding pid key v now db = Inr (b, db') \<Longrightarrow> service_step db db'"
| ss_recommend: "service_recommend_workflows sha pid prompt limit now db = Inr (w, db') \<Longrightarrow> service_step db db'"
| ss_create_request: "create_request cu now db = Inr (qr, db') \<Longrightarrow> service_step db db'"
| ss_dispatch: "dispatch sha sj c now db = Inr (ds, db') \<Longrightarrow> service_step db db'"
| ss_approve_run: "approve_run rid now db = Inr (r, db') \<Longrightarrow> service_step db db'"
| ss_cancel_run: "cancel_run rid now db = Inr (r, db') \<Longrightarrow> service_step db db'"
| ss_start: "workflow_start rid key version now db = Inr (ex, db') \<Longrightarrow> service_step db db'"
| ss_begin: "service_begin_task i key now db = Inr (ex, db') \<Longrightarrow> service_step db db'"
| ss_complete: "service_complete_task ie i key outc outp now db = Inr (ex, db') \<Longrightarrow> service_step db db'"
| ss_fail: "service_fail_task i key reason now db = Inr (ex, db') \<Longrightarrow> service_step db db'"
| ss_approval: "service_resolve_approval i key approved now db = Inr (ex, db') \<Longrightarrow> service_step db db'"
| ss_cancel: "service_cancel i now db = Inr (ex, db') \<Longrightarrow> service_step db db'"
| ss_claim: "claim_next grace w keys at now db = Inr (tc, db') \<Longrightarrow> service_step db db'"
| ss_heartbeat: "dispatch_heartbeat grace claim at now db = Inr (ex, db') \<Longrightarrow> service_step db db'"
| ss_task_complete: "dispatch_complete ie claim result at now db = Inr (ex, db') \<Longrightarrow> service_step db db'"
| ss_task_fail: "dispatch_fail claim reason at now db = Inr (ex, db') \<Longrightarrow> service_step db db'"
| ss_recover: "recover_expired at now db = Inr (b', db') \<Longrightarrow> service_step db db'"
| ss_budget: "budget_step db db' \<Longrightarrow> service_step db db'"
| ss_other: "other_write db db' \<Longrightarrow> service_step db db'"

section \<open>Reading operations\<close>

lemma resolve_inputs_reads [frame_rules]: "keeps f (resolve_artifact_inputs ex key)"
  unfolding resolve_artifact_inputs_def by (intro frame_rules)

lemma check_addon_reads [frame_rules]: "keeps f (check_addon d a)"
  unfolding check_addon_def by (intro frame_rules)

lemma apply_skill_addons_reads [frame_rules]: "keeps f (apply_skill_addons d addons)"
  unfolding apply_skill_addons_def by (intro frame_rules)

lemma select_definition_reads [frame_rules]: "keeps f (select_definition sha c override)"
  unfolding select_definition_def bound_definition_def by (intro frame_rules)

lemma replay_reads [frame_rules]: "keeps f (replay r)"
  unfolding replay_def by (auto intro!: frame_rules split: option.split)

lemma options_reads [frame_rules]: "keeps f (list_workflow_options pid)"
  unfolding list_workflow_options_def resolve_composition_def bound_definition_def by (intro frame_rules)

lemma grows_options [frame_rules]: "grows (list_workflow_options pid)"
  by (rule grows_of_keeps[OF options_reads])

section \<open>What every write satisfies, every service satisfies\<close>

locale write_frame = step_frame +
  assumes w_uuid4: "within R uuid4" and w_emit: "within R (emit a i t p now)"
    and w_events_append: "within R (events_append e)" and w_ops_set: "within R (ops_set x)"
    and w_projects_add: "within R (projects_add pj)" and w_requests_add: "within R (requests_add q)"
    and w_requests_save: "within R (requests_save q)" and w_runs_add: "within R (runs_add r)"
    and w_runs_save: "within R (runs_save r)" and w_executions_add: "within R (executions_add ex)"
    and w_executions_save: "within R (executions_save ex)" and w_artifacts_add: "within R (artifacts_add art)"
    and w_skills_add: "within R (skills_add s)" and w_phase_packs_add: "within R (phase_packs_add pp)"
    and w_profiles_add: "within R (profiles_add m)" and w_definitions_add: "within R (definitions_add d)"
    and w_bindings_save: "within R (bindings_save b)"
    and w_release: "within R (release_run_reservations rid reason now)"
    and w_budget: "budget_step db db' \<Longrightarrow> R db db'"
begin

lemma reads: "keeps (\<lambda>db. db) m \<Longrightarrow> within R m"
  unfolding within_def by (metis same)

lemmas writes = w_uuid4 w_emit w_projects_add w_requests_add w_requests_save w_runs_add w_runs_save
  w_executions_add w_executions_save w_artifacts_add w_skills_add w_phase_packs_add w_profiles_add
  w_definitions_add w_bindings_save w_release w_events_append w_ops_set

lemmas layout_rules = combinators writes reads[OF resolve_reads(1)] reads[OF resolve_reads(2)]
  reads[OF resolve_reads(3)] reads[OF resolve_inputs_reads] reads[OF check_addon_reads]
  reads[OF apply_skill_addons_reads] reads[OF select_definition_reads] reads[OF replay_reads]
  reads[OF options_reads]

lemma w_sync: "within R (synchronize_execution_lifecycle ex now)"
  unfolding synchronize_execution_lifecycle_def sync_run_def sync_request_def finish_request_def
  by (intro layout_rules)

lemma w_save_transition: "within R (save_transition ex t p now)"
  unfolding save_transition_def execution_event_def by (intro layout_rules w_sync)

lemma w_new_artifact: "within R (new_artifact ex key v d at)"
  unfolding new_artifact_def by (intro layout_rules)

lemma w_new_execution: "within R (new_execution s now)"
  unfolding new_execution_def by (intro layout_rules)

lemma w_create_execution: "within R (create_execution run request project d source now)"
  unfolding create_execution_def execution_event_def by (intro layout_rules w_sync w_new_execution)

lemma w_new_request: "within R (new_active_request pid prompt title orig now)"
  unfolding new_active_request_def by (intro layout_rules)

lemma w_catalogs:
  "within R (register_project cmd now)" "within R (register_skill s now)"
  "within R (register_phase_pack cs pp now)" "within R (register_model m now)"
  "within R (register_definition d now)" "within R (configure_binding pid key v now)"
  "within R (service_recommend_workflows sha pid prompt limit now)" "within R (create_request cu now)"
  unfolding register_project_def register_skill_def register_phase_pack_def register_model_def
    register_definition_def configure_binding_def service_recommend_workflows_def create_request_def
  by (intro layout_rules w_new_request)+

lemma w_runs:
  "within R (approve_run rid now)" "within R (cancel_run rid now)" "within R (workflow_start rid key version now)"
  unfolding approve_run_def cancel_run_def cancel_bare_run_def workflow_start_def
  by (intro layout_rules w_save_transition w_create_execution)+

lemma w_transitions:
  "within R (service_begin_task i key now)" "within R (service_complete_task ie i key outc outp now)"
  "within R (service_fail_task i key reason now)" "within R (service_resolve_approval i key approved now)"
  "within R (service_cancel i now)"
  unfolding service_begin_task_def service_complete_task_def service_fail_task_def
    service_resolve_approval_def service_cancel_def get_execution_def execution_event_def
  by (intro layout_rules w_save_transition w_new_artifact)+

lemma w_tasks:
  "within R (claim_next grace w keys at now)" "within R (dispatch_heartbeat grace claim at now)"
  "within R (dispatch_complete ie claim result at now)" "within R (dispatch_fail claim reason at now)"
  "within R (recover_expired at now)"
  unfolding claim_next_def claim_candidate_def dispatch_heartbeat_def dispatch_complete_def
    dispatch_fail_def recover_expired_def get_execution_def execution_event_def
  by (intro layout_rules w_save_transition w_new_artifact)+

lemma w_other: "other_write db db' \<Longrightarrow> R db db'"
  by (induction rule: other_write.induct) (blast intro: withinD w_uuid4 w_events_append w_ops_set)+

lemma step_but_dispatch:
  "service_step db db' \<Longrightarrow> (\<And>sha sj c now. within R (dispatch sha sj c now)) \<Longrightarrow> R db db'"
  by (induction rule: service_step.induct)
     (blast intro: withinD w_catalogs w_runs w_transitions w_tasks w_budget w_other)+

lemma steps_but_dispatch:
  "service_step\<^sup>*\<^sup>* db db' \<Longrightarrow> (\<And>sha sj c now. within R (dispatch sha sj c now)) \<Longrightarrow> R db db'"
  by (induction rule: rtranclp_induct) (rule same, blast intro: next_step step_but_dispatch)

end

text \<open>A relation that the writes of dispatch receipts satisfy as well.\<close>

locale service_frame = write_frame +
  assumes w_try_claim: "within R (receipts_try_claim rc)" and w_receipts_save: "within R (receipts_save rc)"
begin

lemma w_dispatch: "within R (dispatch sha sj c now)"
  unfolding dispatch_def dispatch_claimed_def
  by (intro layout_rules w_try_claim w_receipts_save w_create_execution w_new_request)

lemma step_within: "service_step db db' \<Longrightarrow> R db db'"
  by (erule step_but_dispatch) (rule w_dispatch)

lemma steps_within: "service_step\<^sup>*\<^sup>* db db' \<Longrightarrow> R db db'"
  by (erule steps_but_dispatch) (rule w_dispatch)

end

text \<open>A relation that every single write to the budget tables satisfies.\<close>

locale budget_frame = step_frame +
  assumes t_uuid4: "within R uuid4" and t_emit: "within R (emit a i t p now)"
    and t_accounts_add: "within R (accounts_add ac)" and t_accounts_save: "within R (accounts_save ac)"
    and t_reservations_add: "within R (reservations_add rv)" and t_reservations_save: "within R (reservations_save rv)"
    and t_usage_add: "within R (usage_add us)"
begin


lemmas budget_rules = combinators t_uuid4 t_emit t_accounts_add t_accounts_save t_reservations_add
  t_reservations_save t_usage_add

lemma release_each_within: "within R (release_each rid pid reason now account rs)"
  by (induction rs arbitrary: account) (auto intro!: budget_rules)

lemma release_within: "within R (release_run_reservations rid reason now)"
  unfolding release_run_reservations_def by (intro budget_rules release_each_within)

lemma finalize_within: "within R (budget_finalize claim res usage kind now)"
  unfolding budget_finalize_def budget_finalize_new_def by (intro budget_rules)

lemma budget_within:
  "within R (budget_configure pid l now)" "within R (budget_reserve claim now)"
  "within R (budget_settle claim rv usage now)" "within R (budget_forfeit claim rv now)"
  unfolding budget_configure_def budget_reserve_def budget_reserve_new_def budget_project_id_def
    budget_settle_def budget_forfeit_def
  by (intro budget_rules finalize_within)+

lemma budget_step_within: "budget_step db db' \<Longrightarrow> R db db'"
  by (induction rule: budget_step.induct) (blast intro: withinD budget_within release_within)+

end

text \<open>A relation that every single write satisfies.\<close>

locale table_frame = budget_frame +
  assumes t_projects_add: "within R (projects_add pj)" and t_requests_add: "within R (requests_add q)"
    and t_requests_save: "within R (requests_save q)" and t_runs_add: "within R (runs_add r)"
    and t_runs_save: "within R (runs_save r)" and t_executions_add: "within R (executions_add ex)"
    and t_executions_save: "within R (executions_save ex)" and t_artifacts_add: "within R (artifacts_add art)"
    and t_skills_add: "within R (skills_add s)" and t_phase_packs_add: "within R (phase_packs_add pp)"
    and t_profiles_add: "within R (profiles_add m)" and t_definitions_add: "within R (definitions_add d)"
    and t_bindings_save: "within R (bindings_save b)" and t_try_claim: "within R (receipts_try_claim rc)"
    and t_receipts_save: "within R (receipts_save rc)" and t_events_append: "within R (events_append e)"
    and t_ops_set: "within R (ops_set x)"

sublocale table_frame \<subseteq> service_frame
  by unfold_locales (auto intro: t_uuid4 t_emit t_projects_add t_requests_add t_requests_save t_runs_add
    t_runs_save t_executions_add t_executions_save t_artifacts_add t_skills_add t_phase_packs_add
    t_profiles_add t_definitions_add t_bindings_save t_try_claim t_receipts_save release_within
    budget_step_within t_events_append t_ops_set)

section \<open>History is append-only\<close>

definition extends :: "'r list \<Rightarrow> 'r list \<Rightarrow> bool" where
  "extends xs ys \<longleftrightarrow> (\<exists>zs. ys = xs @ zs)"

lemma extends_refl [simp]: "extends xs xs"
  by (simp add: extends_def)

lemma extends_append [simp]: "extends xs (xs @ ys)"
  by (simp add: extends_def)

lemma extends_trans: "extends xs ys \<Longrightarrow> extends ys zs \<Longrightarrow> extends xs zs"
  by (auto simp: extends_def)

definition events_numbered :: "db \<Rightarrow> bool" where
  "events_numbered db \<longleftrightarrow> map ev_sequence (t_events db) = map (\<lambda>i. Some (int i + 1)) [0..<length (t_events db)]"

definition append_only :: "db \<Rightarrow> db \<Rightarrow> bool" where
  "append_only db db' \<longleftrightarrow> extends (t_events db) (t_events db') \<and> extends (t_artifacts db) (t_artifacts db')
     \<and> extends (t_usage db) (t_usage db') \<and> extends (t_projects db) (t_projects db')
     \<and> extends (t_skills db) (t_skills db') \<and> extends (t_phase_packs db) (t_phase_packs db')
     \<and> extends (t_model_profiles db) (t_model_profiles db') \<and> extends (t_definitions db) (t_definitions db')
     \<and> (events_numbered db \<longrightarrow> events_numbered db')"

lemma append_only_frame: "step_frame append_only"
  by unfold_locales (auto simp: append_only_def intro: extends_trans)

lemma append_only_untouched:
  "keeps (\<lambda>db. (t_events db, t_artifacts db, t_usage db, t_projects db, t_skills db, t_phase_packs db,
     t_model_profiles db, t_definitions db)) m \<Longrightarrow> within append_only m"
  by (simp add: within_def append_only_def events_numbered_def)

interpretation history: table_frame append_only
proof (intro table_frame.intro budget_frame.intro append_only_frame budget_frame_axioms.intro
    table_frame_axioms.intro)
  show "within append_only (emit a i t p now)" for a i t p now
    by (auto simp: within_def append_only_def emit_def events_append_def events_numbered_def)
  show "within append_only (events_append e)" for e
    by (auto simp: within_def append_only_def events_append_def events_numbered_def)
  show "within append_only (projects_add pj)" for pj
    by (auto simp: within_def append_only_def projects_add_def events_numbered_def)
  show "within append_only (artifacts_add a)" for a
    by (auto simp: within_def append_only_def artifacts_add_def events_numbered_def)
  show "within append_only (skills_add a)" for a
    by (auto simp: within_def append_only_def skills_add_def events_numbered_def)
  show "within append_only (phase_packs_add a)" for a
    by (auto simp: within_def append_only_def phase_packs_add_def events_numbered_def)
  show "within append_only (profiles_add a)" for a
    by (auto simp: within_def append_only_def profiles_add_def events_numbered_def)
  show "within append_only (definitions_add a)" for a
    by (auto simp: within_def append_only_def definitions_add_def events_numbered_def)
  show "within append_only (usage_add a)" for a
    by (auto simp: within_def append_only_def usage_add_def events_numbered_def)
qed (rule append_only_untouched, rule frame_rules, simp)+

section \<open>The ledger stays balanced\<close>

definition ledger_view :: "db \<Rightarrow> budget_account list \<times> budget_reservation list \<times> usage_record list" where
  "ledger_view db = (t_accounts db, t_reservations db, t_usage db)"

lemma ledger_untouched:
  "keeps ledger_view m \<Longrightarrow> grows m \<Longrightarrow> within (\<lambda>db db'. ledger_ok db \<longrightarrow> ledger_ok db') m"
  unfolding within_def ledger_ok_def ledger_view_def using ledger_next by (metis prod.inject)

interpretation ledger_frame: service_frame "\<lambda>db db'. ledger_ok db \<longrightarrow> ledger_ok db'"
proof (intro service_frame.intro write_frame.intro service_frame_axioms.intro write_frame_axioms.intro)
  show "step_frame (\<lambda>db db'. ledger_ok db \<longrightarrow> ledger_ok db')" by unfold_locales auto
  show "within (\<lambda>db db'. ledger_ok db \<longrightarrow> ledger_ok db') (release_run_reservations rid reason now)" for rid reason now
    using release_run_reservations_ledger by (auto simp: within_def)
  show "budget_step db db' \<Longrightarrow> ledger_ok db \<longrightarrow> ledger_ok db'" for db db'
    using budget_step_ledger by blast
qed (rule ledger_untouched; rule frame_rules; simp add: ledger_view_def)+

end
