(* ===== verification/System_Invariant.thy ===== *)
theory System_Invariant
  imports System_Lifecycle Service_Frames
begin

text \<open>
  The invariant of the whole system, \<open>system_ok\<close>, and its preservation by the transitions of
  executions.
\<close>

section \<open>Frames of the services\<close>

lemma frame_finish_request [frame_rules]:
  assumes "\<And>db rs. f (db\<lparr>t_requests := rs\<rparr>) = f db" "\<And>db n es. f (db\<lparr>t_next := n, t_events := es\<rparr>) = f db"
  shows "keeps f (finish_request ex r moved t now)"
  unfolding finish_request_def by (intro frame_rules assms)

lemma grows_finish_request [frame_rules]: "grows (finish_request ex r moved t now)"
  unfolding finish_request_def by (intro frame_rules) simp_all

lemma frame_synchronize [frame_rules]:
  assumes "\<And>db rs. f (db\<lparr>t_runs := rs\<rparr>) = f db" "\<And>db rs. f (db\<lparr>t_requests := rs\<rparr>) = f db"
    "\<And>db n es. f (db\<lparr>t_next := n, t_events := es\<rparr>) = f db"
  shows "keeps f (synchronize_execution_lifecycle ex now)"
  unfolding synchronize_execution_lifecycle_def sync_run_def sync_request_def by (intro frame_rules assms)

lemma grows_synchronize [frame_rules]: "grows (synchronize_execution_lifecycle ex now)"
  unfolding synchronize_execution_lifecycle_def sync_run_def sync_request_def by (intro frame_rules) simp_all

lemma frame_execution_event [frame_rules]:
  assumes "\<And>db n es. f (db\<lparr>t_next := n, t_events := es\<rparr>) = f db"
  shows "keeps f (execution_event ex t p now)"
  unfolding execution_event_def by (intro frame_rules assms)

lemma grows_execution_event [frame_rules]: "grows (execution_event ex t p now)"
  unfolding execution_event_def by (intro frame_rules)

lemma frame_release_each:
  assumes "\<And>db rs. f (db\<lparr>t_reservations := rs\<rparr>) = f db" "\<And>db n es. f (db\<lparr>t_next := n, t_events := es\<rparr>) = f db"
  shows "keeps f (release_each run_id p reason now account rs)"
  by (induction rs arbitrary: account) (auto intro!: frame_rules assms)

lemma grows_release_each [frame_rules]: "grows (release_each run_id p reason now account rs)"
  by (induction rs arbitrary: account) (auto intro!: frame_rules)

lemma frame_release [frame_rules]:
  assumes "\<And>db rs. f (db\<lparr>t_reservations := rs\<rparr>) = f db" "\<And>db rs. f (db\<lparr>t_accounts := rs\<rparr>) = f db"
    "\<And>db n es. f (db\<lparr>t_next := n, t_events := es\<rparr>) = f db"
  shows "keeps f (release_run_reservations run_id reason now)"
  unfolding release_run_reservations_def by (intro frame_rules frame_release_each assms)

lemma grows_release [frame_rules]: "grows (release_run_reservations run_id reason now)"
  unfolding release_run_reservations_def by (intro frame_rules) simp_all

lemma frame_new_artifact [frame_rules]:
  assumes "\<And>db n. f (db\<lparr>t_next := n\<rparr>) = f db"
  shows "keeps f (new_artifact ex key v d at)"
  unfolding new_artifact_def by (intro frame_rules assms)

lemma grows_new_artifact [frame_rules]: "grows (new_artifact ex key v d at)"
  unfolding new_artifact_def by (intro frame_rules)

section \<open>The invariant\<close>

definition stored_ok :: "workflow_execution \<Rightarrow> bool" where
  "stored_ok ex \<longleftrightarrow> accepted_snapshot (we_snapshot ex) \<and> reachable_execution (we_snapshot ex) ex
     \<and> workflow_snapshot_init (we_snapshot ex) = Inr () \<and> ws_request_context (we_snapshot ex) \<noteq> None"

text \<open>Everything but the agreement of executions with their runs.\<close>

definition system_core :: "db \<Rightarrow> bool" where
  "system_core db \<longleftrightarrow> (\<forall>ex \<in> set (t_executions db). stored_ok ex \<and> we_id ex < t_next db)
     \<and> distinct (map we_id (t_executions db)) \<and> distinct (map run_of (t_executions db))
     \<and> (\<forall>d \<in> set (t_definitions db). valid_definition d)
     \<and> Ball (set (t_runs db)) run_ok \<and> requests_opened db"

definition system_ok :: "db \<Rightarrow> bool" where
  "system_ok db \<longleftrightarrow> system_core db \<and> (\<forall>ex \<in> set (t_executions db). paired db ex)"

definition system_view :: "db \<Rightarrow> workflow_execution list \<times> run list \<times> user_request list \<times> workflow_definition list" where
  "system_view db = (t_executions db, t_runs db, t_requests db, t_definitions db)"

lemma system_core_cong:
  "system_view db' = system_view db \<Longrightarrow> t_next db \<le> t_next db' \<Longrightarrow> system_core db \<Longrightarrow> system_core db'"
  by (auto simp: system_core_def system_view_def requests_opened_def dest!: bspec)

lemma system_ok_cong:
  "system_view db' = system_view db \<Longrightarrow> t_next db \<le> t_next db' \<Longrightarrow> system_ok db \<Longrightarrow> system_ok db'"
  using system_core_cong[of db' db]
  by (auto simp: system_ok_def system_view_def paired_def runs_get_def requests_get_def)

lemma table_get_distinct: "distinct (map key_of t) \<Longrightarrow> r \<in> set t \<Longrightarrow> table_get key_of t (key_of r) = Some r"
  by (induction t) (auto simp: table_get_def)

lemma execution_by_id:
  "system_core db \<Longrightarrow> ex \<in> set (t_executions db) \<Longrightarrow> executions_get (we_id ex) db = Some ex"
  by (simp add: system_core_def executions_get_def table_get_distinct)

lemma stored_of_get: "executions_get i db = Some ex \<Longrightarrow> ex \<in> set (t_executions db) \<and> we_id ex = i"
  unfolding executions_get_def by (drule table_get_key) simp

lemma stored_inv: "stored_ok ex \<Longrightarrow> exec_inv ex"
  using accepted_valid_nodes reachable_inv by (auto simp: stored_ok_def)

text \<open>Replacing an execution by a successor of the engine.\<close>

lemma stored_step:
  assumes "stored_ok ex0" "engine_step ex0 ex"
  shows "stored_ok ex" "we_id ex = we_id ex0" "we_snapshot ex = we_snapshot ex0"
proof -
  have s: "we_id ex = we_id ex0" "we_snapshot ex = we_snapshot ex0"
    using engine_step_succeeds[OF assms(2) stored_inv[OF assms(1)]] by (auto simp: succeeds_to_def stays_def)
  then show "we_id ex = we_id ex0" "we_snapshot ex = we_snapshot ex0" by auto
  show "stored_ok ex" using assms s re_step by (auto simp: stored_ok_def)
qed

lemma put_rows:
  assumes "distinct (map we_id t)" "ex0 \<in> set t" "we_id ex = we_id ex0"
  shows "set (table_put we_id t ex) = insert ex (set t - {ex0})"
    and "map we_id (table_put we_id t ex) = map we_id t"
    and "we_snapshot ex = we_snapshot ex0 \<Longrightarrow> map run_of (table_put we_id t ex) = map run_of t"
proof -
  have u: "x = ex0" if "x \<in> set t" "we_id x = we_id ex0" for x
    using assms(1,2) that by (auto simp: distinct_map inj_on_def)
  show "set (table_put we_id t ex) = insert ex (set t - {ex0})"
    using assms(2,3) u by (auto simp: table_put_def)
  show "map we_id (table_put we_id t ex) = map we_id t" by (auto simp: table_put_def)
  show "we_snapshot ex = we_snapshot ex0 \<Longrightarrow> map run_of (table_put we_id t ex) = map run_of t"
    using u assms(3) by (auto simp: table_put_def)
qed

abbreviation put_execution :: "db \<Rightarrow> workflow_execution \<Rightarrow> db" where
  "put_execution db ex \<equiv> db\<lparr>t_executions := table_put we_id (t_executions db) ex\<rparr>"

lemma put_execution_core:
  assumes "system_core db" "executions_get i db = Some ex0" "engine_step ex0 ex"
  shows "system_core (put_execution db ex)"
    and "set (t_executions (put_execution db ex)) = insert ex (set (t_executions db) - {ex0})"
    and "ex' \<in> set (t_executions db) - {ex0} \<Longrightarrow> run_of ex' \<noteq> run_of ex"
proof -
  have m: "ex0 \<in> set (t_executions db)" "stored_ok ex0" "we_id ex0 < t_next db"
    "distinct (map we_id (t_executions db))" "distinct (map run_of (t_executions db))"
    using stored_of_get[OF assms(2)] assms(1) by (auto simp: system_core_def)
  note s = stored_step[OF m(2) assms(3)] and p = put_rows[OF m(4,1) stored_step(2)[OF m(2) assms(3)]]
  show "set (t_executions (put_execution db ex)) = insert ex (set (t_executions db) - {ex0})" using p(1) by simp
  show "system_core (put_execution db ex)"
    using assms(1) s m p(1) p(2) p(3)[OF s(3)] by (simp add: system_core_def requests_opened_def)
  show "ex' \<in> set (t_executions db) - {ex0} \<Longrightarrow> run_of ex' \<noteq> run_of ex"
    using m(1,5) s(3) by (auto simp: distinct_map inj_on_def)
qed

lemma execution_of_put:
  assumes "system_core db" "executions_get i db = Some ex0" "engine_step ex0 ex"
    "executions_save ex db = Inr (u, db1)"
  shows "db1 = put_execution db ex"
  using executions_save_step[OF assms(3) _ assms(2,4)] stored_inv stored_of_get[OF assms(2)] assms(1)
  by (auto simp: system_core_def)

text \<open>A transition that keeps the status needs no synchronization.\<close>

lemma quiet_transition_ok:
  assumes "system_ok db" "executions_get i db = Some ex0" "engine_step ex0 ex" "we_status ex = we_status ex0"
  shows "system_ok (put_execution db ex)"
proof -
  have c: "system_core db" and pairs: "\<forall>x \<in> set (t_executions db). paired db x"
    using assms(1) by (auto simp: system_ok_def)
  note p = put_execution_core[OF c assms(2,3)]
  have m: "ex0 \<in> set (t_executions db)" "stored_ok ex0"
    using stored_of_get[OF assms(2)] c by (auto simp: system_core_def)
  have "we_snapshot ex = we_snapshot ex0" using stored_step(3)[OF m(2) assms(3)] .
  then have "paired (put_execution db ex) ex"
    using pairs m(1) assms(4) by (auto simp: paired_def runs_get_def requests_get_def)
  moreover have "paired (put_execution db ex) x" if "x \<in> set (t_executions db)" for x
    using pairs that by (auto simp: paired_def runs_get_def requests_get_def)
  ultimately show ?thesis using p(1,2) by (auto simp: system_ok_def)
qed

text \<open>Synchronizing an execution that was just stored restores the agreement.\<close>

lemma synchronize_ok:
  assumes "system_core db" "ex \<in> set (t_executions db)"
    "\<And>x. x \<in> set (t_executions db) \<Longrightarrow> x \<noteq> ex \<Longrightarrow> paired db x"
    "synchronize_execution_lifecycle ex now db = Inr (u, db')"
  shows "system_ok db'"
proof -
  have ctx: "ws_request_context (we_snapshot ex) \<noteq> None" "requests_opened db" "Ball (set (t_runs db)) run_ok"
    and dist: "distinct (map run_of (t_executions db))"
    using assms(1,2) by (auto simp: system_core_def stored_ok_def)
  note s = synchronize_spec[OF assms(4) ctx(1,2)]
  have view: "t_executions db' = t_executions db" "t_definitions db' = t_definitions db" "t_next db \<le> t_next db'"
    using withinD[OF frame_synchronize assms(4), of t_executions] withinD[OF frame_synchronize assms(4), of t_definitions]
      withinD[OF grows_synchronize assms(4)] by simp_all
  have "system_core db'"
    using assms(1) s(4)[OF ctx(3)] s(5) view by (force simp: system_core_def)
  moreover have "paired db' x" if x: "x \<in> set (t_executions db)" for x
  proof (cases "x = ex")
    case True
    then show ?thesis using s(1) by simp
  next
    case False
    then have "run_of x \<noteq> run_of ex" using dist x assms(2) by (auto simp: distinct_map inj_on_def)
    then show ?thesis using paired_other[OF assms(3)[OF x False] s(2) s(3)] by simp
  qed
  ultimately show ?thesis using view(1) by (simp add: system_ok_def)
qed

lemma save_transition_ok:
  assumes "system_ok db" "executions_get i db = Some ex0" "engine_step ex0 ex"
    "save_transition ex t p now db = Inr (r, db')"
  shows "system_ok db'"
proof -
  have c: "system_core db" and pairs: "\<forall>x \<in> set (t_executions db). paired db x"
    using assms(1) by (auto simp: system_ok_def)
  from assms(4) obtain db1 db2 where s: "executions_save ex db = Inr ((), db1)"
    and e: "execution_event ex t p now db1 = Inr ((), db2)"
    and y: "synchronize_execution_lifecycle ex now db2 = Inr ((), db')"
    by (auto simp: save_transition_def)
  have db1: "db1 = put_execution db ex" by (rule execution_of_put[OF c assms(2,3) s])
  note pc = put_execution_core[OF c assms(2,3), folded db1]
  have v: "system_view db2 = system_view db1" "t_next db1 \<le> t_next db2"
    using withinD[OF frame_execution_event e, of system_view] withinD[OF grows_execution_event e]
    by (simp_all add: system_view_def)
  have core: "system_core db2" by (rule system_core_cong[OF v pc(1)])
  have ex2: "t_executions db2 = t_executions db1" "t_runs db2 = t_runs db" "t_requests db2 = t_requests db"
    using v(1) db1 by (auto simp: system_view_def)
  show ?thesis
  proof (rule synchronize_ok[OF core _ _ y])
    show "ex \<in> set (t_executions db2)" using pc(2) ex2 by simp
    fix x assume "x \<in> set (t_executions db2)" "x \<noteq> ex"
    then have "x \<in> set (t_executions db)" using pc(2) ex2 by auto
    then show "paired db2 x" using pairs ex2(2,3) by (auto simp: paired_def runs_get_def requests_get_def)
  qed
qed

section \<open>Preservation by the workflow and dispatch services\<close>

lemma get_execution_Inr: "get_execution i db = Inr (ex, db') \<longleftrightarrow> executions_get i db = Some ex \<and> db' = db"
  by (simp add: get_execution_def)

lemma stored_get: "system_ok db \<Longrightarrow> ex \<in> set (t_executions db) \<Longrightarrow> executions_get (we_id ex) db = Some ex"
  by (simp add: system_ok_def execution_by_id)

lemma service_begin_task_ok:
  assumes "service_begin_task i key now db = Inr (r, db')" "system_ok db"
  shows "system_ok db'"
proof -
  from assms(1) obtain ex0 ex db1 where g: "executions_get i db = Some ex0" and b: "begin_task ex0 key None now = Inr ex"
    and s: "executions_save ex db = Inr ((), db1)"
    and e: "execution_event ex ''workflow.node_started'' [(''node_key'', JStr key)] now db1 = Inr ((), db')"
    by (auto simp: service_begin_task_def get_execution_Inr)
  have step: "engine_step ex0 ex" using b by (intro es_progress es_begin)
  have st: "we_status ex = we_status ex0" using b by (elim begin_taskD) (simp add: touch_def put_node_def)
  have c: "system_core db" using assms(2) by (simp add: system_ok_def)
  have "system_ok db1"
    using quiet_transition_ok[OF assms(2) g step st] execution_of_put[OF c g step s] by simp
  then show ?thesis
    using system_ok_cong withinD[OF frame_execution_event e, of system_view] withinD[OF grows_execution_event e]
    by (simp add: system_view_def)
qed

lemma service_complete_task_ok:
  assumes "service_complete_task ie i key outc outp now db = Inr (r, db')" "system_ok db"
  shows "system_ok db'"
proof -
  from assms(1) obtain ex0 ex d oc op v a db1 db2 t p where g: "executions_get i db = Some ex0"
    and c: "complete_task ex0 key oc op None None now = Inr ex"
    and n: "new_artifact ex key v d now db = Inr (a, db1)" and ad: "artifacts_add a db1 = Inr ((), db2)"
    and s: "save_transition ex t p now db2 = Inr (r, db')"
    by (auto simp: service_complete_task_def get_execution_Inr Let_def)
  have step: "engine_step ex0 ex" using c by (intro es_progress es_complete)
  have v: "system_view db2 = system_view db" "t_next db \<le> t_next db2"
    using withinD[OF frame_new_artifact n, of system_view] withinD[OF keeps_artifacts_add ad, of system_view]
      withinD[OF grows_new_artifact n] withinD[OF grows_tables(8) ad] by (auto simp: system_view_def)
  show ?thesis
    by (rule save_transition_ok[OF system_ok_cong[OF v assms(2)] _ step s])
       (use g v in \<open>auto simp: executions_get_def system_view_def\<close>)
qed

lemma service_fail_task_ok: "service_fail_task i key reason now db = Inr (r, db') \<Longrightarrow> system_ok db \<Longrightarrow> system_ok db'"
  by (auto simp: service_fail_task_def get_execution_Inr) (blast intro: save_transition_ok es_progress es_fail)

lemma service_resolve_approval_ok:
  "service_resolve_approval i key approved now db = Inr (r, db') \<Longrightarrow> system_ok db \<Longrightarrow> system_ok db'"
  by (auto simp: service_resolve_approval_def get_execution_Inr) (blast intro: save_transition_ok es_progress es_resolve)

lemma release_view:
  assumes "release_run_reservations run_id reason now db = Inr (k, db')"
  shows "system_view db' = system_view db" "t_next db \<le> t_next db'"
  using withinD[OF frame_release assms, of system_view] withinD[OF grows_release assms]
  by (simp_all add: system_view_def)

lemma cancel_transition_ok:
  assumes "system_ok db" "executions_get i db = Some ex0" "cancel ex0 None now = Inr ex"
    "release_run_reservations run_id reason now db = Inr (k, db1)" "save_transition ex t p now db1 = Inr (r, db')"
  shows "system_ok db'"
proof -
  note v = release_view[OF assms(4)]
  have step: "engine_step ex0 ex" using assms(3) by (intro es_progress es_cancel)
  show ?thesis
    by (rule save_transition_ok[OF system_ok_cong[OF v assms(1)] _ step assms(5)])
       (use assms(2) v in \<open>auto simp: executions_get_def system_view_def\<close>)
qed

lemma service_cancel_ok: "service_cancel i now db = Inr (r, db') \<Longrightarrow> system_ok db \<Longrightarrow> system_ok db'"
  by (auto simp: service_cancel_def get_execution_Inr intro: cancel_transition_ok)

lemma node_join_stored: "(ex, n) \<in> set (node_join P db) \<Longrightarrow> ex \<in> set (t_executions db)"
  by (auto simp: node_join_def)

lemma candidate_stored:
  "get_ready_for_update keys db = Some (ex, key) \<Longrightarrow> ex \<in> set (t_executions db)"
  "get_expired_for_update at db = Some (ex, key) \<Longrightarrow> ex \<in> set (t_executions db)"
  by (auto simp: get_ready_for_update_def get_expired_for_update_def split: if_splits
      dest!: first_row_member node_join_stored)

lemma claim_next_ok:
  assumes "claim_next grace w keys at now db = Inr (r, db')" "system_ok db"
  shows "system_ok db'"
proof (cases "get_ready_for_update keys db")
  case None
  then show ?thesis using assms by (auto simp: claim_next_def)
next
  case (Some c)
  obtain ex0 key where c: "c = (ex0, key)" by fastforce
  with assms(1) Some obtain d inputs db1 ex fresh secs db2 db3 t p where
    in1: "resolve_artifact_inputs ex0 key db = Inr (inputs, db1)"
    and cl: "claim_task ex0 key w secs None fresh (Some (at_or_now at now)) now = Inr ex"
    and db2: "db2 = db1\<lparr>t_next := Suc (t_next db1)\<rparr>" and s: "executions_save ex db2 = Inr ((), db3)"
    and e: "execution_event ex t p now db3 = Inr ((), db')"
    by (auto simp: claim_next_def claim_candidate_def split: option.splits prod.splits)
  have "db1 = db" using withinD[OF resolve_inputs_reads in1, of "\<lambda>db. db"] by simp
  then have ok2: "system_ok db2" using system_ok_cong[OF _ _ assms(2)] db2 by (simp add: system_view_def)
  have "ex0 \<in> set (t_executions db2)" using candidate_stored(1)[of keys db ex0 key] Some c db2 \<open>db1 = db\<close> by simp
  then have g: "executions_get (we_id ex0) db2 = Some ex0" using stored_get[OF ok2] by simp
  have step: "engine_step ex0 ex" using cl by (intro es_progress es_claim)
  have st: "we_status ex = we_status ex0" using cl by (elim claim_taskD) (simp add: touch_def put_node_def)
  have "system_ok db3"
    using quiet_transition_ok[OF ok2 g step st] execution_of_put[OF _ g step s] ok2 by (simp add: system_ok_def)
  then show ?thesis
    using system_ok_cong withinD[OF frame_execution_event e, of system_view] withinD[OF grows_execution_event e]
    by (simp add: system_view_def)
qed

lemma dispatch_heartbeat_ok:
  assumes "dispatch_heartbeat grace claim at now db = Inr (r, db')" "system_ok db"
  shows "system_ok db'"
proof -
  from assms(1) obtain ex0 ex secs db1 t p where g: "executions_get (tc_execution_id claim) db = Some ex0"
    and b: "renew_lease ex0 (tc_node_key claim) (tc_lease_token claim) secs (Some (at_or_now at now)) now = Inr ex"
    and s: "executions_save ex db = Inr ((), db1)" and e: "execution_event ex t p now db1 = Inr ((), db')"
    by (auto simp: dispatch_heartbeat_def get_execution_Inr)
  have step: "engine_step ex0 ex" using b by (intro es_renew)
  have st: "we_status ex = we_status ex0" using b by (elim renew_leaseD) (simp add: touch_def put_node_def)
  have c: "system_core db" using assms(2) by (simp add: system_ok_def)
  have "system_ok db1"
    using quiet_transition_ok[OF assms(2) g step st] execution_of_put[OF c g step s] by simp
  then show ?thesis
    using system_ok_cong withinD[OF frame_execution_event e, of system_view] withinD[OF grows_execution_event e]
    by (simp add: system_view_def)
qed

lemma dispatch_complete_ok:
  assumes "dispatch_complete ie claim result at now db = Inr (r, db')" "system_ok db"
  shows "system_ok db'"
proof -
  from assms(1) obtain ex0 ex d oc op v a db1 db2 t p where g: "executions_get (tc_execution_id claim) db = Some ex0"
    and c: "complete_task ex0 (tc_node_key claim) oc op (Some (tc_lease_token claim)) (Some (at_or_now at now)) now = Inr ex"
    and n: "new_artifact ex (tc_node_key claim) v d (at_or_now at now) db = Inr (a, db1)"
    and ad: "artifacts_add a db1 = Inr ((), db2)" and s: "save_transition ex t p now db2 = Inr (r, db')"
    by (auto simp: dispatch_complete_def get_execution_Inr Let_def)
  have step: "engine_step ex0 ex" using c by (intro es_progress es_complete)
  have v: "system_view db2 = system_view db" "t_next db \<le> t_next db2"
    using withinD[OF frame_new_artifact n, of system_view] withinD[OF keeps_artifacts_add ad, of system_view]
      withinD[OF grows_new_artifact n] withinD[OF grows_tables(8) ad] by (auto simp: system_view_def)
  show ?thesis
    by (rule save_transition_ok[OF system_ok_cong[OF v assms(2)] _ step s])
       (use g v in \<open>auto simp: executions_get_def system_view_def\<close>)
qed

lemma dispatch_fail_ok: "dispatch_fail claim reason at now db = Inr (r, db') \<Longrightarrow> system_ok db \<Longrightarrow> system_ok db'"
  by (auto simp: dispatch_fail_def get_execution_Inr) (blast intro: save_transition_ok es_progress es_fail)

lemma recover_expired_ok:
  assumes "recover_expired at now db = Inr (r, db')" "system_ok db"
  shows "system_ok db'"
proof (cases "get_expired_for_update (at_or_now at now) db")
  case None
  then show ?thesis using assms by (auto simp: recover_expired_def)
next
  case (Some c)
  obtain ex0 key where c: "c = (ex0, key)" by fastforce
  with assms(1) Some obtain ex t p u where cl: "expire_task ex0 key (Some (at_or_now at now)) now = Inr ex"
    and s: "save_transition ex t p now db = Inr (u, db')"
    by (auto simp: recover_expired_def split: option.splits prod.splits)
  have "executions_get (we_id ex0) db = Some ex0"
    using stored_get[OF assms(2)] candidate_stored(2)[of _ db ex0 key] Some c by simp
  then show ?thesis
    by (rule save_transition_ok[OF assms(2) _ _ s]) (intro es_progress es_expire[OF cl])
qed

end
