(* ===== verification/System_Steps.thy ===== *)
theory System_Steps
  imports System_Invariant
begin

text \<open>
  Preservation by the services that create or close runs and requests, the step relation of all
  services, and the theorems about it.
\<close>

section \<open>Adding and closing runs and requests\<close>

lemma add_run_ok:
  assumes "system_ok db" "run_ok r"
  shows "system_ok (db\<lparr>t_runs := t_runs db @ [r]\<rparr>)"
proof -
  have "paired (db\<lparr>t_runs := t_runs db @ [r]\<rparr>) ex" if "paired db ex" for ex
    using that by (auto simp: paired_def runs_get_def requests_get_def run_table.get_add)
  then show ?thesis using assms by (auto simp: system_ok_def system_core_def requests_opened_def)
qed

lemma add_request_ok:
  assumes "system_ok db" "rq_status q \<noteq> QReceived"
  shows "system_ok (db\<lparr>t_requests := t_requests db @ [q]\<rparr>)"
proof -
  have "paired (db\<lparr>t_requests := t_requests db @ [q]\<rparr>) ex" if "paired db ex" for ex
    using that by (auto simp: paired_def runs_get_def requests_get_def request_table.get_add)
  then show ?thesis using assms by (auto simp: system_ok_def system_core_def requests_opened_def)
qed

lemma no_execution_of_run: "executions_get_by_run k db = None \<Longrightarrow> ex \<in> set (t_executions db) \<Longrightarrow> run_of ex \<noteq> k"
  by (auto simp: executions_get_by_run_def find_None_iff)

lemma put_run_ok:
  assumes "system_ok db" "runs_get k db = Some r" "executions_get_by_run k db = None"
    "run_core r' = run_core r" "run_ok r'"
  shows "system_ok (db\<lparr>t_runs := table_put rn_id (t_runs db) r'\<rparr>)"
proof -
  let ?db = "db\<lparr>t_runs := table_put rn_id (t_runs db) r'\<rparr>"
  have id: "rn_id r' = k" using runs_get_id[OF assms(2)] assms(4) by (simp add: run_core_def)
  have "paired ?db ex" if ex: "ex \<in> set (t_executions db)" for ex
  proof (rule paired_other)
    show "paired db ex" using assms(1) ex by (simp add: system_ok_def)
    show "runs_get (run_of ex) ?db = runs_get (run_of ex) db"
      using runs_get_put[of r' db r "run_of ex"] assms(2) no_execution_of_run[OF assms(3) ex] id by simp
    show "requests_advance db ?db" by (rule requests_advance_cong) simp
  qed
  then show ?thesis
    using assms(1,5) by (auto simp: system_ok_def system_core_def requests_opened_def table_put_def)
qed

lemma put_request_ok:
  assumes "system_ok db" "requests_get k db = Some q" "request_core q' = request_core q" "closed_request q'"
  shows "system_ok (db\<lparr>t_requests := table_put rq_id (t_requests db) q'\<rparr>)"
proof -
  let ?db = "db\<lparr>t_requests := table_put rq_id (t_requests db) q'\<rparr>"
  have id: "rq_id q' = k" using requests_get_id[OF assms(2)] assms(3) by (simp add: request_core_def)
  have get: "requests_get j ?db = (if j = k then Some q' else requests_get j db)" for j
    using requests_get_put[of q' db q j] assms(2) id by simp
  have "paired ?db ex" if ex: "ex \<in> set (t_executions db)" for ex
  proof (rule paired_other)
    show "paired db ex" using assms(1) ex by (simp add: system_ok_def)
    show "runs_get (run_of ex) ?db = runs_get (run_of ex) db" by (simp add: runs_get_def)
    show "requests_advance db ?db" using get assms(2,4) by (simp add: requests_advance_def)
  qed
  then show ?thesis
    using assms(1,4)
    by (auto simp: system_ok_def system_core_def requests_opened_def table_put_def closed_request_def)
qed

lemma emit_ok: "emit a i t p now db = Inr (u, db') \<Longrightarrow> system_ok db \<Longrightarrow> system_ok db'"
  by (rule system_ok_cong[of db' db]) (use emit_keeps[of a i t p now db u db'] in \<open>simp_all add: system_view_def\<close>)

lemma approve_run_ok:
  assumes "approve_run run_id now db = Inr (r, db')" "system_ok db"
  shows "system_ok db'"
proof -
  from assms(1) obtain r0 db1 t p i where g: "runs_get run_id db = Some r0"
    and n: "executions_get_by_run run_id db = None" and t: "run_transition_to r0 RReady None now = Inr r"
    and s: "runs_save r db = Inr ((), db1)" and e: "emit ''run'' i t p now db1 = Inr ((), db')"
    by (auto simp: approve_run_def split: if_splits)
  have id: "rn_id r0 = run_id" by (rule runs_get_id[OF g])
  have "run_ok r0" using assms(2) table_get_key g
    by (fastforce simp: system_ok_def system_core_def runs_get_def)
  then have "system_ok (db\<lparr>t_runs := table_put rn_id (t_runs db) r\<rparr>)"
    by (intro put_run_ok[OF assms(2) g n run_transition_core[OF t]] run_transition_ok[OF t])
  then show ?thesis
    using emit_ok[OF e] runs_save_stored[OF _ run_transition_core[OF t] s] g id by simp
qed

lemma cancel_bare_run_ok:
  assumes "cancel_bare_run run_id now db = Inr (r, db')" "system_ok db" "executions_get_by_run run_id db = None"
  shows "system_ok db'"
proof -
  from assms(1) obtain r0 q0 db1 q db2 db3 t p i k j where g: "runs_get run_id db = Some r0"
    and q0: "requests_get (rn_request_id r0) db = Some q0"
    and rel: "release_run_reservations j ''run_cancelled'' now db = Inr (k, db1)"
    and t: "run_transition_to r0 RCancelled None now = Inr r" and q: "request_set_status q0 QCancelled None now = Inr q"
    and s: "runs_save r db1 = Inr ((), db2)" and s2: "requests_save q db2 = Inr ((), db3)"
    and e: "emit ''run'' i t p now db3 = Inr ((), db')"
    by (auto simp: cancel_bare_run_def request_cancel_def)
  note v = release_view[OF rel]
  have ok1: "system_ok db1" by (rule system_ok_cong[OF v assms(2)])
  have g1: "runs_get run_id db1 = Some r0" "requests_get (rn_request_id r0) db1 = Some q0"
    "executions_get_by_run run_id db1 = None"
    using g q0 assms(3) v(1) by (simp_all add: runs_get_def requests_get_def executions_get_by_run_def system_view_def)
  have id: "rn_id r0 = run_id" "rq_id q0 = rn_request_id r0"
    using runs_get_id[OF g] requests_get_id[OF q0] by auto
  have "run_ok r0" using assms(2) table_get_key g by (fastforce simp: system_ok_def system_core_def runs_get_def)
  then have ok2: "system_ok (db1\<lparr>t_runs := table_put rn_id (t_runs db1) r\<rparr>)"
    by (intro put_run_ok[OF ok1 g1(1,3) run_transition_core[OF t]] run_transition_ok[OF t])
  have db2: "db2 = db1\<lparr>t_runs := table_put rn_id (t_runs db1) r\<rparr>"
    using runs_save_stored[OF _ run_transition_core[OF t] s] g1(1) id by simp
  have q2: "requests_get (rq_id q0) db2 = Some q0" using g1(2) id by (simp add: db2 requests_get_def)
  note c = set_status_core[OF q]
  have "db3 = db2\<lparr>t_requests := table_put rq_id (t_requests db2) q\<rparr>"
    by (rule requests_save_stored[OF q2 _ s2]) (use c in simp)
  moreover have "system_ok (db2\<lparr>t_requests := table_put rq_id (t_requests db2) q\<rparr>)"
    by (rule put_request_ok[OF ok2[folded db2] q2]) (use c in \<open>auto simp: closed_request_def\<close>)
  ultimately show ?thesis using emit_ok[OF e] by simp
qed

lemma cancel_run_ok:
  assumes "cancel_run run_id now db = Inr (r, db')" "system_ok db"
  shows "system_ok db'"
proof (cases "executions_get_by_run run_id db")
  case None
  then show ?thesis using assms cancel_bare_run_ok by (auto simp: cancel_run_def)
next
  case (Some ex0)
  then have "ex0 \<in> set (t_executions db)" unfolding executions_get_by_run_def by (blast dest: find_SomeD)
  then have g: "executions_get (we_id ex0) db = Some ex0" by (rule stored_get[OF assms(2)])
  from assms(1) Some show ?thesis
    by (auto simp: cancel_run_def split: if_splits) (blast intro: cancel_transition_ok[OF assms(2) g])
qed

section \<open>Creating executions\<close>

lemma new_execution_spec:
  assumes "new_execution s now db = Inr (ex, db')"
  shows "\<exists>ids. ex = execution_create s (t_next db) ids now" "system_view db' = system_view db" "t_next db < t_next db'"
proof -
  from assms obtain ids where m: "smap (\<lambda>n. sbind uuid4 (\<lambda>i. sreturn (nd_key n, i))) (ws_nodes s)
      (db\<lparr>t_next := Suc (t_next db)\<rparr>) = Inr (ids, db')"
    and ex: "ex = execution_create s (t_next db) (ids_of ids) now"
    by (auto simp: new_execution_def)
  show "\<exists>ids. ex = execution_create s (t_next db) ids now" using ex by blast
  have "keeps system_view (smap (\<lambda>n. sbind uuid4 (\<lambda>i. sreturn (nd_key n, i))) (ws_nodes s))"
    by (intro frame_rules) (simp add: system_view_def)
  from withinD[OF this m] show "system_view db' = system_view db" by (simp add: system_view_def)
  have "grows (smap (\<lambda>n. sbind uuid4 (\<lambda>i. sreturn (nd_key n, i))) (ws_nodes s))" by (intro frame_rules)
  from withinD[OF this m] show "t_next db < t_next db'" by simp
qed

lemma create_execution_ok:
  assumes "create_execution run request project d source now db = Inr (ex, db')" "system_ok db" "valid_definition d"
  shows "system_ok db'"
proof -
  from assms(1) obtain packs skills selections ctx s db1 ex0 db2 db3 t p where
    none: "executions_get_by_run (rn_id run) db = None"
    and s: "snapshot_from_definition d (rn_id run) (Some ctx) packs skills selections (t_next db) now = Inr s"
    and n: "new_execution s now (db\<lparr>t_next := Suc (t_next db)\<rparr>) = Inr (ex0, db1)"
    and st: "start ex0 None now = Inr ex" and db2: "db2 = db1\<lparr>t_executions := t_executions db1 @ [ex]\<rparr>"
    and e: "execution_event ex t p now db2 = Inr ((), db3)"
    and y: "synchronize_execution_lifecycle ex now db3 = Inr ((), db')"
    by (auto simp: create_execution_def executions_add_def split: if_splits dest!: resolve_unchanged)
  have acc: "accepted_snapshot s"
    using snapshot_from_definition_accepted[OF s] assms(3) by (simp add: valid_definition_def)
  note ns = new_execution_spec[OF n]
  then obtain ids where ex0: "ex0 = execution_create s (Suc (t_next db)) ids now" by auto
  have step: "engine_step ex0 ex" using st by (intro es_progress es_start)
  have re0: "reachable_execution s ex0" unfolding ex0 by (rule re_create)
  have "we_snapshot ex0 = s" by (simp add: ex0 execution_create_def)
  moreover have "ws_request_context s \<noteq> None" "ws_run_id s = rn_id run" "workflow_snapshot_init s = Inr ()"
    using s by (auto simp: snapshot_from_definition_def Let_def)
  ultimately have ok0: "stored_ok ex0" "run_of ex0 = rn_id run" using acc re0 by (auto simp: stored_ok_def)
  note sx = stored_step[OF ok0(1) step]
  have view1: "t_executions db1 = t_executions db" "t_runs db1 = t_runs db" "t_requests db1 = t_requests db"
    "t_definitions db1 = t_definitions db" "Suc (t_next db) < t_next db1"
    using ns(2,3) by (auto simp: system_view_def)
  have c: "system_core db" and pairs: "\<forall>x \<in> set (t_executions db). paired db x"
    using assms(2) by (auto simp: system_ok_def)
  have id: "we_id ex = Suc (t_next db)" using sx(2) by (simp add: ex0 execution_create_def)
  have new: "run_of x \<noteq> run_of ex" "we_id x \<noteq> we_id ex" if "x \<in> set (t_executions db)" for x
    using no_execution_of_run[OF none that] sx(3) ok0(2) c that id by (auto simp: system_core_def)
  have "system_core db2"
    using c sx(1) new view1 id by (fastforce simp: system_core_def db2 requests_opened_def)
  moreover have v: "system_view db3 = system_view db2" "t_next db2 \<le> t_next db3"
    using withinD[OF frame_execution_event e, of system_view] withinD[OF grows_execution_event e]
    by (simp_all add: system_view_def)
  ultimately have core: "system_core db3" using system_core_cong by blast
  have ex3: "t_executions db3 = t_executions db @ [ex]" "t_runs db3 = t_runs db" "t_requests db3 = t_requests db"
    using v(1) view1 by (auto simp: system_view_def db2)
  show ?thesis
  proof (rule synchronize_ok[OF core _ _ y])
    show "ex \<in> set (t_executions db3)" using ex3 by simp
    fix x assume "x \<in> set (t_executions db3)" "x \<noteq> ex"
    then have "x \<in> set (t_executions db)" using ex3 by auto
    then show "paired db3 x" using pairs ex3(2,3) by (auto simp: paired_def runs_get_def requests_get_def)
  qed
qed

lemma definitions_get_stored: "definitions_get key version db = Some d \<Longrightarrow> d \<in> set (t_definitions db)"
  by (cases version) (auto simp: definitions_get_def versioned_get_def dest!: latest_of_Some find_SomeD)

lemma stored_definition_valid: "system_ok db \<Longrightarrow> definitions_get key version db = Some d \<Longrightarrow> valid_definition d"
  by (auto simp: system_ok_def system_core_def dest: definitions_get_stored)

lemma workflow_start_ok: "workflow_start run_id key version now db = Inr (ex, db') \<Longrightarrow> system_ok db \<Longrightarrow> system_ok db'"
  by (auto simp: workflow_start_def) (blast intro: create_execution_ok stored_definition_valid)

lemma new_active_request_spec:
  assumes "new_active_request p prompt title orig now db = Inr (q, db')"
  shows "rq_status q = QActive" "system_view db' = system_view db" "t_next db \<le> t_next db'"
  using assms by (auto simp: new_active_request_def request_activate_def system_view_def dest!: set_status_core)

lemma add_parents_ok:
  assumes "system_ok db" "rq_status q \<noteq> QReceived" "run_ok r"
  shows "system_ok (db\<lparr>t_requests := t_requests db @ [q], t_runs := t_runs db @ [r]\<rparr>)"
  using add_run_ok[OF add_request_ok[OF assms(1,2)] assms(3)] by simp

lemma run_init_new: "run_init (new_run q i now) = Inr r \<longleftrightarrow> r = new_run q i now"
  by (auto simp: run_init_def new_run_def)

lemma create_request_ok:
  assumes "create_request c now db = Inr (r, db')" "system_ok db"
  shows "system_ok db'"
proof -
  from assms(1) obtain pid q db1 t p i where n: "new_active_request pid (cu_prompt c) (cu_title c) None now db = Inr (q, db1)"
    and e: "emit ''request'' i t p now (db1\<lparr>t_next := Suc (t_next db1), t_requests := t_requests db1 @ [q],
        t_runs := t_runs db1 @ [new_run (rq_id q) (t_next db1) now]\<rparr>) = Inr ((), db')"
    by (auto simp: create_request_def requests_add_def runs_add_def run_init_new split: if_splits)
  note s = new_active_request_spec[OF n]
  let ?db = "db1\<lparr>t_next := Suc (t_next db1)\<rparr>"
  have "system_ok ?db" by (rule system_ok_cong[OF _ _ assms(2)]) (use s in \<open>auto simp: system_view_def\<close>)
  from add_parents_ok[OF this _ new_run_ok, of q] s(1) show ?thesis
    by (intro emit_ok[OF e]) simp
qed

lemma register_definition_ok:
  assumes "register_definition d now db = Inr (d', db')" "system_ok db" "valid_definition d"
  shows "system_ok db'"
proof -
  from assms(1) obtain t p i where
    e: "emit ''workflow_definition'' i t p now (db\<lparr>t_definitions := t_definitions db @ [d]\<rparr>) = Inr ((), db')"
    by (auto simp: register_definition_def definitions_add_def split: if_splits dest!: resolve_unchanged)
  have "system_ok (db\<lparr>t_definitions := t_definitions db @ [d]\<rparr>)"
    using assms(2,3)
    by (auto simp: system_ok_def system_core_def requests_opened_def paired_def runs_get_def requests_get_def)
  then show ?thesis by (rule emit_ok[OF e])
qed

section \<open>Dispatching requests\<close>

lemma map_result_nodes:
  "map_result (add_skills addons) ns = Inr ms \<Longrightarrow> list_all (\<lambda>n. node_definition_init n = Inr n) ns
     \<Longrightarrow> list_all (\<lambda>n. node_definition_init n = Inr n) ms"
proof (induction ns arbitrary: ms)
  case (Cons n ns)
  from Cons.prems(1) obtain m ms' where m: "add_skills addons n = Inr m" "map_result (add_skills addons) ns = Inr ms'"
    "ms = m # ms'" by auto
  have "node_definition_init m = Inr m"
    using m(1) Cons.prems(2) by (auto simp: add_skills_def split: option.splits dest: node_definition_init_same)
  then show ?case using Cons.IH[OF m(2)] Cons.prems(2) m(3) by simp
qed simp

lemma apply_skill_addons_valid:
  assumes "apply_skill_addons d addons db = Inr (d', db')" "valid_definition d"
  shows "valid_definition d'" "db' = db"
proof -
  show "db' = db" using withinD[OF apply_skill_addons_reads assms(1), of "\<lambda>db. db"] by simp
  show "valid_definition d'"
    using assms by (auto simp: apply_skill_addons_def valid_definition_def Let_def split: if_splits)
       (erule (1) map_result_nodes)
qed

lemma select_definition_valid:
  assumes "select_definition sha c override db = Inr ((d, source), db')" "system_ok db"
  shows "valid_definition d" "db' = db"
proof -
  show "db' = db" using withinD[OF select_definition_reads assms(1), of "\<lambda>db. db"] by simp
  show "valid_definition d"
    using assms stored_definition_valid[OF assms(2)]
    by (auto simp: select_definition_def bound_definition_def split: option.splits prod.splits if_splits)
qed

lemma dispatch_claimed_ok:
  assumes "dispatch_claimed sha c override addons project receipt now db = Inr (r, db')" "system_ok db"
  shows "system_ok db'"
proof -
  from assms(1) obtain d0 source d db0 db1 q db2 db3 db4 ex rc t p i db5 where
    sel: "select_definition sha c override db = Inr ((d0, source), db0)"
    and ap: "apply_skill_addons d0 addons db0 = Inr (d, db1)"
    and n: "new_active_request (pj_id project) (py_strip (dp_prompt c)) (strip_to_option (dp_title c))
      (Some (dp_origin c)) now db1 = Inr (q, db2)"
    and db3: "db3 = db2\<lparr>t_next := Suc (t_next db2), t_requests := t_requests db2 @ [q],
        t_runs := t_runs db2 @ [new_run (rq_id q) (t_next db2) now]\<rparr>"
    and e: "emit ''request'' i t p now db3 = Inr ((), db4)"
    and cr: "create_execution (new_run (rq_id q) (t_next db2) now) q project d source now db4 = Inr (ex, db5)"
    and sv: "receipts_save rc db5 = Inr ((), db')"
    by (auto simp: dispatch_claimed_def requests_add_def runs_add_def run_init_new Let_def
        split: if_splits prod.splits)
  note v0 = select_definition_valid[OF sel assms(2)]
  note v1 = apply_skill_addons_valid[OF ap v0(1)]
  note s = new_active_request_spec[OF n]
  have "system_ok (db2\<lparr>t_next := Suc (t_next db2)\<rparr>)"
    by (rule system_ok_cong[OF _ _ assms(2)]) (use s v0 v1 in \<open>auto simp: system_view_def\<close>)
  from add_parents_ok[OF this _ new_run_ok, of q] s(1) have "system_ok db3" by (simp add: db3)
  then have "system_ok db5" by (intro create_execution_ok[OF cr] emit_ok[OF e] v1(1))
  then show ?thesis
    using system_ok_cong withinD[OF keeps_receipts(2) sv, of system_view] withinD[OF grows_tables(15) sv]
    by (simp add: system_view_def)
qed

lemma dispatch_ok:
  assumes "dispatch sha sj c now db = Inr (r, db')" "system_ok db"
  shows "system_ok db'"
proof -
  from assms(1) obtain receipt claimed db1 where
    tc: "receipts_try_claim receipt (db\<lparr>t_next := Suc (t_next db)\<rparr>) = Inr (claimed, db1)"
    and br: "(\<exists>override addons project. dispatch_claimed sha c override addons project receipt now db1 = Inr (r, db'))
      \<or> (\<exists>x. replay x db1 = Inr (r, db'))"
    by (auto simp: dispatch_def split: if_splits) metis+
  have ok: "system_ok db1"
    by (rule system_ok_cong[OF _ _ assms(2)])
       (use withinD[OF keeps_receipts(1) tc, of system_view] withinD[OF grows_tables(14) tc] in
        \<open>auto simp: system_view_def\<close>)
  from br show ?thesis
  proof (elim disjE exE)
    fix x assume "replay x db1 = Inr (r, db')"
    from withinD[OF replay_reads this, of "\<lambda>db. db"] ok show ?thesis by simp
  qed (rule dispatch_claimed_ok[OF _ ok])
qed

section \<open>Every service keeps the invariant\<close>

text \<open>Calls that write none of the tables of the invariant.\<close>

definition untouched :: "db \<Rightarrow> db \<Rightarrow> bool" where
  "untouched db db' \<longleftrightarrow> system_view db' = system_view db \<and> t_next db \<le> t_next db'"

lemma untouchedI: "keeps system_view m \<Longrightarrow> grows m \<Longrightarrow> within untouched m"
  by (simp add: within_def untouched_def)

interpretation untouched: budget_frame untouched
proof (intro budget_frame.intro budget_frame_axioms.intro)
  show "step_frame untouched" by unfold_locales (auto simp: untouched_def)
qed (rule untouchedI; rule frame_rules; simp add: system_view_def)+

lemma untouched_ok: "within untouched m \<Longrightarrow> m db = Inr (x, db') \<Longrightarrow> system_ok db \<Longrightarrow> system_ok db'"
  using withinD[of untouched m db x db'] by (auto simp: untouched_def intro: system_ok_cong)

lemma untouched_services:
  "within untouched (register_project cmd now)" "within untouched (register_skill s now)"
  "within untouched (register_phase_pack cs pp now)" "within untouched (register_model m now)"
  "within untouched (configure_binding pid key v now)"
  "within untouched (service_recommend_workflows sha pid prompt limit now)"
  unfolding register_project_def register_skill_def register_phase_pack_def register_model_def
    configure_binding_def service_recommend_workflows_def
  by (rule untouchedI; intro frame_rules; simp add: system_view_def)+

lemma budget_step_ok: "budget_step db db' \<Longrightarrow> system_ok db \<Longrightarrow> system_ok db'"
  using untouched.budget_step_within[of db db'] by (auto simp: untouched_def intro: system_ok_cong)

lemma other_write_ok: "other_write db db' \<Longrightarrow> system_ok db \<Longrightarrow> system_ok db'"
proof (induction rule: other_write.induct)
  case (ow_id db i db')
  then show ?case using untouched_ok[OF untouched.t_uuid4] by blast
next
  case (ow_event e db u db')
  have "within untouched (events_append e)"
    by (rule untouchedI; intro frame_rules; simp add: system_view_def)
  from untouched_ok[OF this] ow_event show ?case by blast
next
  case (ow_rows x db u db')
  have "within untouched (ops_set x)"
    by (rule untouchedI; intro frame_rules; simp add: system_view_def)
  from untouched_ok[OF this] ow_rows show ?case by blast
qed

lemmas services_ok = create_request_ok dispatch_ok approve_run_ok cancel_run_ok workflow_start_ok
  service_begin_task_ok service_complete_task_ok service_fail_task_ok service_resolve_approval_ok
  service_cancel_ok claim_next_ok dispatch_heartbeat_ok dispatch_complete_ok dispatch_fail_ok
  recover_expired_ok register_definition_ok budget_step_ok other_write_ok

lemma service_step_ok: "service_step db db' \<Longrightarrow> system_ok db \<Longrightarrow> system_ok db'"
  by (induction rule: service_step.induct)
     (blast intro: untouched_ok untouched_services services_ok)+

lemma service_steps_ok: "service_step\<^sup>*\<^sup>* db db' \<Longrightarrow> system_ok db \<Longrightarrow> system_ok db'"
  by (induction rule: rtranclp_induct) (auto intro: service_step_ok)

end
