(* ===== verification/Dispatch_Once.thy ===== *)
theory Dispatch_Once
  imports System_Steps
begin

text \<open>
  Dispatching is idempotent: a receipt under the project, the ingress and the idempotency key of the
  caller makes the first successful dispatch the only one that creates anything.
\<close>

section \<open>Receipts\<close>

definition receipt_ids_ok :: "db \<Rightarrow> bool" where
  "receipt_ids_ok db \<longleftrightarrow> (\<forall>r \<in> set (t_receipts db). dr_id r < t_next db)"

definition stored_receipt :: "db \<Rightarrow> uuid \<times> string \<times> string \<Rightarrow> request_dispatch_receipt option" where
  "stored_receipt db k = table_get receipt_key (t_receipts db) k"

text \<open>Completed receipts, and the rows they point to, stay.\<close>

definition receipts_kept :: "db \<Rightarrow> db \<Rightarrow> bool" where
  "receipts_kept db db' \<longleftrightarrow> (receipt_ids_ok db \<longrightarrow> receipt_ids_ok db'
     \<and> (\<forall>k r. stored_receipt db k = Some r \<longrightarrow> stored_receipt db' k = Some r))"

text \<open>Rows other rows refer to are never deleted.\<close>

definition parents_kept :: "db \<Rightarrow> db \<Rightarrow> bool" where
  "parents_kept db db' \<longleftrightarrow> pj_id ` set (t_projects db) \<subseteq> pj_id ` set (t_projects db')
     \<and> rq_id ` set (t_requests db) \<subseteq> rq_id ` set (t_requests db')
     \<and> rn_id ` set (t_runs db) \<subseteq> rn_id ` set (t_runs db')
     \<and> we_id ` set (t_executions db) \<subseteq> we_id ` set (t_executions db')"

lemma table_get_iff: "(\<exists>r. table_get key_of t k = Some r) \<longleftrightarrow> k \<in> key_of ` set t"
  by (induction t) (auto simp: table_get_def)

lemma parents_kept_gets:
  assumes "parents_kept db db'"
  shows "projects_get k db = Some p \<Longrightarrow> \<exists>p'. projects_get k db' = Some p'"
    "requests_get k db = Some q \<Longrightarrow> \<exists>q'. requests_get k db' = Some q'"
    "runs_get k db = Some r \<Longrightarrow> \<exists>r'. runs_get k db' = Some r'"
    "executions_get k db = Some ex \<Longrightarrow> \<exists>ex'. executions_get k db' = Some ex'"
  using assms unfolding parents_kept_def projects_get_def requests_get_def runs_get_def executions_get_def
    table_get_iff by (metis subset_iff table_get_iff)+

lemma parents_kept_trans: "parents_kept db db' \<Longrightarrow> parents_kept db' db'' \<Longrightarrow> parents_kept db db''"
  unfolding parents_kept_def by (elim conjE, intro conjI) (erule (1) subset_trans)+

lemma parents_kept_untouched:
  "keeps (\<lambda>db. (t_projects db, t_requests db, t_runs db, t_executions db)) m \<Longrightarrow> within parents_kept m"
  by (simp add: within_def parents_kept_def)

lemma put_keeps_keys: "key_of ` set (table_put key_of t r) = key_of ` set t"
proof -
  have "map key_of (table_put key_of t r) = map key_of t" by (simp add: table_put_def)
  then show ?thesis by (metis list.set_map)
qed

interpretation parents: table_frame parents_kept
proof (intro table_frame.intro budget_frame.intro budget_frame_axioms.intro table_frame_axioms.intro)
  show "step_frame parents_kept" by unfold_locales (simp add: parents_kept_def, rule parents_kept_trans)
  note defs = within_def parents_kept_def projects_add_def requests_add_def runs_add_def executions_add_def
  show "within parents_kept (projects_add pj)" "within parents_kept (requests_add q)"
    "within parents_kept (runs_add r)" "within parents_kept (executions_add ex)" for pj q r ex
    unfolding defs by auto
  show "within parents_kept (requests_save q)" for q
    unfolding requests_save_def defs by (auto simp del: image_subset_iff simp: put_keeps_keys split: option.splits)
  show "within parents_kept (runs_save r)" for r
    unfolding runs_save_def defs by (auto simp del: image_subset_iff simp: put_keeps_keys split: option.splits)
  show "within parents_kept (executions_save ex)" for ex
    unfolding executions_save_def defs by (auto simp del: image_subset_iff simp: put_keeps_keys split: option.splits)
qed (rule parents_kept_untouched, rule frame_rules, simp)+

text \<open>Only dispatching writes receipts.\<close>

definition receipts_still :: "db \<Rightarrow> db \<Rightarrow> bool" where
  "receipts_still db db' \<longleftrightarrow> t_receipts db' = t_receipts db \<and> t_next db \<le> t_next db'"

lemma receipts_stillI: "keeps t_receipts m \<Longrightarrow> grows m \<Longrightarrow> within receipts_still m"
  by (simp add: within_def receipts_still_def)

lemma receipts_still_frame: "step_frame receipts_still"
  by unfold_locales (auto simp: receipts_still_def)

interpretation still_budget: budget_frame receipts_still
  by (intro budget_frame.intro budget_frame_axioms.intro receipts_still_frame)
     (rule receipts_stillI; rule frame_rules; simp)+

interpretation still: write_frame receipts_still
proof (intro write_frame.intro write_frame_axioms.intro receipts_still_frame)
  show "within receipts_still (release_run_reservations rid reason now)" for rid reason now
    by (rule still_budget.release_within)
  show "budget_step db db' \<Longrightarrow> receipts_still db db'" for db db' by (rule still_budget.budget_step_within)
qed (rule receipts_stillI; rule frame_rules; simp)+

lemma still_kept: "receipts_still db db' \<Longrightarrow> receipts_kept db db'"
  by (auto simp: receipts_still_def receipts_kept_def receipt_ids_ok_def stored_receipt_def)

lemma receipts_kept_frame: "step_frame receipts_kept"
  by unfold_locales (auto simp: receipts_kept_def)

lemma still_within: "within receipts_still m \<Longrightarrow> within receipts_kept m"
  using still_kept by (auto simp: within_def)

interpretation kept: write_frame receipts_kept
  by (intro write_frame.intro write_frame_axioms.intro receipts_kept_frame)
     ((rule still_within, rule still.writes) | (rule still_kept, erule still.w_budget))+

section \<open>What a dispatch leaves\<close>

definition dispatch_key :: "dispatch_project_request \<Rightarrow> uuid \<times> string \<times> string" where
  "dispatch_key c = (dp_project_id c, py_strip (ro_ingress_key (dp_origin c)), py_strip (dp_idempotency_key c))"

definition dispatch_digest :: "(json \<Rightarrow> string) \<Rightarrow> dispatch_project_request \<Rightarrow> string" where
  "dispatch_digest sha_json c = (case normalize_skill_addons (dp_skill_addons c) of Inl _ \<Rightarrow> []
     | Inr addons \<Rightarrow> sha_json (payload_document (py_strip (dp_prompt c)) (strip_to_option (dp_title c))
         (dp_origin c) (strip_to_option (dp_definition_key c)) (dp_definition_version c) addons
         (dp_recommendation_id c)))"

definition names_result :: "request_dispatch_receipt \<Rightarrow> dispatched_request \<Rightarrow> bool" where
  "names_result rc r \<longleftrightarrow> dr_request_id rc = Some (rq_id (ds_request r)) \<and> dr_run_id rc = Some (rn_id (ds_run r))
     \<and> dr_workflow_execution_id rc = Some (we_id (ds_workflow r))"

text \<open>The request, the run and the execution of a result are stored.\<close>

definition result_stored :: "dispatched_request \<Rightarrow> db \<Rightarrow> bool" where
  "result_stored r db \<longleftrightarrow> rq_id (ds_request r) \<in> rq_id ` set (t_requests db)
     \<and> rn_id (ds_run r) \<in> rn_id ` set (t_runs db) \<and> we_id (ds_workflow r) \<in> we_id ` set (t_executions db)"

lemma create_execution_stored:
  assumes "create_execution run q project d source now db = Inr (ex, db')"
  shows "we_id ex \<in> we_id ` set (t_executions db')"
proof -
  from assms obtain db1 db2 t p u where
    ev: "execution_event ex t p now (db1\<lparr>t_executions := t_executions db1 @ [ex]\<rparr>) = Inr ((), db2)"
    and sy: "synchronize_execution_lifecycle ex now db2 = Inr (u, db')"
    by (auto simp: create_execution_def executions_add_def split: if_splits)
  have "t_executions db2 = t_executions db1 @ [ex]"
    using withinD[OF frame_execution_event[of t_executions] ev] by simp
  moreover have "t_executions db' = t_executions db2"
    using withinD[OF frame_synchronize[of t_executions] sy] by simp
  ultimately show ?thesis by simp
qed

lemma replay_spec:
  assumes "replay rc db = Inr (r, db')"
  shows "db' = db" "names_result rc r" "ds_replayed r" "result_stored r db"
proof -
  obtain i j k where ids: "dr_request_id rc = Some i" "dr_run_id rc = Some j" "dr_workflow_execution_id rc = Some k"
    using assms unfolding replay_def by (cases "dr_request_id rc"; cases "dr_run_id rc"; cases "dr_workflow_execution_id rc") simp_all
  have run: "(case (requests_get i db, runs_get j db, executions_get k db) of
      (Some q, Some run, Some ex) \<Rightarrow> sreturn \<lparr>ds_request = q, ds_run = run, ds_workflow = ex, ds_replayed = True\<rparr>
    | _ \<Rightarrow> sraise (ResourceConflict ''completed request dispatch result is unavailable'')) db = Inr (r, db')"
    using assms unfolding replay_def ids by (simp add: sbind_run)
  obtain q where q: "requests_get i db = Some q" using run by (cases "requests_get i db") simp_all
  obtain x where x: "runs_get j db = Some x" using run by (cases "runs_get j db") (simp_all add: q)
  obtain ex where ex: "executions_get k db = Some ex" using run by (cases "executions_get k db") (simp_all add: q x)
  note g = q x ex
  have r: "r = \<lparr>ds_request = q, ds_run = x, ds_workflow = ex, ds_replayed = True\<rparr>" "db' = db"
    using run by (simp_all add: g)
  have ks: "rq_id q = i" "rn_id x = j" "we_id ex = k"
    using requests_get_id[OF g(1)] runs_get_id[OF g(2)] stored_of_get[OF g(3)] by simp_all
  show "db' = db" "ds_replayed r" using r by simp_all
  show "names_result rc r" using ids ks r(1) by (simp add: names_result_def)
  have "i \<in> rq_id ` set (t_requests db)" "j \<in> rn_id ` set (t_runs db)" "k \<in> we_id ` set (t_executions db)"
    using g unfolding requests_get_def runs_get_def executions_get_def table_get_iff[symmetric] by blast+
  then show "result_stored r db" using ks r(1) by (simp add: result_stored_def)
qed

lemma replay_returns:
  assumes "names_result rc r" "result_stored r db"
  shows "\<exists>r'. replay rc db = Inr (r', db) \<and> names_result rc r' \<and> ds_replayed r'"
proof -
  from assms(2) obtain q run ex where
    g: "requests_get (rq_id (ds_request r)) db = Some q" "runs_get (rn_id (ds_run r)) db = Some run"
      "executions_get (we_id (ds_workflow r)) db = Some ex"
    unfolding result_stored_def requests_get_def runs_get_def executions_get_def
    by (metis table_get_iff)
  let ?r = "\<lparr>ds_request = q, ds_run = run, ds_workflow = ex, ds_replayed = True\<rparr>"
  have "replay rc db = Inr (?r, db)"
    using assms(1) g by (simp add: replay_def names_result_def sbind_run sreturn_def)
  from replay_spec[OF this] this show ?thesis by blast
qed

text \<open>The receipt a dispatch claims.\<close>

definition new_receipt ::
    "(json \<Rightarrow> string) \<Rightarrow> dispatch_project_request \<Rightarrow> uuid \<Rightarrow> time \<Rightarrow> request_dispatch_receipt" where
  "new_receipt sj c did now = \<lparr>dr_project_id = dp_project_id c,
     dr_idempotency_key = py_strip (dp_idempotency_key c), dr_payload_digest = dispatch_digest sj c,
     dr_ingress_key = py_strip (ro_ingress_key (dp_origin c)), dr_id = did, dr_request_id = None,
     dr_run_id = None, dr_workflow_execution_id = None, dr_created_at = now, dr_completed_at = None\<rparr>"

lemma new_receipt_simps [simp]:
  "receipt_key (new_receipt sj c did now) = dispatch_key c" "dr_id (new_receipt sj c did now) = did"
  "dr_payload_digest (new_receipt sj c did now) = dispatch_digest sj c"
  by (simp_all add: new_receipt_def receipt_key_def dispatch_key_def)

lemma claimed_receipt:
  "receipt_init \<lparr>dr_project_id = dp_project_id c, dr_idempotency_key = dp_idempotency_key c,
       dr_payload_digest = dispatch_digest sj c, dr_ingress_key = ro_ingress_key (dp_origin c), dr_id = did,
       dr_request_id = None, dr_run_id = None, dr_workflow_execution_id = None, dr_created_at = now,
       dr_completed_at = None\<rparr> = Inr rc \<Longrightarrow> rc = new_receipt sj c did now"
  by (auto simp: receipt_init_def new_receipt_def Let_def split: if_splits)

lemma dispatch_claimed_save:
  assumes "dispatch_claimed sha c override addons project (new_receipt sj c did now) now db = Inr (r, db')"
  shows "\<exists>db5 rc. t_receipts db5 = t_receipts db \<and> t_next db \<le> t_next db5 \<and> receipts_save rc db5 = Inr ((), db')
    \<and> names_result rc r \<and> dr_id rc = did \<and> result_stored r db5 \<and> \<not> ds_replayed r
    \<and> rc = (new_receipt sj c did now)\<lparr>dr_request_id := dr_request_id rc, dr_run_id := dr_run_id rc,
        dr_workflow_execution_id := dr_workflow_execution_id rc, dr_completed_at := dr_completed_at rc\<rparr>"
proof -
  from assms obtain d0 source d db0 db1 q db2 db3 db4 ex rc t p i db5 run q' where
    pre: "select_definition sha c override db = Inr ((d0, source), db0)"
      "apply_skill_addons d0 addons db0 = Inr (d, db1)"
      "new_active_request (pj_id project) (py_strip (dp_prompt c)) (strip_to_option (dp_title c))
        (Some (dp_origin c)) now db1 = Inr (q, db2)"
    and db3: "db3 = db2\<lparr>t_next := Suc (t_next db2), t_requests := t_requests db2 @ [q],
        t_runs := t_runs db2 @ [new_run (rq_id q) (t_next db2) now]\<rparr>"
    and e: "emit ''request'' i t p now db3 = Inr ((), db4)"
    and cr: "create_execution (new_run (rq_id q) (t_next db2) now) q project d source now db4 = Inr (ex, db5)"
    and got: "runs_get (t_next db2) db5 = Some run" "requests_get (rq_id q) db5 = Some q'"
    and rc: "receipt_complete (new_receipt sj c did now) (rq_id q') (rn_id run) (we_id ex)
        (Some (we_updated_at ex)) now = Inr rc"
    and sv: "receipts_save rc db5 = Inr ((), db')"
    and r: "r = \<lparr>ds_request = q', ds_run = run, ds_workflow = ex, ds_replayed = False\<rparr>"
    by (auto simp: dispatch_claimed_def requests_add_def runs_add_def run_init_new Let_def
        split: if_splits prod.splits)
  have "receipts_still db db2"
    using withinD[OF still.reads[OF select_definition_reads] pre(1)]
      withinD[OF still.reads[OF apply_skill_addons_reads] pre(2)] withinD[OF still.w_new_request pre(3)]
    by (auto simp: receipts_still_def)
  moreover have "receipts_still db3 db5"
    using withinD[OF still.w_emit e] withinD[OF still.w_create_execution cr]
    by (auto simp: receipts_still_def)
  ultimately have "t_receipts db5 = t_receipts db \<and> t_next db \<le> t_next db5"
    by (auto simp: receipts_still_def db3)
  moreover have "rc = (new_receipt sj c did now)\<lparr>dr_request_id := dr_request_id rc, dr_run_id := dr_run_id rc,
        dr_workflow_execution_id := dr_workflow_execution_id rc, dr_completed_at := dr_completed_at rc\<rparr>"
    and "names_result rc r" and "dr_id rc = did"
    using rc r by (auto simp: receipt_complete_def names_result_def split: if_splits)
  moreover have "rq_id q' \<in> rq_id ` set (t_requests db5)" "rn_id run \<in> rn_id ` set (t_runs db5)"
    using got by (auto simp: requests_get_def runs_get_def dest!: table_get_key)
  then have "result_stored r db5"
    using create_execution_stored[OF cr] r by (simp add: result_stored_def)
  ultimately show ?thesis using sv r by auto
qed

lemma receipt_save_claimed:
  assumes "receipts_save rc db5 = Inr ((), db')" "t_receipts db5 = rows @ [rc0]" "dr_id rc = dr_id rc0"
    "\<forall>r \<in> set rows. dr_id r < dr_id rc0"
    "rc = rc0\<lparr>dr_request_id := dr_request_id rc, dr_run_id := dr_run_id rc,
       dr_workflow_execution_id := dr_workflow_execution_id rc, dr_completed_at := dr_completed_at rc\<rparr>"
  shows "db' = db5\<lparr>t_receipts := rows @ [rc]\<rparr>"
proof -
  have none: "table_get dr_id rows (dr_id rc0) = None"
    using assms(4) by (auto simp: table_get_def find_None_iff)
  then have "table_get dr_id (t_receipts db5) (dr_id rc) = Some rc0"
    by (simp add: assms(2,3) table_get_append)
  moreover have "table_put dr_id (rows @ [rc0]) rc = rows @ [rc]"
    using assms(3,4) by (auto simp: table_put_def intro!: map_idI)
  ultimately show ?thesis
    using assms(1) assms(5)[symmetric] by (simp add: receipts_save_def assms(2))
qed

lemma dispatch_cases:
  assumes "dispatch sha sj c now db = Inr (r, db')" "receipt_ids_ok db"
  obtains (created) rc where "stored_receipt db (dispatch_key c) = None" "t_receipts db' = t_receipts db @ [rc]"
      "receipt_key rc = dispatch_key c" "dr_payload_digest rc = dispatch_digest sj c" "names_result rc r"
      "dr_id rc < t_next db'" "t_next db \<le> t_next db'" "result_stored r db'" "\<not> ds_replayed r"
    | (replayed) rc where "stored_receipt db (dispatch_key c) = Some rc"
      "dr_payload_digest rc = dispatch_digest sj c" "names_result rc r"
      "db' = db\<lparr>t_next := Suc (t_next db)\<rparr>" "result_stored r db" "ds_replayed r"
proof -
  let ?db = "db\<lparr>t_next := Suc (t_next db)\<rparr>" and ?rc = "new_receipt sj c (t_next db) now"
  from assms(1) obtain override addons project claimed db1 where
    n: "normalize_skill_addons (dp_skill_addons c) = Inr addons"
    and tc: "receipts_try_claim ?rc ?db = Inr (claimed, db1)"
    and br: "(if claimed then dispatch_claimed sha c override addons project ?rc now
       else sbind (sneed (RuntimeError ''claimed dispatch receipt could not be loaded'')
           (receipts_get (dp_project_id c) (dr_ingress_key ?rc) (dr_idempotency_key ?rc))) (\<lambda>existing.
           if dr_payload_digest existing \<noteq> dr_payload_digest ?rc
           then sraise (ResourceConflict ''idempotency key was already used with a different request payload'')
           else replay existing)) db1 = Inr (r, db')"
  proof -
    from assms(1) obtain override addons project rc claimed db1 where
      *: "normalize_skill_addons (dp_skill_addons c) = Inr addons"
      "receipt_init \<lparr>dr_project_id = dp_project_id c, dr_idempotency_key = dp_idempotency_key c,
         dr_payload_digest = sj (payload_document (py_strip (dp_prompt c)) (strip_to_option (dp_title c))
           (dp_origin c) (strip_to_option (dp_definition_key c)) (dp_definition_version c) addons
           (dp_recommendation_id c)), dr_ingress_key = ro_ingress_key (dp_origin c), dr_id = t_next db,
         dr_request_id = None, dr_run_id = None, dr_workflow_execution_id = None, dr_created_at = now,
         dr_completed_at = None\<rparr> = Inr rc"
      "receipts_try_claim rc ?db = Inr (claimed, db1)"
      "(if claimed then dispatch_claimed sha c override addons project rc now
       else sbind (sneed (RuntimeError ''claimed dispatch receipt could not be loaded'')
           (receipts_get (dp_project_id c) (dr_ingress_key rc) (dr_idempotency_key rc))) (\<lambda>existing.
           if dr_payload_digest existing \<noteq> dr_payload_digest rc
           then sraise (ResourceConflict ''idempotency key was already used with a different request payload'')
           else replay existing)) db1 = Inr (r, db')"
      unfolding dispatch_def by (elim sbind_InrE) simp
    have "rc = ?rc" by (rule claimed_receipt) (use *(1,2) in \<open>simp add: dispatch_digest_def\<close>)
    with * that show thesis by blast
  qed
  show thesis
  proof (cases claimed)
    case True
    then have none: "stored_receipt db (dispatch_key c) = None"
      using tc by (simp add: receipts_try_claim_def stored_receipt_def split: if_splits)
    have db1: "db1 = ?db\<lparr>t_receipts := t_receipts db @ [?rc]\<rparr>"
      using tc True by (auto simp: receipts_try_claim_def new_receipt_def split: if_splits)
    from br True dispatch_claimed_save obtain db5 rc where
      s: "t_receipts db5 = t_receipts db @ [?rc]" "t_next db1 \<le> t_next db5" "receipts_save rc db5 = Inr ((), db')"
      "names_result rc r" "dr_id rc = dr_id ?rc" "result_stored r db5" "\<not> ds_replayed r"
      and eq: "rc = ?rc\<lparr>dr_request_id := dr_request_id rc, dr_run_id := dr_run_id rc,
        dr_workflow_execution_id := dr_workflow_execution_id rc, dr_completed_at := dr_completed_at rc\<rparr>"
      by (fastforce simp: db1)
    have db': "db' = db5\<lparr>t_receipts := t_receipts db @ [rc]\<rparr>"
      by (rule receipt_save_claimed[OF s(3,1,5) _ eq]) (use assms(2) in \<open>simp add: receipt_ids_ok_def\<close>)
    have key: "receipt_key rc = dispatch_key c" "dr_payload_digest rc = dispatch_digest sj c"
      by (subst eq, simp add: receipt_key_def new_receipt_def dispatch_key_def)+
    show thesis
      by (rule created[OF none _ key s(4) _ _ _ s(7)]) (use s db' db1 in \<open>auto simp: result_stored_def\<close>)
  next
    case False
    then have db1: "db1 = ?db" using tc by (auto simp: receipts_try_claim_def split: if_splits)
    from br False obtain rc where rc: "stored_receipt db (dispatch_key c) = Some rc"
      "dr_payload_digest rc = dispatch_digest sj c" "replay rc ?db = Inr (r, db')"
      by (auto simp: db1 receipts_get_def stored_receipt_def dispatch_key_def new_receipt_def split: if_splits)
    from replay_spec[OF rc(3)] show thesis
      by (intro replayed[OF rc(1,2)]) (auto simp: result_stored_def)
  qed
qed

lemma dispatch_kept: "within receipts_kept (dispatch sha sj c now)"
proof (rule withinI)
  fix db r db' assume d: "dispatch sha sj c now db = Inr (r, db')"
  { assume ok: "receipt_ids_ok db"
    from d ok have "receipt_ids_ok db' \<and> (\<forall>k r. stored_receipt db k = Some r \<longrightarrow> stored_receipt db' k = Some r)"
    proof (cases rule: dispatch_cases)
      case (created rc)
      then show ?thesis
        using ok by (auto simp: receipt_ids_ok_def stored_receipt_def table_get_append)
    next
      case replayed
      then show ?thesis using ok by (auto simp: receipt_ids_ok_def stored_receipt_def)
    qed }
  then show "receipts_kept db db'" by (simp add: receipts_kept_def)
qed

lemma steps_kept: "service_step\<^sup>*\<^sup>* db db' \<Longrightarrow> receipts_kept db db'"
  by (erule kept.steps_but_dispatch) (rule dispatch_kept)

text \<open>A successful dispatch leaves a receipt that names its result, and the result is stored.\<close>

definition recorded :: "(json \<Rightarrow> string) \<Rightarrow> dispatch_project_request \<Rightarrow> dispatched_request \<Rightarrow> db \<Rightarrow> bool" where
  "recorded sj c r db \<longleftrightarrow> receipt_ids_ok db \<and> result_stored r db \<and> (\<exists>rc. stored_receipt db (dispatch_key c) = Some rc
     \<and> dr_payload_digest rc = dispatch_digest sj c \<and> names_result rc r)"

lemma dispatch_recorded:
  assumes "dispatch sha sj c now db = Inr (r, db')" "receipt_ids_ok db"
  shows "recorded sj c r db'"
proof -
  have "receipt_ids_ok db'"
    using withinD[OF dispatch_kept assms(1)] assms(2) by (simp add: receipts_kept_def)
  with assms show ?thesis
    by (cases rule: dispatch_cases)
       (auto simp: recorded_def stored_receipt_def table_get_append result_stored_def)
qed

lemma recorded_later:
  assumes "recorded sj c r db" "service_step\<^sup>*\<^sup>* db db'"
  shows "recorded sj c r db'"
proof -
  have "receipts_kept db db'" "parents_kept db db'" using assms(2) by (rule steps_kept, rule parents.steps_within)
  note kept = this
  have "result_stored r db'"
    using assms(1) kept(2) unfolding recorded_def parents_kept_def result_stored_def
    by (elim conjE, intro conjI) (erule (1) subsetD)+
  then show ?thesis using assms(1) kept(1) unfolding recorded_def receipts_kept_def by blast
qed

lemma dispatch_after_record:
  assumes "recorded sj c r db" "dispatch_key c' = dispatch_key c" "dispatch sha sj c' now db = Inr (r', db')"
  shows "dispatch_digest sj c' = dispatch_digest sj c" "ds_replayed r'" "db' = db\<lparr>t_next := Suc (t_next db)\<rparr>"
    "rq_id (ds_request r') = rq_id (ds_request r)" "rn_id (ds_run r') = rn_id (ds_run r)"
    "we_id (ds_workflow r') = we_id (ds_workflow r)"
proof -
  from assms(1) obtain rc where rc: "stored_receipt db (dispatch_key c) = Some rc"
    "dr_payload_digest rc = dispatch_digest sj c" "names_result rc r" and ok: "receipt_ids_ok db"
    by (auto simp: recorded_def)
  from assms(3) ok show "dispatch_digest sj c' = dispatch_digest sj c" "ds_replayed r'"
    "db' = db\<lparr>t_next := Suc (t_next db)\<rparr>" "rq_id (ds_request r') = rq_id (ds_request r)"
    "rn_id (ds_run r') = rn_id (ds_run r)" "we_id (ds_workflow r') = we_id (ds_workflow r)"
    by (cases rule: dispatch_cases; use rc assms(2) in \<open>simp add: names_result_def\<close>)+
qed

lemma receipt_init_again:
  assumes "receipt_init rc = Inr rc'"
  shows "receipt_init (rc\<lparr>dr_id := i, dr_created_at := at\<rparr>) = Inr (rc'\<lparr>dr_id := i, dr_created_at := at\<rparr>)"
  using assms by (auto simp: receipt_init_def receipt_is_complete_def Let_def split: if_splits)

lemma dispatch_accepted:
  assumes "dispatch sha sj c now db = Inr (r, db')"
  obtains override addons where "definition_override c = Inr override"
    "normalize_skill_addons (dp_skill_addons c) = Inr addons"
    "projects_get (dp_project_id c) db \<noteq> None"
    "\<And>i at. receipt_init \<lparr>dr_project_id = dp_project_id c, dr_idempotency_key = dp_idempotency_key c,
       dr_payload_digest = dispatch_digest sj c, dr_ingress_key = ro_ingress_key (dp_origin c), dr_id = i,
       dr_request_id = None, dr_run_id = None, dr_workflow_execution_id = None, dr_created_at = at,
       dr_completed_at = None\<rparr> = Inr (new_receipt sj c i at)"
proof -
  from assms obtain override addons project rc where
    p: "definition_override c = Inr override" "normalize_skill_addons (dp_skill_addons c) = Inr addons"
    "projects_get (dp_project_id c) db = Some project"
    and rc: "receipt_init \<lparr>dr_project_id = dp_project_id c, dr_idempotency_key = dp_idempotency_key c,
         dr_payload_digest = sj (payload_document (py_strip (dp_prompt c)) (strip_to_option (dp_title c))
           (dp_origin c) (strip_to_option (dp_definition_key c)) (dp_definition_version c) addons
           (dp_recommendation_id c)), dr_ingress_key = ro_ingress_key (dp_origin c), dr_id = t_next db,
         dr_request_id = None, dr_run_id = None, dr_workflow_execution_id = None, dr_created_at = now,
         dr_completed_at = None\<rparr> = Inr rc"
    unfolding dispatch_def by (elim sbind_InrE) simp
  have "receipt_init \<lparr>dr_project_id = dp_project_id c, dr_idempotency_key = dp_idempotency_key c,
       dr_payload_digest = dispatch_digest sj c, dr_ingress_key = ro_ingress_key (dp_origin c), dr_id = i,
       dr_request_id = None, dr_run_id = None, dr_workflow_execution_id = None, dr_created_at = at,
       dr_completed_at = None\<rparr> = Inr (new_receipt sj c i at)" for i at
  proof -
    from receipt_init_again[OF rc, where i = i and at = at] p(2) have *: "receipt_init \<lparr>dr_project_id = dp_project_id c,
       dr_idempotency_key = dp_idempotency_key c, dr_payload_digest = dispatch_digest sj c,
       dr_ingress_key = ro_ingress_key (dp_origin c), dr_id = i, dr_request_id = None, dr_run_id = None,
       dr_workflow_execution_id = None, dr_created_at = at, dr_completed_at = None\<rparr>
         = Inr (rc\<lparr>dr_id := i, dr_created_at := at\<rparr>)" by (simp add: dispatch_digest_def)
    then show ?thesis using claimed_receipt[OF *] by simp
  qed
  with p that show thesis by blast
qed

lemma dispatch_again:
  assumes "dispatch sha sj c now0 db0 = Inr (r, db1)" "recorded sj c r db" "parents_kept db0 db"
  shows "\<exists>r'. dispatch sha' sj c now db = Inr (r', db\<lparr>t_next := Suc (t_next db)\<rparr>)"
proof -
  from dispatch_accepted[OF assms(1)] obtain override addons where
    a: "definition_override c = Inr override" "normalize_skill_addons (dp_skill_addons c) = Inr addons"
    "projects_get (dp_project_id c) db0 \<noteq> None"
    and init: "receipt_init \<lparr>dr_project_id = dp_project_id c, dr_idempotency_key = dp_idempotency_key c,
       dr_payload_digest = dispatch_digest sj c, dr_ingress_key = ro_ingress_key (dp_origin c), dr_id = t_next db,
       dr_request_id = None, dr_run_id = None, dr_workflow_execution_id = None, dr_created_at = now,
       dr_completed_at = None\<rparr> = Inr (new_receipt sj c (t_next db) now)" by metis
  from a(3) parents_kept_gets(1)[OF assms(3)] obtain project where p: "projects_get (dp_project_id c) db = Some project"
    by blast
  from assms(2) obtain rc where rc: "stored_receipt db (dispatch_key c) = Some rc"
    "dr_payload_digest rc = dispatch_digest sj c" "names_result rc r" "result_stored r db"
    by (auto simp: recorded_def)
  let ?db = "db\<lparr>t_next := Suc (t_next db)\<rparr>"
  have "result_stored r ?db" using rc(4) by (simp add: result_stored_def)
  from replay_returns[OF rc(3) this] obtain r' where r': "replay rc ?db = Inr (r', ?db)" by blast
  have tc: "receipts_try_claim (new_receipt sj c (t_next db) now) ?db = Inr (False, ?db)"
    using rc(1) by (simp add: receipts_try_claim_def stored_receipt_def)
  have got: "receipts_get (dp_project_id c) (dr_ingress_key (new_receipt sj c (t_next db) now))
      (dr_idempotency_key (new_receipt sj c (t_next db) now)) ?db = Some rc"
    using rc(1) by (simp add: receipts_get_def stored_receipt_def dispatch_key_def new_receipt_def)
  have needs: "sneed e (projects_get (dp_project_id c)) db = Inr (project, db)"
    "sneed e (receipts_get (dp_project_id c) (dr_ingress_key (new_receipt sj c (t_next db) now))
      (dr_idempotency_key (new_receipt sj c (t_next db) now))) ?db = Inr (rc, ?db)" for e
    by (simp_all add: sneed_def p got)
  have digest: "dispatch_digest sj c = sj (payload_document (py_strip (dp_prompt c)) (strip_to_option (dp_title c))
      (dp_origin c) (strip_to_option (dp_definition_key c)) (dp_definition_version c) addons (dp_recommendation_id c))"
    by (simp add: dispatch_digest_def a(2))
  have "dispatch sha' sj c now db = Inr (r', ?db)"
    unfolding dispatch_def a(1,2) sbind_run
    by (simp add: sbind_apply needs init[unfolded digest] tc rc(2) r' slift_def uuid4_def)
  then show ?thesis by blast
qed

end
