(* ===== verification/Service_Liveness.thy ===== *)
theory Service_Liveness
  imports Dispatch_Once
begin

text \<open>
  Transitions of stored executions can always be committed: the parents accept every status the engine
  can move to, so a worker that holds its lease can deliver its result and an expired lease can be
  recovered.
\<close>

section \<open>Failure reasons\<close>

definition reason_ok :: "workflow_execution \<Rightarrow> bool" where
  "reason_ok ex \<longleftrightarrow> (we_status ex = WFailed \<longrightarrow> (\<exists>r. we_failure_reason ex = Some r \<and> \<not> blank r))"

lemma reason_ok_running: "\<not> is_terminal ex \<Longrightarrow> reason_ok ex"
  by (auto simp: reason_ok_def workflow_terminal_def)

lemma micro_step_reason: "micro_step at ex ex' \<Longrightarrow> reason_ok ex'"
proof (induction rule: micro_step.induct)
  case (ms_terminal ex key n d)
  then show ?case using failure_reasons_nonblank(3)[of key]
    by (auto simp: reason_ok_def engine_update_defs Let_def simp del: append_Cons)
qed (auto simp: reason_ok_def engine_update_defs workflow_terminal_def)

lemma cascade_reason: "cascade at ex ex' \<Longrightarrow> reason_ok ex \<Longrightarrow> reason_ok ex'"
  by (induction rule: rtranclp_induct) (auto dest: micro_step_reason)

lemma handle_task_failure_reason:
  assumes "handle_task_failure ex key n reason t = Inr ex'" "\<not> is_terminal ex"
  shows "reason_ok ex' \<and> we_status ex' \<in> {we_status ex, WFailed}"
proof -
  have "\<not> blank ''task execution failed''" by code_simp
  then have "\<not> blank (if blank reason then ''task execution failed'' else py_strip reason)" by simp
  then show ?thesis using assms
    by (auto simp: handle_task_failure_def reason_ok_def touch_def put_node_def workflow_terminal_def split: if_splits)
qed

lemma put_status: "we_status (touch (put_node ex key n) t) = we_status ex"
  "we_status (put_node (touch ex t) key n) = we_status ex"
  by (simp_all add: touch_def put_node_def)

text \<open>What a transition leaves behind, in the status and the reason of a failure.\<close>

lemma cascade_commits:
  assumes "cascade at ex1 ex'" "exec_inv ex1 \<and> \<not> is_terminal ex1 \<and> we_status ex1 \<noteq> WPending"
  shows "reason_ok ex' \<and> we_status ex' \<noteq> WPending"
  using assms cascade_reason cascade_inv reason_ok_running by blast

lemma progress_step_commits:
  assumes "progress_step ex ex'" "exec_inv ex"
  shows "reason_ok ex' \<and> we_status ex' \<noteq> WPending \<and> \<not> is_terminal ex"
  using assms(1)
proof (cases rule: progress_step.cases)
  case (es_start at now)
  define t where "t = at_or_now at now"
  define ex1 where "ex1 = touch (ex\<lparr>we_status := WRunning, we_started_at := Some t\<rparr>) t"
  have pend: "we_status ex = WPending" and act: "activate ex1 (ws_entry_node (we_snapshot ex)) t = Inr ex'"
    using es_start by (auto simp: start_def t_def ex1_def Let_def split: if_splits)
  have inv: "exec_inv ex1 \<and> \<not> is_terminal ex1 \<and> we_status ex1 \<noteq> WPending"
    using assms(2) pend
    by (auto simp: ex1_def touch_def exec_inv_def nodes_ok_def status_ok_def workflow_terminal_def)
  from cascade_commits[OF cascade_decomposition(1)[OF _ act] inv] inv pend show ?thesis
    by (simp add: workflow_terminal_def)
next
  case (es_begin key at now)
  then show ?thesis
    by (elim begin_taskD) (use active_not_terminal[OF assms(2)] reason_ok_running in
      \<open>auto simp: put_status active_def\<close>)
next
  case (es_claim key w secs tok fresh at now)
  then show ?thesis
    by (elim claim_taskD) (use active_not_terminal[OF assms(2)] reason_ok_running in
      \<open>auto simp: put_status active_def\<close>)
next
  case (es_complete key outc outp tok at now)
  then obtain n t where n: "we_nodes ex key = Some n" "ne_status n = NRunning"
    and r: "route (touch (put_node ex key (completed n outc outp t)) t) key outc outp t = Inr ex'"
    by (elim complete_taskD) blast
  note inv = completed_inv[OF assms(2) n, of outc outp t]
  from cascade_commits[OF cascade_decomposition(2)[OF _ r] inv] inv active_not_terminal(1)[OF assms(2) n(1)] n(2)
  show ?thesis by (simp add: active_def)
next
  case (es_fail key reason tok at now)
  then obtain n t where n: "we_nodes ex key = Some n" "ne_status n = NRunning"
    and h: "handle_task_failure ex key n reason t = Inr ex'" by (elim fail_taskD) blast
  have "\<not> is_terminal ex" "we_status ex \<noteq> WPending" using active_not_terminal[OF assms(2) n(1)] n(2) by (auto simp: active_def)
  with handle_task_failure_reason[OF h] show ?thesis by auto
next
  case (es_expire key at now)
  then obtain n t where n: "we_nodes ex key = Some n" "ne_status n = NRunning"
    and h: "handle_task_failure ex key n ''task lease expired'' t = Inr ex'" by (elim expire_taskD) blast
  have "\<not> is_terminal ex" "we_status ex \<noteq> WPending" using active_not_terminal[OF assms(2) n(1)] n(2) by (auto simp: active_def)
  with handle_task_failure_reason[OF h] show ?thesis by auto
next
  case (es_resolve key approved at now)
  then obtain n t outc ex1 where n: "we_nodes ex key = Some n" "ne_status n = NAwaitingApproval"
    and ex1: "ex1 = touch ((put_node ex key (n\<lparr>ne_status := NSucceeded, ne_outcome := Some outc,
       ne_completed_at := Some t, ne_updated_at := t\<rparr>))\<lparr>we_status := WRunning\<rparr>) t"
    and r: "route ex1 key outc None t = Inr ex'" by (elim resolve_approvalD) blast
  note inv = resolved_inv[OF assms(2) n ex1]
  from cascade_commits[OF cascade_decomposition(2)[OF _ r] inv] inv active_not_terminal(1)[OF assms(2) n(1)] n(2)
  show ?thesis by (simp add: active_def)
next
  case (es_cancel at now)
  then show ?thesis by (elim cancelD) (auto simp: reason_ok_def touch_def)
qed

section \<open>Operations that cannot fail\<close>

definition returns :: "'a svc \<Rightarrow> bool" where
  "returns m \<longleftrightarrow> (\<forall>db. \<exists>x db'. m db = Inr (x, db'))"

lemma returnsE:
  assumes "returns m"
  obtains x db' where "m db = Inr (x, db')"
  using assms unfolding returns_def by metis

lemma returns_sbind: "returns m \<Longrightarrow> (\<And>x. returns (f x)) \<Longrightarrow> returns (sbind m f)"
  unfolding returns_def by (metis sbind_Inr)

lemma returns_basic:
  "returns (sreturn x)" "returns (slift (Inr x))" "returns uuid4" "returns (emit a i t p now)" "returns (supdate u)"
  by (simp_all add: returns_def emit_def events_append_def sbind_Inr)

lemma returns_saves:
  "returns (runs_save r)" "returns (requests_save q)" "returns (executions_save ex)" "returns (artifacts_add a)"
  unfolding returns_def runs_save_def requests_save_def executions_save_def artifacts_add_def runs_add_def
    requests_add_def executions_add_def by (auto split: option.split)

lemmas returns_rules = returns_sbind returns_basic returns_saves

lemma returns_if: "(c \<Longrightarrow> returns m) \<Longrightarrow> (\<not> c \<Longrightarrow> returns m') \<Longrightarrow> returns (if c then m else m')"
  by simp

section \<open>The parents accept every transition\<close>

lemma allowed_mirror:
  assumes "\<not> is_terminal ex0" "we_status ex \<noteq> WPending"
  shows "run_status_by_workflow (we_status ex) = run_status_by_workflow (we_status ex0)
    \<or> run_status_by_workflow (we_status ex) \<in> set (allowed_run_transitions (run_status_by_workflow (we_status ex0)))"
  using assms by (cases "we_status ex0"; cases "we_status ex") (auto simp: workflow_terminal_def)

lemma move_run_returns:
  assumes "run_status_by_workflow (we_status ex) \<in> set (allowed_run_transitions (rn_status r))" "reason_ok ex"
  shows "\<exists>r'. move_run ex r now = Inr r'"
proof (cases "run_status_by_workflow (we_status ex) = RFailed")
  case True
  then have "we_status ex = WFailed" by (cases "we_status ex") simp_all
  then obtain reason where "we_failure_reason ex = Some reason" "\<not> blank reason"
    using assms(2) by (auto simp: reason_ok_def)
  moreover from this have "reason \<noteq> []" by auto
  ultimately show ?thesis
    using assms(1) True run_lifecycle.move_allowed[of RFailed r "Some (we_updated_at ex)" now]
    by (auto simp: move_run_def or_default_def run_fail_def blank_def)
next
  case False
  then show ?thesis
    using run_lifecycle.move_allowed[OF assms(1), of "Some (we_updated_at ex)" now] by (auto simp: move_run_def Let_def)
qed

lemma sync_run_returns:
  assumes "rn_status r = run_status_by_workflow (we_status ex0)" "\<not> is_terminal ex0"
    "we_status ex \<noteq> WPending" "reason_ok ex"
  shows "returns (sync_run ex r now)"
proof (cases "rn_status r = run_status_by_workflow (we_status ex)")
  case False
  then obtain r' where r': "move_run ex r now = Inr r'"
    using move_run_returns[of ex r now] allowed_mirror[OF assms(2,3)] assms(1,4) by auto
  show ?thesis unfolding sync_run_def r' by (intro returns_if returns_rules)
qed (simp add: sync_run_def returns_rules)

lemma sync_request_returns: "returns (sync_request ex r q now)"
  unfolding sync_request_def finish_request_def
  by (auto intro!: returns_rules returns_if simp: request_complete_def request_cancel_def request_set_status_def)

lemma synchronize_returns:
  assumes "paired db ex0" "run_of ex = run_of ex0" "\<not> is_terminal ex0" "we_status ex \<noteq> WPending" "reason_ok ex"
  shows "\<exists>db'. synchronize_execution_lifecycle ex now db = Inr ((), db')"
proof -
  from assms(1) obtain r q where g: "runs_get (run_of ex) db = Some r" "requests_get (rn_request_id r) db = Some q"
    "rn_status r = run_status_by_workflow (we_status ex0)"
    by (auto simp: paired_def assms(2))
  have "returns (sbind (sync_run ex r now) (\<lambda>_. sync_request ex r q now))"
    by (intro returns_sbind sync_request_returns sync_run_returns[OF g(3) assms(3-5)])
  then obtain u db' where s: "sbind (sync_run ex r now) (\<lambda>_. sync_request ex r q now) db = Inr (u, db')"
    by (rule returnsE)
  show ?thesis
  proof (cases "ws_request_context (we_snapshot ex)")
    case None
    then show ?thesis by (simp add: synchronize_execution_lifecycle_def)
  next
    case (Some c)
    then have "synchronize_execution_lifecycle ex now db = Inr (u, db')"
      using s by (simp add: synchronize_execution_lifecycle_def sbind_apply sneed_def g)
    then show ?thesis by simp
  qed
qed

lemma paired_cong:
  "paired db ex \<Longrightarrow> t_runs db' = t_runs db \<Longrightarrow> t_requests db' = t_requests db \<Longrightarrow> paired db' ex"
  by (simp add: paired_def runs_get_def requests_get_def)

lemma save_transition_returns:
  assumes "system_ok db" "ex0 \<in> set (t_executions db)" "progress_step ex0 ex"
  shows "\<exists>db'. save_transition ex t p now db = Inr (ex, db')"
proof -
  have so: "stored_ok ex0" and pr: "paired db ex0" using assms(1,2) by (auto simp: system_ok_def system_core_def)
  note c = progress_step_commits[OF assms(3) stored_inv[OF so]]
  note snap = stored_step(3)[OF so es_progress[OF assms(3)]]
  obtain u db1 where s: "executions_save ex db = Inr (u, db1)" using returns_saves(3) by (rule returnsE)
  obtain v db2 where e: "execution_event ex t p now db1 = Inr (v, db2)"
    unfolding execution_event_def using returns_basic(4) by (rule returnsE)
  have "t_runs db2 = t_runs db" "t_requests db2 = t_requests db"
    using withinD[OF keeps_executions_save s, of t_runs] withinD[OF keeps_executions_save s, of t_requests]
      withinD[OF frame_execution_event e, of t_runs] withinD[OF frame_execution_event e, of t_requests] by simp_all
  from synchronize_returns[OF paired_cong[OF pr this], of ex now] c snap obtain db' where
    "synchronize_execution_lifecycle ex now db2 = Inr ((), db')" by auto
  then have "save_transition ex t p now db = Inr (ex, db')"
    by (simp add: save_transition_def sbind_apply s e sreturn_def)
  then show ?thesis by blast
qed

section \<open>Lease recovery\<close>

lemma handle_task_failure_returns:
  assumes "exec_inv ex" "we_nodes ex key = Some n"
  shows "\<exists>ex'. handle_task_failure ex key n reason t = Inr ex'"
proof -
  from exec_inv_node[OF assms] obtain d where "find_node (ws_nodes (we_snapshot ex)) key = Some d" "ne_node_key n = key"
    by (auto simp: node_ok_def)
  then show ?thesis by (auto simp: handle_task_failure_def snapshot_node_Inr[symmetric])
qed

lemma node_row:
  assumes "exec_inv ex" "n \<in> set (node_rows ex)"
  shows "we_nodes ex (ne_node_key n) = Some n"
proof -
  from assms(2) obtain d :: node_definition where d: "we_nodes ex (nd_key d) = Some n"
    by (auto simp: node_rows_def List.map_filter_def)
  obtain d' where "node_ok (nd_key d) d' n" using exec_inv_node[OF assms(1) d] .
  then have "ne_node_key n = nd_key d" by (simp add: node_ok_def)
  then show ?thesis using d by simp
qed

lemma expired_candidate:
  assumes "get_expired_for_update t db = Some (ex, key)" "system_ok db"
  obtains n e where "ex \<in> set (t_executions db)" "we_nodes ex key = Some n" "ne_status n = NRunning"
    "ne_lease_expires_at n = Some e" "e \<le> t"
proof -
  from assms(1) obtain n where n: "(ex, n) \<in> set (node_join (\<lambda>ex n. ne_status n = NRunning \<and> lease_due t n
      \<and> we_status ex = WRunning) db)" "key = ne_node_key n"
    by (auto simp: get_expired_for_update_def dest!: first_row_member)
  then have m: "ex \<in> set (t_executions db)" "n \<in> set (node_rows ex)" "ne_status n = NRunning" "lease_due t n"
    by (auto simp: node_join_def)
  have "exec_inv ex" using assms(2) m(1) stored_inv by (auto simp: system_ok_def system_core_def)
  from node_row[OF this m(2)] m n(2) that show thesis by (auto simp: lease_due_def split: option.splits)
qed

lemma first_row_some:
  assumes "xs \<noteq> []"
  shows "\<exists>x. first_row f xs = Some x"
proof (cases "sort_key f xs")
  case Nil
  have "length (sort_key f xs) = length xs" by (rule length_sort)
  with Nil assms show ?thesis by simp
qed (simp add: first_row_def)

lemma expired_found:
  assumes "ex \<in> set (t_executions db)" "we_status ex = WRunning" "we_nodes ex key = Some n" "exec_inv ex"
    "ne_status n = NRunning" "ne_lease_expires_at n = Some e" "e \<le> t"
  shows "\<exists>c. get_expired_for_update t db = Some c"
proof -
  let ?rows = "node_join (\<lambda>ex n. ne_status n = NRunning \<and> lease_due t n \<and> we_status ex = WRunning) db"
  obtain d where "find_node (ws_nodes (we_snapshot ex)) key = Some d"
    using exec_inv_node[OF assms(4,3)] by blast
  then have "d \<in> set (ws_nodes (we_snapshot ex))" "nd_key d = key" using find_node_SomeD by fastforce+
  then have "n \<in> set (node_rows ex)" using assms(3) by (force simp: node_rows_def List.map_filter_def)
  then have "(ex, n) \<in> set ?rows" using assms by (auto simp: node_join_def lease_due_def intro!: bexI[of _ ex])
  then have "?rows \<noteq> []" by auto
  from first_row_some[OF this] show ?thesis by (auto simp: get_expired_for_update_def)
qed

lemma recover_expired_returns:
  assumes "system_ok db" "get_expired_for_update t db = Some (ex, key)"
  shows "\<exists>db'. recover_expired (Some t) now db = Inr (True, db')"
proof -
  from expired_candidate[OF assms(2,1)] obtain n e where n: "ex \<in> set (t_executions db)" "we_nodes ex key = Some n"
    "ne_status n = NRunning" "ne_lease_expires_at n = Some e" "e \<le> t" by metis
  have inv: "exec_inv ex" using assms(1) n(1) stored_inv by (auto simp: system_ok_def system_core_def)
  from handle_task_failure_returns[OF inv n(2)] obtain ex' where
    "handle_task_failure ex key n ''task lease expired'' t = Inr ex'" by blast
  then have x: "expire_task ex key (Some t) now = Inr ex'"
    using n by (simp add: expire_task_def node_execution_of_def at_or_now_def)
  from save_transition_returns[OF assms(1) n(1) es_expire[OF x], of "''task.lease_expired''"
      "[(''node_key'', JStr key), (''worker_id'', json_opt (ne_worker_id n))]" now]
  show ?thesis using assms(2) n(2)
    by (auto simp: recover_expired_def sbind_apply gets_def slift_def x at_or_now_def sreturn_def of_option_def)
qed

section \<open>Delivering a result\<close>

lemma pinned_phase_pack_returns:
  assumes "stored_ok ex" "find_node (ws_nodes (we_snapshot ex)) key = Some d"
  shows "\<exists>p. pinned_phase_pack ex d = Inr p"
proof (cases "nd_phase_pack d")
  case (Some r)
  have "d \<in> set (ws_nodes (we_snapshot ex))" using find_node_SomeD[OF assms(2)] by simp
  then have "r \<in> set (node_phase_packs (ws_nodes (we_snapshot ex)))"
    using Some by (force simp: node_phase_packs_def List.map_filter_def)
  then have "r \<in> set (map phase_pack_ref (ws_phase_packs (we_snapshot ex)))"
    using assms(1) by (simp add: stored_ok_def workflow_snapshot_init_def split: if_splits)
  then obtain x where "x \<in> set (ws_phase_packs (we_snapshot ex))" "phase_pack_ref x = r" by auto
  then obtain p where "snapshot_phase_pack (we_snapshot ex) r = Inr p"
    by (cases "find (\<lambda>p. phase_pack_ref p = r) (ws_phase_packs (we_snapshot ex))")
       (auto simp: snapshot_phase_pack_def next_or_stop_def find_None_iff)
  then show ?thesis using Some by (simp add: pinned_phase_pack_def)
qed (simp add: pinned_phase_pack_def)

lemma stored_key_nonblank:
  assumes "stored_ok ex" "find_node (ws_nodes (we_snapshot ex)) key = Some d"
  shows "\<not> blank key"
proof -
  have "node_definition_init d = Inr d" "nd_key d = key"
    using assms find_node_SomeD[OF assms(2)] by (auto simp: stored_ok_def accepted_snapshot_def list_all_iff)
  then show ?thesis by (auto simp: node_definition_init_def blank_def split: if_splits)
qed

lemma dispatch_complete_returns:
  assumes "system_ok db" "ex0 \<in> set (t_executions db)" "we_id ex0 = tc_execution_id claim"
    "we_nodes ex0 (tc_node_key claim) = Some n" "ne_status n = NRunning"
    "ne_lease_token n = Some (tc_lease_token claim)" "ne_lease_expires_at n = Some e" "t < e"
    "1 \<le> tc_visit_count claim" "tr_outcome result \<in> {OSuccess, OFailure}"
  shows "\<exists>ex db'. dispatch_complete ie claim result (Some t) now db = Inr (ex, db')"
proof -
  have so: "stored_ok ex0" using assms(1,2) by (auto simp: system_ok_def system_core_def)
  have g: "executions_get (tc_execution_id claim) db = Some ex0" using stored_get[OF assms(1,2)] assms(3) by simp
  obtain d where d: "find_node (ws_nodes (we_snapshot ex0)) (tc_node_key claim) = Some d"
    using exec_inv_node[OF stored_inv[OF so] assms(4)] .
  from pinned_phase_pack_returns[OF so d] obtain pack where pack: "pinned_phase_pack ex0 d = Inr pack" by blast
  define decision where "decision = enforce_output_contract ie pack (tr_outcome result) (tr_output result)"
  have outc: "od_outcome decision \<in> {OSuccess, OFailure}"
    unfolding decision_def by (rule enforce_outcome[OF assms(10)])
  have "validate_optional_lease n (Some (tc_lease_token claim)) t = Inr ()"
    using assms(6-8) by (simp add: validate_lease_Some)
  from complete_task_total[OF _ _ assms(4,5) outc this, of "we_snapshot ex0" "Some (od_output decision)" now] so
  obtain ex where c: "complete_task ex0 (tc_node_key claim) (od_outcome decision) (Some (od_output decision))
      (Some (tc_lease_token claim)) (Some t) now = Inr ex" by (auto simp: stored_ok_def)
  define art where "art = \<lparr>ta_execution_id = we_id ex, ta_producer_node_key = tc_node_key claim,
      ta_visit_count = tc_visit_count claim, ta_outcome = od_outcome decision, ta_content = od_output decision,
      ta_id = t_next db, ta_created_at = t\<rparr>"
  have art: "task_artifact_init art = Inr art"
    using stored_key_nonblank[OF so d] assms(9) outc by (auto simp: task_artifact_init_def art_def)
  let ?db = "db\<lparr>t_next := Suc (t_next db), t_artifacts := t_artifacts db @ [art]\<rparr>"
  have "system_ok ?db" by (rule system_ok_cong[OF _ _ assms(1)]) (simp_all add: system_view_def)
  from save_transition_returns[OF this _ es_complete[OF c], of "''task.completed''"
      "[(''node_key'', JStr (tc_node_key claim)), (''worker_id'', JStr (tc_worker_id claim)),
        (''outcome'', JStr (outcome_value (od_outcome decision))), (''artifact_id'', JStr (uuid_str (ta_id art))),
        (''output_contract_rejected'', JBool (od_rejected decision))]" now] assms(2)
  obtain db' where "save_transition ex ''task.completed''
      [(''node_key'', JStr (tc_node_key claim)), (''worker_id'', JStr (tc_worker_id claim)),
        (''outcome'', JStr (outcome_value (od_outcome decision))), (''artifact_id'', JStr (uuid_str (ta_id art))),
        (''output_contract_rejected'', JBool (od_rejected decision))] now ?db = Inr (ex, db')" by auto
  then have "dispatch_complete ie claim result (Some t) now db = Inr (ex, db')"
    using art d unfolding art_def
    by (simp add: dispatch_complete_def sbind_apply get_execution_def sneed_def g slift_def
        snapshot_node_Inr[THEN iffD2] pack c decision_def[symmetric] new_artifact_def uuid4_def artifacts_add_def
        supdate_def Let_def at_or_now_def)
  then show ?thesis by blast
qed

end
