(* ===== verification/System_Theorems.thy ===== *)
theory System_Theorems
  imports Service_Liveness Workflow_Examples
begin

text \<open>
  Properties of the services together: what holds of the database after any sequence of committed
  service calls, in any order and with any arguments.
\<close>

section \<open>Reachable databases\<close>

definition empty_db :: db where
  "empty_db = \<lparr>t_projects = [], t_requests = [], t_runs = [], t_events = [], t_receipts = [],
     t_artifacts = [], t_skills = [], t_phase_packs = [], t_model_profiles = [], t_definitions = [],
     t_executions = [], t_bindings = [], t_accounts = [], t_reservations = [], t_usage = [], t_ops = empty_ops, t_next = 0\<rparr>"

text \<open>What the services can commit, starting from the empty tables.\<close>

abbreviation reachable_db :: "db \<Rightarrow> bool" where
  "reachable_db \<equiv> service_step\<^sup>*\<^sup>* empty_db"

lemma empty_db_ok: "system_ok empty_db" "events_numbered empty_db" "ledger_ok empty_db"
  by (simp_all add: empty_db_def system_ok_def system_core_def requests_opened_def events_numbered_def
      ledger_ok_def ledger_def)

lemma reachable_ok: "reachable_db db \<Longrightarrow> system_ok db"
  by (erule service_steps_ok[OF _ empty_db_ok(1)])


section \<open>An example session\<close>

lemma example_definitions_valid:
  "valid_definition repair_definition" "valid_definition approval_fork_definition"
  unfolding valid_definition_def by code_simp+

text \<open>A project is registered, its request is started, and its run is cancelled.\<close>

definition ex_project :: register_project_command where
  "ex_project = \<lparr>rp_key = ''demo'', rp_name = ''Demo'', rp_repository_url = ''url'', rp_default_branch = ''main''\<rparr>"

text \<open>The session up to the start of the workflow, for a given definition.\<close>

definition ex_prepare :: "workflow_definition \<Rightarrow> run svc" where
  "ex_prepare d =
     sbind (register_project ex_project 10) (\<lambda>p.
     sbind (register_definition d 11) (\<lambda>_.
     sbind (create_request \<lparr>cu_project_id = pj_id p, cu_prompt = ''do'', cu_title = None\<rparr> 12) (\<lambda>(q, r).
     sbind (workflow_start (rn_id r) (wd_key d) None 20) (\<lambda>_. sreturn r))))"

lemma run_caseE:
  assumes "case x of Inl e \<Rightarrow> False | Inr (a, b) \<Rightarrow> P a b"
  obtains a b where "x = Inr (a, b)" "P a b"
  using assms by (auto split: sum.splits prod.splits)

definition ex_session :: "(run \<times> db) result" where
  "ex_session = sbind (ex_prepare repair_definition) (\<lambda>r. cancel_run (rn_id r) 40) empty_db"

lemma ex_session_result:
  "case ex_session of Inl e \<Rightarrow> False | Inr (r, db) \<Rightarrow> map we_status (t_executions db) = [WCancelled]
     \<and> map rn_status (t_runs db) = [RCancelled] \<and> map rq_status (t_requests db) = [QCancelled]
     \<and> length (t_events db) = 8"
  by code_simp

lemma ex_prepare_steps:
  assumes "ex_prepare d empty_db = Inr (r, db)" "valid_definition d"
  shows "reachable_db db"
proof -
  from assms(1) obtain p db1 d' db2 q db3 ex where
    "register_project ex_project 10 empty_db = Inr (p, db1)" "register_definition d 11 db1 = Inr (d', db2)"
    "create_request \<lparr>cu_project_id = pj_id p, cu_prompt = ''do'', cu_title = None\<rparr> 12 db2 = Inr ((q, r), db3)"
    "workflow_start (rn_id r) (wd_key d) None 20 db3 = Inr (ex, db)"
    unfolding ex_prepare_def by (auto split: prod.splits)
  note s = this
  have "service_step\<^sup>*\<^sup>* empty_db db1" by (rule r_into_rtranclp, rule ss_register_project[OF s(1)])
  also have "service_step db1 db2" by (rule ss_register_definition[OF assms(2) s(2)])
  also have "service_step db2 db3" by (rule ss_create_request[OF s(3)])
  also have "service_step db3 db" by (rule ss_start[OF s(4)])
  finally show ?thesis .
qed

lemma ex_session_reachable:
  obtains r db where "ex_session = Inr (r, db)" "reachable_db db"
    "map we_status (t_executions db) = [WCancelled]" "length (t_events db) = 8"
proof -
  obtain r db where s: "ex_session = Inr (r, db)" and e: "map we_status (t_executions db) = [WCancelled]"
    "length (t_events db) = 8" using ex_session_result by (auto split: sum.splits prod.splits)
  from s have "reachable_db db"
    unfolding ex_session_def
    by (auto dest!: ex_prepare_steps[OF _ example_definitions_valid(1)] ss_cancel_run)
  from that[OF s this e] show thesis .
qed

section \<open>The parents follow their executions\<close>



text \<open>C35. Every execution in the database is one the engine can reach: its snapshot was accepted by the
  definition check, it was created from that snapshot, and only engine operations changed it. Execution
  identifiers are unique and a run has at most one execution.\<close>

theorem stored_executions_reachable:
  assumes "reachable_db db"
  shows "(\<forall>ex \<in> set (t_executions db). accepted_snapshot (we_snapshot ex)
      \<and> reachable_execution (we_snapshot ex) ex)
    \<and> distinct (map we_id (t_executions db))
    \<and> distinct (map (\<lambda>ex. ws_run_id (we_snapshot ex)) (t_executions db))"
  using reachable_ok[OF assms] by (auto simp: system_ok_def system_core_def stored_ok_def)

theorem stored_executions_reachable_witness:
  "\<exists>r db. ex_session = Inr (r, db) \<and> map we_status (t_executions db) = [WCancelled]
     \<and> (\<exists>ex \<in> set (t_executions db). reachable_execution (we_snapshot ex) ex)"
proof -
  obtain r db where s: "ex_session = Inr (r, db)" "reachable_db db" "map we_status (t_executions db) = [WCancelled]"
    "length (t_events db) = 8" by (rule ex_session_reachable)
  from s(3) obtain ex where ex: "ex \<in> set (t_executions db)" by auto
  with stored_executions_reachable[OF s(2)] have "reachable_execution (we_snapshot ex) ex" by simp
  then show ?thesis using s(1,3) ex by (intro exI conjI bexI)
qed

section \<open>History\<close>



section \<open>The ledger\<close>

text \<open>C6. The ledger balances in the whole system: in every reachable database an account has reserved
  exactly its open reservations and spent exactly its usage records, also across the cancellations of
  runs and workflows that release reservations in the middle of other operations.\<close>

theorem system_ledger_balances:
  assumes "reachable_db db" "a \<in> set (t_accounts db)"
  shows "ba_reserved_usd a = (\<Sum>r\<leftarrow>t_reservations db. held (ba_id a) r)
    \<and> ba_spent_usd a = (\<Sum>u\<leftarrow>t_usage db. charged (ba_id a) u)
    \<and> 0 \<le> ba_reserved_usd a \<and> 0 \<le> ba_spent_usd a"
proof -
  have "ledger_ok db" using ledger_frame.steps_within[OF assms(1)] empty_db_ok(3) by (rule mp)
  then have "amounts_ok a \<and> ba_reserved_usd a = (\<Sum>r\<leftarrow>t_reservations db. held (ba_id a) r)
      \<and> ba_spent_usd a = (\<Sum>u\<leftarrow>t_usage db. charged (ba_id a) u)"
    using assms(2) unfolding ledger_ok_def ledger_def by simp
  then show ?thesis by (simp add: amounts_ok_def)
qed

text \<open>A budget is configured and a task of the run reserves from it.\<close>

definition ex_reserved :: "(budget_reservation option \<times> db) result" where
  "ex_reserved = sbind (ex_prepare repair_definition) (\<lambda>r.
     sbind (budget_configure 0 (Dec 1 0) 50) (\<lambda>_. budget_reserve (ex_claim\<lparr>tc_run_id := rn_id r\<rparr>) 60)) empty_db"

lemma ex_reserved_result:
  "case ex_reserved of Inl e \<Rightarrow> False | Inr (x, db) \<Rightarrow> map ba_reserved_usd (t_accounts db) = [250000]"
  by code_simp

theorem system_ledger_balances_witness:
  "\<exists>x db a. ex_reserved = Inr (x, db) \<and> a \<in> set (t_accounts db)
     \<and> (\<Sum>r\<leftarrow>t_reservations db. held (ba_id a) r) = 250000"
proof -
  obtain x db where s: "ex_reserved = Inr (x, db)" and e: "map ba_reserved_usd (t_accounts db) = [250000]"
    using ex_reserved_result by (auto split: sum.splits prod.splits)
  from s have "reachable_db db"
    unfolding ex_reserved_def
    by (auto dest!: ex_prepare_steps[OF _ example_definitions_valid(1)] ss_budget[OF bs_configure] ss_budget[OF bs_reserve])
  note balance = system_ledger_balances[OF this]
  from e obtain a where "a \<in> set (t_accounts db)" "ba_reserved_usd a = 250000" by auto
  with balance[of a] s show ?thesis by auto
qed

section \<open>Leases\<close>

text \<open>A worker has claimed the task of the repair workflow.\<close>

definition ex_claimed :: "(task_claim option \<times> db) result" where
  "ex_claimed = sbind (ex_prepare repair_definition) (\<lambda>_. claim_next 30 ''w1'' None (Some 30) 30) empty_db"

definition holds_lease :: "task_claim \<Rightarrow> time \<Rightarrow> workflow_execution \<Rightarrow> bool" where
  "holds_lease c t ex \<longleftrightarrow> we_id ex = tc_execution_id c \<and> we_status ex = WRunning \<and>
     (case we_nodes ex (tc_node_key c) of None \<Rightarrow> False
      | Some n \<Rightarrow> ne_status n = NRunning \<and> ne_lease_token n = Some (tc_lease_token c)
          \<and> (case ne_lease_expires_at n of None \<Rightarrow> False | Some e \<Rightarrow> t < e))"

lemma ex_claimed_result:
  "case ex_claimed of Inl e \<Rightarrow> False | Inr (c, db) \<Rightarrow> (case c of None \<Rightarrow> False
     | Some c \<Rightarrow> list_ex (holds_lease c 40) (t_executions db) \<and> tc_visit_count c = 1)"
  by code_simp

lemma ex_claimed_reachable:
  obtains c db ex n e where "ex_claimed = Inr (Some c, db)" "reachable_db db" "ex \<in> set (t_executions db)"
    "we_id ex = tc_execution_id c" "we_status ex = WRunning" "we_nodes ex (tc_node_key c) = Some n"
    "ne_status n = NRunning" "ne_lease_token n = Some (tc_lease_token c)" "ne_lease_expires_at n = Some e" "40 < e"
    "tc_visit_count c = 1"
proof -
  obtain c db where s: "ex_claimed = Inr (Some c, db)" and l: "list_ex (holds_lease c 40) (t_executions db)"
    "tc_visit_count c = 1"
    using ex_claimed_result by (auto split: sum.splits prod.splits option.splits)
  from s have r: "reachable_db db"
    unfolding ex_claimed_def by (auto dest!: ex_prepare_steps[OF _ example_definitions_valid(1)] ss_claim)
  from l(1) obtain ex where ex: "ex \<in> set (t_executions db)" "holds_lease c 40 ex" by (auto simp: list_ex_iff)
  from ex(2) obtain n e where "we_id ex = tc_execution_id c" "we_status ex = WRunning" "we_nodes ex (tc_node_key c) = Some n"
    "ne_status n = NRunning" "ne_lease_token n = Some (tc_lease_token c)" "ne_lease_expires_at n = Some e" "40 < e"
    by (auto simp: holds_lease_def split: option.splits)
  from that[OF s r ex(1) this l(2)] show thesis .
qed



text \<open>C5. An expired lease is recovered: as long as a running execution of a reachable database has a task
  whose lease has run out, \<open>recover_expired\<close> finds work, commits and reports it. Recovery never gets stuck
  on a candidate.\<close>

theorem expired_lease_recovered:
  assumes "reachable_db db" "ex \<in> set (t_executions db)" "we_status ex = WRunning" "we_nodes ex key = Some n"
    "ne_status n = NRunning" "ne_lease_expires_at n = Some e" "e \<le> t"
  shows "\<exists>db'. recover_expired (Some t) now db = Inr (True, db')"
proof -
  note ok = reachable_ok[OF assms(1)]
  have "exec_inv ex" using ok assms(2) stored_inv by (auto simp: system_ok_def system_core_def)
  from expired_found[OF assms(2-4) this assms(5-7)] obtain x k where "get_expired_for_update t db = Some (x, k)" by auto
  with recover_expired_returns[OF ok] show ?thesis by blast
qed

theorem expired_lease_recovered_witness:
  "\<exists>c db e db'. ex_claimed = Inr (Some c, db) \<and> recover_expired (Some e) e db = Inr (True, db')"
proof -
  obtain c db ex n e where s: "ex_claimed = Inr (Some c, db)" "reachable_db db" "ex \<in> set (t_executions db)"
    "we_id ex = tc_execution_id c" "we_status ex = WRunning" "we_nodes ex (tc_node_key c) = Some n"
    "ne_status n = NRunning" "ne_lease_token n = Some (tc_lease_token c)" "ne_lease_expires_at n = Some e" "40 < e"
    "tc_visit_count c = 1" by (rule ex_claimed_reachable)
  from expired_lease_recovered[OF s(2,3,5,6,7,9) order_refl, of e] obtain db' where
    "recover_expired (Some e) e db = Inr (True, db')" by blast
  with s(1) show ?thesis by (intro exI conjI)
qed


section \<open>Idempotency\<close>

lemma reachable_receipts: "reachable_db db \<Longrightarrow> receipt_ids_ok db"
  using steps_kept[of empty_db db] by (simp add: receipts_kept_def receipt_ids_ok_def empty_db_def)

lemma dispatch_recorded_later:
  assumes "reachable_db db" "dispatch sha sj c now db = Inr (r, db1)" "service_step\<^sup>*\<^sup>* db1 db2"
  shows "recorded sj c r db2" "parents_kept db db2"
proof -
  show "recorded sj c r db2"
    by (rule recorded_later[OF dispatch_recorded[OF assms(2) reachable_receipts[OF assms(1)]] assms(3)])
  have "service_step\<^sup>*\<^sup>* db db2" by (rule converse_rtranclp_into_rtranclp[OF ss_dispatch[OF assms(2)] assms(3)])
  then show "parents_kept db db2" by (rule parents.steps_within)
qed

text \<open>C2. A request is created once per idempotency key: after a successful dispatch, and after anything
  else the services did since, every further dispatch that succeeds under the same project, ingress and
  idempotency key has the same payload digest, is a replay that names the same request, run and execution,
  and writes nothing.\<close>

theorem dispatch_creates_once:
  assumes "reachable_db db" "dispatch sha sj c now db = Inr (r, db1)" "service_step\<^sup>*\<^sup>* db1 db2"
    "dispatch_key c' = dispatch_key c" "dispatch sha' sj c' now' db2 = Inr (r', db3)"
  shows "dispatch_digest sj c' = dispatch_digest sj c \<and> ds_replayed r'
    \<and> rq_id (ds_request r') = rq_id (ds_request r) \<and> rn_id (ds_run r') = rn_id (ds_run r)
    \<and> we_id (ds_workflow r') = we_id (ds_workflow r) \<and> db3 = db2\<lparr>t_next := Suc (t_next db2)\<rparr>"
  using dispatch_after_record[OF dispatch_recorded_later(1)[OF assms(1-3)] assms(4,5)] by blast

text \<open>C3. A retry is answered: the client that repeats its successful dispatch, at any later time and
  whatever happened in between (the project may have been rebound, the run cancelled or finished), gets its
  request, run and execution back instead of an error.\<close>

theorem dispatch_retry_answered:
  assumes "reachable_db db" "dispatch sha sj c now db = Inr (r, db1)" "service_step\<^sup>*\<^sup>* db1 db2"
  shows "\<exists>r' db3. dispatch sha' sj c now' db2 = Inr (r', db3) \<and> ds_replayed r'
    \<and> rq_id (ds_request r') = rq_id (ds_request r) \<and> rn_id (ds_run r') = rn_id (ds_run r)
    \<and> we_id (ds_workflow r') = we_id (ds_workflow r)"
proof -
  note rec = dispatch_recorded_later[OF assms]
  from dispatch_again[OF assms(2) rec] obtain r' where
    d: "dispatch sha' sj c now' db2 = Inr (r', db2\<lparr>t_next := Suc (t_next db2)\<rparr>)" by blast
  from dispatch_after_record[OF rec(1) refl d] d show ?thesis by blast
qed

definition ex_digest :: string where
  "ex_digest = ''sha256:'' @ replicate 64 (CHR ''a'')"

definition ex_command :: "uuid \<Rightarrow> dispatch_project_request" where
  "ex_command pid = \<lparr>dp_project_id = pid, dp_prompt = ''do it'', dp_idempotency_key = ''k1'',
     dp_origin = \<lparr>ro_ingress_key = ''api'', ro_external_request_id = ''e1'', ro_actor_id = None,
       ro_conversation_id = None\<rparr>, dp_title = None, dp_definition_key = Some ''wf'',
     dp_definition_version = Some 1, dp_recommendation_id = None, dp_skill_addons = []\<rparr>"

definition ex_catalog :: "(project \<times> db) result" where
  "ex_catalog = sbind (register_project ex_project 10) (\<lambda>p.
     sbind (register_definition repair_definition 11) (\<lambda>_. sreturn p)) empty_db"

definition ex_retry :: "uuid \<Rightarrow> dispatch_project_request" where
  "ex_retry pid = (ex_command pid)\<lparr>dp_idempotency_key := '' k1 ''\<rparr>"

abbreviation ex_dispatch :: "dispatch_project_request \<Rightarrow> time \<Rightarrow> dispatched_request svc" where
  "ex_dispatch \<equiv> dispatch (\<lambda>_. []) (\<lambda>_. ex_digest)"

lemma ex_catalog_reachable:
  obtains p db r db1 r' db2 where "ex_catalog = Inr (p, db)" "reachable_db db"
    "ex_dispatch (ex_command (pj_id p)) 20 db = Inr (r, db1)" "ex_dispatch (ex_retry (pj_id p)) 30 db1 = Inr (r', db2)"
proof -
  have "case ex_catalog of Inl e \<Rightarrow> False | Inr (p, db) \<Rightarrow>
      (case ex_dispatch (ex_command (pj_id p)) 20 db of Inl e \<Rightarrow> False | Inr (r, db1) \<Rightarrow>
        (case ex_dispatch (ex_retry (pj_id p)) 30 db1 of Inl e \<Rightarrow> False | Inr (r', db2) \<Rightarrow> ds_replayed r'))"
    by code_simp
  then obtain p db r db1 r' db2 where s: "ex_catalog = Inr (p, db)"
    and d: "ex_dispatch (ex_command (pj_id p)) 20 db = Inr (r, db1)" "ex_dispatch (ex_retry (pj_id p)) 30 db1 = Inr (r', db2)"
    by (elim run_caseE) (rule that)
  from s obtain db0 d' where "register_project ex_project 10 empty_db = Inr (p, db0)"
    "register_definition repair_definition 11 db0 = Inr (d', db)" by (auto simp: ex_catalog_def)
  then have "service_step empty_db db0" "service_step db0 db"
    by (auto intro: ss_register_project ss_register_definition example_definitions_valid(1))
  then have "reachable_db db" by (rule converse_rtranclp_into_rtranclp[OF _ r_into_rtranclp])
  from that[OF s this d] show thesis .
qed

theorem dispatch_retry_answered_witness:
  "\<exists>p db r db1 r' db2. ex_catalog = Inr (p, db) \<and> ex_dispatch (ex_command (pj_id p)) 20 db = Inr (r, db1)
     \<and> ex_dispatch (ex_command (pj_id p)) 30 db1 = Inr (r', db2) \<and> ds_replayed r'"
proof -
  obtain p db r db1 r0 db0 where s: "ex_catalog = Inr (p, db)" "reachable_db db"
    "ex_dispatch (ex_command (pj_id p)) 20 db = Inr (r, db1)" "ex_dispatch (ex_retry (pj_id p)) 30 db1 = Inr (r0, db0)"
    by (rule ex_catalog_reachable)
  from dispatch_retry_answered[OF s(2,3) rtranclp.rtrancl_refl, of "\<lambda>_. []" 30] obtain r' db2 where
    "ex_dispatch (ex_command (pj_id p)) 30 db1 = Inr (r', db2)" "ds_replayed r'" by blast
  with s(1,3) show ?thesis by (intro exI conjI)
qed

theorem dispatch_creates_once_witness:
  "\<exists>p db r db1 r' db2. ex_catalog = Inr (p, db) \<and> ex_dispatch (ex_command (pj_id p)) 20 db = Inr (r, db1)
     \<and> ex_dispatch (ex_retry (pj_id p)) 30 db1 = Inr (r', db2) \<and> rn_id (ds_run r') = rn_id (ds_run r)"
proof -
  obtain p db r db1 r' db2 where s: "ex_catalog = Inr (p, db)" "reachable_db db"
    "ex_dispatch (ex_command (pj_id p)) 20 db = Inr (r, db1)" "ex_dispatch (ex_retry (pj_id p)) 30 db1 = Inr (r', db2)"
    by (rule ex_catalog_reachable)
  have k: "py_strip '' k1 '' = py_strip ''k1''" by code_simp
  have key: "dispatch_key (ex_retry (pj_id p)) = dispatch_key (ex_command (pj_id p))"
    by (simp add: dispatch_key_def ex_retry_def ex_command_def k)
  from dispatch_creates_once[OF s(2,3) rtranclp.rtrancl_refl key s(4)] have "rn_id (ds_run r') = rn_id (ds_run r)"
    by blast
  with s(1,3,4) show ?thesis by (intro exI conjI)
qed

text \<open>A separator splits a list where it occurs first, or last.\<close>

lemma append_Cons_eq_first:
  "c \<notin> set xs \<Longrightarrow> c \<notin> set xs' \<Longrightarrow> xs @ c # ys = xs' @ c # ys' \<longleftrightarrow> xs = xs' \<and> ys = ys'"
proof (induction xs arbitrary: xs')
  case Nil
  then show ?case by (cases xs') auto
next
  case (Cons x xs)
  then show ?case by (cases xs') auto
qed

lemma append_Cons_eq_last:
  "c \<notin> set ys \<Longrightarrow> c \<notin> set ys' \<Longrightarrow> xs @ c # ys = xs' @ c # ys' \<longleftrightarrow> xs = xs' \<and> ys = ys'"
  using append_Cons_eq_first[of c "rev ys" "rev ys'" "rev xs" "rev xs'"]
  by (metis rev_append rev_rev_ident rev.simps(2) append_assoc append_Cons append_Nil set_rev)

text \<open>The idempotency keys of tasks are unambiguous: two tasks that share their key are the same visit
  of the same node of the same execution, although node keys may contain the separator themselves. A
  reservation of the budget is therefore never mistaken for another task's.\<close>

theorem task_idempotency_key_inject:
  assumes "0 \<le> v" "0 \<le> v'" "task_idempotency_key i k v = task_idempotency_key i' k' v'"
  shows "i = i' \<and> k = k' \<and> v = v'"
proof -
  have ni: "CHR '':'' \<notin> set (uuid_str i)" for i
    using uuid_str_chars[of "CHR '':''" i] by auto
  have nc: "CHR '':'' \<notin> set (str_pos n)" if "0 \<le> n" for n
    using str_pos_digits[OF that, of "CHR '':''"] by (auto simp: is_digit_def)
  have "uuid_str i @ CHR '':'' # (k @ CHR '':'' # str_pos v) = uuid_str i' @ CHR '':'' # (k' @ CHR '':'' # str_pos v')"
    using assms by (simp add: task_idempotency_key_def str_int_def)
  then have 1: "uuid_str i = uuid_str i'" "k @ CHR '':'' # str_pos v = k' @ CHR '':'' # str_pos v'"
    using ni[of i] ni[of i'] by (auto dest: append_Cons_eq_first)
  then have 2: "k = k'" "str_pos v = str_pos v'"
    using nc[OF assms(1)] nc[OF assms(2)] append_Cons_eq_last by fastforce+
  from 2(2) assms(1,2) have "v = v'" by (metis nat_0_le py_int_str_pos)
  with 1(1) 2(1) show ?thesis by (simp add: uuid_str_inject)
qed

theorem task_idempotency_key_inject_witness:
  "task_idempotency_key 1 ''a:1'' 2 \<noteq> task_idempotency_key 1 ''a'' 12"
  using task_idempotency_key_inject[of 2 12 1 "''a:1''" 1 "''a''"] by fastforce

section \<open>Pinned versions\<close>

lemma find_extends: "extends xs ys \<Longrightarrow> find P xs = Some x \<Longrightarrow> find P ys = Some x"
  by (auto simp: extends_def find_append)

text \<open>A version once published never changes: a workflow definition, skill, phase pack or model profile
  found under its key and version is found, unchanged, in every later state.\<close>

theorem published_versions_immutable:
  assumes "service_step\<^sup>*\<^sup>* db db'"
  shows "(definitions_get key (Some v) db = Some d \<longrightarrow> definitions_get key (Some v) db' = Some d)
    \<and> (skills_get key (Some v) db = Some s \<longrightarrow> skills_get key (Some v) db' = Some s)
    \<and> (phase_packs_get key (Some v) db = Some p \<longrightarrow> phase_packs_get key (Some v) db' = Some p)
    \<and> (profiles_get key (Some v) db = Some m \<longrightarrow> profiles_get key (Some v) db' = Some m)"
proof -
  have "append_only db db'" by (rule history.steps_within[OF assms])
  then have "extends (t_definitions db) (t_definitions db')" "extends (t_skills db) (t_skills db')"
    "extends (t_phase_packs db) (t_phase_packs db')" "extends (t_model_profiles db) (t_model_profiles db')"
    by (simp_all add: append_only_def)
  note later = this[THEN find_extends]
  show ?thesis
    unfolding definitions_get_def skills_get_def phase_packs_get_def profiles_get_def versioned_get_def option.case
    by (intro conjI impI; erule later)
qed

theorem published_versions_immutable_witness:
  "\<exists>p db r db1 d. ex_catalog = Inr (p, db) \<and> ex_dispatch (ex_command (pj_id p)) 20 db = Inr (r, db1)
     \<and> definitions_get ''wf'' (Some 1) db1 = Some d"
proof -
  obtain p db r db1 r' db2 where s: "ex_catalog = Inr (p, db)" "reachable_db db"
    "ex_dispatch (ex_command (pj_id p)) 20 db = Inr (r, db1)" "ex_dispatch (ex_retry (pj_id p)) 30 db1 = Inr (r', db2)"
    by (rule ex_catalog_reachable)
  have "case ex_catalog of Inl e \<Rightarrow> False | Inr (p, db) \<Rightarrow> definitions_get ''wf'' (Some 1) db \<noteq> None" by code_simp
  then obtain d where "definitions_get ''wf'' (Some 1) db = Some d"
    unfolding s(1) by (cases "definitions_get ''wf'' (Some 1) db") simp_all
  with published_versions_immutable[OF r_into_rtranclp[of service_step, OF ss_dispatch[OF s(3)]]]
  have "definitions_get ''wf'' (Some 1) db1 = Some d" by blast
  with s(1,3) show ?thesis by (intro exI conjI)
qed

section \<open>Cancelling releases the budget\<close>

lemma release_each_rows:
  "release_each rid pid reason now account rs db = Inr (account', db') \<Longrightarrow> x \<in> set (t_reservations db')
     \<Longrightarrow> br_status x = BReserved \<Longrightarrow> x \<in> set (t_reservations db) \<and> br_id x \<notin> br_id ` set rs"
proof (induction rs arbitrary: account db)
  case (Cons r rs)
  from Cons.prems(1) obtain a1 r1 db1 db2 where
    rel: "reservation_release r None now = Inr r1" and sv: "reservations_save r1 db = Inr ((), db1)"
    and em: "emit ''budget_reservation'' (br_id r1) ''budget.released''
          [(''run_id'', JStr (uuid_str rid)), (''reason'', JStr reason)] now db1 = Inr ((), db2)"
    and rest: "release_each rid pid reason now a1 rs db2 = Inr (account', db')"
    by (auto split: if_splits)
  have r1: "br_status r1 = BReleased" "br_id r1 = br_id r"
    using rel by (auto simp: reservation_release_def reservation_finalize_def split: if_splits)
  have "t_reservations db2 = t_reservations db1"
    using withinD[OF keeps_emit em, of t_reservations] by simp
  with Cons.IH[OF rest Cons.prems(2,3)] have x: "x \<in> set (t_reservations db1)" "br_id x \<notin> br_id ` set rs" by simp_all
  have "x \<in> set (t_reservations db) \<and> br_id x \<noteq> br_id r"
    using x(1) sv r1 Cons.prems(3)
    by (auto simp: reservations_save_def table_put_def split: option.splits if_splits dest!: table_get_key)
  with x(2) show ?case by auto
qed simp

lemma release_run_rows:
  assumes "release_run_reservations rid reason now db = Inr (k, db')"
  shows "reservations_list_reserved_by_run rid db' = []"
proof (cases "reservations_list_reserved_by_run rid db")
  case Nil
  then show ?thesis using assms by (simp add: release_run_reservations_def sbind_run)
next
  case (Cons r rs)
  with assms obtain account account' db1 where
    each: "release_each rid (br_project_id r) reason now account (r # rs) db = Inr (account', db1)"
    and sv: "accounts_save account' db1 = Inr ((), db')"
    by (auto simp: release_run_reservations_def)
  have "t_reservations db' = t_reservations db1"
    using withinD[OF keeps_budget_tables(1) sv, of t_reservations] by simp
  moreover have "\<not> (br_run_id x = rid \<and> br_status x = BReserved)" if x: "x \<in> set (t_reservations db1)" for x
  proof
    assume "br_run_id x = rid \<and> br_status x = BReserved"
    with release_each_rows[OF each x] have "x \<in> set (reservations_list_reserved_by_run rid db)"
      and "br_id x \<notin> br_id ` set (r # rs)" by (auto simp: reservations_list_reserved_by_run_def)
    then show False unfolding Cons by blast
  qed
  ultimately show ?thesis by (simp add: reservations_list_reserved_by_run_def filter_empty_conv)
qed

lemma save_transition_reservations: "keeps t_reservations (save_transition ex t p now)"
  unfolding save_transition_def by (intro frame_rules) simp_all

text \<open>C37. Cancelling a run releases its budget: after \<open>cancel_run\<close> no reservation of the run is open, with
  or without a workflow execution behind it.\<close>

theorem cancel_run_releases_budget:
  assumes "cancel_run run_id now db = Inr (r, db')"
  shows "reservations_list_reserved_by_run run_id db' = []"
proof (cases "executions_get_by_run run_id db")
  case (Some ex0)
  with assms obtain ex k db1 u t p where
    rel: "release_run_reservations run_id ''run_cancelled'' now db = Inr (k, db1)"
    and sv: "save_transition ex t p now db1 = Inr (u, db')"
    by (auto simp: cancel_run_def split: if_splits)
  have "t_reservations db' = t_reservations db1" by (rule withinD[OF save_transition_reservations sv])
  with release_run_rows[OF rel] show ?thesis by (simp add: reservations_list_reserved_by_run_def)
next
  case None
  with assms obtain run0 k db1 run q db2 db3 i p where
    rel: "release_run_reservations (rn_id run0) ''run_cancelled'' now db = Inr (k, db1)"
    and run0: "runs_get run_id db = Some run0"
    and sv: "runs_save run db1 = Inr ((), db2)" "requests_save q db2 = Inr ((), db3)"
      "emit ''run'' i ''run.cancelled'' p now db3 = Inr ((), db')"
    by (auto simp: cancel_run_def cancel_bare_run_def)
  have "t_reservations db' = t_reservations db1"
    using withinD[OF keeps_runs_save sv(1), of t_reservations] withinD[OF keeps_requests_save sv(2), of t_reservations]
      withinD[OF keeps_emit sv(3), of t_reservations] by simp
  with release_run_rows[OF rel] runs_get_id[OF run0] show ?thesis
    by (simp add: reservations_list_reserved_by_run_def)
qed

theorem cancel_run_releases_budget_witness:
  "\<exists>x db r db'. sbind (budget_configure 1 (Dec 1 0) 50) (\<lambda>_. budget_reserve ex_claim 60) ex_db = Inr (x, db)
     \<and> length (reservations_list_reserved_by_run 3 db) = 1 \<and> cancel_run 3 70 db = Inr (r, db')
     \<and> reservations_list_reserved_by_run 3 db' = []"
proof -
  have "case sbind (budget_configure 1 (Dec 1 0) 50) (\<lambda>_. budget_reserve ex_claim 60) ex_db of Inl e \<Rightarrow> False
     | Inr (x, db) \<Rightarrow> length (reservations_list_reserved_by_run 3 db) = 1
     \<and> (case cancel_run 3 70 db of Inl e \<Rightarrow> False | Inr (r, db') \<Rightarrow> True)"
    by code_simp
  then obtain x db r db' where s: "sbind (budget_configure 1 (Dec 1 0) 50) (\<lambda>_. budget_reserve ex_claim 60) ex_db = Inr (x, db)"
    "length (reservations_list_reserved_by_run 3 db) = 1" "cancel_run 3 70 db = Inr (r, db')"
    by (elim run_caseE conjE) (rule that)
  from s cancel_run_releases_budget[OF s(3)] show ?thesis by (intro exI conjI)
qed

end
