(* ===== verification/Py_Json.thy ===== *)
theory Py_Json
  imports Py_Text
begin

text \<open>
  The operations of Python the serializers apply to a decoded JSON document: \<^verbatim>\<open>data[key]\<close>,
  \<^verbatim>\<open>data.get(key, default)\<close>, iteration, \<^verbatim>\<open>str\<close>, \<^verbatim>\<open>int\<close>, \<^verbatim>\<open>dict\<close> and the look-up of an enum
  member by its value, each with the exceptions it raises on a value of another type. The text of a
  float is the parameter \<open>float_repr\<close>: no reader of the sources depends on it.
\<close>

section \<open>Text of a document\<close>

definition printable :: "char \<Rightarrow> bool" where
  "printable c = (let k = of_char c :: nat in (32 \<le> k \<and> k \<le> 126) \<or> (161 \<le> k \<and> k \<noteq> 173))"

definition escape_char :: "char \<Rightarrow> char \<Rightarrow> string" where
  "escape_char quote c =
     (if c = quote \<or> c = CHR 92 then [CHR 92, c]
      else if c = CHR 10 then [CHR 92, CHR ''n''] else if c = CHR 13 then [CHR 92, CHR ''r'']
      else if c = CHR 9 then [CHR 92, CHR ''t'']
      else if printable c then [c]
      else [CHR 92, CHR ''x'', hex_digit (of_char c div 16), hex_digit (of_char c mod 16)])"

definition repr_str :: "string \<Rightarrow> string" where
  "repr_str s =
     (let quote = (if CHR 39 \<in> set s \<and> CHR 34 \<notin> set s then CHR 34 else CHR 39)
      in [quote] @ concat (map (escape_char quote) s) @ [quote])"

fun py_repr :: "(pyfloat \<Rightarrow> string) \<Rightarrow> json \<Rightarrow> string" where
  "py_repr float_repr JNull = ''None''"
| "py_repr float_repr (JBool b) = (if b then ''True'' else ''False'')"
| "py_repr float_repr (JInt i) = str_int i"
| "py_repr float_repr (JFloat x) = float_repr x"
| "py_repr float_repr (JStr s) = repr_str s"
| "py_repr float_repr (JList xs) = ''['' @ py_join '', '' (map (py_repr float_repr) xs) @ '']''"
| "py_repr float_repr (JObj kvs) = ''{''
     @ py_join '', '' (map (\<lambda>(k, v). repr_str k @ '': '' @ py_repr float_repr v) kvs) @ ''}''"

definition py_str :: "(pyfloat \<Rightarrow> string) \<Rightarrow> json \<Rightarrow> string" where
  "py_str float_repr v = (case v of JStr s \<Rightarrow> s | _ \<Rightarrow> py_repr float_repr v)"

lemma py_str_JStr [simp]: "py_str float_repr (JStr s) = s"
  by (simp add: py_str_def)

section \<open>Access\<close>

fun type_name :: "json \<Rightarrow> string" where
  "type_name JNull = ''NoneType''" | "type_name (JBool _) = ''bool''" | "type_name (JInt _) = ''int''"
| "type_name (JFloat _) = ''float''" | "type_name (JStr _) = ''str''"
| "type_name (JList _) = ''list''" | "type_name (JObj _) = ''dict''"

fun py_item :: "json \<Rightarrow> string \<Rightarrow> json result" where
  "py_item (JObj kvs) k = of_option (KeyError k) (map_of kvs k)"
| "py_item (JList _) k = Inl (TypeError ''list indices must be integers or slices, not str'')"
| "py_item (JStr _) k = Inl (TypeError (''string indices must be integers, not '' @ repr_str ''str''))"
| "py_item v k = Inl (TypeError (repr_str (type_name v) @ '' object is not subscriptable''))"

fun py_get :: "json \<Rightarrow> string \<Rightarrow> json \<Rightarrow> json result" where
  "py_get (JObj kvs) k d = Inr (case map_of kvs k of None \<Rightarrow> d | Some v \<Rightarrow> v)"
| "py_get v k d = Inl (AttributeError (repr_str (type_name v) @ '' object has no attribute '' @ repr_str ''get''))"

fun py_iter :: "json \<Rightarrow> json list result" where
  "py_iter (JList xs) = Inr xs"
| "py_iter (JStr s) = Inr (map (\<lambda>c. JStr [c]) s)"
| "py_iter (JObj kvs) = Inr (map (\<lambda>(k, v). JStr k) kvs)"
| "py_iter v = Inl (TypeError (repr_str (type_name v) @ '' object is not iterable''))"

definition py_truncate :: "int \<Rightarrow> int \<Rightarrow> int" where
  "py_truncate m e = (if 0 \<le> e then m * 2 ^ nat e else sgn m * (\<bar>m\<bar> div 2 ^ nat (- e)))"

fun py_to_int :: "json \<Rightarrow> int result" where
  "py_to_int (JInt i) = Inr i"
| "py_to_int (JBool b) = Inr (if b then 1 else 0)"
| "py_to_int (JStr s) = py_int_of_str s"
| "py_to_int (JFloat (FloatVal m e)) = Inr (py_truncate m e)"
| "py_to_int (JFloat (FloatInf _)) = Inl (OverflowError ''cannot convert float infinity to integer'')"
| "py_to_int (JFloat FloatNaN) = Inl (ValueError ''cannot convert float NaN to integer'')"
| "py_to_int v = Inl (TypeError (''int() argument must be a string, a bytes-like object or a real number, not ''
     @ repr_str (type_name v)))"

text \<open>\<^verbatim>\<open>dict(v)\<close>: a copy of a dictionary, or the dictionary of a sequence of pairs. Documents have
  string keys only, so a pair with another key is an error of the model.\<close>

definition dict_put :: "json_object \<Rightarrow> string \<Rightarrow> json \<Rightarrow> json_object" where
  "dict_put kvs k v = (if k \<in> fst ` set kvs then map (\<lambda>(k', v'). (k', if k' = k then v else v')) kvs
     else kvs @ [(k, v)])"

fun dict_of_pairs :: "json_object \<Rightarrow> json list \<Rightarrow> json_object result" where
  "dict_of_pairs acc [] = Inr acc"
| "dict_of_pairs acc (x # xs) = rbind (py_iter x) (\<lambda>ys. case ys of
      [JStr k, v] \<Rightarrow> dict_of_pairs (dict_put acc k v) xs
    | [_, _] \<Rightarrow> Inl (TypeError ''dictionary keys must be strings'')
    | _ \<Rightarrow> Inl (ValueError ''dictionary update sequence element has the wrong length''))"

fun py_dict :: "json \<Rightarrow> json_object result" where
  "py_dict (JObj kvs) = Inr kvs"
| "py_dict v = rbind (py_iter v) (dict_of_pairs [])"

fun is_dict :: "json \<Rightarrow> bool" where
  "is_dict (JObj _) = True" | "is_dict _ = False"

section \<open>Enums and optional values\<close>

text \<open>\<^verbatim>\<open>cls(value)\<close> for a string enum.\<close>

definition enum_of :: "string \<Rightarrow> ('a \<Rightarrow> string) \<Rightarrow> 'a list \<Rightarrow> string \<Rightarrow> 'a result" where
  "enum_of cls value_of members s =
     of_option (ValueError (repr_str s @ '' is not a valid '' @ cls)) (find (\<lambda>m. value_of m = s) members)"

lemma enum_of_value:
  "x \<in> set members \<Longrightarrow> inj_on value_of (set members) \<Longrightarrow> enum_of cls value_of members (value_of x) = Inr x"
  by (induction members) (auto simp: enum_of_def inj_on_def)

text \<open>\<^verbatim>\<open>f(v) if v is not None else None\<close> and its inverse.\<close>

definition when_some :: "json \<Rightarrow> (json \<Rightarrow> 'a result) \<Rightarrow> 'a option result" where
  "when_some v f = (if v = JNull then Inr None else rbind (f v) (\<lambda>x. Inr (Some x)))"

definition when_dict :: "json \<Rightarrow> (json \<Rightarrow> 'a result) \<Rightarrow> 'a option result" where
  "when_dict v f = (if is_dict v then rbind (f v) (\<lambda>x. Inr (Some x)) else Inr None)"

definition opt_json :: "('a \<Rightarrow> json) \<Rightarrow> 'a option \<Rightarrow> json" where
  "opt_json f x = (case x of None \<Rightarrow> JNull | Some y \<Rightarrow> f y)"

lemma opt_json_simps [simp]: "opt_json f None = JNull" "opt_json f (Some x) = f x"
  by (simp_all add: opt_json_def)

fun opt_all :: "('a \<Rightarrow> bool) \<Rightarrow> 'a option \<Rightarrow> bool" where
  "opt_all P None = True" | "opt_all P (Some x) = P x"

lemma when_some_opt:
  "(\<And>y. x = Some y \<Longrightarrow> f y \<noteq> JNull \<and> g (f y) = Inr y) \<Longrightarrow> when_some (opt_json f x) g = Inr x"
  by (cases x) (auto simp: when_some_def)

lemma when_dict_opt:
  "(\<And>y. x = Some y \<Longrightarrow> is_dict (f y) \<and> g (f y) = Inr y) \<Longrightarrow> when_dict (opt_json f x) g = Inr x"
  by (cases x) (auto simp: when_dict_def)

lemma map_result_map: "(\<And>x. x \<in> set xs \<Longrightarrow> f (g x) = Inr x) \<Longrightarrow> map_result f (map g xs) = Inr xs"
  by (induction xs) auto

lemma map_result_InrI: "map_result f xs = Inr ys \<Longrightarrow> y \<in> set ys \<Longrightarrow> \<exists>x. f x = Inr y"
  by (induction xs arbitrary: ys) auto

section \<open>Exceptions\<close>

text \<open>\<^verbatim>\<open>type(exc).__name__\<close> and \<^verbatim>\<open>str(exc)\<close>.\<close>

fun error_type :: "error \<Rightarrow> string" where
  "error_type (DomainValidationError _) = ''DomainValidationError''"
| "error_type (InvalidStateTransition _) = ''InvalidStateTransition''"
| "error_type (WorkflowDefinitionError _) = ''WorkflowDefinitionError''"
| "error_type (WorkflowExecutionError _) = ''WorkflowExecutionError''"
| "error_type (ResourceNotFound _) = ''ResourceNotFound''"
| "error_type (ResourceConflict _) = ''ResourceConflict''"
| "error_type (BudgetLimitExceeded _) = ''BudgetLimitExceeded''"
| "error_type (BudgetUsageRequired _) = ''BudgetUsageRequired''"
| "error_type (ModelRoutingError _) = ''ModelRoutingError''"
| "error_type (RuntimeError _) = ''RuntimeError''"
| "error_type (ValueError _) = ''ValueError''"
| "error_type (KeyError _) = ''KeyError''"
| "error_type (LookupError _) = ''LookupError''"
| "error_type (TypeError _) = ''TypeError''"
| "error_type (IndexError _) = ''IndexError''"
| "error_type (AttributeError _) = ''AttributeError''"
| "error_type (OverflowError _) = ''OverflowError''"
| "error_type (IntegrityError _) = ''IntegrityError''"
| "error_type StopIteration = ''StopIteration''"
| "error_type DecimalInvalidOperation = ''InvalidOperation''"

fun error_message :: "error \<Rightarrow> string" where
  "error_message (DomainValidationError m) = m"
| "error_message (InvalidStateTransition m) = m"
| "error_message (WorkflowDefinitionError m) = m"
| "error_message (WorkflowExecutionError m) = m"
| "error_message (ResourceNotFound m) = m"
| "error_message (ResourceConflict m) = m"
| "error_message (BudgetLimitExceeded m) = m"
| "error_message (BudgetUsageRequired m) = m"
| "error_message (ModelRoutingError m) = m"
| "error_message (RuntimeError m) = m"
| "error_message (ValueError m) = m"
| "error_message (KeyError m) = repr_str m"
| "error_message (LookupError m) = m"
| "error_message (TypeError m) = m"
| "error_message (IndexError m) = m"
| "error_message (AttributeError m) = m"
| "error_message (OverflowError m) = m"
| "error_message (IntegrityError m) = m"
| "error_message StopIteration = []"
| "error_message DecimalInvalidOperation = []"

end
