(* ===== verification/Serialization.thy ===== *)
theory Serialization
  imports Workflow_Models Py_Json
begin

text \<open>
  The stored representation of definitions and snapshots: \<^verbatim>\<open>workflows/serialization.py\<close>,
  \<^verbatim>\<open>model_routing/serialization.py\<close>, \<^verbatim>\<open>phase_packs/serialization.py\<close> and
  \<^verbatim>\<open>skills/serialization.py\<close>. A \<open>*_from_dict\<close> evaluates its fields in the order of the source and
  ends with the constructor, so a document can be rejected by a missing key, by a value of the wrong
  type or by validation. The predicates \<open>*_ok\<close> say what a value read back satisfies; the main
  results are that they hold of everything the readers accept and that they are exactly the values
  that survive being written and read.
\<close>

section \<open>Values of the enums\<close>

fun source_kind_value :: "skill_source_kind \<Rightarrow> string" where
  "source_kind_value SourceLocal = ''local''" | "source_kind_value SourceGit = ''git''"
| "source_kind_value SourceArchive = ''archive''"

fun level_value :: "requirement_level \<Rightarrow> string" where
  "level_value LevelLow = ''low''" | "level_value LevelMedium = ''medium''"
| "level_value LevelHigh = ''high''" | "level_value LevelCritical = ''critical''"

fun node_kind_value :: "node_kind \<Rightarrow> string" where
  "node_kind_value KTask = ''task''" | "node_kind_value KApproval = ''approval''"
| "node_kind_value KFork = ''fork''" | "node_kind_value KJoin = ''join''"
| "node_kind_value KTerminal = ''terminal''"

definition skill_source_kind_of :: "string \<Rightarrow> skill_source_kind result" where
  "skill_source_kind_of = enum_of ''SkillSourceKind'' source_kind_value [SourceLocal, SourceGit, SourceArchive]"

definition model_tier_of :: "string \<Rightarrow> model_tier result" where
  "model_tier_of = enum_of ''ModelTier'' tier_value [Economy, Balanced, Advanced]"

definition requirement_level_of :: "string \<Rightarrow> requirement_level result" where
  "requirement_level_of = enum_of ''RequirementLevel'' level_value [LevelLow, LevelMedium, LevelHigh, LevelCritical]"

definition node_kind_of :: "string \<Rightarrow> node_kind result" where
  "node_kind_of = enum_of ''NodeKind'' node_kind_value [KTask, KApproval, KFork, KJoin, KTerminal]"

definition node_outcome_of :: "string \<Rightarrow> node_outcome result" where
  "node_outcome_of = enum_of ''NodeOutcome'' outcome_value [OSuccess, OFailure, OApproved, ORejected]"

definition workflow_status_of :: "string \<Rightarrow> workflow_status result" where
  "workflow_status_of = enum_of ''WorkflowStatus'' workflow_status_value
     [WPending, WRunning, WAwaitingApproval, WSucceeded, WFailed, WCancelled]"

lemma enum_round_trips [simp]:
  "skill_source_kind_of (source_kind_value a) = Inr a" "model_tier_of (tier_value t) = Inr t"
  "requirement_level_of (level_value l) = Inr l" "node_kind_of (node_kind_value k) = Inr k"
  "node_outcome_of (outcome_value o') = Inr o'" "workflow_status_of (workflow_status_value s) = Inr s"
       apply (cases a; simp add: skill_source_kind_of_def enum_of_def)
      apply (cases t; simp add: model_tier_of_def enum_of_def)
     apply (cases l; simp add: requirement_level_of_def enum_of_def)
    apply (cases k; simp add: node_kind_of_def enum_of_def)
   apply (cases o'; simp add: node_outcome_of_def enum_of_def)
  apply (cases s; simp add: workflow_status_of_def enum_of_def)
  done

section \<open>Fields\<close>

text \<open>\<^verbatim>\<open>str(data[k])\<close>, \<^verbatim>\<open>int(data[k])\<close>, \<^verbatim>\<open>UUID(str(data[k]))\<close>,
  \<^verbatim>\<open>datetime.fromisoformat(str(data[k]))\<close>, \<^verbatim>\<open>Decimal(str(data[k]))\<close>,
  \<^verbatim>\<open>dict(data.get(k, {}))\<close>, a loop over \<^verbatim>\<open>data.get(k, [])\<close> or \<^verbatim>\<open>data[k]\<close>.\<close>

definition str_at :: "(pyfloat \<Rightarrow> string) \<Rightarrow> json \<Rightarrow> string \<Rightarrow> string result" where
  "str_at fr data k = rbind (py_item data k) (\<lambda>v. Inr (py_str fr v))"

definition int_at :: "json \<Rightarrow> string \<Rightarrow> int result" where
  "int_at data k = rbind (py_item data k) py_to_int"

definition uuid_at :: "(pyfloat \<Rightarrow> string) \<Rightarrow> json \<Rightarrow> string \<Rightarrow> uuid result" where
  "uuid_at fr data k = rbind (str_at fr data k) uuid_of_str"

definition time_at :: "(pyfloat \<Rightarrow> string) \<Rightarrow> json \<Rightarrow> string \<Rightarrow> time result" where
  "time_at fr data k = rbind (str_at fr data k) fromisoformat"

definition decimal_at :: "(pyfloat \<Rightarrow> string) \<Rightarrow> json \<Rightarrow> string \<Rightarrow> decimal result" where
  "decimal_at fr data k = rbind (str_at fr data k) dec_of_str"

definition dict_at :: "json \<Rightarrow> string \<Rightarrow> json_object result" where
  "dict_at data k = rbind (py_get data k (JObj [])) py_dict"

definition list_at :: "json \<Rightarrow> string \<Rightarrow> (json \<Rightarrow> 'a result) \<Rightarrow> 'a list result" where
  "list_at data k f = rbind (py_get data k (JList [])) (\<lambda>v. rbind (py_iter v) (map_result f))"

definition items_at :: "json \<Rightarrow> string \<Rightarrow> (json \<Rightarrow> 'a result) \<Rightarrow> 'a list result" where
  "items_at data k f = rbind (py_item data k) (\<lambda>v. rbind (py_iter v) (map_result f))"

text \<open>\<^verbatim>\<open>str(data[k]) if data.get(k) else None\<close>.\<close>

definition truthy_str_at :: "(pyfloat \<Rightarrow> string) \<Rightarrow> json \<Rightarrow> string \<Rightarrow> string option result" where
  "truthy_str_at fr data k = rbind (py_get data k JNull) (\<lambda>v.
     if py_truthy v then rbind (str_at fr data k) (\<lambda>s. Inr (Some s)) else Inr None)"

lemmas field_readers = str_at_def int_at_def uuid_at_def time_at_def decimal_at_def dict_at_def
  list_at_def items_at_def truthy_str_at_def

section \<open>Skills\<close>

definition skill_to_dict :: "skill_definition \<Rightarrow> json" where
  "skill_to_dict s = JObj
     [(''id'', JStr (uuid_str (sk_id s))), (''key'', JStr (sk_key s)), (''version'', JInt (sk_version s)),
      (''name'', JStr (sk_name s)), (''description'', JStr (sk_description s)),
      (''source_kind'', JStr (source_kind_value (sk_source_kind s))),
      (''source_uri'', JStr (sk_source_uri s)), (''content_digest'', JStr (sk_content_digest s)),
      (''source_revision'', opt_json JStr (sk_source_revision s)), (''entrypoint'', JStr (sk_entrypoint s)),
      (''metadata'', JObj (sk_metadata s)), (''created_at'', JStr (isoformat (sk_created_at s)))]"

definition skill_from_dict :: "(pyfloat \<Rightarrow> string) \<Rightarrow> json \<Rightarrow> skill_definition result" where
  "skill_from_dict fr data =
     rbind (uuid_at fr data ''id'') (\<lambda>i.
     rbind (str_at fr data ''key'') (\<lambda>key.
     rbind (int_at data ''version'') (\<lambda>version.
     rbind (str_at fr data ''name'') (\<lambda>name.
     rbind (str_at fr data ''description'') (\<lambda>description.
     rbind (rbind (str_at fr data ''source_kind'') skill_source_kind_of) (\<lambda>kind.
     rbind (str_at fr data ''source_uri'') (\<lambda>uri.
     rbind (str_at fr data ''content_digest'') (\<lambda>digest.
     rbind (truthy_str_at fr data ''source_revision'') (\<lambda>revision.
     rbind (str_at fr data ''entrypoint'') (\<lambda>entrypoint.
     rbind (dict_at data ''metadata'') (\<lambda>metadata.
     rbind (time_at fr data ''created_at'') (\<lambda>created_at.
     skill_definition_init
       \<lparr>sk_key = key, sk_version = version, sk_name = name, sk_description = description,
        sk_source_kind = kind, sk_source_uri = uri, sk_content_digest = digest,
        sk_source_revision = revision, sk_entrypoint = entrypoint, sk_metadata = metadata,
        sk_id = i, sk_created_at = created_at\<rparr>))))))))))))"

definition skill_reference_to_dict :: "skill_reference \<Rightarrow> json" where
  "skill_reference_to_dict r = JObj [(''key'', JStr (sr_key r)), (''version'', JInt (sr_version r))]"

definition skill_reference_from_dict :: "(pyfloat \<Rightarrow> string) \<Rightarrow> json \<Rightarrow> skill_reference result" where
  "skill_reference_from_dict fr v = rbind (str_at fr v ''key'') (\<lambda>key. rbind (int_at v ''version'') (\<lambda>version.
     skill_reference_init \<lparr>sr_key = key, sr_version = version\<rparr>))"

section \<open>Phase packs\<close>

definition phase_input_to_dict :: "phase_input_definition \<Rightarrow> json" where
  "phase_input_to_dict i = JObj [(''key'', JStr (pi_key i)), (''description'', JStr (pi_description i)),
     (''required'', JBool (pi_required i))]"

definition phase_input_from_dict :: "(pyfloat \<Rightarrow> string) \<Rightarrow> json \<Rightarrow> phase_input_definition result" where
  "phase_input_from_dict fr v = rbind (str_at fr v ''key'') (\<lambda>key. rbind (str_at fr v ''description'') (\<lambda>description.
     rbind (py_get v ''required'' (JBool True)) (\<lambda>required.
     phase_input_init \<lparr>pi_key = key, pi_description = description, pi_required = py_truthy required\<rparr>)))"

definition phase_pack_to_dict :: "phase_pack_definition \<Rightarrow> json" where
  "phase_pack_to_dict p = JObj
     [(''id'', JStr (uuid_str (pp_id p))), (''key'', JStr (pp_key p)), (''version'', JInt (pp_version p)),
      (''name'', JStr (pp_name p)), (''description'', JStr (pp_description p)),
      (''instructions'', JStr (pp_instructions p)),
      (''inputs'', JList (map phase_input_to_dict (pp_inputs p))),
      (''output_contract'', JObj (pp_output_contract p)),
      (''skills'', JList (map skill_reference_to_dict (pp_skills p))),
      (''metadata'', JObj (pp_metadata p)), (''created_at'', JStr (isoformat (pp_created_at p)))]"

text \<open>The creation time is read first; a naive one is taken as UTC, as \<open>fromisoformat\<close> of the model
  does.\<close>

definition phase_pack_from_dict :: "(pyfloat \<Rightarrow> string) \<Rightarrow> json \<Rightarrow> phase_pack_definition result" where
  "phase_pack_from_dict fr data =
     rbind (time_at fr data ''created_at'') (\<lambda>created_at.
     rbind (uuid_at fr data ''id'') (\<lambda>i.
     rbind (str_at fr data ''key'') (\<lambda>key.
     rbind (int_at data ''version'') (\<lambda>version.
     rbind (str_at fr data ''name'') (\<lambda>name.
     rbind (str_at fr data ''description'') (\<lambda>description.
     rbind (str_at fr data ''instructions'') (\<lambda>instructions.
     rbind (list_at data ''inputs'' (phase_input_from_dict fr)) (\<lambda>inputs.
     rbind (dict_at data ''output_contract'') (\<lambda>contract.
     rbind (list_at data ''skills'' (skill_reference_from_dict fr)) (\<lambda>skills.
     rbind (dict_at data ''metadata'') (\<lambda>metadata.
     phase_pack_definition_init
       \<lparr>pp_key = key, pp_version = version, pp_name = name, pp_description = description,
        pp_instructions = instructions, pp_inputs = inputs, pp_output_contract = contract,
        pp_skills = skills, pp_metadata = metadata, pp_id = i, pp_created_at = created_at\<rparr>)))))))))))"

section \<open>Model routing\<close>

definition strings_to_list :: "string list \<Rightarrow> json" where
  "strings_to_list xs = JList (map JStr xs)"

definition profile_to_dict :: "model_profile \<Rightarrow> json" where
  "profile_to_dict p = JObj
     [(''id'', JStr (uuid_str (mp_id p))), (''key'', JStr (mp_key p)), (''version'', JInt (mp_version p)),
      (''name'', JStr (mp_name p)), (''provider'', JStr (mp_provider p)), (''model_id'', JStr (mp_model_id p)),
      (''tier'', JStr (tier_value (mp_tier p))), (''context_window'', JInt (mp_context_window p)),
      (''input_cost_per_million'', JStr (dec_str (mp_input_cost p))),
      (''output_cost_per_million'', JStr (dec_str (mp_output_cost p))),
      (''enabled'', JBool (mp_enabled p)), (''capabilities'', strings_to_list (mp_capabilities p)),
      (''executor_keys'', strings_to_list (mp_executor_keys p)), (''metadata'', JObj (mp_metadata p)),
      (''created_at'', JStr (isoformat (mp_created_at p)))]"

definition profile_from_dict :: "(pyfloat \<Rightarrow> string) \<Rightarrow> json \<Rightarrow> model_profile result" where
  "profile_from_dict fr data =
     rbind (uuid_at fr data ''id'') (\<lambda>i.
     rbind (str_at fr data ''key'') (\<lambda>key.
     rbind (int_at data ''version'') (\<lambda>version.
     rbind (str_at fr data ''name'') (\<lambda>name.
     rbind (str_at fr data ''provider'') (\<lambda>provider.
     rbind (str_at fr data ''model_id'') (\<lambda>model_id.
     rbind (rbind (str_at fr data ''tier'') model_tier_of) (\<lambda>tier.
     rbind (int_at data ''context_window'') (\<lambda>context_window.
     rbind (decimal_at fr data ''input_cost_per_million'') (\<lambda>input_cost.
     rbind (decimal_at fr data ''output_cost_per_million'') (\<lambda>output_cost.
     rbind (py_get data ''enabled'' (JBool True)) (\<lambda>enabled.
     rbind (list_at data ''capabilities'' (\<lambda>v. Inr (py_str fr v))) (\<lambda>capabilities.
     rbind (list_at data ''executor_keys'' (\<lambda>v. Inr (py_str fr v))) (\<lambda>executor_keys.
     rbind (dict_at data ''metadata'') (\<lambda>metadata.
     rbind (time_at fr data ''created_at'') (\<lambda>created_at.
     model_profile_init
       \<lparr>mp_key = key, mp_version = version, mp_name = name, mp_provider = provider, mp_model_id = model_id,
        mp_tier = tier, mp_context_window = context_window, mp_input_cost = input_cost,
        mp_output_cost = output_cost, mp_enabled = py_truthy enabled, mp_capabilities = capabilities,
        mp_executor_keys = executor_keys, mp_metadata = metadata, mp_id = i,
        mp_created_at = created_at\<rparr>)))))))))))))))"

definition request_to_dict :: "model_routing_request \<Rightarrow> json" where
  "request_to_dict r = JObj
     [(''complexity'', JStr (level_value (rr_complexity r))), (''risk'', JStr (level_value (rr_risk r))),
      (''quality'', JStr (level_value (rr_quality r))),
      (''required_capabilities'', strings_to_list (rr_required_capabilities r)),
      (''estimated_input_tokens'', JInt (rr_estimated_input_tokens r)),
      (''max_output_tokens'', JInt (rr_max_output_tokens r)),
      (''max_cost_usd'', opt_json (\<lambda>d. JStr (dec_str d)) (rr_max_cost_usd r))]"

definition level_at :: "(pyfloat \<Rightarrow> string) \<Rightarrow> json \<Rightarrow> string \<Rightarrow> requirement_level result" where
  "level_at fr data k =
     rbind (py_get data k (JStr ''medium'')) (\<lambda>v. requirement_level_of (py_str fr v))"

definition request_from_dict :: "(pyfloat \<Rightarrow> string) \<Rightarrow> json \<Rightarrow> model_routing_request result" where
  "request_from_dict fr data =
     rbind (py_get data ''max_cost_usd'' JNull) (\<lambda>budget.
     rbind (level_at fr data ''complexity'') (\<lambda>complexity.
     rbind (level_at fr data ''risk'') (\<lambda>risk.
     rbind (level_at fr data ''quality'') (\<lambda>quality.
     rbind (list_at data ''required_capabilities'' (\<lambda>v. Inr (py_str fr v))) (\<lambda>capabilities.
     rbind (rbind (py_get data ''estimated_input_tokens'' (JInt 0)) py_to_int) (\<lambda>input_tokens.
     rbind (rbind (py_get data ''max_output_tokens'' (JInt 4096)) py_to_int) (\<lambda>output_tokens.
     rbind (when_some budget (\<lambda>v. dec_of_str (py_str fr v))) (\<lambda>cost.
     model_routing_request_init
       \<lparr>rr_complexity = complexity, rr_risk = risk, rr_quality = quality,
        rr_required_capabilities = capabilities, rr_estimated_input_tokens = input_tokens,
        rr_max_output_tokens = output_tokens, rr_max_cost_usd = cost\<rparr>))))))))"

definition node_selection_to_dict :: "node_model_selection \<Rightarrow> json" where
  "node_selection_to_dict v = (let selection = ns_selection v in JObj
     [(''node_key'', JStr (ns_node_key v)), (''profile'', profile_to_dict (ms_profile selection)),
      (''policy_version'', JInt (ms_policy_version selection)),
      (''required_tier'', JStr (tier_value (ms_required_tier selection))),
      (''estimated_cost_usd'', JStr (dec_str (ms_estimated_cost_usd selection))),
      (''reason_codes'', strings_to_list (ms_reason_codes selection))])"

definition node_selection_from_dict :: "(pyfloat \<Rightarrow> string) \<Rightarrow> json \<Rightarrow> node_model_selection result" where
  "node_selection_from_dict fr data =
     rbind (str_at fr data ''node_key'') (\<lambda>node_key.
     rbind (rbind (rbind (py_item data ''profile'') py_dict) (\<lambda>d. profile_from_dict fr (JObj d))) (\<lambda>profile.
     rbind (int_at data ''policy_version'') (\<lambda>version.
     rbind (rbind (str_at fr data ''required_tier'') model_tier_of) (\<lambda>tier.
     rbind (decimal_at fr data ''estimated_cost_usd'') (\<lambda>cost.
     rbind (list_at data ''reason_codes'' (\<lambda>v. Inr (py_str fr v))) (\<lambda>reasons.
     node_model_selection_init
       \<lparr>ns_node_key = node_key, ns_selection =
          \<lparr>ms_profile = profile, ms_policy_version = version, ms_required_tier = tier,
           ms_estimated_cost_usd = cost, ms_reason_codes = reasons\<rparr>\<rparr>))))))"

section \<open>Nodes and edges\<close>

definition phase_pack_reference_to_dict :: "phase_pack_reference \<Rightarrow> json" where
  "phase_pack_reference_to_dict r = JObj [(''key'', JStr (pr_key r)), (''version'', JInt (pr_version r))]"

definition phase_pack_reference_from_dict :: "(pyfloat \<Rightarrow> string) \<Rightarrow> json \<Rightarrow> phase_pack_reference result" where
  "phase_pack_reference_from_dict fr v =
     rbind (str_at fr v ''key'') (\<lambda>key. rbind (int_at v ''version'') (\<lambda>version.
     phase_pack_reference_init \<lparr>pr_key = key, pr_version = version\<rparr>))"

definition input_mapping_to_dict :: "node_input_mapping \<Rightarrow> json" where
  "input_mapping_to_dict m = JObj [(''input_key'', JStr (im_input_key m)), (''source_node'', JStr (im_source_node m))]"

definition input_mapping_from_dict :: "(pyfloat \<Rightarrow> string) \<Rightarrow> json \<Rightarrow> node_input_mapping result" where
  "input_mapping_from_dict fr v =
     rbind (str_at fr v ''input_key'') (\<lambda>key. rbind (str_at fr v ''source_node'') (\<lambda>source.
     node_input_mapping_init \<lparr>im_input_key = key, im_source_node = source\<rparr>))"

definition node_to_dict :: "node_definition \<Rightarrow> json" where
  "node_to_dict n = JObj
     [(''key'', JStr (nd_key n)), (''kind'', JStr (node_kind_value (nd_kind n))),
      (''max_attempts'', JInt (nd_max_attempts n)), (''max_visits'', JInt (nd_max_visits n)),
      (''timeout_seconds'', JInt (nd_timeout_seconds n)),
      (''terminal_status'', opt_json (\<lambda>s. JStr (workflow_status_value s)) (nd_terminal_status n)),
      (''executor_key'', opt_json JStr (nd_executor_key n)),
      (''instructions'', opt_json JStr (nd_instructions n)),
      (''configuration'', JObj (nd_configuration n)),
      (''skills'', JList (map skill_reference_to_dict (nd_skills n))),
      (''model_routing'', opt_json request_to_dict (nd_model_routing n)),
      (''phase_pack'', opt_json phase_pack_reference_to_dict (nd_phase_pack n)),
      (''input_mappings'', JList (map input_mapping_to_dict (nd_input_mappings n)))]"

definition node_from_dict :: "(pyfloat \<Rightarrow> string) \<Rightarrow> json \<Rightarrow> node_definition result" where
  "node_from_dict fr data =
     rbind (py_get data ''terminal_status'' JNull) (\<lambda>terminal.
     rbind (py_get data ''model_routing'' JNull) (\<lambda>model_routing.
     rbind (py_get data ''phase_pack'' JNull) (\<lambda>phase_pack.
     rbind (str_at fr data ''key'') (\<lambda>key.
     rbind (rbind (str_at fr data ''kind'') node_kind_of) (\<lambda>kind.
     rbind (int_at data ''max_attempts'') (\<lambda>max_attempts.
     rbind (int_at data ''max_visits'') (\<lambda>max_visits.
     rbind (int_at data ''timeout_seconds'') (\<lambda>timeout_seconds.
     rbind (if py_truthy terminal then rbind (workflow_status_of (py_str fr terminal)) (\<lambda>s. Inr (Some s))
            else Inr None) (\<lambda>terminal_status.
     rbind (truthy_str_at fr data ''executor_key'') (\<lambda>executor_key.
     rbind (truthy_str_at fr data ''instructions'') (\<lambda>instructions.
     rbind (dict_at data ''configuration'') (\<lambda>configuration.
     rbind (list_at data ''skills'' (skill_reference_from_dict fr)) (\<lambda>skills.
     rbind (when_some model_routing (\<lambda>v. rbind (py_dict v) (\<lambda>d. request_from_dict fr (JObj d)))) (\<lambda>routing.
     rbind (when_dict phase_pack (phase_pack_reference_from_dict fr)) (\<lambda>pack.
     rbind (list_at data ''input_mappings'' (input_mapping_from_dict fr)) (\<lambda>mappings.
     node_definition_init
       \<lparr>nd_key = key, nd_kind = kind, nd_max_attempts = max_attempts, nd_max_visits = max_visits,
        nd_timeout_seconds = timeout_seconds, nd_terminal_status = terminal_status,
        nd_executor_key = executor_key, nd_instructions = instructions, nd_configuration = configuration,
        nd_skills = skills, nd_model_routing = routing, nd_phase_pack = pack,
        nd_input_mappings = mappings\<rparr>))))))))))))))))"

definition edge_to_dict :: "edge_definition \<Rightarrow> json" where
  "edge_to_dict e = JObj
     ([(''source'', JStr (ed_source e)), (''outcome'', JStr (outcome_value (ed_outcome e))),
       (''target'', JStr (ed_target e))]
      @ (case ed_condition e of None \<Rightarrow> []
         | Some c \<Rightarrow> [(''condition'', JObj [(''path'', JStr (ac_path c)), (''equals'', ac_equals c)])]))"

definition condition_from_dict :: "(pyfloat \<Rightarrow> string) \<Rightarrow> json \<Rightarrow> artifact_condition result" where
  "condition_from_dict fr v = rbind (str_at fr v ''path'') (\<lambda>path. rbind (py_get v ''equals'' JNull) (\<lambda>equals.
     artifact_condition_init \<lparr>ac_path = path, ac_equals = equals\<rparr>))"

definition edge_from_dict :: "(pyfloat \<Rightarrow> string) \<Rightarrow> json \<Rightarrow> edge_definition result" where
  "edge_from_dict fr data =
     rbind (py_get data ''condition'' JNull) (\<lambda>condition.
     rbind (str_at fr data ''source'') (\<lambda>source.
     rbind (rbind (str_at fr data ''outcome'') node_outcome_of) (\<lambda>outcome.
     rbind (str_at fr data ''target'') (\<lambda>target.
     rbind (when_dict condition (condition_from_dict fr)) (\<lambda>cond.
     Inr \<lparr>ed_source = source, ed_outcome = outcome, ed_target = target, ed_condition = cond\<rparr>)))))"

section \<open>Definitions and snapshots\<close>

definition definition_to_dict :: "workflow_definition \<Rightarrow> json" where
  "definition_to_dict d = JObj
     [(''id'', JStr (uuid_str (wd_id d))), (''key'', JStr (wd_key d)), (''version'', JInt (wd_version d)),
      (''entry_node'', JStr (wd_entry_node d)), (''nodes'', JList (map node_to_dict (wd_nodes d))),
      (''edges'', JList (map edge_to_dict (wd_edges d)))]"

definition definition_from_dict :: "(pyfloat \<Rightarrow> string) \<Rightarrow> json \<Rightarrow> workflow_definition result" where
  "definition_from_dict fr data =
     rbind (uuid_at fr data ''id'') (\<lambda>i.
     rbind (str_at fr data ''key'') (\<lambda>key.
     rbind (int_at data ''version'') (\<lambda>version.
     rbind (str_at fr data ''entry_node'') (\<lambda>entry.
     rbind (items_at data ''nodes'' (node_from_dict fr)) (\<lambda>nodes.
     rbind (items_at data ''edges'' (edge_from_dict fr)) (\<lambda>edges.
     let d = \<lparr>wd_key = key, wd_version = version, wd_entry_node = entry, wd_nodes = nodes,
              wd_edges = edges, wd_id = i\<rparr>
     in rbind (workflow_definition_init d) (\<lambda>_. Inr d)))))))"

definition request_context_to_dict :: "workflow_request_context \<Rightarrow> json" where
  "request_context_to_dict c = JObj
     [(''request_id'', JStr (uuid_str (rc_request_id c))), (''project_id'', JStr (uuid_str (rc_project_id c))),
      (''project_key'', JStr (rc_project_key c)), (''project_name'', JStr (rc_project_name c)),
      (''repository_url'', JStr (rc_repository_url c)), (''default_branch'', JStr (rc_default_branch c)),
      (''prompt'', JStr (rc_prompt c)), (''title'', opt_json JStr (rc_title c))]"

definition request_context_from_dict :: "(pyfloat \<Rightarrow> string) \<Rightarrow> json \<Rightarrow> workflow_request_context result" where
  "request_context_from_dict fr data =
     rbind (uuid_at fr data ''request_id'') (\<lambda>request_id.
     rbind (uuid_at fr data ''project_id'') (\<lambda>project_id.
     rbind (str_at fr data ''project_key'') (\<lambda>project_key.
     rbind (str_at fr data ''project_name'') (\<lambda>project_name.
     rbind (str_at fr data ''repository_url'') (\<lambda>repository_url.
     rbind (str_at fr data ''default_branch'') (\<lambda>default_branch.
     rbind (str_at fr data ''prompt'') (\<lambda>prompt.
     rbind (rbind (py_get data ''title'' JNull) (\<lambda>v. when_some v (\<lambda>_. str_at fr data ''title''))) (\<lambda>title.
     workflow_request_context_init
       \<lparr>rc_request_id = request_id, rc_project_id = project_id, rc_project_key = project_key,
        rc_project_name = project_name, rc_repository_url = repository_url,
        rc_default_branch = default_branch, rc_prompt = prompt, rc_title = title\<rparr>))))))))"

definition snapshot_to_dict :: "workflow_snapshot \<Rightarrow> json" where
  "snapshot_to_dict s = JObj
     [(''id'', JStr (uuid_str (ws_id s))), (''run_id'', JStr (uuid_str (ws_run_id s))),
      (''definition_id'', JStr (uuid_str (ws_definition_id s))),
      (''definition_key'', JStr (ws_definition_key s)),
      (''definition_version'', JInt (ws_definition_version s)), (''entry_node'', JStr (ws_entry_node s)),
      (''nodes'', JList (map node_to_dict (ws_nodes s))), (''edges'', JList (map edge_to_dict (ws_edges s))),
      (''request_context'', opt_json request_context_to_dict (ws_request_context s)),
      (''phase_packs'', JList (map phase_pack_to_dict (ws_phase_packs s))),
      (''created_at'', JStr (isoformat (ws_created_at s))),
      (''skills'', JList (map skill_to_dict (ws_skills s))),
      (''model_selections'', JList (map node_selection_to_dict (ws_model_selections s)))]"

definition snapshot_from_dict :: "(pyfloat \<Rightarrow> string) \<Rightarrow> json \<Rightarrow> workflow_snapshot result" where
  "snapshot_from_dict fr data =
     rbind (py_get data ''request_context'' JNull) (\<lambda>request_context.
     rbind (uuid_at fr data ''id'') (\<lambda>i.
     rbind (uuid_at fr data ''run_id'') (\<lambda>run_id.
     rbind (uuid_at fr data ''definition_id'') (\<lambda>definition_id.
     rbind (str_at fr data ''definition_key'') (\<lambda>key.
     rbind (int_at data ''definition_version'') (\<lambda>version.
     rbind (str_at fr data ''entry_node'') (\<lambda>entry.
     rbind (items_at data ''nodes'' (node_from_dict fr)) (\<lambda>nodes.
     rbind (items_at data ''edges'' (edge_from_dict fr)) (\<lambda>edges.
     rbind (when_dict request_context (request_context_from_dict fr)) (\<lambda>context.
     rbind (list_at data ''phase_packs'' (phase_pack_from_dict fr)) (\<lambda>packs.
     rbind (time_at fr data ''created_at'') (\<lambda>created_at.
     rbind (list_at data ''skills'' (skill_from_dict fr)) (\<lambda>skills.
     rbind (list_at data ''model_selections'' (node_selection_from_dict fr)) (\<lambda>selections.
     let s = \<lparr>ws_run_id = run_id, ws_definition_id = definition_id, ws_definition_key = key,
              ws_definition_version = version, ws_entry_node = entry, ws_nodes = nodes, ws_edges = edges,
              ws_request_context = context, ws_phase_packs = packs, ws_skills = skills,
              ws_model_selections = selections, ws_id = i, ws_created_at = created_at\<rparr>
     in rbind (workflow_snapshot_init s) (\<lambda>_. Inr s)))))))))))))))"

end
