(* ===== verification/Serialization_Roundtrip.thy ===== *)
theory Serialization_Roundtrip
  imports Serialization Workflow_Examples
begin

text \<open>
  Definitions and snapshots survive storage. For every record there are two lemmas: writing and
  reading a well-formed value gives it back (\<open>*_round\<close>), and a value that was read is well-formed
  (\<open>*_read_ok\<close>). Together they characterise the values that can be stored without change.
\<close>

section \<open>Normalizing constructors are idempotent\<close>

lemma sorted_set_idem [simp]: "sorted_set (sorted_set xs) = sorted_set xs"
  by (simp add: sorted_set_def distinct_remdups_id sort_key_id_if_sorted)

lemma fix_prec_bound: "\<bar>coeff (fix_prec d)\<bar> < 10 ^ 28"
proof (cases "\<bar>coeff d\<bar> < 10 ^ 28")
  case False
  define n k q where "n = digits \<bar>coeff d\<bar>" and "k = n - 28" and "q = half_even (coeff d) (10 ^ k)"
  have n: "28 < n" using False digits_le_iff[of 28 "\<bar>coeff d\<bar>"] by (simp add: n_def)
  have "\<bar>coeff d\<bar> < 10 ^ n" using digits_le_iff[of n "\<bar>coeff d\<bar>"] n by (simp add: n_def)
  moreover have "n = 28 + k" using n by (simp add: k_def)
  ultimately have "\<bar>coeff d\<bar> \<le> 10 ^ 28 * 10 ^ k" by (simp add: power_add)
  then have "q \<le> 10 ^ 28" "- (10 ^ 28) \<le> q"
    unfolding q_def by (auto intro!: half_even_le half_even_ge)
  moreover have "fix_prec d = (if \<bar>q\<bar> = 10 ^ 28 then Dec (q div 10) (expo d + int k + 1) else Dec q (expo d + int k))"
    using n by (simp add: fix_prec_def Let_def n_def k_def q_def)
  moreover have "\<bar>q div 10\<bar> < 10 ^ 28" if "\<bar>q\<bar> = 10 ^ 28"
  proof -
    have "q = 10 ^ 28 \<or> q = - (10 ^ 28)" using that by linarith
    then show ?thesis by auto
  qed
  ultimately show ?thesis by auto
qed (simp add: fix_prec_small)

lemma strip_zeros_normal: "strip_zeros c e = Dec c' e' \<Longrightarrow> \<bar>c'\<bar> \<le> \<bar>c\<bar> \<and> strip_zeros c' e' = Dec c' e'"
proof (induction c e rule: strip_zeros.induct)
  case (1 c e)
  consider "c = 0" | "c \<noteq> 0" "c mod 10 = 0" | "c \<noteq> 0" "c mod 10 \<noteq> 0" by blast
  then show ?case
  proof cases
    case 2
    then have "\<bar>c div 10\<bar> \<le> \<bar>c\<bar>" by auto
    moreover have "strip_zeros (c div 10) (e + 1) = Dec c' e'"
      using 1(2) 2 by (subst (asm) strip_zeros.simps) simp
    ultimately show ?thesis using 1(1) 2 by fastforce
  qed (use 1(2) in \<open>auto simp: strip_zeros.simps split: if_splits\<close>)
qed

lemma dec_normalize_idem [simp]: "dec_normalize (dec_normalize d) = dec_normalize d"
proof -
  obtain c e where ce: "strip_zeros (coeff (fix_prec d)) (expo (fix_prec d)) = Dec c e"
    by (cases "strip_zeros (coeff (fix_prec d)) (expo (fix_prec d))")
  then have "\<bar>c\<bar> \<le> \<bar>coeff (fix_prec d)\<bar>" "strip_zeros c e = Dec c e"
    using strip_zeros_normal by blast+
  moreover have "fix_prec (Dec c e) = Dec c e"
    using calculation(1) fix_prec_bound[of d] by (intro fix_prec_small) simp
  ultimately show ?thesis using ce by (simp add: dec_normalize_def Let_def)
qed

lemma model_profile_init_idem: "model_profile_init p = Inr q \<Longrightarrow> model_profile_init q = Inr q"
  by (auto simp: model_profile_init_def Let_def split: option.splits if_splits)

lemma model_routing_request_init_idem: "model_routing_request_init p = Inr q \<Longrightarrow> model_routing_request_init q = Inr q"
  by (auto simp: model_routing_request_init_def Let_def split: option.splits if_splits)

lemma constructors_check:
  "skill_reference_init a = Inr a' \<Longrightarrow> a' = a"
  "phase_pack_reference_init b = Inr b' \<Longrightarrow> b' = b"
  "phase_input_init c = Inr c' \<Longrightarrow> c' = c"
  "node_input_mapping_init f = Inr f' \<Longrightarrow> f' = f"
  "artifact_condition_init g = Inr g' \<Longrightarrow> g' = g"
  "workflow_request_context_init h = Inr h' \<Longrightarrow> h' = h"
  "node_model_selection_init k = Inr k' \<Longrightarrow> k' = k"
  by (auto simp: skill_reference_init_def phase_pack_reference_init_def phase_input_init_def
      node_input_mapping_init_def artifact_condition_init_def workflow_request_context_init_def
      node_model_selection_init_def split: if_splits)

lemma skill_definition_init_same: "skill_definition_init d = Inr d' \<Longrightarrow> d' = d"
  by (auto simp: skill_definition_init_def split: if_splits option.splits)

lemma phase_pack_definition_init_same: "phase_pack_definition_init d = Inr d' \<Longrightarrow> d' = d"
  by (auto simp: phase_pack_definition_init_def split: if_splits option.splits)

section \<open>Well-formed values\<close>

definition skill_ok :: "skill_definition \<Rightarrow> bool" where
  "skill_ok s \<longleftrightarrow> uuid_ok (sk_id s) \<and> time_ok (sk_created_at s) \<and> sk_source_revision s \<noteq> Some []
     \<and> skill_definition_init s = Inr s"

definition phase_pack_ok :: "phase_pack_definition \<Rightarrow> bool" where
  "phase_pack_ok p \<longleftrightarrow> uuid_ok (pp_id p) \<and> time_ok (pp_created_at p)
     \<and> list_all (\<lambda>i. phase_input_init i = Inr i) (pp_inputs p)
     \<and> list_all (\<lambda>r. skill_reference_init r = Inr r) (pp_skills p) \<and> phase_pack_definition_init p = Inr p"

definition profile_ok :: "model_profile \<Rightarrow> bool" where
  "profile_ok p \<longleftrightarrow> uuid_ok (mp_id p) \<and> time_ok (mp_created_at p) \<and> model_profile_init p = Inr p"

definition selection_ok :: "node_model_selection \<Rightarrow> bool" where
  "selection_ok s \<longleftrightarrow> profile_ok (ms_profile (ns_selection s)) \<and> node_model_selection_init s = Inr s"

definition node_ok :: "node_definition \<Rightarrow> bool" where
  "node_ok n \<longleftrightarrow> list_all (\<lambda>r. skill_reference_init r = Inr r) (nd_skills n)
     \<and> list_all (\<lambda>m. node_input_mapping_init m = Inr m) (nd_input_mappings n)
     \<and> opt_all (\<lambda>r. model_routing_request_init r = Inr r) (nd_model_routing n)
     \<and> opt_all (\<lambda>r. phase_pack_reference_init r = Inr r) (nd_phase_pack n) \<and> node_definition_init n = Inr n"

definition edge_ok :: "edge_definition \<Rightarrow> bool" where
  "edge_ok e \<longleftrightarrow> opt_all (\<lambda>c. artifact_condition_init c = Inr c) (ed_condition e)"

definition definition_ok :: "workflow_definition \<Rightarrow> bool" where
  "definition_ok d \<longleftrightarrow> uuid_ok (wd_id d) \<and> list_all node_ok (wd_nodes d) \<and> list_all edge_ok (wd_edges d)
     \<and> workflow_definition_init d = Inr ()"

definition context_ok :: "workflow_request_context \<Rightarrow> bool" where
  "context_ok c \<longleftrightarrow> uuid_ok (rc_request_id c) \<and> uuid_ok (rc_project_id c)
     \<and> workflow_request_context_init c = Inr c"

definition snapshot_ok :: "workflow_snapshot \<Rightarrow> bool" where
  "snapshot_ok s \<longleftrightarrow> uuid_ok (ws_id s) \<and> uuid_ok (ws_run_id s) \<and> uuid_ok (ws_definition_id s)
     \<and> time_ok (ws_created_at s) \<and> list_all node_ok (ws_nodes s) \<and> list_all edge_ok (ws_edges s)
     \<and> opt_all context_ok (ws_request_context s) \<and> list_all phase_pack_ok (ws_phase_packs s)
     \<and> list_all skill_ok (ws_skills s) \<and> list_all selection_ok (ws_model_selections s)
     \<and> workflow_snapshot_init s = Inr ()"

section \<open>Writing and reading\<close>

text \<open>A record rebuilt from its fields is the record.\<close>

lemma record_eta:
  "\<lparr>sr_key = sr_key x0, sr_version = sr_version x0\<rparr> = (x0 :: skill_reference)"
  "\<lparr>sk_key = sk_key x1, sk_version = sk_version x1, sk_name = sk_name x1, sk_description
     = sk_description x1, sk_source_kind = sk_source_kind x1, sk_source_uri = sk_source_uri x1,
     sk_content_digest = sk_content_digest x1, sk_source_revision = sk_source_revision x1,
     sk_entrypoint = sk_entrypoint x1, sk_metadata = sk_metadata x1, sk_id = sk_id x1,
     sk_created_at = sk_created_at x1\<rparr> = (x1 :: skill_definition)"
  "\<lparr>pr_key = pr_key x2, pr_version = pr_version x2\<rparr> = (x2 ::
     phase_pack_reference)"
  "\<lparr>pi_key = pi_key x3, pi_description = pi_description x3, pi_required = pi_required
     x3\<rparr> = (x3 :: phase_input_definition)"
  "\<lparr>pp_key = pp_key x4, pp_version = pp_version x4, pp_name = pp_name x4, pp_description
     = pp_description x4, pp_instructions = pp_instructions x4, pp_inputs = pp_inputs x4,
     pp_output_contract = pp_output_contract x4, pp_skills = pp_skills x4, pp_metadata =
     pp_metadata x4, pp_id = pp_id x4, pp_created_at = pp_created_at x4\<rparr> = (x4 ::
     phase_pack_definition)"
  "\<lparr>mp_key = mp_key x5, mp_version = mp_version x5, mp_name = mp_name x5, mp_provider =
     mp_provider x5, mp_model_id = mp_model_id x5, mp_tier = mp_tier x5, mp_context_window =
     mp_context_window x5, mp_input_cost = mp_input_cost x5, mp_output_cost = mp_output_cost
     x5, mp_enabled = mp_enabled x5, mp_capabilities = mp_capabilities x5, mp_executor_keys =
     mp_executor_keys x5, mp_metadata = mp_metadata x5, mp_id = mp_id x5, mp_created_at =
     mp_created_at x5\<rparr> = (x5 :: model_profile)"
  "\<lparr>rr_complexity = rr_complexity x6, rr_risk = rr_risk x6, rr_quality = rr_quality x6,
     rr_required_capabilities = rr_required_capabilities x6, rr_estimated_input_tokens =
     rr_estimated_input_tokens x6, rr_max_output_tokens = rr_max_output_tokens x6,
     rr_max_cost_usd = rr_max_cost_usd x6\<rparr> = (x6 :: model_routing_request)"
  "\<lparr>ms_profile = ms_profile x7, ms_policy_version = ms_policy_version x7,
     ms_required_tier = ms_required_tier x7, ms_estimated_cost_usd = ms_estimated_cost_usd x7,
     ms_reason_codes = ms_reason_codes x7\<rparr> = (x7 :: model_selection)"
  "\<lparr>ns_node_key = ns_node_key x8, ns_selection = ns_selection x8\<rparr> = (x8 ::
     node_model_selection)"
  "\<lparr>rc_request_id = rc_request_id x9, rc_project_id = rc_project_id x9, rc_project_key =
     rc_project_key x9, rc_project_name = rc_project_name x9, rc_repository_url =
     rc_repository_url x9, rc_default_branch = rc_default_branch x9, rc_prompt = rc_prompt x9,
     rc_title = rc_title x9\<rparr> = (x9 :: workflow_request_context)"
  "\<lparr>im_input_key = im_input_key x10, im_source_node = im_source_node x10\<rparr> = (x10
     :: node_input_mapping)"
  "\<lparr>nd_key = nd_key x11, nd_kind = nd_kind x11, nd_max_attempts = nd_max_attempts x11,
     nd_max_visits = nd_max_visits x11, nd_timeout_seconds = nd_timeout_seconds x11,
     nd_terminal_status = nd_terminal_status x11, nd_executor_key = nd_executor_key x11,
     nd_instructions = nd_instructions x11, nd_configuration = nd_configuration x11, nd_skills
     = nd_skills x11, nd_model_routing = nd_model_routing x11, nd_phase_pack = nd_phase_pack
     x11, nd_input_mappings = nd_input_mappings x11\<rparr> = (x11 :: node_definition)"
  "\<lparr>ac_path = ac_path x12, ac_equals = ac_equals x12\<rparr> = (x12 ::
     artifact_condition)"
  "\<lparr>ed_source = ed_source x13, ed_outcome = ed_outcome x13, ed_target = ed_target x13,
     ed_condition = ed_condition x13\<rparr> = (x13 :: edge_definition)"
  "\<lparr>wd_key = wd_key x14, wd_version = wd_version x14, wd_entry_node = wd_entry_node x14,
     wd_nodes = wd_nodes x14, wd_edges = wd_edges x14, wd_id = wd_id x14\<rparr> = (x14 ::
     workflow_definition)"
  "\<lparr>ws_run_id = ws_run_id x15, ws_definition_id = ws_definition_id x15,
     ws_definition_key = ws_definition_key x15, ws_definition_version = ws_definition_version
     x15, ws_entry_node = ws_entry_node x15, ws_nodes = ws_nodes x15, ws_edges = ws_edges x15,
     ws_request_context = ws_request_context x15, ws_phase_packs = ws_phase_packs x15,
     ws_skills = ws_skills x15, ws_model_selections = ws_model_selections x15, ws_id = ws_id
     x15, ws_created_at = ws_created_at x15\<rparr> = (x15 :: workflow_snapshot)"
  by simp_all

lemmas readers = record_eta str_at_def int_at_def uuid_at_def time_at_def decimal_at_def dict_at_def uuid_of_uuid_str fromisoformat_isoformat dec_of_dec_str

lemma list_at_strings: "list_at (JObj kvs) k (\<lambda>v. Inr (py_str fr v)) = Inr xs"
  if "map_of kvs k = Some (strings_to_list xs)"
  using that by (simp add: list_at_def strings_to_list_def map_result_map)

lemma list_at_map:
  "map_of kvs k = Some (JList (map f xs)) \<Longrightarrow> (\<And>x. x \<in> set xs \<Longrightarrow> g (f x) = Inr x)
     \<Longrightarrow> list_at (JObj kvs) k g = Inr xs"
  by (simp add: list_at_def map_result_map)

lemma items_at_map:
  "map_of kvs k = Some (JList (map f xs)) \<Longrightarrow> (\<And>x. x \<in> set xs \<Longrightarrow> g (f x) = Inr x)
     \<Longrightarrow> items_at (JObj kvs) k g = Inr xs"
  by (simp add: items_at_def map_result_map)

lemma truthy_str_at_opt:
  "map_of kvs k = Some (opt_json JStr x) \<Longrightarrow> x \<noteq> Some [] \<Longrightarrow> truthy_str_at fr (JObj kvs) k = Inr x"
  by (cases x) (auto simp: truthy_str_at_def str_at_def)

lemma skill_round: "skill_ok s \<Longrightarrow> skill_from_dict fr (skill_to_dict s) = Inr s"
  by (simp add: skill_from_dict_def skill_to_dict_def truthy_str_at_opt skill_ok_def readers)

lemma skill_reference_round:
  "skill_reference_init r = Inr r \<Longrightarrow> skill_reference_from_dict fr (skill_reference_to_dict r) = Inr r"
  by (simp add: skill_reference_from_dict_def skill_reference_to_dict_def readers)

lemma phase_input_round: "phase_input_init i = Inr i \<Longrightarrow> phase_input_from_dict fr (phase_input_to_dict i) = Inr i"
  by (simp add: phase_input_from_dict_def phase_input_to_dict_def readers)

lemma phase_pack_round: "phase_pack_ok p \<Longrightarrow> phase_pack_from_dict fr (phase_pack_to_dict p) = Inr p"
  by (simp add: phase_pack_from_dict_def phase_pack_to_dict_def phase_pack_ok_def readers list_all_iff
      list_at_map[where f = phase_input_to_dict] list_at_map[where f = skill_reference_to_dict]
      phase_input_round skill_reference_round)

lemma profile_round: "profile_ok p \<Longrightarrow> profile_from_dict fr (profile_to_dict p) = Inr p"
  by (simp add: profile_from_dict_def profile_to_dict_def profile_ok_def readers list_at_strings)

lemma request_round:
  "model_routing_request_init r = Inr r \<Longrightarrow> request_from_dict fr (request_to_dict r) = Inr r"
  by (simp add: request_from_dict_def request_to_dict_def level_at_def readers list_at_strings when_some_opt)

lemma py_dict_same: "is_dict v \<Longrightarrow> rbind (py_dict v) (\<lambda>d. f (JObj d)) = f v"
  by (cases v) simp_all

lemma dict_not_null: "is_dict v \<Longrightarrow> v \<noteq> JNull"
  by auto

lemma dicts [simp]:
  "is_dict (profile_to_dict p)" "is_dict (request_to_dict r)" "is_dict (phase_pack_reference_to_dict q)"
  "is_dict (request_context_to_dict c)"
  by (simp_all add: profile_to_dict_def request_to_dict_def phase_pack_reference_to_dict_def
      request_context_to_dict_def)

lemma selection_round: "selection_ok s \<Longrightarrow> node_selection_from_dict fr (node_selection_to_dict s) = Inr s"
  by (simp add: node_selection_from_dict_def node_selection_to_dict_def Let_def selection_ok_def readers
      list_at_strings profile_round py_dict_same)

lemma phase_pack_reference_round:
  "phase_pack_reference_init r = Inr r \<Longrightarrow> phase_pack_reference_from_dict fr (phase_pack_reference_to_dict r) = Inr r"
  by (simp add: phase_pack_reference_from_dict_def phase_pack_reference_to_dict_def readers)

lemma input_mapping_round:
  "node_input_mapping_init m = Inr m \<Longrightarrow> input_mapping_from_dict fr (input_mapping_to_dict m) = Inr m"
  by (simp add: input_mapping_from_dict_def input_mapping_to_dict_def readers)

lemma edge_round: "edge_ok e \<Longrightarrow> edge_from_dict fr (edge_to_dict e) = Inr e"
proof (cases e)
  case (fields src out tgt cond)
  assume "edge_ok e"
  with fields show ?thesis
    by (cases cond) (simp_all add: edge_from_dict_def edge_to_dict_def edge_ok_def readers
        when_dict_def condition_from_dict_def)
qed

lemma node_ok_strings:
  assumes "node_definition_init n = Inr n"
  shows "nd_executor_key n \<noteq> Some []" "nd_instructions n \<noteq> Some []"
proof -
  have "\<not> (case nd_executor_key n of None \<Rightarrow> False | Some k \<Rightarrow> blank k)"
    using assms unfolding node_definition_init_def by (elim raise_if_InrE)
  moreover have "\<not> (case nd_instructions n of None \<Rightarrow> False | Some i \<Rightarrow> blank i)"
    using assms unfolding node_definition_init_def by (elim raise_if_InrE)
  ultimately show "nd_executor_key n \<noteq> Some []" "nd_instructions n \<noteq> Some []"
    by (auto simp: blank_def py_strip_def)
qed

lemma terminal_round:
  "(if py_truthy (opt_json (\<lambda>s. JStr (workflow_status_value s)) x)
    then rbind (workflow_status_of (py_str fr (opt_json (\<lambda>s. JStr (workflow_status_value s)) x))) (\<lambda>s. Inr (Some s))
    else Inr None) = Inr x"
proof (cases x)
  case (Some s)
  then show ?thesis by (cases s) (simp_all add: workflow_status_of_def enum_of_def)
qed simp

lemma node_round: "node_ok n \<Longrightarrow> node_from_dict fr (node_to_dict n) = Inr n"
proof -
  assume ok: "node_ok n"
  have mr: "when_some (opt_json request_to_dict (nd_model_routing n))
      (\<lambda>v. rbind (py_dict v) (\<lambda>d. request_from_dict fr (JObj d))) = Inr (nd_model_routing n)"
    using ok by (intro when_some_opt) (auto simp: node_ok_def py_dict_same request_round dict_not_null)
  have pp: "when_dict (opt_json phase_pack_reference_to_dict (nd_phase_pack n)) (phase_pack_reference_from_dict fr)
      = Inr (nd_phase_pack n)"
    using ok by (intro when_dict_opt) (auto simp: node_ok_def phase_pack_reference_round)
  have sk: "list_at (JObj kvs) k (skill_reference_from_dict fr) = Inr (nd_skills n)"
    if "map_of kvs k = Some (JList (map skill_reference_to_dict (nd_skills n)))" for kvs k
    using that ok by (intro list_at_map) (auto simp: node_ok_def list_all_iff skill_reference_round)
  have im: "list_at (JObj kvs) k (input_mapping_from_dict fr) = Inr (nd_input_mappings n)"
    if "map_of kvs k = Some (JList (map input_mapping_to_dict (nd_input_mappings n)))" for kvs k
    using that ok by (intro list_at_map) (auto simp: node_ok_def list_all_iff input_mapping_round)
  from ok node_ok_strings[of n] show ?thesis
    by (simp add: node_from_dict_def node_to_dict_def readers truthy_str_at_opt terminal_round mr pp sk im
        node_ok_def)
qed

lemma definition_round: "definition_ok d \<Longrightarrow> definition_from_dict fr (definition_to_dict d) = Inr d"
  by (simp add: definition_from_dict_def definition_to_dict_def definition_ok_def readers list_all_iff Let_def
      items_at_map[where f = node_to_dict] items_at_map[where f = edge_to_dict] node_round edge_round)

lemma context_round: "context_ok c \<Longrightarrow> request_context_from_dict fr (request_context_to_dict c) = Inr c"
proof -
  assume ok: "context_ok c"
  have "when_some (opt_json JStr (rc_title c)) (\<lambda>_. Inr (py_str fr (opt_json JStr (rc_title c)))) = Inr (rc_title c)"
    by (cases "rc_title c") (simp_all add: when_some_def)
  then show ?thesis
    using ok by (simp add: request_context_from_dict_def request_context_to_dict_def context_ok_def readers)
qed

lemma snapshot_round: "snapshot_ok s \<Longrightarrow> snapshot_from_dict fr (snapshot_to_dict s) = Inr s"
proof -
  assume ok: "snapshot_ok s"
  have "when_dict (opt_json request_context_to_dict (ws_request_context s)) (request_context_from_dict fr)
      = Inr (ws_request_context s)"
    using ok by (intro when_dict_opt) (auto simp: snapshot_ok_def context_round)
  with ok show ?thesis
    by (simp add: snapshot_from_dict_def snapshot_to_dict_def snapshot_ok_def readers list_all_iff Let_def
        items_at_map[where f = node_to_dict] items_at_map[where f = edge_to_dict]
        list_at_map[where f = phase_pack_to_dict] list_at_map[where f = skill_to_dict]
        list_at_map[where f = node_selection_to_dict]
        node_round edge_round phase_pack_round skill_round selection_round)
qed

section \<open>What the readers accept\<close>

lemma uuid_at_ok: "uuid_at fr data k = Inr i \<Longrightarrow> uuid_ok i"
  by (auto simp: uuid_at_def intro: uuid_of_str_ok)

lemma time_at_ok: "time_at fr data k = Inr t \<Longrightarrow> time_ok t"
  by (auto simp: time_at_def intro: fromisoformat_ok)

lemma list_at_all:
  "list_at data k f = Inr xs \<Longrightarrow> (\<And>v x. f v = Inr x \<Longrightarrow> P x) \<Longrightarrow> list_all P xs"
  by (auto simp: list_at_def list_all_iff dest: map_result_InrI)

lemma items_at_all:
  "items_at data k f = Inr xs \<Longrightarrow> (\<And>v x. f v = Inr x \<Longrightarrow> P x) \<Longrightarrow> list_all P xs"
  by (auto simp: items_at_def list_all_iff dest: map_result_InrI)

lemma when_some_all: "when_some v f = Inr x \<Longrightarrow> (\<And>v y. f v = Inr y \<Longrightarrow> P y) \<Longrightarrow> opt_all P x"
  by (auto simp: when_some_def split: if_splits)

lemma when_dict_all: "when_dict v f = Inr x \<Longrightarrow> (\<And>v y. f v = Inr y \<Longrightarrow> P y) \<Longrightarrow> opt_all P x"
  by (auto simp: when_dict_def split: if_splits)

text \<open>The text of a float is never empty.\<close>

definition prints_floats :: "(pyfloat \<Rightarrow> string) \<Rightarrow> bool" where
  "prints_floats fr \<longleftrightarrow> (\<forall>x. fr x \<noteq> [])"

lemma str_int_nonempty [simp]: "str_int i \<noteq> []"
  by (simp add: str_int_def)

lemma py_repr_nonempty: "prints_floats fr \<Longrightarrow> py_repr fr v \<noteq> []"
  by (cases v) (simp_all add: repr_str_def Let_def prints_floats_def)

lemma py_str_truthy: "prints_floats fr \<Longrightarrow> py_truthy v \<Longrightarrow> py_str fr v \<noteq> []"
  by (cases v) (simp_all add: py_str_def py_repr_nonempty del: py_repr.simps)

lemma truthy_str_at_nonempty:
  "prints_floats fr \<Longrightarrow> truthy_str_at fr data k = Inr x \<Longrightarrow> x \<noteq> Some []"
  by (cases data) (auto simp: truthy_str_at_def str_at_def dest: py_str_truthy split: if_splits option.splits)

lemma skill_reference_read_ok: "skill_reference_from_dict fr v = Inr r \<Longrightarrow> skill_reference_init r = Inr r"
  by (auto simp: skill_reference_from_dict_def dest: constructors_check)

lemma phase_input_read_ok: "phase_input_from_dict fr v = Inr r \<Longrightarrow> phase_input_init r = Inr r"
  by (auto simp: phase_input_from_dict_def dest: constructors_check)

lemma phase_pack_reference_read_ok:
  "phase_pack_reference_from_dict fr v = Inr r \<Longrightarrow> phase_pack_reference_init r = Inr r"
  by (auto simp: phase_pack_reference_from_dict_def dest: constructors_check)

lemma input_mapping_read_ok: "input_mapping_from_dict fr v = Inr r \<Longrightarrow> node_input_mapping_init r = Inr r"
  by (auto simp: input_mapping_from_dict_def dest: constructors_check)

lemma condition_read_ok: "condition_from_dict fr v = Inr c \<Longrightarrow> artifact_condition_init c = Inr c"
  by (auto simp: condition_from_dict_def dest: constructors_check)

lemma request_read_ok: "request_from_dict fr v = Inr r \<Longrightarrow> model_routing_request_init r = Inr r"
  by (auto simp: request_from_dict_def intro: model_routing_request_init_idem)

lemma skill_read_ok: "skill_from_dict fr v = Inr s \<Longrightarrow> prints_floats fr \<Longrightarrow> skill_ok s"
  unfolding skill_from_dict_def skill_ok_def
  by (elim rbind_InrE, frule skill_definition_init_same)
     (simp add: uuid_at_ok time_at_ok truthy_str_at_nonempty)

lemma phase_pack_read_ok: "phase_pack_from_dict fr v = Inr p \<Longrightarrow> phase_pack_ok p"
  unfolding phase_pack_from_dict_def phase_pack_ok_def
  by (elim rbind_InrE, frule phase_pack_definition_init_same)
     (simp add: uuid_at_ok time_at_ok list_at_all[OF _ phase_input_read_ok]
       list_at_all[OF _ skill_reference_read_ok])

lemma model_profile_init_kept: "model_profile_init p = Inr q \<Longrightarrow> mp_id q = mp_id p \<and> mp_created_at q = mp_created_at p"
  by (auto simp: model_profile_init_def Let_def split: option.splits if_splits)

lemma profile_read_ok: "profile_from_dict fr v = Inr p \<Longrightarrow> profile_ok p"
  unfolding profile_from_dict_def profile_ok_def
  by (elim rbind_InrE, frule model_profile_init_kept, frule model_profile_init_idem)
     (simp add: uuid_at_ok time_at_ok)

lemma selection_read_ok: "node_selection_from_dict fr v = Inr s \<Longrightarrow> selection_ok s"
  unfolding node_selection_from_dict_def selection_ok_def
  by (elim rbind_InrE, frule constructors_check) (simp add: profile_read_ok)

lemma edge_read_ok: "edge_from_dict fr v = Inr e \<Longrightarrow> edge_ok e"
  unfolding edge_from_dict_def edge_ok_def
  by (elim rbind_InrE) (auto intro: when_dict_all condition_read_ok)

lemma node_read_ok: "node_from_dict fr v = Inr n \<Longrightarrow> node_ok n"
  unfolding node_from_dict_def node_ok_def
  by (elim rbind_InrE, frule node_definition_init_same)
     (auto intro: list_at_all[OF _ skill_reference_read_ok] list_at_all[OF _ input_mapping_read_ok]
       when_some_all[where f = "\<lambda>v. rbind (py_dict v) (\<lambda>d. request_from_dict fr (JObj d))"]
       when_dict_all[OF _ phase_pack_reference_read_ok] request_read_ok)

lemma definition_read_ok: "definition_from_dict fr v = Inr d \<Longrightarrow> definition_ok d"
  unfolding definition_from_dict_def definition_ok_def Let_def
  by (elim rbind_InrE) (auto simp: uuid_at_ok intro: items_at_all node_read_ok edge_read_ok)

lemma context_read_ok: "request_context_from_dict fr v = Inr c \<Longrightarrow> context_ok c"
  unfolding request_context_from_dict_def context_ok_def
  by (elim rbind_InrE, frule constructors_check) (simp add: uuid_at_ok)

lemma snapshot_read_ok: "snapshot_from_dict fr v = Inr s \<Longrightarrow> prints_floats fr \<Longrightarrow> snapshot_ok s"
  unfolding snapshot_from_dict_def snapshot_ok_def Let_def
  by (elim rbind_InrE)
     (auto simp: uuid_at_ok time_at_ok intro: items_at_all node_read_ok edge_read_ok list_at_all skill_read_ok
       phase_pack_read_ok selection_read_ok when_dict_all context_read_ok)

section \<open>Properties\<close>

text \<open>A snapshot that uses every part: a task with a skill, a phase pack and a routing request, whose
  result is tested by a condition.\<close>

definition stored_skill :: skill_definition where
  "stored_skill = \<lparr>sk_key = ''lint'', sk_version = 2, sk_name = ''Lint'', sk_description = ''checks'',
     sk_source_kind = SourceGit, sk_source_uri = ''https://x/y'',
     sk_content_digest = ''sha256:'' @ replicate 64 (CHR ''a''), sk_source_revision = Some ''main'',
     sk_entrypoint = ''run.py'', sk_metadata = [(''n'', JInt 1)], sk_id = 11, sk_created_at = 86400000001\<rparr>"

definition stored_pack :: phase_pack_definition where
  "stored_pack = \<lparr>pp_key = ''review'', pp_version = 1, pp_name = ''Review'', pp_description = ''d'',
     pp_instructions = ''do'', pp_inputs = [\<lparr>pi_key = ''plan'', pi_description = ''the plan'', pi_required = False\<rparr>],
     pp_output_contract = [(''type'', JStr ''object'')], pp_skills = [], pp_metadata = [], pp_id = 12,
     pp_created_at = 0\<rparr>"

definition stored_node :: node_definition where
  "stored_node = (ex_node ''build'' KTask 2 1)\<lparr>nd_executor_key := Some ''cli'', nd_instructions := Some ''go'',
     nd_configuration := [(''k'', JList [JNull, JBool True])],
     nd_skills := [\<lparr>sr_key = ''lint'', sr_version = 2\<rparr>],
     nd_model_routing := Some (ex_request\<lparr>rr_max_cost_usd := Some (Dec 25 (-2))\<rparr>),
     nd_phase_pack := Some \<lparr>pr_key = ''review'', pr_version = 1\<rparr>\<rparr>"

definition stored_definition :: workflow_definition where
  "stored_definition = ex_definition ''build'' [stored_node, ex_node ''done'' KTerminal 1 1, ex_node ''bad'' KTerminal 1 1]
     [(ex_edge ''build'' OSuccess ''bad'')\<lparr>ed_condition := Some \<lparr>ac_path = ''/ok'', ac_equals = JBool False\<rparr>\<rparr>,
      ex_edge ''build'' OSuccess ''done'']"

definition stored_snapshot :: workflow_snapshot where
  "stored_snapshot = (ex_snapshot stored_definition)\<lparr>ws_skills := [stored_skill], ws_phase_packs := [stored_pack],
     ws_model_selections := [\<lparr>ns_node_key = ''build'', ns_selection = \<lparr>ms_profile = ex_profile ''b'' 1 (Dec 2 0),
       ms_policy_version = 1, ms_required_tier = Balanced, ms_estimated_cost_usd = Dec 123 (-5),
       ms_reason_codes = [''r'']\<rparr>\<rparr>],
     ws_request_context := Some \<lparr>rc_request_id = 5, rc_project_id = 6, rc_project_key = ''p'', rc_project_name = ''P'',
       rc_repository_url = ''u'', rc_default_branch = ''main'', rc_prompt = ''x'', rc_title = None\<rparr>,
     ws_created_at := 1700000000000000\<rparr>"

lemma stored_checks:
  "list_all (\<lambda>n. node_definition_init n = Inr n) (wd_nodes stored_definition)"
  "list_all edge_ok (wd_edges stored_definition)"
  "workflow_definition_init stored_definition = Inr ()"
  "skill_definition_init stored_skill = Inr stored_skill"
  "phase_pack_definition_init stored_pack = Inr stored_pack"
  "workflow_snapshot_init stored_snapshot = Inr ()"
  "model_profile_init (ex_profile ''b'' 1 (Dec 2 0)) = Inr (ex_profile ''b'' 1 (Dec 2 0))"
  by code_simp+

lemma stored_parts:
  "list_all (\<lambda>n. node_ok n) (wd_nodes stored_definition)"
  "list_all (\<lambda>i. phase_input_init i = Inr i) (pp_inputs stored_pack)"
  "list_all (\<lambda>s. node_model_selection_init s = Inr s \<and> ms_profile (ns_selection s) = ex_profile ''b'' 1 (Dec 2 0))
     (ws_model_selections stored_snapshot)"
  "opt_all (\<lambda>c. workflow_request_context_init c = Inr c \<and> rc_request_id c = 5 \<and> rc_project_id c = 6)
     (ws_request_context stored_snapshot)"
  by code_simp+

lemma stored_definition_ok: "definition_ok stored_definition"
  using stored_checks(2,3) stored_parts(1)
  by (simp add: definition_ok_def) (simp add: stored_definition_def ex_definition_def uuid_ok_def)

lemma stored_snapshot_ok: "snapshot_ok stored_snapshot"
proof -
  have skill: "skill_ok stored_skill"
    using stored_checks(4) by (simp add: skill_ok_def) (simp add: stored_skill_def uuid_ok_def time_ok_def)
  have pack: "phase_pack_ok stored_pack"
    using stored_checks(5) stored_parts(2)
    by (simp add: phase_pack_ok_def) (simp add: stored_pack_def uuid_ok_def time_ok_def)
  have profile: "profile_ok (ex_profile ''b'' 1 (Dec 2 0))"
    using stored_checks(7) by (simp add: profile_ok_def) (simp add: ex_profile_def uuid_ok_def time_ok_def)
  have ids: "ws_id stored_snapshot = 2" "ws_run_id stored_snapshot = 7" "ws_definition_id stored_snapshot = 1"
    "ws_created_at stored_snapshot = 1700000000000000" "ws_nodes stored_snapshot = wd_nodes stored_definition"
    "ws_edges stored_snapshot = wd_edges stored_definition" "ws_skills stored_snapshot = [stored_skill]"
    "ws_phase_packs stored_snapshot = [stored_pack]"
    by (simp_all add: stored_snapshot_def ex_snapshot_def stored_definition_def ex_definition_def)
  have "list_all selection_ok (ws_model_selections stored_snapshot)"
    using stored_parts(3) profile by (simp add: list_all_iff selection_ok_def)
  moreover have "opt_all context_ok (ws_request_context stored_snapshot)"
    using stored_parts(4)
    by (cases "ws_request_context stored_snapshot") (simp_all add: context_ok_def uuid_ok_def)
  ultimately show ?thesis
    using stored_checks(2,6) stored_parts(1) skill pack by (simp add: snapshot_ok_def ids uuid_ok_def time_ok_def)
qed

text \<open>C26. Storage of definitions is exact and safe: a workflow definition comes back from its stored
  form unchanged exactly when it is well-formed (its identifier has 128 bits, its nodes, edges and the
  graph pass validation), and a document is only ever read as a well-formed definition, so a
  definition that was read can be written and read again without change.\<close>

theorem definition_serialization:
  "(definition_from_dict fr (definition_to_dict d) = Inr d \<longleftrightarrow> definition_ok d)
     \<and> (definition_from_dict fr v = Inr d \<longrightarrow> definition_from_dict fr (definition_to_dict d) = Inr d)"
  using definition_round definition_read_ok by blast

theorem definition_serialization_witness:
  "definition_from_dict (\<lambda>_. ''nan'') (definition_to_dict stored_definition) = Inr stored_definition"
  using definition_serialization[of "\<lambda>_. ''nan''" stored_definition] stored_definition_ok by blast

text \<open>C27. Storage of snapshots, the pinned inputs of a run: a snapshot with its nodes, phase packs,
  skills, model selections and request context comes back unchanged exactly when all of them are
  well-formed, and whatever was read from a stored document is so. The only assumption on the printing
  of floats is that it is not empty.\<close>

theorem snapshot_serialization:
  assumes "prints_floats fr"
  shows "(snapshot_from_dict fr (snapshot_to_dict s) = Inr s \<longleftrightarrow> snapshot_ok s)
    \<and> (snapshot_from_dict fr v = Inr s \<longrightarrow> snapshot_from_dict fr (snapshot_to_dict s) = Inr s)"
  using assms snapshot_round snapshot_read_ok by blast

theorem snapshot_serialization_witness:
  "prints_floats (\<lambda>_. ''nan'')
     \<and> snapshot_from_dict (\<lambda>_. ''nan'') (snapshot_to_dict stored_snapshot) = Inr stored_snapshot"
proof -
  have "prints_floats (\<lambda>_. ''nan'')" by (simp add: prints_floats_def)
  then show ?thesis using snapshot_serialization stored_snapshot_ok by blast
qed

end
