(* ===== verification/Operation_Repositories.thy ===== *)
theory Operation_Repositories
  imports Frame_Rules Py_Json
begin

text \<open>
  The repositories of the components around the workflow core: external executions, workspace
  operations, publications, notifications, worker presence, readiness alerts, service accounts. One
  definition per method of the SQLAlchemy classes. Their \<^verbatim>\<open>save\<close> copies every column except the
  identifier, so it replaces the row. A conversion between a row and its object that the sources do
  column by column is the identity here.
\<close>

section \<open>Rows\<close>

text \<open>\<open>sel\<close> and \<open>upd\<close> are the selector and the update function of one table.\<close>

definition ops_modify :: "(('r list \<Rightarrow> 'r list) \<Rightarrow> ops_tables \<Rightarrow> ops_tables) \<Rightarrow> ('r list \<Rightarrow> 'r list) \<Rightarrow> unit svc" where
  "ops_modify upd f = supdate (\<lambda>db. db\<lparr>t_ops := upd f (t_ops db)\<rparr>)"

definition row_add :: "(('r list \<Rightarrow> 'r list) \<Rightarrow> ops_tables \<Rightarrow> ops_tables) \<Rightarrow> 'r \<Rightarrow> unit svc" where
  "row_add upd r = ops_modify upd (\<lambda>rs. rs @ [r])"

definition row_get :: "(ops_tables \<Rightarrow> 'r list) \<Rightarrow> ('r \<Rightarrow> 'k) \<Rightarrow> 'k \<Rightarrow> db \<Rightarrow> 'r option" where
  "row_get sel key_of k db = table_get key_of (sel (t_ops db)) k"

definition row_save ::
    "string \<Rightarrow> (ops_tables \<Rightarrow> 'r list) \<Rightarrow> (('r list \<Rightarrow> 'r list) \<Rightarrow> ops_tables \<Rightarrow> ops_tables) \<Rightarrow> ('r \<Rightarrow> uuid)
       \<Rightarrow> 'r \<Rightarrow> unit svc" where
  "row_save what sel upd id_of r = (\<lambda>db. case row_get sel id_of (id_of r) db of
      None \<Rightarrow> Inl (LookupError (what @ '' not found: '' @ uuid_str (id_of r)))
    | Some x \<Rightarrow> ops_modify upd (\<lambda>rs. table_put id_of rs r) db)"

text \<open>\<^verbatim>\<open>INSERT ... ON CONFLICT DO NOTHING RETURNING id\<close> on the unique key \<open>key_of\<close>.\<close>

definition row_try_add ::
    "(ops_tables \<Rightarrow> 'r list) \<Rightarrow> (('r list \<Rightarrow> 'r list) \<Rightarrow> ops_tables \<Rightarrow> ops_tables) \<Rightarrow> ('r \<Rightarrow> 'k) \<Rightarrow> 'r \<Rightarrow> bool svc" where
  "row_try_add sel upd key_of r = (\<lambda>db. case row_get sel key_of (key_of r) db of
      Some x \<Rightarrow> Inr (False, db)
    | None \<Rightarrow> sbind (row_add upd r) (\<lambda>_. sreturn True) db)"

text \<open>Newest first, ties by descending or by ascending identifier.\<close>

definition newest_desc :: "('r \<Rightarrow> time) \<Rightarrow> ('r \<Rightarrow> uuid) \<Rightarrow> nat \<Rightarrow> 'r list \<Rightarrow> 'r list" where
  "newest_desc created_of id_of limit rs = take limit (sort_key (\<lambda>r. (- created_of r, - int (id_of r))) rs)"

definition newest_asc :: "('r \<Rightarrow> time) \<Rightarrow> ('r \<Rightarrow> uuid) \<Rightarrow> nat \<Rightarrow> 'r list \<Rightarrow> 'r list" where
  "newest_asc created_of id_of limit rs = take limit (sort_key (\<lambda>r. (- created_of r, id_of r)) rs)"

section \<open>External executions\<close>

text \<open>The unique index on \<^verbatim>\<open>(executor_key, external_run_id)\<close>, checked when a row is written.\<close>

definition external_run_taken :: "external_execution \<Rightarrow> db \<Rightarrow> bool" where
  "external_run_taken x db \<longleftrightarrow> xe_external_run_id x \<noteq> None \<and> list_ex (\<lambda>y. xe_id y \<noteq> xe_id x
     \<and> xe_executor_key y = xe_executor_key x \<and> xe_external_run_id y = xe_external_run_id x) (x_external (t_ops db))"

definition external_add :: "external_execution \<Rightarrow> unit svc" where
  "external_add x = row_add x_external_update x"

definition external_get_by_key :: "string \<Rightarrow> db \<Rightarrow> external_execution option" where
  "external_get_by_key key = row_get x_external xe_idempotency_key key"

definition external_get :: "uuid \<Rightarrow> db \<Rightarrow> external_execution option" where
  "external_get k = row_get x_external xe_id k"

definition external_list ::
    "uuid option \<Rightarrow> uuid option \<Rightarrow> external_execution_status option \<Rightarrow> nat \<Rightarrow> db \<Rightarrow> external_execution list" where
  "external_list workflow_execution_id run_id status limit db =
     newest_desc xe_created_at xe_id limit (filter (\<lambda>x.
       opt_all (\<lambda>i. xe_execution_id x = i) workflow_execution_id \<and> opt_all (\<lambda>i. xe_run_id x = i) run_id
       \<and> opt_all (\<lambda>s. xe_status x = s) status) (x_external (t_ops db)))"

text \<open>This \<^verbatim>\<open>save\<close> copies the columns that change after the creation.\<close>

definition external_save :: "external_execution \<Rightarrow> unit svc" where
  "external_save x = (\<lambda>db. case external_get (xe_id x) db of
      None \<Rightarrow> Inl (LookupError (''external execution not found: '' @ uuid_str (xe_id x)))
    | Some y \<Rightarrow>
      let z = y\<lparr>xe_external_run_id := xe_external_run_id x, xe_status := xe_status x,
          xe_terminal_result := xe_terminal_result x, xe_failure_reason := xe_failure_reason x,
          xe_workspace_released_at := xe_workspace_released_at x, xe_workspace_scope := xe_workspace_scope x,
          xe_updated_at := xe_updated_at x, xe_completed_at := xe_completed_at x\<rparr> in
      if external_run_taken z db then Inl (IntegrityError ''uq_external_executions_executor_run'')
      else ops_modify x_external_update (\<lambda>rs. table_put xe_id rs z) db)"

section \<open>Workspace operations\<close>

definition operation_key :: "workspace_operation \<Rightarrow> uuid \<times> string" where
  "operation_key p = (wo_external_execution_id p, wo_idempotency_key p)"

definition operations_try_add :: "workspace_operation \<Rightarrow> bool svc" where
  "operations_try_add p = row_try_add x_operations x_operations_update operation_key p"

definition operations_get :: "uuid \<Rightarrow> db \<Rightarrow> workspace_operation option" where
  "operations_get k = row_get x_operations wo_id k"

definition operations_get_by_key :: "uuid \<Rightarrow> string \<Rightarrow> db \<Rightarrow> workspace_operation option" where
  "operations_get_by_key external_execution_id key = row_get x_operations operation_key (external_execution_id, key)"

definition operations_list_for_execution :: "uuid \<Rightarrow> nat \<Rightarrow> db \<Rightarrow> workspace_operation list" where
  "operations_list_for_execution external_execution_id limit db = newest_desc wo_created_at wo_id limit
     (filter (\<lambda>p. wo_external_execution_id p = external_execution_id) (x_operations (t_ops db)))"

definition operations_save :: "workspace_operation \<Rightarrow> unit svc" where
  "operations_save p = row_save ''workspace operation'' x_operations x_operations_update wo_id p"

text \<open>The oldest row of the query, claimed and written back; the lease token is the next \<^verbatim>\<open>uuid4()\<close>.\<close>

definition operations_claim_next ::
    "string \<Rightarrow> string \<Rightarrow> int \<Rightarrow> time \<Rightarrow> workspace_operation option svc" where
  "operations_claim_next worker_id workspace_scope lease_seconds now =
     sbind (gets (\<lambda>db. first_row (\<lambda>p. (wo_created_at p, wo_id p))
       (filter (\<lambda>p. wo_workspace_scope p = workspace_scope \<and> wo_claimable p now) (x_operations (t_ops db))))) (\<lambda>row.
     case row of None \<Rightarrow> sreturn None
     | Some p \<Rightarrow>
       sbind uuid4 (\<lambda>tok.
       sbind (slift (wo_claim p worker_id lease_seconds tok now)) (\<lambda>q.
       sbind (ops_modify x_operations_update (\<lambda>rs. table_put wo_id rs q)) (\<lambda>_. sreturn (Some q)))))"

section \<open>Publications\<close>

definition publication_key :: "scm_publication \<Rightarrow> uuid \<times> string" where
  "publication_key p = (sp_external_execution_id p, sp_idempotency_key p)"

definition publications_try_add :: "scm_publication \<Rightarrow> bool svc" where
  "publications_try_add p = row_try_add x_publications x_publications_update publication_key p"

definition publications_get :: "uuid \<Rightarrow> db \<Rightarrow> scm_publication option" where
  "publications_get k = row_get x_publications sp_id k"

definition publications_get_by_key :: "uuid \<Rightarrow> string \<Rightarrow> db \<Rightarrow> scm_publication option" where
  "publications_get_by_key external_execution_id key =
     row_get x_publications publication_key (external_execution_id, key)"

definition publications_list_for_execution :: "uuid \<Rightarrow> nat \<Rightarrow> db \<Rightarrow> scm_publication list" where
  "publications_list_for_execution external_execution_id limit db = newest_desc sp_created_at sp_id limit
     (filter (\<lambda>p. sp_external_execution_id p = external_execution_id) (x_publications (t_ops db)))"

definition publications_save :: "scm_publication \<Rightarrow> unit svc" where
  "publications_save p = row_save ''SCM publication'' x_publications x_publications_update sp_id p"

definition publications_claim_next ::
    "string \<Rightarrow> string \<Rightarrow> string \<Rightarrow> int \<Rightarrow> time \<Rightarrow> (scm_publication \<times> attempt_trigger) option svc" where
  "publications_claim_next worker_id provider_key workspace_scope lease_seconds now =
     sbind (gets (\<lambda>db. first_row (\<lambda>p. (sp_created_at p, sp_id p))
       (filter (\<lambda>p. sp_provider_key p = provider_key \<and> sp_workspace_scope p = workspace_scope \<and> sp_claimable p now)
          (x_publications (t_ops db))))) (\<lambda>row.
     case row of None \<Rightarrow> sreturn None
     | Some p \<Rightarrow>
       sbind uuid4 (\<lambda>tok.
       sbind (slift (sp_claim p worker_id lease_seconds tok now)) (\<lambda>claim.
       sbind (ops_modify x_publications_update (\<lambda>rs. table_put sp_id rs (fst claim))) (\<lambda>_. sreturn (Some claim)))))"

definition publication_attempts_add :: "scm_publication_attempt \<Rightarrow> unit svc" where
  "publication_attempts_add a = row_add x_publication_attempts_update a"

definition publication_attempts_get :: "uuid \<Rightarrow> int \<Rightarrow> db \<Rightarrow> scm_publication_attempt option" where
  "publication_attempts_get publication_id attempt_number =
     row_get x_publication_attempts (\<lambda>a. (sa_publication_id a, sa_attempt_number a)) (publication_id, attempt_number)"

definition publication_attempts_list :: "uuid \<Rightarrow> nat \<Rightarrow> db \<Rightarrow> scm_publication_attempt list" where
  "publication_attempts_list publication_id limit db = take limit (sort_key (\<lambda>a. - sa_attempt_number a)
     (filter (\<lambda>a. sa_publication_id a = publication_id) (x_publication_attempts (t_ops db))))"

definition publication_attempts_save :: "scm_publication_attempt \<Rightarrow> unit svc" where
  "publication_attempts_save a =
     row_save ''SCM publication attempt'' x_publication_attempts x_publication_attempts_update sa_id a"

section \<open>Notifications\<close>

definition subscription_key :: "notification_subscription \<Rightarrow> uuid \<times> string \<times> string" where
  "subscription_key b = (nb_project_id b, nb_provider_key b, nb_destination_ref b)"

definition subscriptions_try_add :: "notification_subscription \<Rightarrow> bool svc" where
  "subscriptions_try_add b = row_try_add x_subscriptions x_subscriptions_update subscription_key b"

definition subscriptions_get :: "uuid \<Rightarrow> db \<Rightarrow> notification_subscription option" where
  "subscriptions_get k = row_get x_subscriptions nb_id k"

definition subscriptions_get_destination :: "uuid \<Rightarrow> string \<Rightarrow> string \<Rightarrow> db \<Rightarrow> notification_subscription option" where
  "subscriptions_get_destination project_id provider_key destination_ref =
     row_get x_subscriptions subscription_key (project_id, provider_key, destination_ref)"

definition subscriptions_list_by_project :: "uuid \<Rightarrow> bool option \<Rightarrow> nat \<Rightarrow> db \<Rightarrow> notification_subscription list" where
  "subscriptions_list_by_project project_id enabled limit db = newest_asc nb_created_at nb_id limit
     (filter (\<lambda>b. nb_project_id b = project_id \<and> opt_all (\<lambda>e. nb_enabled b = e) enabled) (x_subscriptions (t_ops db)))"

definition subscriptions_save :: "notification_subscription \<Rightarrow> unit svc" where
  "subscriptions_save b = row_save ''notification subscription'' x_subscriptions x_subscriptions_update nb_id b"

definition delivery_key :: "notification_delivery \<Rightarrow> uuid \<times> uuid" where
  "delivery_key p = (nl_subscription_id p, nl_event_id p)"

definition deliveries_try_add :: "notification_delivery \<Rightarrow> bool svc" where
  "deliveries_try_add p = row_try_add x_deliveries x_deliveries_update delivery_key p"

definition deliveries_get :: "uuid \<Rightarrow> db \<Rightarrow> notification_delivery option" where
  "deliveries_get k = row_get x_deliveries nl_id k"

definition deliveries_list_by_project ::
    "uuid \<Rightarrow> notification_delivery_status option \<Rightarrow> nat \<Rightarrow> db \<Rightarrow> notification_delivery list" where
  "deliveries_list_by_project project_id status limit db = newest_asc nl_created_at nl_id limit
     (filter (\<lambda>p. nl_project_id p = project_id \<and> opt_all (\<lambda>s. nl_status p = s) status) (x_deliveries (t_ops db)))"

definition deliveries_save :: "notification_delivery \<Rightarrow> unit svc" where
  "deliveries_save p = row_save ''notification delivery'' x_deliveries x_deliveries_update nl_id p"

definition deliveries_claim_next ::
    "string \<Rightarrow> string \<Rightarrow> int \<Rightarrow> time \<Rightarrow> (notification_delivery \<times> attempt_trigger) option svc" where
  "deliveries_claim_next worker_id provider_key lease_seconds now =
     sbind (gets (\<lambda>db. first_row (\<lambda>p. (nl_created_at p, nl_id p))
       (filter (\<lambda>p. nl_provider_key p = provider_key \<and> nl_claimable p now) (x_deliveries (t_ops db))))) (\<lambda>row.
     case row of None \<Rightarrow> sreturn None
     | Some p \<Rightarrow>
       sbind uuid4 (\<lambda>tok.
       sbind (slift (nl_claim p worker_id lease_seconds tok now)) (\<lambda>claim.
       sbind (ops_modify x_deliveries_update (\<lambda>rs. table_put nl_id rs (fst claim))) (\<lambda>_. sreturn (Some claim)))))"

definition delivery_attempts_add :: "notification_attempt \<Rightarrow> unit svc" where
  "delivery_attempts_add a = row_add x_delivery_attempts_update a"

definition delivery_attempts_get :: "uuid \<Rightarrow> int \<Rightarrow> db \<Rightarrow> notification_attempt option" where
  "delivery_attempts_get delivery_id attempt_number =
     row_get x_delivery_attempts (\<lambda>a. (na_delivery_id a, na_attempt_number a)) (delivery_id, attempt_number)"

definition delivery_attempts_list :: "uuid \<Rightarrow> nat \<Rightarrow> db \<Rightarrow> notification_attempt list" where
  "delivery_attempts_list delivery_id limit db = take limit (sort_key (\<lambda>a. - na_attempt_number a)
     (filter (\<lambda>a. na_delivery_id a = delivery_id) (x_delivery_attempts (t_ops db))))"

definition delivery_attempts_save :: "notification_attempt \<Rightarrow> unit svc" where
  "delivery_attempts_save a =
     row_save ''notification delivery attempt'' x_delivery_attempts x_delivery_attempts_update na_id a"

section \<open>Worker processes and alerts\<close>

definition workers_add :: "worker_instance \<Rightarrow> unit svc" where
  "workers_add w = row_add x_workers_update w"

definition workers_get :: "uuid \<Rightarrow> db \<Rightarrow> worker_instance option" where
  "workers_get k = row_get x_workers wi_id k"

definition workers_list :: "worker_lifecycle_status option \<Rightarrow> nat \<Rightarrow> db \<Rightarrow> worker_instance list" where
  "workers_list status limit db = newest_desc wi_last_seen_at wi_id limit
     (filter (\<lambda>w. opt_all (\<lambda>s. wi_status w = s) status) (x_workers (t_ops db)))"

definition workers_save :: "worker_instance \<Rightarrow> unit svc" where
  "workers_save w = row_save ''worker instance'' x_workers x_workers_update wi_id w"

definition alert_key :: "readiness_alert \<Rightarrow> uuid \<times> string \<times> time" where
  "alert_key a = (al_workflow_execution_id a, al_node_key a, al_ready_since a)"

definition alerts_add :: "readiness_alert \<Rightarrow> unit svc" where
  "alerts_add a = row_add x_alerts_update a"

definition alerts_get_occurrence :: "uuid \<Rightarrow> string \<Rightarrow> time \<Rightarrow> db \<Rightarrow> readiness_alert option" where
  "alerts_get_occurrence workflow_execution_id node_key ready_since =
     row_get x_alerts alert_key (workflow_execution_id, node_key, ready_since)"

definition alerts_list_by_project :: "uuid \<Rightarrow> readiness_alert_status option \<Rightarrow> nat \<Rightarrow> db \<Rightarrow> readiness_alert list" where
  "alerts_list_by_project project_id status limit db = newest_asc al_first_detected_at al_id limit
     (filter (\<lambda>a. al_project_id a = project_id \<and> opt_all (\<lambda>s. al_status a = s) status) (x_alerts (t_ops db)))"

definition alerts_save :: "readiness_alert \<Rightarrow> unit svc" where
  "alerts_save a = row_save ''worker readiness alert'' x_alerts x_alerts_update al_id a"

section \<open>Service accounts\<close>

definition service_accounts_add :: "service_account \<Rightarrow> unit svc" where
  "service_accounts_add a = row_add x_service_accounts_update a"

definition service_accounts_get :: "uuid \<Rightarrow> db \<Rightarrow> service_account option" where
  "service_accounts_get k = row_get x_service_accounts sv_id k"

definition service_accounts_get_by_key :: "string \<Rightarrow> db \<Rightarrow> service_account option" where
  "service_accounts_get_by_key key = row_get x_service_accounts sv_key key"

text \<open>\<^verbatim>\<open>column.startswith(prefix)\<close> is \<^verbatim>\<open>column LIKE prefix || '%'\<close>, without escaping: an underscore
  matches any character, a percent sign any text, a backslash quotes the next character.\<close>

fun like_prefix :: "string \<Rightarrow> string \<Rightarrow> bool" where
  "like_prefix [] s = True"
| "like_prefix (p # ps) s =
     (if p = CHR ''%'' then list_ex (\<lambda>i. like_prefix ps (drop i s)) [0..<Suc (length s)]
      else case s of [] \<Rightarrow> False
      | c # cs \<Rightarrow>
        if p = CHR ''_'' then like_prefix ps cs
        else if p = CHR 92 then (case ps of [] \<Rightarrow> False | q # qs \<Rightarrow> q = c \<and> like_prefix qs cs)
        else p = c \<and> like_prefix ps cs)"

definition service_accounts_list ::
    "bool option \<Rightarrow> string option \<Rightarrow> string option \<Rightarrow> nat \<Rightarrow> db \<Rightarrow> service_account list" where
  "service_accounts_list enabled key_prefix after_key limit db = take limit (sort_key sv_key
     (filter (\<lambda>a. opt_all (\<lambda>e. sv_enabled a = e) enabled \<and> opt_all (\<lambda>p. like_prefix p (sv_key a)) key_prefix
        \<and> opt_all (\<lambda>k. k < sv_key a) after_key) (x_service_accounts (t_ops db))))"

definition service_accounts_disable :: "uuid \<Rightarrow> unit svc" where
  "service_accounts_disable k = ops_modify x_service_accounts_update
     (map (\<lambda>a. if sv_id a = k then a\<lparr>sv_enabled := False\<rparr> else a))"

definition credentials_add :: "credential \<Rightarrow> unit svc" where
  "credentials_add c = row_add x_credentials_update c"

definition credentials_get :: "uuid \<Rightarrow> db \<Rightarrow> credential option" where
  "credentials_get k = row_get x_credentials cr_id k"

definition credentials_list_for_account :: "uuid \<Rightarrow> db \<Rightarrow> credential list" where
  "credentials_list_for_account account_id db = sort_key (\<lambda>c. (- cr_created_at c, cr_id c))
     (filter (\<lambda>c. cr_account_id c = account_id) (x_credentials (t_ops db)))"

definition credentials_list_for_accounts :: "uuid list \<Rightarrow> db \<Rightarrow> credential list" where
  "credentials_list_for_accounts account_ids db = sort_key (\<lambda>c. (cr_account_id c, - cr_created_at c, cr_id c))
     (filter (\<lambda>c. cr_account_id c \<in> set account_ids) (x_credentials (t_ops db)))"

definition credentials_revoke :: "uuid \<Rightarrow> time \<Rightarrow> unit svc" where
  "credentials_revoke k revoked_at = ops_modify x_credentials_update
     (map (\<lambda>c. if cr_id c = k \<and> cr_revoked_at c = None then c\<lparr>cr_revoked_at := Some revoked_at\<rparr> else c))"

definition credentials_mark_used :: "uuid \<Rightarrow> time \<Rightarrow> unit svc" where
  "credentials_mark_used k used_at = ops_modify x_credentials_update
     (map (\<lambda>c. if cr_id c = k \<and> (case cr_last_used_at c of None \<Rightarrow> True | Some t \<Rightarrow> t < used_at)
               then c\<lparr>cr_last_used_at := Some used_at\<rparr> else c))"

section \<open>Reading a successful write\<close>

named_theorems repository_reads \<open>what a successful repository operation did\<close>

lemma ops_modify_Inr [simp]: "ops_modify upd f db = Inr (u, db') \<longleftrightarrow> db' = db\<lparr>t_ops := upd f (t_ops db)\<rparr>"
  by (simp add: ops_modify_def)

lemma row_add_Inr [simp]: "row_add upd r db = Inr (u, db') \<longleftrightarrow> db' = db\<lparr>t_ops := upd (\<lambda>rs. rs @ [r]) (t_ops db)\<rparr>"
  by (simp add: row_add_def)

lemma row_save_Inr [repository_reads]:
  "row_save what sel upd id_of r db = Inr (u, db') \<longleftrightarrow> row_get sel id_of (id_of r) db \<noteq> None
     \<and> db' = db\<lparr>t_ops := upd (\<lambda>rs. table_put id_of rs r) (t_ops db)\<rparr>"
  by (simp add: row_save_def split: option.split)

lemma row_try_add_Inr [repository_reads]:
  "row_try_add sel upd key_of r db = Inr (b, db') \<longleftrightarrow>
     (if row_get sel key_of (key_of r) db = None then b \<and> db' = db\<lparr>t_ops := upd (\<lambda>rs. rs @ [r]) (t_ops db)\<rparr>
      else \<not> b \<and> db' = db)"
  by (auto simp: row_try_add_def sbind_Inr split: option.split)

lemma row_get_Some: "row_get sel key_of k db = Some r \<Longrightarrow> key_of r = k \<and> r \<in> set (sel (t_ops db))"
  unfolding row_get_def by (rule table_get_key)

lemma row_get_ops: "t_ops db' = t_ops db \<Longrightarrow> row_get sel key_of k db' = row_get sel key_of k db"
  by (simp add: row_get_def)

text \<open>A write to one table leaves every other part of the database alone.\<close>

lemma keeps_ops_modify [frame_rules]:
  "(\<And>db g. f (db\<lparr>t_ops := upd g (t_ops db)\<rparr>) = f db) \<Longrightarrow> keeps f (ops_modify upd h)"
  by (simp add: within_def)

lemma keeps_row_add [frame_rules]:
  "(\<And>db g. f (db\<lparr>t_ops := upd g (t_ops db)\<rparr>) = f db) \<Longrightarrow> keeps f (row_add upd r)"
  by (simp add: within_def)

lemma keeps_row_save [frame_rules]:
  "(\<And>db g. f (db\<lparr>t_ops := upd g (t_ops db)\<rparr>) = f db) \<Longrightarrow> keeps f (row_save what sel upd id_of s)"
  by (simp add: within_def row_save_Inr)

lemma keeps_row_try_add [frame_rules]:
  "(\<And>db g. f (db\<lparr>t_ops := upd g (t_ops db)\<rparr>) = f db) \<Longrightarrow> keeps f (row_try_add sel upd key_of q)"
  by (simp add: within_def row_try_add_Inr)

lemmas grows_row_ops [frame_rules] =
  grows_of_keeps[OF keeps_ops_modify] grows_of_keeps[OF keeps_row_add] grows_of_keeps[OF keeps_row_save]
  grows_of_keeps[OF keeps_row_try_add]

lemmas row_operations = external_add_def operations_try_add_def operations_save_def publications_try_add_def
  publications_save_def publication_attempts_add_def publication_attempts_save_def subscriptions_try_add_def
  subscriptions_save_def deliveries_try_add_def deliveries_save_def delivery_attempts_add_def
  delivery_attempts_save_def workers_add_def workers_save_def alerts_add_def alerts_save_def
  service_accounts_add_def service_accounts_disable_def credentials_add_def credentials_revoke_def
  credentials_mark_used_def

end
