(* ===== verification/Leased_Tables.thy ===== *)
theory Leased_Tables
  imports Operation_Repositories
begin

text \<open>
  Tables of leased work. \<open>table_step\<close> is what a call may do to such a table: nothing, add a waiting
  item, or move one item by a step of the contract \<open>work_step\<close>. The locale \<open>leased_service\<close> is the
  interface of a service over such a table: its calls, interleaved with calls of other services, take
  these steps. It follows that the stored state of every item is the end of a trace of the contract
  whose events are the calls that named it, that lease tokens are never reused and that only the last
  claimant finishes an item.
\<close>

section \<open>Steps of a table\<close>

inductive table_step ::
    "('a \<Rightarrow> uuid) \<Rightarrow> ('a \<Rightarrow> work) \<Rightarrow> ('a \<Rightarrow> bool) \<Rightarrow> 'a list \<Rightarrow> (uuid \<times> work_event) option \<Rightarrow> 'a list \<Rightarrow> bool"
  for id_of work_of item_ok where
  same: "table_step id_of work_of item_ok xs None xs"
| insert: "id_of p \<notin> id_of ` set xs \<Longrightarrow> item_ok p \<Longrightarrow> work_of p = Waiting \<Longrightarrow>
    table_step id_of work_of item_ok xs None (xs @ [p])"
| move: "p \<in> set xs \<Longrightarrow> id_of q = id_of p \<Longrightarrow> item_ok q \<Longrightarrow> work_step (work_of p) ev (work_of q) \<Longrightarrow>
    table_step id_of work_of item_ok xs (Some (id_of p, ev)) (table_put id_of xs q)"

definition table_inv :: "('a \<Rightarrow> uuid) \<Rightarrow> ('a \<Rightarrow> bool) \<Rightarrow> uuid \<Rightarrow> 'a list \<Rightarrow> bool" where
  "table_inv id_of item_ok bound xs \<longleftrightarrow> distinct (map id_of xs) \<and> list_all (\<lambda>p. item_ok p \<and> id_of p < bound) xs"

lemma table_put_ids: "map id_of (table_put id_of xs q) = map id_of xs"
  by (simp add: table_put_def comp_def)

lemma table_put_member: "p \<in> set (table_put id_of xs q) \<Longrightarrow> p = q \<or> (p \<in> set xs \<and> id_of p \<noteq> id_of q)"
  by (auto simp: table_put_def)

lemma table_inv_put:
  "table_inv id_of item_ok bound xs \<Longrightarrow> item_ok q \<Longrightarrow> id_of q < bound \<Longrightarrow> table_inv id_of item_ok bound (table_put id_of xs q)"
  unfolding table_inv_def table_put_ids by (auto simp: list_all_iff dest: table_put_member)

lemma table_step_inv:
  assumes "table_step id_of work_of item_ok xs ev ys" "table_inv id_of item_ok n xs" "n \<le> n'"
    and "\<And>p. p \<in> set ys \<Longrightarrow> id_of p < n'"
  shows "table_inv id_of item_ok n' ys"
  using assms
proof (cases rule: table_step.cases)
  case (move p q e)
  then have "table_inv id_of item_ok n' xs" using assms by (auto simp: table_inv_def list_all_iff)
  moreover have "id_of q < n'" using move assms by (auto simp: table_inv_def list_all_iff)
  ultimately show ?thesis using move by (simp add: table_inv_put)
qed (auto simp: table_inv_def list_all_iff)

text \<open>A step together with the bound on the identifiers it leaves.\<close>

definition table_effect ::
    "('a \<Rightarrow> uuid) \<Rightarrow> ('a \<Rightarrow> work) \<Rightarrow> ('a \<Rightarrow> bool) \<Rightarrow> uuid \<Rightarrow> 'a list \<Rightarrow> (uuid \<times> work_event) option \<Rightarrow> 'a list \<Rightarrow> bool" where
  "table_effect id_of work_of item_ok bound xs ev ys \<longleftrightarrow>
     table_step id_of work_of item_ok xs ev ys \<and> (\<forall>p \<in> set ys. id_of p < bound)"

lemma effect_same:
  "table_inv id_of item_ok n xs \<Longrightarrow> n \<le> n' \<Longrightarrow> table_effect id_of work_of item_ok n' xs None xs"
  by (auto simp: table_effect_def table_inv_def list_all_iff intro: table_step.same)

lemma effect_insert:
  "table_inv id_of item_ok n xs \<Longrightarrow> item_ok p \<Longrightarrow> work_of p = Waiting \<Longrightarrow> id_of p = n \<Longrightarrow> n < n' \<Longrightarrow>
     table_effect id_of work_of item_ok n' xs None (xs @ [p])"
  unfolding table_effect_def by (intro conjI table_step.insert) (auto simp: table_inv_def list_all_iff)

lemma effect_move:
  assumes "table_inv id_of item_ok n xs" "n \<le> n'" "p \<in> set xs" "id_of q = id_of p"
    "item_ok q \<and> work_step (work_of p) ev (work_of q)" "id_of p = i"
  shows "table_effect id_of work_of item_ok n' xs (Some (i, ev)) (table_put id_of xs q)"
proof -
  have "table_step id_of work_of item_ok xs (Some (i, ev)) (table_put id_of xs q)"
    using table_step.move[of p xs id_of q item_ok work_of ev] assms by simp
  moreover have "table_inv id_of item_ok n (table_put id_of xs q)"
    using assms by (intro table_inv_put) (auto simp: table_inv_def list_all_iff)
  ultimately show ?thesis using assms(2) by (auto simp: table_effect_def table_inv_def list_all_iff)
qed

lemma table_inv_ok: "table_inv id_of item_ok n xs \<Longrightarrow> p \<in> set xs \<Longrightarrow> item_ok p"
  by (simp add: table_inv_def list_all_iff)

text \<open>The events of one item in a log of all of them.\<close>

definition events_of :: "(uuid \<times> work_event) list \<Rightarrow> uuid \<Rightarrow> work_event list" where
  "events_of log i = map snd (filter (\<lambda>e. fst e = i) log)"

lemma events_of_simps [simp]:
  "events_of [] i = []" "events_of (log @ [(j, ev)]) i = events_of log i @ (if j = i then [ev] else [])"
  by (simp_all add: events_of_def)

lemma events_of_unknown: "i \<notin> fst ` set log \<Longrightarrow> events_of log i = []"
  by (auto simp: events_of_def filter_empty_conv)

definition claim_tokens :: "(uuid \<times> work_event) list \<Rightarrow> uuid list" where
  "claim_tokens log = List.map_filter (\<lambda>(i, ev). case ev of Claim tok _ _ \<Rightarrow> Some tok | _ \<Rightarrow> None) log"

lemma claim_tokens_append: "claim_tokens (xs @ ys) = claim_tokens xs @ claim_tokens ys"
  by (simp add: claim_tokens_def map_filter_def)

lemma claim_tokens_single:
  "claim_tokens [(i, ev)] = (case ev of Claim tok _ _ \<Rightarrow> [tok] | _ \<Rightarrow> [])"
  by (simp add: claim_tokens_def map_filter_def split: work_event.split)

lemma claim_token_member: "Claim tok now e \<in> set (events_of log i) \<Longrightarrow> tok \<in> set (claim_tokens log)"
  by (force simp: events_of_def claim_tokens_def map_filter_def)

definition traced :: "('a \<Rightarrow> uuid) \<Rightarrow> ('a \<Rightarrow> work) \<Rightarrow> (uuid \<times> work_event) list \<Rightarrow> 'a list \<Rightarrow> bool" where
  "traced id_of work_of log xs \<longleftrightarrow> (\<forall>p \<in> set xs. work_trace Waiting (events_of log (id_of p)) (work_of p))
     \<and> fst ` set log \<subseteq> id_of ` set xs"

lemma traced_step:
  assumes "table_step id_of work_of item_ok xs ev ys" "table_inv id_of item_ok n xs" "traced id_of work_of log xs"
  shows "traced id_of work_of (log @ (case ev of None \<Rightarrow> [] | Some e \<Rightarrow> [e])) ys"
  using assms(1)
proof cases
  case same
  then show ?thesis using assms by simp
next
  case (insert p)
  then have "events_of log (id_of p) = []" using assms(3) by (auto simp: traced_def intro!: events_of_unknown)
  then show ?thesis using insert assms(3) by (auto simp: traced_def)
next
  case (move p q e)
  have "fst ` set log \<subseteq> id_of ` set ys"
    using assms(3) move table_put_ids[of id_of xs q] by (metis list.set_map traced_def)
  moreover have "id_of p \<in> id_of ` set ys" using move table_put_ids[of id_of xs q] by (metis image_eqI list.set_map)
  moreover have "work_trace Waiting (events_of (log @ [(id_of p, e)]) (id_of r)) (work_of r)" if r: "r \<in> set ys" for r
  proof -
    from r move have "r = q \<or> (r \<in> set xs \<and> id_of r \<noteq> id_of p)" by (auto dest: table_put_member)
    then show ?thesis
    proof
      assume "r = q"
      moreover have "work_trace Waiting (events_of log (id_of p)) (work_of p)" using assms(3) move by (simp add: traced_def)
      ultimately show ?thesis using move by (auto simp: work_trace_append)
    next
      assume "r \<in> set xs \<and> id_of r \<noteq> id_of p"
      then show ?thesis using assms(3) by (simp add: traced_def)
    qed
  qed
  ultimately show ?thesis using move(1) by (simp add: traced_def)
qed

section \<open>Sequences of calls\<close>

inductive call_run ::
    "(db \<Rightarrow> (uuid \<times> work_event) option \<Rightarrow> db \<Rightarrow> bool) \<Rightarrow> db \<Rightarrow> (uuid \<times> work_event) list \<Rightarrow> db \<Rightarrow> bool"
  for call where
  start: "call_run call db [] db"
| next_call: "call_run call db log db1 \<Longrightarrow> call db1 ev db2 \<Longrightarrow>
    call_run call db (log @ (case ev of None \<Rightarrow> [] | Some e \<Rightarrow> [e])) db2"

locale leased_service =
  fixes call :: "db \<Rightarrow> (uuid \<times> work_event) option \<Rightarrow> db \<Rightarrow> bool"
    and rows :: "db \<Rightarrow> 'a list" and id_of :: "'a \<Rightarrow> uuid" and work_of :: "'a \<Rightarrow> work" and item_ok :: "'a \<Rightarrow> bool"
  assumes call_effect: "call db ev db' \<Longrightarrow> table_inv id_of item_ok (t_next db) (rows db) \<Longrightarrow>
      table_effect id_of work_of item_ok (t_next db') (rows db) ev (rows db')"
    and call_grows: "call db ev db' \<Longrightarrow> t_next db \<le> t_next db'"
    and claim_fresh: "call db (Some (i, Claim tok now e)) db' \<Longrightarrow> t_next db \<le> tok \<and> tok < t_next db'"
begin

lemma run_inv:
  assumes "call_run call db log db'" "rows db = []"
  shows "table_inv id_of item_ok (t_next db') (rows db') \<and> traced id_of work_of log (rows db')"
  using assms
proof (induction rule: call_run.induct)
  case (start db)
  then show ?case by (simp add: table_inv_def traced_def)
next
  case (next_call db log db1 ev db2)
  then have inv: "table_inv id_of item_ok (t_next db1) (rows db1)" and tr: "traced id_of work_of log (rows db1)"
    by simp_all
  from call_effect[OF next_call.hyps(2) inv] have step: "table_step id_of work_of item_ok (rows db1) ev (rows db2)"
    and ids: "\<And>p. p \<in> set (rows db2) \<Longrightarrow> id_of p < t_next db2" by (simp_all add: table_effect_def)
  show ?case
    using table_step_inv[OF step inv call_grows[OF next_call.hyps(2)] ids] traced_step[OF step inv tr] by simp
qed

lemma tokens_fresh:
  assumes "call_run call db log db'"
  shows "distinct (claim_tokens log) \<and> (\<forall>tok \<in> set (claim_tokens log). tok < t_next db')"
  using assms
proof (induction rule: call_run.induct)
  case (start db)
  then show ?case by (simp add: claim_tokens_def map_filter_def)
next
  case (next_call db log db1 ev db2)
  have "t_next db1 \<le> t_next db2" using call_grows next_call.hyps(2) .
  then have old: "\<forall>tok \<in> set (claim_tokens log). tok < t_next db2" using next_call.IH by fastforce
  show ?case
  proof (cases ev)
    case None
    then show ?thesis using next_call.IH old by simp
  next
    case (Some e)
    obtain i w where e: "e = (i, w)" by fastforce
    show ?thesis
      using next_call.IH old claim_fresh[of db1 i _ _ _ db2] next_call.hyps(2) Some e
      by (cases w) (fastforce simp: claim_tokens_append claim_tokens_single)+
  qed
qed

text \<open>Only the last claimant finishes, and its token was never given to another claim.\<close>

lemma fenced:
  assumes "call_run call db log db1" "rows db = []" "call db1 (Some (i, ev)) db2" "ev = Succeed tok \<or> ev = Fail tok r"
  shows "\<exists>us now e vs. events_of log i = us @ Claim tok now e # vs \<and> list_all (\<lambda>ev. \<not> is_claim ev) vs"
    and "distinct (claim_tokens log)"
proof -
  from run_inv[OF assms(1,2)] have inv: "table_inv id_of item_ok (t_next db1) (rows db1)"
    and tr: "traced id_of work_of log (rows db1)" by simp_all
  from call_effect[OF assms(3) inv] obtain p q where p: "p \<in> set (rows db1)" "id_of p = i" "work_step (work_of p) ev (work_of q)"
    by (auto simp: table_effect_def elim: table_step.cases)
  with tr have "work_trace Waiting (events_of log i @ [ev]) (work_of q)" by (auto simp: traced_def work_trace_append)
  from finisher_is_last_claimant[OF this assms(4)]
  show "\<exists>us now e vs. events_of log i = us @ Claim tok now e # vs \<and> list_all (\<lambda>ev. \<not> is_claim ev) vs" .
  show "distinct (claim_tokens log)" using tokens_fresh[OF assms(1)] by simp
qed

text \<open>Nothing happens to an item after its success.\<close>

lemma succeeds_once:
  assumes "call_run call db log db'" "rows db = []" "events_of log i = us @ Succeed tok # vs"
  shows "vs = []"
proof -
  from assms(3) have "i \<in> fst ` set log" using events_of_unknown by fastforce
  then obtain p where "p \<in> set (rows db')" "id_of p = i"
    using run_inv[OF assms(1,2)] by (auto simp: traced_def)
  then have "work_trace Waiting (us @ Succeed tok # vs) (work_of p)"
    using run_inv[OF assms(1,2)] assms(3) by (auto simp: traced_def)
  then show ?thesis by (rule succeeds_last)
qed

end

end
