(* ===== verification/External_Services.thy ===== *)
theory External_Services
  imports Operation_Repositories Tasks
begin

text \<open>
  \<^verbatim>\<open>application/external_execution_services.py\<close> and
  \<^verbatim>\<open>application/workspace_operation_services.py\<close>: the mapping of task visits to runs of an external
  runtime, and the commands for their workspaces.
\<close>

section \<open>External executions\<close>

definition external_event :: "external_execution \<Rightarrow> string \<Rightarrow> time \<Rightarrow> unit svc" where
  "external_event x event_type now = emit ''external_execution'' (xe_id x) event_type
     [(''workflow_execution_id'', JStr (uuid_str (xe_execution_id x))), (''run_id'', JStr (uuid_str (xe_run_id x))),
      (''node_key'', JStr (xe_node_key x)), (''executor_key'', JStr (xe_executor_key x)),
      (''status'', JStr (external_status_value (xe_status x))),
      (''external_session_key'', JStr (xe_external_session_key x)),
      (''external_run_id'', opt_json JStr (xe_external_run_id x)),
      (''workspace_path'', opt_json JStr (xe_workspace_path x)),
      (''workspace_repository_path'', opt_json JStr (xe_workspace_repository_path x)),
      (''workspace_branch'', opt_json JStr (xe_workspace_branch x)),
      (''workspace_base_ref'', opt_json JStr (xe_workspace_base_ref x)),
      (''workspace_scope'', opt_json JStr (xe_workspace_scope x)),
      (''workspace_released_at'', opt_json (\<lambda>t. JStr (isoformat t)) (xe_workspace_released_at x))] now"

definition external_required :: "string \<Rightarrow> external_execution svc" where
  "external_required key = sneed (LookupError (''external execution not found: '' @ key)) (external_get_by_key key)"

text \<open>The keyword arguments of \<^verbatim>\<open>prepare\<close> that describe the workspace.\<close>

record workspace_binding =
  wb_path :: "string option"
  wb_repository_path :: "string option"
  wb_branch :: "string option"
  wb_base_ref :: "string option"
  wb_scope :: "string option"

definition external_prepare ::
    "task_claim \<Rightarrow> string \<Rightarrow> string option \<Rightarrow> workspace_binding \<Rightarrow> time \<Rightarrow> external_execution svc" where
  "external_prepare claim session_key agent_id ws now =
     sbind (gets (external_get_by_key (tc_idempotency_key claim))) (\<lambda>existing.
     case existing of Some x \<Rightarrow> sreturn x
     | None \<Rightarrow>
       sbind uuid4 (\<lambda>i.
       sbind (slift (external_execution_init
         \<lparr>xe_execution_id = tc_execution_id claim, xe_run_id = tc_run_id claim, xe_node_key = tc_node_key claim,
          xe_executor_key = tc_executor_key claim, xe_idempotency_key = tc_idempotency_key claim,
          xe_external_session_key = session_key, xe_external_agent_id = agent_id, xe_workspace_path = wb_path ws,
          xe_workspace_repository_path = wb_repository_path ws, xe_workspace_branch = wb_branch ws,
          xe_workspace_base_ref = wb_base_ref ws, xe_workspace_scope = wb_scope ws,
          xe_workspace_released_at = None, xe_id = i, xe_external_run_id = None, xe_status = XStarting,
          xe_terminal_result = None, xe_failure_reason = None, xe_created_at = now, xe_updated_at = now,
          xe_completed_at = None\<rparr>)) (\<lambda>x.
       sbind (external_add x) (\<lambda>_.
       sbind (external_event x ''external_execution.prepared'' now) (\<lambda>_. sreturn x)))))"

definition external_accept :: "string \<Rightarrow> string \<Rightarrow> time \<Rightarrow> external_execution svc" where
  "external_accept key external_run_id now =
     sbind (external_required key) (\<lambda>x.
     if xe_status x = XActive \<and> xe_external_run_id x = Some (py_strip external_run_id) then sreturn x
     else
       sbind (slift (xe_accept x external_run_id None now)) (\<lambda>y.
       sbind (external_save y) (\<lambda>_.
       sbind (external_event y ''external_execution.accepted'' now) (\<lambda>_. sreturn y))))"

definition external_finish ::
    "string \<Rightarrow> external_execution_status \<Rightarrow> json_object option \<Rightarrow> string option \<Rightarrow> time \<Rightarrow> external_execution svc" where
  "external_finish key status terminal_result failure_reason now =
     sbind (external_required key) (\<lambda>x.
     if xe_is_terminal x \<and> xe_status x = status then sreturn x
     else
       sbind (slift (xe_finish x status terminal_result failure_reason None now)) (\<lambda>y.
       sbind (external_save y) (\<lambda>_.
       sbind (external_event y ''external_execution.finished'' now) (\<lambda>_. sreturn y))))"

definition external_required_id :: "uuid \<Rightarrow> external_execution svc" where
  "external_required_id k =
     sneed (ResourceNotFound (''external execution not found: '' @ uuid_str k)) (external_get k)"

definition external_release_workspace :: "uuid \<Rightarrow> time \<Rightarrow> external_execution svc" where
  "external_release_workspace execution_id now =
     sbind (external_required_id execution_id) (\<lambda>current.
     sbind (external_required (xe_idempotency_key current)) (\<lambda>x.
     if xe_workspace_released_at x \<noteq> None then sreturn x
     else
       sbind (slift (xe_release_workspace x None now)) (\<lambda>y.
       sbind (external_save y) (\<lambda>_.
       sbind (external_event y ''external_execution.workspace_released'' now) (\<lambda>_. sreturn y)))))"

definition external_service_list ::
    "uuid option \<Rightarrow> uuid option \<Rightarrow> external_execution_status option \<Rightarrow> nat \<Rightarrow> external_execution list svc" where
  "external_service_list workflow_execution_id run_id status limit =
     gets (external_list workflow_execution_id run_id status limit)"

definition external_list_events :: "uuid option \<Rightarrow> nat \<Rightarrow> domain_event list svc" where
  "external_list_events after_event_id limit =
     sbind (case after_event_id of None \<Rightarrow> sreturn None
       | Some k \<Rightarrow> sbind (sneed (ResourceNotFound (''event cursor not found: '' @ uuid_str k)) (events_get k))
           (\<lambda>e. sreturn (Some e))) (\<lambda>after.
     sbind (gets (events_list_after ''external_execution'' after limit)) slift)"

section \<open>Workspace operations\<close>

definition operation_event :: "workspace_operation \<Rightarrow> external_execution \<Rightarrow> string \<Rightarrow> time \<Rightarrow> unit svc" where
  "operation_event p x event_type now = emit ''workspace_operation'' (wo_id p) event_type
     [(''external_execution_id'', JStr (uuid_str (xe_id x))),
      (''workflow_execution_id'', JStr (uuid_str (xe_execution_id x))), (''run_id'', JStr (uuid_str (xe_run_id x))),
      (''kind'', JStr (operation_kind_value (wo_kind p))), (''target_ref'', JStr (wo_target_ref p)),
      (''status'', JStr (operation_status_value (wo_status p))), (''worker_id'', opt_json JStr (wo_worker_id p)),
      (''failure_reason'', opt_json JStr (wo_failure_reason p))] now"

text \<open>A stored command is returned when it is the same command, with the mark that it is a replay.\<close>

definition operation_replay ::
    "workspace_operation \<Rightarrow> workspace_operation_kind \<Rightarrow> string \<Rightarrow> (workspace_operation \<times> bool) svc" where
  "operation_replay existing kind target_ref =
     (if wo_kind existing \<noteq> kind \<or> wo_target_ref existing \<noteq> py_strip target_ref
      then sraise (ResourceConflict ''idempotency key was already used for another command'')
      else sreturn (existing, True))"

definition operation_request ::
    "uuid \<Rightarrow> workspace_operation_kind \<Rightarrow> string \<Rightarrow> string \<Rightarrow> string \<Rightarrow> string option \<Rightarrow> time
       \<Rightarrow> (workspace_operation \<times> bool) svc" where
  "operation_request external_execution_id kind target_ref idempotency_key requested_by confirmation now =
     (let normalized_key = py_strip idempotency_key in
      if normalized_key = []
      then sraise (DomainValidationError ''workspace operation idempotency key must not be empty'')
      else if kind = WCleanup \<and> confirmation \<noteq> Some (uuid_str external_execution_id)
      then sraise (DomainValidationError ''cleanup confirmation must equal the external execution UUID'')
      else
        sbind (external_required_id external_execution_id) (\<lambda>x.
        if \<not> given (xe_workspace_path x) \<or> \<not> given (xe_workspace_scope x)
        then sraise (ResourceConflict ''external execution has no managed workspace scope'')
        else if kind = WCleanup \<and> \<not> xe_is_terminal x
        then sraise (ResourceConflict ''workspace cleanup requires a terminal external execution'')
        else
          sbind (gets (operations_get_by_key external_execution_id normalized_key)) (\<lambda>existing.
          case existing of Some p \<Rightarrow> operation_replay p kind target_ref
          | None \<Rightarrow>
            sbind uuid4 (\<lambda>i.
            sbind (slift (workspace_operation_init
              \<lparr>wo_external_execution_id = external_execution_id, wo_kind = kind, wo_target_ref = target_ref,
               wo_workspace_scope = the (xe_workspace_scope x), wo_idempotency_key = normalized_key,
               wo_requested_by = requested_by, wo_id = i, wo_status = WOPending, wo_worker_id = None,
               wo_lease_token = None, wo_lease_expires_at = None, wo_result = None, wo_failure_reason = None,
               wo_created_at = now, wo_updated_at = now, wo_completed_at = None\<rparr>)) (\<lambda>p.
            sbind (operations_try_add p) (\<lambda>added.
            if \<not> added
            then sbind (sneed (RuntimeError ''workspace operation idempotency claim disappeared'')
                   (operations_get_by_key external_execution_id normalized_key)) (\<lambda>q. operation_replay q kind target_ref)
            else
              sbind (operation_event p x ''workspace_operation.requested'' now) (\<lambda>_. sreturn (p, False))))))))"

definition operation_list_for_execution :: "uuid \<Rightarrow> nat \<Rightarrow> workspace_operation list svc" where
  "operation_list_for_execution external_execution_id limit =
     sbind (external_required_id external_execution_id) (\<lambda>_.
     gets (operations_list_for_execution external_execution_id limit))"

definition operation_claim_next :: "string \<Rightarrow> string \<Rightarrow> int \<Rightarrow> time \<Rightarrow> workspace_operation option svc" where
  "operation_claim_next worker_id workspace_scope lease_seconds now =
     sbind (operations_claim_next worker_id workspace_scope lease_seconds now) (\<lambda>claimed.
     case claimed of None \<Rightarrow> sreturn None
     | Some p \<Rightarrow>
       sbind (external_required_id (wo_external_execution_id p)) (\<lambda>x.
       sbind (operation_event p x ''workspace_operation.claimed'' now) (\<lambda>_. sreturn (Some p))))"

text \<open>\<^verbatim>\<open>_finish\<close>: without a failure reason the operation succeeded; \<open>res\<close> stands for \<^verbatim>\<open>result or {}\<close>.\<close>

definition operation_finish ::
    "uuid \<Rightarrow> uuid \<Rightarrow> json_object \<Rightarrow> string option \<Rightarrow> time \<Rightarrow> workspace_operation svc" where
  "operation_finish operation_id lease_token res failure_reason now =
     sbind (sneed (ResourceNotFound (''workspace operation not found: '' @ uuid_str operation_id))
       (operations_get operation_id)) (\<lambda>p.
     sbind (slift (case failure_reason of None \<Rightarrow> wo_succeed p lease_token res now
       | Some r \<Rightarrow> wo_fail p lease_token r now)) (\<lambda>q.
     sbind (operations_save q) (\<lambda>_.
     sbind (external_required_id (wo_external_execution_id q)) (\<lambda>x.
     sbind (operation_event q x (case failure_reason of None \<Rightarrow> ''workspace_operation.succeeded''
       | Some _ \<Rightarrow> ''workspace_operation.failed'') now) (\<lambda>_. sreturn q)))))"

definition operation_succeed :: "uuid \<Rightarrow> uuid \<Rightarrow> json_object \<Rightarrow> time \<Rightarrow> workspace_operation svc" where
  "operation_succeed operation_id lease_token res now = operation_finish operation_id lease_token res None now"

definition operation_fail :: "uuid \<Rightarrow> uuid \<Rightarrow> string \<Rightarrow> time \<Rightarrow> workspace_operation svc" where
  "operation_fail operation_id lease_token reason now = operation_finish operation_id lease_token [] (Some reason) now"

end
