(* ===== verification/Scm_Services.thy ===== *)
theory Scm_Services
  imports External_Services
begin

text \<open>
  \<^verbatim>\<open>application/scm_publication_services.py\<close>. A claim adds an attempt with the number of the claim, and
  finishing a publication finishes that attempt with the same lease token.
\<close>

definition publication_payload :: "scm_publication \<Rightarrow> external_execution \<Rightarrow> json_object" where
  "publication_payload p x =
     [(''external_execution_id'', JStr (uuid_str (xe_id x))),
      (''workflow_execution_id'', JStr (uuid_str (xe_execution_id x))), (''run_id'', JStr (uuid_str (xe_run_id x))),
      (''provider_key'', JStr (sp_provider_key p)), (''repository'', JStr (sp_repository p)),
      (''source_branch'', JStr (sp_source_branch p)), (''target_branch'', JStr (sp_target_branch p)),
      (''status'', JStr (scm_status_value (sp_status p))), (''worker_id'', opt_json JStr (sp_worker_id p)),
      (''failure_reason'', opt_json JStr (sp_failure_reason p)),
      (''failure_code'', opt_json (\<lambda>c. JStr (scm_code_value c)) (sp_failure_code p)),
      (''failure_retryable'', opt_json JBool (sp_failure_retryable p)),
      (''attempt_count'', JInt (sp_attempt_count p)), (''automatic_retry_limit'', JInt (sp_automatic_retry_limit p)),
      (''next_attempt_at'', opt_json (\<lambda>t. JStr (isoformat t)) (sp_next_attempt_at p))]"

definition publication_event ::
    "scm_publication \<Rightarrow> external_execution \<Rightarrow> string \<Rightarrow> string option \<Rightarrow> attempt_trigger option \<Rightarrow> time \<Rightarrow> unit svc" where
  "publication_event p x event_type actor attempt_trigger now = emit ''scm_publication'' (sp_id p) event_type
     (publication_payload p x
      @ (case actor of None \<Rightarrow> [] | Some a \<Rightarrow> [(''actor'', JStr a)])
      @ (case attempt_trigger of None \<Rightarrow> [] | Some t \<Rightarrow> [(''attempt_trigger'', JStr (trigger_value t))])) now"

definition publication_project :: "external_execution \<Rightarrow> project svc" where
  "publication_project x =
     sbind (sneed (ResourceNotFound (''run not found: '' @ uuid_str (xe_run_id x))) (runs_get (xe_run_id x))) (\<lambda>r.
     sbind (sneed (ResourceNotFound (''request not found: '' @ uuid_str (rn_request_id r)))
       (requests_get (rn_request_id r))) (\<lambda>q.
     sneed (ResourceNotFound (''project not found: '' @ uuid_str (rq_project_id q))) (projects_get (rq_project_id q))))"

text \<open>The six values a replay compares.\<close>

definition same_publication :: "scm_publication \<Rightarrow> scm_publication \<Rightarrow> bool" where
  "same_publication p q \<longleftrightarrow> sp_provider_key p = sp_provider_key q \<and> sp_repository p = sp_repository q
     \<and> sp_source_branch p = sp_source_branch q \<and> sp_target_branch p = sp_target_branch q
     \<and> sp_title p = sp_title q \<and> sp_body p = sp_body q"

definition publication_replay :: "scm_publication \<Rightarrow> scm_publication \<Rightarrow> (scm_publication \<times> bool) svc" where
  "publication_replay existing wanted =
     (if \<not> same_publication existing wanted
      then sraise (ResourceConflict ''idempotency key was already used for another publication'')
      else sreturn (existing, True))"

definition publication_request ::
    "uuid \<Rightarrow> string \<Rightarrow> string \<Rightarrow> string \<Rightarrow> string \<Rightarrow> string \<Rightarrow> string \<Rightarrow> time \<Rightarrow> (scm_publication \<times> bool) svc" where
  "publication_request external_execution_id provider_key target_branch title body idempotency_key requested_by now =
     (let normalized_key = py_strip idempotency_key in
      if normalized_key = [] then sraise (DomainValidationError ''SCM publication idempotency key must not be empty'')
      else
        sbind (external_required_id external_execution_id) (\<lambda>x.
        if \<not> xe_is_terminal x
        then sraise (ResourceConflict ''SCM publication requires a terminal external execution'')
        else if xe_workspace_released_at x \<noteq> None
        then sraise (ResourceConflict ''SCM publication requires an unreleased workspace'')
        else if \<not> given (xe_workspace_branch x) \<or> \<not> given (xe_workspace_scope x)
        then sraise (ResourceConflict ''external execution has no managed workspace scope'')
        else
          sbind (publication_project x) (\<lambda>project.
          sbind uuid4 (\<lambda>i.
          let wanted = \<lparr>sp_external_execution_id = external_execution_id, sp_provider_key = py_strip provider_key,
               sp_repository = pj_repository_url project, sp_source_branch = the (xe_workspace_branch x),
               sp_target_branch = py_strip target_branch, sp_title = py_strip title, sp_body = py_strip body,
               sp_workspace_scope = the (xe_workspace_scope x), sp_idempotency_key = normalized_key,
               sp_requested_by = requested_by, sp_id = i, sp_status = SPending, sp_worker_id = None,
               sp_lease_token = None, sp_lease_expires_at = None, sp_result = None, sp_failure_reason = None,
               sp_failure_code = None, sp_failure_retryable = None, sp_attempt_count = 0,
               sp_automatic_retry_limit = 0, sp_next_attempt_at = None, sp_created_at = now, sp_updated_at = now,
               sp_completed_at = None\<rparr> in
          sbind (gets (publications_get_by_key external_execution_id normalized_key)) (\<lambda>existing.
          case existing of Some p \<Rightarrow> publication_replay p wanted
          | None \<Rightarrow>
            sbind (slift (scm_publication_init wanted)) (\<lambda>p.
            sbind (publications_try_add p) (\<lambda>added.
            if \<not> added
            then sbind (sneed (RuntimeError ''SCM publication idempotency claim disappeared'')
                   (publications_get_by_key external_execution_id normalized_key)) (\<lambda>q. publication_replay q wanted)
            else
              sbind (publication_event p x ''scm_publication.requested'' None None now) (\<lambda>_.
              sreturn (p, False)))))))))"

definition publication_required :: "uuid \<Rightarrow> scm_publication svc" where
  "publication_required k =
     sneed (ResourceNotFound (''SCM publication not found: '' @ uuid_str k)) (publications_get k)"

definition publication_list_for_execution :: "uuid \<Rightarrow> nat \<Rightarrow> scm_publication list svc" where
  "publication_list_for_execution external_execution_id limit =
     sbind (external_required_id external_execution_id) (\<lambda>_.
     gets (publications_list_for_execution external_execution_id limit))"

definition publication_list_attempts :: "uuid \<Rightarrow> nat \<Rightarrow> scm_publication_attempt list svc" where
  "publication_list_attempts publication_id limit =
     sbind (publication_required publication_id) (\<lambda>_. gets (publication_attempts_list publication_id limit))"

definition publication_retry :: "uuid \<Rightarrow> string \<Rightarrow> time \<Rightarrow> (scm_publication \<times> bool) svc" where
  "publication_retry publication_id requested_by now =
     sbind (publication_required publication_id) (\<lambda>p.
     sbind (external_required_id (sp_external_execution_id p)) (\<lambda>x.
     if xe_workspace_released_at x \<noteq> None
     then sraise (ResourceConflict ''SCM publication retry requires an unreleased workspace'')
     else if xe_workspace_branch x \<noteq> Some (sp_source_branch p)
     then sraise (ResourceConflict ''SCM publication source branch changed before retry'')
     else if sp_status p \<in> {SPending, SClaimed} then sreturn (p, True)
     else if sp_status p = SSucceeded
     then sraise (ResourceConflict ''succeeded SCM publication cannot be retried'')
     else
       sbind (slift (sp_retry p now)) (\<lambda>q.
       sbind (publications_save q) (\<lambda>_.
       sbind (publication_event q x ''scm_publication.retried'' (Some (or_anonymous requested_by)) None now) (\<lambda>_.
       sreturn (q, False))))))"

definition publication_cancel_automatic_retry :: "uuid \<Rightarrow> string \<Rightarrow> time \<Rightarrow> (scm_publication \<times> bool) svc" where
  "publication_cancel_automatic_retry publication_id requested_by now =
     sbind (publication_required publication_id) (\<lambda>p.
     sbind (external_required_id (sp_external_execution_id p)) (\<lambda>x.
     if sp_status p \<in> {SPending, SClaimed}
     then sraise (ResourceConflict ''active SCM publication has no automatic retry to cancel'')
     else if sp_status p = SSucceeded
     then sraise (ResourceConflict ''succeeded SCM publication has no automatic retry to cancel'')
     else
       sbind (slift (sp_cancel_automatic_retry p now)) (\<lambda>(q, changed).
       if \<not> changed then sreturn (q, True)
       else
         sbind (publications_save q) (\<lambda>_.
         sbind (publication_event q x ''scm_publication.automatic_retry_cancelled''
           (Some (or_anonymous requested_by)) None now) (\<lambda>_. sreturn (q, False))))))"

text \<open>\<^verbatim>\<open>ScmPublicationAttempt(...)\<close> with its default values.\<close>

definition new_publication_attempt ::
    "scm_publication \<Rightarrow> attempt_trigger \<Rightarrow> string \<Rightarrow> uuid \<Rightarrow> uuid \<Rightarrow> scm_publication_attempt result" where
  "new_publication_attempt p trigger worker_id lease_token i = scm_attempt_init
     \<lparr>sa_publication_id = sp_id p, sa_attempt_number = sp_attempt_count p, sa_trigger = trigger,
      sa_worker_id = worker_id, sa_lease_token = lease_token, sa_id = i, sa_status = SAClaimed, sa_result = None,
      sa_failure_reason = None, sa_failure_code = None, sa_failure_retryable = None,
      sa_started_at = sp_updated_at p, sa_finished_at = None\<rparr>"

text \<open>The attempt and the event of a claim.\<close>

definition record_publication_claim :: "string \<Rightarrow> scm_publication \<Rightarrow> attempt_trigger \<Rightarrow> time \<Rightarrow> unit svc" where
  "record_publication_claim worker_id p trigger now =
     (case sp_lease_token p of
        None \<Rightarrow> sraise (RuntimeError ''claimed SCM publication has no lease token'')
      | Some tok \<Rightarrow>
        sbind uuid4 (\<lambda>i.
        sbind (slift (new_publication_attempt p trigger
          (case sp_worker_id p of Some w \<Rightarrow> (if w = [] then worker_id else w) | None \<Rightarrow> worker_id) tok i)) (\<lambda>a.
        sbind (publication_attempts_add a) (\<lambda>_.
        sbind (external_required_id (sp_external_execution_id p)) (\<lambda>x.
        publication_event p x ''scm_publication.claimed'' None (Some trigger) now)))))"

definition publication_claim_next ::
    "string \<Rightarrow> string \<Rightarrow> string \<Rightarrow> int \<Rightarrow> time \<Rightarrow> scm_publication option svc" where
  "publication_claim_next worker_id provider_key workspace_scope lease_seconds now =
     sbind (publications_claim_next worker_id provider_key workspace_scope lease_seconds now) (\<lambda>claim.
     case claim of None \<Rightarrow> sreturn None
     | Some (p, trigger) \<Rightarrow>
       sbind (record_publication_claim worker_id p trigger now) (\<lambda>_. sreturn (Some p)))"

text \<open>The outcome a caller reports: the result of a success, or a failure.\<close>

type_synonym scm_outcome = "json_object + scm_failure"

text \<open>The attempt of the current claim; a claim made before attempts were recorded has none.\<close>

definition publication_attempt :: "scm_publication \<Rightarrow> uuid \<Rightarrow> scm_publication_attempt svc" where
  "publication_attempt p lease_token =
     sbind (gets (publication_attempts_get (sp_id p) (sp_attempt_count p))) (\<lambda>found.
     case found of Some a \<Rightarrow> sreturn a
     | None \<Rightarrow>
       (case sp_worker_id p of
          None \<Rightarrow> sraise (ResourceConflict ''claimed SCM publication has no worker'')
        | Some w \<Rightarrow>
          sbind uuid4 (\<lambda>i.
          sbind (slift (new_publication_attempt p TLeaseRecovery w lease_token i)) (\<lambda>a.
          sbind (publication_attempts_add a) (\<lambda>_. sreturn a)))))"

definition publication_outcome :: "scm_publication \<Rightarrow> uuid \<Rightarrow> scm_outcome \<Rightarrow> time \<Rightarrow> scm_publication result" where
  "publication_outcome p lease_token outcome finished_at =
     (case outcome of Inl res \<Rightarrow> sp_succeed p lease_token res finished_at
      | Inr f \<Rightarrow> sp_fail p lease_token f finished_at)"

definition attempt_outcome ::
    "scm_publication_attempt \<Rightarrow> uuid \<Rightarrow> scm_outcome \<Rightarrow> time \<Rightarrow> scm_publication_attempt result" where
  "attempt_outcome a lease_token outcome finished_at =
     (case outcome of Inl res \<Rightarrow> sa_succeed a lease_token res finished_at
      | Inr f \<Rightarrow> sa_fail a lease_token (sf_reason f) (sf_code f) (sf_retryable f) finished_at)"

definition publication_finish :: "uuid \<Rightarrow> uuid \<Rightarrow> scm_outcome \<Rightarrow> time \<Rightarrow> scm_publication svc" where
  "publication_finish publication_id lease_token outcome now =
     sbind (publication_required publication_id) (\<lambda>p.
     sbind (publication_attempt p lease_token) (\<lambda>a.
     sbind (slift (publication_outcome p lease_token outcome now)) (\<lambda>q.
     sbind (slift (attempt_outcome a lease_token outcome now)) (\<lambda>b.
     sbind (publications_save q) (\<lambda>_.
     sbind (publication_attempts_save b) (\<lambda>_.
     sbind (external_required_id (sp_external_execution_id q)) (\<lambda>x.
     sbind (publication_event q x (case outcome of Inl _ \<Rightarrow> ''scm_publication.succeeded''
       | Inr _ \<Rightarrow> ''scm_publication.failed'') None None now) (\<lambda>_.
     sbind (if sp_next_attempt_at q \<noteq> None
       then publication_event q x ''scm_publication.retry_scheduled'' None None now else sreturn ()) (\<lambda>_.
     sreturn q)))))))))"

definition publication_succeed :: "uuid \<Rightarrow> uuid \<Rightarrow> json_object \<Rightarrow> time \<Rightarrow> scm_publication svc" where
  "publication_succeed publication_id lease_token res now = publication_finish publication_id lease_token (Inl res) now"

definition publication_fail :: "uuid \<Rightarrow> uuid \<Rightarrow> scm_failure \<Rightarrow> time \<Rightarrow> scm_publication svc" where
  "publication_fail publication_id lease_token f now = publication_finish publication_id lease_token (Inr f) now"

end
