(* ===== verification/Notification_Services.thy ===== *)
theory Notification_Services
  imports Operation_Repositories
begin

text \<open>
  \<^verbatim>\<open>application/notification_services.py\<close>: subscriptions of a project, the deliveries an event
  causes (\<open>enqueue_notification_deliveries\<close>) and the life of a delivery.
\<close>

section \<open>Subscriptions\<close>

definition subscription_event :: "notification_subscription \<Rightarrow> string \<Rightarrow> string option \<Rightarrow> time \<Rightarrow> unit svc" where
  "subscription_event b event_type actor now = emit ''project'' (nb_project_id b) event_type
     [(''subscription_id'', JStr (uuid_str (nb_id b))), (''provider_key'', JStr (nb_provider_key b)),
      (''destination_ref'', JStr (nb_destination_ref b)),
      (''event_types'', JList (map (\<lambda>t. JStr (notification_event_value t)) (nb_event_types b))),
      (''enabled'', JBool (nb_enabled b)),
      (''actor'', JStr (or_anonymous (case actor of None \<Rightarrow> nb_created_by b
         | Some a \<Rightarrow> if a = [] then nb_created_by b else a)))] now"

definition project_required :: "uuid \<Rightarrow> project svc" where
  "project_required k = sneed (ResourceNotFound (''project not found: '' @ uuid_str k)) (projects_get k)"

definition create_subscription ::
    "uuid \<Rightarrow> string \<Rightarrow> string \<Rightarrow> notification_event_type list \<Rightarrow> string \<Rightarrow> time
       \<Rightarrow> (notification_subscription \<times> bool) svc" where
  "create_subscription project_id provider_key destination_ref event_types created_by now =
     sbind uuid4 (\<lambda>i.
     sbind (slift (notification_subscription_init
       \<lparr>nb_project_id = project_id, nb_provider_key = provider_key, nb_destination_ref = destination_ref,
        nb_event_types = event_types, nb_created_by = created_by, nb_enabled = True, nb_id = i,
        nb_created_at = now, nb_updated_at = now\<rparr>)) (\<lambda>b.
     sbind (project_required project_id) (\<lambda>_.
     sbind (subscriptions_try_add b) (\<lambda>added.
     if \<not> added
     then
       sbind (sneed (RuntimeError ''notification subscription uniqueness claim disappeared'')
         (subscriptions_get_destination project_id (nb_provider_key b) (nb_destination_ref b))) (\<lambda>existing.
       if nb_event_types existing \<noteq> nb_event_types b
       then sraise (ResourceConflict ''notification destination is already registered with different event types'')
       else sreturn (existing, True))
     else
       sbind (subscription_event b ''notification.subscription_created'' None now) (\<lambda>_. sreturn (b, False))))))"

definition configure_subscription ::
    "uuid \<Rightarrow> uuid \<Rightarrow> notification_event_type list \<Rightarrow> bool \<Rightarrow> string \<Rightarrow> time \<Rightarrow> notification_subscription svc" where
  "configure_subscription project_id subscription_id event_types enabled configured_by now =
     sbind (project_required project_id) (\<lambda>_.
     sbind (sneed (ResourceNotFound (''notification subscription not found: '' @ uuid_str subscription_id))
       (\<lambda>db. case subscriptions_get subscription_id db of None \<Rightarrow> None
          | Some b \<Rightarrow> if nb_project_id b \<noteq> project_id then None else Some b)) (\<lambda>b.
     sbind (slift (nb_configure b event_types enabled None now)) (\<lambda>c.
     sbind (subscriptions_save c) (\<lambda>_.
     sbind (subscription_event c ''notification.subscription_configured'' (Some configured_by) now) (\<lambda>_.
     sreturn c)))))"

definition list_subscriptions :: "uuid \<Rightarrow> nat \<Rightarrow> notification_subscription list svc" where
  "list_subscriptions project_id limit =
     sbind (project_required project_id) (\<lambda>_. gets (subscriptions_list_by_project project_id None limit))"

section \<open>Enqueueing\<close>

definition notification_event_type_of :: "string \<Rightarrow> notification_event_type result" where
  "notification_event_type_of = enum_of ''NotificationEventType'' notification_event_value
     [ReadinessAlerted, ReadinessCritical, ReadinessResolved]"

definition new_delivery ::
    "notification_subscription \<Rightarrow> domain_event \<Rightarrow> notification_event_type \<Rightarrow> uuid \<Rightarrow> uuid \<Rightarrow> time
       \<Rightarrow> notification_delivery result" where
  "new_delivery b event event_type alert_id i now = notification_delivery_init
     \<lparr>nl_subscription_id = nb_id b, nl_project_id = ev_aggregate_id event, nl_event_id = ev_id event,
      nl_alert_id = alert_id, nl_event_type = event_type, nl_provider_key = nb_provider_key b,
      nl_destination_ref = nb_destination_ref b,
      nl_payload = [(''event_id'', JStr (uuid_str (ev_id event))), (''event_type'', JStr (ev_event_type event)),
        (''project_id'', JStr (uuid_str (ev_aggregate_id event))),
        (''occurred_at'', JStr (isoformat (ev_occurred_at event))), (''data'', JObj (ev_payload event))],
      nl_idempotency_key = ''notification:'' @ uuid_str (nb_id b) @ '':'' @ uuid_str (ev_id event),
      nl_status = NLPending, nl_worker_id = None, nl_lease_token = None, nl_lease_expires_at = None,
      nl_result = None, nl_failure_reason = None, nl_failure_code = None, nl_failure_retryable = None,
      nl_attempt_count = 0, nl_automatic_retry_limit = 0, nl_next_attempt_at = None, nl_id = i,
      nl_created_at = now, nl_updated_at = now, nl_completed_at = None\<rparr>"

text \<open>One iteration of the loop: whether a delivery was created.\<close>

definition enqueue_one ::
    "domain_event \<Rightarrow> notification_event_type \<Rightarrow> uuid \<Rightarrow> time \<Rightarrow> notification_subscription \<Rightarrow> bool svc" where
  "enqueue_one event event_type alert_id now b =
     (if \<not> nb_accepts b event_type then sreturn False
      else
        sbind uuid4 (\<lambda>i.
        sbind (slift (new_delivery b event event_type alert_id i now)) deliveries_try_add))"

definition enqueue_notification_deliveries :: "domain_event \<Rightarrow> time \<Rightarrow> nat svc" where
  "enqueue_notification_deliveries event now =
     (case notification_event_type_of (ev_event_type event) of
        Inl _ \<Rightarrow> sreturn 0
      | Inr event_type \<Rightarrow>
        (case map_of (ev_payload event) ''alert_id'' of
           Some (JStr alert_value) \<Rightarrow>
             sbind (slift (uuid_of_str alert_value)) (\<lambda>alert_id.
             sbind (gets (subscriptions_list_by_project (ev_aggregate_id event) (Some True) 500)) (\<lambda>subscriptions.
             sbind (smap (enqueue_one event event_type alert_id now) subscriptions) (\<lambda>created.
             sreturn (length (filter id created)))))
         | _ \<Rightarrow> sraise (RuntimeError ''notification source event requires an alert_id'')))"

section \<open>Deliveries\<close>

definition delivery_payload :: "notification_delivery \<Rightarrow> json_object" where
  "delivery_payload p =
     [(''project_id'', JStr (uuid_str (nl_project_id p))), (''provider_key'', JStr (nl_provider_key p)),
      (''event_type'', JStr (notification_event_value (nl_event_type p))),
      (''status'', JStr (delivery_status_value (nl_status p))), (''worker_id'', opt_json JStr (nl_worker_id p)),
      (''attempt_count'', JInt (nl_attempt_count p)), (''failure_reason'', opt_json JStr (nl_failure_reason p)),
      (''failure_code'', opt_json (\<lambda>c. JStr (notification_code_value c)) (nl_failure_code p)),
      (''failure_retryable'', opt_json JBool (nl_failure_retryable p)),
      (''automatic_retry_limit'', JInt (nl_automatic_retry_limit p)),
      (''next_attempt_at'', opt_json (\<lambda>t. JStr (isoformat t)) (nl_next_attempt_at p))]"

definition delivery_event ::
    "notification_delivery \<Rightarrow> string \<Rightarrow> string option \<Rightarrow> attempt_trigger option \<Rightarrow> time \<Rightarrow> unit svc" where
  "delivery_event p event_type actor attempt_trigger now = emit ''notification_delivery'' (nl_id p) event_type
     (delivery_payload p
      @ (case actor of None \<Rightarrow> [] | Some a \<Rightarrow> [(''actor'', JStr a)])
      @ (case attempt_trigger of None \<Rightarrow> [] | Some t \<Rightarrow> [(''attempt_trigger'', JStr (trigger_value t))])) now"

definition project_delivery :: "uuid \<Rightarrow> uuid \<Rightarrow> notification_delivery svc" where
  "project_delivery project_id delivery_id =
     sbind (project_required project_id) (\<lambda>_.
     sneed (ResourceNotFound (''notification delivery not found: '' @ uuid_str delivery_id))
       (\<lambda>db. case deliveries_get delivery_id db of None \<Rightarrow> None
          | Some p \<Rightarrow> if nl_project_id p \<noteq> project_id then None else Some p))"

definition list_deliveries :: "uuid \<Rightarrow> notification_delivery_status option \<Rightarrow> nat \<Rightarrow> notification_delivery list svc" where
  "list_deliveries project_id status limit =
     sbind (project_required project_id) (\<lambda>_. gets (deliveries_list_by_project project_id status limit))"

definition list_attempts :: "uuid \<Rightarrow> uuid \<Rightarrow> nat \<Rightarrow> notification_attempt list svc" where
  "list_attempts project_id delivery_id limit =
     sbind (project_delivery project_id delivery_id) (\<lambda>_. gets (delivery_attempts_list delivery_id limit))"

definition delivery_retry :: "uuid \<Rightarrow> uuid \<Rightarrow> string \<Rightarrow> time \<Rightarrow> (notification_delivery \<times> bool) svc" where
  "delivery_retry project_id delivery_id requested_by now =
     sbind (project_delivery project_id delivery_id) (\<lambda>p.
     if nl_status p \<in> {NLPending, NLClaimed} then sreturn (p, True)
     else if nl_status p = NLSucceeded
     then sraise (ResourceConflict ''succeeded notification delivery cannot be retried'')
     else
       sbind (slift (nl_retry p now)) (\<lambda>q.
       sbind (deliveries_save q) (\<lambda>_.
       sbind (delivery_event q ''notification.delivery_retried'' (Some (or_anonymous requested_by)) None now) (\<lambda>_.
       sreturn (q, False)))))"

definition delivery_cancel_automatic_retry :: "uuid \<Rightarrow> uuid \<Rightarrow> string \<Rightarrow> time \<Rightarrow> (notification_delivery \<times> bool) svc" where
  "delivery_cancel_automatic_retry project_id delivery_id requested_by now =
     sbind (project_delivery project_id delivery_id) (\<lambda>p.
     if nl_status p \<in> {NLPending, NLClaimed}
     then sraise (ResourceConflict ''active notification delivery has no automatic retry to cancel'')
     else if nl_status p = NLSucceeded
     then sraise (ResourceConflict ''succeeded notification delivery has no automatic retry to cancel'')
     else
       sbind (slift (nl_cancel_automatic_retry p now)) (\<lambda>(q, changed).
       if \<not> changed then sreturn (q, True)
       else
         sbind (deliveries_save q) (\<lambda>_.
         sbind (delivery_event q ''notification.delivery_automatic_retry_cancelled''
           (Some (or_anonymous requested_by)) None now) (\<lambda>_. sreturn (q, False)))))"

definition new_delivery_attempt ::
    "notification_delivery \<Rightarrow> attempt_trigger \<Rightarrow> string \<Rightarrow> uuid \<Rightarrow> uuid \<Rightarrow> notification_attempt result" where
  "new_delivery_attempt p trigger worker_id lease_token i = notification_attempt_init
     \<lparr>na_delivery_id = nl_id p, na_attempt_number = nl_attempt_count p, na_trigger = trigger,
      na_worker_id = worker_id, na_lease_token = lease_token, na_id = i, na_status = NAClaimed, na_result = None,
      na_failure_reason = None, na_failure_code = None, na_failure_retryable = None,
      na_started_at = nl_updated_at p, na_finished_at = None\<rparr>"

text \<open>After a lease expired, the attempt it left open is failed.\<close>

definition close_previous_attempt :: "notification_delivery \<Rightarrow> attempt_trigger \<Rightarrow> unit svc" where
  "close_previous_attempt p trigger =
     (if trigger \<noteq> TLeaseRecovery then sreturn ()
      else
        sbind (gets (delivery_attempts_get (nl_id p) (nl_attempt_count p - 1))) (\<lambda>previous.
        case previous of None \<Rightarrow> sreturn ()
        | Some a \<Rightarrow>
          if na_status a \<noteq> NAClaimed then sreturn ()
          else
            sbind (slift (na_fail a (na_lease_token a) ''notification delivery lease expired before completion''
              NLeaseExpired False (nl_updated_at p))) delivery_attempts_save))"

definition record_delivery_claim :: "string \<Rightarrow> notification_delivery \<Rightarrow> attempt_trigger \<Rightarrow> time \<Rightarrow> unit svc" where
  "record_delivery_claim worker_id p trigger now =
     (case nl_lease_token p of
        None \<Rightarrow> sraise (RuntimeError ''claimed notification delivery has no lease token'')
      | Some tok \<Rightarrow>
        sbind (close_previous_attempt p trigger) (\<lambda>_.
        sbind uuid4 (\<lambda>i.
        sbind (slift (new_delivery_attempt p trigger
          (case nl_worker_id p of Some w \<Rightarrow> (if w = [] then worker_id else w) | None \<Rightarrow> worker_id) tok i)) (\<lambda>a.
        sbind (delivery_attempts_add a) (\<lambda>_.
        delivery_event p ''notification.delivery_claimed'' None (Some trigger) now)))))"

definition delivery_claim_next :: "string \<Rightarrow> string \<Rightarrow> int \<Rightarrow> time \<Rightarrow> notification_delivery option svc" where
  "delivery_claim_next worker_id provider_key lease_seconds now =
     sbind (deliveries_claim_next worker_id provider_key lease_seconds now) (\<lambda>claim.
     case claim of None \<Rightarrow> sreturn None
     | Some (p, trigger) \<Rightarrow>
       sbind (record_delivery_claim worker_id p trigger now) (\<lambda>_. sreturn (Some p)))"

type_synonym notification_outcome = "json_object + notification_failure"

definition delivery_attempt :: "notification_delivery \<Rightarrow> uuid \<Rightarrow> notification_attempt svc" where
  "delivery_attempt p lease_token =
     sbind (gets (delivery_attempts_get (nl_id p) (nl_attempt_count p))) (\<lambda>found.
     case found of Some a \<Rightarrow> sreturn a
     | None \<Rightarrow>
       (case nl_worker_id p of
          None \<Rightarrow> sraise (ResourceConflict ''claimed notification delivery has no worker'')
        | Some w \<Rightarrow>
          sbind uuid4 (\<lambda>i.
          sbind (slift (new_delivery_attempt p TLeaseRecovery w lease_token i)) (\<lambda>a.
          sbind (delivery_attempts_add a) (\<lambda>_. sreturn a)))))"

definition delivery_outcome :: "notification_delivery \<Rightarrow> uuid \<Rightarrow> notification_outcome \<Rightarrow> time \<Rightarrow> notification_delivery result" where
  "delivery_outcome p lease_token outcome finished_at =
     (case outcome of Inl res \<Rightarrow> nl_succeed p lease_token res finished_at
      | Inr f \<Rightarrow> nl_fail p lease_token f finished_at)"

definition delivery_attempt_outcome ::
    "notification_attempt \<Rightarrow> uuid \<Rightarrow> notification_outcome \<Rightarrow> time \<Rightarrow> notification_attempt result" where
  "delivery_attempt_outcome a lease_token outcome finished_at =
     (case outcome of Inl res \<Rightarrow> na_succeed a lease_token res finished_at
      | Inr f \<Rightarrow> na_fail a lease_token (nf_reason f) (nf_code f) (nf_retryable f) finished_at)"

definition delivery_finish :: "uuid \<Rightarrow> uuid \<Rightarrow> notification_outcome \<Rightarrow> time \<Rightarrow> notification_delivery svc" where
  "delivery_finish delivery_id lease_token outcome now =
     sbind (sneed (ResourceNotFound (''notification delivery not found: '' @ uuid_str delivery_id))
       (deliveries_get delivery_id)) (\<lambda>p.
     sbind (delivery_attempt p lease_token) (\<lambda>a.
     sbind (slift (delivery_outcome p lease_token outcome now)) (\<lambda>q.
     sbind (slift (delivery_attempt_outcome a lease_token outcome now)) (\<lambda>b.
     sbind (deliveries_save q) (\<lambda>_.
     sbind (delivery_attempts_save b) (\<lambda>_.
     sbind (delivery_event q (case outcome of Inl _ \<Rightarrow> ''notification.delivery_succeeded''
       | Inr _ \<Rightarrow> ''notification.delivery_failed'') None None now) (\<lambda>_.
     sbind (if nl_next_attempt_at q \<noteq> None
       then delivery_event q ''notification.delivery_retry_scheduled'' None None now else sreturn ()) (\<lambda>_.
     sreturn q))))))))"

definition delivery_succeed :: "uuid \<Rightarrow> uuid \<Rightarrow> json_object \<Rightarrow> time \<Rightarrow> notification_delivery svc" where
  "delivery_succeed delivery_id lease_token res now = delivery_finish delivery_id lease_token (Inl res) now"

definition delivery_fail :: "uuid \<Rightarrow> uuid \<Rightarrow> notification_failure \<Rightarrow> time \<Rightarrow> notification_delivery svc" where
  "delivery_fail delivery_id lease_token f now = delivery_finish delivery_id lease_token (Inr f) now"

end
