(* ===== verification/Leased_Services.thy ===== *)
theory Leased_Services
  imports Leased_Tables Scm_Services Notification_Services
begin

text \<open>
  The services over workspace operations, publications and notification deliveries refine the
  contract of leased work: for each of them the relation of its calls, with calls of other services
  between them, and the interpretation of \<open>leased_service\<close>.
\<close>

section \<open>Frames\<close>

lemma keeps_external_event [frame_rules]:
  "(\<And>db n es. f (db\<lparr>t_next := n, t_events := es\<rparr>) = f db) \<Longrightarrow> keeps f (external_event x t now)"
  "(\<And>db n es. f (db\<lparr>t_next := n, t_events := es\<rparr>) = f db) \<Longrightarrow> keeps f (operation_event p x t now)"
  "(\<And>db n es. f (db\<lparr>t_next := n, t_events := es\<rparr>) = f db) \<Longrightarrow> keeps f (publication_event q x t a tr now)"
  "(\<And>db n es. f (db\<lparr>t_next := n, t_events := es\<rparr>) = f db) \<Longrightarrow> keeps f (delivery_event d t a tr now)"
  "(\<And>db n es. f (db\<lparr>t_next := n, t_events := es\<rparr>) = f db) \<Longrightarrow> keeps f (subscription_event b t a now)"
  unfolding external_event_def operation_event_def publication_event_def delivery_event_def subscription_event_def
  by (rule keeps_emit, assumption)+

lemma grows_events [frame_rules]:
  "grows (external_event x t now)" "grows (operation_event p x t now)" "grows (publication_event q x t a tr now)"
  "grows (delivery_event d t a tr now)" "grows (subscription_event b t a now)"
  unfolding external_event_def operation_event_def publication_event_def delivery_event_def subscription_event_def
  by (rule grows_emit)+

lemma keeps_required [frame_rules]:
  "within R (external_required_id k)" if "\<And>db. R db db"
  using that by (simp add: within_def external_required_id_def)

section \<open>Publications\<close>

abbreviation publications :: "db \<Rightarrow> scm_publication list" where
  "publications db \<equiv> x_publications (t_ops db)"

inductive publication_call :: "db \<Rightarrow> (uuid \<times> work_event) option \<Rightarrow> db \<Rightarrow> bool" where
  requested: "publication_request x provider target title body key who now db = Inr (r, db') \<Longrightarrow>
    publication_call db None db'"
| claimed: "publication_claim_next worker provider scope lease now db = Inr (Some p, db') \<Longrightarrow>
    sp_lease_token p = Some tok \<Longrightarrow>
    publication_call db (Some (sp_id p, Claim tok now (now + seconds lease))) db'"
| idle: "publication_claim_next worker provider scope lease now db = Inr (None, db') \<Longrightarrow> publication_call db None db'"
| succeeded: "publication_succeed i tok res now db = Inr (p, db') \<Longrightarrow> publication_call db (Some (i, Succeed tok)) db'"
| failed: "publication_fail i tok f now db = Inr (p, db') \<Longrightarrow>
    publication_call db (Some (i, Fail tok (sf_next_attempt_at f))) db'"
| retried: "publication_retry i who now db = Inr ((p, replay), db') \<Longrightarrow>
    publication_call db (if replay then None else Some (i, Retry)) db'"
| cancelled: "publication_cancel_automatic_retry i who now db = Inr ((p, replay), db') \<Longrightarrow>
    publication_call db (if replay then None else Some (i, Cancel)) db'"
| other: "publications db' = publications db \<Longrightarrow> t_next db \<le> t_next db' \<Longrightarrow> publication_call db None db'"

lemma grows_record_claim [frame_rules]: "grows (record_publication_claim worker p trigger now)"
  unfolding record_publication_claim_def publication_attempts_add_def by (intro frame_rules; simp)

lemma grows_publication_services [frame_rules]:
  "grows (publication_request x provider target title body key who now)"
  "grows (publication_claim_next worker provider scope lease now)"
  "grows (publication_finish i tok out now)" "grows (publication_retry i who now)"
  "grows (publication_cancel_automatic_retry i who now)"
  unfolding publication_request_def publication_claim_next_def publication_finish_def publication_retry_def
    publication_cancel_automatic_retry_def publication_replay_def publication_required_def publication_project_def
    publication_attempt_def external_required_id_def publications_claim_next_def row_operations
  by (intro frame_rules; simp)+


lemma emit_ops: "emit a i t p now db = Inr (u, db') \<Longrightarrow> t_ops db' = t_ops db \<and> t_next db \<le> t_next db'"
  by (auto simp: emit_def events_append_def)

lemma event_ops:
  "external_event x t now db = Inr (u, db') \<Longrightarrow> t_ops db' = t_ops db \<and> t_next db \<le> t_next db'"
  "operation_event p x t now db = Inr (u, db') \<Longrightarrow> t_ops db' = t_ops db \<and> t_next db \<le> t_next db'"
  "publication_event q x t a tr now db = Inr (u, db') \<Longrightarrow> t_ops db' = t_ops db \<and> t_next db \<le> t_next db'"
  "delivery_event d t a tr now db = Inr (u, db') \<Longrightarrow> t_ops db' = t_ops db \<and> t_next db \<le> t_next db'"
  unfolding external_event_def operation_event_def publication_event_def delivery_event_def by (rule emit_ops, assumption)+

text \<open>A new publication waits.\<close>

lemma scm_publication_init_fields:
  "scm_publication_init p = Inr q \<Longrightarrow> sp_id q = sp_id p \<and> sp_status q = sp_status p \<and> sp_lease_token q = sp_lease_token p
     \<and> sp_attempt_count q = sp_attempt_count p \<and> sp_automatic_retry_limit q = sp_automatic_retry_limit p
     \<and> sp_completed_at q = sp_completed_at p \<and> sp_result q = sp_result p \<and> sp_failure_reason q = sp_failure_reason p
     \<and> sp_failure_code q = sp_failure_code p \<and> sp_failure_retryable q = sp_failure_retryable p
     \<and> sp_next_attempt_at q = sp_next_attempt_at p"
  by (simp add: scm_publication_init_def Let_def split: option.splits if_splits) (drule sym, simp)

lemma new_publication_waits:
  assumes "scm_publication_init p = Inr q" "sp_status p = SPending" "sp_attempt_count p = 0"
    "sp_automatic_retry_limit p = 0" "sp_completed_at p = None" "sp_result p = None" "sp_no_failure p"
  shows "sp_ok q \<and> sp_work q = Waiting \<and> sp_id q = sp_id p"
  using scm_publication_init_fields[OF assms(1)] assms(2-)
  by (simp add: sp_ok_def sp_work_def sp_no_failure_def sp_is_terminal_def scm_max_automatic_retry_limit_def)

lemma publication_request_effect:
  assumes "publication_request x provider target title body key who now db = Inr (r, db')"
  shows "publications db' = publications db
    \<or> (\<exists>p. publications db' = publications db @ [p] \<and> sp_ok p \<and> sp_work p = Waiting \<and> sp_id p = t_next db
        \<and> t_next db < t_next db')"
  using assms unfolding publication_request_def Let_def external_required_id_def publication_project_def
    publication_replay_def publications_try_add_def
  by (fastforce simp: row_try_add_Inr sp_no_failure_def dest!: event_ops new_publication_waits
      split: if_splits option.splits)

text \<open>A claim takes the oldest row of the query, under a new token.\<close>

lemma publications_claim_next_Inr:
  "publications_claim_next worker provider scope lease now db = Inr (c, db') \<Longrightarrow>
   (c = None \<and> db' = db) \<or> (\<exists>p claim. c = Some claim \<and> p \<in> set (publications db) \<and> sp_claimable p now
      \<and> sp_claim p worker lease (t_next db) now = Inr claim
      \<and> db' = db\<lparr>t_next := Suc (t_next db), t_ops := x_publications_update (\<lambda>rs. table_put sp_id rs (fst claim)) (t_ops db)\<rparr>)"
  unfolding publications_claim_next_def by (fastforce dest!: first_row_member split: option.splits)

lemma sp_claim_fields:
  "sp_claim p worker lease tok now = Inr (q, trigger) \<Longrightarrow> sp_id q = sp_id p \<and> sp_lease_token q = Some tok"
  by (auto simp: sp_claim_def Let_def split: if_splits)

lemma keeps_record_claim: "keeps publications (record_publication_claim worker p trigger now)"
  "keeps publications (publication_attempt p tok)"
  unfolding record_publication_claim_def publication_attempt_def publication_attempts_add_def
  by (intro frame_rules; simp)+

lemma publication_claim_effect:
  assumes "publication_claim_next worker provider scope lease now db = Inr (Some q, db')"
  obtains p where "p \<in> set (publications db)" "sp_claimable p now" "sp_claim_item p worker lease (t_next db) now = Inr q"
    "publications db' = table_put sp_id (publications db) q" "sp_id q = sp_id p" "sp_lease_token q = Some (t_next db)"
    "t_next db < t_next db'"
proof -
  from assms obtain trigger db1 u where
    c: "publications_claim_next worker provider scope lease now db = Inr (Some (q, trigger), db1)"
    and r: "record_publication_claim worker q trigger now db1 = Inr (u, db')"
    unfolding publication_claim_next_def by (auto split: option.splits prod.splits)
  from publications_claim_next_Inr[OF c] obtain p where p: "p \<in> set (publications db)" "sp_claimable p now"
    "sp_claim p worker lease (t_next db) now = Inr (q, trigger)"
    "db1 = db\<lparr>t_next := Suc (t_next db), t_ops := x_publications_update (\<lambda>rs. table_put sp_id rs q) (t_ops db)\<rparr>"
    by auto
  with withinD[OF keeps_record_claim(1) r] withinD[OF grows_record_claim r] sp_claim_fields[OF p(3)]
  show thesis using that[of p] by (simp add: sp_claim_item_def)
qed

lemma publication_finish_effect:
  assumes "publication_finish i tok out now db = Inr (q, db')"
  obtains p where "p \<in> set (publications db)" "sp_id p = i" "publication_outcome p tok out now = Inr q"
    "publications db' = table_put sp_id (publications db) q" "sp_id q = sp_id p"
proof -
  from assms obtain p where "p \<in> set (publications db)" "sp_id p = i" "publication_outcome p tok out now = Inr q"
    "publications db' = table_put sp_id (publications db) q"
    unfolding publication_finish_def publication_required_def external_required_id_def publications_get_def
      publications_save_def publication_attempts_save_def
    by (auto simp: row_save_Inr dest!: event_ops withinD[OF keeps_record_claim(2)] row_get_Some split: if_splits)
  moreover have "sp_id q = sp_id p"
    using calculation(3) by (auto simp: publication_outcome_def sp_succeed_Inr sp_fail_Inr split: sum.splits)
  ultimately show thesis using that by blast
qed

lemma sp_retry_id: "sp_retry p now = Inr q \<Longrightarrow> sp_id q = sp_id p"
  by (auto simp: sp_retry_def split: if_splits)

lemma sp_cancel_id: "sp_cancel_automatic_retry p now = Inr (q, b) \<Longrightarrow> sp_id q = sp_id p \<and> (\<not> b \<longrightarrow> q = p)"
  by (auto simp: sp_cancel_automatic_retry_def split: if_splits)

lemma publication_retry_effect:
  assumes "publication_retry i who now db = Inr ((q, replay), db')"
  shows "if replay then publications db' = publications db
    else \<exists>p \<in> set (publications db). sp_id p = i \<and> sp_retry p now = Inr q \<and> sp_id q = sp_id p
      \<and> publications db' = table_put sp_id (publications db) q"
  using assms unfolding publication_retry_def publication_required_def publications_get_def external_required_id_def
    publications_save_def
  by (auto simp: row_save_Inr sp_retry_id dest!: event_ops row_get_Some split: if_splits) metis

lemma publication_cancel_effect:
  assumes "publication_cancel_automatic_retry i who now db = Inr ((q, replay), db')"
  shows "if replay then publications db' = publications db
    else \<exists>p \<in> set (publications db). sp_id p = i \<and> sp_cancel_automatic_retry p now = Inr (q, True) \<and> sp_id q = sp_id p
      \<and> publications db' = table_put sp_id (publications db) q"
  using assms unfolding publication_cancel_automatic_retry_def publication_required_def publications_get_def
    external_required_id_def publications_save_def
  by (auto simp: row_save_Inr sp_cancel_id dest!: event_ops row_get_Some split: if_splits) metis

lemma publication_call_grows: "publication_call db ev db' \<Longrightarrow> t_next db \<le> t_next db'"
  by (cases rule: publication_call.cases)
    (auto simp: publication_succeed_def publication_fail_def dest: withinD[OF grows_publication_services(1)]
      withinD[OF grows_publication_services(2)] withinD[OF grows_publication_services(3)]
      withinD[OF grows_publication_services(4)] withinD[OF grows_publication_services(5)])

lemma publication_call_effect:
  assumes call: "publication_call db ev db'" and inv: "table_inv sp_id sp_ok (t_next db) (publications db)"
  shows "table_effect sp_id sp_work sp_ok (t_next db') (publications db) ev (publications db')"
proof -
  note grows = publication_call_grows[OF call]
  note ok = table_inv_ok[OF inv] and same = effect_same[OF inv grows] and move = effect_move[OF inv grows]
  from call show ?thesis
  proof cases
    case (requested x provider target title body key who now r)
    from publication_request_effect[OF requested(2)] show ?thesis
      unfolding requested(1) by (elim disjE exE conjE) (simp_all add: same effect_insert[OF inv])
  next
    case (claimed worker provider scope lease now q tok)
    from publication_claim_effect[OF claimed(2)] obtain p where p: "p \<in> set (publications db)" "sp_claimable p now"
      "sp_claim_item p worker lease (t_next db) now = Inr q" "publications db' = table_put sp_id (publications db) q"
      "sp_id q = sp_id p" "sp_lease_token q = Some (t_next db)" .
    then show ?thesis
      using publication.claim_step[OF ok[OF p(1)] p(2,3)] claimed(1,3) move[OF p(1) p(5)] by simp
  next
    case (idle worker provider scope lease now)
    then have "publications db' = publications db"
      by (auto simp: publication_claim_next_def dest!: publications_claim_next_Inr split: option.splits prod.splits)
    then show ?thesis using idle(1) same by simp
  next
    case (succeeded i tok res now q)
    from publication_finish_effect[OF succeeded(2)[unfolded publication_succeed_def]] obtain p where
      p: "p \<in> set (publications db)" "sp_id p = i" "sp_succeed p tok res now = Inr q"
      "publications db' = table_put sp_id (publications db) q" "sp_id q = sp_id p"
      by (auto simp: publication_outcome_def)
    show ?thesis
      using publication.succeed_step[OF ok[OF p(1)] p(3)] move[OF p(1,5)] p(2,4) succeeded(1) by simp
  next
    case (failed i tok f now q)
    from publication_finish_effect[OF failed(2)[unfolded publication_fail_def]] obtain p where
      p: "p \<in> set (publications db)" "sp_id p = i" "sp_fail p tok f now = Inr q"
      "publications db' = table_put sp_id (publications db) q" "sp_id q = sp_id p"
      by (auto simp: publication_outcome_def)
    show ?thesis
      using publication.fail_step[OF ok[OF p(1)] p(3)] move[OF p(1,5)] p(2,4) failed(1) by simp
  next
    case (retried i who now q replay)
    then show ?thesis
      using publication_retry_effect[OF retried(2)] sp_retry_step ok move same by (cases replay) fastforce+
  next
    case (cancelled i who now q replay)
    then show ?thesis
      using publication_cancel_effect[OF cancelled(2)] sp_cancel_step ok move same by (cases replay) fastforce+
  next
    case other
    then show ?thesis using same by simp
  qed
qed

interpretation publication_service: leased_service publication_call publications sp_id sp_work sp_ok
proof unfold_locales
  show "t_next db \<le> tok \<and> tok < t_next db'" if "publication_call db (Some (i, Claim tok now e)) db'" for db i tok now e db'
    using that
  proof cases
    case (claimed worker provider scope lease p)
    from publication_claim_effect[OF claimed(3)] claimed show ?thesis by (metis option.inject order_refl)
  qed (auto split: if_splits)
qed (rule publication_call_effect publication_call_grows; assumption)+

section \<open>Notification deliveries\<close>

abbreviation deliveries :: "db \<Rightarrow> notification_delivery list" where
  "deliveries db \<equiv> x_deliveries (t_ops db)"

inductive delivery_call :: "db \<Rightarrow> (uuid \<times> work_event) option \<Rightarrow> db \<Rightarrow> bool" where
  enqueued: "enqueue_one event event_type alert_id now b db = Inr (added, db') \<Longrightarrow> delivery_call db None db'"
| claimed: "delivery_claim_next worker provider lease now db = Inr (Some p, db') \<Longrightarrow> nl_lease_token p = Some tok \<Longrightarrow>
    delivery_call db (Some (nl_id p, Claim tok now (now + seconds lease))) db'"
| idle: "delivery_claim_next worker provider lease now db = Inr (None, db') \<Longrightarrow> delivery_call db None db'"
| succeeded: "delivery_succeed i tok res now db = Inr (p, db') \<Longrightarrow> delivery_call db (Some (i, Succeed tok)) db'"
| failed: "delivery_fail i tok f now db = Inr (p, db') \<Longrightarrow>
    delivery_call db (Some (i, Fail tok (nf_next_attempt_at f))) db'"
| retried: "delivery_retry project_id i who now db = Inr ((p, replay), db') \<Longrightarrow>
    delivery_call db (if replay then None else Some (i, Retry)) db'"
| cancelled: "delivery_cancel_automatic_retry project_id i who now db = Inr ((p, replay), db') \<Longrightarrow>
    delivery_call db (if replay then None else Some (i, Cancel)) db'"
| other: "deliveries db' = deliveries db \<Longrightarrow> t_next db \<le> t_next db' \<Longrightarrow> delivery_call db None db'"

lemma keeps_record_delivery_claim: "keeps deliveries (record_delivery_claim worker p trigger now)"
  "keeps deliveries (delivery_attempt p tok)"
  unfolding record_delivery_claim_def delivery_attempt_def delivery_attempts_add_def close_previous_attempt_def
    delivery_attempts_save_def
  by (intro frame_rules; simp)+

lemma grows_record_delivery_claim [frame_rules]: "grows (record_delivery_claim worker p trigger now)"
  unfolding record_delivery_claim_def delivery_attempts_add_def close_previous_attempt_def delivery_attempts_save_def
  by (intro frame_rules; simp)

lemma grows_delivery_services [frame_rules]:
  "grows (enqueue_one event event_type alert_id now b)"
  "grows (delivery_claim_next worker provider lease now)"
  "grows (delivery_finish i tok out now)" "grows (delivery_retry project_id i who now)"
  "grows (delivery_cancel_automatic_retry project_id i who now)"
  unfolding enqueue_one_def delivery_claim_next_def delivery_finish_def delivery_retry_def
    delivery_cancel_automatic_retry_def project_delivery_def project_required_def
    delivery_attempt_def deliveries_claim_next_def row_operations
  by (intro frame_rules; simp)+

lemma new_delivery_waits:
  "new_delivery b event event_type alert_id i now = Inr p \<Longrightarrow> nl_ok p \<and> nl_work p = Waiting \<and> nl_id p = i
     \<and> delivery_key p = (nb_id b, ev_id event)"
  by (auto simp: new_delivery_def notification_delivery_init_def nl_ok_def nl_work_def nl_no_failure_def
      notification_max_automatic_retry_limit_def delivery_key_def split: if_splits)

lemma enqueue_one_effect:
  assumes "enqueue_one event event_type alert_id now b db = Inr (added, db')"
  shows "if added then nb_accepts b event_type \<and> (\<exists>p. deliveries db' = deliveries db @ [p] \<and> nl_ok p \<and> nl_work p = Waiting
      \<and> nl_id p = t_next db \<and> delivery_key p = (nb_id b, ev_id event)) \<and> t_next db < t_next db'
      \<and> (nb_id b, ev_id event) \<notin> delivery_key ` set (deliveries db)
    else deliveries db' = deliveries db
      \<and> (nb_accepts b event_type \<longrightarrow> (nb_id b, ev_id event) \<in> delivery_key ` set (deliveries db))"
  using assms unfolding enqueue_one_def deliveries_try_add_def
  by (auto simp: row_try_add_Inr row_get_def table_get_def find_None_iff find_Some_iff dest!: new_delivery_waits
      split: if_splits) (metis imageI)+

lemma deliveries_claim_next_Inr:
  "deliveries_claim_next worker provider lease now db = Inr (c, db') \<Longrightarrow>
   (c = None \<and> db' = db) \<or> (\<exists>p claim. c = Some claim \<and> p \<in> set (deliveries db) \<and> nl_claimable p now
      \<and> nl_claim p worker lease (t_next db) now = Inr claim
      \<and> db' = db\<lparr>t_next := Suc (t_next db), t_ops := x_deliveries_update (\<lambda>rs. table_put nl_id rs (fst claim)) (t_ops db)\<rparr>)"
  unfolding deliveries_claim_next_def by (fastforce dest!: first_row_member split: option.splits)

lemma nl_claim_fields:
  "nl_claim p worker lease tok now = Inr (q, trigger) \<Longrightarrow> nl_id q = nl_id p \<and> nl_lease_token q = Some tok"
  by (auto simp: nl_claim_def Let_def split: if_splits)

lemma delivery_claim_effect:
  assumes "delivery_claim_next worker provider lease now db = Inr (Some q, db')"
  obtains p where "p \<in> set (deliveries db)" "nl_claimable p now" "nl_claim_item p worker lease (t_next db) now = Inr q"
    "deliveries db' = table_put nl_id (deliveries db) q" "nl_id q = nl_id p" "nl_lease_token q = Some (t_next db)"
    "t_next db < t_next db'"
proof -
  from assms obtain trigger db1 u where
    c: "deliveries_claim_next worker provider lease now db = Inr (Some (q, trigger), db1)"
    and r: "record_delivery_claim worker q trigger now db1 = Inr (u, db')"
    unfolding delivery_claim_next_def by (auto split: option.splits prod.splits)
  from deliveries_claim_next_Inr[OF c] obtain p where p: "p \<in> set (deliveries db)" "nl_claimable p now"
    "nl_claim p worker lease (t_next db) now = Inr (q, trigger)"
    "db1 = db\<lparr>t_next := Suc (t_next db), t_ops := x_deliveries_update (\<lambda>rs. table_put nl_id rs q) (t_ops db)\<rparr>"
    by auto
  with withinD[OF keeps_record_delivery_claim(1) r] withinD[OF grows_record_delivery_claim r] nl_claim_fields[OF p(3)]
  show thesis using that[of p] by (simp add: nl_claim_item_def)
qed

lemma delivery_finish_effect:
  assumes "delivery_finish i tok out now db = Inr (q, db')"
  obtains p where "p \<in> set (deliveries db)" "nl_id p = i" "delivery_outcome p tok out now = Inr q"
    "deliveries db' = table_put nl_id (deliveries db) q" "nl_id q = nl_id p"
proof -
  from assms obtain p where "p \<in> set (deliveries db)" "nl_id p = i" "delivery_outcome p tok out now = Inr q"
    "deliveries db' = table_put nl_id (deliveries db) q"
    unfolding delivery_finish_def deliveries_get_def deliveries_save_def delivery_attempts_save_def
    by (auto simp: row_save_Inr dest!: event_ops withinD[OF keeps_record_delivery_claim(2)] row_get_Some
        split: if_splits)
  moreover have "nl_id q = nl_id p"
    using calculation(3) by (auto simp: delivery_outcome_def nl_succeed_Inr nl_fail_Inr split: sum.splits)
  ultimately show thesis using that by blast
qed

lemma nl_retry_id: "nl_retry p now = Inr q \<Longrightarrow> nl_id q = nl_id p"
  by (auto simp: nl_retry_def split: if_splits)

lemma nl_cancel_id: "nl_cancel_automatic_retry p now = Inr (q, b) \<Longrightarrow> nl_id q = nl_id p \<and> (\<not> b \<longrightarrow> q = p)"
  by (auto simp: nl_cancel_automatic_retry_def split: if_splits)

lemma project_delivery_Inr:
  "project_delivery project_id i db = Inr (p, db') \<Longrightarrow> db' = db \<and> p \<in> set (deliveries db) \<and> nl_id p = i"
  by (auto simp: project_delivery_def project_required_def deliveries_get_def dest!: row_get_Some
      split: option.splits if_splits)

lemma delivery_retry_effect:
  assumes "delivery_retry project_id i who now db = Inr ((q, replay), db')"
  shows "if replay then deliveries db' = deliveries db
    else \<exists>p \<in> set (deliveries db). nl_id p = i \<and> nl_retry p now = Inr q \<and> nl_id q = nl_id p
      \<and> deliveries db' = table_put nl_id (deliveries db) q"
  using assms unfolding delivery_retry_def deliveries_save_def
  by (auto simp: row_save_Inr nl_retry_id dest!: event_ops project_delivery_Inr split: if_splits) metis

lemma delivery_cancel_effect:
  assumes "delivery_cancel_automatic_retry project_id i who now db = Inr ((q, replay), db')"
  shows "if replay then deliveries db' = deliveries db
    else \<exists>p \<in> set (deliveries db). nl_id p = i \<and> nl_cancel_automatic_retry p now = Inr (q, True) \<and> nl_id q = nl_id p
      \<and> deliveries db' = table_put nl_id (deliveries db) q"
  using assms unfolding delivery_cancel_automatic_retry_def deliveries_save_def
  by (auto simp: row_save_Inr nl_cancel_id dest!: event_ops project_delivery_Inr split: if_splits) metis

lemma delivery_call_grows: "delivery_call db ev db' \<Longrightarrow> t_next db \<le> t_next db'"
  by (cases rule: delivery_call.cases)
    (auto simp: delivery_succeed_def delivery_fail_def dest: withinD[OF grows_delivery_services(1)]
      withinD[OF grows_delivery_services(2)] withinD[OF grows_delivery_services(3)]
      withinD[OF grows_delivery_services(4)] withinD[OF grows_delivery_services(5)])

lemma delivery_call_effect:
  assumes call: "delivery_call db ev db'" and inv: "table_inv nl_id nl_ok (t_next db) (deliveries db)"
  shows "table_effect nl_id nl_work nl_ok (t_next db') (deliveries db) ev (deliveries db')"
proof -
  note grows = delivery_call_grows[OF call]
  note ok = table_inv_ok[OF inv] and same = effect_same[OF inv grows] and move = effect_move[OF inv grows]
  from call show ?thesis
  proof cases
    case (enqueued event event_type alert_id now b added)
    from enqueue_one_effect[OF enqueued(2)] show ?thesis
      unfolding enqueued(1) by (cases added) (auto simp: same effect_insert[OF inv])
  next
    case (claimed worker provider lease now q tok)
    from delivery_claim_effect[OF claimed(2)] obtain p where p: "p \<in> set (deliveries db)" "nl_claimable p now"
      "nl_claim_item p worker lease (t_next db) now = Inr q" "deliveries db' = table_put nl_id (deliveries db) q"
      "nl_id q = nl_id p" "nl_lease_token q = Some (t_next db)" .
    then show ?thesis
      using delivery.claim_step[OF ok[OF p(1)] p(2,3)] claimed(1,3) move[OF p(1) p(5)] by simp
  next
    case (idle worker provider lease now)
    then have "deliveries db' = deliveries db"
      by (auto simp: delivery_claim_next_def dest!: deliveries_claim_next_Inr split: option.splits prod.splits)
    then show ?thesis using idle(1) same by simp
  next
    case (succeeded i tok res now q)
    from delivery_finish_effect[OF succeeded(2)[unfolded delivery_succeed_def]] obtain p where
      p: "p \<in> set (deliveries db)" "nl_id p = i" "nl_succeed p tok res now = Inr q"
      "deliveries db' = table_put nl_id (deliveries db) q" "nl_id q = nl_id p"
      by (auto simp: delivery_outcome_def)
    show ?thesis
      using delivery.succeed_step[OF ok[OF p(1)] p(3)] move[OF p(1,5)] p(2,4) succeeded(1) by simp
  next
    case (failed i tok f now q)
    from delivery_finish_effect[OF failed(2)[unfolded delivery_fail_def]] obtain p where
      p: "p \<in> set (deliveries db)" "nl_id p = i" "nl_fail p tok f now = Inr q"
      "deliveries db' = table_put nl_id (deliveries db) q" "nl_id q = nl_id p"
      by (auto simp: delivery_outcome_def)
    show ?thesis
      using delivery.fail_step[OF ok[OF p(1)] p(3)] move[OF p(1,5)] p(2,4) failed(1) by simp
  next
    case (retried project_id i who now q replay)
    then show ?thesis
      using delivery_retry_effect[OF retried(2)] nl_retry_step ok move same by (cases replay) fastforce+
  next
    case (cancelled project_id i who now q replay)
    then show ?thesis
      using delivery_cancel_effect[OF cancelled(2)] nl_cancel_step ok move same by (cases replay) fastforce+
  next
    case other
    then show ?thesis using same by simp
  qed
qed

interpretation delivery_service: leased_service delivery_call deliveries nl_id nl_work nl_ok
proof unfold_locales
  show "t_next db \<le> tok \<and> tok < t_next db'" if "delivery_call db (Some (i, Claim tok now e)) db'" for db i tok now e db'
    using that
  proof cases
    case (claimed worker provider lease p)
    from delivery_claim_effect[OF claimed(3)] claimed show ?thesis by (metis option.inject order_refl)
  qed (auto split: if_splits)
qed (rule delivery_call_effect delivery_call_grows; assumption)+

section \<open>Workspace operations\<close>

abbreviation operations :: "db \<Rightarrow> workspace_operation list" where
  "operations db \<equiv> x_operations (t_ops db)"

inductive operation_call :: "db \<Rightarrow> (uuid \<times> work_event) option \<Rightarrow> db \<Rightarrow> bool" where
  requested: "operation_request x kind target key who confirmation now db = Inr (r, db') \<Longrightarrow> operation_call db None db'"
| claimed: "operation_claim_next worker scope lease now db = Inr (Some p, db') \<Longrightarrow> wo_lease_token p = Some tok \<Longrightarrow>
    operation_call db (Some (wo_id p, Claim tok now (now + seconds lease))) db'"
| idle: "operation_claim_next worker scope lease now db = Inr (None, db') \<Longrightarrow> operation_call db None db'"
| succeeded: "operation_succeed i tok res now db = Inr (p, db') \<Longrightarrow> operation_call db (Some (i, Succeed tok)) db'"
| failed: "operation_fail i tok reason now db = Inr (p, db') \<Longrightarrow> operation_call db (Some (i, Fail tok None)) db'"
| other: "operations db' = operations db \<Longrightarrow> t_next db \<le> t_next db' \<Longrightarrow> operation_call db None db'"

lemma grows_operation_services [frame_rules]:
  "grows (operation_request x kind target key who confirmation now)"
  "grows (operation_claim_next worker scope lease now)" "grows (operation_finish i tok res reason now)"
  unfolding operation_request_def operation_claim_next_def operation_finish_def operation_replay_def
    external_required_id_def operations_claim_next_def row_operations
  by (intro frame_rules; simp)+

lemma new_operation_waits:
  assumes "workspace_operation_init p = Inr q" "wo_status p = WOPending" "wo_completed_at p = None" "wo_result p = None"
    "wo_failure_reason p = None"
  shows "wo_ok q \<and> wo_work q = Waiting \<and> wo_id q = wo_id p"
proof -
  from assms(1) have "wo_id q = wo_id p \<and> wo_status q = wo_status p \<and> wo_completed_at q = wo_completed_at p
      \<and> wo_result q = wo_result p \<and> wo_failure_reason q = wo_failure_reason p"
    by (simp add: workspace_operation_init_def split: option.splits) (drule sym, simp)
  with assms(2-) show ?thesis by (simp add: wo_ok_def wo_work_def wo_is_terminal_def)
qed

lemma operation_request_effect:
  assumes "operation_request x kind target key who confirmation now db = Inr (r, db')"
  shows "operations db' = operations db \<or> (\<exists>p. operations db' = operations db @ [p] \<and> wo_ok p \<and> wo_work p = Waiting
    \<and> wo_id p = t_next db \<and> t_next db < t_next db')"
  using assms unfolding operation_request_def Let_def external_required_id_def operation_replay_def operations_try_add_def
  by (fastforce simp: row_try_add_Inr dest!: event_ops new_operation_waits split: if_splits option.splits)

lemma operations_claim_next_Inr:
  "operations_claim_next worker scope lease now db = Inr (c, db') \<Longrightarrow>
   (c = None \<and> db' = db) \<or> (\<exists>p q. c = Some q \<and> p \<in> set (operations db) \<and> wo_claimable p now
      \<and> wo_claim p worker lease (t_next db) now = Inr q
      \<and> db' = db\<lparr>t_next := Suc (t_next db), t_ops := x_operations_update (\<lambda>rs. table_put wo_id rs q) (t_ops db)\<rparr>)"
  unfolding operations_claim_next_def by (fastforce dest!: first_row_member split: option.splits)

lemma operation_claim_effect:
  assumes "operation_claim_next worker scope lease now db = Inr (Some q, db')"
  obtains p where "p \<in> set (operations db)" "wo_claimable p now" "wo_claim p worker lease (t_next db) now = Inr q"
    "operations db' = table_put wo_id (operations db) q" "wo_id q = wo_id p" "wo_lease_token q = Some (t_next db)"
    "t_next db < t_next db'"
proof -
  from assms obtain db1 where c: "operations_claim_next worker scope lease now db = Inr (Some q, db1)"
    and r: "t_ops db' = t_ops db1" "t_next db1 \<le> t_next db'"
    unfolding operation_claim_next_def external_required_id_def by (auto dest!: event_ops split: option.splits)
  from operations_claim_next_Inr[OF c] r show thesis using that by (fastforce simp: wo_claim_Inr)
qed

lemma operation_finish_effect:
  assumes "operation_finish i tok res reason now db = Inr (q, db')"
  obtains p where "p \<in> set (operations db)" "wo_id p = i" "wo_id q = wo_id p"
    "(case reason of None \<Rightarrow> wo_succeed p tok res now | Some r \<Rightarrow> wo_fail p tok r now) = Inr q"
    "operations db' = table_put wo_id (operations db) q"
proof -
  from assms obtain p where "p \<in> set (operations db)" "wo_id p = i"
    "(case reason of None \<Rightarrow> wo_succeed p tok res now | Some r \<Rightarrow> wo_fail p tok r now) = Inr q"
    "operations db' = table_put wo_id (operations db) q"
    unfolding operation_finish_def operations_get_def operations_save_def external_required_id_def
    by (auto simp: row_save_Inr dest!: event_ops row_get_Some)
  moreover have "wo_id q = wo_id p"
    using calculation(3) by (auto simp: wo_succeed_Inr wo_fail_Inr split: option.splits)
  ultimately show thesis using that by blast
qed

lemma operation_call_grows: "operation_call db ev db' \<Longrightarrow> t_next db \<le> t_next db'"
  by (cases rule: operation_call.cases)
    (auto simp: operation_succeed_def operation_fail_def dest: withinD[OF grows_operation_services(1)]
      withinD[OF grows_operation_services(2)] withinD[OF grows_operation_services(3)])

lemma operation_call_effect:
  assumes call: "operation_call db ev db'" and inv: "table_inv wo_id wo_ok (t_next db) (operations db)"
  shows "table_effect wo_id wo_work wo_ok (t_next db') (operations db) ev (operations db')"
proof -
  note grows = operation_call_grows[OF call]
  note ok = table_inv_ok[OF inv] and same = effect_same[OF inv grows] and move = effect_move[OF inv grows]
  from call show ?thesis
  proof cases
    case (requested x kind target key who confirmation now r)
    from operation_request_effect[OF requested(2)] show ?thesis
      unfolding requested(1) by (elim disjE exE conjE) (simp_all add: same effect_insert[OF inv])
  next
    case (claimed worker scope lease now q tok)
    from operation_claim_effect[OF claimed(2)] obtain p where p: "p \<in> set (operations db)" "wo_claimable p now"
      "wo_claim p worker lease (t_next db) now = Inr q" "operations db' = table_put wo_id (operations db) q"
      "wo_id q = wo_id p" "wo_lease_token q = Some (t_next db)" .
    then show ?thesis
      using operation.claim_step[OF ok[OF p(1)] p(2,3)] claimed(1,3) move[OF p(1) p(5)] by simp
  next
    case (idle worker scope lease now)
    then have "operations db' = operations db"
      by (auto simp: operation_claim_next_def dest!: operations_claim_next_Inr split: option.splits)
    then show ?thesis using idle(1) same by simp
  next
    case (succeeded i tok res now q)
    from operation_finish_effect[OF succeeded(2)[unfolded operation_succeed_def]] obtain p where
      p: "p \<in> set (operations db)" "wo_id p = i" "wo_id q = wo_id p" "wo_succeed p tok res now = Inr q"
      "operations db' = table_put wo_id (operations db) q" by auto
    show ?thesis
      using operation.succeed_step[OF ok[OF p(1)] p(4)] move[OF p(1,3)] p(2,5) succeeded(1) by simp
  next
    case (failed i tok reason now q)
    from operation_finish_effect[OF failed(2)[unfolded operation_fail_def]] obtain p where
      p: "p \<in> set (operations db)" "wo_id p = i" "wo_id q = wo_id p" "wo_fail p tok reason now = Inr q"
      "operations db' = table_put wo_id (operations db) q" by auto
    show ?thesis
      using operation.fail_step[OF ok[OF p(1)] p(4)] move[OF p(1,3)] p(2,5) failed(1) by simp
  next
    case other
    then show ?thesis using same by simp
  qed
qed

interpretation operation_service: leased_service operation_call operations wo_id wo_work wo_ok
proof unfold_locales
  show "t_next db \<le> tok \<and> tok < t_next db'" if "operation_call db (Some (i, Claim tok now e)) db'" for db i tok now e db'
    using that
  proof cases
    case (claimed worker scope lease p)
    from operation_claim_effect[OF claimed(3)] claimed show ?thesis by (metis option.inject order_refl)
  qed
qed (rule operation_call_effect operation_call_grows; assumption)+

end
