(* ===== verification/Readiness_Services.thy ===== *)
theory Readiness_Services
  imports Notification_Services
begin

text \<open>
  \<^verbatim>\<open>application/worker_presence_services.py\<close> and \<^verbatim>\<open>application/worker_readiness_services.py\<close>: the
  register of worker processes, and the evaluation that compares the ready tasks of a project with
  the capabilities of the running workers and keeps one alert per occurrence. Whether the advisory
  lock of the database was acquired is a parameter of the evaluation.
\<close>

section \<open>Worker presence\<close>

definition presence_register ::
    "string \<Rightarrow> worker_kind \<Rightarrow> string \<Rightarrow> int \<Rightarrow> string list \<Rightarrow> string option \<Rightarrow> json_object \<Rightarrow> time \<Rightarrow> worker_instance svc" where
  "presence_register worker_id kind hostname process_id capabilities workspace_scope metadata now =
     sbind uuid4 (\<lambda>i.
     sbind (slift (worker_instance_init
       \<lparr>wi_worker_id = worker_id, wi_kind = kind, wi_hostname = hostname, wi_process_id = process_id,
        wi_capabilities = capabilities, wi_workspace_scope = workspace_scope, wi_metadata = metadata, wi_id = i,
        wi_status = LRunning, wi_started_at = now, wi_last_seen_at = now, wi_stopped_at = None\<rparr>)) (\<lambda>w.
     sbind (workers_add w) (\<lambda>_. sreturn w)))"

definition worker_required :: "uuid \<Rightarrow> worker_instance svc" where
  "worker_required k = sneed (ResourceNotFound (''worker instance not found: '' @ uuid_str k)) (workers_get k)"

definition presence_heartbeat :: "uuid \<Rightarrow> time option \<Rightarrow> time \<Rightarrow> worker_instance svc" where
  "presence_heartbeat instance_id at now =
     sbind (worker_required instance_id) (\<lambda>w.
     sbind (slift (wi_heartbeat w at now)) (\<lambda>v. sbind (workers_save v) (\<lambda>_. sreturn v)))"

definition presence_stop :: "uuid \<Rightarrow> time option \<Rightarrow> time \<Rightarrow> worker_instance svc" where
  "presence_stop instance_id at now =
     sbind (worker_required instance_id) (\<lambda>w.
     let v = wi_stop w at now in sbind (workers_save v) (\<lambda>_. sreturn v))"

definition presence_list ::
    "nat \<Rightarrow> time \<Rightarrow> time option \<Rightarrow> time \<Rightarrow> (worker_instance \<times> worker_observed_status) list svc" where
  "presence_list limit stale_after at now =
     sbind (gets (workers_list None limit)) (\<lambda>workers.
     slift (map_result (\<lambda>w. rbind (observed_status w stale_after (at_or_now at now)) (\<lambda>s. Inr (w, s))) workers))"

section \<open>Inspection\<close>

text \<open>The first row of every worker identity, in the order of the rows: the most recently seen process.\<close>

fun latest_workers :: "string list \<Rightarrow> worker_instance list \<Rightarrow> worker_instance list" where
  "latest_workers seen [] = []"
| "latest_workers seen (w # ws) =
     (if wi_kind w = WKExecution \<and> wi_worker_id w \<notin> set seen
      then w # latest_workers (wi_worker_id w # seen) ws else latest_workers seen ws)"

definition latest_execution_workers :: "worker_instance list \<Rightarrow> worker_instance list" where
  "latest_execution_workers = latest_workers []"

definition worker_coverage :: "string \<Rightarrow> worker_instance list \<Rightarrow> time \<Rightarrow> time \<Rightarrow> capability_coverage result" where
  "worker_coverage executor_key workers stale_after at =
     rbind (map_result (\<lambda>w. rbind (observed_status w stale_after at) (\<lambda>s. Inr (wi_worker_id w, s)))
       (filter (\<lambda>w. executor_key \<in> set (wi_capabilities w)) workers)) (\<lambda>observed.
     let ids = (\<lambda>status. sort (map fst (filter (\<lambda>(i, s). s = status) observed))) in
     Inr \<lparr>cc_executor_key = executor_key, cc_online = ids Online, cc_stale = ids Stale, cc_stopped = ids Stopped\<rparr>)"

definition coverage_for :: "capability_coverage list \<Rightarrow> string \<Rightarrow> capability_coverage option" where
  "coverage_for coverage key = find (\<lambda>c. cc_executor_key c = key) coverage"

definition ready_nodes :: "workflow_execution list \<Rightarrow> (workflow_execution \<times> node_execution) list" where
  "ready_nodes executions =
     concat (map (\<lambda>ex. map (\<lambda>n. (ex, n)) (filter (\<lambda>n. ne_status n = NReady) (node_rows ex))) executions)"

text \<open>The issues of the ready nodes no online worker can take, oldest first. Every key of a ready node
  has an entry in the coverage, so the look-up by key succeeds.\<close>

definition readiness_issues ::
    "(workflow_execution \<times> node_execution) list \<Rightarrow> capability_coverage list \<Rightarrow> readiness_issue list" where
  "readiness_issues ready coverage =
     List.map_filter (\<lambda>(ex, n).
       case coverage_for coverage (ne_executor_key n) of
         None \<Rightarrow> None
       | Some c \<Rightarrow>
         if cc_online c \<noteq> [] then None
         else Some \<lparr>ri_workflow_execution_id = we_id ex, ri_run_id = ws_run_id (we_snapshot ex),
           ri_node_key = ne_node_key n, ri_executor_key = ne_executor_key n, ri_ready_since = ne_updated_at n,
           ri_reason = (if cc_stale c \<noteq> [] \<or> cc_stopped c \<noteq> [] then CapableWorkersOffline else NoCapableWorker)\<rparr>)
       (sort_key (\<lambda>(ex, n). ne_updated_at n) ready)"

definition inspect_project :: "uuid \<Rightarrow> time \<Rightarrow> time \<Rightarrow> project_readiness svc" where
  "inspect_project project_id stale_after checked_at =
     sbind (project_required project_id) (\<lambda>_.
     sbind (gets (executions_list_by_project project_id (Some WRunning) 500)) (\<lambda>executions.
     sbind (gets (workers_list None 1000)) (\<lambda>workers.
     sbind (gets (alerts_list_by_project project_id None 500)) (\<lambda>alerts.
     let current = latest_execution_workers workers; ready = ready_nodes executions;
         keys = sort (remdups (map (\<lambda>(ex, n). ne_executor_key n) ready)) in
     sbind (slift (map_result (\<lambda>k. worker_coverage k current stale_after checked_at) keys)) (\<lambda>coverage.
     sbind (slift (map_result (\<lambda>w. observed_status w stale_after checked_at) current)) (\<lambda>statuses.
     sreturn \<lparr>pw_project_id = project_id, pw_checked_at = checked_at,
       pw_online_workers = length (filter (\<lambda>s. s = Online) statuses), pw_coverage = coverage,
       pw_issues = readiness_issues ready coverage, pw_alerts = alerts\<rparr>))))))"

section \<open>Evaluation\<close>

text \<open>The event of an alert, and the deliveries it causes.\<close>

definition append_alert_event :: "readiness_alert \<Rightarrow> string \<Rightarrow> time \<Rightarrow> unit svc" where
  "append_alert_event a event_type now =
     sbind uuid4 (\<lambda>i.
     let event = \<lparr>ev_aggregate_type = ''project'', ev_aggregate_id = al_project_id a, ev_event_type = event_type,
       ev_payload = [(''alert_id'', JStr (uuid_str (al_id a))),
         (''workflow_execution_id'', JStr (uuid_str (al_workflow_execution_id a))),
         (''run_id'', JStr (uuid_str (al_run_id a))), (''node_key'', JStr (al_node_key a)),
         (''executor_key'', JStr (al_executor_key a)), (''reason'', JStr (issue_reason_value (al_reason a))),
         (''status'', JStr (alert_status_value (al_status a))),
         (''critical_at'', opt_json (\<lambda>t. JStr (isoformat t)) (al_critical_at a))],
       ev_id = i, ev_sequence = None, ev_occurred_at = now\<rparr> in
     sbind (events_append event) (\<lambda>_.
     sbind (enqueue_notification_deliveries event now) (\<lambda>_. sreturn ())))"

definition new_alert :: "uuid \<Rightarrow> readiness_issue \<Rightarrow> time \<Rightarrow> uuid \<Rightarrow> readiness_alert" where
  "new_alert project_id issue checked_at i =
     \<lparr>al_project_id = project_id, al_workflow_execution_id = ri_workflow_execution_id issue,
      al_run_id = ri_run_id issue, al_node_key = ri_node_key issue, al_executor_key = ri_executor_key issue,
      al_ready_since = ri_ready_since issue, al_reason = ri_reason issue, al_id = i, al_status = AlertActive,
      al_first_detected_at = checked_at, al_last_observed_at = checked_at, al_critical_at = None,
      al_resolved_at = None\<rparr>"

definition issue_occurrence :: "readiness_issue \<Rightarrow> uuid \<times> string \<times> time" where
  "issue_occurrence issue = (ri_workflow_execution_id issue, ri_node_key issue, ri_ready_since issue)"

definition observe_issue :: "uuid \<Rightarrow> time \<Rightarrow> time \<Rightarrow> time \<Rightarrow> readiness_issue \<Rightarrow> unit svc" where
  "observe_issue project_id critical_after checked_at now issue =
     sbind (gets (alerts_get_occurrence (ri_workflow_execution_id issue) (ri_node_key issue) (ri_ready_since issue))) (\<lambda>found.
     case found of
       None \<Rightarrow>
         sbind uuid4 (\<lambda>i.
         let a = new_alert project_id issue checked_at i in
         sbind (alerts_add a) (\<lambda>_. append_alert_event a ''worker.readiness_alerted'' now))
     | Some a \<Rightarrow>
         let (b, reason_changed) = al_observe a (ri_reason issue) checked_at in
         sbind (slift (al_escalate b critical_after checked_at)) (\<lambda>(c, escalated).
         sbind (alerts_save c) (\<lambda>_.
         sbind (if reason_changed then append_alert_event c ''worker.readiness_alert_reason_changed'' now
                else sreturn ()) (\<lambda>_.
         if escalated then append_alert_event c ''worker.readiness_critical'' now else sreturn ()))))"

definition resolve_absent :: "(uuid \<times> string \<times> time) list \<Rightarrow> time \<Rightarrow> time \<Rightarrow> readiness_alert \<Rightarrow> unit svc" where
  "resolve_absent current checked_at now a =
     (if alert_key a \<in> set current then sreturn ()
      else
        let b = al_resolve a checked_at in
        sbind (alerts_save b) (\<lambda>_. append_alert_event b ''worker.readiness_resolved'' now))"

definition evaluate_project ::
    "bool \<Rightarrow> uuid \<Rightarrow> time \<Rightarrow> time \<Rightarrow> time option \<Rightarrow> time \<Rightarrow> project_readiness svc" where
  "evaluate_project acquired project_id stale_after critical_after at now =
     (let checked_at = at_or_now at now in
      sbind (inspect_project project_id stale_after checked_at) (\<lambda>report.
      if \<not> acquired then sreturn report
      else
        sbind (seach (observe_issue project_id critical_after checked_at now) (pw_issues report)) (\<lambda>_.
        sbind (gets (alerts_list_by_project project_id (Some AlertActive) 500)) (\<lambda>active.
        sbind (seach (resolve_absent (map issue_occurrence (pw_issues report)) checked_at now) active) (\<lambda>_.
        inspect_project project_id stale_after checked_at)))))"

section \<open>Batches\<close>

record evaluation_failure =
  ef_project_id :: uuid
  ef_error_type :: string
  ef_message :: string

record evaluation_batch =
  eb_reports :: "project_readiness list"
  eb_failures :: "evaluation_failure list"
  eb_attempted_count :: nat
  eb_next_cursor :: "project option"

text \<open>Each project is evaluated in a transaction of its own; a failure is recorded and the rest goes on.\<close>

fun evaluate_each ::
    "(project \<Rightarrow> project_readiness svc) \<Rightarrow> project list \<Rightarrow> db
       \<Rightarrow> project_readiness list \<times> evaluation_failure list \<times> db" where
  "evaluate_each evaluate [] db = ([], [], db)"
| "evaluate_each evaluate (p # ps) db =
     (let (r, db1) = transact (evaluate p) db; (reports, failures, db2) = evaluate_each evaluate ps db1 in
      case r of
        Inr report \<Rightarrow> (report # reports, failures, db2)
      | Inl e \<Rightarrow> (reports, \<lparr>ef_project_id = pj_id p, ef_error_type = error_type e, ef_message = error_message e\<rparr> # failures, db2))"

definition evaluate_active_project_batch ::
    "(uuid \<Rightarrow> bool) \<Rightarrow> time \<Rightarrow> time \<Rightarrow> project option \<Rightarrow> int \<Rightarrow> time option \<Rightarrow> time \<Rightarrow> db
       \<Rightarrow> evaluation_batch result \<times> db" where
  "evaluate_active_project_batch acquired stale_after critical_after after limit at now db =
     (if limit \<le> 0 then (Inl (ValueError ''worker readiness project limit must be positive''), db)
      else
        let candidates = projects_list (Some PActive) after (nat (limit + 1)) db; projects = take (nat limit) candidates;
            (reports, failures, db') = evaluate_each
              (\<lambda>p. evaluate_project (acquired (pj_id p)) (pj_id p) stale_after critical_after at now) projects db in
        (Inr \<lparr>eb_reports = reports, eb_failures = failures, eb_attempted_count = length projects,
           eb_next_cursor = (if nat limit < length candidates then Some (last projects) else None)\<rparr>, db'))"

definition evaluate_active_projects ::
    "(uuid \<Rightarrow> bool) \<Rightarrow> time \<Rightarrow> time \<Rightarrow> int \<Rightarrow> time option \<Rightarrow> time \<Rightarrow> db \<Rightarrow> project_readiness list result \<times> db" where
  "evaluate_active_projects acquired stale_after critical_after limit at now db =
     (let (r, db') = evaluate_active_project_batch acquired stale_after critical_after None limit at now db in
      (rbind r (\<lambda>batch. Inr (eb_reports batch)), db'))"

end
