(* ===== verification/Delivery_Outbox.thy ===== *)
theory Delivery_Outbox
  imports Leased_Services Readiness_Services
begin

text \<open>
  The outbox of notifications. A delivery is identified by its subscription and its event
  (\<open>delivery_key\<close>); no service changes that key or adds a second row under it, so an event reaches every
  subscription that accepts it through exactly one delivery, however often it is enqueued.
\<close>

section \<open>Keys of deliveries\<close>

lemma nl_methods_key:
  "nl_claim_item p worker lease tok now = Inr q \<Longrightarrow> delivery_key q = delivery_key p"
  "delivery_outcome p tok out now = Inr q \<Longrightarrow> delivery_key q = delivery_key p"
  "nl_retry p now = Inr q \<Longrightarrow> delivery_key q = delivery_key p"
  "nl_cancel_automatic_retry p now = Inr (q, b) \<Longrightarrow> delivery_key q = delivery_key p"
     apply (auto simp: nl_claim_item_def nl_claim_def Let_def delivery_key_def split: if_splits)[1]
    apply (auto simp: delivery_outcome_def nl_succeed_Inr nl_fail_Inr delivery_key_def split: sum.splits)[1]
   apply (auto simp: nl_retry_def delivery_key_def split: if_splits)[1]
  apply (auto simp: nl_cancel_automatic_retry_def delivery_key_def split: if_splits)[1]
  done

lemma table_put_keys:
  assumes "distinct (map id_of xs)" "p \<in> set xs" "id_of q = id_of p" "key_of q = key_of p"
  shows "map key_of (table_put id_of xs q) = map key_of xs"
proof -
  have "key_of r = key_of p" if "r \<in> set xs" "id_of r = id_of p" for r
    using assms(1,2) that by (auto simp: distinct_map inj_on_def)
  then show ?thesis using assms(3,4) by (simp add: table_put_def)
qed

lemma delivery_call_keys:
  assumes call: "delivery_call db ev db'" and ids: "distinct (map nl_id (deliveries db))"
  shows "map delivery_key (deliveries db') = map delivery_key (deliveries db)
    \<or> (\<exists>k. k \<notin> delivery_key ` set (deliveries db) \<and> map delivery_key (deliveries db') = map delivery_key (deliveries db) @ [k])"
proof -
  note put = table_put_keys[where key_of = delivery_key, OF ids]
  from call show ?thesis
  proof cases
    case (enqueued event event_type alert_id now b added)
    from enqueue_one_effect[OF enqueued(2)] show ?thesis by (cases added) auto
  next
    case (claimed worker provider lease now q tok)
    from delivery_claim_effect[OF claimed(2)] show ?thesis by (metis put nl_methods_key(1))
  next
    case (idle worker provider lease now)
    then show ?thesis
      by (auto simp: delivery_claim_next_def dest!: deliveries_claim_next_Inr split: option.splits prod.splits)
  next
    case (succeeded i tok res now q)
    from delivery_finish_effect[OF succeeded(2)[unfolded delivery_succeed_def]] show ?thesis
      by (metis put nl_methods_key(2))
  next
    case (failed i tok f now q)
    from delivery_finish_effect[OF failed(2)[unfolded delivery_fail_def]] show ?thesis
      by (metis put nl_methods_key(2))
  next
    case (retried project_id i who now q replay)
    from delivery_retry_effect[OF retried(2)] show ?thesis by (metis put nl_methods_key(3))
  next
    case (cancelled project_id i who now q replay)
    from delivery_cancel_effect[OF cancelled(2)] show ?thesis by (metis put nl_methods_key(4))
  next
    case other
    then show ?thesis by simp
  qed
qed

lemma delivery_run_keys:
  assumes "call_run delivery_call db log db'" "deliveries db = []"
  shows "distinct (map delivery_key (deliveries db'))"
  using assms
proof (induction rule: call_run.induct)
  case (next_call db log db1 ev db2)
  have "distinct (map nl_id (deliveries db1))"
    using delivery_service.run_inv[OF next_call.hyps(1) next_call.prems] by (simp add: table_inv_def)
  from delivery_call_keys[OF next_call.hyps(2) this] next_call.IH[OF next_call.prems] show ?case
    by (elim disjE exE conjE) (simp_all del: distinct_map)
qed simp

section \<open>Enqueueing\<close>

text \<open>The loop over the subscriptions is a sequence of calls that leaves a delivery for each of them.\<close>

lemma call_run_append:
  "call_run call db1 log' db2 \<Longrightarrow> call_run call db log db1 \<Longrightarrow> call_run call db (log @ log') db2"
  by (induction rule: call_run.induct) (auto simp flip: append_assoc intro: call_run.next_call)

lemma enqueue_each_run:
  assumes "smap (enqueue_one event et alert now) bs db = Inr (created, db')"
  shows "call_run delivery_call db [] db' \<and> delivery_key ` set (deliveries db) \<subseteq> delivery_key ` set (deliveries db')
    \<and> (\<forall>b \<in> set bs. nb_accepts b et \<longrightarrow> (nb_id b, ev_id event) \<in> delivery_key ` set (deliveries db'))"
  using assms
proof (induction bs arbitrary: db created)
  case Nil
  then show ?case by (simp add: call_run.start)
next
  case (Cons b bs)
  then obtain added db1 rest where one: "enqueue_one event et alert now b db = Inr (added, db1)"
    and more: "smap (enqueue_one event et alert now) bs db1 = Inr (rest, db')" by auto
  note IH = Cons.IH[OF more]
  have "call_run delivery_call db [] db1"
    using call_run.next_call[OF call_run.start, of delivery_call db None db1] delivery_call.enqueued[OF one] by simp
  then have "call_run delivery_call db [] db'" using call_run_append[of _ db1 "[]"] IH by fastforce
  moreover have "delivery_key ` set (deliveries db) \<subseteq> delivery_key ` set (deliveries db1)"
    "nb_accepts b et \<Longrightarrow> (nb_id b, ev_id event) \<in> delivery_key ` set (deliveries db1)"
    using enqueue_one_effect[OF one] by (cases added; auto)+
  ultimately show ?case using IH by auto
qed

lemma enqueue_run:
  assumes "enqueue_notification_deliveries event now db = Inr (n, db')"
  shows "call_run delivery_call db [] db'
    \<and> (\<forall>et b. notification_event_type_of (ev_event_type event) = Inr et \<longrightarrow> nb_accepts b et \<longrightarrow>
        b \<in> set (subscriptions_list_by_project (ev_aggregate_id event) (Some True) 500 db) \<longrightarrow>
        (nb_id b, ev_id event) \<in> delivery_key ` set (deliveries db'))"
proof (cases "notification_event_type_of (ev_event_type event)")
  case (Inl e)
  then show ?thesis using assms by (auto simp: enqueue_notification_deliveries_def intro: call_run.start)
next
  case (Inr et)
  with assms obtain alert created where
    "smap (enqueue_one event et alert now) (subscriptions_list_by_project (ev_aggregate_id event) (Some True) 500 db) db
      = Inr (created, db')"
    by (auto simp: enqueue_notification_deliveries_def split: option.splits json.splits)
  from enqueue_each_run[OF this] Inr show ?thesis by auto
qed

lemma key_unique: "distinct (map key_of xs) \<Longrightarrow> k \<in> key_of ` set xs \<Longrightarrow> \<exists>!x. x \<in> set xs \<and> key_of x = k"
  by (auto simp: distinct_map inj_on_def)

end
