(* ===== verification/External_Correctness.thy ===== *)
theory External_Correctness
  imports Leased_Services
begin

text \<open>
  The table of external executions. \<open>external_call\<close> is a call of \<^verbatim>\<open>ExternalExecutionService\<close>, with calls of
  other services between them. \<open>external_table_ok\<close> says that rows are well formed, that an
  idempotency key names one row and that no two rows of an executor share a run of its runtime;
  \<open>external_later\<close> says what of a row never changes again. Every call keeps the former and moves rows
  along the latter.
\<close>

abbreviation externals :: "db \<Rightarrow> external_execution list" where
  "externals db \<equiv> x_external (t_ops db)"

inductive external_call :: "db \<Rightarrow> db \<Rightarrow> bool" where
  prepared: "external_prepare claim session agent ws now db = Inr (x, db') \<Longrightarrow> external_call db db'"
| accepted: "external_accept key rid now db = Inr (x, db') \<Longrightarrow> external_call db db'"
| finished: "external_finish key status res reason now db = Inr (x, db') \<Longrightarrow> external_call db db'"
| released: "external_release_workspace i now db = Inr (x, db') \<Longrightarrow> external_call db db'"
| other: "externals db' = externals db \<Longrightarrow> t_next db \<le> t_next db' \<Longrightarrow> external_call db db'"

definition same_run :: "external_execution \<Rightarrow> external_execution \<Rightarrow> bool" where
  "same_run x y \<longleftrightarrow> xe_external_run_id x \<noteq> None \<and> xe_executor_key x = xe_executor_key y
     \<and> xe_external_run_id x = xe_external_run_id y"

definition external_table_ok :: "uuid \<Rightarrow> external_execution list \<Rightarrow> bool" where
  "external_table_ok bound xs \<longleftrightarrow> distinct (map xe_id xs) \<and> list_all (\<lambda>x. external_ok x \<and> xe_id x < bound) xs
     \<and> (\<forall>x \<in> set xs. \<forall>y \<in> set xs. xe_idempotency_key x = xe_idempotency_key y \<or> same_run x y \<longrightarrow> x = y)"

definition external_later :: "external_execution \<Rightarrow> external_execution \<Rightarrow> bool" where
  "external_later x y \<longleftrightarrow> xe_id y = xe_id x \<and> xe_idempotency_key y = xe_idempotency_key x
     \<and> xe_executor_key y = xe_executor_key x
     \<and> (xe_external_run_id x \<noteq> None \<longrightarrow> xe_external_run_id y = xe_external_run_id x)
     \<and> (xe_workspace_released_at x \<noteq> None \<longrightarrow> xe_workspace_released_at y = xe_workspace_released_at x)
     \<and> (xe_is_terminal x \<longrightarrow> xe_status y = xe_status x \<and> xe_terminal_result y = xe_terminal_result x
         \<and> xe_failure_reason y = xe_failure_reason x \<and> xe_completed_at y = xe_completed_at x)"

lemma external_later_refl: "external_later x x"
  by (simp add: external_later_def)

lemma external_later_trans: "external_later x y \<Longrightarrow> external_later y z \<Longrightarrow> external_later x z"
  unfolding external_later_def xe_is_terminal_def by metis

lemma external_step_executor: "external_step x y \<Longrightarrow> xe_executor_key y = xe_executor_key x"
  by (auto elim!: external_step.cases dest!: xe_acceptD xe_finishD xe_releaseD)

lemma external_step_later: "external_step x y \<Longrightarrow> external_later x y"
  using external_step_monotone[of x y] external_step_executor[of x y] unfolding external_later_def by blast

section \<open>Effects of the services\<close>

text \<open>A row that took a step is saved whole.\<close>

lemma external_step_saved:
  "external_step y x \<Longrightarrow> y\<lparr>xe_external_run_id := xe_external_run_id x, xe_status := xe_status x,
     xe_terminal_result := xe_terminal_result x, xe_failure_reason := xe_failure_reason x,
     xe_workspace_released_at := xe_workspace_released_at x, xe_workspace_scope := xe_workspace_scope x,
     xe_updated_at := xe_updated_at x, xe_completed_at := xe_completed_at x\<rparr> = x"
  by (auto elim!: external_step.cases dest!: xe_acceptD xe_finishD xe_releaseD)

lemma external_save_step:
  assumes "external_save x db = Inr (u, db')" "external_step y x" "y \<in> set (externals db)" "distinct (map xe_id (externals db))"
  shows "externals db' = table_put xe_id (externals db) x \<and> \<not> external_run_taken x db \<and> t_next db' = t_next db"
proof -
  have id: "xe_id x = xe_id y" using external_step_later[OF assms(2)] by (simp add: external_later_def)
  have "external_get (xe_id x) db = Some y"
    unfolding id external_get_def row_get_def using assms(3,4) by (intro table_get_member)
  then show ?thesis
    using assms(1) external_step_saved[OF assms(2)] by (auto simp: external_save_def Let_def split: if_splits)
qed

definition external_effect :: "db \<Rightarrow> db \<Rightarrow> bool" where
  "external_effect db db' \<longleftrightarrow> t_next db \<le> t_next db' \<and> (externals db' = externals db
     \<or> (\<exists>x. externals db' = externals db @ [x] \<and> external_ok x \<and> xe_id x = t_next db \<and> t_next db < t_next db'
          \<and> xe_external_run_id x = None \<and> xe_idempotency_key x \<notin> xe_idempotency_key ` set (externals db))
     \<or> (\<exists>y x. y \<in> set (externals db) \<and> external_step y x \<and> \<not> external_run_taken x db
          \<and> externals db' = table_put xe_id (externals db) x))"

lemma saved_effect:
  assumes "external_step y x" "y \<in> set (externals db)" "distinct (map xe_id (externals db))"
    "external_save x db = Inr (u, db1)" "t_ops db' = t_ops db1" "t_next db1 \<le> t_next db'"
  shows "external_effect db db'"
  using external_save_step[OF assms(4,1,2,3)] assms unfolding external_effect_def by auto

lemma external_effect_refl: "external_effect db db"
  by (simp add: external_effect_def)

lemma external_prepare_effect:
  assumes "external_prepare claim session agent ws now db = Inr (x, db')"
  shows "external_effect db db'"
proof (cases "external_get_by_key (tc_idempotency_key claim) db")
  case None
  from assms None obtain db1 x0 where init: "external_execution_init x0 = Inr x" and x0: "xe_id x0 = t_next db"
    "xe_external_run_id x0 = None" "xe_status x0 = XStarting" "xe_completed_at x0 = None" "xe_workspace_released_at x0 = None"
    "xe_idempotency_key x0 = tc_idempotency_key claim"
    and add: "external_add x (db\<lparr>t_next := Suc (t_next db)\<rparr>) = Inr ((), db1)"
    and emit: "external_event x ''external_execution.prepared'' now db1 = Inr ((), db')"
    unfolding external_prepare_def by (auto simp: sbind_Inr)
  have "x = x0" using init by (simp add: external_init_iff)
  moreover have "tc_idempotency_key claim \<notin> xe_idempotency_key ` set (externals db)"
    using None by (auto simp: external_get_by_key_def row_get_def table_get_def find_None_iff)
  moreover have "external_ok x"
    using init x0 \<open>x = x0\<close> by (simp add: external_ok_def external_terminal_iff)
  ultimately show ?thesis
    using add event_ops(1)[OF emit] x0 by (auto simp: external_effect_def external_add_def)
next
  case (Some y)
  then show ?thesis using assms by (auto simp: external_prepare_def external_effect_def)
qed

lemma external_required_Inr:
  "external_required key db = Inr (x, db1) \<Longrightarrow> db1 = db \<and> x \<in> set (externals db)"
  "external_required_id i db = Inr (x, db1) \<Longrightarrow> db1 = db \<and> x \<in> set (externals db)"
  by (auto simp: external_required_def external_required_id_def external_get_by_key_def external_get_def dest: row_get_Some)

lemma external_accept_effect:
  assumes "external_accept key rid now db = Inr (x, db')" "distinct (map xe_id (externals db))"
  shows "external_effect db db'"
  using assms unfolding external_accept_def
  by (auto dest!: external_required_Inr event_ops(1) split: if_splits)
    (rule external_effect_refl | (rule saved_effect[OF external_step.accepted]; assumption))+

lemma external_finish_effect:
  assumes "external_finish key status res reason now db = Inr (x, db')" "distinct (map xe_id (externals db))"
  shows "external_effect db db'"
  using assms unfolding external_finish_def
  by (auto dest!: external_required_Inr event_ops(1) split: if_splits)
    (rule external_effect_refl | (rule saved_effect[OF external_step.finished]; assumption))+

lemma external_release_effect:
  assumes "external_release_workspace i now db = Inr (x, db')" "distinct (map xe_id (externals db))"
  shows "external_effect db db'"
  using assms unfolding external_release_workspace_def
  by (auto dest!: external_required_Inr event_ops(1) split: if_splits)
    (rule external_effect_refl | (rule saved_effect[OF external_step.released]; assumption))+

lemma external_call_effect:
  assumes "external_call db db'" "distinct (map xe_id (externals db))"
  shows "external_effect db db'"
  using assms
proof cases
  case other
  then show ?thesis by (simp add: external_effect_def)
qed (blast intro: external_prepare_effect external_accept_effect[OF _ assms(2)] external_finish_effect[OF _ assms(2)]
    external_release_effect[OF _ assms(2)])+

section \<open>Invariant\<close>

lemma external_effect_ok:
  assumes "external_effect db db'" "external_table_ok (t_next db) (externals db)"
  shows "external_table_ok (t_next db') (externals db')
    \<and> (\<forall>x \<in> set (externals db). \<exists>y \<in> set (externals db'). external_later x y)"
proof -
  from assms(1) consider (same) "externals db' = externals db" "t_next db \<le> t_next db'"
    | (add) x where "externals db' = externals db @ [x]" "external_ok x" "xe_id x = t_next db" "t_next db < t_next db'"
        "xe_external_run_id x = None" "xe_idempotency_key x \<notin> xe_idempotency_key ` set (externals db)"
    | (move) y x where "y \<in> set (externals db)" "external_step y x" "\<not> external_run_taken x db" "t_next db \<le> t_next db'"
        "externals db' = table_put xe_id (externals db) x"
    unfolding external_effect_def by blast
  then show ?thesis
  proof cases
    case same
    then show ?thesis using assms(2) external_later_refl by (auto simp: external_table_ok_def list_all_iff)
  next
    case add
    then have "external_table_ok (t_next db') (externals db')"
      using assms(2) by (fastforce simp: external_table_ok_def list_all_iff same_run_def image_iff)
    then show ?thesis using add(1) external_later_refl by auto
  next
    case move
    have later: "external_later y x" using external_step_later move(2) .
    then have id: "xe_id x = xe_id y" by (simp add: external_later_def)
    have member: "z \<in> set (externals db') \<longleftrightarrow> z = x \<or> (z \<in> set (externals db) \<and> xe_id z \<noteq> xe_id y)" for z
      using move(1) id unfolding move(5) by (auto simp: table_put_def image_iff)
    have unique: "z = y" if "z \<in> set (externals db)" "xe_id z = xe_id y" for z
      using assms(2) that move(1) by (auto simp: external_table_ok_def distinct_map inj_on_def)
    have ok: "external_ok x \<and> xe_id x < t_next db'"
      using external_step_ok[OF move(2)] assms(2) move(1,4) id by (auto simp: external_table_ok_def list_all_iff)
    have apart: "xe_idempotency_key z \<noteq> xe_idempotency_key x \<and> \<not> same_run x z \<and> \<not> same_run z x"
      if z: "z \<in> set (externals db)" "xe_id z \<noteq> xe_id y" for z
    proof -
      have "xe_idempotency_key z \<noteq> xe_idempotency_key y"
        using assms(2) z move(1) by (auto simp: external_table_ok_def)
      moreover have "\<not> (xe_external_run_id x \<noteq> None \<and> xe_executor_key z = xe_executor_key x
          \<and> xe_external_run_id z = xe_external_run_id x)"
        using move(3) z id by (auto simp: external_run_taken_def list_ex_iff)
      ultimately show ?thesis using later by (auto simp: external_later_def same_run_def)
    qed
    have "external_table_ok (t_next db') (externals db')"
      using assms(2) ok apart member table_put_ids[of xe_id "externals db" x] move(4,5)
      unfolding external_table_ok_def list_all_iff by (metis order_less_le_trans)
    moreover have "\<exists>w \<in> set (externals db'). external_later z w" if "z \<in> set (externals db)" for z
      using member unique later external_later_refl that by metis
    ultimately show ?thesis by blast
  qed
qed

lemma external_call_ok:
  "external_call db db' \<Longrightarrow> external_table_ok (t_next db) (externals db) \<Longrightarrow>
     external_table_ok (t_next db') (externals db') \<and> (\<forall>x \<in> set (externals db). \<exists>y \<in> set (externals db'). external_later x y)"
  by (intro external_effect_ok external_call_effect) (simp_all add: external_table_ok_def)

lemma external_run_ok:
  "external_call\<^sup>*\<^sup>* db db' \<Longrightarrow> external_table_ok (t_next db) (externals db) \<Longrightarrow>
     external_table_ok (t_next db') (externals db') \<and> (\<forall>x \<in> set (externals db). \<exists>y \<in> set (externals db'). external_later x y)"
proof (induction rule: rtranclp_induct)
  case base
  then show ?case using external_later_refl by blast
next
  case (step db1 db2)
  then show ?case using external_call_ok[OF step.hyps(2)] external_later_trans by meson
qed

end
