(* ===== verification/Security_Services.thy ===== *)
theory Security_Services
  imports Operation_Repositories
begin

text \<open>
  \<^verbatim>\<open>application/security_services.py\<close>: service accounts, bearer tokens and their inventory. Two
  things come from libraries and are parameters: \<open>hexdigest\<close>, the hexadecimal SHA-256 digest of a
  token, and the random \<open>secret\<close> that \<^verbatim>\<open>token_urlsafe(32)\<close> returns. A set argument of the sources is a
  list or a set here; the order in which Python iterates over a set is not used.
\<close>

section \<open>Tokens\<close>

definition token_digest :: "(string \<Rightarrow> string) \<Rightarrow> string \<Rightarrow> string" where
  "token_digest hexdigest token = ''sha256:'' @ hexdigest token"

text \<open>\<^verbatim>\<open>s.partition(sep)\<close> for one character: what is before it, whether it occurs, what is after it.\<close>

definition py_partition :: "char \<Rightarrow> string \<Rightarrow> string \<times> bool \<times> string" where
  "py_partition sep s = (takeWhile (\<lambda>c. c \<noteq> sep) s, sep \<in> set s, drop 1 (dropWhile (\<lambda>c. c \<noteq> sep) s))"

definition token_credential_id :: "string \<Rightarrow> uuid option" where
  "token_credential_id token =
     (let (prefix, separator, secret) = py_partition (CHR ''.'') token in
      if \<not> separator \<or> take 5 prefix \<noteq> ''jbsa_'' \<or> secret = [] then None
      else case uuid_of_str (drop 5 prefix) of Inl _ \<Rightarrow> None | Inr i \<Rightarrow> Some i)"

definition bearer_token :: "uuid \<Rightarrow> string \<Rightarrow> string" where
  "bearer_token credential_id secret = ''jbsa_'' @ hex32 credential_id @ ''.'' @ secret"

definition new_credential ::
    "(string \<Rightarrow> string) \<Rightarrow> string \<Rightarrow> uuid \<Rightarrow> time \<Rightarrow> time option \<Rightarrow> (credential \<times> string) svc" where
  "new_credential hexdigest secret account_id issued_at expires_at =
     sbind uuid4 (\<lambda>i.
     let token = bearer_token i secret in
     sbind (slift (credential_init
       \<lparr>cr_account_id = account_id, cr_token_digest = token_digest hexdigest token, cr_id = i,
        cr_created_at = issued_at, cr_expires_at = expires_at, cr_revoked_at = None, cr_last_used_at = None\<rparr>)) (\<lambda>c.
     sreturn (c, token)))"

section \<open>Issuing and revoking\<close>

definition actor_payload :: "api_principal option \<Rightarrow> json_object" where
  "actor_payload actor =
     [(''actor_account_id'', opt_json (\<lambda>a. JStr (uuid_str (ap_account_id a))) actor),
      (''actor_credential_id'', opt_json (\<lambda>i. JStr (uuid_str i)) (Option.bind actor ap_credential_id))]"

definition credential_event :: "uuid \<Rightarrow> credential \<Rightarrow> string \<Rightarrow> time \<Rightarrow> api_principal option \<Rightarrow> unit svc" where
  "credential_event account_id c event_type occurred_at actor = emit ''service_account'' account_id event_type
     ([(''credential_id'', JStr (uuid_str (cr_id c))),
       (''expires_at'', opt_json (\<lambda>t. JStr (isoformat t)) (cr_expires_at c))] @ actor_payload actor) occurred_at"

definition issue_account ::
    "(string \<Rightarrow> string) \<Rightarrow> string \<Rightarrow> string \<Rightarrow> string \<Rightarrow> api_permission set \<Rightarrow> uuid set \<Rightarrow> bool \<Rightarrow> time option \<Rightarrow> time
       \<Rightarrow> (service_account \<times> credential \<times> string) svc" where
  "issue_account hexdigest secret key name permissions project_ids all_projects expires_at now =
     sbind uuid4 (\<lambda>account_id.
     sbind (slift (service_account_init
       \<lparr>sv_key = key, sv_name = name, sv_permissions = permissions, sv_project_ids = project_ids,
        sv_all_projects = all_projects, sv_enabled = True, sv_id = account_id, sv_created_at = now\<rparr>)) (\<lambda>account.
     sbind (new_credential hexdigest secret (sv_id account) now expires_at) (\<lambda>(c, token).
     sbind (gets (service_accounts_get_by_key (sv_key account))) (\<lambda>existing.
     if existing \<noteq> None
     then sraise (ResourceConflict (''service account key already exists: '' @ sv_key account))
     else
       sbind (gets (\<lambda>db. \<forall>p \<in> sv_project_ids account. projects_get p db \<noteq> None)) (\<lambda>known.
       if \<not> known then sraise (ResourceNotFound ''project not found'')
       else
         sbind (service_accounts_add account) (\<lambda>_.
         sbind (credentials_add c) (\<lambda>_.
         sbind (credential_event (sv_id account) c ''service_account.credential_issued'' now None) (\<lambda>_.
         sreturn (account, c, token)))))))))"

definition account_required :: "uuid \<Rightarrow> service_account svc" where
  "account_required k =
     sneed (ResourceNotFound (''service account not found: '' @ uuid_str k)) (service_accounts_get k)"

definition issue_credential ::
    "(string \<Rightarrow> string) \<Rightarrow> string \<Rightarrow> uuid \<Rightarrow> time option \<Rightarrow> api_principal option \<Rightarrow> time \<Rightarrow> (credential \<times> string) svc" where
  "issue_credential hexdigest secret account_id expires_at actor now =
     sbind (account_required account_id) (\<lambda>account.
     if \<not> sv_enabled account then sraise (ResourceConflict ''disabled service account cannot receive credentials'')
     else
       sbind (new_credential hexdigest secret (sv_id account) now expires_at) (\<lambda>(c, token).
       sbind (credentials_add c) (\<lambda>_.
       sbind (credential_event (sv_id account) c ''service_account.credential_issued'' now actor) (\<lambda>_.
       sreturn (c, token)))))"

definition list_credentials :: "uuid \<Rightarrow> credential list svc" where
  "list_credentials account_id =
     sbind (account_required account_id) (\<lambda>_. gets (credentials_list_for_account account_id))"

definition revoke_credential :: "uuid \<Rightarrow> uuid \<Rightarrow> api_principal option \<Rightarrow> time \<Rightarrow> unit svc" where
  "revoke_credential account_id credential_id actor now =
     sbind (account_required account_id) (\<lambda>_.
     sbind (sneed (ResourceNotFound (''service account credential not found: '' @ uuid_str credential_id))
       (\<lambda>db. case credentials_get credential_id db of None \<Rightarrow> None
          | Some c \<Rightarrow> if cr_account_id c \<noteq> account_id then None else Some c)) (\<lambda>c.
     if cr_revoked_at c \<noteq> None then sreturn ()
     else
       sbind (credentials_revoke credential_id now) (\<lambda>_.
       credential_event account_id c ''service_account.credential_revoked'' now actor)))"

definition revoke_account :: "uuid \<Rightarrow> api_principal option \<Rightarrow> time \<Rightarrow> unit svc" where
  "revoke_account account_id actor now =
     sbind (account_required account_id) (\<lambda>account.
     if \<not> sv_enabled account then sreturn ()
     else
       sbind (service_accounts_disable account_id) (\<lambda>_.
       emit ''service_account'' account_id ''service_account.revoked'' (actor_payload actor) now))"

definition list_credential_events :: "uuid \<Rightarrow> int option \<Rightarrow> nat \<Rightarrow> domain_event list svc" where
  "list_credential_events account_id before_sequence limit =
     sbind (account_required account_id) (\<lambda>_.
     gets (events_list_aggregate ''service_account'' account_id before_sequence limit))"

section \<open>Authentication\<close>

text \<open>\<^verbatim>\<open>hmac.compare_digest\<close> is equality of the digests.\<close>

definition authenticate :: "(string \<Rightarrow> string) \<Rightarrow> string \<Rightarrow> time \<Rightarrow> api_principal option svc" where
  "authenticate hexdigest token now =
     (case token_credential_id token of None \<Rightarrow> sreturn None
      | Some credential_id \<Rightarrow>
        sbind (gets (credentials_get credential_id)) (\<lambda>found.
        case found of None \<Rightarrow> sreturn None
        | Some c \<Rightarrow>
          if \<not> cr_is_active c now then sreturn None
          else if cr_token_digest c \<noteq> token_digest hexdigest token then sreturn None
          else
            sbind (gets (service_accounts_get (cr_account_id c))) (\<lambda>acc.
            case acc of None \<Rightarrow> sreturn None
            | Some a \<Rightarrow>
              if \<not> sv_enabled a then sreturn None
              else
                sbind (credentials_mark_used (cr_id c) now) (\<lambda>_.
                sreturn (Some \<lparr>ap_account_id = sv_id a, ap_account_key = sv_key a, ap_permissions = sv_permissions a,
                  ap_project_ids = sv_project_ids a, ap_all_projects = sv_all_projects a,
                  ap_credential_id = Some (cr_id c)\<rparr>)))))"

section \<open>Inventory\<close>

record credential_summary =
  cs_total :: nat
  cs_active :: nat
  cs_usable :: nat
  cs_expired :: nat
  cs_revoked :: nat
  cs_latest_created_at :: "time option"
  cs_last_used_at :: "time option"

definition max_time :: "time list \<Rightarrow> time option" where
  "max_time xs = (if xs = [] then None else Some (foldr max xs (hd xs)))"

definition min_time :: "time list \<Rightarrow> time option" where
  "min_time xs = (if xs = [] then None else Some (foldr min xs (hd xs)))"

definition credential_expired :: "time \<Rightarrow> credential \<Rightarrow> bool" where
  "credential_expired at c \<longleftrightarrow> cr_revoked_at c = None \<and> opt_less (cr_expires_at c) (\<lambda>t. t \<le> at)"

definition credential_summary_of :: "service_account \<Rightarrow> credential list \<Rightarrow> time \<Rightarrow> credential_summary" where
  "credential_summary_of account cs checked_at =
     (let active = length (filter (\<lambda>c. cr_is_active c checked_at) cs) in
      \<lparr>cs_total = length cs, cs_active = active, cs_usable = (if sv_enabled account then active else 0),
       cs_expired = length (filter (credential_expired checked_at) cs),
       cs_revoked = length (filter (\<lambda>c. cr_revoked_at c \<noteq> None) cs),
       cs_latest_created_at = max_time (map cr_created_at cs),
       cs_last_used_at = max_time (List.map_filter cr_last_used_at cs)\<rparr>)"

definition list_account_inventory ::
    "bool option \<Rightarrow> string option \<Rightarrow> string option \<Rightarrow> nat \<Rightarrow> time \<Rightarrow> (service_account \<times> credential_summary) list svc" where
  "list_account_inventory enabled key_prefix after_key limit now =
     sbind (gets (service_accounts_list enabled key_prefix after_key limit)) (\<lambda>accounts.
     sbind (gets (credentials_list_for_accounts (map sv_id accounts))) (\<lambda>cs.
     sreturn (map (\<lambda>a. (a, credential_summary_of a (filter (\<lambda>c. cr_account_id c = sv_id a) cs) now)) accounts)))"

definition get_account_inventory :: "uuid \<Rightarrow> time \<Rightarrow> (service_account \<times> credential_summary) svc" where
  "get_account_inventory account_id now =
     sbind (account_required account_id) (\<lambda>a.
     sbind (gets (credentials_list_for_account account_id)) (\<lambda>cs. sreturn (a, credential_summary_of a cs now)))"

record credential_readiness =
  cn_account :: service_account
  cn_status :: credential_readiness_status
  cn_summary :: credential_summary
  cn_next_expires_at :: "time option"
  cn_checked_at :: time
  cn_warning_seconds :: int

definition credential_readiness_of :: "service_account \<Rightarrow> credential list \<Rightarrow> time \<Rightarrow> int \<Rightarrow> credential_readiness" where
  "credential_readiness_of account cs checked_at warning_seconds =
     (let summary = credential_summary_of account cs checked_at;
          next_expires_at = min_time (List.map_filter cr_expires_at (filter (\<lambda>c. cr_is_active c checked_at) cs));
          status = (if \<not> sv_enabled account then AccountDisabled
            else if cs_usable summary = 0 \<and> 0 < cs_expired summary then CredExpired
            else if cs_usable summary = 0 then NoUsableCredential
            else if opt_less next_expires_at (\<lambda>t. t - checked_at \<le> seconds warning_seconds) then CredExpiringSoon
            else CredHealthy) in
      \<lparr>cn_account = account, cn_status = status, cn_summary = summary, cn_next_expires_at = next_expires_at,
       cn_checked_at = checked_at, cn_warning_seconds = warning_seconds\<rparr>)"

definition get_credential_readiness :: "uuid \<Rightarrow> int \<Rightarrow> time \<Rightarrow> credential_readiness svc" where
  "get_credential_readiness account_id warning_seconds now =
     (if warning_seconds \<le> 0 then sraise (ValueError ''credential readiness warning must be greater than zero'')
      else
        sbind (account_required account_id) (\<lambda>a.
        sbind (gets (credentials_list_for_account account_id)) (\<lambda>cs.
        sreturn (credential_readiness_of a cs now warning_seconds))))"

text \<open>The inner loop over one page: it stops when \<open>limit\<close> results are there.\<close>

fun collect_readiness ::
    "(service_account \<Rightarrow> credential_readiness) \<Rightarrow> bool \<Rightarrow> nat \<Rightarrow> service_account list \<Rightarrow> credential_readiness list
       \<Rightarrow> credential_readiness list" where
  "collect_readiness ready issues_only limit [] results = results"
| "collect_readiness ready issues_only limit (a # accounts) results =
     (let r = ready a in
      if \<not> issues_only \<or> cn_status r \<noteq> CredHealthy
      then (if length (results @ [r]) = limit then results @ [r]
            else collect_readiness ready issues_only limit accounts (results @ [r]))
      else collect_readiness ready issues_only limit accounts results)"

definition readiness_page_size :: nat where
  "readiness_page_size = 500"

definition readiness_of_page :: "db \<Rightarrow> service_account list \<Rightarrow> time \<Rightarrow> int \<Rightarrow> service_account \<Rightarrow> credential_readiness" where
  "readiness_of_page db accounts checked_at warning_seconds a = credential_readiness_of a
     (filter (\<lambda>c. cr_account_id c = sv_id a) (credentials_list_for_accounts (map sv_id accounts) db))
     checked_at warning_seconds"

text \<open>The \<^verbatim>\<open>while\<close> loop over pages. It ends because the cursor grows.\<close>

function readiness_pages ::
    "db \<Rightarrow> time \<Rightarrow> int \<Rightarrow> bool \<Rightarrow> string option \<Rightarrow> nat \<Rightarrow> string option \<Rightarrow> credential_readiness list
       \<Rightarrow> credential_readiness list" where
  "readiness_pages db checked_at warning_seconds issues_only key_prefix limit cursor results =
     (if limit \<le> length results then results
      else
        let accounts = service_accounts_list None key_prefix cursor readiness_page_size db in
        if accounts = [] then results
        else
          let results' = collect_readiness (readiness_of_page db accounts checked_at warning_seconds)
                issues_only limit accounts results in
          if length results' = limit then results'
          else if length accounts < readiness_page_size then results'
          else readiness_pages db checked_at warning_seconds issues_only key_prefix limit
                 (Some (sv_key (last accounts))) results')"
  by pat_completeness auto

lemma accounts_list_member:
  "a \<in> set (service_accounts_list enabled key_prefix cursor limit db) \<Longrightarrow>
     a \<in> set (x_service_accounts (t_ops db)) \<and> opt_all (\<lambda>k. k < sv_key a) cursor"
  by (auto simp: service_accounts_list_def dest: in_set_takeD)

lemma filter_shrinks:
  assumes "x \<in> set xs" "P x" "\<not> Q x" "\<And>y. Q y \<Longrightarrow> P y"
  shows "length (filter Q xs) < length (filter P xs)"
proof -
  have "filter Q xs = filter Q (filter P xs)" using assms(4) by (auto intro: filter_cong)
  moreover have "length (filter Q (filter P xs)) < length (filter P xs)"
    using assms(1-3) by (intro length_filter_less[of x]) simp_all
  ultimately show ?thesis by simp
qed

termination readiness_pages
proof (relation "measure (\<lambda>(db, _, _, _, _, _, cursor, _).
    length (filter (\<lambda>a. opt_all (\<lambda>k. k < sv_key a) cursor) (x_service_accounts (t_ops db))))", goal_cases)
  case (2 db checked_at warning_seconds issues_only key_prefix limit cursor results accounts results')
  have "last accounts \<in> set accounts" using 2 by simp
  then have last: "last accounts \<in> set (x_service_accounts (t_ops db))" "opt_all (\<lambda>k. k < sv_key (last accounts)) cursor"
    using 2(2) accounts_list_member by blast+
  then have "length (filter (\<lambda>a. opt_all (\<lambda>k. k < sv_key a) (Some (sv_key (last accounts)))) (x_service_accounts (t_ops db)))
      < length (filter (\<lambda>a. opt_all (\<lambda>k. k < sv_key a) cursor) (x_service_accounts (t_ops db)))"
    by (intro filter_shrinks[of "last accounts"]) (auto elim: opt_all.elims)
  then show ?case by simp
qed simp

declare readiness_pages.simps [simp del]

definition list_credential_readiness ::
    "int \<Rightarrow> bool \<Rightarrow> string option \<Rightarrow> string option \<Rightarrow> int \<Rightarrow> time \<Rightarrow> credential_readiness list svc" where
  "list_credential_readiness warning_seconds issues_only key_prefix after_key limit now =
     (if warning_seconds \<le> 0 then sraise (ValueError ''credential readiness warning must be greater than zero'')
      else if limit \<le> 0 then sraise (ValueError ''credential readiness limit must be greater than zero'')
      else gets (\<lambda>db. readiness_pages db now warning_seconds issues_only key_prefix (nat limit) after_key []))"

section \<open>The project of a resource\<close>

definition project_of_run :: "run option \<Rightarrow> db \<Rightarrow> uuid option" where
  "project_of_run r db = Option.bind r (\<lambda>r. map_option rq_project_id (requests_get (rn_request_id r) db))"

definition resolve_project_id :: "string \<Rightarrow> uuid \<Rightarrow> uuid option svc" where
  "resolve_project_id resource_type resource_id =
     (if resource_type = ''project''
      then gets (\<lambda>db. if projects_get resource_id db \<noteq> None then Some resource_id else None)
      else if resource_type = ''request''
      then gets (\<lambda>db. map_option rq_project_id (requests_get resource_id db))
      else if resource_type = ''run''
      then gets (\<lambda>db. project_of_run (runs_get resource_id db) db)
      else if resource_type = ''workflow_execution''
      then gets (\<lambda>db. project_of_run
        (Option.bind (executions_get resource_id db) (\<lambda>ex. runs_get (ws_run_id (we_snapshot ex)) db)) db)
      else if resource_type = ''external_execution''
      then gets (\<lambda>db. project_of_run (Option.bind (external_get resource_id db) (\<lambda>x. runs_get (xe_run_id x) db)) db)
      else if resource_type = ''scm_publication''
      then gets (\<lambda>db. project_of_run (Option.bind (publications_get resource_id db)
        (\<lambda>p. Option.bind (external_get (sp_external_execution_id p) db) (\<lambda>x. runs_get (xe_run_id x) db))) db)
      else sraise (ValueError (''unknown authorization resource type: '' @ resource_type)))"

end
