(* ===== verification/Api_Security.thy ===== *)
theory Api_Security
  imports Security_Services
begin

text \<open>
  \<^verbatim>\<open>api/security.py\<close> and the middleware of \<^verbatim>\<open>api/main.py\<close>: which permission a request needs, which
  project it concerns and whether the bearer of the token may make it.
\<close>

section \<open>Paths\<close>

definition starts_with :: "string \<Rightarrow> string \<Rightarrow> bool" where
  "starts_with p s \<longleftrightarrow> take (length p) s = p"

definition ends_with :: "string \<Rightarrow> string \<Rightarrow> bool" where
  "ends_with p s \<longleftrightarrow> length p \<le> length s \<and> drop (length s - length p) s = p"

definition is_substring :: "string \<Rightarrow> string \<Rightarrow> bool" where
  "is_substring p s \<longleftrightarrow> list_ex (\<lambda>i. starts_with p (drop i s)) [0..<Suc (length s)]"

text \<open>\<^verbatim>\<open>[0-9a-fA-F-]{36}\<close> at the start, and the place a \<^verbatim>\<open>$\<close> matches.\<close>

definition is_id_char :: "char \<Rightarrow> bool" where
  "is_id_char c \<longleftrightarrow> is_hex_digit c \<or> c = CHR ''-''"

definition starts_with_id :: "string \<Rightarrow> bool" where
  "starts_with_id s \<longleftrightarrow> 36 \<le> length s \<and> list_all is_id_char (take 36 s)"

definition at_end :: "string \<Rightarrow> bool" where
  "at_end s \<longleftrightarrow> s = [] \<or> s = [CHR 10]"

definition dispatch_path :: "string \<Rightarrow> bool" where
  "dispatch_path path \<longleftrightarrow> list_ex (\<lambda>i. let s = drop i path; t = drop 10 s in
     starts_with ''/projects/'' s \<and> starts_with_id t \<and> starts_with ''/requests'' (drop 36 t) \<and> at_end (drop 45 t))
     [0..<Suc (length path)]"

definition resource_types :: "(string \<times> string) list" where
  "resource_types = [(''projects'', ''project''), (''requests'', ''request''), (''runs'', ''run''),
     (''workflow-executions'', ''workflow_execution''), (''external-executions'', ''external_execution''),
     (''scm-publications'', ''scm_publication'')]"

text \<open>The resource type and the identifier a path names, or none.\<close>

definition resource_path :: "string \<Rightarrow> (string \<times> string) option" where
  "resource_path path =
     (case find (\<lambda>(collection, kind). let p = ''/v1/'' @ collection @ ''/''; t = drop (length p) path in
        starts_with p path \<and> starts_with_id t \<and> (starts_with ''/'' (drop 36 t) \<or> at_end (drop 36 t))) resource_types of
        None \<Rightarrow> None
      | Some (collection, kind) \<Rightarrow> Some (kind, take 36 (drop (length collection + 5) path)))"

definition required_permission :: "string \<Rightarrow> string \<Rightarrow> api_permission" where
  "required_permission meth path =
     (if starts_with ''/v1/service-accounts/'' path then ProjectAdmin
      else if meth = ''GET'' then ProjectRead
      else if ends_with ''/worker-readiness/evaluate'' path then ProjectRead
      else if ends_with ''/dispatches'' path \<or> ends_with ''/workflow-recommendations'' path \<or> dispatch_path path
      then RequestDispatch
      else if is_substring ''/approvals/'' path \<or> ends_with ''/approve'' path then WorkflowApprove
      else if ends_with ''/scm-publications'' path \<or> is_substring ''/scm-publications/'' path then ScmPublish
      else if is_substring ''/notification-subscriptions'' path \<or> is_substring ''/notification-deliveries'' path
      then NotificationManage
      else if ends_with ''/cancel'' path then RunCancel
      else if ends_with ''/workspace-operations'' path then WorkspaceManage
      else ProjectAdmin)"

section \<open>Requests\<close>

text \<open>The principal, or the reason there is none.\<close>

definition authenticate_request ::
    "(string \<Rightarrow> string) \<Rightarrow> string option \<Rightarrow> time \<Rightarrow> (api_principal option \<times> string option) svc" where
  "authenticate_request hexdigest authorization now =
     (let (scheme, separator, token) =
        py_partition (CHR '' '') (case authorization of None \<Rightarrow> [] | Some h \<Rightarrow> h) in
      if \<not> separator \<or> py_lower scheme \<noteq> ''bearer'' \<or> blank token
      then sreturn (None, Some ''Bearer token is required'')
      else
        sbind (authenticate hexdigest (py_strip token) now) (\<lambda>bearer.
        case bearer of None \<Rightarrow> sreturn (None, Some ''Bearer token is invalid or revoked'')
        | Some p \<Rightarrow> sreturn (Some p, None)))"

definition authorize_request :: "string \<Rightarrow> string \<Rightarrow> api_principal \<Rightarrow> bool svc" where
  "authorize_request meth path bearer =
     (let permission = required_permission meth path in
      case resource_path path of
        None \<Rightarrow> sreturn (allows bearer permission None)
      | Some (kind, i) \<Rightarrow>
        sbind (slift (uuid_of_str i)) (\<lambda>k.
        sbind (resolve_project_id kind k) (\<lambda>project_id.
        case project_id of None \<Rightarrow> sreturn True
        | Some p \<Rightarrow> sreturn (allows bearer permission (Some p)))))"

datatype gate = Passed "api_principal option" | Unauthenticated string | Forbidden

text \<open>The middleware, with its two transactions: a token counts as used even when the request is then
  refused.\<close>

definition bearer_security ::
    "(string \<Rightarrow> string) \<Rightarrow> string \<Rightarrow> string \<Rightarrow> string option \<Rightarrow> time \<Rightarrow> db \<Rightarrow> gate result \<times> db" where
  "bearer_security hexdigest meth path authorization now db =
     (if \<not> starts_with ''/v1'' path then (Inr (Passed None), db)
      else
        case transact (authenticate_request hexdigest authorization now) db of
          (Inl e, db1) \<Rightarrow> (Inl e, db1)
        | (Inr (None, reason), db1) \<Rightarrow> (Inr (Unauthenticated (case reason of None \<Rightarrow> [] | Some r \<Rightarrow> r)), db1)
        | (Inr (Some bearer, _), db1) \<Rightarrow>
            (case transact (authorize_request meth path bearer) db1 of
               (Inl e, db2) \<Rightarrow> (Inl e, db2)
             | (Inr allowed, db2) \<Rightarrow> (Inr (if allowed then Passed (Some bearer) else Forbidden), db2)))"

end
