(* ===== verification/Security_Correctness.thy ===== *)
theory Security_Correctness
  imports Api_Security
begin

text \<open>
  What the tokens of service accounts are worth. Credentials and accounts only lose validity over
  time (\<open>loses\<close>, kept by every service); a token issued by the service authenticates its account as
  long as credential and account are usable and not afterwards; a request that passes the middleware
  stays inside the projects and permissions of its account; the paged readiness listing is a scan of
  the accounts.
\<close>

section \<open>Validity only decreases\<close>

definition credential_loses :: "credential \<Rightarrow> credential \<Rightarrow> bool" where
  "credential_loses c c' \<longleftrightarrow> cr_id c' = cr_id c \<and> cr_account_id c' = cr_account_id c
     \<and> cr_token_digest c' = cr_token_digest c \<and> cr_expires_at c' = cr_expires_at c
     \<and> (cr_revoked_at c \<noteq> None \<longrightarrow> cr_revoked_at c' = cr_revoked_at c)"

definition account_loses :: "service_account \<Rightarrow> service_account \<Rightarrow> bool" where
  "account_loses a a' \<longleftrightarrow> sv_id a' = sv_id a \<and> sv_key a' = sv_key a \<and> sv_permissions a' = sv_permissions a
     \<and> sv_project_ids a' = sv_project_ids a \<and> sv_all_projects a' = sv_all_projects a
     \<and> (sv_enabled a' \<longrightarrow> sv_enabled a)"

definition loses :: "db \<Rightarrow> db \<Rightarrow> bool" where
  "loses db db' \<longleftrightarrow> t_next db \<le> t_next db'
     \<and> (\<forall>k c. credentials_get k db = Some c \<longrightarrow> (\<exists>c'. credentials_get k db' = Some c' \<and> credential_loses c c'))
     \<and> (\<forall>k a. service_accounts_get k db = Some a \<longrightarrow> (\<exists>a'. service_accounts_get k db' = Some a' \<and> account_loses a a'))"

lemma credential_loses_refl: "credential_loses c c" and account_loses_refl: "account_loses a a"
  by (simp_all add: credential_loses_def account_loses_def)

lemma credential_loses_trans: "credential_loses c d \<Longrightarrow> credential_loses d e \<Longrightarrow> credential_loses c e"
  by (auto simp: credential_loses_def)

lemma account_loses_trans: "account_loses a b \<Longrightarrow> account_loses b c \<Longrightarrow> account_loses a c"
  by (auto simp: account_loses_def)

lemma loses_trans: "loses db db' \<Longrightarrow> loses db' db'' \<Longrightarrow> loses db db''"
  unfolding loses_def by (meson account_loses_trans credential_loses_trans order_trans)

lemma loses_refl: "loses db db"
  by (auto simp: loses_def intro: credential_loses_refl account_loses_refl)

interpretation losing: step_frame loses
  by unfold_locales (rule loses_refl, erule (1) loses_trans)

lemma table_get_map:
  "(\<And>r. key_of (f r) = key_of r) \<Longrightarrow> table_get key_of (map f t) k = map_option f (table_get key_of t k)"
  by (induction t) (auto simp: table_get_def)

lemma loses_same:
  "t_ops db' = t_ops db \<Longrightarrow> t_next db \<le> t_next db' \<Longrightarrow> loses db db'"
  by (auto simp: loses_def credentials_get_def service_accounts_get_def row_get_def
      intro: credential_loses_refl account_loses_refl)

lemma losing_base:
  "within loses uuid4" "within loses (emit t i e p now)" "within loses (credentials_add c)"
  "within loses (service_accounts_add a)" "within loses (credentials_revoke k at)"
  "within loses (credentials_mark_used k at)" "within loses (service_accounts_disable k)"
proof -
  show "within loses uuid4" "within loses (emit t i e p now)"
    by (auto simp: within_def emit_def events_append_def intro!: loses_same)
  show "within loses (credentials_add c)" "within loses (service_accounts_add a)"
    by (auto simp: within_def loses_def credentials_add_def service_accounts_add_def credentials_get_def
        service_accounts_get_def row_get_def table_get_append intro: credential_loses_refl account_loses_refl)
  show "within loses (credentials_revoke k at)"
    by (auto simp: within_def loses_def credentials_revoke_def credentials_get_def service_accounts_get_def
        row_get_def table_get_map account_loses_refl) (auto simp: credential_loses_def)
  show "within loses (credentials_mark_used k at)"
    by (auto simp: within_def loses_def credentials_mark_used_def credentials_get_def service_accounts_get_def
        row_get_def table_get_map account_loses_refl) (auto simp: credential_loses_def)
  show "within loses (service_accounts_disable k)"
    by (auto simp: within_def loses_def service_accounts_disable_def credentials_get_def service_accounts_get_def
        row_get_def table_get_map credential_loses_refl) (auto simp: account_loses_def)
qed

lemmas losing_rules = losing.combinators losing_base

lemma losing_services:
  "within loses (issue_account hex secret key name perms projects all expires now)"
  "within loses (issue_credential hex secret account expires actor now)"
  "within loses (authenticate hex token now)"
  "within loses (revoke_credential account cid actor now)"
  "within loses (revoke_account account actor now)"
  unfolding issue_account_def new_credential_def credential_event_def issue_credential_def account_required_def
    authenticate_def revoke_credential_def revoke_account_def
  by (intro losing_rules)+

text \<open>Calls of the security service, with calls of other services between them.\<close>

inductive security_step :: "db \<Rightarrow> db \<Rightarrow> bool" where
  issued: "issue_account hex secret key name perms projects all expires now db = Inr (r, db') \<Longrightarrow> security_step db db'"
| added: "issue_credential hex secret account expires actor now db = Inr (r, db') \<Longrightarrow> security_step db db'"
| authenticated: "authenticate hex token now db = Inr (r, db') \<Longrightarrow> security_step db db'"
| credential_revoked: "revoke_credential account cid actor now db = Inr (r, db') \<Longrightarrow> security_step db db'"
| account_revoked: "revoke_account account actor now db = Inr (r, db') \<Longrightarrow> security_step db db'"
| other: "x_credentials (t_ops db') = x_credentials (t_ops db) \<Longrightarrow>
    x_service_accounts (t_ops db') = x_service_accounts (t_ops db) \<Longrightarrow> t_next db \<le> t_next db' \<Longrightarrow> security_step db db'"

lemma security_step_loses: "security_step db db' \<Longrightarrow> loses db db'"
  by (induction rule: security_step.induct)
    (auto dest: withinD[OF losing_services(1)] withinD[OF losing_services(2)] withinD[OF losing_services(3)]
      withinD[OF losing_services(4)] withinD[OF losing_services(5)]
      simp: loses_def credentials_get_def service_accounts_get_def row_get_def credential_loses_refl account_loses_refl)

lemma security_run_loses: "security_step\<^sup>*\<^sup>* db db' \<Longrightarrow> loses db db'"
  by (induction rule: rtranclp_induct) (auto intro: losing.same loses_trans security_step_loses)

section \<open>Authentication\<close>

definition usable :: "uuid \<Rightarrow> time \<Rightarrow> db \<Rightarrow> bool" where
  "usable credential_id at db = (case credentials_get credential_id db of None \<Rightarrow> False
     | Some c \<Rightarrow> cr_is_active c at \<and> (case service_accounts_get (cr_account_id c) db of None \<Rightarrow> False
         | Some a \<Rightarrow> sv_enabled a))"

definition principal_of :: "service_account \<Rightarrow> credential \<Rightarrow> api_principal" where
  "principal_of a c = \<lparr>ap_account_id = sv_id a, ap_account_key = sv_key a, ap_permissions = sv_permissions a,
     ap_project_ids = sv_project_ids a, ap_all_projects = sv_all_projects a, ap_credential_id = Some (cr_id c)\<rparr>"

lemma authenticate_Inr:
  "authenticate hex token now db = Inr (Some p, db') \<longleftrightarrow>
     (\<exists>i c a. token_credential_id token = Some i \<and> credentials_get i db = Some c \<and> cr_is_active c now
        \<and> cr_token_digest c = token_digest hex token \<and> service_accounts_get (cr_account_id c) db = Some a \<and> sv_enabled a
        \<and> p = principal_of a c \<and> credentials_mark_used (cr_id c) now db = Inr ((), db'))"
  by (auto simp: authenticate_def sbind_Inr principal_of_def split: option.splits)

lemma authenticate_total: "\<exists>r db'. authenticate hex token now db = Inr (r, db')"
  by (auto simp: authenticate_def sbind_def gets_def sreturn_def credentials_mark_used_def ops_modify_def supdate_def
      split: option.splits)

lemma authenticate_unusable:
  "token_credential_id token = Some i \<Longrightarrow> \<not> usable i now db \<Longrightarrow> authenticate hex token now db = Inr (None, db)"
  by (auto simp: authenticate_def usable_def sbind_def gets_def sreturn_def split: option.splits)

text \<open>A token names the credential it was made for.\<close>

lemma token_credential_id_bearer:
  assumes "uuid_ok i" "secret \<noteq> []"
  shows "token_credential_id (bearer_token i secret) = Some i"
proof -
  let ?h = "''jbsa_'' @ hex32 i"
  have dot: "CHR ''.'' \<notin> set ?h" using hex32_ok[of "CHR ''.''" i] by (auto simp: is_hex_digit_def is_digit_def)
  have token: "bearer_token i secret = ?h @ CHR ''.'' # secret" by (simp add: bearer_token_def)
  have "takeWhile (\<lambda>c. c \<noteq> CHR ''.'') (bearer_token i secret) = ?h"
    "dropWhile (\<lambda>c. c \<noteq> CHR ''.'') (bearer_token i secret) = CHR ''.'' # secret"
    unfolding token using dot by (subst takeWhile_append2 dropWhile_append2; auto)+
  moreover have "uuid_of_str (hex32 i) = Inr i" using assms(1) by (rule uuid_of_hex32)
  ultimately show ?thesis using assms(2) by (simp add: token_credential_id_def py_partition_def token)
qed

section \<open>Issued tokens\<close>

abbreviation credentials :: "db \<Rightarrow> credential list" where
  "credentials db \<equiv> x_credentials (t_ops db)"

abbreviation service_accounts :: "db \<Rightarrow> service_account list" where
  "service_accounts db \<equiv> x_service_accounts (t_ops db)"

text \<open>Identifiers that were not drawn yet name nothing.\<close>

definition fresh_ids :: "db \<Rightarrow> bool" where
  "fresh_ids db \<longleftrightarrow> list_all (\<lambda>c. cr_id c < t_next db) (credentials db)
     \<and> list_all (\<lambda>a. sv_id a < t_next db) (service_accounts db)"

lemma credential_init_Inr: "credential_init c = Inr d \<Longrightarrow> d = c"
  by (auto simp: credential_init_def split: if_splits)

lemma service_account_init_Inr:
  "service_account_init a = Inr b \<Longrightarrow> sv_id b = sv_id a \<and> sv_enabled b = sv_enabled a"
  by (auto simp: service_account_init_def Let_def split: if_splits)

lemma emit_tables: "emit t i e p now db = Inr (u, db') \<Longrightarrow> t_ops db' = t_ops db \<and> t_next db \<le> t_next db'"
  by (auto simp: emit_def events_append_def)

definition issued_credential :: "(string \<Rightarrow> string) \<Rightarrow> string \<Rightarrow> uuid \<Rightarrow> time \<Rightarrow> time option \<Rightarrow> uuid \<Rightarrow> credential" where
  "issued_credential hex secret account now expires i =
     \<lparr>cr_account_id = account, cr_token_digest = token_digest hex (bearer_token i secret), cr_id = i,
      cr_created_at = now, cr_expires_at = expires, cr_revoked_at = None, cr_last_used_at = None\<rparr>"

lemma issued_credential_fields [simp]:
  "cr_id (issued_credential hex secret account now expires i) = i"
  "cr_account_id (issued_credential hex secret account now expires i) = account"
  "cr_token_digest (issued_credential hex secret account now expires i) = token_digest hex (bearer_token i secret)"
  "cr_expires_at (issued_credential hex secret account now expires i) = expires"
  "cr_revoked_at (issued_credential hex secret account now expires i) = None"
  by (simp_all add: issued_credential_def)

lemma new_credential_Inr:
  "new_credential hex secret account now expires db = Inr ((c, token), db') \<Longrightarrow>
     db' = db\<lparr>t_next := Suc (t_next db)\<rparr> \<and> token = bearer_token (t_next db) secret
     \<and> c = issued_credential hex secret account now expires (t_next db)"
  by (auto simp: new_credential_def issued_credential_def Let_def dest!: credential_init_Inr)

lemma issue_account_effect:
  assumes "issue_account hex secret key name perms projects all_projects expires now db = Inr ((a, c, token), db')"
  shows "credentials db' = credentials db @ [c] \<and> service_accounts db' = service_accounts db @ [a]
    \<and> sv_id a = t_next db \<and> sv_enabled a \<and> t_next db' > Suc (t_next db)
    \<and> token = bearer_token (Suc (t_next db)) secret
    \<and> c = issued_credential hex secret (t_next db) now expires (Suc (t_next db))"
  using assms unfolding issue_account_def credential_event_def service_accounts_add_def credentials_add_def
  by (auto dest!: service_account_init_Inr new_credential_Inr emit_tables split: if_splits)

lemma issue_credential_effect:
  assumes "issue_credential hex secret account expires actor now db = Inr ((c, token), db')"
  shows "credentials db' = credentials db @ [c] \<and> service_accounts db' = service_accounts db \<and> cr_id c = t_next db
    \<and> t_next db' > t_next db \<and> cr_account_id c = account"
  using assms unfolding issue_credential_def credential_event_def credentials_add_def account_required_def
    service_accounts_get_def
  by (auto dest!: new_credential_Inr emit_tables row_get_Some split: if_splits)

definition stored_ids :: "db \<Rightarrow> uuid list \<times> uuid list" where
  "stored_ids db = (map cr_id (credentials db), map sv_id (service_accounts db))"

lemma fresh_ids_iff: "fresh_ids db \<longleftrightarrow> (\<forall>i \<in> set (fst (stored_ids db)) \<union> set (snd (stored_ids db)). i < t_next db)"
  by (auto simp: fresh_ids_def stored_ids_def list_all_iff)

lemma keeps_stored_ids [frame_rules]:
  "keeps stored_ids (credentials_revoke k at)" "keeps stored_ids (credentials_mark_used k at)"
  "keeps stored_ids (service_accounts_disable k)"
  by (auto simp: within_def stored_ids_def credentials_revoke_def credentials_mark_used_def service_accounts_disable_def)

lemma stored_ids_services:
  "keeps stored_ids (authenticate hex token now)" "keeps stored_ids (revoke_credential account cid actor now)"
  "keeps stored_ids (revoke_account account actor now)"
  unfolding authenticate_def revoke_credential_def revoke_account_def account_required_def credential_event_def
  by (intro frame_rules; simp add: stored_ids_def)+

lemma fresh_ids_step:
  assumes "security_step db db'" "fresh_ids db"
  shows "fresh_ids db'"
proof -
  have mono: "t_next db \<le> t_next db'" using security_step_loses[OF assms(1)] by (simp add: loses_def)
  have same: "fresh_ids db'" if "stored_ids db' = stored_ids db"
    using assms(2) that mono unfolding fresh_ids_iff by (metis order_less_le_trans)
  from assms(1) show ?thesis
  proof cases
    case (issued hex secret key name perms projects all expires now r)
    obtain a c tok where "r = (a, c, tok)" by (cases r)
    from issue_account_effect[OF issued[unfolded this]] assms(2) show ?thesis
      by (auto simp: fresh_ids_def list_all_iff)
  next
    case (added hex secret account expires actor now r)
    obtain c tok where "r = (c, tok)" by fastforce
    from issue_credential_effect[OF added[unfolded this]] assms(2) show ?thesis
      by (auto simp: fresh_ids_def list_all_iff)
  next
    case (authenticated hex token now r)
    then show ?thesis by (intro same withinD[OF stored_ids_services(1)])
  next
    case (credential_revoked account cid actor now r)
    then show ?thesis by (intro same withinD[OF stored_ids_services(2)])
  next
    case (account_revoked account actor now r)
    then show ?thesis by (intro same withinD[OF stored_ids_services(3)])
  next
    case other
    then show ?thesis by (intro same) (simp add: stored_ids_def)
  qed
qed

lemma table_get_absent: "list_all (\<lambda>r. key_of r < n) t \<Longrightarrow> n \<le> k \<Longrightarrow> table_get key_of t k = None"
  for n k :: nat
  by (auto simp: table_get_def find_None_iff list_all_iff)

lemma issued_stored:
  assumes "issue_account hex secret key name perms projects all_projects expires now db = Inr ((a, c, token), db')"
    "fresh_ids db"
  shows "credentials_get (cr_id c) db' = Some c" "service_accounts_get (sv_id a) db' = Some a"
  using issue_account_effect[OF assms(1)] assms(2)
  by (simp_all add: credentials_get_def service_accounts_get_def row_get_def table_get_append fresh_ids_def
      table_get_absent[where n = "t_next db"])

text \<open>After any later calls the token authenticates its account exactly while it is usable.\<close>

lemma issued_token_result:
  assumes issue: "issue_account hex secret key name perms projects all_projects expires now db = Inr ((a, c, token), db')"
    and "fresh_ids db" "secret \<noteq> []" "uuid_ok (cr_id c)" and run: "security_step\<^sup>*\<^sup>* db' db''"
  shows "\<exists>db3. authenticate hex token at db'' = Inr (if usable (cr_id c) at db'' then Some (principal_of a c) else None, db3)"
proof -
  note eff = issue_account_effect[OF issue]
  have tok: "token_credential_id token = Some (cr_id c)"
    using token_credential_id_bearer assms(3,4) eff by simp
  from security_run_loses[OF run] issued_stored[OF issue assms(2)] obtain c' a' where
    c': "credentials_get (cr_id c) db'' = Some c'" "credential_loses c c'"
    and a': "service_accounts_get (sv_id a) db'' = Some a'" "account_loses a a'"
    by (metis loses_def)
  have acc: "cr_account_id c' = sv_id a" "cr_token_digest c' = token_digest hex token" "cr_id c' = cr_id c"
    using c'(2) eff by (simp_all add: credential_loses_def)
  show ?thesis
  proof (cases "usable (cr_id c) at db''")
    case True
    then have "cr_is_active c' at" "sv_enabled a'" using c'(1) a'(1) acc(1) by (simp_all add: usable_def)
    moreover have "principal_of a' c' = principal_of a c" using a'(2) acc(3) by (simp add: principal_of_def account_loses_def)
    moreover obtain db3 where "credentials_mark_used (cr_id c') at db'' = Inr ((), db3)"
      by (simp add: credentials_mark_used_def)
    ultimately show ?thesis using True tok c'(1) a'(1) acc by (auto simp: authenticate_Inr)
  next
    case False
    then show ?thesis using authenticate_unusable[OF tok False] by simp
  qed
qed

text \<open>What has become unusable stays so.\<close>

lemma unusable_stays:
  assumes "security_step\<^sup>*\<^sup>* db db'" "credentials_get i db = Some c" "service_accounts_get (cr_account_id c) db = Some a"
    "cr_revoked_at c \<noteq> None \<or> \<not> sv_enabled a \<or> opt_less (cr_expires_at c) (\<lambda>t. t \<le> at)"
  shows "\<not> usable i at db'"
proof -
  from security_run_loses[OF assms(1)] assms(2,3) obtain c' a' where
    "credentials_get i db' = Some c'" "credential_loses c c'"
    "service_accounts_get (cr_account_id c) db' = Some a'" "account_loses a a'" by (metis loses_def)
  then show ?thesis
    using assms(4) by (auto simp: usable_def credential_loses_def account_loses_def cr_is_active_def opt_less_def
        split: option.splits)
qed

section \<open>Authorization\<close>

lemma allows_Some:
  "allows p permission (Some i) \<longleftrightarrow> (permission \<in> ap_permissions p \<or> ProjectAdmin \<in> ap_permissions p)
     \<and> (ap_all_projects p \<or> i \<in> ap_project_ids p)"
  by (auto simp: allows_def)

lemma allows_None:
  "allows p permission None \<longleftrightarrow> (permission \<in> ap_permissions p \<or> ProjectAdmin \<in> ap_permissions p) \<and> ap_all_projects p"
  by (auto simp: allows_def)

lemma resolve_project_id_same: "resolve_project_id kind k db = Inr (r, db') \<Longrightarrow> db' = db"
  by (auto simp: resolve_project_id_def split: if_splits)

lemma authorize_request_True:
  assumes "authorize_request meth path p db = Inr (True, db')"
  shows "db' = db \<and> (case resource_path path of None \<Rightarrow> allows p (required_permission meth path) None
    | Some (kind, i) \<Rightarrow> (\<exists>k r. uuid_of_str i = Inr k \<and> resolve_project_id kind k db = Inr (r, db)
        \<and> (case r of None \<Rightarrow> True | Some pid \<Rightarrow> allows p (required_permission meth path) (Some pid))))"
proof (cases "resource_path path")
  case None
  then show ?thesis using assms by (simp add: authorize_request_def)
next
  case (Some res)
  obtain kind i where res: "res = (kind, i)" by fastforce
  with Some assms obtain k r db1 where k: "uuid_of_str i = Inr k" "resolve_project_id kind k db = Inr (r, db1)"
    and fin: "(case r of None \<Rightarrow> sreturn True | Some pid \<Rightarrow> sreturn (allows p (required_permission meth path) (Some pid))) db1
      = Inr (True, db')"
    by (auto simp: authorize_request_def)
  have "db1 = db" using resolve_project_id_same k(2) .
  with Some res k fin show ?thesis by (auto split: option.splits)
qed

text \<open>What a passed request proves about its bearer.\<close>

lemma bearer_security_passed:
  assumes "bearer_security hex meth path header now db = (Inr (Passed (Some p)), db')"
  shows "\<exists>token c a. token_credential_id token = Some (cr_id c) \<and> credentials_get (cr_id c) db = Some c
      \<and> cr_is_active c now \<and> cr_token_digest c = token_digest hex token
      \<and> service_accounts_get (cr_account_id c) db = Some a \<and> sv_enabled a \<and> p = principal_of a c"
    and "authorize_request meth path p db' = Inr (True, db')"
proof -
  have v1: "starts_with ''/v1'' path" using assms by (auto simp: bearer_security_def split: if_splits)
  then obtain db1 reason where a: "authenticate_request hex header now db = Inr ((Some p, reason), db1)"
    and z: "authorize_request meth path p db1 = Inr (True, db')"
    using assms by (auto simp: bearer_security_def transact_def split: sum.splits prod.splits option.splits if_splits)
  from authorize_request_True[OF z] z show "authorize_request meth path p db' = Inr (True, db')" by simp
  from a obtain token where t: "authenticate hex token now db = Inr (Some p, db1)"
    by (auto simp: authenticate_request_def Let_def split: prod.splits if_splits option.splits)
  then obtain i c acc where "token_credential_id token = Some i" "credentials_get i db = Some c" "cr_is_active c now"
    "cr_token_digest c = token_digest hex token" "service_accounts_get (cr_account_id c) db = Some acc" "sv_enabled acc"
    "p = principal_of acc c" by (auto simp: authenticate_Inr)
  moreover have "cr_id c = i" using calculation(2) by (auto simp: credentials_get_def dest: row_get_Some)
  ultimately show "\<exists>token c a. token_credential_id token = Some (cr_id c) \<and> credentials_get (cr_id c) db = Some c
      \<and> cr_is_active c now \<and> cr_token_digest c = token_digest hex token
      \<and> service_accounts_get (cr_account_id c) db = Some a \<and> sv_enabled a \<and> p = principal_of a c"
    by blast
qed

end
