(* ===== verification/Credential_Listing.thy ===== *)
theory Credential_Listing
  imports Security_Correctness
begin

text \<open>
  The paged listing of credential readiness (\<open>list_credential_readiness\<close>) is a scan of the matching
  accounts in the order of their keys: every page starts where the one before ended, and an entry is
  what \<open>get_credential_readiness\<close> returns for the account.
\<close>

section \<open>Sorting\<close>

lemma sort_key_const_fst:
  assumes "\<And>x. x \<in> set xs \<Longrightarrow> f x = k"
  shows "sort_key (\<lambda>x. (f x, g x)) xs = sort_key g xs"
  using assms
proof (induction xs)
  case (Cons x xs)
  have "insort_key (\<lambda>x. (f x, g x)) x ys = insort_key g x ys" if "\<forall>y \<in> set ys. f y = k" "f x = k" for ys
    using that by (induction ys) auto
  from this[of "sort_key g xs"] Cons show ?case by simp
qed simp

text \<open>In a list sorted by distinct keys, what is greater than the last element of a prefix is the rest.\<close>

lemma filter_after_prefix:
  assumes "sorted (map f xs)" "distinct (map f xs)" "0 < n" "n \<le> length xs"
  shows "filter (\<lambda>x. f (last (take n xs)) < f x) xs = drop n xs"
proof -
  let ?m = "f (last (take n xs))"
  have s: "sorted_wrt (<) (map f xs)" using assms(1,2) by (simp add: strict_sorted_iff)
  have m: "?m = map f xs ! (n - 1)" 
  proof -
    have "take n xs \<noteq> []" using assms(3,4) by auto
    then show ?thesis using assms(3,4) by (simp add: last_conv_nth min_absorb2)
  qed
  have "\<not> ?m < f x" if x: "x \<in> set (take n xs)" for x
  proof -
    obtain i where i: "i < n" "x = xs ! i" using x assms(4) by (auto simp: in_set_conv_nth)
    then have "map f xs ! i \<le> map f xs ! (n - 1)" using assms by (intro sorted_nth_mono) auto
    then show ?thesis using i assms(4) m by (simp add: not_less)
  qed
  moreover have "?m < f x" if x: "x \<in> set (drop n xs)" for x
  proof -
    obtain i where i: "n \<le> i" "i < length xs" "x = xs ! i" 
      using x assms(4) by (auto simp: in_set_conv_nth) (metis add.commute le_add1 less_diff_conv nth_drop)
    then have "map f xs ! (n - 1) < map f xs ! i" using s assms(3) by (intro sorted_wrt_nth_less[OF s]) auto
    then show ?thesis using i m by simp
  qed
  ultimately have "filter (\<lambda>x. ?m < f x) (take n xs @ drop n xs) = drop n xs"
    by (simp only: filter_append) (simp add: filter_empty_conv filter_id_conv)
  then show ?thesis by simp
qed

section \<open>Pages\<close>

text \<open>All matching accounts after a cursor.\<close>

definition matching_accounts :: "string option \<Rightarrow> string option \<Rightarrow> db \<Rightarrow> service_account list" where
  "matching_accounts key_prefix cursor db = sort_key sv_key (filter (\<lambda>a. opt_all (\<lambda>p. like_prefix p (sv_key a)) key_prefix
     \<and> opt_all (\<lambda>k. k < sv_key a) cursor) (service_accounts db))"

lemma page_take: "service_accounts_list None key_prefix cursor n db = take n (matching_accounts key_prefix cursor db)"
  by (simp add: service_accounts_list_def matching_accounts_def)

lemma matching_sorted:
  assumes "distinct (map sv_key (service_accounts db))"
  shows "sorted (map sv_key (matching_accounts key_prefix cursor db))"
    "distinct (map sv_key (matching_accounts key_prefix cursor db))"
proof -
  show "sorted (map sv_key (matching_accounts key_prefix cursor db))" by (simp add: matching_accounts_def)
  show "distinct (map sv_key (matching_accounts key_prefix cursor db))"
    using assms by (auto simp: matching_accounts_def distinct_map inj_on_def)
qed

lemma next_page:
  assumes "distinct (map sv_key (service_accounts db))" "0 < n" "n \<le> length (matching_accounts key_prefix cursor db)"
  shows "matching_accounts key_prefix (Some (sv_key (last (take n (matching_accounts key_prefix cursor db))))) db
    = drop n (matching_accounts key_prefix cursor db)"
proof -
  let ?M = "matching_accounts key_prefix cursor db"
  let ?l = "last (take n ?M)"
  have "?l \<in> set ?M" using assms(2,3) by (metis in_set_takeD last_in_set length_greater_0_conv less_le_trans take_eq_Nil nat_less_le)
  then have l: "opt_all (\<lambda>k. k < sv_key ?l) cursor" by (auto simp: matching_accounts_def)
  have "matching_accounts key_prefix (Some (sv_key ?l)) db = filter (\<lambda>a. sv_key ?l < sv_key a) ?M"
    using l by (cases cursor) (auto simp: matching_accounts_def filter_sort intro!: arg_cong[where f = "sort_key sv_key"] filter_cong)
  also have "\<dots> = drop n ?M" using filter_after_prefix[OF matching_sorted[OF assms(1)] assms(2,3)] .
  finally show ?thesis .
qed

section \<open>Entries\<close>

text \<open>The entry of an account does not depend on the page it is on.\<close>

definition readiness_entry :: "db \<Rightarrow> time \<Rightarrow> int \<Rightarrow> service_account \<Rightarrow> credential_readiness" where
  "readiness_entry db checked_at warning_seconds a =
     credential_readiness_of a (credentials_list_for_account (sv_id a) db) checked_at warning_seconds"

lemma readiness_of_page_entry:
  assumes "a \<in> set accounts"
  shows "readiness_of_page db accounts checked_at w a = readiness_entry db checked_at w a"
proof -
  have "filter (\<lambda>c. cr_account_id c = sv_id a) (credentials_list_for_accounts (map sv_id accounts) db)
      = sort_key (\<lambda>c. (cr_account_id c, - cr_created_at c, cr_id c))
          (filter (\<lambda>c. cr_account_id c = sv_id a) (x_credentials (t_ops db)))"
    using assms by (auto simp: credentials_list_for_accounts_def filter_sort intro!: arg_cong[where f = "sort_key _"] filter_cong)
  also have "\<dots> = credentials_list_for_account (sv_id a) db"
    unfolding credentials_list_for_account_def by (rule sort_key_const_fst[where k = "sv_id a"]) simp
  finally show ?thesis by (simp add: readiness_of_page_def readiness_entry_def)
qed

definition shown :: "bool \<Rightarrow> credential_readiness \<Rightarrow> bool" where
  "shown issues_only r \<longleftrightarrow> \<not> issues_only \<or> cn_status r \<noteq> CredHealthy"

lemma collect_readiness_take:
  assumes "length results < limit"
  shows "collect_readiness ready issues_only limit accounts results =
    results @ take (limit - length results) (filter (shown issues_only) (map ready accounts))"
  using assms
proof (induction accounts arbitrary: results)
  case (Cons a accounts)
  show ?case
  proof (cases "shown issues_only (ready a)")
    case True
    have "take (limit - length results) (ready a # ys) = ready a # take (limit - Suc (length results)) ys" for ys
      using Cons.prems by (metis Suc_diff_Suc take_Suc_Cons)
    with True Cons show ?thesis by (auto simp: shown_def Let_def)
  next
    case False
    with Cons show ?thesis by (auto simp: shown_def Let_def)
  qed
qed simp

lemma readiness_pages_take:
  assumes "distinct (map sv_key (service_accounts db))" "length results \<le> limit"
  shows "readiness_pages db checked_at w issues_only key_prefix limit cursor results =
    results @ take (limit - length results) (filter (shown issues_only)
      (map (readiness_entry db checked_at w) (matching_accounts key_prefix cursor db)))"
  using assms
proof (induction db checked_at w issues_only key_prefix limit cursor results rule: readiness_pages.induct)
  case (1 db checked_at w issues_only key_prefix limit cursor results)
  let ?M = "matching_accounts key_prefix cursor db" and ?n = readiness_page_size
  let ?keep = "\<lambda>xs. filter (shown issues_only) (map (readiness_entry db checked_at w) xs)"
  define accounts where "accounts = take ?n ?M"
  define results' where "results' = collect_readiness (readiness_of_page db accounts checked_at w) issues_only limit accounts results"
  have unfold: "readiness_pages db checked_at w issues_only key_prefix limit cursor results =
     (if limit \<le> length results then results else if accounts = [] then results
      else if length results' = limit then results' else if length accounts < ?n then results'
      else readiness_pages db checked_at w issues_only key_prefix limit (Some (sv_key (last accounts))) results')"
    by (subst readiness_pages.simps) (simp add: Let_def accounts_def results'_def page_take)
  consider "limit \<le> length results" | "length results < limit" "accounts = []" | "length results < limit" "accounts \<noteq> []"
    by linarith
  then show ?case
  proof cases
    case 1
    then show ?thesis using unfold by simp
  next
    case 2
    then have "?M = []" by (simp add: accounts_def readiness_page_size_def)
    then show ?thesis using unfold 2 by simp
  next
    case 3
    have entries: "map (readiness_of_page db accounts checked_at w) accounts = map (readiness_entry db checked_at w) accounts"
      by (simp add: readiness_of_page_entry)
    have results': "results' = results @ take (limit - length results) (?keep accounts)"
      unfolding results'_def collect_readiness_take[OF 3(1)] entries ..
    have split: "?keep ?M = ?keep accounts @ ?keep (drop ?n ?M)"
      unfolding accounts_def by (metis append_take_drop_id filter_append map_append)
    show ?thesis
    proof (cases "length results' = limit")
      case True
      then have "limit - length results \<le> length (?keep accounts)" using results' 3(1) by auto
      then show ?thesis using True unfold 3 results' split by simp
    next
      case False
      then have le: "length (?keep accounts) \<le> limit - length results" using results' 3(1) by auto
      then have r': "results' = results @ ?keep accounts" using results' by simp
      show ?thesis
      proof (cases "length accounts < ?n")
        case True
        then have "drop ?n ?M = []" by (auto simp: accounts_def)
        then show ?thesis using True False unfold 3 r' split le by simp
      next
        case long: False
        have n: "0 < ?n" "?n \<le> length ?M" using long by (auto simp: accounts_def readiness_page_size_def)
        have "length results' \<le> limit" using r' le 3(1) by simp
        moreover have "\<not> limit \<le> length results" using 3 by simp
        ultimately have "readiness_pages db checked_at w issues_only key_prefix limit (Some (sv_key (last accounts))) results' =
            results' @ take (limit - length results') (?keep (matching_accounts key_prefix (Some (sv_key (last accounts))) db))"
          using "1.IH"[of accounts results'] 3(2) False long "1.prems"(1)
          by (simp add: page_take accounts_def[symmetric] results'_def[symmetric])
        also have "matching_accounts key_prefix (Some (sv_key (last accounts))) db = drop ?n ?M"
          unfolding accounts_def by (rule next_page[OF "1.prems"(1) n])
        finally show ?thesis using unfold 3 False long r' split le by simp
      qed
    qed
  qed
qed

end
