(* ===== verification/Operations_Theorems.thy ===== *)
theory Operations_Theorems
  imports Delivery_Outbox External_Correctness Credential_Listing Budget_Ledger
begin

text \<open>
  Properties of the services around the engine: leased work in the database, the table of external
  executions, the outbox, tokens and their permissions. Each holds after any sequence of calls of the
  component, with calls of other services between them.
\<close>

section \<open>An example\<close>

text \<open>A finished external execution with a workspace, for the run of \<open>ex_db\<close>.\<close>

definition ex_external :: external_execution where
  "ex_external = \<lparr>xe_execution_id = 5, xe_run_id = 3, xe_node_key = ''build'', xe_executor_key = ''default'',
     xe_idempotency_key = ''5:build:1'', xe_external_session_key = ''s'', xe_external_agent_id = None,
     xe_workspace_path = Some ''/w'', xe_workspace_repository_path = Some ''/r'', xe_workspace_branch = Some ''work'',
     xe_workspace_base_ref = Some ''main'', xe_workspace_scope = Some ''host'', xe_workspace_released_at = None,
     xe_id = 7, xe_external_run_id = Some ''1'', xe_status = XSucceeded, xe_terminal_result = None,
     xe_failure_reason = None, xe_created_at = 0, xe_updated_at = 0, xe_completed_at = Some 0\<rparr>"

definition ex_ops :: db where
  "ex_ops = ex_db\<lparr>t_ops := empty_ops\<lparr>x_external := [ex_external]\<rparr>\<rparr>"

lemma ex_ops_empty [simp]: "publications ex_ops = []" "deliveries ex_ops = []" "operations ex_ops = []"
  by (simp_all add: ex_ops_def empty_ops_def)

lemma result_caseE:
  assumes "case x of Inl e \<Rightarrow> False | Inr (a, b) \<Rightarrow> P a b"
  obtains a b where "x = Inr (a, b)" "P a b"
  using assms by (auto split: sum.splits)

section \<open>Publications\<close>

text \<open>C8. \<open>ScmPublicationService\<close> implements the contract of leased work: after any sequence of its
  calls, with calls of other services between them, identifiers are unique, every row is well formed,
  and the state of every publication is the end of a trace of the contract whose events are the
  successful calls that named it, in their order.\<close>

theorem publications_refine_contract:
  assumes "call_run publication_call db log db'" "publications db = []"
  shows "distinct (map sp_id (publications db')) \<and> (\<forall>p \<in> set (publications db'). sp_ok p
     \<and> work_trace Waiting (events_of log (sp_id p)) (sp_work p))"
  using publication_service.run_inv[OF assms] by (auto simp: table_inv_def traced_def list_all_iff)

text \<open>A publication is requested, claimed and published.\<close>

definition ex_published :: "((scm_publication option \<times> scm_publication) \<times> db) result" where
  "ex_published =
     sbind (publication_request 7 ''github'' ''main'' ''Title'' ''Body'' ''k'' ''me'' 70) (\<lambda>_.
     sbind (publication_claim_next ''w'' ''github'' ''host'' 300 80) (\<lambda>c.
     sbind (publication_succeed (sp_id (the c)) (the (sp_lease_token (the c))) [] 90) (\<lambda>q.
     sreturn (c, q)))) ex_ops"

lemma ex_published_result:
  "case ex_published of Inl e \<Rightarrow> False | Inr ((c, q), db) \<Rightarrow> c \<noteq> None \<and> sp_lease_token (the c) \<noteq> None
     \<and> publications db = [q] \<and> sp_status q = SSucceeded"
  by code_simp

lemma ex_published_run:
  obtains i tok e q db where "call_run publication_call ex_ops [(i, Claim tok 80 e), (i, Succeed tok)] db"
    "publications db = [q]" "sp_status q = SSucceeded"
proof -
  from ex_published_result obtain c q db where r: "ex_published = Inr ((c, q), db)" "c \<noteq> None"
    "sp_lease_token (the c) \<noteq> None" "publications db = [q]" "sp_status q = SSucceeded"
    by (auto split: sum.splits prod.splits)
  then obtain p tok where c: "c = Some p" "sp_lease_token p = Some tok" by auto
  from r(1) c obtain x db1 db2 where s: "publication_request 7 ''github'' ''main'' ''Title'' ''Body'' ''k'' ''me'' 70 ex_ops = Inr (x, db1)"
    "publication_claim_next ''w'' ''github'' ''host'' 300 80 db1 = Inr (Some p, db2)"
    "publication_succeed (sp_id p) tok [] 90 db2 = Inr (q, db)"
    unfolding ex_published_def by auto
  have "call_run publication_call ex_ops [] db1"
    using call_run.next_call[OF call_run.start, of publication_call ex_ops None] publication_call.requested[OF s(1)] by simp
  from call_run.next_call[of publication_call, OF this publication_call.claimed[OF s(2) c(2)]]
  have "call_run publication_call ex_ops [(sp_id p, Claim tok 80 (80 + seconds 300))] db2" by simp
  from call_run.next_call[of publication_call, OF this publication_call.succeeded[OF s(3)]]
  show thesis using that r(4,5) by simp
qed

lemma publications_refine_contract_witness:
  "\<exists>log db q. call_run publication_call ex_ops log db \<and> publications ex_ops = [] \<and> publications db = [q]
     \<and> length log = 2 \<and> work_trace Waiting (events_of log (sp_id q)) (sp_work q)"
proof -
  from ex_published_run obtain i tok e q db where
    run: "call_run publication_call ex_ops [(i, Claim tok 80 e), (i, Succeed tok)] db" "publications db = [q]" .
  from publications_refine_contract[OF run(1) ex_ops_empty(1)] run show ?thesis
    by (intro exI[of _ "[(i, Claim tok 80 e), (i, Succeed tok)]"] exI[of _ db] exI[of _ q]) simp
qed

section \<open>Workspace operations\<close>

lemma operation_claim_external:
  assumes "operation_claim_next worker scope lease now db = Inr (Some p, db')"
  obtains x where "external_get (wo_external_execution_id p) db' = Some x"
proof -
  from assms obtain x db1 where x: "external_get (wo_external_execution_id p) db1 = Some x"
    and event: "operation_event p x ''workspace_operation.claimed'' now db1 = Inr ((), db')"
    unfolding operation_claim_next_def external_required_id_def by (auto split: option.splits)
  have "external_get (wo_external_execution_id p) db' = Some x"
    using x event_ops(2)[OF event] by (simp add: external_get_def row_get_def)
  then show thesis by (rule that)
qed

lemma operation_event_returns: "\<exists>db'. operation_event p x t now db = Inr ((), db')"
  by (simp add: operation_event_def emit_def events_append_def sbind_Inr)

text \<open>What a claim leaves: the row it returns, whose success the service then accepts.\<close>

lemma claimed_operation_row:
  assumes "table_inv wo_id wo_ok n (operations db1)" "operation_claim_next worker scope lease now db1 = Inr (Some p, db2)"
  obtains p0 where "wo_ok p0" "wo_claimable p0 now" "wo_claim p0 worker lease (t_next db1) now = Inr p"
    "wo_lease_token p = Some (t_next db1)" "operations_get (wo_id p) db2 = Some p"
    "\<And>q. q \<in> set (operations db2) \<Longrightarrow> wo_id q = wo_id p \<Longrightarrow> q = p"
proof -
  from operation_claim_effect[OF assms(2)] obtain p0 where p0: "p0 \<in> set (operations db1)" "wo_claimable p0 now"
    "wo_claim p0 worker lease (t_next db1) now = Inr p" "operations db2 = table_put wo_id (operations db1) p"
    "wo_id p = wo_id p0" "wo_lease_token p = Some (t_next db1)" .
  have "distinct (map wo_id (operations db2))" using assms(1) p0(4) by (simp add: table_inv_def table_put_ids)
  moreover have "p \<in> set (operations db2)" using p0(1,4,5) by (force simp: table_put_def)
  ultimately have "operations_get (wo_id p) db2 = Some p" by (simp add: operations_get_def row_get_def table_get_member)
  moreover have "q = p" if "q \<in> set (operations db2)" "wo_id q = wo_id p" for q
    using that p0(4) by (auto dest: table_put_member)
  ultimately show thesis using that p0 table_inv_ok[OF assms(1) p0(1)] by blast
qed

lemma stored_operation_succeeds:
  assumes "operations_get (wo_id p) db = Some p" "external_get (wo_external_execution_id p) db = Some x"
    "wo_succeed p tok res at = Inr q"
  shows "\<exists>db'. operation_succeed (wo_id p) tok res at db = Inr (q, db')"
proof -
  have same: "wo_id q = wo_id p" "wo_external_execution_id q = wo_external_execution_id p"
    using assms(3) by (auto simp: wo_succeed_Inr)
  let ?db = "db\<lparr>t_ops := x_operations_update (\<lambda>rs. table_put wo_id rs q) (t_ops db)\<rparr>"
  have "operations_save q db = Inr ((), ?db)"
    unfolding operations_save_def row_save_Inr using assms(1) same by (simp add: operations_get_def)
  moreover have "external_required_id (wo_external_execution_id q) ?db = Inr (x, ?db)"
    using assms(2) same by (simp add: external_required_id_def external_get_def row_get_def)
  ultimately show ?thesis
    using assms(1,3) operation_event_returns[of q x _ at ?db]
    unfolding operation_succeed_def operation_finish_def by (auto simp: sbind_Inr)
qed

text \<open>C31. A claimed workspace operation belongs to its worker: the worker can report its success with
  the token of the claim, and until the lease expires no other claim gets the operation.\<close>

theorem claimed_operation_exclusive:
  assumes "call_run operation_call db log db1" "operations db = []"
    "operation_claim_next worker scope lease now db1 = Inr (Some p, db2)"
  shows "\<exists>tok. wo_lease_token p = Some tok
     \<and> (\<exists>q db3. operation_succeed (wo_id p) tok res at db2 = Inr (q, db3) \<and> wo_status q = WOSucceeded)
     \<and> (at < now + seconds lease \<longrightarrow> operation_claim_next worker' scope' lease' at db2 = Inr (Some r, db4)
         \<longrightarrow> wo_id r \<noteq> wo_id p)"
proof -
  from operation_service.run_inv[OF assms(1,2)] have inv: "table_inv wo_id wo_ok (t_next db1) (operations db1)" ..
  from claimed_operation_row[OF inv assms(3)] obtain p0 where p0: "wo_ok p0" "wo_claimable p0 now"
    "wo_claim p0 worker lease (t_next db1) now = Inr p" and tok: "wo_lease_token p = Some (t_next db1)"
    and row: "operations_get (wo_id p) db2 = Some p"
    and unique: "\<And>q. q \<in> set (operations db2) \<Longrightarrow> wo_id q = wo_id p \<Longrightarrow> q = p" by metis
  from operation.holder_finishes(1)[OF p0] obtain q where q: "wo_succeed p (t_next db1) res at = Inr q" by blast
  obtain x where "external_get (wo_external_execution_id p) db2 = Some x" using operation_claim_external[OF assms(3)] .
  from stored_operation_succeeds[OF row this q] have "\<exists>db3. operation_succeed (wo_id p) (t_next db1) res at db2 = Inr (q, db3)" .
  moreover have "wo_status q = WOSucceeded" using q by (auto simp: wo_succeed_Inr)
  moreover have "wo_id r \<noteq> wo_id p" if early: "at < now + seconds lease"
    and again: "operation_claim_next worker' scope' lease' at db2 = Inr (Some r, db4)"
  proof
    assume same: "wo_id r = wo_id p"
    from operation_claim_effect[OF again] obtain r0 where "r0 \<in> set (operations db2)" "wo_claimable r0 at" "wo_id r = wo_id r0" .
    then have "wo_claimable p at" using unique same by metis
    then show False using operation.holder_finishes(3)[OF p0 early] by simp
  qed
  ultimately show ?thesis using tok by blast
qed

definition ex_operation :: "((workspace_operation option \<times> workspace_operation option) \<times> db) result" where
  "ex_operation =
     sbind (operation_request 7 WCleanup ''main'' ''k'' ''me'' (Some (uuid_str 7)) 70) (\<lambda>_.
     sbind (operation_claim_next ''w'' ''host'' 300 80) (\<lambda>p.
     sbind (operation_claim_next ''v'' ''host'' 300 (90 + seconds 300)) (\<lambda>r.
     sreturn (p, r)))) ex_ops"

lemma ex_operation_result:
  "case ex_operation of Inl e \<Rightarrow> False | Inr ((p, r), db) \<Rightarrow> p \<noteq> None \<and> r \<noteq> None \<and> wo_id (the r) = wo_id (the p)"
  by code_simp

lemma claimed_operation_exclusive_witness:
  "\<exists>db1 db2 db3 p q tok. call_run operation_call ex_ops [] db1 \<and> operation_claim_next ''w'' ''host'' 300 80 db1 = Inr (Some p, db2)
     \<and> wo_lease_token p = Some tok \<and> operation_succeed (wo_id p) tok [] 90 db2 = Inr (q, db3) \<and> wo_status q = WOSucceeded"
proof -
  from ex_operation_result obtain p r db where r: "ex_operation = Inr ((Some p, r), db)"
    by (auto split: sum.splits prod.splits)
  then obtain x db1 db2 where s: "operation_request 7 WCleanup ''main'' ''k'' ''me'' (Some (uuid_str 7)) 70 ex_ops = Inr (x, db1)"
    "operation_claim_next ''w'' ''host'' 300 80 db1 = Inr (Some p, db2)"
    unfolding ex_operation_def by auto
  have run: "call_run operation_call ex_ops [] db1"
    using call_run.next_call[OF call_run.start, of operation_call ex_ops None] operation_call.requested[OF s(1)] by simp
  from claimed_operation_exclusive[OF run ex_ops_empty(3) s(2), of "[]" 90] run s(2) show ?thesis by metis
qed

section \<open>Notifications\<close>

text \<open>A notification delivery is finished only by the worker that claimed it last: before a success
  or a failure with a token the history of the delivery holds a claim with that token and no later
  claim, and no token was ever given to two claims.\<close>

theorem delivery_finished_by_last_claimant:
  assumes "call_run delivery_call db log db1" "deliveries db = []"
    "delivery_succeed i tok res now db1 = Inr (p, db2) \<or> delivery_fail i tok f now db1 = Inr (p, db2)"
  shows "(\<exists>us at e vs. events_of log i = us @ Claim tok at e # vs \<and> list_all (\<lambda>ev. \<not> is_claim ev) vs)
     \<and> distinct (claim_tokens log)"
proof -
  from assms(3) obtain ev where "delivery_call db1 (Some (i, ev)) db2"
    "ev = Succeed tok \<or> ev = Fail tok (nf_next_attempt_at f)"
    by (blast intro: delivery_call.succeeded delivery_call.failed)
  from delivery_service.fenced[OF assms(1,2) this] show ?thesis by blast
qed


text \<open>A subscription, and an alert that is enqueued twice.\<close>

definition ex_event :: domain_event where
  "ex_event = \<lparr>ev_aggregate_type = ''project'', ev_aggregate_id = 1, ev_event_type = notification_event_value ReadinessAlerted,
     ev_payload = [(''alert_id'', JStr (uuid_str 9))], ev_id = 8, ev_sequence = None, ev_occurred_at = 60\<rparr>"

definition ex_subscribed :: "((notification_subscription \<times> bool) \<times> db) result" where
  "ex_subscribed = create_subscription 1 ''webhook'' ''ref'' [ReadinessAlerted] ''me'' 50 ex_ops"

definition ex_delivered :: "db \<Rightarrow> ((nat \<times> nat \<times> notification_delivery option \<times> notification_delivery) \<times> db) result" where
  "ex_delivered = sbind (enqueue_notification_deliveries ex_event 60) (\<lambda>n.
     sbind (enqueue_notification_deliveries ex_event 61) (\<lambda>m.
     sbind (delivery_claim_next ''w'' ''webhook'' 300 80) (\<lambda>c.
     sbind (delivery_succeed (nl_id (the c)) (the (nl_lease_token (the c))) [] 90) (\<lambda>q. sreturn (n, m, c, q)))))"

lemma ex_delivered_result:
  "case ex_subscribed of Inl e \<Rightarrow> False | Inr ((b, old), db) \<Rightarrow> \<not> old \<and> deliveries db = [] \<and> nb_accepts b ReadinessAlerted
     \<and> subscriptions_list_by_project 1 (Some True) 500 db = [b]
     \<and> (case ex_delivered db of Inl e \<Rightarrow> False | Inr ((n, m, c, q), db') \<Rightarrow> n = 1 \<and> m = 0 \<and> c \<noteq> None
          \<and> nl_lease_token (the c) \<noteq> None \<and> deliveries db' = [q] \<and> nl_status q = NLSucceeded)"
  by code_simp

text \<open>The same example as a run of the calls.\<close>

lemma ex_delivered_run:
  obtains db b db1 db2 and p :: notification_delivery and tok q db3 db4 where "deliveries db = []"
    "subscriptions_list_by_project 1 (Some True) 500 db = [b]" "nb_accepts b ReadinessAlerted"
    "enqueue_notification_deliveries ex_event 60 db = Inr (1, db1)" "enqueue_notification_deliveries ex_event 61 db1 = Inr (0, db2)"
    "call_run delivery_call db [(nl_id p, Claim tok 80 (80 + seconds 300))] db3"
    "delivery_succeed (nl_id p) tok [] 90 db3 = Inr (q, db4)"
proof -
  from ex_delivered_result obtain r db where "ex_subscribed = Inr (r, db)" by (rule result_caseE)
  moreover obtain b old where "r = (b, old)" by fastforce
  ultimately have sub: "ex_subscribed = Inr ((b, old), db)" by simp
  have z: "deliveries db = []" "subscriptions_list_by_project 1 (Some True) 500 db = [b]" "nb_accepts b ReadinessAlerted"
    "case ex_delivered db of Inl e \<Rightarrow> False | Inr ((n, m, c, q), db') \<Rightarrow> n = 1 \<and> m = 0 \<and> c \<noteq> None
          \<and> nl_lease_token (the c) \<noteq> None \<and> deliveries db' = [q] \<and> nl_status q = NLSucceeded"
    using ex_delivered_result unfolding sub by (simp_all only: sum.case prod.case)
  from z(4) obtain n m c q db4 where s: "ex_delivered db = Inr ((n, m, c, q), db4)" "n = 1" "m = 0" "c \<noteq> None"
    "nl_lease_token (the c) \<noteq> None" by (auto split: sum.splits prod.splits)
  then obtain p tok where c: "c = Some p" "nl_lease_token p = Some tok" by auto
  from s(1-3) c obtain db1 db2 db3 where d: "enqueue_notification_deliveries ex_event 60 db = Inr (1, db1)"
    "enqueue_notification_deliveries ex_event 61 db1 = Inr (0, db2)"
    "delivery_claim_next ''w'' ''webhook'' 300 80 db2 = Inr (Some p, db3)"
    "delivery_succeed (nl_id p) tok [] 90 db3 = Inr (q, db4)"
    unfolding ex_delivered_def by auto
  from enqueue_run[OF d(1)] enqueue_run[OF d(2)] have "call_run delivery_call db [] db2"
    using call_run_append[of delivery_call db1 "[]" db2 db "[]"] by simp
  from call_run.next_call[of delivery_call, OF this delivery_call.claimed[OF d(3) c(2)]]
  have "call_run delivery_call db [(nl_id p, Claim tok 80 (80 + seconds 300))] db3" by simp
  with that z(1-3) d show thesis by blast
qed

lemma delivery_finished_by_last_claimant_witness:
  "\<exists>db db1 db2 i tok q e. call_run delivery_call db [(i, Claim tok 80 e)] db1 \<and> deliveries db = []
     \<and> delivery_succeed i tok [] 90 db1 = Inr (q, db2) \<and> distinct (claim_tokens [(i, Claim tok 80 e)])"
proof -
  from ex_delivered_run obtain db tok q db3 db4 and p :: notification_delivery where s: "deliveries db = []"
    "call_run delivery_call db [(nl_id p, Claim tok 80 (80 + seconds 300))] db3"
    "delivery_succeed (nl_id p) tok [] 90 db3 = Inr (q, db4)" by metis
  from delivery_finished_by_last_claimant[OF s(2,1) disjI1[OF s(3)]] s show ?thesis by blast
qed


section \<open>External executions\<close>

text \<open>C30. In every database the calls of \<open>ExternalExecutionService\<close> reach, the rows are well formed, an
  idempotency key names one execution and two executions of one executor never share a run of its
  runtime; whatever is called later, the execution stays under its key, its remote run, a released
  workspace and the outcome of a finished execution never change.\<close>

theorem external_executions_settled:
  assumes "external_call\<^sup>*\<^sup>* db db1" "externals db = []" "external_call\<^sup>*\<^sup>* db1 db2"
  shows "external_table_ok (t_next db1) (externals db1)
     \<and> (\<forall>x \<in> set (externals db1). \<exists>y \<in> set (externals db2). external_later x y)"
proof -
  have "external_table_ok (t_next db) (externals db)" using assms(2) by (simp add: external_table_ok_def)
  from external_run_ok[OF assms(1) this] have ok: "external_table_ok (t_next db1) (externals db1)" ..
  with external_run_ok[OF assms(3) ok] show ?thesis by blast
qed

definition ex_session_calls :: "((external_execution \<times> external_execution) \<times> db) result" where
  "ex_session_calls =
     sbind (external_prepare ex_claim ''s'' None \<lparr>wb_path = Some ''/w'', wb_repository_path = None, wb_branch = Some ''b'',
       wb_base_ref = Some ''main'', wb_scope = Some ''host''\<rparr> 60) (\<lambda>_.
     sbind (external_accept ''5:build:1'' ''r1'' 61) (\<lambda>_.
     sbind (external_finish ''5:build:1'' XSucceeded (Some []) None 62) (\<lambda>x.
     sbind (external_release_workspace (xe_id x) 63) (\<lambda>y. sreturn (x, y))))) ex_db"

lemma ex_session_calls_result:
  "case ex_session_calls of Inl e \<Rightarrow> False | Inr ((x, y), db) \<Rightarrow> xe_is_terminal x \<and> externals db = [y]
     \<and> xe_workspace_released_at y = Some 63"
  by code_simp

lemma external_executions_settled_witness:
  "\<exists>db1 db2 x y. external_call\<^sup>*\<^sup>* ex_db db1 \<and> external_call db1 db2 \<and> externals ex_db = [] \<and> externals db2 = [y]
     \<and> xe_workspace_released_at y = Some 63 \<and> external_table_ok (t_next db1) (externals db1)"
proof -
  from ex_session_calls_result obtain x y db where r: "ex_session_calls = Inr ((x, y), db)" "externals db = [y]"
    "xe_workspace_released_at y = Some 63" by (auto split: sum.splits prod.splits)
  from r(1) obtain u db1 v db2 db3 where s: "external_prepare ex_claim ''s'' None \<lparr>wb_path = Some ''/w'', wb_repository_path = None, wb_branch = Some ''b'',
       wb_base_ref = Some ''main'', wb_scope = Some ''host''\<rparr> 60 ex_db = Inr (u, db1)"
    "external_accept ''5:build:1'' ''r1'' 61 db1 = Inr (v, db2)"
    "external_finish ''5:build:1'' XSucceeded (Some []) None 62 db2 = Inr (x, db3)"
    "external_release_workspace (xe_id x) 63 db3 = Inr (y, db)"
    unfolding ex_session_calls_def by auto
  have run: "external_call\<^sup>*\<^sup>* ex_db db3"
    using external_call.prepared[OF s(1)] external_call.accepted[OF s(2)] external_call.finished[OF s(3)]
    by (meson r_into_rtranclp rtranclp_trans)
  have empty: "externals ex_db = []" by (simp add: ex_db_def empty_ops_def)
  from external_executions_settled[OF run empty rtranclp.rtrancl_refl] run empty external_call.released[OF s(4)] r(2,3)
  show ?thesis by blast
qed

section \<open>Tokens\<close>

text \<open>C29. A token authenticates the account it was issued for, with exactly its permissions and projects, at
  every later moment at which its credential is neither revoked nor expired and its account is enabled,
  and at no other.\<close>

theorem issued_token_authenticates:
  assumes "issue_account hex secret key name perms projects all_projects expires now db = Inr ((a, c, token), db1)"
    "fresh_ids db" "secret \<noteq> []" "uuid_ok (cr_id c)" "security_step\<^sup>*\<^sup>* db1 db2"
  shows "\<exists>db3. authenticate hex token at db2 = Inr (if usable (cr_id c) at db2 then Some (principal_of a c) else None, db3)"
  using assms by (rule issued_token_result)

text \<open>An account for the project of \<open>ex_ops\<close>. The digest of the example tells the letter e from the other
  characters.\<close>

definition ex_hex :: "string \<Rightarrow> string" where
  "ex_hex s = take 64 (map (\<lambda>c. if c = CHR ''e'' then CHR ''1'' else CHR ''0'') s @ replicate 64 (CHR ''0''))"

definition ex_token :: "((service_account \<times> credential \<times> string) \<times> db) result" where
  "ex_token = issue_account ex_hex ''secret'' ''ci-bot'' ''CI'' {ProjectRead} {1} False None 50 ex_ops"

lemma ex_token_result:
  "case ex_token of Inl e \<Rightarrow> False | Inr ((a, c, token), db) \<Rightarrow> usable (cr_id c) 60 db \<and> cr_id c = 11
     \<and> distinct (map sv_key (service_accounts db)) \<and> length (service_accounts db) = 1
     \<and> (case revoke_credential (sv_id a) (cr_id c) None 70 db of Inl e \<Rightarrow> False | Inr (u, db2) \<Rightarrow> True)"
  by code_simp

lemma ex_token_issued:
  obtains a c token db where "issue_account ex_hex ''secret'' ''ci-bot'' ''CI'' {ProjectRead} {1} False None 50 ex_ops = Inr ((a, c, token), db)"
    "usable (cr_id c) 60 db" "uuid_ok (cr_id c)" "distinct (map sv_key (service_accounts db))" "length (service_accounts db) = 1"
    "\<exists>db2. revoke_credential (sv_id a) (cr_id c) None 70 db = Inr ((), db2)"
proof -
  from ex_token_result obtain r db where "ex_token = Inr (r, db)" by (rule result_caseE)
  moreover obtain a c token where "r = (a, c, token)" by (cases r)
  ultimately have r: "ex_token = Inr ((a, c, token), db)" by simp
  from ex_token_result[unfolded r] have "usable (cr_id c) 60 db" "cr_id c = 11" "distinct (map sv_key (service_accounts db))"
    "length (service_accounts db) = 1" "\<exists>db2. revoke_credential (sv_id a) (cr_id c) None 70 db = Inr ((), db2)"
    by (auto split: sum.splits prod.splits)
  with r that show thesis unfolding ex_token_def by (simp add: uuid_ok_def)
qed

lemma ex_ops_fresh: "fresh_ids ex_ops"
  by (simp add: fresh_ids_def ex_ops_def empty_ops_def)

lemma issued_token_authenticates_witness:
  "\<exists>a c token db db3. issue_account ex_hex ''secret'' ''ci-bot'' ''CI'' {ProjectRead} {1} False None 50 ex_ops = Inr ((a, c, token), db)
     \<and> authenticate ex_hex token 60 db = Inr (Some (principal_of a c), db3)"
proof -
  from ex_token_issued obtain a c token db where s:
    "issue_account ex_hex ''secret'' ''ci-bot'' ''CI'' {ProjectRead} {1} False None 50 ex_ops = Inr ((a, c, token), db)"
    "usable (cr_id c) 60 db" "uuid_ok (cr_id c)" .
  from issued_token_authenticates[OF s(1) ex_ops_fresh _ s(3) rtranclp.rtrancl_refl, of 60] s(1,2) show ?thesis by auto
qed

lemma revoked_credential:
  assumes "revoke_credential account cid actor now db = Inr ((), db')"
  shows "\<exists>c. credentials_get cid db' = Some c \<and> cr_account_id c = account \<and> cr_revoked_at c \<noteq> None"
proof -
  from assms obtain c where c: "credentials_get cid db = Some c" "cr_account_id c = account"
    and after: "if cr_revoked_at c = None then \<exists>db1. credentials_revoke cid now db = Inr ((), db1) \<and> t_ops db' = t_ops db1
      else db' = db"
    unfolding revoke_credential_def account_required_def credential_event_def
    by (auto dest!: emit_tables split: option.splits if_splits)
  have "cr_id c = cid" using c(1) by (auto simp: credentials_get_def dest: row_get_Some)
  with c after show ?thesis
    by (auto simp: credentials_revoke_def ops_modify_Inr credentials_get_def row_get_def table_get_map split: if_splits)
qed

lemma revoked_account:
  assumes "revoke_account account actor now db = Inr ((), db')"
  shows "\<exists>a. service_accounts_get account db' = Some a \<and> \<not> sv_enabled a"
proof -
  from assms obtain a where a: "service_accounts_get account db = Some a"
    and after: "if sv_enabled a then \<exists>db1. service_accounts_disable account db = Inr ((), db1) \<and> t_ops db' = t_ops db1
      else db' = db"
    unfolding revoke_account_def account_required_def by (auto dest!: emit_tables split: option.splits if_splits)
  have "sv_id a = account" using a by (auto simp: service_accounts_get_def dest: row_get_Some)
  with a after show ?thesis
    by (auto simp: service_accounts_disable_def ops_modify_Inr service_accounts_get_def row_get_def table_get_map
        split: if_splits)
qed

text \<open>C10. Once its credential or its account was revoked, a token never authenticates again.\<close>

theorem revoked_token_rejected:
  assumes issue: "issue_account hex secret key name perms projects all_projects expires now db = Inr ((a, c, token), db1)"
    and "fresh_ids db" "secret \<noteq> []" "uuid_ok (cr_id c)" and run: "security_step\<^sup>*\<^sup>* db1 db2"
    and revoke: "revoke_credential (sv_id a) (cr_id c) actor at db2 = Inr ((), db3) \<or> revoke_account (sv_id a) actor at db2 = Inr ((), db3)"
    and later: "security_step\<^sup>*\<^sup>* db3 db4"
  shows "authenticate hex token at' db4 = Inr (None, db4)"
proof -
  have "security_step db2 db3" using revoke by (auto intro: security_step.credential_revoked security_step.account_revoked)
  with run have "security_step\<^sup>*\<^sup>* db1 db3" by simp
  from security_run_loses[OF this] issued_stored[OF issue assms(2)] obtain c' a' where
    c': "credentials_get (cr_id c) db3 = Some c'" "credential_loses c c'"
    and a': "service_accounts_get (sv_id a) db3 = Some a'" by (metis loses_def)
  have acc: "cr_account_id c' = sv_id a" using c'(2) issue_account_effect[OF issue] by (simp add: credential_loses_def)
  have "cr_revoked_at c' \<noteq> None \<or> \<not> sv_enabled a'"
    using revoke revoked_credential revoked_account c'(1) a' by fastforce
  with unusable_stays[OF later c'(1), of a' at'] a' acc have "\<not> usable (cr_id c) at' db4" by auto
  moreover have "token_credential_id token = Some (cr_id c)"
    using token_credential_id_bearer assms(3,4) issue_account_effect[OF issue] by simp
  ultimately show ?thesis using authenticate_unusable by blast
qed

lemma revoked_token_rejected_witness:
  "\<exists>a c token db db2. issue_account ex_hex ''secret'' ''ci-bot'' ''CI'' {ProjectRead} {1} False None 50 ex_ops = Inr ((a, c, token), db)
     \<and> revoke_credential (sv_id a) (cr_id c) None 70 db = Inr ((), db2) \<and> authenticate ex_hex token 80 db2 = Inr (None, db2)"
proof -
  from ex_token_issued obtain a c token db db2 where s:
    "issue_account ex_hex ''secret'' ''ci-bot'' ''CI'' {ProjectRead} {1} False None 50 ex_ops = Inr ((a, c, token), db)"
    "uuid_ok (cr_id c)" "revoke_credential (sv_id a) (cr_id c) None 70 db = Inr ((), db2)" by metis
  from revoked_token_rejected[OF s(1) ex_ops_fresh _ s(2) rtranclp.rtrancl_refl disjI1[OF s(3)] rtranclp.rtrancl_refl, of 80]
    s(1,3) show ?thesis by auto
qed






section \<open>Listings\<close>

text \<open>C32. The paged listing of credential readiness is the scan of all matching accounts after the cursor in
  the order of their keys, restricted to issues when asked, cut at the limit.\<close>

theorem readiness_listing_is_scan:
  assumes "distinct (map sv_key (service_accounts db))" "0 < warning_seconds" "0 < limit"
  shows "list_credential_readiness warning_seconds issues_only key_prefix after_key limit now db
    = Inr (take (nat limit) (filter (shown issues_only)
        (map (readiness_entry db now warning_seconds) (matching_accounts key_prefix after_key db))), db)"
  using readiness_pages_take[OF assms(1), of "[]"] assms(2,3) by (simp add: list_credential_readiness_def)

lemma readiness_listing_is_scan_witness:
  "\<exists>db rs. length (service_accounts db) = 1 \<and> list_credential_readiness 3600 False None None 10 60 db = Inr (rs, db)
     \<and> rs = take 10 (map (readiness_entry db 60 3600) (matching_accounts None None db)) \<and> length rs = 1"
proof -
  from ex_token_issued obtain db where s: "distinct (map sv_key (service_accounts db))" "length (service_accounts db) = 1" .
  have "length (matching_accounts None None db) = 1" using s(2) by (simp add: matching_accounts_def)
  with readiness_listing_is_scan[OF s(1), of 3600 10 False None None 60] s(2) show ?thesis by (intro exI[of _ db]) (simp add: shown_def)
qed

section \<open>Observations\<close>

text \<open>C40. A reader of all projects passes the authorization of the account inventory, since its path has no
  trailing slash; the readiness listing beside it is guarded for administrators.\<close>

theorem account_listing_needs_no_admin:
  "authorize_request ''GET'' ''/v1/service-accounts''
     \<lparr>ap_account_id = i, ap_account_key = key, ap_permissions = {ProjectRead}, ap_project_ids = {},
      ap_all_projects = True, ap_credential_id = c\<rparr> db = Inr (True, db)
   \<and> required_permission ''GET'' ''/v1/service-accounts/readiness'' = ProjectAdmin"
proof -
  have "required_permission ''GET'' ''/v1/service-accounts'' = ProjectRead" "resource_path ''/v1/service-accounts'' = None"
    "required_permission ''GET'' ''/v1/service-accounts/readiness'' = ProjectAdmin"
    by code_simp+
  then show ?thesis by (simp add: authorize_request_def allows_def)
qed

text \<open>A prefix with an underscore lists accounts that do not start with it.\<close>

lemma underscore_prefix_matches_any:
  "case ex_token of Inl e \<Rightarrow> False | Inr (r, db) \<Rightarrow>
     map sv_key (service_accounts_list None (Some ''ci_'') None 10 db) = [''ci-bot''] \<and> \<not> starts_with ''ci_'' ''ci-bot''"
  by code_simp

end
