(* ===== verification/Runtime_Process.thy ===== *)
theory Runtime_Process
  imports Service_Frames
begin

text \<open>
  The processes around the services: a worker runtime calls services in separate transactions, does
  something outside the database in between, and other processes commit meanwhile. A process answers an
  exception or a value together with the database it leaves; the transactions it committed before an
  exception stay committed.

  An environment says, for every transaction of one pass, when it begins (\<^verbatim>\<open>datetime.now(UTC)\<close>) and what
  the other processes committed since the pass's previous transaction.
\<close>

type_synonym ('e, 'a) process = "db \<Rightarrow> ('e + 'a) \<times> db"

record 'p environment =
  en_now :: "'p \<Rightarrow> time"
  en_other :: "'p \<Rightarrow> db \<Rightarrow> db"

definition preturn :: "'a \<Rightarrow> ('e, 'a) process" where
  "preturn x db = (Inr x, db)"

definition praise :: "'e \<Rightarrow> ('e, 'a) process" where
  "praise e db = (Inl e, db)"

text \<open>One transaction: a service call whose exception rolls it back.\<close>

definition transaction ::
    "(error \<Rightarrow> 'e) \<Rightarrow> 'p environment \<Rightarrow> 'p \<Rightarrow> (time \<Rightarrow> 'a svc) \<Rightarrow> ('e, 'a) process" where
  "transaction raised env p call db0 =
     (let db = en_other env p db0 in
      case transact (call (en_now env p)) db of (Inl e, db') \<Rightarrow> (Inl (raised e), db') | (Inr x, db') \<Rightarrow> (Inr x, db'))"

text \<open>\<^verbatim>\<open>try\<close>: the exception goes to the handler, a value to the continuation.\<close>

definition attempt ::
    "('e, 'a) process \<Rightarrow> ('e \<Rightarrow> ('f, 'b) process) \<Rightarrow> ('a \<Rightarrow> ('f, 'b) process) \<Rightarrow> ('f, 'b) process" where
  "attempt m handler k db = (case m db of (Inl e, db') \<Rightarrow> handler e db' | (Inr x, db') \<Rightarrow> k x db')"

definition pbind :: "('e, 'a) process \<Rightarrow> ('a \<Rightarrow> ('e, 'b) process) \<Rightarrow> ('e, 'b) process" where
  "pbind m k = attempt m praise k"

lemma preturn_apply [simp]: "preturn x db = (Inr x, db)"
  by (simp add: preturn_def)

lemma praise_apply [simp]: "praise e db = (Inl e, db)"
  by (simp add: praise_def)

lemma transaction_cases:
  obtains e where "call (en_now env p) (en_other env p db) = Inl e"
    "transaction raised env p call db = (Inl (raised e), en_other env p db)"
  | x db' where "call (en_now env p) (en_other env p db) = Inr (x, db')"
    "transaction raised env p call db = (Inr x, db')"
  by (cases "call (en_now env p) (en_other env p db)") (auto simp: transaction_def transact_def Let_def)

section \<open>What every transaction satisfies, the process satisfies\<close>

context step_frame
begin

definition run_within :: "('e, 'a) process \<Rightarrow> bool" where
  "run_within m \<longleftrightarrow> (\<forall>db r db'. m db = (r, db') \<longrightarrow> R db db')"

lemma run_withinD: "run_within m \<Longrightarrow> m db = (r, db') \<Longrightarrow> R db db'"
  by (auto simp: run_within_def)

lemma run_within_pure: "run_within (preturn x)" "run_within (praise e)" "run_within (Pair r)"
  by (auto simp: run_within_def same)

lemma run_within_transaction:
  assumes "\<And>db. R db (en_other env p db)" "within R (call (en_now env p))"
  shows "run_within (transaction raised env p call)"
  unfolding run_within_def
proof (intro allI impI)
  fix db r db'
  assume t: "transaction raised env p call db = (r, db')"
  show "R db db'"
  proof (rule transaction_cases[of call env p db raised])
    fix e
    assume "transaction raised env p call db = (Inl (raised e), en_other env p db)"
    then show "R db db'" using t assms(1) by simp
  next
    fix x d
    assume c: "call (en_now env p) (en_other env p db) = Inr (x, d)" and "transaction raised env p call db = (Inr x, d)"
    with t show "R db db'" using withinD[OF assms(2) c] assms(1) next_step by auto
  qed
qed

lemma run_within_attempt:
  assumes "run_within m" "\<And>e. run_within (handler e)" "\<And>x. run_within (k x)"
  shows "run_within (attempt m handler k)"
  unfolding run_within_def
proof (intro allI impI)
  fix db r db'
  assume t: "attempt m handler k db = (r, db')"
  obtain q d where m: "m db = (q, d)" by fastforce
  have "R d db'" using t run_withinD[OF assms(2)] run_withinD[OF assms(3)] by (cases q) (auto simp: attempt_def m)
  with run_withinD[OF assms(1) m] show "R db db'" by (rule next_step)
qed

lemma run_within_pbind: "run_within m \<Longrightarrow> (\<And>x. run_within (k x)) \<Longrightarrow> run_within (pbind m k)"
  unfolding pbind_def by (rule run_within_attempt) (simp_all add: run_within_pure)

lemma run_within_if: "(c \<Longrightarrow> run_within m) \<Longrightarrow> (\<not> c \<Longrightarrow> run_within m') \<Longrightarrow> run_within (if c then m else m')"
  by simp

lemma run_within_option:
  "run_within m \<Longrightarrow> (\<And>x. run_within (f x)) \<Longrightarrow> run_within (case v of None \<Rightarrow> m | Some x \<Rightarrow> f x)"
  by (cases v) auto

lemma run_within_sum:
  "(\<And>x. run_within (f x)) \<Longrightarrow> (\<And>x. run_within (g x)) \<Longrightarrow> run_within (case v of Inl x \<Rightarrow> f x | Inr x \<Rightarrow> g x)"
  by (cases v) auto

lemmas process_rules = run_within_pure run_within_attempt run_within_pbind run_within_if run_within_option
  run_within_sum

end

section \<open>Processes only take steps of the services\<close>

interpretation commits: step_frame "service_step\<^sup>*\<^sup>*"
  by unfold_locales (auto intro: rtranclp_trans)

lemma within_step: "(\<And>db x db'. m db = Inr (x, db') \<Longrightarrow> service_step db db') \<Longrightarrow> within service_step\<^sup>*\<^sup>* m"
  by (auto simp: within_def)

lemma other_within:
  "within service_step\<^sup>*\<^sup>* uuid4" "within service_step\<^sup>*\<^sup>* (events_append e)" "within service_step\<^sup>*\<^sup>* (ops_set x)"
  by (rule within_step, blast intro: ss_other ow_id ow_event ow_rows)+

lemma emit_within: "within service_step\<^sup>*\<^sup>* (emit a i t p now)"
  unfolding emit_def by (intro commits.combinators other_within)

end
