(* ===== verification/Service_Composition.thy ===== *)
theory Service_Composition
  imports Runtime_Process Leased_Services Readiness_Services Api_Security
begin

text \<open>
  The services around the engine composed with it. The interface \<open>ops_frame\<close>: a relation that drawing an
  identifier, appending an event and writing a table of these services satisfy, every one of their calls
  satisfies. It is interpreted on two relations: being a sequence of steps of the whole system, and
  leaving every table of the engine as it was.
\<close>

locale ops_frame = step_frame +
  assumes o_uuid4: "within R uuid4" and o_events_append: "within R (events_append e)"
    and o_set: "within R (ops_set x)"
begin

lemma o_emit: "within R (emit a i t p now)"
  unfolding emit_def by (intro combinators o_uuid4 o_events_append)

lemma o_modify: "within R (ops_modify upd f)"
proof (rule withinI)
  fix db x db'
  assume "ops_modify upd f db = Inr (x, db')"
  then have "ops_set (upd f (t_ops db)) db = Inr ((), db')" by (simp add: ops_modify_def ops_set_def supdate_def)
  with o_set show "R db db'" by (rule withinD)
qed

lemma o_row_add: "within R (row_add upd r)"
  unfolding row_add_def by (rule o_modify)

lemma o_row_save: "within R (row_save what sel upd id_of r)"
proof (rule withinI)
  fix db x db'
  assume "row_save what sel upd id_of r db = Inr (x, db')"
  then have "ops_modify upd (\<lambda>rs. table_put id_of rs r) db = Inr (x, db')"
    by (auto simp: row_save_def split: option.splits)
  with o_modify show "R db db'" by (rule withinD)
qed

lemma o_row_try_add: "within R (row_try_add sel upd key_of r)"
proof (rule withinI)
  fix db x db'
  assume a: "row_try_add sel upd key_of r db = Inr (x, db')"
  show "R db db'"
  proof (cases "row_get sel key_of (key_of r) db")
    case None
    have "within R (sbind (row_add upd r) (\<lambda>_. sreturn True))" by (intro combinators o_row_add)
    moreover have "sbind (row_add upd r) (\<lambda>_. sreturn True) db = Inr (x, db')"
      using a None unfolding row_try_add_def by (simp only: option.case)
    ultimately show ?thesis by (rule withinD)
  next
    case (Some y)
    with a show ?thesis by (simp add: row_try_add_def same)
  qed
qed

lemma o_external_save: "within R (external_save x)"
proof (rule withinI)
  fix db u db'
  assume "external_save x db = Inr (u, db')"
  then obtain z where "ops_modify x_external_update (\<lambda>rs. table_put xe_id rs z) db = Inr (u, db')"
    by (auto simp: external_save_def Let_def split: option.splits if_splits)
  with o_modify show "R db db'" by (rule withinD)
qed

lemma o_smap: "(\<And>x. within R (m x)) \<Longrightarrow> within R (smap m xs)"
  by (induction xs) (auto intro!: combinators)

lemmas ops_rules = combinators o_uuid4 o_events_append o_emit o_modify o_row_add o_row_save o_row_try_add
  o_external_save o_smap

lemma o_events:
  "within R (external_event x t now)" "within R (operation_event p x t now)"
  "within R (publication_event q x t a tr now)" "within R (delivery_event d t a tr now)"
  "within R (subscription_event b t a now)"
  unfolding external_event_def operation_event_def publication_event_def delivery_event_def subscription_event_def
  by (intro ops_rules)+

lemma o_external:
  "within R (external_prepare claim executor source binding now)" "within R (external_accept key run now)"
  "within R (external_finish key status res reason now)" "within R (external_release_workspace i now)"
  unfolding external_prepare_def external_accept_def external_finish_def external_release_workspace_def
    external_required_def external_required_id_def external_add_def
  by (intro ops_rules o_events)+

lemma o_operations:
  "within R (operation_request x kind target key who confirmation now)"
  "within R (operation_claim_next worker scope lease now)"
  "within R (operation_succeed i tok res now)" "within R (operation_fail i tok reason now)"
  unfolding operation_request_def operation_claim_next_def operation_succeed_def operation_fail_def
    operation_finish_def operation_replay_def external_required_id_def operations_claim_next_def
    operations_try_add_def operations_save_def
  by (intro ops_rules o_events)+

lemma o_publications:
  "within R (publication_request x provider target title body key who now)"
  "within R (publication_claim_next worker provider scope lease now)"
  "within R (publication_succeed i tok res now)" "within R (publication_fail i tok f now)"
  "within R (publication_retry i who now)" "within R (publication_cancel_automatic_retry i who now)"
  unfolding publication_request_def publication_claim_next_def publication_succeed_def publication_fail_def
    publication_finish_def publication_retry_def publication_cancel_automatic_retry_def publication_replay_def
    publication_required_def publication_project_def publication_attempt_def external_required_id_def
    publications_claim_next_def publications_try_add_def publications_save_def record_publication_claim_def
    publication_attempts_add_def publication_attempts_save_def
  by (intro ops_rules o_events)+

lemma o_enqueue: "within R (enqueue_notification_deliveries event now)"
proof -
  have "within R (enqueue_one event event_type alert_id now b)" for event_type alert_id b
    unfolding enqueue_one_def deliveries_try_add_def by (intro ops_rules)
  then show ?thesis
    unfolding enqueue_notification_deliveries_def by (auto intro!: ops_rules split: sum.split option.split json.split)
qed

lemma o_notifications:
  "within R (create_subscription pid provider dest types who now)"
  "within R (configure_subscription pid i types enabled who now)"
  "within R (delivery_claim_next worker provider lease now)"
  "within R (delivery_succeed i tok res now)" "within R (delivery_fail i tok f now)"
  "within R (delivery_retry pid i who now)" "within R (delivery_cancel_automatic_retry pid i who now)"
  unfolding create_subscription_def configure_subscription_def delivery_claim_next_def delivery_succeed_def delivery_fail_def
    delivery_finish_def delivery_retry_def delivery_cancel_automatic_retry_def project_delivery_def project_required_def
    delivery_attempt_def deliveries_claim_next_def deliveries_save_def record_delivery_claim_def
    close_previous_attempt_def delivery_attempts_add_def delivery_attempts_save_def subscriptions_try_add_def
    subscriptions_save_def
  by (intro ops_rules o_events)+

lemma o_presence:
  "within R (presence_register worker kind host pid caps scope meta now)"
  "within R (presence_heartbeat i at now)" "within R (presence_stop i at now)"
  unfolding presence_register_def presence_heartbeat_def presence_stop_def worker_required_def workers_add_def
    workers_save_def
  by (intro ops_rules)+

lemma o_alert_event: "within R (append_alert_event a t now)"
  unfolding append_alert_event_def by (intro ops_rules o_enqueue)

lemma o_readiness: "within R (evaluate_project acquired pid stale_after critical_after at now)"
  unfolding evaluate_project_def inspect_project_def project_required_def observe_issue_def resolve_absent_def
    alerts_add_def alerts_save_def
  by (intro ops_rules o_alert_event)

lemma o_security:
  "within R (issue_account hex secret key name perms projects all expires now)"
  "within R (issue_credential hex secret account expires actor now)"
  "within R (revoke_credential account cid actor now)" "within R (revoke_account account actor now)"
  "within R (authenticate hex token now)"
  unfolding issue_account_def new_credential_def credential_event_def issue_credential_def account_required_def
    authenticate_def revoke_credential_def revoke_account_def service_accounts_add_def credentials_add_def
    credentials_revoke_def credentials_mark_used_def service_accounts_disable_def
  by (intro ops_rules)+

end

interpretation composed: ops_frame "service_step\<^sup>*\<^sup>*"
  by unfold_locales (simp_all add: other_within)

section \<open>Calls of these services\<close>

text \<open>One rule per call that commits.\<close>

inductive ops_call :: "db \<Rightarrow> db \<Rightarrow> bool" where
  oc_prepare: "external_prepare claim session agent binding now db = Inr (r, db') \<Longrightarrow> ops_call db db'"
| oc_accept: "external_accept key run now db = Inr (r, db') \<Longrightarrow> ops_call db db'"
| oc_finish: "external_finish key status res reason now db = Inr (r, db') \<Longrightarrow> ops_call db db'"
| oc_release: "external_release_workspace i now db = Inr (r, db') \<Longrightarrow> ops_call db db'"
| oc_operation: "operation_request x kind target key who confirmation now db = Inr (q, db') \<Longrightarrow> ops_call db db'"
| oc_operation_claim: "operation_claim_next worker scope lease now db = Inr (p, db') \<Longrightarrow> ops_call db db'"
| oc_operation_succeed: "operation_succeed i tok res now db = Inr (p', db') \<Longrightarrow> ops_call db db'"
| oc_operation_fail: "operation_fail i tok reason now db = Inr (p', db') \<Longrightarrow> ops_call db db'"
| oc_publication: "publication_request x provider target title body key who now db = Inr (b, db') \<Longrightarrow> ops_call db db'"
| oc_publication_claim: "publication_claim_next worker provider scope lease now db = Inr (c, db') \<Longrightarrow> ops_call db db'"
| oc_publication_succeed: "publication_succeed i tok res now db = Inr (c', db') \<Longrightarrow> ops_call db db'"
| oc_publication_fail: "publication_fail i tok f now db = Inr (c', db') \<Longrightarrow> ops_call db db'"
| oc_publication_retry: "publication_retry i who now db = Inr (b, db') \<Longrightarrow> ops_call db db'"
| oc_publication_cancel: "publication_cancel_automatic_retry i who now db = Inr (b, db') \<Longrightarrow> ops_call db db'"
| oc_subscribe: "create_subscription pid provider dest types who now db = Inr (s, db') \<Longrightarrow> ops_call db db'"
| oc_configure: "configure_subscription pid i types enabled who now db = Inr (s', db') \<Longrightarrow> ops_call db db'"
| oc_delivery_claim: "delivery_claim_next worker provider lease now db = Inr (d, db') \<Longrightarrow> ops_call db db'"
| oc_delivery_succeed: "delivery_succeed i tok res now db = Inr (d', db') \<Longrightarrow> ops_call db db'"
| oc_delivery_fail: "delivery_fail i tok g now db = Inr (d', db') \<Longrightarrow> ops_call db db'"
| oc_delivery_retry: "delivery_retry pid i who now db = Inr (e, db') \<Longrightarrow> ops_call db db'"
| oc_delivery_cancel: "delivery_cancel_automatic_retry pid i who now db = Inr (e, db') \<Longrightarrow> ops_call db db'"
| oc_register: "presence_register w kind' host pid' caps scope' meta now db = Inr (v, db') \<Longrightarrow> ops_call db db'"
| oc_heartbeat: "presence_heartbeat i at now db = Inr (v, db') \<Longrightarrow> ops_call db db'"
| oc_stop: "presence_stop i at now db = Inr (v, db') \<Longrightarrow> ops_call db db'"
| oc_evaluate: "evaluate_project acquired pid stale critical at now db = Inr (y, db') \<Longrightarrow> ops_call db db'"
| oc_issue_account: "issue_account hex secret key name perms projects all expires now db = Inr (a, db') \<Longrightarrow> ops_call db db'"
| oc_issue_credential: "issue_credential hex secret account expires actor now db = Inr (a', db') \<Longrightarrow> ops_call db db'"
| oc_revoke_credential: "revoke_credential account cid actor now db = Inr (u, db') \<Longrightarrow> ops_call db db'"
| oc_revoke_account: "revoke_account account actor now db = Inr (u, db') \<Longrightarrow> ops_call db db'"
| oc_authenticate: "authenticate hex token now db = Inr (l, db') \<Longrightarrow> ops_call db db'"

context ops_frame
begin

lemma o_call: "ops_call db db' \<Longrightarrow> R db db'"
  by (induction rule: ops_call.induct)
    (blast dest: withinD[OF o_external(1)] withinD[OF o_external(2)] withinD[OF o_external(3)] withinD[OF o_external(4)]
      withinD[OF o_operations(1)] withinD[OF o_operations(2)] withinD[OF o_operations(3)] withinD[OF o_operations(4)]
      withinD[OF o_publications(1)] withinD[OF o_publications(2)] withinD[OF o_publications(3)]
      withinD[OF o_publications(4)] withinD[OF o_publications(5)] withinD[OF o_publications(6)]
      withinD[OF o_notifications(1)] withinD[OF o_notifications(2)] withinD[OF o_notifications(3)]
      withinD[OF o_notifications(4)] withinD[OF o_notifications(5)] withinD[OF o_notifications(6)]
      withinD[OF o_notifications(7)] withinD[OF o_presence(1)] withinD[OF o_presence(2)] withinD[OF o_presence(3)]
      withinD[OF o_readiness] withinD[OF o_security(1)] withinD[OF o_security(2)] withinD[OF o_security(3)]
      withinD[OF o_security(4)] withinD[OF o_security(5)])+

end

section \<open>The engine's tables\<close>

definition around :: "db \<Rightarrow> db \<Rightarrow> bool" where
  "around db db' \<longleftrightarrow> (\<exists>es n x. db' = db\<lparr>t_next := n, t_events := t_events db @ es, t_ops := x\<rparr> \<and> t_next db \<le> n)"

lemma around_trans:
  assumes "around db db1" "around db1 db2"
  shows "around db db2"
proof -
  obtain es n x where a: "db1 = db\<lparr>t_next := n, t_events := t_events db @ es, t_ops := x\<rparr>" "t_next db \<le> n"
    using assms(1) by (auto simp: around_def)
  obtain es' n' x' where "db2 = db1\<lparr>t_next := n', t_events := t_events db1 @ es', t_ops := x'\<rparr>" "t_next db1 \<le> n'"
    using assms(2) by (auto simp: around_def)
  with a have "db2 = db\<lparr>t_next := n', t_events := t_events db @ (es @ es'), t_ops := x'\<rparr> \<and> t_next db \<le> n'" by simp
  then show ?thesis unfolding around_def by blast
qed

lemma aroundI: "db' = db\<lparr>t_next := n, t_events := t_events db @ es, t_ops := x\<rparr> \<Longrightarrow> t_next db \<le> n \<Longrightarrow> around db db'"
  by (auto simp: around_def)

interpretation outside: ops_frame around
proof
  show "around db db" for db by (rule aroundI[where es = "[]" and n = "t_next db" and x = "t_ops db"]) simp_all
  show "around db db1 \<Longrightarrow> around db1 db2 \<Longrightarrow> around db db2" for db db1 db2 by (rule around_trans)
  have "around db (db\<lparr>t_next := Suc (t_next db)\<rparr>)" for db
    by (rule aroundI[where es = "[]" and n = "Suc (t_next db)" and x = "t_ops db"]) simp_all
  then show "within around uuid4" by (auto simp: within_def uuid4_def)
  have "around db (db\<lparr>t_events := t_events db @ es\<rparr>)" for db es
    by (rule aroundI[where es = es and n = "t_next db" and x = "t_ops db"]) simp_all
  then show "within around (events_append e)" for e by (auto simp: within_def events_append_def)
  have "around db (db\<lparr>t_ops := x\<rparr>)" for db x
    by (rule aroundI[where es = "[]" and n = "t_next db" and x = x]) simp_all
  then show "within around (ops_set x)" for x by (auto simp: within_def)
qed

end
