(* ===== verification/Delivery_Runtimes.thy ===== *)
theory Delivery_Runtimes
  imports Service_Composition
begin

text \<open>
  \<^verbatim>\<open>scm/runtime.py\<close>, \<^verbatim>\<open>notifications/runtime.py\<close> and the registries of adapters: one poll of a publication
  worker and of a notification worker. Each claims an item for one of its providers, calls the provider
  outside the database and settles the item: its result, or a classified failure with the time of the
  next automatic attempt.

  A provider is a function of its request that answers a result or an exception; \<^verbatim>\<open>asyncio.wait_for\<close> is part
  of it (a timeout is \<open>TimedOut\<close>). Durations are microseconds, and the delay of a retry is computed on
  them exactly.
\<close>

section \<open>Registries\<close>

text \<open>The dictionary of a registry; that an adapter has the methods of its protocol is its type here.\<close>

type_synonym 'p registry = "(string \<times> 'p) list"

definition supported_keys :: "'p registry \<Rightarrow> string list" where
  "supported_keys reg = map fst reg"

definition register_executor :: "'p registry \<Rightarrow> string \<Rightarrow> 'p \<Rightarrow> 'p registry result" where
  "register_executor reg key executor =
     (let normalized = py_strip key in
      if normalized = [] then Inl (ValueError ''executor key must not be empty'')
      else if normalized \<in> set (supported_keys reg)
      then Inl (ValueError (''executor key already registered: '' @ normalized))
      else Inr (reg @ [(normalized, executor)]))"

definition register_publisher :: "'p registry \<Rightarrow> string \<Rightarrow> 'p \<Rightarrow> 'p registry result" where
  "register_publisher reg key publisher =
     (let normalized = py_strip key in
      if normalized = [] then Inl (ValueError ''SCM publisher key must not be empty'')
      else if normalized \<in> set (supported_keys reg)
      then Inl (ValueError (''SCM publisher key already registered: '' @ normalized))
      else Inr (reg @ [(normalized, publisher)]))"

definition register_notification_provider :: "'p registry \<Rightarrow> string \<Rightarrow> 'p \<Rightarrow> 'p registry result" where
  "register_notification_provider reg key adapter =
     (let normalized = py_lower (py_strip key) in
      if normalized = [] then Inl (ValueError ''notification provider key is empty'')
      else if normalized \<in> set (supported_keys reg)
      then Inl (ValueError (''notification provider key already registered: '' @ normalized))
      else Inr (reg @ [(normalized, adapter)]))"

section \<open>Exceptions of a poll\<close>

text \<open>\<open>'c\<close> is the failure code of a provider's typed failure; \<open>Other\<close> carries the
  name of the type, whether it is a \<^verbatim>\<open>ValueError\<close>, and the text.\<close>

datatype 'c provider_exception =
    TypedFailure 'c bool string
  | TimedOut string
  | ResultMismatch string
  | ServiceRaised error
  | Other string bool string

fun exception_text :: "'c provider_exception \<Rightarrow> string" where
  "exception_text (TypedFailure c retryable m) = m"
| "exception_text (TimedOut m) = m"
| "exception_text (ResultMismatch m) = m"
| "exception_text (ServiceRaised e) = error_message e"
| "exception_text (Other ty value_error m) = m"

fun exception_type :: "string \<Rightarrow> 'c provider_exception \<Rightarrow> string" where
  "exception_type typed (TypedFailure c retryable m) = typed"
| "exception_type typed (TimedOut m) = ''TimeoutError''"
| "exception_type typed (ResultMismatch m) = ''ScmPublicationResultMismatch''"
| "exception_type typed (ServiceRaised e) = error_type e"
| "exception_type typed (Other ty value_error m) = ty"

text \<open>\<^verbatim>\<open>str(exc) or type(exc).__name__\<close>\<close>

definition reported_text :: "string \<Rightarrow> 'c provider_exception \<Rightarrow> string" where
  "reported_text typed e = (if exception_text e = [] then exception_type typed e else exception_text e)"

text \<open>\<^verbatim>\<open>isinstance(exc, ValueError)\<close> for the exceptions of the services.\<close>

fun is_value_error :: "error \<Rightarrow> bool" where
  "is_value_error (DomainValidationError m) \<longleftrightarrow> True"
| "is_value_error (WorkflowDefinitionError m) \<longleftrightarrow> True"
| "is_value_error (ValueError m) \<longleftrightarrow> True"
| "is_value_error e \<longleftrightarrow> False"

section \<open>Automatic retries\<close>

record retry_policy =
  rt_limit :: int
  rt_base_delay :: int
  rt_max_delay :: int

text \<open>\<^verbatim>\<open>max(0, math.ceil(math.log2(max / base)))\<close>: how often the base delay doubles before it reaches the cap.\<close>

function steps_to_cap :: "int \<Rightarrow> int \<Rightarrow> nat" where
  "steps_to_cap base cap = (if base \<le> 0 \<or> cap \<le> base then 0 else Suc (steps_to_cap (2 * base) cap))"
  by auto
termination steps_to_cap
  by (relation "measure (\<lambda>(base, cap). nat (cap - base))") auto

declare steps_to_cap.simps [simp del]

definition retry_delay :: "int \<Rightarrow> int \<Rightarrow> int \<Rightarrow> int" where
  "retry_delay base cap attempt_count =
     min (base * 2 ^ min (nat (attempt_count - 1)) (steps_to_cap base cap)) cap"

definition next_attempt_at :: "retry_policy \<Rightarrow> int \<Rightarrow> time \<Rightarrow> time option" where
  "next_attempt_at policy attempt_count now =
     (if rt_limit policy = 0 \<or> rt_limit policy < attempt_count then None
      else Some (now + retry_delay (rt_base_delay policy) (rt_max_delay policy) attempt_count))"

lemma steps_to_cap_reaches: "0 < base \<Longrightarrow> cap \<le> base * 2 ^ steps_to_cap base cap"
proof (induction base cap rule: steps_to_cap.induct)
  case (1 base cap)
  then show ?case
    by (cases "cap \<le> base") (simp_all add: steps_to_cap.simps[of base cap] mult.assoc mult.left_commute)
qed

lemma retry_delay_reference:
  assumes "0 < base"
  shows "retry_delay base cap attempt_count = min (base * 2 ^ nat (attempt_count - 1)) cap"
proof (cases "nat (attempt_count - 1) \<le> steps_to_cap base cap")
  case True
  then show ?thesis by (simp add: retry_delay_def min_absorb1)
next
  case False
  have "base * 2 ^ steps_to_cap base cap \<le> base * 2 ^ nat (attempt_count - 1)"
    using False assms by (intro mult_left_mono power_increasing) auto
  with steps_to_cap_reaches[OF assms, of cap] False show ?thesis by (simp add: retry_delay_def)
qed

section \<open>The publication worker\<close>

record scm_publication_request =
  pr_repository :: string
  pr_workspace_path :: string
  pr_source_branch :: string
  pr_target_branch :: string
  pr_title :: string
  pr_body :: string
  pr_idempotency_key :: string

definition scm_publication_request_init :: "scm_publication_request \<Rightarrow> scm_publication_request result" where
  "scm_publication_request_init q =
     (case first_blank [(''repository'', pr_repository q), (''workspace_path'', pr_workspace_path q),
        (''source_branch'', pr_source_branch q), (''target_branch'', pr_target_branch q), (''title'', pr_title q),
        (''idempotency_key'', pr_idempotency_key q)] of
        Some field \<Rightarrow> Inl (DomainValidationError (''SCM publication '' @ field @ '' must not be empty''))
      | None \<Rightarrow>
          if py_strip (pr_source_branch q) = py_strip (pr_target_branch q)
          then Inl (DomainValidationError ''SCM publication source_branch and target_branch must differ'')
          else Inr \<lparr>pr_repository = py_strip (pr_repository q), pr_workspace_path = py_strip (pr_workspace_path q),
            pr_source_branch = py_strip (pr_source_branch q), pr_target_branch = py_strip (pr_target_branch q),
            pr_title = py_strip (pr_title q), pr_body = py_strip (pr_body q),
            pr_idempotency_key = py_strip (pr_idempotency_key q)\<rparr>)"

record scm_publication_result =
  ps_provider :: string
  ps_repository :: string
  ps_source_branch :: string
  ps_target_branch :: string
  ps_review_url :: string
  ps_review_id :: string

definition scm_publication_result_init :: "scm_publication_result \<Rightarrow> scm_publication_result result" where
  "scm_publication_result_init r =
     (case first_blank [(''provider'', ps_provider r), (''repository'', ps_repository r),
        (''source_branch'', ps_source_branch r), (''target_branch'', ps_target_branch r),
        (''review_url'', ps_review_url r), (''review_id'', ps_review_id r)] of
        Some field \<Rightarrow> Inl (DomainValidationError (''SCM publication result '' @ field @ '' must not be empty''))
      | None \<Rightarrow> Inr \<lparr>ps_provider = py_strip (ps_provider r), ps_repository = py_strip (ps_repository r),
          ps_source_branch = py_strip (ps_source_branch r), ps_target_branch = py_strip (ps_target_branch r),
          ps_review_url = py_strip (ps_review_url r), ps_review_id = py_strip (ps_review_id r)\<rparr>)"

text \<open>\<^verbatim>\<open>asdict(result)\<close>\<close>

definition scm_result_dict :: "scm_publication_result \<Rightarrow> json_object" where
  "scm_result_dict r = [(''provider'', JStr (ps_provider r)), (''repository'', JStr (ps_repository r)),
     (''source_branch'', JStr (ps_source_branch r)), (''target_branch'', JStr (ps_target_branch r)),
     (''review_url'', JStr (ps_review_url r)), (''review_id'', JStr (ps_review_id r))]"

type_synonym scm_exception = "scm_failure_code provider_exception"
type_synonym scm_publisher = "scm_publication_request \<Rightarrow> scm_exception + scm_publication_result"

definition publish_review ::
    "scm_publisher registry \<Rightarrow> string \<Rightarrow> scm_publication_request \<Rightarrow> scm_exception + scm_publication_result" where
  "publish_review reg key request =
     (case map_of reg key of
        None \<Rightarrow> Inl (Other ''ScmPublisherNotFoundError'' False (''SCM publisher is not registered: '' @ key))
      | Some publisher \<Rightarrow> publisher request)"

record scm_runtime =
  su_worker_id :: string
  su_workspace_scope :: string
  su_publishers :: "scm_publisher registry"
  su_poll_interval :: int
  su_lease_seconds :: int
  su_operation_timeout :: int
  su_retries :: retry_policy

text \<open>The checks of both constructors on their retry settings; \<open>what\<close> begins the messages.\<close>

definition check_retries :: "string \<Rightarrow> string \<Rightarrow> int \<Rightarrow> retry_policy \<Rightarrow> unit result" where
  "check_retries what base_what greatest r =
     (if \<not> (0 \<le> rt_limit r \<and> rt_limit r \<le> greatest)
      then Inl (ValueError (what @ '' automatic retry limit must be between 0 and '' @ str_int greatest))
      else if rt_base_delay r \<le> 0 \<or> rt_max_delay r \<le> 0
      then Inl (ValueError (what @ '' automatic retry delays must be positive''))
      else if rt_max_delay r < rt_base_delay r
      then Inl (ValueError (base_what @ '' retry base delay must not exceed maximum delay''))
      else Inr ())"

definition scm_runtime_init :: "scm_runtime \<Rightarrow> scm_runtime result" where
  "scm_runtime_init u =
     (if blank (su_worker_id u) then Inl (ValueError ''SCM publication worker id must not be empty'')
      else if blank (su_workspace_scope u) then Inl (ValueError ''SCM publication workspace scope must not be empty'')
      else if supported_keys (su_publishers u) = []
      then Inl (ValueError ''SCM publication worker requires at least one publisher'')
      else if su_poll_interval u \<le> 0 \<or> su_lease_seconds u \<le> 0 \<or> su_operation_timeout u \<le> 0
      then Inl (ValueError ''SCM publication worker intervals must be positive'')
      else if seconds (su_lease_seconds u) \<le> su_operation_timeout u
      then Inl (ValueError ''SCM publication timeout must be shorter than its lease'')
      else rbind (check_retries ''SCM publication'' ''SCM publication'' scm_max_automatic_retry_limit (su_retries u)) (\<lambda>_.
        Inr (u\<lparr>su_worker_id := py_strip (su_worker_id u), su_workspace_scope := py_strip (su_workspace_scope u)\<rparr>)))"

datatype runtime_phase = ClaimOf string | ReadExecution | Schedule | Settle

text \<open>\<^verbatim>\<open>_claim_next\<close>: the first provider, in key order, with a claimable publication.\<close>

fun scm_claim_first ::
    "scm_runtime \<Rightarrow> runtime_phase environment \<Rightarrow> string list \<Rightarrow> (error, scm_publication option) process" where
  "scm_claim_first u env [] = preturn None"
| "scm_claim_first u env (key # keys) =
     pbind (transaction id env (ClaimOf key)
       (publication_claim_next (su_worker_id u) key (su_workspace_scope u) (su_lease_seconds u))) (\<lambda>claim.
       case claim of None \<Rightarrow> scm_claim_first u env keys | Some p \<Rightarrow> preturn (Some p))"

text \<open>The request of a publication, from the managed workspace its external execution has now.\<close>

definition scm_request :: "scm_runtime \<Rightarrow> scm_publication \<Rightarrow> external_execution \<Rightarrow> scm_publication_request result" where
  "scm_request u p x =
     (if xe_workspace_released_at x \<noteq> None
      then Inl (ValueError ''managed workspace was released before SCM publication'')
      else if xe_workspace_scope x \<noteq> Some (su_workspace_scope u)
      then Inl (ValueError ''external execution workspace scope changed after publication'')
      else (case xe_workspace_path x of
        None \<Rightarrow> Inl (ValueError ''external execution has no managed workspace path'')
      | Some path \<Rightarrow>
          if path = [] then Inl (ValueError ''external execution has no managed workspace path'')
          else if xe_workspace_branch x \<noteq> Some (sp_source_branch p)
          then Inl (ValueError ''external execution branch changed after publication'')
          else scm_publication_request_init
            \<lparr>pr_repository = sp_repository p, pr_workspace_path = path, pr_source_branch = sp_source_branch p,
             pr_target_branch = sp_target_branch p, pr_title = sp_title p, pr_body = sp_body p,
             pr_idempotency_key = sp_idempotency_key p\<rparr>))"

definition result_mismatches :: "scm_publication \<Rightarrow> scm_publication_result \<Rightarrow> string list" where
  "result_mismatches p r = map fst (filter (\<lambda>(field, expected, actual). actual \<noteq> expected)
     [(''provider'', sp_provider_key p, ps_provider r), (''repository'', sp_repository p, ps_repository r),
      (''source_branch'', sp_source_branch p, ps_source_branch r),
      (''target_branch'', sp_target_branch p, ps_target_branch r)])"

definition validate_result :: "scm_publication \<Rightarrow> scm_publication_result \<Rightarrow> scm_exception + scm_publication_result" where
  "validate_result p r =
     (case result_mismatches p r of [] \<Rightarrow> Inr r
      | mismatches \<Rightarrow> Inl (ResultMismatch (''SCM publisher result mismatched: '' @ py_join '', '' mismatches)))"

fun classify_failure :: "scm_exception \<Rightarrow> scm_failure_code \<times> bool" where
  "classify_failure (TypedFailure c retryable m) = (c, retryable)"
| "classify_failure (TimedOut m) = (STimeout, True)"
| "classify_failure (ResultMismatch m) = (SResultMismatch, False)"
| "classify_failure (ServiceRaised e) = (if is_value_error e then SWorkspaceState else SUnexpected, False)"
| "classify_failure (Other ty value_error m) = (if value_error then SWorkspaceState else SUnexpected, False)"

text \<open>The body of the \<^verbatim>\<open>try\<close>.\<close>

definition scm_publish ::
    "scm_runtime \<Rightarrow> runtime_phase environment \<Rightarrow> scm_publication \<Rightarrow> (scm_exception, scm_publication_result) process" where
  "scm_publish u env p =
     pbind (transaction ServiceRaised env ReadExecution (\<lambda>_. external_required_id (sp_external_execution_id p))) (\<lambda>x.
       case scm_request u p x of
         Inl e \<Rightarrow> praise (ServiceRaised e)
       | Inr request \<Rightarrow> (case publish_review (su_publishers u) (sp_provider_key p) request of
           Inl e \<Rightarrow> praise e
         | Inr r \<Rightarrow> (case validate_result p r of Inl e \<Rightarrow> praise e | Inr r \<Rightarrow> preturn r)))"

definition scm_failure_of ::
    "scm_runtime \<Rightarrow> runtime_phase environment \<Rightarrow> scm_publication \<Rightarrow> scm_exception \<Rightarrow> scm_failure" where
  "scm_failure_of u env p e =
     (let (code, retryable) = classify_failure e in
      \<lparr>sf_reason = reported_text ''ScmPublisherFailure'' e, sf_code = code, sf_retryable = retryable,
       sf_automatic_retry_limit = rt_limit (su_retries u),
       sf_next_attempt_at = (if retryable
         then next_attempt_at (su_retries u) (sp_attempt_count p) (en_now env Schedule) else None)\<rparr>)"

definition scm_settle ::
    "scm_runtime \<Rightarrow> runtime_phase environment \<Rightarrow> scm_publication \<Rightarrow> uuid \<Rightarrow> (error, bool) process" where
  "scm_settle u env p tok =
     attempt (scm_publish u env p)
       (\<lambda>e. pbind (transaction id env Settle (publication_fail (sp_id p) tok (scm_failure_of u env p e)))
         (\<lambda>_. preturn True))
       (\<lambda>r. pbind (transaction id env Settle (publication_succeed (sp_id p) tok (scm_result_dict r)))
         (\<lambda>_. preturn True))"

definition scm_run_once :: "scm_runtime \<Rightarrow> runtime_phase environment \<Rightarrow> (error, bool) process" where
  "scm_run_once u env =
     pbind (scm_claim_first u env (sort (supported_keys (su_publishers u)))) (\<lambda>claim.
       case claim of None \<Rightarrow> preturn False
       | Some p \<Rightarrow> (case sp_lease_token p of
           None \<Rightarrow> praise (RuntimeError ''claimed SCM publication has no lease token'')
         | Some tok \<Rightarrow> scm_settle u env p tok))"

text \<open>\<^verbatim>\<open>run\<close>: one environment per poll.\<close>

fun scm_run :: "scm_runtime \<Rightarrow> runtime_phase environment list \<Rightarrow> (error, unit) process" where
  "scm_run u [] = preturn ()"
| "scm_run u (env # envs) = pbind (scm_run_once u env) (\<lambda>_. scm_run u envs)"

section \<open>The notification worker\<close>

record notification_request =
  nq_delivery_id :: uuid
  nq_project_id :: uuid
  nq_event_type :: notification_event_type
  nq_destination_ref :: string
  nq_payload :: json_object
  nq_idempotency_key :: string

type_synonym notification_exception = "notification_failure_code provider_exception"
type_synonym notification_provider = "notification_request \<Rightarrow> notification_exception + json_object"

definition deliver ::
    "notification_provider registry \<Rightarrow> string \<Rightarrow> notification_request \<Rightarrow> notification_exception + json_object" where
  "deliver reg key request =
     (case map_of reg key of
        None \<Rightarrow> Inl (Other ''NotificationProviderNotFoundError'' False (''notification provider is not registered: '' @ key))
      | Some adapter \<Rightarrow> adapter request)"

record notification_runtime =
  nu_worker_id :: string
  nu_providers :: "notification_provider registry"
  nu_poll_interval :: int
  nu_lease_seconds :: int
  nu_delivery_timeout :: int
  nu_retries :: retry_policy

definition notification_runtime_init :: "notification_runtime \<Rightarrow> notification_runtime result" where
  "notification_runtime_init u =
     (if blank (nu_worker_id u) then Inl (ValueError ''notification worker id must not be empty'')
      else if supported_keys (nu_providers u) = []
      then Inl (ValueError ''notification worker requires at least one provider'')
      else if nu_poll_interval u \<le> 0 \<or> nu_lease_seconds u \<le> 0 \<or> nu_delivery_timeout u \<le> 0
      then Inl (ValueError ''notification worker intervals must be positive'')
      else if seconds (nu_lease_seconds u) \<le> nu_delivery_timeout u
      then Inl (ValueError ''notification delivery timeout must be shorter than its lease'')
      else rbind (check_retries ''notification'' ''notification'' notification_max_automatic_retry_limit (nu_retries u)) (\<lambda>_.
        Inr (u\<lparr>nu_worker_id := py_strip (nu_worker_id u)\<rparr>)))"

fun notification_claim_first ::
    "notification_runtime \<Rightarrow> runtime_phase environment \<Rightarrow> string list \<Rightarrow> (error, notification_delivery option) process" where
  "notification_claim_first u env [] = preturn None"
| "notification_claim_first u env (key # keys) =
     pbind (transaction id env (ClaimOf key)
       (delivery_claim_next (nu_worker_id u) key (nu_lease_seconds u))) (\<lambda>claim.
       case claim of None \<Rightarrow> notification_claim_first u env keys | Some p \<Rightarrow> preturn (Some p))"

fun failure_code :: "notification_exception \<Rightarrow> notification_failure_code" where
  "failure_code (TypedFailure c retryable m) = c"
| "failure_code (TimedOut m) = NTimeout"
| "failure_code e = NUnexpected"

definition notification_request_of :: "notification_delivery \<Rightarrow> notification_request" where
  "notification_request_of p =
     \<lparr>nq_delivery_id = nl_id p, nq_project_id = nl_project_id p, nq_event_type = nl_event_type p,
      nq_destination_ref = nl_destination_ref p, nq_payload = nl_payload p,
      nq_idempotency_key = nl_idempotency_key p\<rparr>"

definition notification_failure_of ::
    "notification_runtime \<Rightarrow> runtime_phase environment \<Rightarrow> notification_delivery \<Rightarrow> notification_exception
       \<Rightarrow> notification_failure" where
  "notification_failure_of u env p e =
     (let code = failure_code e; retryable = code \<in> {NProviderUnavailable, NTimeout} in
      \<lparr>nf_reason = reported_text ''NotificationProviderFailure'' e, nf_code = code, nf_retryable = retryable,
       nf_automatic_retry_limit = rt_limit (nu_retries u),
       nf_next_attempt_at = (if retryable
         then next_attempt_at (nu_retries u) (nl_attempt_count p) (en_now env Schedule) else None)\<rparr>)"

definition notification_settle ::
    "notification_runtime \<Rightarrow> runtime_phase environment \<Rightarrow> notification_delivery \<Rightarrow> uuid \<Rightarrow> (error, bool) process" where
  "notification_settle u env p tok =
     (case deliver (nu_providers u) (nl_provider_key p) (notification_request_of p) of
        Inl e \<Rightarrow> pbind (transaction id env Settle (delivery_fail (nl_id p) tok (notification_failure_of u env p e)))
          (\<lambda>_. preturn True)
      | Inr res \<Rightarrow> pbind (transaction id env Settle (delivery_succeed (nl_id p) tok res)) (\<lambda>_. preturn True))"

definition notification_run_once :: "notification_runtime \<Rightarrow> runtime_phase environment \<Rightarrow> (error, bool) process" where
  "notification_run_once u env =
     pbind (notification_claim_first u env (sort (supported_keys (nu_providers u)))) (\<lambda>claim.
       case claim of None \<Rightarrow> preturn False
       | Some p \<Rightarrow> (case nl_lease_token p of
           None \<Rightarrow> praise (RuntimeError ''claimed notification delivery has no lease token'')
         | Some tok \<Rightarrow> notification_settle u env p tok))"

fun notification_run :: "notification_runtime \<Rightarrow> runtime_phase environment list \<Rightarrow> (error, unit) process" where
  "notification_run u [] = preturn ()"
| "notification_run u (env # envs) = pbind (notification_run_once u env) (\<lambda>_. notification_run u envs)"

section \<open>The failures a poll reports are accepted\<close>

lemma reported_nonblank: "\<not> blank (exception_text e) \<Longrightarrow> \<not> blank (reported_text typed e)"
  by (auto simp: reported_text_def)

lemma next_attempt_allowed: "next_attempt_at r n now \<noteq> None \<Longrightarrow> n \<le> rt_limit r"
  by (auto simp: next_attempt_at_def split: if_splits)

lemma scm_failure_accepted:
  assumes "\<not> blank (exception_text e)" "0 \<le> rt_limit (su_retries u)"
    "rt_limit (su_retries u) \<le> scm_max_automatic_retry_limit"
  shows "sp_failure_ok p (scm_failure_of u env p e)"
  using assms next_attempt_allowed[of "su_retries u" "sp_attempt_count p" "en_now env Schedule"]
  by (simp add: sp_failure_ok_def scm_failure_of_def reported_nonblank split: prod.splits)

lemma notification_failure_accepted:
  assumes "\<not> blank (exception_text e)" "0 \<le> rt_limit (nu_retries u)"
    "rt_limit (nu_retries u) \<le> notification_max_automatic_retry_limit"
  shows "nl_failure_ok p (notification_failure_of u env p e)"
  using assms next_attempt_allowed[of "nu_retries u" "nl_attempt_count p" "en_now env Schedule"]
  by (simp add: nl_failure_ok_def notification_failure_of_def reported_nonblank Let_def)

section \<open>Delivery workers only take steps of the services\<close>

lemma transaction_composed:
  "(\<And>p db. service_step\<^sup>*\<^sup>* db (en_other env p db)) \<Longrightarrow> within service_step\<^sup>*\<^sup>* (call (en_now env q))
     \<Longrightarrow> commits.run_within (transaction raised env q call)"
  by (rule commits.run_within_transaction)

lemma scm_run_once_within:
  assumes "\<And>p db. service_step\<^sup>*\<^sup>* db (en_other env p db)"
  shows "commits.run_within (scm_run_once u env)"
proof -
  have "commits.run_within (scm_claim_first u env keys)" for keys
    by (induction keys) (auto intro!: commits.process_rules transaction_composed assms composed.o_publications)
  moreover have "commits.run_within (scm_publish u env p)" for p
    unfolding scm_publish_def external_required_id_def
    by (intro commits.process_rules transaction_composed assms composed.ops_rules)
  ultimately show ?thesis
    unfolding scm_run_once_def scm_settle_def
    by (intro commits.process_rules transaction_composed assms composed.o_publications)
qed

lemma notification_run_once_within:
  assumes "\<And>p db. service_step\<^sup>*\<^sup>* db (en_other env p db)"
  shows "commits.run_within (notification_run_once u env)"
proof -
  have "commits.run_within (notification_claim_first u env keys)" for keys
    by (induction keys) (auto intro!: commits.process_rules transaction_composed assms composed.o_notifications)
  then show ?thesis
    unfolding notification_run_once_def notification_settle_def
    by (intro commits.process_rules transaction_composed assms composed.o_notifications)
qed

end
