(* ===== verification/Worker_Runtime.thy ===== *)
theory Worker_Runtime
  imports Runtime_Process Py_Json
begin

text \<open>
  \<^verbatim>\<open>worker/runtime.py\<close>: one poll of a task worker. It recovers an expired lease, claims a ready task,
  materializes its skills, reserves its budget, runs the executor under a heartbeat, settles the budget
  and reports the result, or reports the failure and forfeits the reservation. Every service call is a
  transaction of its own.

  The executor adapter, the skill materializer and \<^verbatim>\<open>asyncio.wait\<close> are what the runtime observes of
  them: the record \<open>observed\<close>. Exceptions of the services are \<open>Raised\<close>; those of an executor, of a
  materializer or of a provider's cancellation carry their text.
\<close>

section \<open>Exceptions\<close>

datatype worker_failure =
    SkillMaterializationError string
  | ExecutorTimedOut string
  | ExecutorHeartbeatError string
  | WorkerStopRequested string
  | RuntimeCancelled
  | Raised error
  | ExecutorRaised string

fun failure_text :: "worker_failure \<Rightarrow> string" where
  "failure_text (SkillMaterializationError m) = m"
| "failure_text (ExecutorTimedOut m) = m"
| "failure_text (ExecutorHeartbeatError m) = m"
| "failure_text (WorkerStopRequested m) = m"
| "failure_text RuntimeCancelled = []"
| "failure_text (Raised e) = error_message e"
| "failure_text (ExecutorRaised m) = m"

text \<open>The reason each \<^verbatim>\<open>except\<close> clause of \<^verbatim>\<open>run_once\<close> reports.\<close>

fun failure_reason :: "worker_failure \<Rightarrow> string" where
  "failure_reason (SkillMaterializationError m) = ''skill materialization failed: '' @ m"
| "failure_reason (Raised (BudgetLimitExceeded m)) = ''budget reservation failed: '' @ m"
| "failure_reason (Raised (BudgetUsageRequired m)) = ''budget settlement failed: '' @ m"
| "failure_reason (ExecutorTimedOut m) = (if m = [] then ''executor timed out'' else m)"
| "failure_reason (ExecutorHeartbeatError m) = m"
| "failure_reason (WorkerStopRequested m) = m"
| "failure_reason RuntimeCancelled = ''worker runtime cancelled''"
| "failure_reason e = ''executor failed: '' @ failure_text e"

section \<open>Cancelling an executor\<close>

datatype provider_cancellation =
    ProviderTimedOut | ProviderCancelled | ProviderFailed string | ProviderDone

record cancellation =
  cl_local_done :: bool
  cl_provider :: provider_cancellation

definition cancellation_errors :: "cancellation \<Rightarrow> string list" where
  "cancellation_errors c =
     (if cl_local_done c then [] else [''local executor task did not stop before cancellation timeout'']) @
     (case cl_provider c of
        ProviderTimedOut \<Rightarrow> [''provider cancellation timed out'']
      | ProviderCancelled \<Rightarrow> [''provider cancellation was cancelled'']
      | ProviderFailed m \<Rightarrow> [''provider cancellation failed: '' @ m]
      | ProviderDone \<Rightarrow> [])"

definition cancel_executor :: "cancellation \<Rightarrow> string option" where
  "cancel_executor c =
     (case py_join ''; '' (cancellation_errors c) of [] \<Rightarrow> None | joined \<Rightarrow> Some joined)"

definition with_cancellation_error :: "string \<Rightarrow> string option \<Rightarrow> string" where
  "with_cancellation_error reason e =
     (case e of None \<Rightarrow> reason | Some m \<Rightarrow> if m = [] then reason else reason @ ''; '' @ m)"

section \<open>Running an executor under a heartbeat\<close>

text \<open>What happens in the database while the executor runs: other processes commit, and the heartbeat
  task renews the lease, until a renewal raises.\<close>

datatype meanwhile = OthersCommit "db \<Rightarrow> db" | HeartbeatAt time

fun others_commit :: "meanwhile list \<Rightarrow> db \<Rightarrow> db" where
  "others_commit [] db = db"
| "others_commit (OthersCommit f # ms) db = others_commit ms (f db)"
| "others_commit (HeartbeatAt t # ms) db = others_commit ms db"

fun heartbeats :: "int \<Rightarrow> task_claim \<Rightarrow> meanwhile list \<Rightarrow> (error, unit) process" where
  "heartbeats grace claim [] db = (Inr (), db)"
| "heartbeats grace claim (OthersCommit f # ms) db = heartbeats grace claim ms (f db)"
| "heartbeats grace claim (HeartbeatAt t # ms) db =
     (case dispatch_heartbeat grace claim None t db of
        Inl e \<Rightarrow> (Inl e, others_commit ms db)
      | Inr (_, db') \<Rightarrow> heartbeats grace claim ms db')"

text \<open>\<open>ob_result\<close> is the executor task's result when it was done by the time \<^verbatim>\<open>asyncio.wait\<close> returned;
  with neither a result nor a stop request the wait timed out. \<open>ob_cancelled\<close> is a cancellation of the
  runtime itself during the wait. \<^verbatim>\<open>_heartbeat\<close> has no way out of its loop but an exception. While the executor is being cancelled (\<open>ob_cancelling\<close>) the heartbeat
  task, if it did not fail, goes on, and what it raises then is suppressed.\<close>

record observed =
  ob_meanwhile :: "meanwhile list"
  ob_cancelling :: "meanwhile list"
  ob_result :: "(worker_failure + task_result) option"
  ob_stop :: bool
  ob_cancelled :: bool
  ob_cancellation :: cancellation

definition monitored ::
    "observed \<Rightarrow> error option \<Rightarrow> worker_failure + task_result" where
  "monitored ob heartbeat =
     (if ob_cancelled ob then Inl RuntimeCancelled
      else case heartbeat of
        Some e \<Rightarrow> Inl (ExecutorHeartbeatError (with_cancellation_error
          (''executor heartbeat failed: '' @ error_message e) (cancel_executor (ob_cancellation ob))))
      | None \<Rightarrow> (case ob_result ob of
          Some r \<Rightarrow> r
        | None \<Rightarrow>
            if ob_stop ob
            then Inl (WorkerStopRequested (with_cancellation_error
              ''worker stop requested during executor run'' (cancel_executor (ob_cancellation ob))))
            else Inl (ExecutorTimedOut (with_cancellation_error
              ''executor timed out'' (cancel_executor (ob_cancellation ob))))))"

definition execute_with_lease ::
    "int \<Rightarrow> observed \<Rightarrow> task_claim \<Rightarrow> (worker_failure, task_result) process" where
  "execute_with_lease grace ob claim db =
     (case heartbeats grace claim (ob_meanwhile ob) db of
        (Inl e, db') \<Rightarrow> (monitored ob (Some e), others_commit (ob_cancelling ob) db')
      | (Inr _, db') \<Rightarrow> (monitored ob None, snd (heartbeats grace claim (ob_cancelling ob) db')))"

section \<open>One poll\<close>

record materialized_skill =
  mk_key :: string
  mk_version :: int
  mk_root_path :: string
  mk_entrypoint_path :: string
  mk_content_digest :: string

record worker_config =
  wc_worker_id :: string
  wc_supported_keys :: "string list"
  wc_lease_grace_seconds :: int
  wc_materialize_all :: "(skill_definition list \<Rightarrow> worker_failure + materialized_skill list) option"
  wc_budgets :: bool
  wc_iter_errors :: "json_object \<Rightarrow> json_object \<Rightarrow> schema_error list"

text \<open>The intervals are microseconds.\<close>

definition worker_init :: "string \<Rightarrow> int \<Rightarrow> int \<Rightarrow> int \<Rightarrow> unit result" where
  "worker_init worker_id poll_interval heartbeat_interval cancellation_timeout =
     (if blank worker_id then Inl (ValueError ''worker_id must not be empty'')
      else if poll_interval \<le> 0 then Inl (ValueError ''poll_interval_seconds must be greater than zero'')
      else if heartbeat_interval \<le> 0 then Inl (ValueError ''heartbeat_interval_seconds must be greater than zero'')
      else if cancellation_timeout \<le> 0
        then Inl (ValueError ''cancellation_timeout_seconds must be greater than zero'')
      else Inr ())"

text \<open>The dictionary \<^verbatim>\<open>skill_paths\<close>; a later entry replaces the value of an equal key.\<close>

fun path_put :: "(string \<times> string) list \<Rightarrow> string \<Rightarrow> string \<Rightarrow> (string \<times> string) list" where
  "path_put [] k v = [(k, v)]"
| "path_put ((k', v') # kvs) k v = (if k' = k then (k, v) # kvs else (k', v') # path_put kvs k v)"

definition skill_paths :: "materialized_skill list \<Rightarrow> (string \<times> string) list" where
  "skill_paths skills =
     foldl (\<lambda>kvs s. path_put kvs (mk_key s @ ''@'' @ str_int (mk_version s)) (mk_entrypoint_path s)) [] skills"

definition materialize_claim :: "worker_config \<Rightarrow> task_claim \<Rightarrow> worker_failure + task_claim" where
  "materialize_claim wc claim =
     (if tc_skills claim = [] then Inr claim
      else case wc_materialize_all wc of
        None \<Rightarrow> Inl (SkillMaterializationError ''worker has no skill materializer configured'')
      | Some materialize_all \<Rightarrow> (case materialize_all (tc_skills claim) of
          Inl e \<Rightarrow> Inl e
        | Inr skills \<Rightarrow> Inr (claim\<lparr>tc_skill_paths := skill_paths skills\<rparr>)))"

datatype worker_phase = AtRecovery | AtClaim | AtReserve | AtSettle | AtReport | AtForfeit

definition worker_fail ::
    "worker_config \<Rightarrow> worker_phase environment \<Rightarrow> task_claim \<Rightarrow> string \<Rightarrow> budget_reservation option
       \<Rightarrow> (worker_failure, unit) process" where
  "worker_fail wc env claim reason reservation =
     pbind (transaction Raised env AtReport (dispatch_fail claim reason None)) (\<lambda>execution.
       case we_nodes execution (tc_node_key claim) of
         None \<Rightarrow> praise (Raised (KeyError (tc_node_key claim)))
       | Some n \<Rightarrow>
           if ne_status n = NFailed \<and> wc_budgets wc
           then pbind (transaction Raised env AtForfeit (budget_forfeit claim reservation)) (\<lambda>_. preturn ())
           else preturn ())"

text \<open>The \<^verbatim>\<open>except\<close> clauses: the failure is reported, and a cancellation of the runtime re-raised.\<close>

definition worker_handler ::
    "worker_config \<Rightarrow> worker_phase environment \<Rightarrow> task_claim \<Rightarrow> budget_reservation option
       \<Rightarrow> worker_failure \<Rightarrow> (worker_failure, bool) process" where
  "worker_handler wc env claim reservation e =
     pbind (worker_fail wc env claim (failure_reason e) reservation) (\<lambda>_.
       if e = RuntimeCancelled then praise RuntimeCancelled else preturn True)"

definition worker_reserve ::
    "worker_config \<Rightarrow> worker_phase environment \<Rightarrow> task_claim
       \<Rightarrow> (worker_failure, budget_reservation option) process" where
  "worker_reserve wc env claim =
     (if wc_budgets wc then transaction Raised env AtReserve (budget_reserve claim) else preturn None)"

definition worker_execute ::
    "worker_config \<Rightarrow> worker_phase environment \<Rightarrow> observed \<Rightarrow> task_claim \<Rightarrow> budget_reservation option
       \<Rightarrow> (worker_failure, task_result) process" where
  "worker_execute wc env ob claim reservation =
     pbind (execute_with_lease (wc_lease_grace_seconds wc) ob claim) (\<lambda>result.
       if wc_budgets wc
       then pbind (transaction Raised env AtSettle (budget_settle claim reservation (tr_usage result)))
         (\<lambda>_. preturn result)
       else preturn result)"

definition worker_task ::
    "worker_config \<Rightarrow> worker_phase environment \<Rightarrow> observed \<Rightarrow> task_claim \<Rightarrow> (worker_failure, bool) process" where
  "worker_task wc env ob claim0 =
     (case materialize_claim wc claim0 of
        Inl e \<Rightarrow> worker_handler wc env claim0 None e
      | Inr claim \<Rightarrow>
          attempt (worker_reserve wc env claim) (worker_handler wc env claim None) (\<lambda>reservation.
          attempt (worker_execute wc env ob claim reservation) (worker_handler wc env claim reservation) (\<lambda>result.
          pbind (transaction Raised env AtReport (dispatch_complete (wc_iter_errors wc) claim result None)) (\<lambda>_.
            preturn True))))"

definition worker_run_once ::
    "worker_config \<Rightarrow> worker_phase environment \<Rightarrow> observed \<Rightarrow> (worker_failure, bool) process" where
  "worker_run_once wc env ob =
     pbind (transaction Raised env AtRecovery (recover_expired None)) (\<lambda>_.
     pbind (transaction Raised env AtClaim (claim_next (wc_lease_grace_seconds wc) (wc_worker_id wc)
       (Some (wc_supported_keys wc)) None)) (\<lambda>claim.
       case claim of None \<Rightarrow> preturn False | Some c \<Rightarrow> worker_task wc env ob c))"

text \<open>The loop of \<^verbatim>\<open>run\<close>: one environment for every poll until \<^verbatim>\<open>stop\<close> is set.\<close>

fun worker_run ::
    "worker_config \<Rightarrow> (worker_phase environment \<times> observed) list \<Rightarrow> (worker_failure, unit) process" where
  "worker_run wc [] = preturn ()"
| "worker_run wc ((env, ob) # polls) = pbind (worker_run_once wc env ob) (\<lambda>_. worker_run wc polls)"

end
