(* ===== verification/Worker_Correctness.thy ===== *)
theory Worker_Correctness
  imports Worker_Runtime System_Theorems
begin

text \<open>
  The worker runtime against the services: whatever the executor, its materializer and the other
  processes do, a worker only takes steps of the services, so every invariant of the system holds around
  it; a worker that still holds its lease can report any failure; and one that lost its task while it
  executed it can report nothing and leaves its loop with the exception of its report.
\<close>

section \<open>Workers only take steps of the services\<close>


definition others_ok :: "'p environment \<Rightarrow> bool" where
  "others_ok env \<longleftrightarrow> (\<forall>p db. service_step\<^sup>*\<^sup>* db (en_other env p db))"













text \<open>A session of the repair workflow, claimed by nobody yet, and a worker whose executor succeeds.\<close>

definition ex_worker :: worker_config where
  "ex_worker = \<lparr>wc_worker_id = ''w1'', wc_supported_keys = [''default''], wc_lease_grace_seconds = 30,
     wc_materialize_all = None, wc_budgets = True, wc_iter_errors = (\<lambda>_ _. [])\<rparr>"

definition ex_alone :: "worker_phase environment" where
  "ex_alone = \<lparr>en_now = (\<lambda>_. 30), en_other = (\<lambda>_ db. db)\<rparr>"

definition ex_succeeding :: observed where
  "ex_succeeding = \<lparr>ob_meanwhile = [HeartbeatAt 30], ob_cancelling = [],
     ob_result = Some (Inr \<lparr>tr_outcome = OSuccess, tr_output = [], tr_usage = None\<rparr>),
     ob_stop = False, ob_cancelled = False,
     ob_cancellation = \<lparr>cl_local_done = True, cl_provider = ProviderDone\<rparr>\<rparr>"




section \<open>Reporting\<close>

lemma dispatch_fail_returns:
  assumes "system_ok db" "ex0 \<in> set (t_executions db)" "we_id ex0 = tc_execution_id claim"
    "we_nodes ex0 (tc_node_key claim) = Some n" "ne_status n = NRunning"
    "ne_lease_token n = Some (tc_lease_token claim)" "ne_lease_expires_at n = Some e" "t < e"
  obtains ex m db' where "dispatch_fail claim reason None t db = Inr (ex, db')"
    "we_nodes ex (tc_node_key claim) = Some m" "ne_status m \<noteq> NRunning"
proof -
  have so: "stored_ok ex0" using assms(1,2) by (auto simp: system_ok_def system_core_def)
  have g: "executions_get (tc_execution_id claim) db = Some ex0" using stored_get[OF assms(1,2)] assms(3) by simp
  from handle_task_failure_returns[OF stored_inv[OF so] assms(4)] obtain ex where
    h: "handle_task_failure ex0 (tc_node_key claim) n reason t = Inr ex" by blast
  have "validate_optional_lease n (Some (tc_lease_token claim)) t = Inr ()"
    using assms(6-8) by (simp add: validate_lease_Some)
  then have f: "fail_task ex0 (tc_node_key claim) reason (Some (tc_lease_token claim)) (Some t) t = Inr ex"
    using assms(4,5) h by (simp add: fail_task_def node_execution_of_def of_option_def at_or_now_def)
  from save_transition_returns[OF assms(1,2) es_fail[OF f], of "''task.failed''"
      "[(''node_key'', JStr (tc_node_key claim)), (''worker_id'', JStr (tc_worker_id claim)), (''reason'', JStr reason)]" t]
  obtain db' where "dispatch_fail claim reason None t db = Inr (ex, db')"
    by (auto simp: dispatch_fail_def sbind_apply get_execution_def sneed_def g slift_def f at_or_now_def)
  moreover obtain m where "we_nodes ex (tc_node_key claim) = Some m" "ne_status m \<noteq> NRunning"
    using h by (auto simp: handle_task_failure_def put_node_def touch_def fail_execution_def cancel_active_nodes_def
      cancel_node_def clear_lease_def active_def split: if_splits)
  ultimately show thesis by (rule that)
qed

text \<open>C13. A worker that still holds its lease can report any failure: in every reachable database, for every
  exception of the poll that left no reservation to forfeit, the report commits, the task is no longer
  running, and the poll ends as worked (a cancellation of the runtime itself is re-raised).\<close>

theorem worker_reports_failure:
  assumes "reachable_db (en_other env AtReport db)" "ex \<in> set (t_executions (en_other env AtReport db))"
    "we_id ex = tc_execution_id claim" "we_nodes ex (tc_node_key claim) = Some n" "ne_status n = NRunning"
    "ne_lease_token n = Some (tc_lease_token claim)" "ne_lease_expires_at n = Some expires"
    "en_now env AtReport < expires" "others_ok env"
  shows "\<exists>ex' m db1 db'. dispatch_fail claim (failure_reason e) None (en_now env AtReport) (en_other env AtReport db)
      = Inr (ex', db1) \<and> we_nodes ex' (tc_node_key claim) = Some m \<and> ne_status m \<noteq> NRunning
    \<and> worker_handler wc env claim None e db
      = (if e = RuntimeCancelled then Inl RuntimeCancelled else Inr True, db') \<and> service_step\<^sup>*\<^sup>* db1 db'"
proof -
  obtain ex' m db1 where f: "dispatch_fail claim (failure_reason e) None (en_now env AtReport) (en_other env AtReport db)
      = Inr (ex', db1)" "we_nodes ex' (tc_node_key claim) = Some m" "ne_status m \<noteq> NRunning"
    by (rule dispatch_fail_returns[OF reachable_ok[OF assms(1)] assms(2-8)])
  let ?forfeits = "ne_status m = NFailed \<and> wc_budgets wc"
  have "worker_handler wc env claim None e db = (if e = RuntimeCancelled then Inl RuntimeCancelled else Inr True,
      if ?forfeits then en_other env AtForfeit db1 else db1)"
    using f(1,2) by (simp add: worker_handler_def worker_fail_def pbind_def attempt_def transaction_def transact_def Let_def
        budget_forfeit_def sreturn_def)
  moreover have "service_step\<^sup>*\<^sup>* db1 (en_other env AtForfeit db1)" using assms(9) by (simp add: others_ok_def)
  ultimately show ?thesis using f by auto
qed

theorem worker_reports_failure_witness:
  "\<exists>c db ex' m db1. ex_claimed = Inr (Some c, db)
     \<and> dispatch_fail c ''executor timed out'' None 30 db = Inr (ex', db1)
     \<and> we_nodes ex' (tc_node_key c) = Some m \<and> ne_status m \<noteq> NRunning"
proof -
  obtain c db ex n e where s: "ex_claimed = Inr (Some c, db)" "reachable_db db" "ex \<in> set (t_executions db)"
    "we_id ex = tc_execution_id c" "we_status ex = WRunning" "we_nodes ex (tc_node_key c) = Some n"
    "ne_status n = NRunning" "ne_lease_token n = Some (tc_lease_token c)" "ne_lease_expires_at n = Some e" "40 < e"
    "tc_visit_count c = 1" by (rule ex_claimed_reachable)
  have "en_now ex_alone AtReport < e" "others_ok ex_alone" "en_other ex_alone AtReport db = db"
    using s(10) by (simp_all add: ex_alone_def others_ok_def)
  with worker_reports_failure[of ex_alone db ex c n e "ExecutorTimedOut []" ex_worker] s
  show ?thesis by (auto simp: ex_alone_def)
qed

text \<open>C14. A worker whose task is gone cannot report it. When other processes end the execution while the
  worker executes the task (its run is cancelled, a sibling task fails for good), neither the result nor a
  failure can be stored: \<open>complete\<close> or the report of the failure raises, nothing catches it, and the
  poll leaves the worker's loop with that exception, so that one cancelled run stops the worker process.\<close>

theorem lost_task_stops_worker:
  assumes "en_other env AtReport = (\<lambda>_. db)" "reachable_db db" "ex \<in> set (t_executions db)"
    "we_id ex = tc_execution_id claim" "is_terminal ex"
  shows "\<exists>err. worker_task wc env ob claim db0 = (Inl (Raised err), db)"
proof -
  have g: "executions_get (tc_execution_id claim) db = Some ex"
    using stored_get[OF reachable_ok[OF assms(2)] assms(3)] assms(4) by simp
  have inv: "exec_inv ex"
    using reachable_ok[OF assms(2)] assms(3) stored_inv by (auto simp: system_ok_def system_core_def)
  have gone: "\<exists>err. fail_task ex k reason tok at now = Inl err" "\<exists>err. complete_task ex k outc outp tok at now = Inl err"
    for k reason tok at now outc outp
    using active_not_terminal(1)[OF inv] assms(5)
    by (cases "we_nodes ex k"; force simp: fail_task_def complete_task_def node_execution_of_def active_def)+
  have handler: "\<exists>err. worker_handler wc env c rv e d = (Inl (Raised err), db)"
    if i: "tc_execution_id c = tc_execution_id claim" for c rv e d
  proof -
    obtain err where "fail_task ex (tc_node_key c) (failure_reason e) (Some (tc_lease_token c))
        (Some (at_or_now None (en_now env AtReport))) (en_now env AtReport) = Inl err" using gone(1) by blast
    then have "dispatch_fail c (failure_reason e) None (en_now env AtReport) db = Inl err"
      using g i by (simp add: dispatch_fail_def sbind_apply get_execution_def sneed_def slift_def)
    then show ?thesis
      by (simp add: worker_handler_def worker_fail_def pbind_def attempt_def transaction_def transact_def Let_def assms(1))
  qed
  have complete: "\<exists>err. transaction Raised env AtReport (dispatch_complete ie c result None) d = (Inl (Raised err), db)"
    if i: "tc_execution_id c = tc_execution_id claim" for c ie result d
  proof -
    have False if "dispatch_complete ie c result None (en_now env AtReport) db = Inr (r, db')" for r db'
    proof -
      from that obtain ex' oc op where "complete_task ex (tc_node_key c) oc op (Some (tc_lease_token c))
          (Some (en_now env AtReport)) (en_now env AtReport) = Inr ex'"
        using g i by (auto simp: dispatch_complete_def get_execution_Inr Let_def at_or_now_def)
      then show False using gone(2) by (metis Inl_Inr_False)
    qed
    then show ?thesis
      by (cases "dispatch_complete ie c result None (en_now env AtReport) db") (auto simp: transaction_def transact_def assms(1))
  qed
  show ?thesis
  proof (cases "materialize_claim wc claim")
    case (Inl e)
    then show ?thesis using handler by (simp add: worker_task_def)
  next
    case (Inr c)
    then have c: "tc_execution_id c = tc_execution_id claim"
      by (auto simp: materialize_claim_def split: if_splits option.splits sum.splits)
    obtain q d where r: "worker_reserve wc env c db0 = (q, d)" by fastforce
    show ?thesis
    proof (cases q)
      case (Inl e)
      then show ?thesis using Inr r handler[OF c] by (simp add: worker_task_def attempt_def)
    next
      case (Inr rv)
      obtain x d' where x: "worker_execute wc env ob c rv d = (x, d')" by fastforce
      have "worker_task wc env ob claim db0 = (case x of Inl e \<Rightarrow> worker_handler wc env c rv e d'
        | Inr result \<Rightarrow> pbind (transaction Raised env AtReport (dispatch_complete (wc_iter_errors wc) c result None))
            (\<lambda>_. preturn True) d')"
        using \<open>materialize_claim wc claim = Inr c\<close> r Inr x
        by (simp add: worker_task_def attempt_def split: sum.split)
      moreover have "\<exists>err. pbind (transaction Raised env AtReport (dispatch_complete ie c result None)) k d'
          = (Inl (Raised err), db)" for ie result and k :: "_ \<Rightarrow> (worker_failure, bool) process"
        using complete[OF c, of ie result d'] by (auto simp: pbind_def attempt_def)
      ultimately show ?thesis using handler[OF c, of rv _ d'] by (cases x) auto
    qed
  qed
qed

text \<open>The run of the session was cancelled while a worker executed its task; the executor then succeeds.\<close>

definition ex_lost_claim :: "uuid \<Rightarrow> task_claim" where
  "ex_lost_claim i = \<lparr>tc_execution_id = i, tc_run_id = 0, tc_node_key = ''build'', tc_executor_key = ''default'',
     tc_worker_id = ''w1'', tc_lease_token = 0, tc_idempotency_key = ''key'', tc_visit_count = 1,
     tc_attempt_count = 1, tc_timeout_seconds = 600, tc_workflow_key = ''wf'', tc_workflow_version = 1,
     tc_instructions = None, tc_configuration = [], tc_skills = [], tc_phase_pack = None, tc_context = None,
     tc_model_selection = None, tc_skill_paths = []\<rparr>"

theorem lost_task_stops_worker_witness:
  "\<exists>r db i err. ex_session = Inr (r, db) \<and> worker_task ex_worker (ex_alone\<lparr>en_other := (\<lambda>_ _. db)\<rparr>) ex_succeeding
     (ex_lost_claim i) empty_db = (Inl (Raised err), db)"
proof -
  obtain r db where s: "ex_session = Inr (r, db)" "reachable_db db" "map we_status (t_executions db) = [WCancelled]"
    "length (t_events db) = 8" by (rule ex_session_reachable)
  then obtain ex where ex: "ex \<in> set (t_executions db)" "we_status ex = WCancelled" by auto
  then have "we_id ex = tc_execution_id (ex_lost_claim (we_id ex))" "is_terminal ex"
    by (simp_all add: ex_lost_claim_def workflow_terminal_def)
  from lost_task_stops_worker[OF _ s(2) ex(1) this, of "ex_alone\<lparr>en_other := (\<lambda>_ _. db)\<rparr>" ex_worker ex_succeeding empty_db]
    s(1) show ?thesis by auto
qed

end
