(* ===== verification/System_Composition.thy ===== *)
theory System_Composition
  imports Delivery_Runtimes Worker_Correctness
begin

text \<open>
  The whole system: the engine's services, the services around it and workers, interleaved in any order.
\<close>





section \<open>Delivery workers\<close>




text \<open>Providers that always time out.\<close>

definition ex_retries :: retry_policy where
  "ex_retries = \<lparr>rt_limit = 3, rt_base_delay = seconds 30, rt_max_delay = seconds 300\<rparr>"

definition ex_scm_runtime :: scm_runtime where
  "ex_scm_runtime = \<lparr>su_worker_id = ''s1'', su_workspace_scope = ''local'',
     su_publishers = [(''github'', \<lambda>_. Inl (TimedOut []))], su_poll_interval = 1000000, su_lease_seconds = 300,
     su_operation_timeout = seconds 240, su_retries = ex_retries\<rparr>"




text \<open>C21. Automatic retries back off exponentially: after the \<open>n\<close>th attempt the next one is scheduled
  \<open>base * 2^(n-1)\<close> later, never less than the base delay and never more than the cap, as long as the limit
  of attempts is not used up, and not at all afterwards. Stopping the doubling at the cap, as the code does,
  changes nothing.\<close>

theorem retries_back_off:
  assumes "scm_runtime_init u = Inr u'" "1 \<le> n"
  shows "next_attempt_at (su_retries u') n now =
      (if n \<le> rt_limit (su_retries u)
       then Some (now + min (rt_base_delay (su_retries u) * 2 ^ nat (n - 1)) (rt_max_delay (su_retries u))) else None)
    \<and> (\<forall>t. next_attempt_at (su_retries u') n now = Some t \<longrightarrow>
      now + rt_base_delay (su_retries u) \<le> t \<and> t \<le> now + rt_max_delay (su_retries u))"
proof -
  have u: "su_retries u' = su_retries u" "0 < rt_base_delay (su_retries u)"
    "rt_base_delay (su_retries u) \<le> rt_max_delay (su_retries u)"
    using assms(1) by (auto simp: scm_runtime_init_def check_retries_def split: if_splits)
  have "rt_base_delay (su_retries u) * 1 \<le> rt_base_delay (su_retries u) * 2 ^ nat (n - 1)"
    using u(2) by (intro mult_left_mono) auto
  with u assms(2) show ?thesis by (simp add: next_attempt_at_def retry_delay_reference)
qed

theorem retries_back_off_witness:
  "\<exists>v. scm_runtime_init ex_scm_runtime = Inr v
     \<and> next_attempt_at (su_retries v) 2 100 = Some (100 + seconds 60) \<and> next_attempt_at (su_retries v) 4 100 = None"
proof -
  obtain v where v: "scm_runtime_init ex_scm_runtime = Inr v"
    by (auto simp: scm_runtime_init_def check_retries_def ex_scm_runtime_def ex_retries_def supported_keys_def
      blank_def py_strip_def scm_max_automatic_retry_limit_def seconds_def is_space_def)
  from retries_back_off[OF v, of 2 100] retries_back_off[OF v, of 4 100] v show ?thesis
    by (simp add: ex_scm_runtime_def ex_retries_def seconds_def)
qed

text \<open>Which failures of a publication the runtime can store: with the lease still its own, the report is
  accepted exactly when the text of the exception is empty (the type's name takes its place) or holds more
  than white space. A text of white space only is neither replaced nor accepted: the report raises, the
  exception leaves the loop of the publication worker, and the publication stays claimed until its lease
  runs out.\<close>

lemma blank_failure_text_rejected:
  assumes "scm_runtime_init u = Inr u'" "sp_status q = SClaimed" "sp_lease_token q = Some tok"
    "sp_attempt_count q = sp_attempt_count p" "\<not> blank (exception_type ''ScmPublisherFailure'' e)"
  shows "(\<exists>q'. sp_fail q tok (scm_failure_of u' env p e) now = Inr q')
    \<longleftrightarrow> exception_text e = [] \<or> \<not> blank (exception_text e)"
proof -
  have "0 \<le> rt_limit (su_retries u')" "rt_limit (su_retries u') \<le> scm_max_automatic_retry_limit"
    using assms(1) by (auto simp: scm_runtime_init_def check_retries_def split: if_splits)
  then have "sp_failure_ok q (scm_failure_of u' env p e) \<longleftrightarrow> \<not> blank (reported_text ''ScmPublisherFailure'' e)"
    using next_attempt_allowed[of "su_retries u'" "sp_attempt_count p" "en_now env Schedule"] assms(4)
    by (simp add: sp_failure_ok_def scm_failure_of_def split: prod.splits)
  also have "\<dots> \<longleftrightarrow> exception_text e = [] \<or> \<not> blank (exception_text e)"
    using assms(5) by (simp add: reported_text_def)
  finally show ?thesis using assms(2,3) by (simp add: sp_fail_Inr)
qed

end
