(* ===== verification/Project_Observation.thy ===== *)
theory Project_Observation
  imports External_Services Notification_Services
begin

text \<open>
  \<^verbatim>\<open>application/project_observation_services.py\<close>, the repository query behind it and the tailing loops of
  \<^verbatim>\<open>api/event_streams.py\<close>: the read models of one project, and streams of the event ledger that resume
  after a cursor.
\<close>

section \<open>The events of a project\<close>

definition request_ids_of :: "uuid \<Rightarrow> db \<Rightarrow> uuid set" where
  "request_ids_of project_id db = rq_id ` {q \<in> set (t_requests db). rq_project_id q = project_id}"

definition run_ids_of :: "uuid \<Rightarrow> db \<Rightarrow> uuid set" where
  "run_ids_of project_id db = rn_id ` {r \<in> set (t_runs db). rn_request_id r \<in> request_ids_of project_id db}"

definition external_ids_of :: "uuid \<Rightarrow> db \<Rightarrow> uuid set" where
  "external_ids_of project_id db =
     xe_id ` {x \<in> set (x_external (t_ops db)). xe_run_id x \<in> run_ids_of project_id db}"

text \<open>The identifiers a project's events may have, by the type of their aggregate.\<close>

definition aggregate_ids_of :: "uuid \<Rightarrow> db \<Rightarrow> string \<Rightarrow> uuid set" where
  "aggregate_ids_of project_id db aggregate_type =
     (if aggregate_type = ''project'' then {project_id}
      else if aggregate_type = ''request'' then request_ids_of project_id db
      else if aggregate_type = ''run'' then run_ids_of project_id db
      else if aggregate_type = ''workflow_execution''
      then we_id ` {ex \<in> set (t_executions db). ws_run_id (we_snapshot ex) \<in> run_ids_of project_id db}
      else if aggregate_type = ''external_execution'' then external_ids_of project_id db
      else if aggregate_type = ''workspace_operation''
      then wo_id ` {p \<in> set (x_operations (t_ops db)). wo_external_execution_id p \<in> external_ids_of project_id db}
      else if aggregate_type = ''scm_publication''
      then sp_id ` {p \<in> set (x_publications (t_ops db)). sp_external_execution_id p \<in> external_ids_of project_id db}
      else if aggregate_type = ''budget_account''
      then ba_id ` {a \<in> set (t_accounts db). ba_project_id a = project_id}
      else if aggregate_type = ''budget_reservation''
      then br_id ` {r \<in> set (t_reservations db). br_project_id r = project_id}
      else {})"

definition project_event :: "uuid \<Rightarrow> db \<Rightarrow> domain_event \<Rightarrow> bool" where
  "project_event project_id db e \<longleftrightarrow> ev_aggregate_id e \<in> aggregate_ids_of project_id db (ev_aggregate_type e)"

definition events_list_project_after ::
    "uuid \<Rightarrow> domain_event option \<Rightarrow> nat \<Rightarrow> db \<Rightarrow> domain_event list result" where
  "events_list_project_after project_id after limit db =
     (case after of
        Some a \<Rightarrow> (case ev_sequence a of
            None \<Rightarrow> Inl (ValueError ''persisted event cursor requires a sequence'')
          | Some n \<Rightarrow> Inr (take limit (sort_key sequence_of
              (filter (\<lambda>e. project_event project_id db e \<and> n < sequence_of e) (t_events db)))))
      | None \<Rightarrow> Inr (take limit (sort_key sequence_of (filter (project_event project_id db) (t_events db)))))"

section \<open>The observation service\<close>

definition observe_projects :: "project_status option \<Rightarrow> nat \<Rightarrow> project list svc" where
  "observe_projects status limit = gets (projects_list status None limit)"

definition observe_requests :: "uuid \<Rightarrow> request_status option \<Rightarrow> nat \<Rightarrow> user_request list svc" where
  "observe_requests project_id status limit =
     sbind (project_required project_id) (\<lambda>_. gets (requests_list_by_project project_id status limit))"

definition observe_runs :: "uuid \<Rightarrow> run_status option \<Rightarrow> nat \<Rightarrow> run list svc" where
  "observe_runs request_id status limit =
     sbind (sneed (ResourceNotFound (''request not found: '' @ uuid_str request_id)) (requests_get request_id)) (\<lambda>_.
       gets (runs_list_by_request request_id status limit))"

definition observe_executions :: "uuid \<Rightarrow> workflow_status option \<Rightarrow> nat \<Rightarrow> workflow_execution list svc" where
  "observe_executions project_id status limit =
     sbind (project_required project_id) (\<lambda>_. gets (executions_list_by_project project_id status limit))"

definition observe_events :: "uuid \<Rightarrow> uuid option \<Rightarrow> nat \<Rightarrow> domain_event list svc" where
  "observe_events project_id after_event_id limit =
     sbind (project_required project_id) (\<lambda>_.
     sbind (case after_event_id of None \<Rightarrow> sreturn None
       | Some k \<Rightarrow> sbind (sneed (ResourceNotFound (''event cursor not found: '' @ uuid_str k)) (events_get k))
           (\<lambda>e. sreturn (Some e))) (\<lambda>after.
     sbind (gets (events_list_project_after project_id after limit)) slift))"

section \<open>Streams\<close>

text \<open>What a client receives: an event, or the comment that keeps the connection open; and the exception
  that ends a stream whose query raised.\<close>

datatype stream_message = EventMessage domain_event | HeartbeatComment | StreamFailed error

text \<open>One round of the loop: the database its query reads, whether the client has gone, and whether
  \<^verbatim>\<open>heartbeat_interval_seconds\<close> have passed since the last message.\<close>

record stream_round =
  sd_db :: db
  sd_disconnected :: bool
  sd_heartbeat_due :: bool

definition advance_cursor :: "uuid option \<Rightarrow> domain_event list \<Rightarrow> uuid option" where
  "advance_cursor cursor events = (case rev events of [] \<Rightarrow> cursor | e # _ \<Rightarrow> Some (ev_id e))"

text \<open>Both streams; \<open>list_events\<close> is the query after a cursor. The stream of a connection that is still
  open after the given rounds has sent what the last query found.\<close>

fun event_stream ::
    "(uuid option \<Rightarrow> domain_event list svc) \<Rightarrow> domain_event list \<Rightarrow> uuid option \<Rightarrow> stream_round list
       \<Rightarrow> stream_message list" where
  "event_stream list_events events cursor [] = map EventMessage events"
| "event_stream list_events events cursor (r # rs) =
     map EventMessage events @
     (if sd_disconnected r then []
      else (if events = [] \<and> sd_heartbeat_due r then [HeartbeatComment] else []) @
        (case list_events (advance_cursor cursor events) (sd_db r) of
           Inl e \<Rightarrow> [StreamFailed e]
         | Inr (next_events, _) \<Rightarrow> event_stream list_events next_events (advance_cursor cursor events) rs))"

definition external_execution_event_stream ::
    "nat \<Rightarrow> domain_event list \<Rightarrow> uuid option \<Rightarrow> stream_round list \<Rightarrow> stream_message list" where
  "external_execution_event_stream limit initial_events cursor rounds =
     event_stream (\<lambda>c. external_list_events c limit) initial_events cursor rounds"

definition project_event_stream ::
    "nat \<Rightarrow> uuid \<Rightarrow> domain_event list \<Rightarrow> uuid option \<Rightarrow> stream_round list \<Rightarrow> stream_message list" where
  "project_event_stream limit project_id initial_events cursor rounds =
     event_stream (\<lambda>c. observe_events project_id c limit) initial_events cursor rounds"

definition delivered :: "stream_message list \<Rightarrow> domain_event list" where
  "delivered ms = List.map_filter (\<lambda>m. case m of EventMessage e \<Rightarrow> Some e | _ \<Rightarrow> None) ms"

lemma delivered_simps [simp]:
  "delivered [] = []" "delivered (EventMessage e # ms) = e # delivered ms"
  "delivered (HeartbeatComment # ms) = delivered ms" "delivered (StreamFailed x # ms) = delivered ms"
  "delivered (ms @ ns) = delivered ms @ delivered ns" "delivered (map EventMessage es) = es"
  by (simp_all add: delivered_def List.map_filter_def comp_def)

end
