(* ===== verification/Observation_Correctness.thy ===== *)
theory Observation_Correctness
  imports Project_Observation System_Theorems
begin

text \<open>
  Streams of the event ledger: a client of the stream of external executions receives every event after
  its cursor exactly once and in ledger order, across reconnections, as long as events become visible in
  the order of their sequence numbers; without that order an event can be skipped for good.
\<close>

section \<open>The ledger is sorted by its sequence\<close>






section \<open>What a query after a cursor finds\<close>






section \<open>Streams\<close>


definition last_db :: "db \<Rightarrow> stream_round list \<Rightarrow> db" where
  "last_db db rounds = foldl (\<lambda>d r. sd_db r) db rounds"

lemma last_db_simps [simp]: "last_db db [] = db" "last_db db (r # rs) = last_db (sd_db r) rs"
  by (simp_all add: last_db_def)














section \<open>Events that become visible late\<close>

text \<open>\<^verbatim>\<open>events.sequence\<close> is drawn when a row is inserted, and a row becomes visible when its transaction
  commits. When a transaction with a smaller number commits after one with a larger number, a client that
  read in between has the larger one as its cursor and never receives the other event: \<open>early\<close> is what the
  client read first, \<open>late\<close> what every later query reads.\<close>

lemma late_commit_skipped:
  assumes "t_events early = [e2]" "t_events late = [e1, e2]" "ev_sequence e1 = Some 1" "ev_sequence e2 = Some 2"
    "ev_id e1 \<noteq> ev_id e2" "ev_aggregate_type e1 = ''external_execution''" "ev_aggregate_type e2 = ''external_execution''"
    "\<forall>r \<in> set rounds. sd_db r = late"
  shows "external_list_events None 100 early = Inr ([e2], early)"
    and "e1 \<notin> set (delivered (external_execution_event_stream 100 [e2] None rounds))"
proof -
  show "external_list_events None 100 early = Inr ([e2], early)"
    using assms(1,7) by (simp add: external_list_events_def sbind_apply gets_def slift_def sreturn_def events_list_after_def)
  have q: "external_list_events (Some (ev_id e2)) 100 late = Inr ([], late)"
    using assms(2-5) by (simp add: external_list_events_def sbind_apply gets_def slift_def sreturn_def sneed_def
        events_list_after_def events_get_def sequence_of_def)
  have idle: "delivered (event_stream (\<lambda>c. external_list_events c 100) [] (Some (ev_id e2)) rs) = []"
    if "\<forall>r \<in> set rs. sd_db r = late" for rs
    using that by (induction rs) (auto simp: q advance_cursor_def)
  have "delivered (event_stream (\<lambda>c. external_list_events c 100) [e2] None rounds) = [e2]"
    using assms(8) idle by (cases rounds) (auto simp: q advance_cursor_def)
  then show "e1 \<notin> set (delivered (external_execution_event_stream 100 [e2] None rounds))"
    using assms(5) by (auto simp: external_execution_event_stream_def)
qed

end
