(* ===== verification/Presence_Runtime.thy ===== *)
theory Presence_Runtime
  imports Worker_Runtime Service_Composition
begin

text \<open>
  \<^verbatim>\<open>worker_presence/runtime.py\<close>: the wrapper of every worker process. It registers the worker, runs the
  worker's operation with a heartbeat beside it, and marks the worker as stopped however the operation
  ends. What the operation and other processes commit meanwhile are the \<open>OthersCommit\<close> entries of a list,
  between the heartbeats; a heartbeat that raises ends the loop with its exception.
\<close>

record presence_config =
  pc_worker_id :: string
  pc_kind :: worker_kind
  pc_hostname :: string
  pc_process_id :: int
  pc_capabilities :: "string list"
  pc_workspace_scope :: "string option"

definition presence_runtime_init :: "int \<Rightarrow> unit result" where
  "presence_runtime_init heartbeat_interval =
     (if heartbeat_interval \<le> 0
      then Inl (ValueError ''worker presence heartbeat interval must be positive'') else Inr ())"

text \<open>\<open>outcome\<close> is what the operation returns or raises when it ends.\<close>

fun presence_loop :: "uuid \<Rightarrow> meanwhile list \<Rightarrow> error + 'a \<Rightarrow> (error, 'a) process" where
  "presence_loop i [] outcome db = (outcome, db)"
| "presence_loop i (OthersCommit f # ms) outcome db = presence_loop i ms outcome (f db)"
| "presence_loop i (HeartbeatAt t # ms) outcome db =
     (case transact (presence_heartbeat i None t) db of
        (Inl e, db') \<Rightarrow> (Inl e, db')
      | (Inr _, db') \<Rightarrow> presence_loop i ms outcome db')"

text \<open>The \<^verbatim>\<open>finally\<close>: an exception of the last transaction is suppressed.\<close>

definition presence_run ::
    "presence_config \<Rightarrow> time \<Rightarrow> meanwhile list \<Rightarrow> error + 'a \<Rightarrow> time \<Rightarrow> (error, 'a) process" where
  "presence_run c started ms outcome stopped db =
     (case transact (presence_register (pc_worker_id c) (pc_kind c) (pc_hostname c) (pc_process_id c)
        (pc_capabilities c) (pc_workspace_scope c) [] started) db of
        (Inl e, db1) \<Rightarrow> (Inl e, db1)
      | (Inr w, db1) \<Rightarrow>
          (case presence_loop (wi_id w) ms outcome db1 of (r, db2) \<Rightarrow>
            (r, snd (transact (presence_stop (wi_id w) None stopped) db2))))"

lemma presence_stop_marks:
  assumes "workers_get i db = Some w"
  shows "\<exists>v. workers_get i (snd (transact (presence_stop i None t) db)) = Some v \<and> wi_status v = LStopped"
proof -
  define v where "v = wi_stop w None t"
  have i: "wi_id w = i" using assms table_get_key unfolding workers_get_def row_get_def by fast
  have v: "wi_id v = i" "wi_status v = LStopped" using i by (simp_all add: v_def wi_stop_def Let_def)
  let ?db = "db\<lparr>t_ops := x_workers_update (\<lambda>rs. table_put wi_id rs v) (t_ops db)\<rparr>"
  have "workers_save v db = Inr ((), ?db)"
    using assms v(1) by (simp add: workers_save_def row_save_Inr workers_get_def)
  then have "transact (presence_stop i None t) db = (Inr v, ?db)"
    using assms by (simp add: presence_stop_def transact_def worker_required_def sbind_apply sneed_def sreturn_def
        v_def[symmetric] Let_def)
  moreover have "workers_get i ?db = Some v"
    using assms v(1) by (simp add: workers_get_def row_get_def table_get_put)
  ultimately show ?thesis using v(2) by simp
qed

text \<open>However the operation ended, the worker that registered is marked as stopped, as long as nobody
  removed its row; and the process only takes steps of the services.\<close>

lemma presence_run_stops:
  assumes "transact (presence_register (pc_worker_id c) (pc_kind c) (pc_hostname c) (pc_process_id c)
      (pc_capabilities c) (pc_workspace_scope c) [] started) db = (Inr w, db1)"
    "presence_loop (wi_id w) ms outcome db1 = (r, db2)" "workers_get (wi_id w) db2 \<noteq> None"
  shows "\<exists>db' v. presence_run c started ms outcome stopped db = (r, db')
    \<and> workers_get (wi_id w) db' = Some v \<and> wi_status v = LStopped"
proof -
  from assms(3) obtain u where "workers_get (wi_id w) db2 = Some u" by auto
  from presence_stop_marks[OF this, of stopped] show ?thesis
    by (simp add: presence_run_def assms(1,2))
qed

lemma transact_steps: "within service_step\<^sup>*\<^sup>* m \<Longrightarrow> service_step\<^sup>*\<^sup>* db (snd (transact m db))"
  by (cases "m db") (auto simp: transact_def dest: withinD)

lemma presence_loop_steps:
  assumes "\<And>f db. OthersCommit f \<in> set ms \<Longrightarrow> service_step\<^sup>*\<^sup>* db (f db)"
  shows "service_step\<^sup>*\<^sup>* db (snd (presence_loop i ms outcome db))"
  using assms
proof (induction ms arbitrary: db)
  case (Cons m ms)
  show ?case
  proof (cases m)
    case (OthersCommit f)
    have "service_step\<^sup>*\<^sup>* db (f db)" using Cons.prems OthersCommit by simp
    moreover have "service_step\<^sup>*\<^sup>* (f db) (snd (presence_loop i ms outcome (f db)))"
      using Cons.prems by (intro Cons.IH) simp
    ultimately show ?thesis using OthersCommit by simp
  next
    case (HeartbeatAt t)
    obtain q d where h: "transact (presence_heartbeat i None t) db = (q, d)" by fastforce
    have "service_step\<^sup>*\<^sup>* db d" using transact_steps[OF composed.o_presence(2), of db i None t] h by simp
    moreover have "service_step\<^sup>*\<^sup>* d (snd (presence_loop i ms outcome d))" using Cons.prems by (intro Cons.IH) simp
    ultimately show ?thesis using HeartbeatAt h by (cases q) auto
  qed
qed simp

lemma presence_run_steps:
  assumes "\<And>f db. OthersCommit f \<in> set ms \<Longrightarrow> service_step\<^sup>*\<^sup>* db (f db)"
  shows "service_step\<^sup>*\<^sup>* db (snd (presence_run c started ms outcome stopped db))"
proof -
  let ?register = "presence_register (pc_worker_id c) (pc_kind c) (pc_hostname c) (pc_process_id c)
      (pc_capabilities c) (pc_workspace_scope c) [] started"
  obtain q d where r: "transact ?register db = (q, d)" by fastforce
  have d: "service_step\<^sup>*\<^sup>* db d" using transact_steps[OF composed.o_presence(1)] r by (metis snd_conv)
  show ?thesis
  proof (cases q)
    case (Inr w)
    obtain x e where l: "presence_loop (wi_id w) ms outcome d = (x, e)" by fastforce
    have "service_step\<^sup>*\<^sup>* d (snd (presence_loop (wi_id w) ms outcome d))"
      by (rule presence_loop_steps) (rule assms)
    then have "service_step\<^sup>*\<^sup>* d e" using l by simp
    moreover have "service_step\<^sup>*\<^sup>* e (snd (transact (presence_stop (wi_id w) None stopped) e))"
      by (rule transact_steps[OF composed.o_presence(3)])
    ultimately show ?thesis using d r l Inr by (simp add: presence_run_def)
  qed (use d r in \<open>simp add: presence_run_def\<close>)
qed

end
