(* ===== verification/Spec2Isabelle.thy ===== *)
theory Spec2Isabelle
  imports Workflow_Correctness System_Theorems Serialization_Roundtrip Operations_Theorems System_Composition
    Observation_Correctness Presence_Runtime
begin

text \<open>
  \<^bold>\<open>jb-orchestrator.\<close> The program is a control plane for agent work: clients dispatch requests for
  projects, a request becomes a run with one workflow execution, workers claim the ready tasks of
  executions under leases, and every transition is committed in one database transaction together with its
  events, artifacts, budget movements and the status of the run and the request. The sources are under
  \<^verbatim>\<open>src/src/jb_orchestrator/\<close>; file names below are relative to it.

  \<^bold>\<open>Style.\<close> A dataclass is a \<^verbatim>\<open>record\<close> with a short field prefix, an enum a \<^verbatim>\<open>datatype\<close>, and
  \<^verbatim>\<open>__post_init__\<close> a function \<open>..._init\<close> into \<open>error + 'a\<close>, whose constructors are the exception classes.
  Python integers are \<open>int\<close>, decimals are coefficient and exponent with the default context of 28 digits,
  instants are microseconds, identifiers are numbers drawn by \<^verbatim>\<open>uuid4()\<close> from a counter, JSON values
  are a datatype. An engine operation takes the optional argument \<^verbatim>\<open>at\<close> and the clock \<open>now\<close>. A service is a
  function of the database that returns its value with the database to commit, or an exception, on which the
  old database stays (\<open>transact\<close>); row locks order transactions, so sequences of calls stand for all
  schedules. Parameters stand for code outside the repository: the JSON Schema validator (\<open>check_schema\<close>,
  \<open>iter_errors\<close>), SHA-256 (\<open>sha_text\<close>, \<open>sha_json\<close>, \<open>hexdigest\<close>), the text of a float (\<open>float_repr\<close>), the
  random secret of a token, whether the database grants an advisory lock (\<open>acquired\<close>), executors, skill
  materializers and the publication and notification providers. No theorem assumes anything of them, but
  that a secret is not empty (\<^verbatim>\<open>secrets.token_urlsafe\<close>).

  \<^bold>\<open>Theories and sources.\<close>
  \<^item> \<open>Prelude\<close>, \<open>Json\<close>, \<open>Py_Decimal\<close>: results, strings and dictionaries; JSON values, strict equality and JSON
    pointers (\<^verbatim>\<open>workflows/engine.py\<close>); decimal rounding and \<^verbatim>\<open>money\<close> (\<^verbatim>\<open>budgets/models.py\<close>).
  \<^item> \<open>Catalog\<close>, \<open>Model_Routing\<close>: \<^verbatim>\<open>skills/models.py\<close>, \<^verbatim>\<open>phase_packs/models.py\<close> and \<^verbatim>\<open>validation.py\<close>,
    \<^verbatim>\<open>model_routing/models.py\<close> and \<^verbatim>\<open>router.py\<close>. The router chooses an eligible profile that no other beats,
    fails exactly when none is eligible, and ignores the order of the catalog.
  \<^item> \<open>Workflow_Models\<close>, \<open>Workflow_Graph\<close>: \<^verbatim>\<open>workflows/models.py\<close>, with the depth-first searches of the definition
    check; the check accepts exactly the well-formed graphs, stated over the closure of the edge relation.
  \<^item> \<open>Workflow_Engine\<close>, \<open>Workflow_Invariants\<close>, \<open>Workflow_Termination\<close>, \<open>Workflow_Examples\<close>,
    \<open>Workflow_Correctness\<close>: \<^verbatim>\<open>workflows/engine.py\<close>. The activation cascade is a mutual recursion that
    terminates because it uses up visits; invariants by rule induction over \<open>engine_step\<close>; a bound on the
    operations of a run by a potential; fencing of expired leases; where an execution can stall.
  \<^item> \<open>Domain\<close>: \<^verbatim>\<open>domain/\<close>. Runs and requests are instances of the locale \<open>lifecycle\<close>.
  \<^item> \<open>Budgets\<close>, \<open>Budget_Services\<close>, \<open>Budget_Ledger\<close>: \<^verbatim>\<open>budgets/models.py\<close>, \<^verbatim>\<open>application/budget_services.py\<close>.
    The ledger balances to the micro-dollar and reservations stay within the limit.
  \<^item> \<open>Store\<close>, \<open>Repositories\<close>: \<^verbatim>\<open>application/unit_of_work.py\<close> and the repositories of
    \<^verbatim>\<open>infrastructure/database/\<close>, over a record of tables; the locale \<open>keyed_table\<close> states what a table promises.
  \<^item> \<open>Tasks\<close>, \<open>Workflow_Services\<close>, \<open>Task_Dispatch\<close>, \<open>Catalog_Services\<close>, \<open>Recommendations\<close>, \<open>Request_Dispatch\<close>:
    \<^verbatim>\<open>worker/models.py\<close>, \<^verbatim>\<open>artifacts/models.py\<close>, and of \<^verbatim>\<open>application/\<close> \<^verbatim>\<open>output_contracts.py\<close>,
    \<^verbatim>\<open>execution_lifecycle.py\<close>, \<^verbatim>\<open>workflow_services.py\<close>, \<^verbatim>\<open>task_dispatch.py\<close>, \<^verbatim>\<open>services.py\<close>, the catalog
    services, \<^verbatim>\<open>workflow_compatibility.py\<close> and \<^verbatim>\<open>request_dispatch_services.py\<close>, with the policy of
    \<^verbatim>\<open>workflows/recommendations.py\<close>. The locale \<open>versioned_catalog\<close> is interpreted for the four catalogs.
  \<^item> \<open>Frame_Rules\<close>, \<open>Service_Frames\<close>: what an operation leaves alone. The locales \<open>write_frame\<close>,
    \<open>service_frame\<close>, \<open>budget_frame\<close> and \<open>table_frame\<close> lift a reflexive and transitive relation from single
    writes to every service; \<open>service_step\<close> has one rule per service.
  \<^item> \<open>Execution_Identity\<close>, \<open>System_Lifecycle\<close>, \<open>System_Invariant\<close>, \<open>System_Steps\<close>: the invariant \<open>system_ok\<close> of
    the whole database and its preservation by every service.
  \<^item> \<open>Dispatch_Once\<close>, \<open>Service_Liveness\<close>, \<open>System_Theorems\<close>: idempotent dispatch, transitions that always
    commit, and the properties of reachable databases.
  \<^item> \<open>Py_Text\<close>, \<open>Py_Json\<close>, \<open>Serialization\<close>, \<open>Serialization_Roundtrip\<close>: the text forms of UUIDs, instants, integers and
    decimals and their readers; Python's reading of JSON values; \<^verbatim>\<open>workflows/serialization.py\<close>,
    \<^verbatim>\<open>model_routing/serialization.py\<close>, \<^verbatim>\<open>phase_packs/serialization.py\<close>, \<^verbatim>\<open>skills/serialization.py\<close>. Definitions
    and snapshots come back from their documents exactly when they are well formed.
  \<^item> \<open>External_Executions\<close>, \<open>Workspace_Operations\<close>, \<open>Scm_Publications\<close>, \<open>Notifications\<close>, \<open>Worker_Presence\<close>,
    \<open>Security_Models\<close>: the \<^verbatim>\<open>models.py\<close> of the packages of these names, and \<^verbatim>\<open>worker_presence/readiness.py\<close>.
    \<open>Leased_Work\<close> is the abstract contract of a leased item (claim, finish with the token of the claim, retry,
    cancel) as a step relation; the locale \<open>leased_item\<close> is interpreted on operations, publications and
    deliveries.
  \<^item> \<open>Operation_Repositories\<close>, \<open>External_Services\<close>, \<open>Scm_Services\<close>, \<open>Notification_Services\<close>, \<open>Readiness_Services\<close>,
    \<open>Security_Services\<close>, \<open>Api_Security\<close>: their repositories, their services in \<^verbatim>\<open>application/\<close>, and the bearer
    middleware of \<^verbatim>\<open>api/main.py\<close> with \<^verbatim>\<open>api/security.py\<close>. \<open>Leased_Tables\<close>, \<open>Leased_Services\<close> and the locale
    \<open>leased_service\<close> lift the contract from one item to tables under any sequence of calls; \<open>External_Correctness\<close>,
    \<open>Delivery_Outbox\<close>, \<open>Security_Correctness\<close>, \<open>Credential_Listing\<close> and \<open>Operations_Theorems\<close> hold their properties.
  \<^item> \<open>Runtime_Process\<close>, \<open>Worker_Runtime\<close>, \<open>Delivery_Runtimes\<close>, \<open>Presence_Runtime\<close>: processes that call services
    in separate transactions while others commit in between (\<open>environment\<close>, \<open>meanwhile\<close>): \<^verbatim>\<open>worker/runtime.py\<close>,
    \<^verbatim>\<open>scm/runtime.py\<close>, \<^verbatim>\<open>notifications/runtime.py\<close>, \<^verbatim>\<open>worker_presence/runtime.py\<close> and the registries.
    \<open>Service_Composition\<close>, \<open>Worker_Correctness\<close> and \<open>System_Composition\<close> show that the services around the
    engine and all of these processes only take steps of \<open>service_step\<close>, so that what holds in every
    reachable database holds beside them, and what a worker can and cannot report. The locale \<open>ops_frame\<close>
    plays the part of \<open>write_frame\<close> for the services around the engine, whose writes are the rule \<open>ss_other\<close>.
  \<^item> \<open>Project_Observation\<close>, \<open>Observation_Correctness\<close>: \<^verbatim>\<open>application/project_observation_services.py\<close> and the
    tailing loops of \<^verbatim>\<open>api/event_streams.py\<close>; a stream delivers every event after its cursor exactly once.

  \<^bold>\<open>Bounds.\<close> No definition uses fuel. Recursions end by structure, by the unvisited nodes of a search
  (\<open>Workflow_Models\<close>), by the visits left (\<open>Workflow_Engine\<close>) or by the distance to a cap (\<open>Delivery_Runtimes\<close>).
  A loop that polls for ever is a function of the list of its rounds, for every such list.

  \<^bold>\<open>Deviations.\<close> The model compares at most one clock reading per operation. Identifiers are never
  exhausted and never collide. Texts are lists of characters up to U+00FF, except in the recommendation
  policy, which works on code points; the database orders texts by code point. Foreign keys are not
  checked, and unique constraints only where a service relies on the answer (the inserts that do nothing on a
  conflict, the run of an external execution); for the rest the theorems show that the services keep the
  corresponding facts. Transactions are serial: a reader sees events in the order of their numbers, except in
  \<open>late_commit_skipped\<close>, which shows what happens otherwise. The delay of a retry is computed on
  microseconds where the code computes on floats.

  \<^bold>\<open>Not modelled.\<close> The routes and schemas of the HTTP API, the command line, the MCP server, the adapters,
  migrations and database sessions, configuration, preflight, release and smoke checks and the entry points of the
  processes are input and output around the services above; so are the copying, downloading and hashing of
  skill directories (\<^verbatim>\<open>skills/materialization.py\<close>), the discovery of adapters through entry points, the
  loop of \<^verbatim>\<open>worker_presence/monitor.py\<close> around the modelled batch evaluation, and the text encoding of stream
  messages. The repository protocols and exception classes have no behaviour beyond what their
  implementations here have.
\<close>

end
